(* ===== verification/Prelude.thy ===== *)
theory Prelude
  imports Complex_Main "HOL-Library.List_Lexorder" "HOL-Library.Char_ord" "HOL-Library.Multiset" "HOL-Library.Word"
begin

text \<open>
  Shared vocabulary of the development: the collections of simplification and frame rules, the
  parts of the Rust standard library on strings that the program uses, and generic lemmas on
  lists.

  A Rust \<open>str\<close> is modelled as the list of its UTF-8 bytes (\<open>string\<close> is \<open>char list\<close>, a
  \<open>char\<close> is a byte), so that \<open>len\<close>, \<open>as_bytes\<close> and the byte-wise \<open>Ord\<close> of \<open>String\<close> are
  \<open>length\<close>, the list itself and the lexicographic order of \<open>List_Lexorder\<close>. The functions
  whose behaviour depends on Unicode tables (\<open>trim\<close>, \<open>to_lowercase\<close>) are written out on the
  ASCII range.
\<close>

named_theorems kernel_defs \<open>definitions of the kernel monad, unfolded to run a program\<close>
named_theorems inv_rules \<open>inversion rules: what a successful run tells about its parts\<close>
named_theorems frame_rules \<open>composition rules for relations kept by kernel programs\<close>

section \<open>Strings\<close>

text \<open>The ASCII white space characters that \<open>char::is_whitespace\<close> accepts.\<close>

definition is_ws :: "char \<Rightarrow> bool" where
  "is_ws c \<longleftrightarrow> c \<in> {CHR 0x09, CHR 0x0A, CHR 0x0B, CHR 0x0C, CHR 0x0D, CHR '' ''}"

definition trim :: "string \<Rightarrow> string" where
  "trim s = rev (dropWhile is_ws (rev (dropWhile is_ws s)))"

definition is_lower :: "char \<Rightarrow> bool" where
  "is_lower c \<longleftrightarrow> CHR ''a'' \<le> c \<and> c \<le> CHR ''z''"

definition is_upper :: "char \<Rightarrow> bool" where
  "is_upper c \<longleftrightarrow> CHR ''A'' \<le> c \<and> c \<le> CHR ''Z''"

definition is_digit :: "char \<Rightarrow> bool" where
  "is_digit c \<longleftrightarrow> CHR ''0'' \<le> c \<and> c \<le> CHR ''9''"

definition lower_char :: "char \<Rightarrow> char" where
  "lower_char c = (if is_upper c then char_of ((of_char c :: nat) + 32) else c)"

definition to_lowercase :: "string \<Rightarrow> string" where
  "to_lowercase s = map lower_char s"

text \<open>\<open>str::starts_with\<close>, \<open>strip_prefix\<close> and \<open>strip_suffix\<close>.\<close>

fun strip_prefix :: "string \<Rightarrow> string \<Rightarrow> string option" where
  "strip_prefix [] s = Some s"
| "strip_prefix (p # ps) [] = None"
| "strip_prefix (p # ps) (c # cs) = (if p = c then strip_prefix ps cs else None)"

definition starts_with :: "string \<Rightarrow> string \<Rightarrow> bool" where
  "starts_with p s \<longleftrightarrow> strip_prefix p s \<noteq> None"

definition strip_suffix :: "string \<Rightarrow> string \<Rightarrow> string option" where
  "strip_suffix p s = map_option rev (strip_prefix (rev p) (rev s))"

text \<open>\<open>str::contains\<close> with a string pattern.\<close>

fun str_contains :: "string \<Rightarrow> string \<Rightarrow> bool" where
  "str_contains [] sub = (sub = [])"
| "str_contains (c # cs) sub = (starts_with sub (c # cs) \<or> str_contains cs sub)"

text \<open>\<open>slice::join\<close>.\<close>

fun join :: "string \<Rightarrow> string list \<Rightarrow> string" where
  "join sep [] = []"
| "join sep [x] = x"
| "join sep (x # y # zs) = x @ sep @ join sep (y # zs)"

text \<open>\<open>format!("'{s}'")\<close>.\<close>

definition quoted :: "string \<Rightarrow> string" where
  "quoted s = [CHR 0x27] @ s @ [CHR 0x27]"

text \<open>Decimal rendering of a natural number (\<open>Display\<close> of the unsigned integers).\<close>

fun show_nat :: "nat \<Rightarrow> string" where
  "show_nat n = (if n < 10 then [char_of (48 + n)] else show_nat (n div 10) @ [char_of (48 + n mod 10)])"

declare show_nat.simps [simp del]

lemma strip_prefix_Some [simp]: "strip_prefix p s = Some r \<longleftrightarrow> s = p @ r"
  by (induction p s rule: strip_prefix.induct) auto

lemma starts_with_iff: "starts_with p s \<longleftrightarrow> (\<exists>r. s = p @ r)"
  by (auto simp: starts_with_def)

lemma starts_with_append [simp]: "starts_with p (p @ r)"
  by (simp add: starts_with_iff)

lemma strip_suffix_Some: "strip_suffix p s = Some r \<longleftrightarrow> s = r @ p"
proof -
  have "strip_suffix p s = Some r \<longleftrightarrow> (\<exists>z. rev s = rev p @ z \<and> rev z = r)"
    by (auto simp: strip_suffix_def)
  also have "\<dots> \<longleftrightarrow> s = r @ p"
    by (metis rev_append rev_rev_ident)
  finally show ?thesis .
qed

lemma strip_suffix_None: "strip_suffix p s = None \<longleftrightarrow> (\<forall>r. s \<noteq> r @ p)"
  by (metis not_None_eq strip_suffix_Some)

lemma str_contains_iff: "str_contains s sub \<longleftrightarrow> (\<exists>pre post. s = pre @ sub @ post)"
proof (induction s)
  case Nil
  show ?case by auto
next
  case (Cons c cs)
  have "(\<exists>pre post. c # cs = pre @ sub @ post) \<longleftrightarrow>
        (\<exists>r. c # cs = sub @ r) \<or> (\<exists>pre post. cs = pre @ sub @ post)"
    by (metis append_Cons append_Nil neq_Nil_conv list.inject)
  with Cons show ?case
    by (simp add: starts_with_iff)
qed

lemma str_contains_empty [simp]: "str_contains s []"
  by (cases s) (simp_all add: starts_with_def)

section \<open>Lists\<close>

lemma find_Some_in: "find P xs = Some x \<Longrightarrow> x \<in> set xs \<and> P x"
  by (auto simp: find_Some_iff)

lemma find_None_all: "find P xs = None \<longleftrightarrow> (\<forall>x\<in>set xs. \<not> P x)"
  by (auto simp: find_None_iff)

lemma find_append: "find P (xs @ ys) = (case find P xs of Some x \<Rightarrow> Some x | None \<Rightarrow> find P ys)"
  by (induction xs) auto

lemma find_map_update:
  assumes "\<And>x. P (f x) = P x"
  shows "find P (map f xs) = map_option f (find P xs)"
  using assms by (induction xs) auto

lemma filter_map_keep:
  assumes "\<And>x. Q x \<Longrightarrow> \<not> P x" and "\<And>x. P (f x) = P x"
  shows "filter Q (map (\<lambda>x. if P x then f x else x) xs) = filter Q xs"
  using assms by (induction xs) auto

text \<open>Update of the rows of a table that satisfy a condition (\<open>UPDATE t SET .. WHERE ..\<close>).\<close>

definition upd_where :: "('a \<Rightarrow> bool) \<Rightarrow> ('a \<Rightarrow> 'a) \<Rightarrow> 'a list \<Rightarrow> 'a list" where
  "upd_where P f xs = map (\<lambda>x. if P x then f x else x) xs"

lemma upd_where_Nil [simp]: "upd_where P f [] = []"
  by (simp add: upd_where_def)

lemma upd_where_Cons [simp]:
  "upd_where P f (x # xs) = (if P x then f x else x) # upd_where P f xs"
  by (simp add: upd_where_def)

lemma length_upd_where [simp]: "length (upd_where P f xs) = length xs"
  by (simp add: upd_where_def)

lemma upd_where_append [simp]: "upd_where P f (xs @ ys) = upd_where P f xs @ upd_where P f ys"
  by (simp add: upd_where_def)

lemma set_upd_where: "set (upd_where P f xs) = {x \<in> set xs. \<not> P x} \<union> f ` {x \<in> set xs. P x}"
  by (auto simp: upd_where_def)

lemma upd_where_none: "(\<And>x. x \<in> set xs \<Longrightarrow> \<not> P x) \<Longrightarrow> upd_where P f xs = xs"
  by (induction xs) auto

lemma filter_upd_where:
  assumes "\<And>x. P x \<Longrightarrow> \<not> Q x" and "\<And>x. P x \<Longrightarrow> \<not> Q (f x)"
  shows "filter Q (upd_where P f xs) = filter Q xs"
  using assms by (induction xs) auto

lemma find_upd_where:
  assumes "\<And>x. P x \<Longrightarrow> P (f x)"
  shows "find P (upd_where P f xs) = map_option f (find P xs)"
  using assms by (induction xs) auto

lemma find_upd_where_other:
  "(\<And>x. P x \<Longrightarrow> \<not> Q x) \<Longrightarrow> (\<And>x. P x \<Longrightarrow> \<not> Q (f x)) \<Longrightarrow> find Q (upd_where P f xs) = find Q xs"
  by (induction xs) (auto simp: upd_where_def)

lemma map_upd_where:
  assumes "\<And>x. P x \<Longrightarrow> g (f x) = g x"
  shows "map g (upd_where P f xs) = map g xs"
  using assms by (induction xs) auto

text \<open>\<open>ORDER BY key DESC\<close>; rows with equal keys stay in table order.\<close>

definition order_desc :: "('a \<Rightarrow> 'k::linorder) \<Rightarrow> 'a list \<Rightarrow> 'a list" where
  "order_desc key xs = rev (sort_key key (rev xs))"

lemma set_order_desc [simp]: "set (order_desc key xs) = set xs"
  by (simp add: order_desc_def)

lemma length_order_desc [simp]: "length (order_desc key xs) = length xs"
  by (simp add: order_desc_def)

lemma sorted_order_desc: "sorted_wrt (\<ge>) (map key (order_desc key xs))"
  using sorted_sort_key [of key "rev xs"]
  by (simp add: order_desc_def sorted_wrt_rev flip: rev_map)

text \<open>
  \<open>slice::sort_by\<close>, stable: each element moves left past the elements it is less than. The
  result is the only stable sorted permutation when the comparison is a total preorder; for other
  comparisons the standard library leaves the order open.
\<close>

datatype ordering = Less | Equal | Greater

definition insert_tail :: "('a \<Rightarrow> 'a \<Rightarrow> ordering) \<Rightarrow> 'a list \<Rightarrow> 'a \<Rightarrow> 'a list" where
  "insert_tail cmp ys x =
     (let shifted = takeWhile (\<lambda>y. cmp x y = Less) (rev ys)
      in rev (drop (length shifted) (rev ys)) @ x # rev shifted)"

definition sort_by :: "('a \<Rightarrow> 'a \<Rightarrow> ordering) \<Rightarrow> 'a list \<Rightarrow> 'a list" where
  "sort_by cmp xs = foldl (insert_tail cmp) [] xs"

definition cmp_of :: "'a::linorder \<Rightarrow> 'a \<Rightarrow> ordering" where
  "cmp_of a b = (if a < b then Less else if a = b then Equal else Greater)"

lemma set_insert_tail [simp]: "set (insert_tail cmp ys x) = insert x (set ys)"
proof -
  let ?P = "\<lambda>y. cmp x y = Less"
  have "set (insert_tail cmp ys x) = insert x (set (takeWhile ?P (rev ys)) \<union> set (dropWhile ?P (rev ys)))"
    by (auto simp: insert_tail_def Let_def dropWhile_eq_drop)
  also have "\<dots> = insert x (set (rev ys))"
    by (metis set_append takeWhile_dropWhile_id)
  finally show ?thesis by simp
qed

lemma length_insert_tail [simp]: "length (insert_tail cmp ys x) = Suc (length ys)"
proof -
  have "length (takeWhile (\<lambda>y. cmp x y = Less) (rev ys)) \<le> length ys"
    by (metis length_rev length_takeWhile_le)
  then show ?thesis by (simp add: insert_tail_def Let_def)
qed

lemma sort_by_acc: "set (foldl (insert_tail cmp) acc xs) = set acc \<union> set xs \<and>
    length (foldl (insert_tail cmp) acc xs) = length acc + length xs"
  by (induction xs arbitrary: acc) auto

lemma set_sort_by [simp]: "set (sort_by cmp xs) = set xs"
  and length_sort_by [simp]: "length (sort_by cmp xs) = length xs"
  by (simp_all add: sort_by_def sort_by_acc)

lemma mset_insert_tail: "mset (insert_tail cmp ys x) = add_mset x (mset ys)"
proof -
  let ?P = "\<lambda>y. cmp x y = Less"
  have "mset (insert_tail cmp ys x) = add_mset x (mset (takeWhile ?P (rev ys) @ dropWhile ?P (rev ys)))"
    by (simp add: insert_tail_def Let_def dropWhile_eq_drop)
  then show ?thesis by simp
qed

lemma mset_sort_by [simp]: "mset (sort_by cmp xs) = mset xs"
proof -
  have "mset (foldl (insert_tail cmp) acc xs) = mset acc + mset xs" for acc
    by (induction xs arbitrary: acc) (simp_all add: mset_insert_tail)
  then show ?thesis by (simp add: sort_by_def)
qed

text \<open>A comparison that agrees with a total preorder sorts by it.\<close>

locale comparison =
  fixes cmp :: "'a \<Rightarrow> 'a \<Rightarrow> ordering" and R :: "'a \<Rightarrow> 'a \<Rightarrow> bool"
  assumes R_total: "R a b \<or> R b a" and R_trans: "R a b \<Longrightarrow> R b c \<Longrightarrow> R a c"
    and cmp_Less: "cmp a b = Less \<longleftrightarrow> \<not> R b a"
begin

lemma insert_keeps_sorted:
  assumes "sorted_wrt R ys"
  shows "sorted_wrt R (insert_tail cmp ys x)"
proof -
  let ?P = "\<lambda>y. cmp x y = Less"
  let ?pre = "rev (dropWhile ?P (rev ys))" and ?suf = "rev (takeWhile ?P (rev ys))"
  have it: "insert_tail cmp ys x = ?pre @ x # ?suf"
    by (simp add: insert_tail_def Let_def dropWhile_eq_drop)
  have "?pre @ ?suf = ys" by (metis rev_append rev_rev_ident takeWhile_dropWhile_id)
  with assms have "sorted_wrt R (?pre @ ?suf)" by (simp only:)
  then have s: "sorted_wrt R ?pre" "sorted_wrt R ?suf" "\<forall>a\<in>set ?pre. \<forall>b\<in>set ?suf. R a b"
    unfolding sorted_wrt_append by blast+
  have after: "R x b" if "b \<in> set ?suf" for b
    using that set_takeWhileD [of b ?P "rev ys"] R_total [of x b] cmp_Less [of x b] by auto
  have prior: "R a x" if "a \<in> set ?pre" for a
  proof (cases "dropWhile ?P (rev ys)")
    case Nil
    have none: "set ?pre = {}" unfolding set_rev Nil by simp
    from that show ?thesis unfolding none by (rule emptyE)
  next
    case (Cons z zs)
    then have "cmp x z \<noteq> Less" by (simp add: dropWhile_eq_Cons_conv)
    then have "R z x" using cmp_Less by blast
    moreover have "a = z \<or> R a z"
      using that s(1) unfolding Cons by (auto simp: sorted_wrt_append)
    ultimately show ?thesis using R_trans by blast
  qed
  show ?thesis
    unfolding it sorted_wrt_append using s after prior by (simp del: set_rev)
qed

lemma sort_by_sorted: "sorted_wrt R (sort_by cmp xs)"
proof -
  have "sorted_wrt R acc \<Longrightarrow> sorted_wrt R (foldl (insert_tail cmp) acc xs)" for acc
    by (induction xs arbitrary: acc) (simp_all add: insert_keeps_sorted)
  then show ?thesis by (simp add: sort_by_def)
qed

end

text \<open>\<open>&xs[start..end]\<close>; None is the panic on a range that is out of bounds or reversed.\<close>

definition slice_range :: "nat \<Rightarrow> nat \<Rightarrow> 'a list \<Rightarrow> 'a list option" where
  "slice_range start end' xs =
     (if start \<le> end' \<and> end' \<le> length xs then Some (take (end' - start) (drop start xs)) else None)"

lemma set_take_drop: "x \<in> set (take n (drop m xs)) \<Longrightarrow> x \<in> set xs"
  by (meson in_set_dropD in_set_takeD)

section \<open>Signed 64-bit words\<close>

lemma mod_shift: "0 \<le> k + j * m \<Longrightarrow> k + j * m < m \<Longrightarrow> k mod m = k + j * (m::int)"
  by (metis mod_mult_self1 mod_pos_pos_trivial)

lemma sint_bounds64: "- (2 ^ 63) \<le> sint (w :: 64 word)" "sint (w :: 64 word) < 2 ^ 63"
  using sint_greater_eq [of w] sint_less [of w] by simp_all

lemma sint_plus64: "sint (a + b :: 64 word) =
    (if sint a + sint b < - (2 ^ 63) then sint a + sint b + 2 ^ 64
     else if sint a + sint b < 2 ^ 63 then sint a + sint b else sint a + sint b - 2 ^ 64)"
proof -
  have "sint (a + b) = signed_take_bit 63 (sint a + sint b)"
    by (simp add: sint_word_ariths)
  then have 1: "sint (a + b) = (sint a + sint b + 2 ^ 63) mod 2 ^ 64 - 2 ^ 63"
    by (simp add: signed_take_bit_eq_take_bit_shift take_bit_eq_mod)
  show ?thesis
    using sint_bounds64 [of a] sint_bounds64 [of b]
      mod_shift [of "sint a + sint b + 2 ^ 63" 0 "2 ^ 64"]
      mod_shift [of "sint a + sint b + 2 ^ 63" 1 "2 ^ 64"]
      mod_shift [of "sint a + sint b + 2 ^ 63" "- 1" "2 ^ 64"]
    unfolding 1 by simp
qed

lemma unat_sint64: "unat (w :: 64 word) = nat (if 0 \<le> sint w then sint w else sint w + 2 ^ 64)"
proof -
  have "uint w = sint w mod 2 ^ 64"
    by (simp add: uint_sint take_bit_eq_mod)
  also have "\<dots> = (if 0 \<le> sint w then sint w else sint w + 2 ^ 64)"
    using sint_bounds64 [of w] mod_shift [of "sint w" 0 "2 ^ 64"] mod_shift [of "sint w" 1 "2 ^ 64"]
    by simp
  finally have "nat (uint w) = nat (if 0 \<le> sint w then sint w else sint w + 2 ^ 64)"
    by (rule arg_cong)
  then show ?thesis by simp
qed

lemma sint_of_nat64: "n < 2 ^ 63 \<Longrightarrow> sint (of_nat n :: 64 word) = int n"
proof -
  assume "n < 2 ^ 63"
  moreover have "sint (of_nat n :: 64 word) = signed_take_bit 63 (int n)"
    by (simp add: signed_of_nat)
  ultimately show ?thesis
    using mod_shift [of "int n + 2 ^ 63" 0 "2 ^ 64"]
    by (simp add: signed_take_bit_eq_take_bit_shift take_bit_eq_mod)
qed

end
