(* ===== verification/Json.thy ===== *)
theory Json
  imports Prelude "HOL-Library.Word"
begin

text \<open>
  The JSON values that records, patches and conditions carry (\<open>serde_json::Value\<close>): the data
  shape and the accessors the program calls on it. A number is one of the three representations
  \<open>serde_json::Number\<close> has: a \<open>u64\<close>, a negative \<open>i64\<close>, or a finite \<open>f64\<close> (JSON admits no
  infinity and no NaN), whose value is a rational. Objects are \<open>Map<String, Value>\<close>, an ordered
  map (\<open>BTreeMap\<close>, the crate's \<open>preserve_order\<close> feature is off): an association list with
  strictly ascending keys.
\<close>

section \<open>Values\<close>

datatype jnum = PosInt "64 word" | NegInt "64 word" | JFloat rat

datatype json =
    JNull
  | JBool bool
  | JNumber jnum
  | JString string
  | JArray "json list"
  | JObject "(string \<times> json) list"

type_synonym jmap = "(string \<times> json) list"

fun is_null :: "json \<Rightarrow> bool" where
  "is_null JNull = True"
| "is_null _ = False"

fun is_string :: "json \<Rightarrow> bool" where
  "is_string (JString _) = True"
| "is_string _ = False"

fun is_boolean :: "json \<Rightarrow> bool" where
  "is_boolean (JBool _) = True"
| "is_boolean _ = False"

fun is_number :: "json \<Rightarrow> bool" where
  "is_number (JNumber _) = True"
| "is_number _ = False"

text \<open>\<open>is_i64\<close>: the number is stored as an integer in the range of \<open>i64\<close>.\<close>

fun is_i64 :: "json \<Rightarrow> bool" where
  "is_i64 (JNumber (PosInt n)) = (unat n < 2 ^ 63)"
| "is_i64 (JNumber (NegInt _)) = True"
| "is_i64 _ = False"

fun is_u64 :: "json \<Rightarrow> bool" where
  "is_u64 (JNumber (PosInt _)) = True"
| "is_u64 _ = False"

fun as_str :: "json \<Rightarrow> string option" where
  "as_str (JString s) = Some s"
| "as_str _ = None"

fun as_array :: "json \<Rightarrow> json list option" where
  "as_array (JArray xs) = Some xs"
| "as_array _ = None"

fun as_object :: "json \<Rightarrow> jmap option" where
  "as_object (JObject m) = Some m"
| "as_object _ = None"

text \<open>\<open>serde_json\<close> conversions of an optional string and of a length.\<close>

definition jopt :: "string option \<Rightarrow> json" where
  "jopt v = (case v of None \<Rightarrow> JNull | Some s \<Rightarrow> JString s)"

definition jnat :: "nat \<Rightarrow> json" where
  "jnat n = JNumber (PosInt (of_nat n))"

section \<open>Conversion to f64\<close>

text \<open>
  \<open>n as f64\<close> for an unsigned 64-bit integer: exact below \<open>2 ^ 53\<close>, otherwise the 53 leading
  bits are kept and the rest is rounded to nearest, ties to even.
\<close>

fun f64_shift :: "nat \<Rightarrow> nat" where
  "f64_shift n = (if n < 2 ^ 53 then 0 else Suc (f64_shift (n div 2)))"

declare f64_shift.simps [simp del]

definition round_f64 :: "nat \<Rightarrow> nat" where
  "round_f64 n =
     (let k = f64_shift n; q = n div 2 ^ k; r = n mod 2 ^ k
      in if k = 0 then n
         else if 2 * r > 2 ^ k \<or> (2 * r = 2 ^ k \<and> odd q) then (q + 1) * 2 ^ k
         else q * 2 ^ k)"

fun as_f64_num :: "jnum \<Rightarrow> rat" where
  "as_f64_num (PosInt n) = of_nat (round_f64 (unat n))"
| "as_f64_num (NegInt n) = - of_nat (round_f64 (nat (- sint n)))"
| "as_f64_num (JFloat q) = q"

fun as_f64 :: "json \<Rightarrow> rat option" where
  "as_f64 (JNumber n) = Some (as_f64_num n)"
| "as_f64 _ = None"

lemma round_f64_exact: "n < 2 ^ 53 \<Longrightarrow> round_f64 n = n"
  by (simp add: round_f64_def f64_shift.simps [of n] Let_def)

section \<open>Ordered maps\<close>

definition jget :: "('k \<times> 'v) list \<Rightarrow> 'k \<Rightarrow> 'v option" where
  "jget m k = map_of m k"

fun jinsert :: "'k::linorder \<Rightarrow> 'v \<Rightarrow> ('k \<times> 'v) list \<Rightarrow> ('k \<times> 'v) list" where
  "jinsert k v [] = [(k, v)]"
| "jinsert k v ((k', v') # m) =
     (if k < k' then (k, v) # (k', v') # m
      else if k = k' then (k, v) # m
      else (k', v') # jinsert k v m)"

text \<open>The \<open>json!({..})\<close> macro: entries inserted in the order they are written.\<close>

definition jobj :: "(string \<times> json) list \<Rightarrow> json" where
  "jobj kvs = JObject (foldl (\<lambda>m (k, v). jinsert k v m) [] kvs)"

definition jremove :: "'k \<Rightarrow> ('k \<times> 'v) list \<Rightarrow> ('k \<times> 'v) list" where
  "jremove k m = filter (\<lambda>(k', _). k' \<noteq> k) m"

definition jwf :: "('k::linorder \<times> 'v) list \<Rightarrow> bool" where
  "jwf m \<longleftrightarrow> sorted_wrt (<) (map fst m)"

text \<open>\<open>iter().filter(..).collect()\<close> on the keys, and the list of values.\<close>

definition jrestrict :: "('k \<Rightarrow> bool) \<Rightarrow> ('k \<times> 'v) list \<Rightarrow> ('k \<times> 'v) list" where
  "jrestrict P m = filter (\<lambda>(k, _). P k) m"

lemma jwf_Nil [simp]: "jwf []"
  by (simp add: jwf_def)

lemma jwf_distinct: "jwf m \<Longrightarrow> distinct (map fst m)"
  by (simp add: jwf_def strict_sorted_iff)

lemma set_jinsert_keys [simp]: "fst ` set (jinsert k v m) = insert k (fst ` set m)"
  by (induction k v m rule: jinsert.induct) auto

lemma jget_jinsert [simp]: "jget (jinsert k v m) = (jget m)(k \<mapsto> v)"
  by (induction m) (auto simp: jget_def fun_eq_iff)

lemma jwf_jinsert [simp]: "jwf m \<Longrightarrow> jwf (jinsert k v m)"
proof (induction m)
  case Nil
  show ?case by (simp add: jwf_def)
next
  case (Cons a m)
  obtain k' v' where a: "a = (k', v')" by force
  from Cons.prems a have wf: "jwf m" and lt: "\<forall>x\<in>fst ` set m. k' < x"
    by (auto simp: jwf_def)
  have "\<forall>x\<in>fst ` set (jinsert k v m). k' < x" if "k' < k"
    using lt that by simp
  with Cons.IH [OF wf] Cons.prems a show ?case
    by (auto simp: jwf_def)
qed

lemma jget_jremove [simp]: "jget (jremove k m) = (jget m)(k := None)"
  by (induction m) (auto simp: jget_def jremove_def fun_eq_iff)

lemma jwf_filter: "jwf m \<Longrightarrow> jwf (filter P m)"
  by (induction m) (auto simp: jwf_def)

lemma jwf_jremove [simp]: "jwf m \<Longrightarrow> jwf (jremove k m)"
  by (simp add: jremove_def jwf_filter)

lemma jwf_jrestrict [simp]: "jwf m \<Longrightarrow> jwf (jrestrict P m)"
  by (simp add: jrestrict_def jwf_filter)

lemma jget_jrestrict [simp]: "jget (jrestrict P m) k = (if P k then jget m k else None)"
  by (induction m) (auto simp: jget_def jrestrict_def)

lemma jget_Some_set: "jget m k = Some v \<Longrightarrow> (k, v) \<in> set m"
  by (simp add: jget_def map_of_SomeD)

lemma jget_in_keys: "(\<exists>v. jget m k = Some v) \<longleftrightarrow> k \<in> fst ` set m"
  by (metis jget_def map_of_eq_None_iff not_None_eq)

lemma jwf_jget: "jwf m \<Longrightarrow> (k, v) \<in> set m \<Longrightarrow> jget m k = Some v"
  by (simp add: jget_def jwf_distinct)

text \<open>Two maps in key order with the same lookups are the same list: \<open>jwf\<close> lists are canonical.\<close>

lemma jwf_ext:
  assumes "jwf m" "jwf m'" "jget m = jget m'"
  shows "m = m'"
proof -
  have canon: "n = map (\<lambda>k. (k, the (jget n k))) (map fst n)" if "jwf n" for n :: "('a \<times> 'b) list"
  proof -
    have "map (\<lambda>p. (fst p, the (jget n (fst p)))) n = n"
      using that by (intro map_idI) (auto simp: jwf_jget)
    then show ?thesis by (simp add: comp_def)
  qed
  have "fst ` set m = fst ` set m'"
    using assms(3) by (metis jget_in_keys set_eqI)
  with assms(1,2) have "map fst m = map fst m'"
    by (intro strict_sorted_equal) (auto simp: jwf_def)
  with canon [OF assms(1)] canon [OF assms(2)] assms(3) show ?thesis
    by simp
qed

end
