(* ===== verification/Contracts.thy ===== *)
theory Contracts
  imports Json
begin

text \<open>
  The shared contracts of \<open>crates/contracts\<close>: errors, the permission model, the
  authentication context, feature flags, pages, workflow definitions and audit events. All of it
  is data; the few methods on it are translated next to their type. The data that describes
  fields, object types and records is in the theory \<open>Schema\<close>.
\<close>

section \<open>Errors (error.rs)\<close>

datatype error_code =
    Unauthorized | Forbidden | NotFound | Validation | Conflict | FailedPrecondition
  | RateLimited | FeatureDisabled | NotImplemented | Internal

fun http_status :: "error_code \<Rightarrow> 16 word" where
  "http_status Unauthorized = 401"
| "http_status Forbidden = 403"
| "http_status NotFound = 404"
| "http_status Validation = 422"
| "http_status Conflict = 409"
| "http_status FailedPrecondition = 412"
| "http_status RateLimited = 429"
| "http_status FeatureDisabled = 403"
| "http_status NotImplemented = 501"
| "http_status Internal = 500"

record api_error =
  e_code :: error_code
  e_message :: string
  e_details :: "json option"
  e_request_id :: "string option"

definition new_error :: "error_code \<Rightarrow> string \<Rightarrow> api_error" where
  "new_error c msg = \<lparr>e_code = c, e_message = msg, e_details = None, e_request_id = None\<rparr>"

definition unauthorized :: "string \<Rightarrow> api_error" where
  "unauthorized = new_error Unauthorized"

definition forbidden :: "string \<Rightarrow> api_error" where
  "forbidden = new_error Forbidden"

definition not_found :: "string \<Rightarrow> api_error" where
  "not_found = new_error NotFound"

definition validation :: "string \<Rightarrow> api_error" where
  "validation = new_error Validation"

definition conflict :: "string \<Rightarrow> api_error" where
  "conflict = new_error Conflict"

definition failed_precondition :: "string \<Rightarrow> api_error" where
  "failed_precondition = new_error FailedPrecondition"

definition feature_disabled :: "string \<Rightarrow> api_error" where
  "feature_disabled = new_error FeatureDisabled"

definition internal :: "string \<Rightarrow> api_error" where
  "internal = new_error Internal"

lemmas error_defs = unauthorized_def forbidden_def not_found_def validation_def conflict_def
  failed_precondition_def feature_disabled_def internal_def new_error_def

lemma e_code_simps [simp]:
  "e_code (unauthorized m) = Unauthorized" "e_code (forbidden m) = Forbidden"
  "e_code (not_found m) = NotFound" "e_code (validation m) = Validation"
  "e_code (conflict m) = Conflict" "e_code (failed_precondition m) = FailedPrecondition"
  "e_code (feature_disabled m) = FeatureDisabled" "e_code (internal m) = Internal"
  "e_code (new_error c m) = c"
  by (simp_all add: error_defs)

section \<open>The permission model (permission.rs)\<close>

datatype action =
    Create | Read | Update | Archive | Restore | Relate | Transition | Approve | Export | Search
  | Configure | Execute | DryRun | Manage

fun action_str :: "action \<Rightarrow> string" where
  "action_str Create = ''create''"
| "action_str Read = ''read''"
| "action_str Update = ''update''"
| "action_str Archive = ''archive''"
| "action_str Restore = ''restore''"
| "action_str Relate = ''relate''"
| "action_str Transition = ''transition''"
| "action_str Approve = ''approve''"
| "action_str Export = ''export''"
| "action_str Search = ''search''"
| "action_str Configure = ''configure''"
| "action_str Execute = ''execute''"
| "action_str DryRun = ''dry_run''"
| "action_str Manage = ''manage''"

datatype scope = Platform | Tenant | Org | Workspace | Own

datatype field_rule_mode = Allow | Deny

record field_rule =
  fr_mode :: field_rule_mode
  fr_fields :: "string list"

definition permits :: "field_rule \<Rightarrow> string \<Rightarrow> bool" where
  "permits fr field =
     (case fr_mode fr of
        Allow \<Rightarrow> list_ex (\<lambda>f. f = field) (fr_fields fr)
      | Deny \<Rightarrow> \<not> list_ex (\<lambda>f. f = field) (fr_fields fr))"

datatype condition_op = Eq | Ne | In | Gt | Lt | Gte | Lte | Contains

record condition =
  c_field :: string
  c_op :: condition_op
  c_value :: json

record permission_grant =
  g_action :: action
  g_resource :: string
  g_scope :: scope
  g_fields :: "field_rule option"
  g_conditions :: "condition list"

definition new_grant :: "action \<Rightarrow> string \<Rightarrow> scope \<Rightarrow> permission_grant" where
  "new_grant a r sc =
     \<lparr>g_action = a, g_resource = r, g_scope = sc, g_fields = None, g_conditions = []\<rparr>"

text \<open>\<open>PermissionGrant::matches_resource\<close>: exact match, \<open>*\<close>, or a prefix followed by \<open>*\<close>.\<close>

definition matches_resource :: "permission_grant \<Rightarrow> string \<Rightarrow> bool" where
  "matches_resource g resource =
     (if g_resource g = ''*'' \<or> g_resource g = resource then True
      else case strip_suffix ''*'' (g_resource g) of
             Some prefix \<Rightarrow> starts_with prefix resource
           | None \<Rightarrow> False)"

record role_t =
  role_id :: string
  role_key :: string
  role_name :: string
  role_description :: "string option"
  role_system :: bool
  role_grants :: "permission_grant list"

section \<open>The authentication context (auth.rs)\<close>

datatype actor_type = User | ServiceAccount | Agent | System

datatype source = SrcApi | SrcAdminUi | SrcAgent | SrcSystem | SrcSeed

record auth_context =
  actor_type :: actor_type
  actor_id :: string
  tenant_id :: string
  org_id :: string
  workspace_id :: "string option"
  role_keys :: "string list"
  is_platform_admin :: bool
  request_id :: string
  source :: source
  agent_safety_level :: "8 word option"

definition is_agent :: "auth_context \<Rightarrow> bool" where
  "is_agent ctx \<longleftrightarrow> actor_type ctx = Agent"

definition is_system :: "auth_context \<Rightarrow> bool" where
  "is_system ctx \<longleftrightarrow> actor_type ctx = System"

text \<open>\<open>AuthContext::system\<close>; the request id it draws is an argument.\<close>

definition system_ctx :: "string \<Rightarrow> string \<Rightarrow> string \<Rightarrow> auth_context" where
  "system_ctx rid t o' =
     \<lparr>actor_type = System, actor_id = ''system'', tenant_id = t, org_id = o', workspace_id = None,
      role_keys = [''system''], is_platform_admin = True, request_id = rid, source = SrcSystem,
      agent_safety_level = None\<rparr>"

text \<open>The test \<open>ctx.is_system() || ctx.is_platform_admin\<close> that several services repeat.\<close>

abbreviation trusted :: "auth_context \<Rightarrow> bool" where
  "trusted ctx \<equiv> is_system ctx \<or> is_platform_admin ctx"

section \<open>Feature flags (flags.rs)\<close>

record feature_flags =
  enable_ai_agents :: bool
  enable_semantic_search :: bool
  enable_datafusion_reports :: bool
  enable_triton_accel :: bool
  enable_webgpu_ui :: bool
  enable_burn_runtime :: bool
  enable_cloud_control_plane :: bool
  enable_agent_action_execution :: bool
  enable_advanced_permissions :: bool
  enable_usage_metering :: bool
  enable_approval_separation_of_duties :: bool

definition default_flags :: feature_flags where
  "default_flags =
     \<lparr>enable_ai_agents = True, enable_semantic_search = False, enable_datafusion_reports = False,
      enable_triton_accel = False, enable_webgpu_ui = False, enable_burn_runtime = False,
      enable_cloud_control_plane = False, enable_agent_action_execution = True,
      enable_advanced_permissions = True, enable_usage_metering = True,
      enable_approval_separation_of_duties = False\<rparr>"

definition all_off :: feature_flags where
  "all_off =
     \<lparr>enable_ai_agents = False, enable_semantic_search = False, enable_datafusion_reports = False,
      enable_triton_accel = False, enable_webgpu_ui = False, enable_burn_runtime = False,
      enable_cloud_control_plane = False, enable_agent_action_execution = False,
      enable_advanced_permissions = False, enable_usage_metering = False,
      enable_approval_separation_of_duties = False\<rparr>"

text \<open>\<open>env_bool\<close>: the value of an environment variable (None when it is not set).\<close>

definition env_bool :: "string option \<Rightarrow> bool \<Rightarrow> bool" where
  "env_bool v dflt =
     (case v of
        Some s \<Rightarrow> to_lowercase (trim s) \<in> {''1'', ''true'', ''yes'', ''on''}
      | None \<Rightarrow> dflt)"

definition flags_from_env :: "(string \<Rightarrow> string option) \<Rightarrow> feature_flags" where
  "flags_from_env env =
     (let d = default_flags in
      \<lparr>enable_ai_agents = env_bool (env ''LATENTDB_ENABLE_AI_AGENTS'') (enable_ai_agents d),
       enable_semantic_search =
         env_bool (env ''LATENTDB_ENABLE_SEMANTIC_SEARCH'') (enable_semantic_search d),
       enable_datafusion_reports =
         env_bool (env ''LATENTDB_ENABLE_DATAFUSION_REPORTS'') (enable_datafusion_reports d),
       enable_triton_accel =
         env_bool (env ''LATENTDB_ENABLE_TRITON_ACCEL'') (enable_triton_accel d),
       enable_webgpu_ui = env_bool (env ''LATENTDB_ENABLE_WEBGPU_UI'') (enable_webgpu_ui d),
       enable_burn_runtime =
         env_bool (env ''LATENTDB_ENABLE_BURN_RUNTIME'') (enable_burn_runtime d),
       enable_cloud_control_plane =
         env_bool (env ''LATENTDB_ENABLE_CLOUD_CONTROL_PLANE'') (enable_cloud_control_plane d),
       enable_agent_action_execution =
         env_bool (env ''LATENTDB_ENABLE_AGENT_ACTION_EXECUTION'')
           (enable_agent_action_execution d),
       enable_advanced_permissions =
         env_bool (env ''LATENTDB_ENABLE_ADVANCED_PERMISSIONS'') (enable_advanced_permissions d),
       enable_usage_metering =
         env_bool (env ''LATENTDB_ENABLE_USAGE_METERING'') (enable_usage_metering d),
       enable_approval_separation_of_duties =
         env_bool (env ''LATENTDB_ENABLE_APPROVAL_SEPARATION_OF_DUTIES'')
           (enable_approval_separation_of_duties d)\<rparr>)"

section \<open>Pages and filters (page.rs)\<close>

record page =
  pg_limit :: "64 word"
  pg_offset :: "64 word"

definition default_page :: page where
  "default_page = \<lparr>pg_limit = 50, pg_offset = 0\<rparr>"

text \<open>\<open>i64::clamp\<close> and \<open>i64::max\<close> on signed words.\<close>

definition sclamp :: "64 word \<Rightarrow> 64 word \<Rightarrow> 64 word \<Rightarrow> 64 word" where
  "sclamp lo hi x = (if x <s lo then lo else if hi <s x then hi else x)"

definition clamped :: "page \<Rightarrow> page" where
  "clamped p =
     \<lparr>pg_limit = sclamp 1 500 (pg_limit p),
      pg_offset = (if pg_offset p <s 0 then 0 else pg_offset p)\<rparr>"

record 'a list_response =
  lr_items :: "'a list"
  lr_total :: "64 word"
  lr_limit :: "64 word"
  lr_offset :: "64 word"

record field_filter =
  ff_field :: string
  ff_op :: condition_op
  ff_value :: json

record record_filter =
  rf_filters :: "field_filter list"
  rf_search :: "string option"
  rf_sort :: "string option"
  rf_desc :: bool
  rf_include_archived :: bool
  rf_page :: page

definition default_filter :: record_filter where
  "default_filter =
     \<lparr>rf_filters = [], rf_search = None, rf_sort = None, rf_desc = False,
      rf_include_archived = False, rf_page = default_page\<rparr>"

lemma sint_clamped_limit: "1 \<le> sint (pg_limit (clamped p)) \<and> sint (pg_limit (clamped p)) \<le> 500"
  by (auto simp: clamped_def sclamp_def word_sless_alt)

lemma sint_clamped_offset: "sint (pg_offset (clamped p)) = max 0 (sint (pg_offset p))"
  by (auto simp: clamped_def word_sless_alt)

section \<open>Workflow definitions (workflow.rs)\<close>

record workflow_state =
  ws_key :: string
  ws_label :: string
  ws_terminal :: bool

record transition_t =
  t_key :: string
  t_from :: string
  t_to :: string
  t_label :: string
  t_guard_permission :: "string option"
  t_requires_approval :: bool
  t_approval_policy :: "string option"

record workflow_def =
  wf_key :: string
  wf_object_type :: string
  wf_name :: string
  wf_initial_state :: string
  wf_states :: "workflow_state list"
  wf_transitions :: "transition_t list"

definition wf_state :: "workflow_def \<Rightarrow> string \<Rightarrow> workflow_state option" where
  "wf_state w key = find (\<lambda>s. ws_key s = key) (wf_states w)"

definition transition_from :: "workflow_def \<Rightarrow> string \<Rightarrow> string \<Rightarrow> transition_t option" where
  "transition_from w current key =
     find (\<lambda>t. t_key t = key \<and> t_from t = current) (wf_transitions w)"

definition available_from :: "workflow_def \<Rightarrow> string \<Rightarrow> transition_t list" where
  "available_from w current = filter (\<lambda>t. t_from t = current) (wf_transitions w)"

lemma transition_from_Some:
  "transition_from w cur key = Some t \<Longrightarrow>
     t \<in> set (available_from w cur) \<and> t_key t = key \<and> t_from t = cur"
  by (auto simp: transition_from_def available_from_def dest: find_Some_in)

lemma wf_state_None: "wf_state w k = None \<longleftrightarrow> k \<notin> ws_key ` set (wf_states w)"
  by (auto simp: wf_state_def find_None_all)

section \<open>Audit events (audit.rs)\<close>

record audit_event =
  a_id :: string
  a_tenant_id :: string
  a_org_id :: "string option"
  a_actor_type :: actor_type
  a_actor_id :: string
  a_action :: string
  a_target_object_type :: "string option"
  a_target_record_id :: "string option"
  a_before :: "json option"
  a_after :: "json option"
  a_request_id :: string
  a_reason :: "string option"
  a_source :: source
  a_timestamp :: string
  a_client_meta :: "json option"
  a_ai_meta :: "json option"
  a_retrieved_source_ids :: "string list"
  a_risk_score :: "rat option"
  a_approval_id :: "string option"

record audit_query =
  q_actor_id :: "string option"
  q_action :: "string option"
  q_target_object_type :: "string option"
  q_target_record_id :: "string option"
  q_since :: "string option"
  q_until :: "string option"
  q_limit :: "64 word option"
  q_offset :: "64 word option"

section \<open>Facts on grants\<close>

lemma matches_resource_iff:
  "matches_resource g r \<longleftrightarrow>
     g_resource g = r \<or> (\<exists>p q. g_resource g = p @ ''*'' \<and> r = p @ q)"
proof (cases "strip_suffix ''*'' (g_resource g)")
  case None
  then have no: "g_resource g \<noteq> p @ ''*''" for p by (simp add: strip_suffix_None)
  from no [of "[]"] have "g_resource g \<noteq> ''*''" by simp
  with None no show ?thesis by (simp add: matches_resource_def)
next
  case (Some p)
  then have "g_resource g = p @ ''*''" by (simp add: strip_suffix_Some)
  with Some show ?thesis
    by (auto simp: matches_resource_def starts_with_iff)
qed

lemma matches_resource_star [simp]: "matches_resource (new_grant a ''*'' sc) r"
  by (simp add: matches_resource_def new_grant_def)

lemma permits_iff:
  "permits fr f \<longleftrightarrow> (case fr_mode fr of Allow \<Rightarrow> f \<in> set (fr_fields fr) | Deny \<Rightarrow> f \<notin> set (fr_fields fr))"
  by (auto simp: permits_def list_ex_iff split: field_rule_mode.splits)

end
