(* ===== verification/Schema.thy ===== *)
theory Schema
  imports Contracts
begin

text \<open>
  The schema and data contracts: field definitions with the validation of a JSON value against
  them (\<open>field.rs\<close>), object types (\<open>object.rs\<close>) and records (\<open>record.rs\<close>). The RFC 3339
  parser that \<open>DateTime\<close> fields use is the \<open>time\<close> crate's; it is the argument \<open>parse\<close>.
\<close>

section \<open>Field definitions (field.rs)\<close>

datatype field_type =
    Text | LongText | Number | Money | Boolean | Date | DateTime | Enum | MultiEnum | Json
  | RecordRef | UserRef | FileRef | Formula

record field_definition =
  f_key :: string
  f_label :: string
  f_type :: field_type
  f_required :: bool
  f_default :: "json option"
  f_enum_options :: "string list"
  f_ref_object_type :: "string option"
  f_restricted :: bool
  f_system :: bool
  f_display :: bool
  f_unique :: bool
  f_indexed :: bool
  f_ai_visible :: bool
  f_read_roles :: "string list"
  f_write_roles :: "string list"
  f_help :: "string option"

definition new_field :: "string \<Rightarrow> string \<Rightarrow> field_type \<Rightarrow> field_definition" where
  "new_field key label ty =
     \<lparr>f_key = key, f_label = label, f_type = ty, f_required = False, f_default = None,
      f_enum_options = [], f_ref_object_type = None, f_restricted = False, f_system = False,
      f_display = False, f_unique = False, f_indexed = False, f_ai_visible = False,
      f_read_roles = [], f_write_roles = [], f_help = None\<rparr>"

definition required :: "field_definition \<Rightarrow> field_definition" where
  "required f = f\<lparr>f_required := True\<rparr>"

definition display :: "field_definition \<Rightarrow> field_definition" where
  "display f = f\<lparr>f_display := True\<rparr>"

definition restricted :: "field_definition \<Rightarrow> field_definition" where
  "restricted f = f\<lparr>f_restricted := True\<rparr>"

definition ai_visible :: "field_definition \<Rightarrow> field_definition" where
  "ai_visible f = f\<lparr>f_ai_visible := True\<rparr>"

definition options :: "string list \<Rightarrow> field_definition \<Rightarrow> field_definition" where
  "options opts f = f\<lparr>f_enum_options := opts\<rparr>"

definition references :: "string \<Rightarrow> field_definition \<Rightarrow> field_definition" where
  "references ot f = f\<lparr>f_ref_object_type := Some ot\<rparr>"

lemmas field_builder_defs = new_field_def required_def display_def restricted_def ai_visible_def
  options_def references_def

subsection \<open>Validation of one value\<close>

text \<open>\<open>format!("field '{}' ..", self.key)\<close>.\<close>

definition field_msg :: "field_definition \<Rightarrow> string \<Rightarrow> string" where
  "field_msg f rest = ''field '' @ [CHR 0x27] @ f_key f @ [CHR 0x27] @ rest"

fun check_multi_enum :: "field_definition \<Rightarrow> json list \<Rightarrow> string + unit" where
  "check_multi_enum f [] = Inr ()"
| "check_multi_enum f (item # items) =
     (case as_str item of
        None \<Rightarrow> Inl (field_msg f '' must be an array of strings'')
      | Some s \<Rightarrow>
          if list_ex (\<lambda>o'. o' = s) (f_enum_options f) then check_multi_enum f items
          else Inl (field_msg f ('' value '' @ [CHR 0x27] @ s @ [CHR 0x27] @ '' is not an allowed option'')))"

definition validate_value ::
  "(string \<Rightarrow> int option) \<Rightarrow> field_definition \<Rightarrow> json \<Rightarrow> string + unit" where
  "validate_value parse f value =
     (if is_null value then
        (if f_required f then Inl (field_msg f '' is required'') else Inr ())
      else
        case f_type f of
          Text \<Rightarrow> if is_string value then Inr () else Inl (field_msg f '' must be a string'')
        | LongText \<Rightarrow> if is_string value then Inr () else Inl (field_msg f '' must be a string'')
        | Number \<Rightarrow> if is_number value then Inr () else Inl (field_msg f '' must be a number'')
        | Money \<Rightarrow>
            if \<not> is_i64 value \<and> \<not> is_u64 value
            then Inl (field_msg f '' (money) must be an integer of minor units (cents)'')
            else Inr ()
        | Boolean \<Rightarrow> if is_boolean value then Inr () else Inl (field_msg f '' must be a boolean'')
        | Date \<Rightarrow>
            (case as_str value of
               None \<Rightarrow> Inl (field_msg f '' must be a YYYY-MM-DD string'')
             | Some s \<Rightarrow>
                 if length s \<noteq> 10 \<or> s ! 4 \<noteq> CHR ''-'' \<or> s ! 7 \<noteq> CHR ''-''
                 then Inl (field_msg f '' must be YYYY-MM-DD'') else Inr ())
        | DateTime \<Rightarrow>
            (case as_str value of
               None \<Rightarrow> Inl (field_msg f '' must be an RFC3339 string'')
             | Some s \<Rightarrow>
                 if parse s = None then Inl (field_msg f '' must be an RFC3339 timestamp'')
                 else Inr ())
        | Enum \<Rightarrow>
            (case as_str value of
               None \<Rightarrow> Inl (field_msg f '' must be a string enum value'')
             | Some s \<Rightarrow>
                 if \<not> list_ex (\<lambda>o'. o' = s) (f_enum_options f)
                 then Inl (field_msg f ('' must be one of ['' @ join '', '' (f_enum_options f) @ '']''))
                 else Inr ())
        | MultiEnum \<Rightarrow>
            (case as_array value of
               None \<Rightarrow> Inl (field_msg f '' must be an array'')
             | Some arr \<Rightarrow> check_multi_enum f arr)
        | Json \<Rightarrow> Inr ()
        | RecordRef \<Rightarrow>
            if is_string value then Inr () else Inl (field_msg f '' must be a reference id string'')
        | UserRef \<Rightarrow>
            if is_string value then Inr () else Inl (field_msg f '' must be a reference id string'')
        | FileRef \<Rightarrow>
            if is_string value then Inr () else Inl (field_msg f '' must be a reference id string'')
        | Formula \<Rightarrow> Inr ())"

text \<open>
  The values a field type admits, as a set: the specification of \<open>validate_value\<close>. An admitted
  number of type \<open>Money\<close> is an integer, of whatever representation.
\<close>

fun type_values :: "(string \<Rightarrow> int option) \<Rightarrow> string list \<Rightarrow> field_type \<Rightarrow> json set" where
  "type_values parse opts Text = range JString"
| "type_values parse opts LongText = range JString"
| "type_values parse opts Number = range JNumber"
| "type_values parse opts Money = {JNumber n | n. \<forall>q. n \<noteq> JFloat q}"
| "type_values parse opts Boolean = {JBool True, JBool False}"
| "type_values parse opts Date =
     {JString (a @ ''-'' @ b @ ''-'' @ c) | a b c. length a = 4 \<and> length b = 2 \<and> length c = 2}"
| "type_values parse opts DateTime = {JString s | s. s \<in> dom parse}"
| "type_values parse opts Enum = JString ` set opts"
| "type_values parse opts MultiEnum = {JArray (map JString ss) | ss. set ss \<subseteq> set opts}"
| "type_values parse opts Json = UNIV"
| "type_values parse opts RecordRef = range JString"
| "type_values parse opts UserRef = range JString"
| "type_values parse opts FileRef = range JString"
| "type_values parse opts Formula = UNIV"

definition admits :: "(string \<Rightarrow> int option) \<Rightarrow> field_definition \<Rightarrow> json \<Rightarrow> bool" where
  "admits parse f v \<longleftrightarrow>
     (if v = JNull then \<not> f_required f else v \<in> type_values parse (f_enum_options f) (f_type f))"

lemma is_null_iff [simp]: "is_null v \<longleftrightarrow> v = JNull"
  by (cases v) auto

lemma is_string_iff: "is_string v \<longleftrightarrow> v \<in> range JString"
  by (cases v) auto

lemma is_number_iff: "is_number v \<longleftrightarrow> v \<in> range JNumber"
  by (cases v) auto

lemma is_boolean_iff: "is_boolean v \<longleftrightarrow> v \<in> {JBool True, JBool False}"
  by (cases v) auto

lemma as_str_Some [simp]: "as_str v = Some s \<longleftrightarrow> v = JString s"
  by (cases v) auto

lemma as_str_None: "as_str v = None \<longleftrightarrow> v \<notin> range JString"
  by (cases v) auto

lemma as_array_Some [simp]: "as_array v = Some xs \<longleftrightarrow> v = JArray xs"
  by (cases v) auto

lemma money_iff: "is_i64 v \<or> is_u64 v \<longleftrightarrow> v \<in> type_values parse opts Money"
proof (cases v)
  case (JNumber n)
  then show ?thesis by (cases n) auto
qed auto

lemma check_multi_enum_ok:
  "check_multi_enum f items = Inr () \<longleftrightarrow>
     (\<exists>ss. items = map JString ss \<and> set ss \<subseteq> set (f_enum_options f))"
proof (induction items)
  case (Cons a items)
  show ?case
  proof (cases "as_str a")
    case None
    then have "a \<notin> range JString" by (simp add: as_str_None)
    with None show ?thesis by (auto simp: map_eq_Cons_conv Cons_eq_map_conv)
  next
    case (Some s)
    then have a: "a = JString s" by simp
    let ?O = "set (f_enum_options f)"
    have "(\<exists>ss. a # items = map JString ss \<and> set ss \<subseteq> ?O) \<longleftrightarrow>
          s \<in> ?O \<and> (\<exists>ss. items = map JString ss \<and> set ss \<subseteq> ?O)"
    proof
      assume "s \<in> ?O \<and> (\<exists>ss. items = map JString ss \<and> set ss \<subseteq> ?O)"
      then obtain ss where "items = map JString ss" "set (s # ss) \<subseteq> ?O" by auto
      with a have "a # items = map JString (s # ss)" by simp
      with \<open>set (s # ss) \<subseteq> ?O\<close> show "\<exists>ss. a # items = map JString ss \<and> set ss \<subseteq> ?O"
        by (intro exI [of _ "s # ss"]) simp
    qed (auto simp: a Cons_eq_map_conv)
    with a Cons.IH show ?thesis by (simp add: list_ex_iff)
  qed
qed simp

lemma date_shape:
  "length s = 10 \<and> s ! 4 = CHR ''-'' \<and> s ! 7 = CHR ''-'' \<longleftrightarrow>
     (\<exists>a b c. s = a @ ''-'' @ b @ ''-'' @ c \<and> length a = 4 \<and> length b = 2 \<and> length c = 2)"
proof
  assume "length s = 10 \<and> s ! 4 = CHR ''-'' \<and> s ! 7 = CHR ''-''"
  then have l: "length s = 10" and d: "s ! 4 = CHR ''-''" "s ! 7 = CHR ''-''" by auto
  have "s = take 4 s @ [s ! 4] @ take 2 (drop 5 s) @ [s ! 7] @ drop 8 s"
    using l by (auto intro!: nth_equalityI simp: nth_append nth_Cons' less_Suc_eq numeral_eq_Suc)
  with l d show "\<exists>a b c. s = a @ ''-'' @ b @ ''-'' @ c \<and> length a = 4 \<and> length b = 2 \<and> length c = 2"
    by (intro exI [of _ "take 4 s"] exI [of _ "take 2 (drop 5 s)"] exI [of _ "drop 8 s"]) simp
qed (auto simp: nth_append)

lemma validate_value_admits: "validate_value parse f v = Inr () \<longleftrightarrow> admits parse f v"
proof (cases "v = JNull")
  case True
  then show ?thesis by (simp add: validate_value_def admits_def)
next
  case False
  show ?thesis
  proof (cases "f_type f")
    case Money
    with False show ?thesis
      using money_iff [of v parse "f_enum_options f"] by (auto simp: validate_value_def admits_def)
  next
    case Date
    have "validate_value parse f v = Inr () \<longleftrightarrow>
            (\<exists>s. v = JString s \<and> length s = 10 \<and> s ! 4 = CHR ''-'' \<and> s ! 7 = CHR ''-'')"
      using False Date by (auto simp: validate_value_def split: option.splits)
    also have "\<dots> \<longleftrightarrow> v \<in> type_values parse (f_enum_options f) Date"
      by (simp only: date_shape) auto
    finally show ?thesis using False Date by (simp add: admits_def)
  next
    case MultiEnum
    with False show ?thesis
      by (auto simp: validate_value_def admits_def check_multi_enum_ok split: option.splits)
  qed (use False in \<open>auto simp: validate_value_def admits_def is_string_iff is_number_iff
        is_boolean_iff list_ex_iff as_str_None dom_def split: option.splits\<close>)
qed

section \<open>Object types (object.rs)\<close>

record object_type_def =
  ot_id :: string
  ot_key :: string
  ot_label :: string
  ot_label_plural :: "string option"
  ot_description :: "string option"
  ot_system :: bool
  ot_workflow_key :: "string option"
  ot_display_field :: "string option"
  ot_module :: "string option"
  ot_fields :: "field_definition list"

definition field_of :: "object_type_def \<Rightarrow> string \<Rightarrow> field_definition option" where
  "field_of ot key = find (\<lambda>f. f_key f = key) (ot_fields ot)"

definition restricted_fields :: "object_type_def \<Rightarrow> string list" where
  "restricted_fields ot = map f_key (filter f_restricted (ot_fields ot))"

lemma field_of_Some: "field_of ot k = Some f \<Longrightarrow> f \<in> set (ot_fields ot) \<and> f_key f = k"
  by (auto simp: field_of_def dest: find_Some_in)

lemma field_of_restricted: "field_of ot k = Some f \<Longrightarrow> f_restricted f \<Longrightarrow> k \<in> set (restricted_fields ot)"
  by (auto simp: restricted_fields_def dest!: field_of_Some)

section \<open>Records (record.rs)\<close>

datatype lifecycle = Active | Archived

fun lifecycle_str :: "lifecycle \<Rightarrow> string" where
  "lifecycle_str Active = ''active''"
| "lifecycle_str Archived = ''archived''"

definition lifecycle_parse :: "string \<Rightarrow> lifecycle" where
  "lifecycle_parse s = (if s = ''archived'' then Archived else Active)"

record record_t =
  r_id :: string
  r_object_type :: string
  r_tenant_id :: string
  r_org_id :: string
  r_workspace_id :: "string option"
  r_data :: jmap
  r_lifecycle :: lifecycle
  r_workflow_state :: "string option"
  r_created_by :: string
  r_created_at :: string
  r_updated_at :: string
  r_archived_at :: "string option"

definition owner_candidates :: "record_t \<Rightarrow> string list" where
  "owner_candidates r =
     r_created_by r #
     concat (map (\<lambda>key. case jget (r_data r) key of Some (JString s) \<Rightarrow> [s] | _ \<Rightarrow> [])
       [''owner_id'', ''assignee_id'', ''user_id''])"

definition project_fields :: "(string \<Rightarrow> bool) \<Rightarrow> record_t \<Rightarrow> record_t" where
  "project_fields visible r = r\<lparr>r_data := jrestrict visible (r_data r)\<rparr>"

record new_record =
  nr_object_type :: string
  nr_data :: jmap
  nr_workspace_id :: "string option"

record record_patch =
  rp_data :: jmap

lemma lifecycle_roundtrip: "lifecycle_parse (lifecycle_str l) = l"
  by (cases l) (simp_all add: lifecycle_parse_def)

lemma project_fields_simps [simp]:
  "r_id (project_fields P r) = r_id r"
  "r_object_type (project_fields P r) = r_object_type r"
  "r_tenant_id (project_fields P r) = r_tenant_id r"
  "r_org_id (project_fields P r) = r_org_id r"
  "r_workspace_id (project_fields P r) = r_workspace_id r"
  "r_lifecycle (project_fields P r) = r_lifecycle r"
  "r_workflow_state (project_fields P r) = r_workflow_state r"
  "r_created_by (project_fields P r) = r_created_by r"
  "r_created_at (project_fields P r) = r_created_at r"
  "r_updated_at (project_fields P r) = r_updated_at r"
  "r_archived_at (project_fields P r) = r_archived_at r"
  by (simp_all add: project_fields_def)

lemma project_fields_get [simp]:
  "jget (r_data (project_fields P r)) k = (if P k then jget (r_data r) k else None)"
  by (simp add: project_fields_def)

lemma owner_candidates_iff:
  "u \<in> set (owner_candidates r) \<longleftrightarrow>
     u = r_created_by r \<or>
     (\<exists>k\<in>{''owner_id'', ''assignee_id'', ''user_id''}. jget (r_data r) k = Some (JString u))"
  by (auto simp: owner_candidates_def split: option.splits json.splits)

end
