(* ===== verification/Rows.thy ===== *)
theory Rows
  imports Schema
begin

text \<open>
  The data that is stored: the builder and migration contracts (\<open>contracts/src/builder.rs\<close>,
  \<open>contracts/src/migration.rs\<close>) and the row types of the kernel's tables (the structs \<open>Task\<close>,
  \<open>Approval\<close>, \<open>Event\<close>, \<open>Tenant\<close>, \<open>ReportDef\<close> and so on, and the columns of the schema in
  \<open>kernel/src/store.rs\<close> where a table has no struct). A column that holds JSON text holds the
  value itself here; the round trip through \<open>serde_json\<close> is taken as the identity.
\<close>

section \<open>Builder contracts (contracts/src/builder.rs)\<close>

datatype builder_status = Draft | Validated | Published

datatype relation_kind = OneToOne | OneToMany | ManyToOne | ManyToMany

record builder_relation =
  br_key :: string
  br_label :: string
  br_from_object :: string
  br_to_object :: string
  br_kind :: relation_kind

datatype approval_rule_kind =
    Mutation | WorkflowTransition | AiActionExecution | MoneyThreshold | RestrictedFieldUpdate

record approval_rule =
  ar_kind :: approval_rule_kind
  ar_transition_key :: "string option"
  ar_field :: "string option"
  ar_threshold :: "64 word option"

record builder_definition =
  bd_key :: string
  bd_label :: string
  bd_label_plural :: "string option"
  bd_description :: "string option"
  bd_icon :: "string option"
  bd_module :: "string option"
  bd_display_field :: "string option"
  bd_fields :: "field_definition list"
  bd_relations :: "builder_relation list"
  bd_workflow :: "workflow_def option"
  bd_permissions :: "permission_grant list"
  bd_approval_rules :: "approval_rule list"
  bd_sensitive_ai_visibility_confirmed :: bool

definition to_object_type :: "builder_definition \<Rightarrow> object_type_def" where
  "to_object_type d =
     \<lparr>ot_id = [], ot_key = bd_key d, ot_label = bd_label d, ot_label_plural = bd_label_plural d,
      ot_description = bd_description d, ot_system = False,
      ot_workflow_key = map_option wf_key (bd_workflow d), ot_display_field = bd_display_field d,
      ot_module = bd_module d, ot_fields = bd_fields d\<rparr>"

record builder_draft =
  bf_id :: string
  bf_tenant_id :: string
  bf_status :: builder_status
  bf_key :: string
  bf_definition :: builder_definition
  bf_created_at :: string
  bf_updated_at :: string
  bf_published_at :: "string option"

record validation_issue =
  vi_path :: string
  vi_message :: string

record builder_template =
  bt_key :: string
  bt_name :: string
  bt_description :: string
  bt_objects :: "builder_definition list"

text \<open>\<open>key.replace('_', " ")\<close>.\<close>

definition workflow_state :: "string \<Rightarrow> bool \<Rightarrow> workflow_state" where
  "workflow_state key terminal =
     \<lparr>ws_key = key, ws_label = map (\<lambda>c. if c = CHR ''_'' then CHR '' '' else c) key,
      ws_terminal = terminal\<rparr>"

definition workflow_transition :: "string \<Rightarrow> string \<Rightarrow> string \<Rightarrow> string \<Rightarrow> bool \<Rightarrow> transition_t" where
  "workflow_transition key from to' label approval =
     \<lparr>t_key = key, t_from = from, t_to = to', t_label = label, t_guard_permission = None,
      t_requires_approval = approval,
      t_approval_policy = (if approval then Some ''default'' else None)\<rparr>"

section \<open>Migration contracts (contracts/src/migration.rs)\<close>

datatype system_kind = Old | Selected

fun system_kind_str :: "system_kind \<Rightarrow> string" where
  "system_kind_str Old = ''old''"
| "system_kind_str Selected = ''selected''"

definition system_kind_parse :: "string \<Rightarrow> system_kind option" where
  "system_kind_parse s =
     (if s = ''old'' then Some Old else if s = ''selected'' then Some Selected else None)"

datatype migration_status = BootedOld | TargetSelected | Reported

fun migration_status_str :: "migration_status \<Rightarrow> string" where
  "migration_status_str BootedOld = ''booted_old''"
| "migration_status_str TargetSelected = ''target_selected''"
| "migration_status_str Reported = ''reported''"

definition migration_status_parse :: "string \<Rightarrow> migration_status" where
  "migration_status_parse s =
     (if s = ''target_selected'' then TargetSelected
      else if s = ''reported'' then Reported else BootedOld)"

record system_object =
  so_key :: string
  so_label :: string
  so_module :: "string option"
  so_field_keys :: "string list"
  so_record_count :: int

record system_snapshot =
  sn_kind :: system_kind
  sn_key :: string
  sn_label :: string
  sn_objects :: "system_object list"

definition total_records :: "system_snapshot \<Rightarrow> int" where
  "total_records sn = sum_list (map so_record_count (sn_objects sn))"

datatype mapping_status =
    Mapped | TypeMismatch | AddedInTarget | DroppedFromSource | MissingRequiredInTarget

record field_mapping =
  fm_source_field :: "string option"
  fm_target_field :: "string option"
  fm_source_type :: "field_type option"
  fm_target_type :: "field_type option"
  fm_status :: mapping_status

record object_mapping =
  om_source_object :: "string option"
  om_target_object :: "string option"
  om_label :: string
  om_record_count :: int
  om_field_mappings :: "field_mapping list"
  om_note :: "string option"

datatype conflict_kind =
    UnmappedSourceObject | TypeMismatchConflict | MissingRequiredTarget | DroppedField

record migration_conflict =
  mc_kind :: conflict_kind
  mc_object :: string
  mc_field :: "string option"
  mc_detail :: string

record migration_summary =
  ms_source_objects :: nat
  ms_target_objects :: nat
  ms_mapped_objects :: nat
  ms_source_records :: int
  ms_records_mappable :: int
  ms_records_unmapped :: int
  ms_conflicts :: nat

record migration_plan =
  mp_source_system :: system_snapshot
  mp_target_system :: system_snapshot
  mp_object_mappings :: "object_mapping list"
  mp_conflicts :: "migration_conflict list"
  mp_summary :: migration_summary

record migration_report =
  mr_id :: string
  mr_tenant_id :: string
  mr_generated_at :: string
  mr_for_system :: system_kind
  mr_source_system :: system_snapshot
  mr_target_system :: "system_snapshot option"
  mr_plan :: "migration_plan option"
  mr_summary :: migration_summary
  mr_notes :: "string list"

record migration_session =
  se_tenant_id :: string
  se_status :: migration_status
  se_active_system :: system_kind
  se_selected_system_key :: "string option"
  se_old_system :: system_snapshot
  se_last_report :: "migration_report option"
  se_created_at :: string
  se_updated_at :: string

lemma system_kind_roundtrip: "system_kind_parse (system_kind_str k) = Some k"
  by (cases k) (simp_all add: system_kind_parse_def)

lemma migration_status_roundtrip: "migration_status_parse (migration_status_str m) = m"
  by (cases m) (simp_all add: migration_status_parse_def)

section \<open>Rows of the identity tables\<close>

record tenant_row =
  tn_id :: string
  tn_name :: string
  tn_slug :: string
  tn_plan :: string
  tn_status :: string
  tn_created_at :: string

record organization_row =
  og_id :: string
  og_tenant_id :: string
  og_name :: string
  og_slug :: string
  og_created_at :: string

record workspace_row =
  wk_id :: string
  wk_tenant_id :: string
  wk_org_id :: string
  wk_name :: string
  wk_created_at :: string

record user_row =
  us_id :: string
  us_tenant_id :: string
  us_email :: string
  us_name :: string
  us_password_hash :: string
  us_status :: string
  us_is_platform_admin :: bool
  us_default_org_id :: "string option"
  us_created_at :: string

record service_account_row =
  sa_id :: string
  sa_tenant_id :: string
  sa_org_id :: string
  sa_name :: string
  sa_status :: string
  sa_created_at :: string

record role_row =
  ro_tenant_id :: string
  ro_role :: role_t
  ro_created_at :: string

record role_assignment_row =
  ra_id :: string
  ra_tenant_id :: string
  ra_principal_type :: string
  ra_principal_id :: string
  ra_role_key :: string
  ra_org_id :: "string option"
  ra_created_at :: string

record api_key_row =
  ak_id :: string
  ak_tenant_id :: string
  ak_org_id :: string
  ak_principal_type :: string
  ak_principal_id :: string
  ak_name :: string
  ak_prefix :: string
  ak_token_hash :: string
  ak_status :: string
  ak_created_at :: string
  ak_last_used_at :: "string option"

record session_row =
  ss_id :: string
  ss_tenant_id :: string
  ss_user_id :: string
  ss_org_id :: string
  ss_token_hash :: string
  ss_created_at :: string
  ss_expires_at :: string
  ss_revoked :: bool

section \<open>Rows of the object and work tables\<close>

record object_type_row =
  ob_tenant_id :: string
  ob_def :: object_type_def
  ob_created_at :: string

record relation_row =
  rl_id :: string
  rl_tenant_id :: string
  rl_from_record :: string
  rl_to_record :: string
  rl_relation_type :: string
  rl_created_by :: string
  rl_created_at :: string

record workflow_row =
  wr_id :: string
  wr_tenant_id :: string
  wr_key :: string
  wr_object_type :: string
  wr_name :: string
  wr_definition :: workflow_def
  wr_created_at :: string

record task_t =
  tk_id :: string
  tk_tenant_id :: string
  tk_org_id :: string
  tk_kind :: string
  tk_title :: string
  tk_assignee_id :: "string option"
  tk_status :: string
  tk_due_at :: "string option"
  tk_related_object_type :: "string option"
  tk_related_record_id :: "string option"
  tk_data :: json
  tk_created_by :: string
  tk_created_at :: string
  tk_updated_at :: string

record approval_t =
  ap_id :: string
  ap_tenant_id :: string
  ap_org_id :: string
  ap_status :: string
  ap_policy :: "string option"
  ap_requested_by :: string
  ap_decided_by :: "string option"
  ap_decision_reason :: "string option"
  ap_related_object_type :: "string option"
  ap_related_record_id :: "string option"
  ap_transition_key :: "string option"
  ap_target_state :: "string option"
  ap_risk_score :: "rat option"
  ap_data :: json
  ap_created_at :: string
  ap_decided_at :: "string option"

record event_t =
  ev_id :: string
  ev_tenant_id :: string
  ev_org_id :: "string option"
  ev_kind :: string
  ev_payload :: json
  ev_created_at :: string
  ev_processed :: bool

record usage_row =
  um_id :: string
  um_tenant_id :: string
  um_metric :: string
  um_period :: string
  um_value :: int
  um_updated_at :: string

datatype agg_op = Count | Sum | Avg | Min | Max

record report_def =
  rd_key :: string
  rd_name :: string
  rd_object_type :: string
  rd_op :: agg_op
  rd_field :: "string option"
  rd_filters :: "field_filter list"
  rd_group_by :: "string option"

record report_row =
  rp_id :: string
  rp_tenant_id :: string
  rp_def :: report_def
  rp_created_at :: string

record dashboard_t =
  da_key :: string
  da_name :: string
  da_cards :: "json list"

record dashboard_row =
  dr_id :: string
  dr_tenant_id :: string
  dr_dashboard :: dashboard_t
  dr_created_at :: string

end
