(* ===== verification/RateLimit.thy ===== *)
theory RateLimit
  imports Prelude "HOL-Library.Word"
begin

text \<open>
  The in-process brute-force protection of \<open>kernel/src/ratelimit.rs\<close>: a fixed-window failure
  counter per key. The \<open>HashMap\<close> behind the mutex is a map; an \<open>Instant\<close> is the number of
  nanoseconds of the monotonic clock, and each call gets the readings it makes as arguments.
  \<open>Instant::elapsed\<close> saturates at zero, as subtraction on \<open>nat\<close> does. The failure counter is
  the code's \<open>u32\<close>.
\<close>

definition MAX_FAILURES :: "32 word" where
  "MAX_FAILURES = 10"

definition WINDOW_SECS :: nat where
  "WINDOW_SECS = 900"

definition window_ns :: nat where
  "window_ns = WINDOW_SECS * 1000000000"

record failure_window =
  window_start :: nat
  failures :: "32 word"

type_synonym login_limiter = "string \<Rightarrow> failure_window option"

definition elapsed :: "nat \<Rightarrow> nat \<Rightarrow> nat" where
  "elapsed now start = now - start"

section \<open>Operations\<close>

definition is_locked :: "nat \<Rightarrow> string \<Rightarrow> login_limiter \<Rightarrow> bool \<times> login_limiter" where
  "is_locked now key st =
     (case st key of
        Some w \<Rightarrow>
          if elapsed now (window_start w) \<ge> window_ns then (False, st(key := None))
          else (MAX_FAILURES \<le> failures w, st)
      | None \<Rightarrow> (False, st))"

text \<open>
  \<open>record_failure\<close> reads the clock twice: \<open>now\<close> is the value bound first, \<open>now'\<close> the one
  \<open>elapsed\<close> reads.
\<close>

definition record_failure ::
  "nat \<Rightarrow> nat \<Rightarrow> string \<Rightarrow> login_limiter \<Rightarrow> 32 word \<times> login_limiter" where
  "record_failure now now' key st =
     (let entry = (case st key of Some w \<Rightarrow> w | None \<Rightarrow> \<lparr>window_start = now, failures = 0\<rparr>);
          entry = (if elapsed now' (window_start entry) \<ge> window_ns
                   then \<lparr>window_start = now, failures = 0\<rparr> else entry);
          entry = entry\<lparr>failures := failures entry + 1\<rparr>
      in (failures entry, st(key \<mapsto> entry)))"

definition reset :: "string \<Rightarrow> login_limiter \<Rightarrow> login_limiter" where
  "reset key st = st(key := None)"

definition prune :: "nat \<Rightarrow> login_limiter \<Rightarrow> login_limiter" where
  "prune now st =
     (\<lambda>k. case st k of
            Some w \<Rightarrow> if elapsed now (window_start w) < window_ns then Some w else None
          | None \<Rightarrow> None)"

section \<open>What an observer sees\<close>

text \<open>
  The abstraction: the number of failures that count against a key at a time. Expired windows
  count nothing, so dropping them cannot be observed.
\<close>

definition live_failures :: "nat \<Rightarrow> login_limiter \<Rightarrow> string \<Rightarrow> 32 word" where
  "live_failures now st key =
     (case st key of
        Some w \<Rightarrow> if elapsed now (window_start w) < window_ns then failures w else 0
      | None \<Rightarrow> 0)"

lemma is_locked_live: "fst (is_locked now key st) \<longleftrightarrow> 10 \<le> live_failures now st key"
  by (auto simp: is_locked_def live_failures_def MAX_FAILURES_def word_le_nat_alt split: option.splits)

lemma is_locked_keeps_live:
  "now \<le> t \<Longrightarrow> live_failures t (snd (is_locked now key st)) k = live_failures t st k"
  by (auto simp: is_locked_def live_failures_def elapsed_def split: option.splits)

lemma prune_keeps_live: "now \<le> t \<Longrightarrow> live_failures t (prune now st) k = live_failures t st k"
  by (auto simp: prune_def live_failures_def elapsed_def split: option.splits)

lemma reset_live: "live_failures t (reset key st) k = (if k = key then 0 else live_failures t st k)"
  by (simp add: reset_def live_failures_def)

lemma record_failure_live:
  assumes "now \<le> now'" "now' < now + window_ns"
  shows "fst (record_failure now now' key st) = live_failures now' st key + 1"
    and "live_failures now' (snd (record_failure now now' key st)) k =
           (if k = key then live_failures now' st key + 1 else live_failures now' st k)"
  using assms by (auto simp: record_failure_def live_failures_def elapsed_def Let_def split: option.splits)

text \<open>Failures at the times \<open>ts\<close>, one after the other (both readings of a call at its time).\<close>

fun fail_at :: "string \<Rightarrow> nat list \<Rightarrow> login_limiter \<Rightarrow> login_limiter" where
  "fail_at key [] st = st"
| "fail_at key (t # ts) st = fail_at key ts (snd (record_failure t t key st))"

lemma window_ns_pos [simp]: "0 < window_ns"
  by (simp add: window_ns_def WINDOW_SECS_def)

lemma elapsed_in_window: "t < t0 + window_ns \<Longrightarrow> elapsed t t0 < window_ns"
  using window_ns_pos unfolding elapsed_def by linarith

lemma fail_at_window:
  assumes "st key = Some \<lparr>window_start = t0, failures = n\<rparr>"
    and "\<forall>t\<in>set ts. t < t0 + window_ns"
  shows "fail_at key ts st key = Some \<lparr>window_start = t0, failures = n + of_nat (length ts)\<rparr>"
  using assms
proof (induction ts arbitrary: st n)
  case (Cons t ts)
  have "snd (record_failure t t key st) key = Some \<lparr>window_start = t0, failures = n + 1\<rparr>"
    using Cons.prems elapsed_in_window [of t t0] by (simp add: record_failure_def Let_def)
  from Cons.IH [where st = "snd (record_failure t t key st)", OF this] Cons.prems(2) show ?case
    by (simp add: add.assoc)
qed simp

lemma fail_at_fresh:
  assumes "\<forall>w. st key = Some w \<longrightarrow> elapsed t0 (window_start w) \<ge> window_ns"
    and "\<forall>t\<in>set ts. t < t0 + window_ns"
  shows "fail_at key (t0 # ts) st key =
           Some \<lparr>window_start = t0, failures = of_nat (Suc (length ts))\<rparr>"
proof -
  have "snd (record_failure t0 t0 key st) key = Some \<lparr>window_start = t0, failures = 1\<rparr>"
    using assms(1) by (auto simp: record_failure_def elapsed_def Let_def split: option.splits)
  from fail_at_window [where st = "snd (record_failure t0 t0 key st)", OF this assms(2)]
  show ?thesis by simp
qed

end
