(* ===== verification/Store.thy ===== *)
theory Store
  imports Rows RateLimit
begin

text \<open>
  The kernel's machine: the database (one field per table of \<open>kernel/src/store.rs\<close>, rows in
  insertion order), the handle (\<open>Kernel\<close> of \<open>kernel/src/lib.rs\<close>), and programs over them.

  A kernel program is a function from the state to a result and the next state; an error is a
  value \<open>Inl e\<close>. The environment of a run is part of the handle, so every run is a function of
  it: the identifiers \<open>new_id\<close> draws, the clock readings (nanoseconds), the random bytes and
  salts, the environment variables, and which database statements fail. The third-party code the
  kernel calls is part of the handle for the same reason: the RFC 3339 format and parser and the
  calendar of the \<open>time\<close> crate, SHA-256 and Argon2 (whose errors are given by their text), and the
  JSON text of \<open>serde_json\<close>.
  \<open>tick\<close> counts the interactions with that environment and indexes its answers, so nothing is
  assumed about them unless a theorem says so. A statement that fails does so without effect and
  with the error \<open>map_db_err\<close> gives for an engine failure.

  A transaction is the code's \<open>begin .. commit\<close>: an error inside it (the \<open>?\<close> operator drops
  \<open>tx\<close>) or at the commit rolls the database back to its state at \<open>begin\<close>.
\<close>

section \<open>The database\<close>

record database =
  tenants :: "tenant_row list"
  organizations :: "organization_row list"
  workspaces :: "workspace_row list"
  users :: "user_row list"
  service_accounts :: "service_account_row list"
  roles :: "role_row list"
  role_assignments :: "role_assignment_row list"
  api_keys :: "api_key_row list"
  sessions :: "session_row list"
  object_types :: "object_type_row list"
  builder_drafts :: "builder_draft list"
  records :: "record_t list"
  relations :: "relation_row list"
  workflows :: "workflow_row list"
  tasks :: "task_t list"
  approvals :: "approval_t list"
  audit_logs :: "audit_event list"
  events :: "event_t list"
  reports :: "report_row list"
  dashboards :: "dashboard_row list"
  usage_meters :: "usage_row list"
  migration_sessions :: "migration_session list"

text \<open>The state after \<open>migrate\<close> on a fresh file: every table exists and is empty.\<close>

definition empty_db :: database where
  "empty_db =
     \<lparr>tenants = [], organizations = [], workspaces = [], users = [], service_accounts = [],
      roles = [], role_assignments = [], api_keys = [], sessions = [], object_types = [],
      builder_drafts = [], records = [], relations = [], workflows = [], tasks = [],
      approvals = [], audit_logs = [], events = [], reports = [], dashboards = [],
      usage_meters = [], migration_sessions = []\<rparr>"

definition tenant_exists :: "database \<Rightarrow> string \<Rightarrow> bool" where
  "tenant_exists d t \<longleftrightarrow> t \<in> tn_id ` set (tenants d)"

section \<open>SQL errors\<close>

datatype sql_error = UniqueViolation | ForeignKeyViolation | EngineFailure

fun map_db_err :: "sql_error \<Rightarrow> api_error" where
  "map_db_err UniqueViolation = new_error Conflict ''a record with these values already exists''"
| "map_db_err ForeignKeyViolation = new_error Validation ''referenced entity does not exist''"
| "map_db_err EngineFailure = internal ''internal storage error''"

text \<open>
  \<open>INSERT\<close>: the engine checks the uniqueness constraints while it inserts and the foreign keys
  at the end of the statement.
\<close>

definition sql_insert :: "bool \<Rightarrow> bool \<Rightarrow> 'd \<Rightarrow> sql_error + unit \<times> 'd" where
  "sql_insert unique fk d' =
     (if \<not> unique then Inl UniqueViolation
      else if \<not> fk then Inl ForeignKeyViolation
      else Inr ((), d'))"

lemma sql_insert_Inr [simp]: "sql_insert u fk d' = Inr r \<longleftrightarrow> u \<and> fk \<and> r = ((), d')"
  by (auto simp: sql_insert_def)

section \<open>The handle and the state\<close>

record kernel =
  flags :: feature_flags
  uuid_at :: "nat \<Rightarrow> string"
  now_at :: "nat \<Rightarrow> int"
  instant_at :: "nat \<Rightarrow> nat"
  rfc3339 :: "int \<Rightarrow> string"
  parse_rfc3339 :: "string \<Rightarrow> int option"
  year_month :: "int \<Rightarrow> nat \<times> nat"
  sha256 :: "string \<Rightarrow> 8 word list"
  argon2_hash :: "nat \<Rightarrow> string \<Rightarrow> string + string"
  argon2_verify :: "string \<Rightarrow> string \<Rightarrow> string + bool"
  random_at :: "nat \<Rightarrow> 8 word list"
  env_var :: "string \<Rightarrow> string option"
  json_text :: "json \<Rightarrow> string"
  db_fault :: "nat \<Rightarrow> bool"

record kstate =
  db :: database
  limiter :: login_limiter
  tick :: nat

type_synonym 'a kern = "kstate \<Rightarrow> (api_error + 'a) \<times> kstate"

definition retK :: "'a \<Rightarrow> 'a kern" where
  "retK x = (\<lambda>s. (Inr x, s))"

definition failK :: "api_error \<Rightarrow> 'a kern" where
  "failK e = (\<lambda>s. (Inl e, s))"

text \<open>\<open>let x = m?; f x\<close>.\<close>

definition bindK :: "'a kern \<Rightarrow> ('a \<Rightarrow> 'b kern) \<Rightarrow> 'b kern" where
  "bindK m f = (\<lambda>s. case m s of (Inl e, s') \<Rightarrow> (Inl e, s') | (Inr x, s') \<Rightarrow> f x s')"

definition seqK :: "'a kern \<Rightarrow> 'b kern \<Rightarrow> 'b kern" where
  "seqK m m' = bindK m (\<lambda>_. m')"

text \<open>\<open>let _ = m\<close>: the outcome is discarded, the effects stay.\<close>

definition ignoreK :: "'a kern \<Rightarrow> unit kern" where
  "ignoreK m = (\<lambda>s. (Inr (), snd (m s)))"

text \<open>\<open>match m { Ok(v) => f v, Err(e) => h e }\<close>.\<close>

definition matchK :: "'a kern \<Rightarrow> (api_error \<Rightarrow> 'b kern) \<Rightarrow> ('a \<Rightarrow> 'b kern) \<Rightarrow> 'b kern" where
  "matchK m h f = (\<lambda>s. case m s of (Inl e, s') \<Rightarrow> h e s' | (Inr x, s') \<Rightarrow> f x s')"

definition guardK :: "bool \<Rightarrow> api_error \<Rightarrow> unit kern" where
  "guardK ok e = (if ok then retK () else failK e)"

text \<open>\<open>opt.ok_or_else(..)?\<close> and \<open>res.map_err(..)?\<close>.\<close>

definition someK :: "api_error \<Rightarrow> 'a option \<Rightarrow> 'a kern" where
  "someK e o' = (case o' of None \<Rightarrow> failK e | Some x \<Rightarrow> retK x)"

definition resK :: "(api_error + 'a) \<Rightarrow> 'a kern" where
  "resK r = (case r of Inl e \<Rightarrow> failK e | Inr x \<Rightarrow> retK x)"

fun forK :: "('a \<Rightarrow> unit kern) \<Rightarrow> 'a list \<Rightarrow> unit kern" where
  "forK f [] = retK ()"
| "forK f (x # xs) = seqK (f x) (forK f xs)"

fun mapK :: "('a \<Rightarrow> 'b kern) \<Rightarrow> 'a list \<Rightarrow> 'b list kern" where
  "mapK f [] = retK []"
| "mapK f (x # xs) = bindK (f x) (\<lambda>y. bindK (mapK f xs) (\<lambda>ys. retK (y # ys)))"

section \<open>Primitive operations\<close>

definition new_id :: "kernel \<Rightarrow> string kern" where
  "new_id k = (\<lambda>s. (Inr (uuid_at k (tick s)), s\<lparr>tick := Suc (tick s)\<rparr>))"

definition now :: "kernel \<Rightarrow> int kern" where
  "now k = (\<lambda>s. (Inr (now_at k (tick s)), s\<lparr>tick := Suc (tick s)\<rparr>))"

definition now_rfc3339 :: "kernel \<Rightarrow> string kern" where
  "now_rfc3339 k = bindK (now k) (\<lambda>t. retK (rfc3339 k t))"

text \<open>One SQL statement.\<close>

definition stmt :: "kernel \<Rightarrow> (database \<Rightarrow> sql_error + 'a \<times> database) \<Rightarrow> 'a kern" where
  "stmt k q = (\<lambda>s.
     let s' = s\<lparr>tick := Suc (tick s)\<rparr>
     in if db_fault k (tick s) then (Inl (map_db_err EngineFailure), s')
        else case q (db s) of
               Inl e \<Rightarrow> (Inl (map_db_err e), s')
             | Inr (x, d) \<Rightarrow> (Inr x, s'\<lparr>db := d\<rparr>))"

definition query :: "kernel \<Rightarrow> (database \<Rightarrow> 'a) \<Rightarrow> 'a kern" where
  "query k q = stmt k (\<lambda>d. Inr (q d, d))"

definition update_stmt :: "kernel \<Rightarrow> (database \<Rightarrow> database) \<Rightarrow> unit kern" where
  "update_stmt k u = stmt k (\<lambda>d. Inr ((), u d))"

text \<open>\<open>begin\<close> and \<open>commit\<close> are statements too; what they return is the unit.\<close>

definition transaction :: "kernel \<Rightarrow> 'a kern \<Rightarrow> 'a kern" where
  "transaction k body = (\<lambda>s.
     let begin_commit = stmt k (\<lambda>d. Inr ((), d))
     in case seqK begin_commit (bindK body (\<lambda>x. seqK begin_commit (retK x))) s of
          (Inl e, s') \<Rightarrow> (Inl e, s'\<lparr>db := db s\<rparr>)
        | (Inr x, s') \<Rightarrow> (Inr x, s'))"

section \<open>Inversion of successful runs\<close>

lemma retK_Inr [simp]: "retK x s = (Inr y, s') \<longleftrightarrow> y = x \<and> s' = s"
  by (auto simp: retK_def)

lemma failK_Inr [simp]: "failK e s = (Inr y, s') \<longleftrightarrow> False"
  by (simp add: failK_def)

lemma bindK_Inr: "bindK m f s = (Inr y, s') \<longleftrightarrow> (\<exists>x s1. m s = (Inr x, s1) \<and> f x s1 = (Inr y, s'))"
  by (auto simp: bindK_def split: sum.splits prod.splits)

lemma seqK_Inr: "seqK m m' s = (Inr y, s') \<longleftrightarrow> (\<exists>x s1. m s = (Inr x, s1) \<and> m' s1 = (Inr y, s'))"
  by (simp add: seqK_def bindK_Inr)

lemma ignoreK_Inr [simp]: "ignoreK m s = (Inr y, s') \<longleftrightarrow> s' = snd (m s)"
  by (auto simp: ignoreK_def)

lemma forK_Nil_Inr [simp]: "forK f [] s = (Inr y, s') \<longleftrightarrow> s' = s"
  by simp

lemma guardK_Inr [simp]: "guardK ok e s = (Inr y, s') \<longleftrightarrow> ok \<and> s' = s"
  by (auto simp: guardK_def)

lemma someK_Inr [simp]: "someK e o' s = (Inr y, s') \<longleftrightarrow> o' = Some y \<and> s' = s"
  by (auto simp: someK_def split: option.splits)

lemma resK_Inr [simp]: "resK r s = (Inr y, s') \<longleftrightarrow> r = Inr y \<and> s' = s"
  by (auto simp: resK_def split: sum.splits)

lemma stmt_Inr: "stmt k q s = (Inr x, s') \<longleftrightarrow>
    \<not> db_fault k (tick s) \<and> (\<exists>d. q (db s) = Inr (x, d) \<and> s' = s\<lparr>tick := Suc (tick s), db := d\<rparr>)"
  by (auto simp: stmt_def Let_def split: sum.splits if_splits)

lemma query_Inr: "query k q s = (Inr x, s') \<longleftrightarrow>
    \<not> db_fault k (tick s) \<and> x = q (db s) \<and> s' = s\<lparr>tick := Suc (tick s)\<rparr>"
  by (auto simp: query_def stmt_Inr)

lemma update_stmt_Inr: "update_stmt k u s = (Inr x, s') \<longleftrightarrow>
    \<not> db_fault k (tick s) \<and> s' = s\<lparr>tick := Suc (tick s), db := u (db s)\<rparr>"
  by (auto simp: update_stmt_def stmt_Inr)

lemma new_id_Inr: "new_id k s = (Inr x, s') \<longleftrightarrow> x = uuid_at k (tick s) \<and> s' = s\<lparr>tick := Suc (tick s)\<rparr>"
  by (auto simp: new_id_def)

lemma now_rfc3339_Inr: "now_rfc3339 k s = (Inr x, s') \<longleftrightarrow>
    x = rfc3339 k (now_at k (tick s)) \<and> s' = s\<lparr>tick := Suc (tick s)\<rparr>"
  by (auto simp: now_rfc3339_def now_def bindK_Inr)

lemma transaction_Inr: "transaction k body s = (Inr x, s') \<longleftrightarrow>
    (\<exists>s1. \<not> db_fault k (tick s) \<and> body (s\<lparr>tick := Suc (tick s)\<rparr>) = (Inr x, s1) \<and>
          \<not> db_fault k (tick s1) \<and> s' = s1\<lparr>tick := Suc (tick s1)\<rparr>)"
  by (auto simp: transaction_def Let_def seqK_Inr bindK_Inr stmt_Inr split: sum.splits prod.splits)
    (auto simp: stmt_def Let_def seqK_def bindK_def retK_def split: if_splits sum.splits prod.splits)

lemmas run_inv = bindK_Inr seqK_Inr stmt_Inr query_Inr update_stmt_Inr new_id_Inr now_rfc3339_Inr
  transaction_Inr

text \<open>An error inside a transaction, or at its ends, leaves the database as it was.\<close>

lemma transaction_Inl: "transaction k body s = (Inl e, s') \<Longrightarrow> db s' = db s"
  by (auto simp: transaction_def Let_def split: sum.splits prod.splits)

section \<open>Running without faults\<close>

definition reliable :: "kernel \<Rightarrow> bool" where
  "reliable k \<longleftrightarrow> (\<forall>n. \<not> db_fault k n)"

lemma reliableD [simp]: "reliable k \<Longrightarrow> \<not> db_fault k n"
  by (simp add: reliable_def)

lemma run_simps:
  "retK x s = (Inr x, s)"
  "failK e s = (Inl e, s)"
  "guardK True e s = (Inr (), s)"
  "guardK False e s = (Inl e, s)"
  "someK e (Some x) s = (Inr x, s)"
  "someK e None s = (Inl e, s)"
  "resK (Inr x) s = (Inr x, s)"
  "resK (Inl e) s = (Inl e, s)"
  "m s = (Inr x, s1) \<Longrightarrow> bindK m f s = f x s1"
  "m s = (Inl e, s1) \<Longrightarrow> bindK m f s = (Inl e, s1)"
  "m' s = (Inr y, s1) \<Longrightarrow> seqK m' m'' s = m'' s1"
  "m' s = (Inl e, s1) \<Longrightarrow> seqK m' m'' s = (Inl e, s1)"
  "new_id k s = (Inr (uuid_at k (tick s)), s\<lparr>tick := Suc (tick s)\<rparr>)"
  "now_rfc3339 k s = (Inr (rfc3339 k (now_at k (tick s))), s\<lparr>tick := Suc (tick s)\<rparr>)"
  by (simp_all add: retK_def failK_def guardK_def someK_def resK_def bindK_def seqK_def new_id_def
      now_rfc3339_def now_def)

lemma run_stmt:
  "reliable k \<Longrightarrow> query k q s = (Inr (q (db s)), s\<lparr>tick := Suc (tick s)\<rparr>)"
  "reliable k \<Longrightarrow> update_stmt k u s = (Inr (), s\<lparr>tick := Suc (tick s), db := u (db s)\<rparr>)"
  "reliable k \<Longrightarrow> p (db s) = Inr (x, d) \<Longrightarrow> stmt k p s = (Inr x, s\<lparr>tick := Suc (tick s), db := d\<rparr>)"
  "reliable k \<Longrightarrow> p (db s) = Inl se \<Longrightarrow> stmt k p s = (Inl (map_db_err se), s\<lparr>tick := Suc (tick s)\<rparr>)"
  by (simp_all add: query_def update_stmt_def stmt_def Let_def)

lemma run_transaction:
  "reliable k \<Longrightarrow> body (s\<lparr>tick := Suc (tick s)\<rparr>) = (Inr x, s1) \<Longrightarrow>
     transaction k body s = (Inr x, s1\<lparr>tick := Suc (tick s1)\<rparr>)"
  by (simp add: transaction_Inr)

end
