(* ===== verification/Frames.thy ===== *)
theory Frames
  imports Store
begin

text \<open>
  What a kernel program may do to the database, whatever its result and whatever the environment
  does: \<open>keeps R m\<close> says that every run of \<open>m\<close> relates the database before to the database after
  by \<open>R\<close>. The locale \<open>db_frame\<close> is the interface a relation has to offer (a preorder) for the
  composition rules of kernel programs to hold; \<open>denial_frame\<close> adds that a permission denial may
  be logged, which is the one effect of every authorized read. The relations the properties use
  are defined at the end, each with its interpretation.
\<close>

definition keeps :: "(database \<Rightarrow> database \<Rightarrow> bool) \<Rightarrow> 'a kern \<Rightarrow> bool" where
  "keeps R m \<longleftrightarrow> (\<forall>s. R (db s) (db (snd (m s))))"

lemma keepsI: "(\<And>s r s'. m s = (r, s') \<Longrightarrow> R (db s) (db s')) \<Longrightarrow> keeps R m"
  by (simp add: keeps_def) (metis prod.collapse)

lemma keepsD: "keeps R m \<Longrightarrow> m s = (r, s') \<Longrightarrow> R (db s) (db s')"
  by (metis keeps_def snd_conv)

lemma keeps_if [frame_rules]:
  "(b \<Longrightarrow> keeps R m) \<Longrightarrow> (\<not> b \<Longrightarrow> keeps R m') \<Longrightarrow> keeps R (if b then m else m')"
  by simp

lemma keeps_case_option [frame_rules]:
  "(o' = None \<Longrightarrow> keeps R m) \<Longrightarrow> (\<And>x. o' = Some x \<Longrightarrow> keeps R (f x)) \<Longrightarrow>
     keeps R (case o' of None \<Rightarrow> m | Some x \<Rightarrow> f x)"
  by (cases o') simp_all

lemma keeps_case_sum [frame_rules]:
  "(\<And>x. r = Inl x \<Longrightarrow> keeps R (f x)) \<Longrightarrow> (\<And>y. r = Inr y \<Longrightarrow> keeps R (g y)) \<Longrightarrow>
     keeps R (case r of Inl x \<Rightarrow> f x | Inr y \<Rightarrow> g y)"
  by (cases r) simp_all

lemma keeps_case_prod [frame_rules]:
  "(\<And>x y. p = (x, y) \<Longrightarrow> keeps R (f x y)) \<Longrightarrow> keeps R (case p of (x, y) \<Rightarrow> f x y)"
  by (cases p) simp

lemma keeps_Let [frame_rules]: "(\<And>x. x = t \<Longrightarrow> keeps R (f x)) \<Longrightarrow> keeps R (let x = t in f x)"
  by (simp add: Let_def)

section \<open>The interfaces\<close>

locale db_frame =
  fixes R :: "database \<Rightarrow> database \<Rightarrow> bool"
  assumes frame_refl: "R d d"
    and frame_trans: "R d d' \<Longrightarrow> R d' d'' \<Longrightarrow> R d d''"
begin

lemma keeps_retK [frame_rules]: "keeps R (retK x)"
  by (simp add: keeps_def retK_def frame_refl)

lemma keeps_failK [frame_rules]: "keeps R (failK e)"
  by (simp add: keeps_def failK_def frame_refl)

lemma keeps_bindK [frame_rules]:
  assumes "keeps R m" "\<And>x. keeps R (f x)"
  shows "keeps R (bindK m f)"
  unfolding keeps_def
proof
  fix s
  obtain r s1 where m: "m s = (r, s1)" by force
  with assms(1) have 1: "R (db s) (db s1)" by (rule keepsD)
  show "R (db s) (db (snd (bindK m f s)))"
  proof (cases r)
    case (Inl e)
    with m 1 show ?thesis by (simp add: bindK_def)
  next
    case (Inr x)
    have "R (db s1) (db (snd (f x s1)))" using assms(2) by (simp add: keeps_def)
    with 1 m Inr show ?thesis by (auto simp: bindK_def intro: frame_trans)
  qed
qed

lemma keeps_seqK [frame_rules]: "keeps R m \<Longrightarrow> keeps R m' \<Longrightarrow> keeps R (seqK m m')"
  by (simp add: seqK_def keeps_bindK)

lemma keeps_ignoreK [frame_rules]: "keeps R m \<Longrightarrow> keeps R (ignoreK m)"
  by (simp add: keeps_def ignoreK_def)

lemma keeps_matchK [frame_rules]:
  assumes "keeps R m" "\<And>e. keeps R (h e)" "\<And>x. keeps R (f x)"
  shows "keeps R (matchK m h f)"
  unfolding keeps_def
proof
  fix s
  obtain r s1 where m: "m s = (r, s1)" by force
  with assms(1) have 1: "R (db s) (db s1)" by (rule keepsD)
  have "R (db s1) (db (snd (h e s1)))" "R (db s1) (db (snd (f x s1)))" for e x
    using assms(2,3) by (simp_all add: keeps_def)
  with 1 m show "R (db s) (db (snd (matchK m h f s)))"
    by (cases r) (auto simp: matchK_def intro: frame_trans)
qed

lemma keeps_guardK [frame_rules]: "keeps R (guardK b e)"
  by (simp add: guardK_def keeps_retK keeps_failK)

lemma keeps_someK [frame_rules]: "keeps R (someK e o')"
  by (simp add: someK_def keeps_retK keeps_failK split: option.splits)

lemma keeps_resK [frame_rules]: "keeps R (resK r)"
  by (simp add: resK_def keeps_retK keeps_failK split: sum.splits)

lemma keeps_forK [frame_rules]: "(\<And>x. keeps R (f x)) \<Longrightarrow> keeps R (forK f xs)"
  by (induction xs) (simp_all add: keeps_retK keeps_seqK)

lemma keeps_mapK [frame_rules]: "(\<And>x. keeps R (f x)) \<Longrightarrow> keeps R (mapK f xs)"
  by (induction xs) (simp_all add: keeps_retK keeps_bindK)

lemma keeps_new_id [frame_rules]: "keeps R (new_id k)"
  by (simp add: keeps_def new_id_def frame_refl)

lemma keeps_now [frame_rules]: "keeps R (now k)"
  by (simp add: keeps_def now_def frame_refl)

lemma keeps_now_rfc3339 [frame_rules]: "keeps R (now_rfc3339 k)"
  by (simp add: now_rfc3339_def keeps_bindK keeps_now keeps_retK)

lemma keeps_query [frame_rules]: "keeps R (query k q)"
  by (simp add: keeps_def query_def stmt_def Let_def frame_refl)

lemma keeps_stmt [frame_rules]:
  "(\<And>d x d'. q d = Inr (x, d') \<Longrightarrow> R d d') \<Longrightarrow> keeps R (stmt k q)"
  by (auto simp: keeps_def stmt_def Let_def frame_refl split: sum.splits)

lemma keeps_update_stmt [frame_rules]: "(\<And>d. R d (u d)) \<Longrightarrow> keeps R (update_stmt k u)"
  unfolding update_stmt_def by (rule keeps_stmt) auto

text \<open>A transaction keeps what its successful body keeps: the other runs are rolled back.\<close>

lemma keeps_transaction:
  assumes "\<And>s x s'. body s = (Inr x, s') \<Longrightarrow> R (db s) (db s')"
  shows "keeps R (transaction k body)"
proof (rule keepsI)
  fix s r s'
  assume run: "transaction k body s = (r, s')"
  show "R (db s) (db s')"
  proof (cases r)
    case (Inl e)
    with run show ?thesis by (auto dest: transaction_Inl simp: frame_refl)
  next
    case (Inr x)
    with run show ?thesis by (auto simp: transaction_Inr dest: assms)
  qed
qed

lemma keeps_transaction_body [frame_rules]: "keeps R body \<Longrightarrow> keeps R (transaction k body)"
  by (rule keeps_transaction) (rule keepsD)

end

text \<open>The one write of an authorized read: a denial of the tenant \<open>t\<close> in the audit log.\<close>

definition log_audit :: "audit_event \<Rightarrow> database \<Rightarrow> database" where
  "log_audit ev d = d\<lparr>audit_logs := audit_logs d @ [ev]\<rparr>"

locale denial_frame = db_frame +
  fixes t :: string
  assumes denial: "a_tenant_id ev = t \<Longrightarrow> a_action ev = ''permission.denied'' \<Longrightarrow>
      a_id ev \<notin> a_id ` set (audit_logs d) \<Longrightarrow> R d (log_audit ev d)"

text \<open>The identifiers of the audit log stay distinct, as its primary key requires.\<close>

definition log_ids_kept :: "database \<Rightarrow> database \<Rightarrow> bool" where
  "log_ids_kept d d' \<longleftrightarrow>
     (distinct (map a_id (audit_logs d)) \<longrightarrow> distinct (map a_id (audit_logs d')))"

lemma log_ids_kept_same [simp]: "audit_logs d' = audit_logs d \<Longrightarrow> log_ids_kept d d'"
  by (simp add: log_ids_kept_def)

lemma log_ids_kept_trans: "log_ids_kept d d' \<Longrightarrow> log_ids_kept d' d'' \<Longrightarrow> log_ids_kept d d''"
  by (simp add: log_ids_kept_def)

lemma log_ids_kept_log [simp]: "a_id ev \<notin> a_id ` set (audit_logs d) \<Longrightarrow> log_ids_kept d (log_audit ev d)"
  by (simp add: log_ids_kept_def log_audit_def)

section \<open>The relations\<close>

text \<open>Everything but the audit log.\<close>

definition business :: "database \<Rightarrow> database" where
  "business d = d\<lparr>audit_logs := []\<rparr>"

text \<open>Only permission denials of the tenant have been logged, nothing else has changed.\<close>

definition only_denials :: "string \<Rightarrow> database \<Rightarrow> database \<Rightarrow> bool" where
  "only_denials t d d' \<longleftrightarrow>
     (\<exists>new. d' = d\<lparr>audit_logs := audit_logs d @ new\<rparr> \<and>
            (\<forall>ev\<in>set new. a_tenant_id ev = t \<and> a_action ev = ''permission.denied'')) \<and>
     log_ids_kept d d'"

text \<open>
  The audit log is append-only, and whenever anything else changed, an event other than a denial
  has been appended.
\<close>

definition audited :: "database \<Rightarrow> database \<Rightarrow> bool" where
  "audited d d' \<longleftrightarrow>
     (\<exists>new. audit_logs d' = audit_logs d @ new \<and>
            (business d' \<noteq> business d \<longrightarrow> (\<exists>ev\<in>set new. a_action ev \<noteq> ''permission.denied'')))"

text \<open>No row that belongs to another tenant has been added, changed, removed or reordered.\<close>

definition others :: "('a \<Rightarrow> string) \<Rightarrow> string \<Rightarrow> 'a list \<Rightarrow> 'a list" where
  "others tenant t xs = filter (\<lambda>x. tenant x \<noteq> t) xs"

definition isolated :: "string \<Rightarrow> database \<Rightarrow> database \<Rightarrow> bool" where
  "isolated t d d' \<longleftrightarrow>
     others tn_id t (tenants d') = others tn_id t (tenants d) \<and>
     others og_tenant_id t (organizations d') = others og_tenant_id t (organizations d) \<and>
     others wk_tenant_id t (workspaces d') = others wk_tenant_id t (workspaces d) \<and>
     others us_tenant_id t (users d') = others us_tenant_id t (users d) \<and>
     others sa_tenant_id t (service_accounts d') = others sa_tenant_id t (service_accounts d) \<and>
     others ro_tenant_id t (roles d') = others ro_tenant_id t (roles d) \<and>
     others ra_tenant_id t (role_assignments d') = others ra_tenant_id t (role_assignments d) \<and>
     others ak_tenant_id t (api_keys d') = others ak_tenant_id t (api_keys d) \<and>
     others ss_tenant_id t (sessions d') = others ss_tenant_id t (sessions d) \<and>
     others ob_tenant_id t (object_types d') = others ob_tenant_id t (object_types d) \<and>
     others bf_tenant_id t (builder_drafts d') = others bf_tenant_id t (builder_drafts d) \<and>
     others r_tenant_id t (records d') = others r_tenant_id t (records d) \<and>
     others rl_tenant_id t (relations d') = others rl_tenant_id t (relations d) \<and>
     others wr_tenant_id t (workflows d') = others wr_tenant_id t (workflows d) \<and>
     others tk_tenant_id t (tasks d') = others tk_tenant_id t (tasks d) \<and>
     others ap_tenant_id t (approvals d') = others ap_tenant_id t (approvals d) \<and>
     others a_tenant_id t (audit_logs d') = others a_tenant_id t (audit_logs d) \<and>
     others ev_tenant_id t (events d') = others ev_tenant_id t (events d) \<and>
     others rp_tenant_id t (reports d') = others rp_tenant_id t (reports d) \<and>
     others dr_tenant_id t (dashboards d') = others dr_tenant_id t (dashboards d) \<and>
     others um_tenant_id t (usage_meters d') = others um_tenant_id t (usage_meters d) \<and>
     others se_tenant_id t (migration_sessions d') = others se_tenant_id t (migration_sessions d)"

lemma others_append [simp]: "others ten t (xs @ ys) = others ten t xs @ others ten t ys"
  by (simp add: others_def)

lemma others_single [simp]: "others ten t [x] = (if ten x = t then [] else [x])"
  by (simp add: others_def)

lemma others_Nil [simp]: "others ten t [] = []"
  by (simp add: others_def)

lemma others_upd_where:
  assumes "\<And>x. P x \<Longrightarrow> ten x = t" and "\<And>x. P x \<Longrightarrow> ten (f x) = t"
  shows "others ten t (upd_where P f xs) = others ten t xs"
  unfolding others_def by (rule filter_upd_where) (use assms in auto)

lemma isolated_refl [simp]: "isolated t d d"
  by (simp add: isolated_def)

section \<open>Interpretations\<close>

interpretation only_denials: denial_frame "only_denials t" t for t
proof unfold_locales
  show "only_denials t d d" for d
    by (auto simp: only_denials_def intro!: exI [of _ "[]"])
  show "only_denials t d d''" if "only_denials t d d'" "only_denials t d' d''" for d d' d''
  proof -
    from that(1) obtain n1 where 1: "d' = d\<lparr>audit_logs := audit_logs d @ n1\<rparr>"
      "\<forall>ev\<in>set n1. a_tenant_id ev = t \<and> a_action ev = ''permission.denied''"
      unfolding only_denials_def by blast
    from that(2) obtain n2 where 2: "d'' = d'\<lparr>audit_logs := audit_logs d' @ n2\<rparr>"
      "\<forall>ev\<in>set n2. a_tenant_id ev = t \<and> a_action ev = ''permission.denied''"
      unfolding only_denials_def by blast
    from 1 2 show ?thesis
      using that unfolding only_denials_def
      by (intro conjI exI [of _ "n1 @ n2"]) (auto intro: log_ids_kept_trans)
  qed
  show "only_denials t d (log_audit ev d)"
    if "a_tenant_id ev = t" "a_action ev = ''permission.denied''" "a_id ev \<notin> a_id ` set (audit_logs d)" for ev d
    using that by (auto simp: only_denials_def log_audit_def log_ids_kept_def)
qed

interpretation audited: denial_frame audited t for t
proof unfold_locales
  show "audited d d" for d
    by (simp add: audited_def)
  show "audited d d''" if "audited d d'" "audited d' d''" for d d' d''
  proof -
    from that(1) obtain n1 where 1: "audit_logs d' = audit_logs d @ n1"
      "business d' \<noteq> business d \<Longrightarrow> \<exists>ev\<in>set n1. a_action ev \<noteq> ''permission.denied''"
      unfolding audited_def by blast
    from that(2) obtain n2 where 2: "audit_logs d'' = audit_logs d' @ n2"
      "business d'' \<noteq> business d' \<Longrightarrow> \<exists>ev\<in>set n2. a_action ev \<noteq> ''permission.denied''"
      unfolding audited_def by blast
    have "\<exists>ev\<in>set (n1 @ n2). a_action ev \<noteq> ''permission.denied''" if "business d'' \<noteq> business d"
      using 1(2) 2(2) that by (cases "business d' = business d") auto
    with 1(1) 2(1) show ?thesis
      unfolding audited_def by (intro exI [of _ "n1 @ n2"]) simp
  qed
  show "audited d (log_audit ev d)"
    if "a_tenant_id ev = t" "a_action ev = ''permission.denied''" for ev d
    by (simp add: audited_def log_audit_def business_def)
qed

interpretation isolated: denial_frame "isolated t" t for t
  by unfold_locales (simp_all add: isolated_def log_audit_def)

text \<open>A change together with a logged event is audited.\<close>

lemma audited_log: "a_action ev \<noteq> ''permission.denied'' \<Longrightarrow> audit_logs d' = audit_logs d @ [ev] \<Longrightarrow> audited d d'"
  by (auto simp: audited_def)

lemma only_denials_isolated: "only_denials t d d' \<Longrightarrow> isolated t d d'"
  by (auto simp: only_denials_def isolated_def others_def)

lemma only_denials_audited: "only_denials t d d' \<Longrightarrow> audited d d'"
  by (auto simp: only_denials_def audited_def business_def)

lemma keeps_mono: "keeps R m \<Longrightarrow> (\<And>d d'. R d d' \<Longrightarrow> R' d d') \<Longrightarrow> keeps R' m"
  by (simp add: keeps_def)

lemma log_audit_simps [simp]:
  "audit_logs (log_audit ev d) = audit_logs d @ [ev]"
  "records (log_audit ev d) = records d"
  "tasks (log_audit ev d) = tasks d"
  "approvals (log_audit ev d) = approvals d"
  "events (log_audit ev d) = events d"
  "roles (log_audit ev d) = roles d"
  "object_types (log_audit ev d) = object_types d"
  "workflows (log_audit ev d) = workflows d"
  "relations (log_audit ev d) = relations d"
  "tenants (log_audit ev d) = tenants d"
  "migration_sessions (log_audit ev d) = migration_sessions d"
  by (simp_all add: log_audit_def)

end
