(* ===== verification/AuditLog.thy ===== *)
theory AuditLog
  imports Frames
begin

text \<open>
  The audit service (\<open>kernel/src/audit.rs\<close>) and the event bus (\<open>kernel/src/event.rs\<close>): building
  and inserting audit events, the best-effort log of a denial, and the domain events that
  mutations emit. \<open>audit_query\<close> needs the authorization decision and is in the theory \<open>Rbac\<close>.
\<close>

section \<open>Column encodings\<close>

fun actor_type_str :: "actor_type \<Rightarrow> string" where
  "actor_type_str User = ''user''"
| "actor_type_str ServiceAccount = ''service_account''"
| "actor_type_str Agent = ''agent''"
| "actor_type_str System = ''system''"

fun source_str :: "source \<Rightarrow> string" where
  "source_str SrcApi = ''api''"
| "source_str SrcAdminUi = ''admin_ui''"
| "source_str SrcAgent = ''agent''"
| "source_str SrcSystem = ''system''"
| "source_str SrcSeed = ''seed''"

text \<open>The two \<open>match\<close> expressions of \<open>row_to_event\<close>.\<close>

definition actor_type_of_column :: "string \<Rightarrow> actor_type" where
  "actor_type_of_column s =
     (if s = ''user'' then User
      else if s = ''service_account'' then ServiceAccount
      else if s = ''agent'' then Agent
      else System)"

definition source_of_column :: "string \<Rightarrow> source" where
  "source_of_column s =
     (if s = ''admin_ui'' then SrcAdminUi
      else if s = ''agent'' then SrcAgent
      else if s = ''seed'' then SrcSeed
      else if s = ''system'' then SrcSystem
      else SrcApi)"

lemma actor_type_column_roundtrip: "actor_type_of_column (actor_type_str a) = a"
  by (cases a) (simp_all add: actor_type_of_column_def)

lemma source_column_roundtrip: "source_of_column (source_str s) = s"
  by (cases s) (simp_all add: source_of_column_def)

section \<open>Audit events\<close>

definition event_from ::
  "kernel \<Rightarrow> auth_context \<Rightarrow> string \<Rightarrow> string option \<Rightarrow> string option \<Rightarrow> json option \<Rightarrow> json option
   \<Rightarrow> audit_event kern" where
  "event_from k ctx action target_object_type target_record_id prev after =
     bindK (new_id k) (\<lambda>id.
     bindK (now_rfc3339 k) (\<lambda>ts.
     retK \<lparr>a_id = id, a_tenant_id = tenant_id ctx, a_org_id = Some (org_id ctx),
           a_actor_type = actor_type ctx, a_actor_id = actor_id ctx, a_action = action,
           a_target_object_type = target_object_type, a_target_record_id = target_record_id,
           a_before = prev, a_after = after, a_request_id = request_id ctx, a_reason = None,
           a_source = source ctx, a_timestamp = ts, a_client_meta = None, a_ai_meta = None,
           a_retrieved_source_ids = [], a_risk_score = None, a_approval_id = None\<rparr>))"

definition insert_audit :: "kernel \<Rightarrow> audit_event \<Rightarrow> unit kern" where
  "insert_audit k ev =
     stmt k (\<lambda>d. sql_insert (a_id ev \<notin> a_id ` set (audit_logs d)) True (log_audit ev d))"

text \<open>\<open>Kernel::audit\<close> acquires a pooled connection first.\<close>

definition audit :: "kernel \<Rightarrow> audit_event \<Rightarrow> unit kern" where
  "audit k ev = seqK (query k (\<lambda>_. ())) (insert_audit k ev)"

definition audit_denial ::
  "kernel \<Rightarrow> auth_context \<Rightarrow> string \<Rightarrow> string \<Rightarrow> string option \<Rightarrow> unit kern" where
  "audit_denial k ctx action resource target_record_id =
     bindK (event_from k ctx ''permission.denied'' (Some resource) target_record_id None None)
       (\<lambda>ev. ignoreK (audit k
          (ev\<lparr>a_reason := Some (''denied '' @ action @ '' on '' @ resource)\<rparr>)))"

text \<open>An event built from the context and inserted at once, as the mutations do.\<close>

definition audit_change ::
  "kernel \<Rightarrow> auth_context \<Rightarrow> string \<Rightarrow> string option \<Rightarrow> string option \<Rightarrow> json option \<Rightarrow> json option
   \<Rightarrow> (audit_event \<Rightarrow> audit_event) \<Rightarrow> unit kern" where
  "audit_change k ctx action ty target prev after decorate =
     bindK (event_from k ctx action ty target prev after) (\<lambda>ev. insert_audit k (decorate ev))"

lemma event_from_Inr: "event_from k ctx act ty target prev after s = (Inr ev, s') \<longleftrightarrow>
    s' = s\<lparr>tick := tick s + 2\<rparr> \<and>
    ev = \<lparr>a_id = uuid_at k (tick s), a_tenant_id = tenant_id ctx, a_org_id = Some (org_id ctx),
          a_actor_type = actor_type ctx, a_actor_id = actor_id ctx, a_action = act,
          a_target_object_type = ty, a_target_record_id = target, a_before = prev,
          a_after = after, a_request_id = request_id ctx, a_reason = None, a_source = source ctx,
          a_timestamp = rfc3339 k (now_at k (Suc (tick s))), a_client_meta = None,
          a_ai_meta = None, a_retrieved_source_ids = [], a_risk_score = None,
          a_approval_id = None\<rparr>"
  by (auto simp: event_from_def run_inv)

lemma insert_audit_Inr: "insert_audit k ev s = (Inr x, s') \<longleftrightarrow>
    \<not> db_fault k (tick s) \<and> a_id ev \<notin> a_id ` set (audit_logs (db s)) \<and>
    s' = s\<lparr>tick := Suc (tick s), db := log_audit ev (db s)\<rparr>"
  by (auto simp: insert_audit_def run_inv)

section \<open>Domain events\<close>

definition emit_on :: "kernel \<Rightarrow> auth_context \<Rightarrow> string \<Rightarrow> json \<Rightarrow> unit kern" where
  "emit_on k ctx kind payload =
     bindK (new_id k) (\<lambda>id.
     bindK (now_rfc3339 k) (\<lambda>ts.
     stmt k (\<lambda>d. sql_insert (id \<notin> ev_id ` set (events d)) True
       (d\<lparr>events := events d @
            [\<lparr>ev_id = id, ev_tenant_id = tenant_id ctx, ev_org_id = Some (org_id ctx),
              ev_kind = kind, ev_payload = payload, ev_created_at = ts,
              ev_processed = False\<rparr>]\<rparr>))))"

definition emit_event :: "kernel \<Rightarrow> auth_context \<Rightarrow> string \<Rightarrow> json \<Rightarrow> unit kern" where
  "emit_event k ctx kind payload = seqK (query k (\<lambda>_. ())) (emit_on k ctx kind payload)"

definition pending_events :: "kernel \<Rightarrow> auth_context \<Rightarrow> 64 word \<Rightarrow> event_t list kern" where
  "pending_events k ctx limit =
     query k (\<lambda>d. take (unat (sclamp 1 500 limit))
       (sort_key ev_created_at
          (filter (\<lambda>e. ev_tenant_id e = tenant_id ctx \<and> \<not> ev_processed e) (events d))))"

definition mark_event_processed :: "kernel \<Rightarrow> string \<Rightarrow> unit kern" where
  "mark_event_processed k eid =
     update_stmt k (\<lambda>d. d\<lparr>events :=
       upd_where (\<lambda>e. ev_id e = eid) (\<lambda>e. e\<lparr>ev_processed := True\<rparr>) (events d)\<rparr>)"

lemma emit_on_Inr: "emit_on k ctx kind payload s = (Inr x, s') \<longleftrightarrow>
    \<not> db_fault k (tick s + 2) \<and> uuid_at k (tick s) \<notin> ev_id ` set (events (db s)) \<and>
    s' = s\<lparr>tick := tick s + 3, db := (db s)\<lparr>events := events (db s) @
            [\<lparr>ev_id = uuid_at k (tick s), ev_tenant_id = tenant_id ctx,
              ev_org_id = Some (org_id ctx), ev_kind = kind, ev_payload = payload,
              ev_created_at = rfc3339 k (now_at k (Suc (tick s))), ev_processed = False\<rparr>]\<rparr>\<rparr>"
  by (auto simp: emit_on_def run_inv)

section \<open>The tail of a mutation\<close>

lemma audit_change_Inr:
  assumes "audit_change k ctx act ty target prev after decorate s = (Inr x, s')"
  obtains ev where "db s' = log_audit (decorate ev) (db s)" "a_action ev = act"
    "a_tenant_id ev = tenant_id ctx" "a_actor_id ev = actor_id ctx" "a_target_object_type ev = ty"
    "a_target_record_id ev = target" "a_before ev = prev" "a_after ev = after"
  using assms by (auto simp: audit_change_def bindK_Inr event_from_Inr insert_audit_Inr)

lemma emit_on_tables:
  assumes "emit_on k ctx kind payload s = (Inr x, s')"
  obtains e where "db s' = (db s)\<lparr>events := events (db s) @ [e]\<rparr>" "ev_kind e = kind"
     "ev_payload e = payload" "ev_tenant_id e = tenant_id ctx"
  using assms by (auto simp: emit_on_Inr)

text \<open>A transaction that makes a change, logs it and emits an event.\<close>

lemma tx_audit_emit_Inr:
  assumes "transaction k (seqK m (seqK (audit_change k ctx act ty target prev after decorate)
             (emit_on k ctx kind payload))) s = (Inr x, s')"
  obtains s1 y s2 ev e where "db s1 = db s" "m s1 = (Inr y, s2)"
    "db s' = (log_audit (decorate ev) (db s2))\<lparr>events := events (db s2) @ [e]\<rparr>"
    "a_action ev = act" "a_tenant_id ev = tenant_id ctx" "a_actor_id ev = actor_id ctx"
    "a_target_record_id ev = target" "a_before ev = prev" "a_after ev = after"
proof -
  from assms obtain y s2 s3 s4 where
    m: "m (s\<lparr>tick := Suc (tick s)\<rparr>) = (Inr y, s2)" and
    a: "audit_change k ctx act ty target prev after decorate s2 = (Inr (), s3)" and
    e: "emit_on k ctx kind payload s3 = (Inr x, s4)" and s': "db s' = db s4"
    by (auto simp: transaction_Inr seqK_Inr)
  show thesis
    by (rule audit_change_Inr [OF a], rule emit_on_tables [OF e],
        rule that [of "s\<lparr>tick := Suc (tick s)\<rparr>" y s2]) (use s' m in auto)
qed

section \<open>What the services keep\<close>

context db_frame begin

lemma keeps_event_from [frame_rules]:
  "keeps R (event_from k ctx act ty target prev after)"
  unfolding event_from_def by (intro frame_rules)

end

text \<open>The denial is logged for the tenant of the context, or not at all.\<close>

context denial_frame begin

lemma keeps_audit_denial [frame_rules]:
  assumes "tenant_id ctx = t"
  shows "keeps R (audit_denial k ctx act res target)"
proof (rule keepsI)
  fix s r s'
  assume run: "audit_denial k ctx act res target s = (r, s')"
  obtain ev where ev: "event_from k ctx ''permission.denied'' (Some res) target None None s
      = (Inr ev, s\<lparr>tick := tick s + 2\<rparr>)"
    and "a_tenant_id ev = t" "a_action ev = ''permission.denied''"
    using assms by (auto simp: event_from_Inr)
  let ?ev = "ev\<lparr>a_reason := Some (''denied '' @ act @ '' on '' @ res)\<rparr>"
  have "keeps R (audit k ?ev)"
    unfolding audit_def insert_audit_def
    using \<open>a_tenant_id ev = t\<close> \<open>a_action ev = _\<close>
    by (intro frame_rules keeps_seqK keeps_query keeps_stmt) (auto intro: denial)
  then have "R (db (s\<lparr>tick := tick s + 2\<rparr>)) (db (snd (audit k ?ev (s\<lparr>tick := tick s + 2\<rparr>))))"
    unfolding keeps_def by blast
  then show "R (db s) (db s')"
    using run ev by (auto simp: audit_denial_def bindK_def ignoreK_def)
qed

end

section \<open>Programs that log, and programs that do not\<close>

definition same_log :: "database \<Rightarrow> database \<Rightarrow> bool" where
  "same_log d d' \<longleftrightarrow> audit_logs d' = audit_logs d"

interpretation same_log: db_frame same_log
  by unfold_locales (simp_all add: same_log_def)

text \<open>Every successful run appends events to the audit log, one of which is not a denial.\<close>

definition logs :: "'a kern \<Rightarrow> bool" where
  "logs m \<longleftrightarrow> (\<forall>s x s'. m s = (Inr x, s') \<longrightarrow>
     (\<exists>new. audit_logs (db s') = audit_logs (db s) @ new \<and>
            (\<exists>ev\<in>set new. a_action ev \<noteq> ''permission.denied'')))"

lemma logsD: "logs m \<Longrightarrow> m s = (Inr x, s') \<Longrightarrow> audited (db s) (db s')"
  unfolding logs_def audited_def by blast

lemma logs_bind_first:
  assumes "logs m" "\<And>x. keeps same_log (f x)"
  shows "logs (bindK m f)"
proof (unfold logs_def, intro allI impI)
  fix s y s'
  assume "bindK m f s = (Inr y, s')"
  then obtain x s1 where 1: "m s = (Inr x, s1)" "f x s1 = (Inr y, s')" by (auto simp: bindK_Inr)
  with assms(2) have "audit_logs (db s') = audit_logs (db s1)"
    using keepsD [of same_log "f x"] by (auto simp: same_log_def)
  with 1(1) assms(1) show "\<exists>new. audit_logs (db s') = audit_logs (db s) @ new \<and>
      (\<exists>ev\<in>set new. a_action ev \<noteq> ''permission.denied'')"
    unfolding logs_def by auto
qed

lemma logs_bind_second:
  assumes "keeps same_log m" "\<And>x. logs (f x)"
  shows "logs (bindK m f)"
proof (unfold logs_def, intro allI impI)
  fix s y s'
  assume "bindK m f s = (Inr y, s')"
  then obtain x s1 where 1: "m s = (Inr x, s1)" "f x s1 = (Inr y, s')" by (auto simp: bindK_Inr)
  from 1(1) assms(1) have "audit_logs (db s1) = audit_logs (db s)"
    using keepsD [of same_log m] by (auto simp: same_log_def)
  with 1(2) assms(2) [of x] show "\<exists>new. audit_logs (db s') = audit_logs (db s) @ new \<and>
      (\<exists>ev\<in>set new. a_action ev \<noteq> ''permission.denied'')"
    unfolding logs_def by fastforce
qed

lemma logs_seq_first: "logs m \<Longrightarrow> keeps same_log m' \<Longrightarrow> logs (seqK m m')"
  unfolding seqK_def by (rule logs_bind_first)

lemma logs_seq_second: "keeps same_log m \<Longrightarrow> logs m' \<Longrightarrow> logs (seqK m m')"
  unfolding seqK_def by (rule logs_bind_second)

lemma logs_audit_change:
  assumes "act \<noteq> ''permission.denied''" "\<And>ev. a_action (decorate ev) = a_action ev"
  shows "logs (audit_change k ctx act ty target prev after decorate)"
  unfolding logs_def audit_change_def
  using assms by (auto simp: bindK_Inr insert_audit_Inr event_from_Inr)

text \<open>The audit log only ever grows at its end.\<close>

definition appends :: "database \<Rightarrow> database \<Rightarrow> bool" where
  "appends d d' \<longleftrightarrow> (\<exists>new. audit_logs d' = audit_logs d @ new)"

interpretation appends: denial_frame appends t for t
  by unfold_locales (auto simp: appends_def)

lemma audited_appends: "audited d d' \<Longrightarrow> appends d d'"
  by (auto simp: audited_def appends_def)

lemma same_log_appends: "same_log d d' \<Longrightarrow> appends d d'"
  by (simp add: same_log_def appends_def)

lemma keeps_appends: "keeps audited m \<Longrightarrow> keeps appends m" "keeps same_log m \<Longrightarrow> keeps appends m"
  by (blast intro: keeps_mono audited_appends same_log_appends)+

text \<open>After a logged change, further writes need no event of their own.\<close>

lemma keeps_audited_bind_logged:
  assumes "keeps audited m" "logs m" "\<And>x. keeps appends (f x)"
  shows "keeps audited (bindK m f)"
proof (rule keepsI)
  fix s r s'
  assume run: "bindK m f s = (r, s')"
  obtain q s1 where m: "m s = (q, s1)" by force
  show "audited (db s) (db s')"
  proof (cases q)
    case (Inl e)
    with run m assms(1) show ?thesis by (auto simp: bindK_def dest: keepsD)
  next
    case (Inr x)
    with m assms(2) obtain new where 1: "audit_logs (db s1) = audit_logs (db s) @ new"
      "\<exists>ev\<in>set new. a_action ev \<noteq> ''permission.denied''" unfolding logs_def by blast
    from run m Inr have "f x s1 = (r, s')" by (simp add: bindK_def)
    with assms(3) have "appends (db s1) (db s')" by (rule keepsD)
    with 1 show ?thesis unfolding audited_def appends_def by fastforce
  qed
qed

lemma keeps_audited_seq_logged:
  "keeps audited m \<Longrightarrow> logs m \<Longrightarrow> keeps appends m' \<Longrightarrow> keeps audited (seqK m m')"
  unfolding seqK_def by (rule keeps_audited_bind_logged)

lemma logs_transaction: "logs body \<Longrightarrow> logs (transaction k body)"
  unfolding logs_def transaction_Inr by fastforce

lemma keeps_audited_transaction: "logs body \<Longrightarrow> keeps audited (transaction k body)"
  by (rule audited.keeps_transaction) (rule logsD)

lemma keeps_same_log_emit [frame_rules]: "keeps same_log (emit_on k ctx kind payload)"
  unfolding emit_on_def by (intro frame_rules) (auto simp: same_log_def)

text \<open>The writes of these services stay in the tenant of the context.\<close>

lemma keeps_isolated_audit_change [frame_rules]:
  assumes "tenant_id ctx = t" "\<And>ev. a_tenant_id (decorate ev) = a_tenant_id ev"
  shows "keeps (isolated t) (audit_change k ctx act ty target prev after decorate)"
  by (rule keepsI) (use assms in \<open>auto simp: audit_change_def bindK_def insert_audit_def stmt_def
      Let_def event_from_def new_id_def now_rfc3339_def now_def retK_def sql_insert_def
      isolated_def log_audit_def split: if_splits\<close>)

lemma keeps_isolated_emit [frame_rules]:
  "tenant_id ctx = t \<Longrightarrow> keeps (isolated t) (emit_on k ctx kind payload)"
  unfolding emit_on_def by (intro frame_rules) (auto simp: isolated_def)

lemma keeps_emit_event [frame_rules]:
  "keeps same_log (emit_event k ctx kind payload)"
  "tenant_id ctx = t \<Longrightarrow> keeps (isolated t) (emit_event k ctx kind payload)"
  unfolding emit_event_def by (intro frame_rules; simp)+

text \<open>An event written on its own, outside a transaction.\<close>

lemma keeps_audit_event:
  "a_action ev \<noteq> ''permission.denied'' \<Longrightarrow> keeps audited (audit k ev)"
  "a_tenant_id ev = t \<Longrightarrow> keeps (isolated t) (audit k ev)"
  unfolding audit_def insert_audit_def
  by (intro frame_rules; force simp: audited_def business_def log_audit_def isolated_def)+

lemma keeps_audit_fresh:
  assumes "\<And>ev. P ev \<Longrightarrow> keeps R (audit k (decorate ev))" "db_frame R"
    "\<And>s ev s'. event_from k ctx act ty target prev after s = (Inr ev, s') \<Longrightarrow> P ev"
  shows "keeps R (bindK (event_from k ctx act ty target prev after) (\<lambda>ev. audit k (decorate ev)))"
proof (rule keepsI)
  fix s r s'
  assume run: "bindK (event_from k ctx act ty target prev after) (\<lambda>ev. audit k (decorate ev)) s = (r, s')"
  obtain ev where ev: "event_from k ctx act ty target prev after s = (Inr ev, s\<lparr>tick := tick s + 2\<rparr>)"
    by (auto simp: event_from_Inr)
  with assms(3) have "P ev" by blast
  with assms(1) have "keeps R (audit k (decorate ev))" .
  moreover from run ev have "audit k (decorate ev) (s\<lparr>tick := tick s + 2\<rparr>) = (r, s')"
    by (simp add: bindK_def)
  ultimately show "R (db s) (db s')" by (auto dest: keepsD)
qed

lemma keeps_audit_now [frame_rules]:
  "act \<noteq> ''permission.denied'' \<Longrightarrow> (\<And>ev. a_action (decorate ev) = a_action ev) \<Longrightarrow>
     keeps audited (bindK (event_from k ctx act ty target prev after) (\<lambda>ev. audit k (decorate ev)))"
  "tenant_id ctx = t \<Longrightarrow> (\<And>ev. a_tenant_id (decorate ev) = a_tenant_id ev) \<Longrightarrow>
     keeps (isolated t) (bindK (event_from k ctx act ty target prev after) (\<lambda>ev. audit k (decorate ev)))"
  by (rule keeps_audit_fresh [where P = "\<lambda>ev. a_action ev = act"];
        (rule keeps_audit_event audited.db_frame_axioms)?; simp add: event_from_Inr)
     (rule keeps_audit_fresh [where P = "\<lambda>ev. a_tenant_id ev = t"];
        (rule keeps_audit_event isolated.db_frame_axioms)?; simp add: event_from_Inr)

section \<open>What an error leaves behind\<close>

text \<open>Every run that ends in an error has written at most permission denials.\<close>

definition clean_errors :: "string \<Rightarrow> 'a kern \<Rightarrow> bool" where
  "clean_errors t m \<longleftrightarrow> (\<forall>s e s'. m s = (Inl e, s') \<longrightarrow> only_denials t (db s) (db s'))"

definition never_fails :: "'a kern \<Rightarrow> bool" where
  "never_fails m \<longleftrightarrow> (\<forall>s e s'. m s \<noteq> (Inl e, s'))"

lemma clean_keeps: "keeps (only_denials t) m \<Longrightarrow> clean_errors t m"
  unfolding clean_errors_def by (auto dest: keepsD)

lemma clean_bind:
  assumes "keeps (only_denials t) m" "\<And>x. clean_errors t (f x)"
  shows "clean_errors t (bindK m f)"
proof (unfold clean_errors_def, intro allI impI)
  fix s e s'
  assume run: "bindK m f s = (Inl e, s')"
  obtain r s1 where m: "m s = (r, s1)" by force
  with assms(1) have 1: "only_denials t (db s) (db s1)" by (rule keepsD)
  show "only_denials t (db s) (db s')"
  proof (cases r)
    case (Inl e')
    with run m 1 show ?thesis by (simp add: bindK_def)
  next
    case (Inr x)
    with run m have "f x s1 = (Inl e, s')" by (simp add: bindK_def)
    with assms(2) have "only_denials t (db s1) (db s')" unfolding clean_errors_def by blast
    with 1 show ?thesis by (rule only_denials.frame_trans)
  qed
qed

lemma clean_seq: "keeps (only_denials t) m \<Longrightarrow> clean_errors t m' \<Longrightarrow> clean_errors t (seqK m m')"
  unfolding seqK_def by (rule clean_bind)

lemma clean_bind_tail:
  "clean_errors t m \<Longrightarrow> (\<And>x. never_fails (f x)) \<Longrightarrow> clean_errors t (bindK m f)"
  unfolding clean_errors_def never_fails_def bindK_def by (auto split: sum.splits prod.splits)

lemma clean_seq_tail: "clean_errors t m \<Longrightarrow> never_fails m' \<Longrightarrow> clean_errors t (seqK m m')"
  unfolding seqK_def by (rule clean_bind_tail)

lemma clean_transaction: "clean_errors t (transaction k body)"
  unfolding clean_errors_def by (auto dest!: transaction_Inl simp: only_denials.frame_refl)

lemma clean_if: "clean_errors t m \<Longrightarrow> clean_errors t m' \<Longrightarrow> clean_errors t (if b then m else m')"
  by simp

lemma clean_retK: "clean_errors t (retK x)" and clean_failK: "clean_errors t (failK e)"
  by (simp_all add: clean_errors_def retK_def failK_def only_denials.frame_refl)

lemma never_fails_retK: "never_fails (retK x)"
  by (simp add: never_fails_def retK_def)

lemma never_fails_bind: "never_fails m \<Longrightarrow> (\<And>x. never_fails (f x)) \<Longrightarrow> never_fails (bindK m f)"
  unfolding never_fails_def bindK_def by (auto split: sum.splits prod.splits)

lemma never_fails_query: "reliable k \<Longrightarrow> never_fails (query k q)"
  by (simp add: never_fails_def run_stmt)

section \<open>Runs of a denial\<close>

lemma audit_denial_result: "\<exists>s'. audit_denial k ctx act res target s = (Inr (), s')"
  by (auto simp: audit_denial_def bindK_def event_from_def new_id_def now_rfc3339_def now_def
      retK_def ignoreK_def)

text \<open>Without faults, and with an unused identifier, the denial is logged.\<close>

lemma audit_denial_run:
  assumes "reliable k" and "uuid_at k (tick s) \<notin> a_id ` set (audit_logs (db s))"
  shows "\<exists>ev s'. audit_denial k ctx act res target s = (Inr (), s') \<and>
           db s' = log_audit ev (db s) \<and> a_tenant_id ev = tenant_id ctx \<and>
           a_actor_id ev = actor_id ctx \<and> a_action ev = ''permission.denied'' \<and>
           a_target_object_type ev = Some res \<and> a_target_record_id ev = target"
proof -
  obtain ev where ev: "event_from k ctx ''permission.denied'' (Some res) target None None s
      = (Inr ev, s\<lparr>tick := tick s + 2\<rparr>)"
    and a: "a_id ev = uuid_at k (tick s)" "a_tenant_id ev = tenant_id ctx"
      "a_actor_id ev = actor_id ctx" "a_action ev = ''permission.denied''"
      "a_target_object_type ev = Some res" "a_target_record_id ev = target"
    by (auto simp: event_from_Inr)
  let ?ev = "ev\<lparr>a_reason := Some (''denied '' @ act @ '' on '' @ res)\<rparr>"
  have "db (snd (audit k ?ev (s\<lparr>tick := tick s + 2\<rparr>))) = log_audit ?ev (db s)"
    using assms a by (simp add: audit_def seqK_def bindK_def query_def insert_audit_def stmt_def sql_insert_def)
  with ev a show ?thesis
    by (intro exI [of _ ?ev] exI [of _ "snd (audit k ?ev (s\<lparr>tick := tick s + 2\<rparr>))"])
      (simp add: audit_denial_def bindK_def ignoreK_def)
qed

end
