(* ===== verification/Rbac.thy ===== *)
theory Rbac
  imports AuditLog
begin

text \<open>
  Access control (\<open>kernel/src/rbac.rs\<close>): the decision on one grant (action, resource, scope,
  ABAC conditions), \<open>authorize\<close> with its audited denial, field-level permission, and the roles
  every tenant is seeded with. The audit query, which is an authorized read, is here too.
\<close>

section \<open>Comparing values\<close>

definition compare :: "json \<Rightarrow> condition_op \<Rightarrow> json \<Rightarrow> bool" where
  "compare lhs op rhs =
     (case op of
        Eq \<Rightarrow> lhs = rhs
      | Ne \<Rightarrow> lhs \<noteq> rhs
      | In \<Rightarrow> (case as_array rhs of Some a \<Rightarrow> lhs \<in> set a | None \<Rightarrow> False)
      | Contains \<Rightarrow>
          (case (lhs, rhs) of
             (JString s, JString sub) \<Rightarrow> str_contains s sub
           | (JArray arr, v) \<Rightarrow> v \<in> set arr
           | _ \<Rightarrow> False)
      | _ \<Rightarrow>
          (case (as_f64 lhs, as_f64 rhs) of
             (Some a, Some b) \<Rightarrow>
               (case op of Gt \<Rightarrow> a > b | Lt \<Rightarrow> a < b | Gte \<Rightarrow> a \<ge> b | Lte \<Rightarrow> a \<le> b | _ \<Rightarrow> False)
           | _ \<Rightarrow> False))"

definition value_matches :: "json \<Rightarrow> condition_op \<Rightarrow> json \<Rightarrow> bool" where
  "value_matches lhs op rhs = compare lhs op rhs"

section \<open>The decision on one grant\<close>

definition action_covered_by :: "action \<Rightarrow> action \<Rightarrow> bool" where
  "action_covered_by grant_action requested \<longleftrightarrow> grant_action = requested \<or> grant_action = Manage"

definition scope_ok :: "scope \<Rightarrow> auth_context \<Rightarrow> record_t option \<Rightarrow> bool" where
  "scope_ok sc ctx target =
     (case sc of
        Platform \<Rightarrow> is_platform_admin ctx
      | Tenant \<Rightarrow> True
      | Org \<Rightarrow> (case target of Some r \<Rightarrow> r_org_id r = org_id ctx | None \<Rightarrow> True)
      | Workspace \<Rightarrow> (case target of Some r \<Rightarrow> r_workspace_id r = workspace_id ctx | None \<Rightarrow> True)
      | Own \<Rightarrow> (case target of
                 Some r \<Rightarrow> list_ex (\<lambda>o'. o' = actor_id ctx) (owner_candidates r)
               | None \<Rightarrow> True))"

text \<open>The left operand of a condition: a record field, an actor attribute, or nothing.\<close>

definition condition_operand ::
  "condition \<Rightarrow> auth_context \<Rightarrow> record_t option \<Rightarrow> json option" where
  "condition_operand c ctx target =
     (case strip_prefix ''record.'' (c_field c) of
        Some field \<Rightarrow> (case target of Some r \<Rightarrow> jget (r_data r) field | None \<Rightarrow> None)
      | None \<Rightarrow>
          (case strip_prefix ''actor.'' (c_field c) of
             Some attr \<Rightarrow>
               (if attr = ''id'' then Some (JString (actor_id ctx))
                else if attr = ''org_id'' then Some (JString (org_id ctx))
                else None)
           | None \<Rightarrow> None))"

definition eval_condition :: "condition \<Rightarrow> auth_context \<Rightarrow> record_t option \<Rightarrow> bool" where
  "eval_condition c ctx target =
     (case condition_operand c ctx target of
        None \<Rightarrow> True
      | Some lhs \<Rightarrow> compare lhs (c_op c) (c_value c))"

definition conditions_ok :: "condition list \<Rightarrow> auth_context \<Rightarrow> record_t option \<Rightarrow> bool" where
  "conditions_ok cs ctx target = list_all (\<lambda>c. eval_condition c ctx target) cs"

text \<open>
  The closure that \<open>authorize\<close>, \<open>grants_allow\<close>, \<open>applicable_read_grants\<close> and \<open>grants_for\<close> share:
  does this grant authorize the request?
\<close>

definition grant_covers ::
  "kernel \<Rightarrow> auth_context \<Rightarrow> action \<Rightarrow> string \<Rightarrow> record_t option \<Rightarrow> permission_grant \<Rightarrow> bool" where
  "grant_covers k ctx act resource target g \<longleftrightarrow>
     action_covered_by (g_action g) act \<and>
     matches_resource g resource \<and>
     scope_ok (g_scope g) ctx target \<and>
     (\<not> enable_advanced_permissions (flags k) \<or> conditions_ok (g_conditions g) ctx target)"

section \<open>Fields\<close>

definition field_permitted :: "permission_grant list \<Rightarrow> object_type_def \<Rightarrow> string \<Rightarrow> bool" where
  "field_permitted grants ot key =
     (let restr = (case field_of ot key of Some f \<Rightarrow> f_restricted f | None \<Rightarrow> False)
      in if \<not> restr then True
         else list_ex (\<lambda>g. case g_fields g of Some fr \<Rightarrow> permits fr key | None \<Rightarrow> False) grants)"

section \<open>Grants and the decision\<close>

definition role_grants_of :: "database \<Rightarrow> string \<Rightarrow> string list \<Rightarrow> permission_grant list" where
  "role_grants_of d t keys =
     concat (map (\<lambda>row. role_grants (ro_role row))
       (filter (\<lambda>row. ro_tenant_id row = t \<and> role_key (ro_role row) \<in> set keys) (roles d)))"

definition effective_grants :: "kernel \<Rightarrow> auth_context \<Rightarrow> permission_grant list kern" where
  "effective_grants k ctx =
     (if role_keys ctx = [] then retK []
      else query k (\<lambda>d. role_grants_of d (tenant_id ctx) (role_keys ctx)))"

definition authorize ::
  "kernel \<Rightarrow> auth_context \<Rightarrow> action \<Rightarrow> string \<Rightarrow> record_t option \<Rightarrow> unit kern" where
  "authorize k ctx act resource target =
     (if is_system ctx \<or> is_platform_admin ctx then retK ()
      else
        bindK (effective_grants k ctx) (\<lambda>grants.
        if list_ex (grant_covers k ctx act resource target) grants then retK ()
        else
          seqK (audit_denial k ctx (action_str act) resource (map_option r_id target))
            (failK (forbidden (''not permitted: '' @ action_str act @ '' on '' @ resource)))))"

definition grants_allow ::
  "kernel \<Rightarrow> permission_grant list \<Rightarrow> auth_context \<Rightarrow> action \<Rightarrow> string \<Rightarrow> record_t option \<Rightarrow> bool" where
  "grants_allow k grants ctx act resource target =
     (if is_system ctx \<or> is_platform_admin ctx then True
      else list_ex (grant_covers k ctx act resource target) grants)"

definition applicable_read_grants ::
  "kernel \<Rightarrow> permission_grant list \<Rightarrow> auth_context \<Rightarrow> string \<Rightarrow> record_t option
   \<Rightarrow> permission_grant list" where
  "applicable_read_grants k grants ctx resource target =
     filter (grant_covers k ctx Read resource target) grants"

definition deny_nothing :: field_rule where
  "deny_nothing = \<lparr>fr_mode = Deny, fr_fields = []\<rparr>"

definition grants_for ::
  "kernel \<Rightarrow> auth_context \<Rightarrow> action \<Rightarrow> string \<Rightarrow> record_t option \<Rightarrow> permission_grant list kern" where
  "grants_for k ctx act resource target =
     (if is_system ctx \<or> is_platform_admin ctx
      then retK [(new_grant Manage ''*'' Tenant)\<lparr>g_fields := Some deny_nothing\<rparr>]
      else bindK (effective_grants k ctx) (\<lambda>all.
           retK (filter (grant_covers k ctx act resource target) all)))"

definition system_roles :: "role_t list" where
  "system_roles =
     [\<lparr>role_id = ''role_tenant_admin'', role_key = ''tenant_admin'',
       role_name = ''Tenant Administrator'',
       role_description = Some ''Full management of this tenant'', role_system = True,
       role_grants = [(new_grant Manage ''*'' Tenant)\<lparr>g_fields := Some deny_nothing\<rparr>]\<rparr>,
      \<lparr>role_id = ''role_member'', role_key = ''member'', role_name = ''Member'',
       role_description = Some ''Baseline read access within the organization'',
       role_system = True,
       role_grants =
         [new_grant Read ''object:*'' Org, new_grant Search ''object:*'' Org,
          new_grant Create ''object:*'' Org, new_grant Update ''object:*'' Own,
          new_grant Read ''tenant'' Tenant, new_grant Read ''organization'' Tenant,
          new_grant Read ''report'' Org, new_grant Read ''metric'' Org,
          new_grant Read ''dashboard'' Org]\<rparr>]"

text \<open>The rows the query of the audit log selects for a tenant.\<close>

definition audit_rows :: "audit_query \<Rightarrow> string \<Rightarrow> database \<Rightarrow> audit_event list" where
  "audit_rows q t d =
         (let keep = (\<lambda>e.
                a_tenant_id e = t \<and>
                (case q_actor_id q of Some v \<Rightarrow> a_actor_id e = v | None \<Rightarrow> True) \<and>
                (case q_action q of Some v \<Rightarrow> a_action e = v | None \<Rightarrow> True) \<and>
                (case q_target_object_type q of
                   Some v \<Rightarrow> a_target_object_type e = Some v | None \<Rightarrow> True) \<and>
                (case q_target_record_id q of
                   Some v \<Rightarrow> a_target_record_id e = Some v | None \<Rightarrow> True) \<and>
                (case q_since q of Some v \<Rightarrow> v \<le> a_timestamp e | None \<Rightarrow> True) \<and>
                (case q_until q of Some v \<Rightarrow> a_timestamp e < v | None \<Rightarrow> True));
              limit = sclamp 1 1000 (case q_limit q of Some l \<Rightarrow> l | None \<Rightarrow> 100);
              offset = (let o' = (case q_offset q of Some v \<Rightarrow> v | None \<Rightarrow> 0)
                        in if o' <s 0 then 0 else o')
          in take (unat limit) (drop (unat offset)
               (order_desc a_timestamp (filter keep (audit_logs d)))))"

definition audit_query :: "kernel \<Rightarrow> auth_context \<Rightarrow> audit_query \<Rightarrow> audit_event list kern" where
  "audit_query k ctx q =
     seqK (authorize k ctx Read ''audit'' None) (query k (audit_rows q (tenant_id ctx)))"

section \<open>The specification of the decision\<close>

text \<open>Who may do what, in the state \<open>s\<close>: the set of grants that speak for the request is not empty.\<close>

definition granted ::
  "kernel \<Rightarrow> database \<Rightarrow> auth_context \<Rightarrow> action \<Rightarrow> string \<Rightarrow> record_t option \<Rightarrow> permission_grant set" where
  "granted k d ctx act resource target =
     {g. \<exists>row\<in>set (roles d). ro_tenant_id row = tenant_id ctx \<and>
           role_key (ro_role row) \<in> set (role_keys ctx) \<and> g \<in> set (role_grants (ro_role row)) \<and>
           grant_covers k ctx act resource target g}"

definition allowed ::
  "kernel \<Rightarrow> database \<Rightarrow> auth_context \<Rightarrow> action \<Rightarrow> string \<Rightarrow> record_t option \<Rightarrow> bool" where
  "allowed k d ctx act resource target \<longleftrightarrow>
     trusted ctx \<or> granted k d ctx act resource target \<noteq> {}"

lemma role_grants_of_empty [simp]: "role_grants_of d t [] = []"
  by (simp add: role_grants_of_def)

lemma set_role_grants_of: "g \<in> set (role_grants_of d t keys) \<longleftrightarrow>
    (\<exists>row\<in>set (roles d). ro_tenant_id row = t \<and> role_key (ro_role row) \<in> set keys \<and>
       g \<in> set (role_grants (ro_role row)))"
  by (auto simp: role_grants_of_def)

lemma list_ex_granted: "list_ex (grant_covers k ctx act resource target)
    (role_grants_of d (tenant_id ctx) (role_keys ctx)) \<longleftrightarrow> granted k d ctx act resource target \<noteq> {}"
  unfolding list_ex_iff granted_def by (fastforce simp: set_role_grants_of)

lemma grants_allow_iff:
  "grants_allow k (role_grants_of d (tenant_id ctx) (role_keys ctx)) ctx act resource target \<longleftrightarrow>
     allowed k d ctx act resource target"
  by (simp add: grants_allow_def allowed_def list_ex_granted)

lemma granted_cong: "roles d = roles d' \<Longrightarrow> granted k d = granted k d'"
  by (auto simp: granted_def fun_eq_iff)

lemma allowed_cong: "roles d = roles d' \<Longrightarrow> allowed k d = allowed k d'"
  by (simp add: allowed_def fun_eq_iff granted_cong [of d d'])

lemma effective_grants_Inr: "effective_grants k ctx s = (Inr gs, s') \<Longrightarrow>
    gs = role_grants_of (db s) (tenant_id ctx) (role_keys ctx) \<and> db s' = db s \<and> limiter s' = limiter s"
  by (auto simp: effective_grants_def query_Inr split: if_splits)

text \<open>An authorization that succeeds was allowed, and it wrote nothing.\<close>

lemma authorize_Inr: "authorize k ctx act resource target s = (Inr x, s') \<Longrightarrow>
    allowed k (db s) ctx act resource target \<and> db s' = db s \<and> limiter s' = limiter s"
  by (auto simp: authorize_def run_inv list_ex_granted allowed_def split: if_splits
      dest!: effective_grants_Inr)

lemma grants_for_Inr: "grants_for k ctx act resource target s = (Inr gs, s') \<Longrightarrow>
    db s' = db s \<and> limiter s' = limiter s \<and>
    (\<not> trusted ctx \<longrightarrow> set gs = granted k (db s) ctx act resource target)"
  by (auto simp: grants_for_def run_inv set_role_grants_of granted_def split: if_splits
      dest!: effective_grants_Inr)

lemma effective_grants_run:
  "reliable k \<Longrightarrow> \<exists>s'. effective_grants k ctx s =
      (Inr (role_grants_of (db s) (tenant_id ctx) (role_keys ctx)), s') \<and> db s' = db s \<and>
      limiter s' = limiter s \<and> (role_keys ctx = [] \<longrightarrow> s' = s) \<and>
      (role_keys ctx \<noteq> [] \<longrightarrow> tick s' = Suc (tick s))"
  by (auto simp: effective_grants_def run_simps run_stmt)

text \<open>Without faults the decision is exact.\<close>

lemma authorize_allowed:
  assumes "reliable k" "allowed k (db s) ctx act resource target"
  shows "\<exists>s'. authorize k ctx act resource target s = (Inr (), s') \<and> db s' = db s \<and> limiter s' = limiter s"
proof (cases "trusted ctx")
  case True
  then show ?thesis by (auto simp: authorize_def run_simps)
next
  case False
  from effective_grants_run [OF assms(1), of ctx s] obtain s1 where
    "effective_grants k ctx s = (Inr (role_grants_of (db s) (tenant_id ctx) (role_keys ctx)), s1)"
    "db s1 = db s" "limiter s1 = limiter s" by auto
  with False assms(2) show ?thesis
    by (auto simp: authorize_def run_simps list_ex_granted allowed_def)
qed

lemma authorize_denied:
  assumes "reliable k" "\<not> allowed k (db s) ctx act resource target"
  shows "\<exists>s'. authorize k ctx act resource target s =
           (Inl (forbidden (''not permitted: '' @ action_str act @ '' on '' @ resource)), s')"
proof -
  from effective_grants_run [OF assms(1), of ctx s] obtain s1 where
    1: "effective_grants k ctx s = (Inr (role_grants_of (db s) (tenant_id ctx) (role_keys ctx)), s1)"
    by auto
  obtain s2 where "audit_denial k ctx (action_str act) resource (map_option r_id target) s1 = (Inr (), s2)"
    using audit_denial_result by blast
  with 1 assms(2) show ?thesis
    by (auto simp: authorize_def run_simps list_ex_granted allowed_def)
qed

section \<open>Field visibility\<close>

lemma field_permitted_iff: "field_permitted gs ot key \<longleftrightarrow>
    (\<forall>f. field_of ot key = Some f \<longrightarrow> f_restricted f \<longrightarrow>
      (\<exists>g\<in>set gs. \<exists>fr. g_fields g = Some fr \<and> permits fr key))"
  by (auto simp: field_permitted_def list_ex_iff split: option.splits)

lemma field_permitted_mono: "set gs \<subseteq> set gs' \<Longrightarrow> field_permitted gs ot key \<Longrightarrow> field_permitted gs' ot key"
  unfolding field_permitted_iff by blast

section \<open>Frames\<close>

context denial_frame begin

lemma keeps_effective_grants [frame_rules]: "keeps R (effective_grants k ctx)"
  unfolding effective_grants_def by (intro frame_rules keeps_retK keeps_query)

lemma keeps_grants_for [frame_rules]: "keeps R (grants_for k ctx act resource target)"
  unfolding grants_for_def by (intro frame_rules keeps_retK keeps_bindK keeps_effective_grants)

lemma keeps_authorize [frame_rules]:
  "tenant_id ctx = t \<Longrightarrow> keeps R (authorize k ctx act resource target)"
  unfolding authorize_def
  by (intro frame_rules keeps_retK keeps_bindK keeps_seqK keeps_failK keeps_effective_grants
      keeps_audit_denial)

lemma keeps_audit_query: "tenant_id ctx = t \<Longrightarrow> keeps R (audit_query k ctx q)"
  unfolding audit_query_def by (intro keeps_seqK keeps_authorize keeps_query)

end

end
