(* ===== verification/Crypto.thy ===== *)
theory Crypto
  imports Frames
begin

unbundle bit_operations_syntax

text \<open>
  Password policy, password hashing and tokens (\<open>kernel/src/crypto.rs\<close>). Argon2, SHA-256 and the
  random generator are third-party code, parameters of the handle; the policy, the hexadecimal
  encoding and the shape of a token are the program's own. Timing is not modelled, so
  \<open>equalize_verify_timing\<close>, which computes and discards, has no counterpart here.
\<close>

definition MIN_PASSWORD_LEN :: nat where "MIN_PASSWORD_LEN = 8"
definition MAX_PASSWORD_LEN :: nat where "MAX_PASSWORD_LEN = 128"

section \<open>Password policy\<close>

text \<open>\<open>chars().count()\<close>: the bytes of the UTF-8 text that do not continue a character.\<close>

definition char_count :: "string \<Rightarrow> nat" where
  "char_count s = length (filter (\<lambda>c. (of_char c :: nat) < 128 \<or> 192 \<le> (of_char c :: nat)) s)"

definition validate_password_strength :: "string \<Rightarrow> api_error + unit" where
  "validate_password_strength pw =
     (let len = char_count pw in
      if len < MIN_PASSWORD_LEN
      then Inl (validation (''password must be at least '' @ show_nat MIN_PASSWORD_LEN @ '' characters''))
      else if MAX_PASSWORD_LEN < len
      then Inl (validation (''password must be at most '' @ show_nat MAX_PASSWORD_LEN @ '' characters''))
      else if trim pw = [] then Inl (validation ''password cannot be blank'')
      else Inr ())"

lemma validate_password_strength_iff: "validate_password_strength pw = Inr () \<longleftrightarrow>
    8 \<le> char_count pw \<and> char_count pw \<le> 128 \<and> trim pw \<noteq> []"
  by (auto simp: validate_password_strength_def Let_def MIN_PASSWORD_LEN_def MAX_PASSWORD_LEN_def)

section \<open>Password hashing\<close>

definition hash_password :: "kernel \<Rightarrow> string \<Rightarrow> string kern" where
  "hash_password k pw = (\<lambda>s.
     ((case argon2_hash k (tick s) pw of
         Inl e \<Rightarrow> Inl (internal (''hash error: '' @ e))
       | Inr h \<Rightarrow> Inr h), s\<lparr>tick := Suc (tick s)\<rparr>))"

definition verify_password :: "kernel \<Rightarrow> string \<Rightarrow> string \<Rightarrow> api_error + bool" where
  "verify_password k pw stored =
     (case argon2_verify k pw stored of
        Inl e \<Rightarrow> Inl (internal (''stored hash invalid: '' @ e))
      | Inr b \<Rightarrow> Inr b)"

section \<open>Tokens\<close>

definition HEX :: string where
  "HEX = ''0123456789abcdef''"

fun hex_encode :: "8 word list \<Rightarrow> string" where
  "hex_encode [] = []"
| "hex_encode (b # bs) =
     HEX ! unat (drop_bit 4 b) # HEX ! unat (b AND 0x0F) # hex_encode bs"

definition sha256_hex :: "kernel \<Rightarrow> string \<Rightarrow> string" where
  "sha256_hex k input = hex_encode (sha256 k input)"

definition new_token :: "kernel \<Rightarrow> string \<Rightarrow> (string \<times> string) kern" where
  "new_token k prefix = (\<lambda>s.
     let plaintext = prefix @ hex_encode (random_at k (tick s))
     in (Inr (plaintext, sha256_hex k plaintext), s\<lparr>tick := Suc (tick s)\<rparr>))"

subsection \<open>The encoding is injective\<close>

definition hex_value :: "char \<Rightarrow> nat" where
  "hex_value c = (if is_digit c then of_char c - 48 else of_char c - 87)"

lemma hex_value_nth: "n < 16 \<Longrightarrow> hex_value (HEX ! n) = n"
proof -
  have "\<forall>n<16. hex_value (HEX ! n) = n" by code_simp
  then show "n < 16 \<Longrightarrow> hex_value (HEX ! n) = n" by blast
qed

lemma nibbles: "unat (drop_bit 4 (b :: 8 word)) < 16" "unat (b AND 0x0F) < 16"
    "unat b = 16 * unat (drop_bit 4 b) + unat (b AND 0x0F)"
proof -
  have d: "unat (drop_bit 4 b) = unat b div 16" by (simp add: drop_bit_eq_div unat_div)
  have "b AND 0x0F = take_bit 4 b" by (simp add: take_bit_eq_mask mask_eq_decr_exp)
  then have m: "unat (b AND 0x0F) = unat b mod 16" by (simp add: take_bit_eq_mod unat_mod)
  have "unat b < 2 ^ LENGTH(8)" by (rule unsigned_less)
  then have "unat b < 256" by simp
  then show "unat (drop_bit 4 b) < 16" by (simp add: d)
  show "unat (b AND 0x0F) < 16" by (simp add: m)
  show "unat b = 16 * unat (drop_bit 4 b) + unat (b AND 0x0F)" by (simp add: d m)
qed

fun hex_decode :: "string \<Rightarrow> 8 word list" where
  "hex_decode (h # l # s) = of_nat (16 * hex_value h + hex_value l) # hex_decode s"
| "hex_decode _ = []"

lemma hex_roundtrip: "hex_decode (hex_encode bs) = bs"
proof (induction bs)
  case (Cons b bs)
  have "16 * hex_value (HEX ! unat (drop_bit 4 b)) + hex_value (HEX ! unat (b AND 0x0F)) = unat b"
    by (simp only: hex_value_nth nibbles(1,2)) (rule nibbles(3) [symmetric])
  with Cons show ?case by simp
qed simp

lemma hex_encode_inj: "hex_encode bs = hex_encode bs' \<longleftrightarrow> bs = bs'"
  by (metis hex_roundtrip)

lemma length_hex_encode [simp]: "length (hex_encode bs) = 2 * length bs"
  by (induction bs) simp_all

context db_frame begin

lemma keeps_hash_password [frame_rules]: "keeps R (hash_password k pw)"
  by (simp add: keeps_def hash_password_def frame_refl)

lemma keeps_new_token [frame_rules]: "keeps R (new_token k prefix)"
  by (simp add: keeps_def new_token_def Let_def frame_refl)

end

end
