(* ===== verification/Identity.thy ===== *)
theory Identity
  imports Rbac Crypto
begin

text \<open>
  Users, service accounts, roles, role assignments and API keys (\<open>kernel/src/identity.rs\<close>), with
  the canonical form and the checks of an email address.
\<close>

record user_t =
  u_id :: string
  u_tenant_id :: string
  u_email :: string
  u_name :: string
  u_status :: string
  u_is_platform_admin :: bool
  u_default_org_id :: "string option"
  u_role_keys :: "string list"
  u_created_at :: string

record service_account_t =
  sv_id :: string
  sv_tenant_id :: string
  sv_org_id :: string
  sv_name :: string
  sv_status :: string
  sv_role_keys :: "string list"
  sv_created_at :: string

record api_key_info =
  ki_id :: string
  ki_name :: string
  ki_prefix :: string
  ki_principal_type :: string
  ki_principal_id :: string
  ki_status :: string
  ki_created_at :: string
  ki_last_used_at :: "string option"

record new_api_key =
  nk_info :: api_key_info
  nk_token :: string

section \<open>Email addresses\<close>

text \<open>\<open>normalize_email\<close> of \<open>kernel/src/auth.rs\<close>.\<close>

definition normalize_email :: "string \<Rightarrow> string" where
  "normalize_email email = to_lowercase (trim email)"

text \<open>\<open>str::split\<close> on one character.\<close>

fun split_on :: "char \<Rightarrow> string \<Rightarrow> string list" where
  "split_on c [] = [[]]"
| "split_on c (x # xs) =
     (if x = c then [] # split_on c xs
      else case split_on c xs of
             [] \<Rightarrow> [[x]]
           | p # ps \<Rightarrow> (x # p) # ps)"

definition validate_email :: "string \<Rightarrow> api_error + unit" where
  "validate_email email =
     (let ok = length email \<le> 254 \<and> \<not> list_ex is_ws email \<and>
               (case split_on (CHR ''@'') email of
                  [local, domain] \<Rightarrow>
                    local \<noteq> [] \<and> str_contains domain ''.'' \<and> \<not> starts_with ''.'' domain \<and>
                    strip_suffix ''.'' domain = None
                | _ \<Rightarrow> False)
      in if ok then Inr () else Inl (validation ''invalid email address''))"

lemma split_on_nonempty: "split_on c s \<noteq> []"
  by (induction s) (auto split: list.splits)

lemma split_on_single: "split_on c s = [p] \<longleftrightarrow> s = p \<and> c \<notin> set p"
proof (induction s arbitrary: p)
  case (Cons x s)
  obtain q qs where q: "split_on c s = q # qs" using split_on_nonempty by (meson neq_Nil_conv)
  show ?case
  proof (cases "x = c")
    case True
    with q show ?thesis by auto
  next
    case False
    with q Cons [of "tl p"] show ?thesis by (cases p) auto
  qed
qed auto

lemma split_on_pair: "split_on c s = [p, r] \<longleftrightarrow> s = p @ c # r \<and> c \<notin> set p \<and> c \<notin> set r"
proof (induction s arbitrary: p)
  case (Cons x s)
  obtain q qs where q: "split_on c s = q # qs" using split_on_nonempty by (meson neq_Nil_conv)
  show ?case
  proof (cases "x = c")
    case True
    with split_on_single [of c s r] show ?thesis by (cases p) auto
  next
    case False
    with q Cons [of "tl p"] show ?thesis by (cases p) auto
  qed
qed auto

lemma validate_email_iff: "validate_email email = Inr () \<longleftrightarrow>
    length email \<le> 254 \<and> (\<forall>c\<in>set email. \<not> is_ws c) \<and>
    (\<exists>local domain. email = local @ ''@'' @ domain \<and> CHR ''@'' \<notin> set local \<and> CHR ''@'' \<notin> set domain \<and>
       local \<noteq> [] \<and> CHR ''.'' \<in> set (butlast (tl domain)) \<and> hd domain \<noteq> CHR ''.'' \<and>
       last domain \<noteq> CHR ''.'')"
proof -
  have dom: "str_contains d ''.'' \<and> \<not> starts_with ''.'' d \<and> strip_suffix ''.'' d = None \<longleftrightarrow>
      CHR ''.'' \<in> set (butlast (tl d)) \<and> hd d \<noteq> CHR ''.'' \<and> last d \<noteq> CHR ''.''" for d
  proof (cases d)
    case Nil
    then show ?thesis by (simp add: str_contains_iff)
  next
    case (Cons a d')
    show ?thesis
    proof (cases d' rule: rev_cases)
      case Nil
      with Cons show ?thesis
        by (auto simp: str_contains_iff starts_with_iff strip_suffix_None append_eq_Cons_conv Cons_eq_append_conv)
    next
      case (snoc m z)
      have "str_contains d ''.'' \<longleftrightarrow> CHR ''.'' \<in> set d"
        by (auto simp: str_contains_iff dest: split_list)
      moreover have "strip_suffix ''.'' d = None \<longleftrightarrow> z \<noteq> CHR ''.''"
        using Cons snoc by (auto simp: strip_suffix_None)
      ultimately show ?thesis
        using Cons snoc by (auto simp: starts_with_iff)
    qed
  qed
  have two: "(case split_on (CHR ''@'') email of [l, d] \<Rightarrow> P l d | _ \<Rightarrow> False) \<longleftrightarrow>
      (\<exists>l d. split_on (CHR ''@'') email = [l, d] \<and> P l d)" for P
    by (auto split: list.splits)
  show ?thesis
    by (auto simp: validate_email_def Let_def two split_on_pair dom list_ex_iff)
qed

section \<open>Roles of a principal\<close>

definition role_keys_of :: "database \<Rightarrow> string \<Rightarrow> string \<Rightarrow> string list" where
  "role_keys_of d t prin =
     map ra_role_key (filter (\<lambda>a. ra_tenant_id a = t \<and> ra_principal_id a = prin)
       (role_assignments d))"

definition roles_for_principal :: "kernel \<Rightarrow> string \<Rightarrow> string \<Rightarrow> string list kern" where
  "roles_for_principal k t prin = query k (\<lambda>d. role_keys_of d t prin)"

section \<open>Row insertions\<close>

definition insert_user :: "kernel \<Rightarrow> user_row \<Rightarrow> unit kern" where
  "insert_user k u =
     stmt k (\<lambda>d. sql_insert
       (us_id u \<notin> us_id ` set (users d) \<and>
        (us_tenant_id u, us_email u) \<notin> (\<lambda>r. (us_tenant_id r, us_email r)) ` set (users d))
       (tenant_exists d (us_tenant_id u))
       (d\<lparr>users := users d @ [u]\<rparr>))"

definition assignment_key :: "role_assignment_row \<Rightarrow> string \<times> string \<times> string" where
  "assignment_key a = (ra_tenant_id a, ra_principal_id a, ra_role_key a)"

definition insert_assignment :: "kernel \<Rightarrow> role_assignment_row \<Rightarrow> unit kern" where
  "insert_assignment k a =
     stmt k (\<lambda>d. sql_insert
       (ra_id a \<notin> ra_id ` set (role_assignments d) \<and>
        assignment_key a \<notin> assignment_key ` set (role_assignments d))
       (tenant_exists d (ra_tenant_id a))
       (d\<lparr>role_assignments := role_assignments d @ [a]\<rparr>))"

definition new_assignment ::
  "kernel \<Rightarrow> auth_context \<Rightarrow> string \<Rightarrow> string \<Rightarrow> string \<Rightarrow> string \<Rightarrow> unit kern" where
  "new_assignment k ctx principal_type prin key ts =
     bindK (new_id k) (\<lambda>aid.
     insert_assignment k
       \<lparr>ra_id = aid, ra_tenant_id = tenant_id ctx, ra_principal_type = principal_type,
        ra_principal_id = prin, ra_role_key = key, ra_org_id = Some (org_id ctx),
        ra_created_at = ts\<rparr>)"

definition insert_role :: "kernel \<Rightarrow> role_row \<Rightarrow> unit kern" where
  "insert_role k row =
     stmt k (\<lambda>d. sql_insert
       (role_id (ro_role row) \<notin> (role_id \<circ> ro_role) ` set (roles d) \<and>
        (ro_tenant_id row, role_key (ro_role row))
          \<notin> (\<lambda>r. (ro_tenant_id r, role_key (ro_role r))) ` set (roles d))
       (tenant_exists d (ro_tenant_id row))
       (d\<lparr>roles := roles d @ [row]\<rparr>))"

definition insert_service_account :: "kernel \<Rightarrow> service_account_row \<Rightarrow> unit kern" where
  "insert_service_account k a =
     stmt k (\<lambda>d. sql_insert (sa_id a \<notin> sa_id ` set (service_accounts d))
       (tenant_exists d (sa_tenant_id a) \<and> sa_org_id a \<in> og_id ` set (organizations d))
       (d\<lparr>service_accounts := service_accounts d @ [a]\<rparr>))"

definition insert_api_key :: "kernel \<Rightarrow> api_key_row \<Rightarrow> unit kern" where
  "insert_api_key k a =
     stmt k (\<lambda>d. sql_insert
       (ak_id a \<notin> ak_id ` set (api_keys d) \<and> ak_token_hash a \<notin> ak_token_hash ` set (api_keys d))
       (tenant_exists d (ak_tenant_id a))
       (d\<lparr>api_keys := api_keys d @ [a]\<rparr>))"

section \<open>Users\<close>

definition create_user ::
  "kernel \<Rightarrow> auth_context \<Rightarrow> string \<Rightarrow> string \<Rightarrow> string \<Rightarrow> string list \<Rightarrow> user_t kern" where
  "create_user k ctx email0 name password keys =
     seqK (authorize k ctx Configure ''admin:users'' None) (
     let email = normalize_email email0 in
     seqK (resK (validate_email email)) (
     seqK (resK (validate_password_strength password)) (
     bindK (new_id k) (\<lambda>uid.
     bindK (now_rfc3339 k) (\<lambda>ts.
     bindK (hash_password k password) (\<lambda>pw_hash.
     seqK (transaction k (
       seqK (insert_user k
         \<lparr>us_id = uid, us_tenant_id = tenant_id ctx, us_email = email, us_name = name,
          us_password_hash = pw_hash, us_status = ''active'', us_is_platform_admin = False,
          us_default_org_id = Some (org_id ctx), us_created_at = ts\<rparr>) (
       seqK (forK (\<lambda>key. new_assignment k ctx ''user'' uid key ts) keys)
            (audit_change k ctx ''user.create'' (Some ''user'') (Some uid) None
               (Some (jobj [(''email'', JString email), (''roles'', JArray (map JString keys))]))
               (\<lambda>ev. ev)))))
     (retK \<lparr>u_id = uid, u_tenant_id = tenant_id ctx, u_email = email, u_name = name,
            u_status = ''active'', u_is_platform_admin = False,
            u_default_org_id = Some (org_id ctx), u_role_keys = keys, u_created_at = ts\<rparr>)))))))"

definition row_to_user :: "user_row \<Rightarrow> string list \<Rightarrow> user_t" where
  "row_to_user r keys =
     \<lparr>u_id = us_id r, u_tenant_id = us_tenant_id r, u_email = us_email r, u_name = us_name r,
      u_status = us_status r, u_is_platform_admin = us_is_platform_admin r,
      u_default_org_id = us_default_org_id r, u_role_keys = keys, u_created_at = us_created_at r\<rparr>"

definition list_users :: "kernel \<Rightarrow> auth_context \<Rightarrow> user_t list kern" where
  "list_users k ctx =
     seqK (authorize k ctx Read ''admin:users'' None) (
     bindK (query k (\<lambda>d. sort_key us_created_at
              (filter (\<lambda>r. us_tenant_id r = tenant_id ctx) (users d)))) (\<lambda>rows.
     mapK (\<lambda>r. bindK (roles_for_principal k (tenant_id ctx) (us_id r)) (\<lambda>keys.
                retK (row_to_user r keys))) rows))"

definition find_user :: "database \<Rightarrow> string \<Rightarrow> string \<Rightarrow> user_row option" where
  "find_user d t uid = find (\<lambda>r. us_tenant_id r = t \<and> us_id r = uid) (users d)"

definition get_user :: "kernel \<Rightarrow> auth_context \<Rightarrow> string \<Rightarrow> user_t kern" where
  "get_user k ctx uid =
     seqK (authorize k ctx Read ''admin:users'' None) (
     bindK (query k (\<lambda>d. find_user d (tenant_id ctx) uid)) (\<lambda>row.
     bindK (someK (not_found ''user not found'') row) (\<lambda>r.
     bindK (roles_for_principal k (tenant_id ctx) uid) (\<lambda>keys.
     retK (row_to_user r keys)))))"

text \<open>\<open>revoke_sessions_for_user\<close> of \<open>kernel/src/auth.rs\<close>; the value is the number revoked.\<close>

definition revoke_sessions_for_user :: "kernel \<Rightarrow> string \<Rightarrow> string \<Rightarrow> nat kern" where
  "revoke_sessions_for_user k t uid =
     stmt k (\<lambda>d.
       let hit = (\<lambda>r. ss_tenant_id r = t \<and> ss_user_id r = uid \<and> \<not> ss_revoked r)
       in Inr (length (filter hit (sessions d)),
               d\<lparr>sessions := upd_where hit (\<lambda>r. r\<lparr>ss_revoked := True\<rparr>) (sessions d)\<rparr>))"

definition set_user_status ::
  "kernel \<Rightarrow> auth_context \<Rightarrow> string \<Rightarrow> string \<Rightarrow> user_t kern" where
  "set_user_status k ctx uid status =
     seqK (authorize k ctx Configure ''admin:users'' None) (
     seqK (guardK (status \<in> {''active'', ''disabled''})
             (validation (''status must be '' @ quoted ''active'' @ '' or '' @ quoted ''disabled''))) (
     seqK (guardK (\<not> (uid = actor_id ctx \<and> status \<noteq> ''active''))
             (failed_precondition ''you cannot disable your own account'')) (
     bindK (get_user k ctx uid) (\<lambda>prev.
     seqK (transaction k (
       seqK (update_stmt k (\<lambda>d. d\<lparr>users :=
               upd_where (\<lambda>r. us_tenant_id r = tenant_id ctx \<and> us_id r = uid)
                 (\<lambda>r. r\<lparr>us_status := status\<rparr>) (users d)\<rparr>))
            (audit_change k ctx ''user.set_status'' (Some ''user'') (Some uid)
               (Some (jobj [(''status'', JString (u_status prev))]))
               (Some (jobj [(''status'', JString status)])) (\<lambda>ev. ev)))) (
     seqK (if status \<noteq> ''active''
           then seqK (revoke_sessions_for_user k (tenant_id ctx) uid) (retK ())
           else retK ())
     (get_user k ctx uid))))))"

section \<open>Roles\<close>

text \<open>\<open>INSERT OR IGNORE\<close>: a row that violates a uniqueness constraint is skipped silently.\<close>

definition assign_or_ignore :: "role_assignment_row \<Rightarrow> database \<Rightarrow> sql_error + unit \<times> database" where
  "assign_or_ignore a d =
     (if ra_id a \<in> ra_id ` set (role_assignments d) \<or>
         assignment_key a \<in> assignment_key ` set (role_assignments d)
      then Inr ((), d)
      else sql_insert True (tenant_exists d (ra_tenant_id a))
             (d\<lparr>role_assignments := role_assignments d @ [a]\<rparr>))"

definition assign_role :: "kernel \<Rightarrow> auth_context \<Rightarrow> string \<Rightarrow> string \<Rightarrow> unit kern" where
  "assign_role k ctx prin key =
     seqK (authorize k ctx Configure ''admin:roles'' None) (
     transaction k (
       bindK (new_id k) (\<lambda>aid.
       bindK (now_rfc3339 k) (\<lambda>ts.
       let a = \<lparr>ra_id = aid, ra_tenant_id = tenant_id ctx, ra_principal_type = ''user'',
                ra_principal_id = prin, ra_role_key = key, ra_org_id = Some (org_id ctx),
                ra_created_at = ts\<rparr> in
       seqK (stmt k (assign_or_ignore a))
            (audit_change k ctx ''role.assign'' (Some ''user'') (Some prin) None
               (Some (jobj [(''role'', JString key)])) (\<lambda>ev. ev))))))"

definition create_role ::
  "kernel \<Rightarrow> auth_context \<Rightarrow> string \<Rightarrow> string \<Rightarrow> string option \<Rightarrow> permission_grant list
   \<Rightarrow> role_t kern" where
  "create_role k ctx key name description grants =
     seqK (authorize k ctx Configure ''admin:roles'' None) (
     bindK (new_id k) (\<lambda>rid.
     bindK (now_rfc3339 k) (\<lambda>ts.
     let role = \<lparr>role_id = rid, role_key = key, role_name = name, role_description = description,
                 role_system = False, role_grants = grants\<rparr> in
     seqK (transaction k (
       seqK (insert_role k \<lparr>ro_tenant_id = tenant_id ctx, ro_role = role, ro_created_at = ts\<rparr>)
            (audit_change k ctx ''role.create'' (Some ''role'') (Some rid) None
               (Some (jobj [(''key'', JString key)])) (\<lambda>ev. ev))))
     (retK role))))"

definition list_roles :: "kernel \<Rightarrow> auth_context \<Rightarrow> role_t list kern" where
  "list_roles k ctx =
     seqK (authorize k ctx Read ''admin:roles'' None)
       (query k (\<lambda>d. sort_key role_key
          (map ro_role (filter (\<lambda>r. ro_tenant_id r = tenant_id ctx) (roles d)))))"

section \<open>API keys and service accounts\<close>

definition principal_active :: "database \<Rightarrow> string \<Rightarrow> string \<Rightarrow> string \<Rightarrow> bool" where
  "principal_active d ptype t pid =
     (if ptype = ''user''
      then list_ex (\<lambda>r. us_tenant_id r = t \<and> us_id r = pid \<and> us_status r = ''active'') (users d)
      else list_ex (\<lambda>r. sa_tenant_id r = t \<and> sa_id r = pid \<and> sa_status r = ''active'')
             (service_accounts d))"

definition create_api_key ::
  "kernel \<Rightarrow> auth_context \<Rightarrow> string \<Rightarrow> string option \<Rightarrow> string \<Rightarrow> new_api_key kern" where
  "create_api_key k ctx name prin ptype =
     seqK (authorize k ctx Configure ''admin:api_keys'' None) (
     seqK (guardK (ptype \<in> {''user'', ''service_account''})
             (validation (''invalid principal_type '' @ quoted ptype @ '' (expected '' @
                quoted ''user'' @ '' or '' @ quoted ''service_account'' @ '')''))) (
     let pid = (case prin of Some p \<Rightarrow> p | None \<Rightarrow> actor_id ctx) in
     bindK (query k (\<lambda>d. principal_active d ptype (tenant_id ctx) pid)) (\<lambda>exists.
     seqK (guardK exists (validation ''principal not found in this tenant or not active'')) (
     bindK (new_id k) (\<lambda>kid.
     bindK (now_rfc3339 k) (\<lambda>ts.
     bindK (new_token k ''ldb_'') (\<lambda>(token, hash).
     let prefix = take 11 token in
     seqK (transaction k (
       seqK (insert_api_key k
         \<lparr>ak_id = kid, ak_tenant_id = tenant_id ctx, ak_org_id = org_id ctx,
          ak_principal_type = ptype, ak_principal_id = pid, ak_name = name, ak_prefix = prefix,
          ak_token_hash = hash, ak_status = ''active'', ak_created_at = ts,
          ak_last_used_at = None\<rparr>)
            (audit_change k ctx ''api_key.create'' (Some ''api_key'') (Some kid) None
               (Some (jobj [(''name'', JString name), (''principal_id'', JString pid)]))
               (\<lambda>ev. ev))))
     (retK \<lparr>nk_info = \<lparr>ki_id = kid, ki_name = name, ki_prefix = prefix,
              ki_principal_type = ptype, ki_principal_id = pid, ki_status = ''active'',
              ki_created_at = ts, ki_last_used_at = None\<rparr>,
            nk_token = token\<rparr>))))))))"

definition create_service_account ::
  "kernel \<Rightarrow> auth_context \<Rightarrow> string \<Rightarrow> string list \<Rightarrow> service_account_t kern" where
  "create_service_account k ctx name keys =
     seqK (authorize k ctx Configure ''admin:users'' None) (
     bindK (new_id k) (\<lambda>aid.
     bindK (now_rfc3339 k) (\<lambda>ts.
     seqK (transaction k (
       seqK (insert_service_account k
         \<lparr>sa_id = aid, sa_tenant_id = tenant_id ctx, sa_org_id = org_id ctx, sa_name = name,
          sa_status = ''active'', sa_created_at = ts\<rparr>) (
       seqK (forK (\<lambda>key. new_assignment k ctx ''service_account'' aid key ts) keys)
            (audit_change k ctx ''service_account.create'' (Some ''service_account'') (Some aid)
               None (Some (jobj [(''name'', JString name)])) (\<lambda>ev. ev)))))
     (retK \<lparr>sv_id = aid, sv_tenant_id = tenant_id ctx, sv_org_id = org_id ctx, sv_name = name,
            sv_status = ''active'', sv_role_keys = keys, sv_created_at = ts\<rparr>))))"

section \<open>Frames\<close>

context denial_frame begin

lemma keeps_roles_for_principal [frame_rules]: "keeps R (roles_for_principal k t' p)"
  unfolding roles_for_principal_def by (rule keeps_query)

lemma keeps_get_user [frame_rules]: "tenant_id ctx = t \<Longrightarrow> keeps R (get_user k ctx uid)"
  unfolding get_user_def
  by (intro keeps_seqK keeps_authorize keeps_bindK keeps_query keeps_someK
      keeps_roles_for_principal keeps_retK)

end

lemma keeps_isolated_identity_rows [frame_rules]:
  "us_tenant_id u = t \<Longrightarrow> keeps (isolated t) (insert_user k u)"
  "ra_tenant_id a = t \<Longrightarrow> keeps (isolated t) (insert_assignment k a)"
  "ro_tenant_id r = t \<Longrightarrow> keeps (isolated t) (insert_role k r)"
  "sa_tenant_id sa = t \<Longrightarrow> keeps (isolated t) (insert_service_account k sa)"
  "ak_tenant_id ak = t \<Longrightarrow> keeps (isolated t) (insert_api_key k ak)"
  unfolding insert_user_def insert_assignment_def insert_role_def insert_service_account_def
    insert_api_key_def
  by (intro frame_rules, auto simp: isolated_def)+

lemma keeps_same_log_identity_rows [frame_rules]:
  "keeps same_log (insert_user k u)" "keeps same_log (insert_assignment k a)"
  "keeps same_log (insert_role k r)" "keeps same_log (insert_service_account k sa)"
  "keeps same_log (insert_api_key k ak)"
  unfolding insert_user_def insert_assignment_def insert_role_def insert_service_account_def
    insert_api_key_def
  by (intro frame_rules, auto simp: same_log_def)+

lemma keeps_isolated_new_assignment [frame_rules]:
  "tenant_id ctx = t \<Longrightarrow> keeps (isolated t) (new_assignment k ctx ty p key ts)"
  unfolding new_assignment_def by (intro frame_rules) simp

lemma keeps_same_log_new_assignment [frame_rules]: "keeps same_log (new_assignment k ctx ty p key ts)"
  unfolding new_assignment_def by (intro frame_rules)

lemma keeps_isolated_revoke [frame_rules]:
  "keeps (isolated t) (revoke_sessions_for_user k t uid)"
  unfolding revoke_sessions_for_user_def
  by (intro frame_rules) (auto simp: isolated_def Let_def intro!: others_upd_where)

lemma keeps_isolated_create_user:
  "keeps (isolated (tenant_id ctx)) (create_user k ctx email name pw keys)"
  unfolding create_user_def Let_def by (intro frame_rules refl | simp)+

lemma keeps_isolated_create_service_account:
  "keeps (isolated (tenant_id ctx)) (create_service_account k ctx name keys)"
  unfolding create_service_account_def by (intro frame_rules refl | simp)+

lemma keeps_isolated_create_api_key:
  "keeps (isolated (tenant_id ctx)) (create_api_key k ctx name p pt)"
  unfolding create_api_key_def Let_def by (intro frame_rules refl | simp)+

lemma keeps_isolated_create_role:
  "keeps (isolated (tenant_id ctx)) (create_role k ctx key name desc grants)"
  unfolding create_role_def Let_def by (intro frame_rules refl | simp)+

lemma keeps_isolated_assign_role: "keeps (isolated (tenant_id ctx)) (assign_role k ctx p key)"
  unfolding assign_role_def assign_or_ignore_def Let_def
  by (intro frame_rules refl | simp)+ (auto simp: isolated_def split: if_splits)

lemma isolated_set_users:
  "(\<And>r. us_tenant_id (f r) = us_tenant_id r) \<Longrightarrow>
   isolated t d (d\<lparr>users := upd_where (\<lambda>r. us_tenant_id r = t \<and> us_id r = uid) f (users d)\<rparr>)"
  by (auto simp: isolated_def intro!: others_upd_where)

lemma keeps_isolated_set_user_status:
  "keeps (isolated (tenant_id ctx)) (set_user_status k ctx uid status)"
  unfolding set_user_status_def by (intro frame_rules refl isolated_set_users | simp)+

lemma keeps_audited_create_user: "keeps audited (create_user k ctx email name pw keys)"
  unfolding create_user_def Let_def
  by (intro frame_rules refl keeps_audited_transaction logs_seq_second logs_audit_change | simp)+

lemma keeps_audited_create_service_account: "keeps audited (create_service_account k ctx name keys)"
  unfolding create_service_account_def
  by (intro frame_rules refl keeps_audited_transaction logs_seq_second logs_audit_change | simp)+

lemma keeps_audited_create_api_key: "keeps audited (create_api_key k ctx name p pt)"
  unfolding create_api_key_def Let_def
  by (intro frame_rules refl keeps_audited_transaction logs_seq_second logs_audit_change | simp)+

lemma keeps_audited_create_role: "keeps audited (create_role k ctx key name desc grants)"
  unfolding create_role_def Let_def
  by (intro frame_rules refl keeps_audited_transaction logs_seq_second logs_audit_change | simp)+

lemma keeps_audited_assign_role: "keeps audited (assign_role k ctx p key)"
  unfolding assign_role_def assign_or_ignore_def Let_def
  by (intro frame_rules refl keeps_audited_transaction logs_bind_second logs_seq_second
      logs_audit_change | auto simp: same_log_def split: if_splits)+

end
