(* ===== verification/ObjectTypes.thy ===== *)
theory ObjectTypes
  imports Rbac
begin

text \<open>
  The schema layer (\<open>kernel/src/object.rs\<close>): defining, replacing and reading the object types of
  a tenant. A definition is accepted only when it is well formed: a non-blank key, distinct
  non-blank field keys, options for the enumerations and a target for the references.
\<close>

section \<open>Validation\<close>

definition validate_field_def :: "field_definition \<Rightarrow> api_error + unit" where
  "validate_field_def f =
     (if f_type f \<in> {Enum, MultiEnum} \<and> f_enum_options f = []
      then Inl (validation (''field '' @ quoted (f_key f) @ '' must define enum_options''))
      else if f_type f = RecordRef \<and> f_ref_object_type f = None
      then Inl (validation (''field '' @ quoted (f_key f) @ '' must set ref_object_type''))
      else Inr ())"

fun validate_fields :: "string set \<Rightarrow> field_definition list \<Rightarrow> api_error + unit" where
  "validate_fields seen [] = Inr ()"
| "validate_fields seen (f # fs) =
     (if trim (f_key f) = [] then Inl (validation ''field key is required'')
      else if f_key f \<in> seen then Inl (validation (''duplicate field key '' @ quoted (f_key f)))
      else case validate_field_def f of
             Inl e \<Rightarrow> Inl e
           | Inr _ \<Rightarrow> validate_fields (insert (f_key f) seen) fs)"

definition validate_object_type :: "object_type_def \<Rightarrow> api_error + unit" where
  "validate_object_type def =
     (if trim (ot_key def) = [] then Inl (validation ''object type key is required'')
      else validate_fields {} (ot_fields def))"

text \<open>The specification of an acceptable object type.\<close>

definition field_ok :: "field_definition \<Rightarrow> bool" where
  "field_ok f \<longleftrightarrow>
     trim (f_key f) \<noteq> [] \<and>
     (f_type f \<in> {Enum, MultiEnum} \<longrightarrow> f_enum_options f \<noteq> []) \<and>
     (f_type f = RecordRef \<longrightarrow> f_ref_object_type f \<noteq> None)"

definition object_type_ok :: "object_type_def \<Rightarrow> bool" where
  "object_type_ok def \<longleftrightarrow>
     trim (ot_key def) \<noteq> [] \<and> distinct (map f_key (ot_fields def)) \<and>
     (\<forall>f\<in>set (ot_fields def). field_ok f)"

lemma validate_field_def_ok:
  "trim (f_key f) \<noteq> [] \<Longrightarrow> validate_field_def f = Inr () \<longleftrightarrow> field_ok f"
  by (auto simp: validate_field_def_def field_ok_def)

lemma validate_fields_ok:
  "validate_fields seen fs = Inr () \<longleftrightarrow>
     distinct (map f_key fs) \<and> seen \<inter> f_key ` set fs = {} \<and> (\<forall>f\<in>set fs. field_ok f)"
proof (induction fs arbitrary: seen)
  case (Cons f fs)
  show ?case
  proof (cases "trim (f_key f) = []")
    case True
    then show ?thesis by (simp add: field_ok_def)
  next
    case False
    have "validate_field_def f = Inr () \<longleftrightarrow> field_ok f"
      using False by (rule validate_field_def_ok)
    with False Cons.IH [of "insert (f_key f) seen"] show ?thesis
      by (cases "validate_field_def f") auto
  qed
qed simp

lemma validate_object_type_iff: "validate_object_type def = Inr () \<longleftrightarrow> object_type_ok def"
  by (simp add: validate_object_type_def validate_fields_ok object_type_ok_def)

lemma validate_fields_code: "validate_fields seen fs = Inl e \<Longrightarrow> e_code e = Validation"
  by (induction seen fs rule: validate_fields.induct)
    (auto simp: validate_field_def_def split: if_splits)

lemma validate_object_type_code: "validate_object_type def = Inl e \<Longrightarrow> e_code e = Validation"
  by (auto simp: validate_object_type_def split: if_splits dest: validate_fields_code)

text \<open>With distinct field keys, \<open>field\<close> finds every declared field.\<close>

lemma field_of_in:
  assumes "object_type_ok ot" "f \<in> set (ot_fields ot)"
  shows "field_of ot (f_key f) = Some f"
proof (cases "field_of ot (f_key f)")
  case None
  with assms(2) show ?thesis by (auto simp: field_of_def find_None_all)
next
  case (Some g)
  then have "g \<in> set (ot_fields ot)" "f_key g = f_key f" by (auto dest: field_of_Some)
  with assms have "g = f"
    unfolding object_type_ok_def by (metis distinct_map inj_onD)
  with Some show ?thesis by simp
qed

section \<open>Operations\<close>

definition find_object_type :: "database \<Rightarrow> string \<Rightarrow> string \<Rightarrow> object_type_def option" where
  "find_object_type d t key =
     map_option ob_def
       (find (\<lambda>row. ob_tenant_id row = t \<and> ot_key (ob_def row) = key) (object_types d))"

definition load_object_type :: "kernel \<Rightarrow> string \<Rightarrow> string \<Rightarrow> object_type_def kern" where
  "load_object_type k t key =
     bindK (query k (\<lambda>d. find_object_type d t key)) (\<lambda>row.
     someK (not_found (''object type '' @ quoted key @ '' not found'')) row)"

definition insert_object_type :: "kernel \<Rightarrow> string \<Rightarrow> object_type_def \<Rightarrow> string \<Rightarrow> unit kern" where
  "insert_object_type k t def ts =
     stmt k (\<lambda>d. sql_insert
       (ot_id def \<notin> (ot_id \<circ> ob_def) ` set (object_types d) \<and>
        (t, ot_key def) \<notin> (\<lambda>r. (ob_tenant_id r, ot_key (ob_def r))) ` set (object_types d))
       (tenant_exists d t)
       (d\<lparr>object_types := object_types d @
            [\<lparr>ob_tenant_id = t, ob_def = def, ob_created_at = ts\<rparr>]\<rparr>))"

definition create_object_type ::
  "kernel \<Rightarrow> auth_context \<Rightarrow> object_type_def \<Rightarrow> object_type_def kern" where
  "create_object_type k ctx def =
     seqK (authorize k ctx Configure ''object_types'' None) (
     seqK (resK (validate_object_type def)) (
     bindK (if ot_id def = [] then new_id k else retK (ot_id def)) (\<lambda>id.
     bindK (now_rfc3339 k) (\<lambda>ts.
     seqK (transaction k (
       seqK (insert_object_type k (tenant_id ctx) (def\<lparr>ot_id := id\<rparr>) ts)
            (audit_change k ctx ''object_type.create'' (Some ''object_type'') (Some (ot_key def))
               None
               (Some (jobj [(''key'', JString (ot_key def)),
                            (''fields'', jnat (length (ot_fields def)))])) (\<lambda>ev. ev))))
     (retK (def\<lparr>ot_id := id\<rparr>))))))"

text \<open>The columns an update sets; id, tenant, key, \<open>system\<close> and creation time stay.\<close>

definition replace_object_type :: "object_type_def \<Rightarrow> object_type_row \<Rightarrow> object_type_row" where
  "replace_object_type def row = row\<lparr>ob_def := (ob_def row)
     \<lparr>ot_label := ot_label def, ot_label_plural := ot_label_plural def,
      ot_description := ot_description def, ot_workflow_key := ot_workflow_key def,
      ot_display_field := ot_display_field def, ot_module := ot_module def,
      ot_fields := ot_fields def\<rparr>\<rparr>"

definition update_object_type ::
  "kernel \<Rightarrow> auth_context \<Rightarrow> string \<Rightarrow> object_type_def \<Rightarrow> object_type_def kern" where
  "update_object_type k ctx key def =
     seqK (authorize k ctx Configure ''object_types'' None) (
     seqK (resK (validate_object_type def)) (
     bindK (load_object_type k (tenant_id ctx) key) (\<lambda>prev.
     seqK (transaction k (
       bindK (stmt k (\<lambda>d.
         let hit = (\<lambda>row. ob_tenant_id row = tenant_id ctx \<and> ot_key (ob_def row) = key)
         in Inr (length (filter hit (object_types d)),
                 d\<lparr>object_types := upd_where hit (replace_object_type def) (object_types d)\<rparr>)))
       (\<lambda>affected.
       seqK (guardK (affected \<noteq> 0) (not_found ''object type not found''))
            (audit_change k ctx ''object_type.update'' (Some ''object_type'') (Some key)
               (Some (jobj [(''fields'', jnat (length (ot_fields prev)))]))
               (Some (jobj [(''fields'', jnat (length (ot_fields def)))])) (\<lambda>ev. ev)))))
     (retK (def\<lparr>ot_key := key\<rparr>)))))"

definition get_object_type :: "kernel \<Rightarrow> auth_context \<Rightarrow> string \<Rightarrow> object_type_def kern" where
  "get_object_type k ctx key =
     seqK (authorize k ctx Read ''object_types'' None) (load_object_type k (tenant_id ctx) key)"

definition list_object_types :: "kernel \<Rightarrow> auth_context \<Rightarrow> object_type_def list kern" where
  "list_object_types k ctx =
     seqK (authorize k ctx Read ''object_types'' None)
       (query k (\<lambda>d. sort_key ot_key
          (map ob_def (filter (\<lambda>row. ob_tenant_id row = tenant_id ctx) (object_types d)))))"

section \<open>Facts\<close>

lemma load_object_type_Inr: "load_object_type k t key s = (Inr ot, s') \<longleftrightarrow>
    \<not> db_fault k (tick s) \<and> find_object_type (db s) t key = Some ot \<and> s' = s\<lparr>tick := Suc (tick s)\<rparr>"
  by (auto simp: load_object_type_def run_inv)

lemma load_object_type_run:
  "reliable k \<Longrightarrow> find_object_type (db s) t key = Some ot \<Longrightarrow>
     load_object_type k t key s = (Inr ot, s\<lparr>tick := Suc (tick s)\<rparr>)"
  by (simp add: load_object_type_Inr)

lemma find_object_type_key: "find_object_type d t key = Some ot \<Longrightarrow> ot_key ot = key"
  by (auto simp: find_object_type_def dest: find_Some_in)

lemma replace_object_type_simps [simp]:
  "ob_tenant_id (replace_object_type def row) = ob_tenant_id row"
  "ot_key (ob_def (replace_object_type def row)) = ot_key (ob_def row)"
  "ot_id (ob_def (replace_object_type def row)) = ot_id (ob_def row)"
  "ot_system (ob_def (replace_object_type def row)) = ot_system (ob_def row)"
  "ot_fields (ob_def (replace_object_type def row)) = ot_fields def"
  by (simp_all add: replace_object_type_def)

context db_frame begin

lemma keeps_load_object_type [frame_rules]: "keeps R (load_object_type k t key)"
  unfolding load_object_type_def by (intro frame_rules keeps_bindK keeps_query keeps_someK)

end

lemma keeps_isolated_insert_object_type [frame_rules]:
  "keeps (isolated t) (insert_object_type k t def ts)"
  unfolding insert_object_type_def by (intro frame_rules) (auto simp: isolated_def)

lemma keeps_isolated_create_object_type:
  "keeps (isolated (tenant_id ctx)) (create_object_type k ctx def)"
  unfolding create_object_type_def by (intro frame_rules refl | simp)+

lemma keeps_isolated_update_object_type:
  "keeps (isolated (tenant_id ctx)) (update_object_type k ctx key def)"
  unfolding update_object_type_def
  by (intro frame_rules | auto simp: isolated_def Let_def intro!: others_upd_where)+

lemma keeps_audited_create_object_type: "keeps audited (create_object_type k ctx def)"
  unfolding create_object_type_def insert_object_type_def
  by (intro frame_rules refl keeps_audited_transaction logs_seq_second logs_audit_change
      | auto simp: same_log_def)+

lemma keeps_audited_update_object_type: "keeps audited (update_object_type k ctx key def)"
  unfolding update_object_type_def
  by (intro frame_rules refl keeps_audited_transaction logs_bind_second logs_seq_second
      logs_audit_change | auto simp: same_log_def Let_def)+

end
