(* ===== verification/Templates.thy ===== *)
theory Templates
  imports Rows
begin

text \<open>
  The five built-in templates of the builder (\<open>kernel/src/builder.rs\<close>), as data: the object types
  a tenant can install or migrate to, and the approval workflow of the finance template's
  invoices.
\<close>

definition field :: "string \<Rightarrow> string \<Rightarrow> field_type \<Rightarrow> field_definition" where
  "field key label kind = ai_visible (new_field key label kind)"

definition simple_object ::
  "string \<Rightarrow> string \<Rightarrow> string \<Rightarrow> string \<Rightarrow> string \<Rightarrow> field_definition list
   \<Rightarrow> builder_definition" where
  "simple_object key label plural module_key shown fs =
     \<lparr>bd_key = key, bd_label = label, bd_label_plural = Some plural, bd_description = None,
      bd_icon = None, bd_module = Some module_key, bd_display_field = Some shown,
      bd_fields = fs, bd_relations = [], bd_workflow = None, bd_permissions = [],
      bd_approval_rules = [], bd_sensitive_ai_visibility_confirmed = False\<rparr>"

definition invoice_wf :: workflow_def where
  "invoice_wf =
     \<lparr>wf_key = ''invoice_approval'', wf_object_type = ''invoice'', wf_name = ''Invoice Approval'',
      wf_initial_state = ''draft'',
      wf_states =
       [workflow_state ''draft'' False,
        workflow_state ''submitted'' False,
        workflow_state ''approved'' False,
        workflow_state ''paid'' True,
        workflow_state ''cancelled'' True,
        workflow_state ''rejected'' True],
      wf_transitions =
       [workflow_transition ''submit'' ''draft'' ''submitted'' ''Submit'' False,
        workflow_transition ''approve'' ''submitted'' ''approved'' ''Approve'' True,
        workflow_transition ''reject'' ''submitted'' ''rejected'' ''Reject'' True,
        workflow_transition ''mark_paid'' ''approved'' ''paid'' ''Mark paid'' False,
        workflow_transition ''cancel'' ''draft'' ''cancelled'' ''Cancel'' False]\<rparr>"

definition finance_template :: builder_template where
  "finance_template =
     \<lparr>bt_key = ''finance'', bt_name = ''Finance'',
      bt_description = ''Accounts, invoices, payments, and budgets.'',
      bt_objects =
       [\<lparr>bd_key = ''account'', bd_label = ''Account'', bd_label_plural = Some ''Accounts'',
          bd_description = Some ''Customer or billing account.'', bd_icon = Some ''AC'',
          bd_module = Some ''finance'', bd_display_field = Some ''name'',
          bd_fields =
            [display (required (field ''name'' ''Name'' Text)),
             field ''email'' ''Email'' Text,
             options [''standard'', ''premium'', ''enterprise''] (field ''tier'' ''Tier'' Enum)],
          bd_relations = [], bd_workflow = None, bd_permissions = [], bd_approval_rules = [],
          bd_sensitive_ai_visibility_confirmed = False\<rparr>,
        \<lparr>bd_key = ''invoice'', bd_label = ''Invoice'', bd_label_plural = Some ''Invoices'',
          bd_description = Some ''Customer invoice with approval workflow.'', bd_icon = Some ''IN'',
          bd_module = Some ''finance'', bd_display_field = Some ''number'',
          bd_fields =
            [display (required (field ''number'' ''Number'' Text)),
             references ''account'' (field ''account_id'' ''Account'' RecordRef),
             display (required (field ''amount'' ''Amount'' Money)),
             options [''draft'', ''submitted'', ''approved'', ''paid'', ''cancelled''] (field ''status'' ''Status'' Enum),
             field ''due_date'' ''Due Date'' Date,
             restricted (new_field ''internal_note'' ''Internal Note'' LongText)],
          bd_relations = [], bd_workflow = Some invoice_wf, bd_permissions = [], bd_approval_rules = [],
          bd_sensitive_ai_visibility_confirmed = False\<rparr>,
        simple_object ''payment'' ''Payment'' ''Payments'' ''finance'' ''reference''
         [display (required (field ''reference'' ''Reference'' Text)),
          references ''invoice'' (field ''invoice_id'' ''Invoice'' RecordRef),
          field ''amount'' ''Amount'' Money,
          field ''paid_date'' ''Paid Date'' Date],
        simple_object ''budget'' ''Budget'' ''Budgets'' ''finance'' ''name''
         [display (required (field ''name'' ''Name'' Text)),
          field ''period'' ''Period'' Text,
          field ''amount'' ''Amount'' Money]]\<rparr>"

definition procurement_template :: builder_template where
  "procurement_template =
     \<lparr>bt_key = ''procurement'', bt_name = ''Procurement'',
      bt_description = ''Vendors, requests, orders, and receipts.'',
      bt_objects =
       [simple_object ''vendor'' ''Vendor'' ''Vendors'' ''procurement'' ''name''
         [display (required (field ''name'' ''Name'' Text)),
          field ''email'' ''Email'' Text,
          options [''low'', ''medium'', ''high''] (field ''risk'' ''Risk'' Enum)],
        simple_object ''purchase_request'' ''Purchase Request'' ''Purchase Requests'' ''procurement'' ''number''
         [display (required (field ''number'' ''Number'' Text)),
          field ''item'' ''Item'' Text,
          field ''estimated_cost'' ''Estimated Cost'' Money,
          options [''requested'', ''approved'', ''ordered'', ''rejected''] (field ''status'' ''Status'' Enum)],
        simple_object ''purchase_order'' ''Purchase Order'' ''Purchase Orders'' ''procurement'' ''number''
         [display (required (field ''number'' ''Number'' Text)),
          references ''vendor'' (field ''vendor_id'' ''Vendor'' RecordRef),
          field ''amount'' ''Amount'' Money],
        simple_object ''receipt'' ''Receipt'' ''Receipts'' ''procurement'' ''number''
         [display (required (field ''number'' ''Number'' Text)),
          field ''quantity'' ''Quantity'' Number]]\<rparr>"

definition inventory_template :: builder_template where
  "inventory_template =
     \<lparr>bt_key = ''inventory'', bt_name = ''Inventory'',
      bt_description = ''Warehouses, products, and inventory movements.'',
      bt_objects =
       [simple_object ''warehouse'' ''Warehouse'' ''Warehouses'' ''inventory'' ''name''
         [display (required (field ''name'' ''Name'' Text)),
          field ''location'' ''Location'' Text],
        simple_object ''product'' ''Product'' ''Products'' ''inventory'' ''name''
         [display (required (field ''sku'' ''SKU'' Text)),
          display (required (field ''name'' ''Name'' Text)),
          field ''price'' ''Price'' Money,
          field ''quantity'' ''Quantity'' Number,
          field ''reorder_point'' ''Reorder Point'' Number],
        simple_object ''inventory_movement'' ''Inventory Movement'' ''Inventory Movements'' ''inventory'' ''reference''
         [display (required (field ''reference'' ''Reference'' Text)),
          field ''quantity'' ''Quantity'' Number]]\<rparr>"

definition crm_template :: builder_template where
  "crm_template =
     \<lparr>bt_key = ''crm'', bt_name = ''CRM'',
      bt_description = ''Accounts, contacts, leads, and deals.'',
      bt_objects =
       [simple_object ''contact'' ''Contact'' ''Contacts'' ''crm'' ''name''
         [display (required (field ''name'' ''Name'' Text)),
          field ''email'' ''Email'' Text]]\<rparr>"

definition hr_template :: builder_template where
  "hr_template =
     \<lparr>bt_key = ''hr'', bt_name = ''HR'',
      bt_description = ''Employees and leave requests.'',
      bt_objects =
       [simple_object ''employee'' ''Employee'' ''Employees'' ''hr'' ''name''
         [display (required (field ''name'' ''Name'' Text)),
          field ''email'' ''Email'' Text,
          restricted (new_field ''salary'' ''Salary'' Money)]]\<rparr>"

definition templates :: "builder_template list" where
  "templates =
     [finance_template, procurement_template, inventory_template, crm_template, hr_template]"

definition template_by_key :: "string \<Rightarrow> builder_template option" where
  "template_by_key key = find (\<lambda>t. bt_key t = key) templates"

lemmas template_defs = templates_def finance_template_def procurement_template_def
  inventory_template_def crm_template_def hr_template_def invoice_wf_def simple_object_def
  field_def workflow_state_def workflow_transition_def field_builder_defs

lemma template_by_key_in: "template_by_key key = Some t \<Longrightarrow> t \<in> set templates \<and> bt_key t = key"
  by (auto simp: template_by_key_def dest: find_Some_in)

end
