(* ===== verification/Migration.thy ===== *)
theory Migration
  imports ObjectTypes Templates
begin

text \<open>
  The first-run migration service (\<open>kernel/src/migration.rs\<close>): the snapshot of the installed
  system, the field-by-field plan onto a template, the report, and the one session per tenant. The
  \<open>HashMap\<close> of record counts is a map; a lookup table built by \<open>collect\<close> keeps the last entry of
  a key.
\<close>

type_synonym counts = "string \<Rightarrow> int option"

definition RESOURCE :: string where "RESOURCE = ''migration''"
definition OLD_SYSTEM_KEY :: string where "OLD_SYSTEM_KEY = ''installed''"
definition OLD_SYSTEM_LABEL :: string where "OLD_SYSTEM_LABEL = ''Your current (old) system''"

definition show_int :: "int \<Rightarrow> string" where
  "show_int n = (if n < 0 then ''-'' @ show_nat (nat (- n)) else show_nat (nat n))"

text \<open>\<open>{:?}\<close> of a field type.\<close>

fun debug_type :: "field_type \<Rightarrow> string" where
  "debug_type Text = ''Text''"
| "debug_type LongText = ''LongText''"
| "debug_type Number = ''Number''"
| "debug_type Money = ''Money''"
| "debug_type Boolean = ''Boolean''"
| "debug_type Date = ''Date''"
| "debug_type DateTime = ''DateTime''"
| "debug_type Enum = ''Enum''"
| "debug_type MultiEnum = ''MultiEnum''"
| "debug_type Json = ''Json''"
| "debug_type RecordRef = ''RecordRef''"
| "debug_type UserRef = ''UserRef''"
| "debug_type FileRef = ''FileRef''"
| "debug_type Formula = ''Formula''"

definition count_of :: "counts \<Rightarrow> string \<Rightarrow> int" where
  "count_of counts key = (case counts key of Some n \<Rightarrow> n | None \<Rightarrow> 0)"

section \<open>Snapshots\<close>

definition ensure_template :: "string \<Rightarrow> api_error + builder_definition list" where
  "ensure_template key =
     (case template_by_key key of
        Some t \<Rightarrow> Inr (bt_objects t)
      | None \<Rightarrow> Inl (not_found (''unknown target system '' @ quoted key)))"

definition snapshot_from_objects :: "object_type_def list \<Rightarrow> counts \<Rightarrow> system_snapshot" where
  "snapshot_from_objects objects counts =
     \<lparr>sn_kind = Old, sn_key = OLD_SYSTEM_KEY, sn_label = OLD_SYSTEM_LABEL,
      sn_objects = map (\<lambda>o'. \<lparr>so_key = ot_key o', so_label = ot_label o', so_module = ot_module o',
                               so_field_keys = map f_key (ot_fields o'),
                               so_record_count = count_of counts (ot_key o')\<rparr>) objects\<rparr>"

definition lookup_old :: "object_type_def list \<Rightarrow> string \<Rightarrow> object_type_def option" where
  "lookup_old objects key = map_of (rev (map (\<lambda>o'. (ot_key o', o')) objects)) key"

definition target_snapshot ::
  "string \<Rightarrow> builder_definition list \<Rightarrow> object_type_def list \<Rightarrow> counts \<Rightarrow> system_snapshot" where
  "target_snapshot target_key target_objects old_objects counts =
     \<lparr>sn_kind = Selected, sn_key = target_key, sn_label = ''Selected system: '' @ target_key,
      sn_objects = map (\<lambda>def. \<lparr>so_key = bd_key def, so_label = bd_label def,
          so_module = bd_module def, so_field_keys = map f_key (bd_fields def),
          so_record_count = (if lookup_old old_objects (bd_key def) \<noteq> None
                             then count_of counts (bd_key def) else 0)\<rparr>) target_objects\<rparr>"

section \<open>The plan\<close>

text \<open>One target field against the source object: the mapping and the conflict it raises.\<close>

definition map_target_field ::
  "string \<Rightarrow> object_type_def \<Rightarrow> field_definition \<Rightarrow> field_mapping \<times> migration_conflict list" where
  "map_target_field target_key old tf =
     (case field_of old (f_key tf) of
        Some sf \<Rightarrow>
          if f_type sf = f_type tf
          then (\<lparr>fm_source_field = Some (f_key sf), fm_target_field = Some (f_key tf),
                 fm_source_type = Some (f_type sf), fm_target_type = Some (f_type tf),
                 fm_status = Mapped\<rparr>, [])
          else (\<lparr>fm_source_field = Some (f_key sf), fm_target_field = Some (f_key tf),
                 fm_source_type = Some (f_type sf), fm_target_type = Some (f_type tf),
                 fm_status = TypeMismatch\<rparr>,
                [\<lparr>mc_kind = TypeMismatchConflict, mc_object = target_key,
                  mc_field = Some (f_key tf),
                  mc_detail = ''field '' @ quoted (f_key tf) @ '' is '' @ debug_type (f_type sf) @
                    '' in the old system but '' @ debug_type (f_type tf) @
                    '' in the selected system''\<rparr>])
      | None \<Rightarrow>
          if f_required tf
          then (\<lparr>fm_source_field = None, fm_target_field = Some (f_key tf), fm_source_type = None,
                 fm_target_type = Some (f_type tf), fm_status = MissingRequiredInTarget\<rparr>,
                [\<lparr>mc_kind = MissingRequiredTarget, mc_object = target_key,
                  mc_field = Some (f_key tf),
                  mc_detail = ''required field '' @ quoted (f_key tf) @
                    '' has no source value; imported records need a default''\<rparr>])
          else (\<lparr>fm_source_field = None, fm_target_field = Some (f_key tf), fm_source_type = None,
                 fm_target_type = Some (f_type tf), fm_status = AddedInTarget\<rparr>, []))"

definition dropped_field :: "field_definition \<Rightarrow> field_mapping" where
  "dropped_field sf =
     \<lparr>fm_source_field = Some (f_key sf), fm_target_field = None, fm_source_type = Some (f_type sf),
      fm_target_type = None, fm_status = DroppedFromSource\<rparr>"

definition dropped_conflict :: "string \<Rightarrow> field_definition \<Rightarrow> migration_conflict" where
  "dropped_conflict target_key sf =
     \<lparr>mc_kind = DroppedField, mc_object = target_key, mc_field = Some (f_key sf),
      mc_detail = ''old field '' @ quoted (f_key sf) @
        '' has no counterpart in the selected system and would not be carried over''\<rparr>"

text \<open>The mappings, and the conflicts the code appends to its argument.\<close>

definition map_fields ::
  "string \<Rightarrow> object_type_def \<Rightarrow> field_definition list
   \<Rightarrow> field_mapping list \<times> migration_conflict list" where
  "map_fields target_key old target_fields =
     (let mapped = map (map_target_field target_key old) target_fields;
          dropped = filter (\<lambda>sf. f_key sf \<notin> set (map f_key target_fields)) (ot_fields old)
      in (map fst mapped @ map dropped_field dropped,
          concat (map snd mapped) @ map (dropped_conflict target_key) dropped))"

definition plan_target ::
  "object_type_def list \<Rightarrow> counts \<Rightarrow> builder_definition
   \<Rightarrow> object_mapping \<times> migration_conflict list" where
  "plan_target old_objects counts def =
     (case lookup_old old_objects (bd_key def) of
        Some old \<Rightarrow>
          (let (mappings, conflicts) = map_fields (bd_key def) old (bd_fields def)
           in (\<lparr>om_source_object = Some (bd_key def), om_target_object = Some (bd_key def),
                om_label = bd_label def, om_record_count = count_of counts (bd_key def),
                om_field_mappings = mappings, om_note = None\<rparr>, conflicts))
      | None \<Rightarrow>
          (\<lparr>om_source_object = None, om_target_object = Some (bd_key def),
            om_label = bd_label def, om_record_count = 0,
            om_field_mappings = map (\<lambda>tf. \<lparr>fm_source_field = None,
              fm_target_field = Some (f_key tf), fm_source_type = None,
              fm_target_type = Some (f_type tf), fm_status = AddedInTarget\<rparr>) (bd_fields def),
            om_note = Some
              ''New object type in the selected system; no existing data to import.''\<rparr>, []))"

definition plan_unmapped :: "counts \<Rightarrow> object_type_def \<Rightarrow> object_mapping \<times> migration_conflict list" where
  "plan_unmapped counts old =
     (let record_count = count_of counts (ot_key old)
      in (\<lparr>om_source_object = Some (ot_key old), om_target_object = None,
           om_label = ot_label old, om_record_count = record_count,
           om_field_mappings = map dropped_field (ot_fields old),
           om_note = Some
             ''No counterpart in the selected system; this data stays in the old system.''\<rparr>,
          [\<lparr>mc_kind = UnmappedSourceObject, mc_object = ot_key old, mc_field = None,
            mc_detail = quoted (ot_key old) @ '' ('' @ show_int record_count @
              '' record(s)) has no counterpart in the selected system''\<rparr>]))"

definition matched :: "object_type_def list \<Rightarrow> builder_definition list \<Rightarrow> builder_definition list" where
  "matched old_objects target_objects =
     filter (\<lambda>def. lookup_old old_objects (bd_key def) \<noteq> None) target_objects"

definition build_plan ::
  "string \<Rightarrow> object_type_def list \<Rightarrow> counts \<Rightarrow> builder_definition list \<Rightarrow> migration_plan" where
  "build_plan target_key old_objects counts target_objects =
     (let targets = map (plan_target old_objects counts) target_objects;
          leftover = map (plan_unmapped counts)
            (filter (\<lambda>o'. ot_key o' \<notin> set (map bd_key target_objects)) old_objects);
          conflicts = concat (map snd targets) @ concat (map snd leftover);
          mappable = sum_list (map (\<lambda>def. count_of counts (bd_key def))
                       (matched old_objects target_objects));
          source_system = snapshot_from_objects old_objects counts;
          source_records = total_records source_system
      in \<lparr>mp_source_system = source_system,
          mp_target_system = target_snapshot target_key target_objects old_objects counts,
          mp_object_mappings = map fst targets @ map fst leftover,
          mp_conflicts = conflicts,
          mp_summary =
            \<lparr>ms_source_objects = length old_objects, ms_target_objects = length target_objects,
             ms_mapped_objects = length (matched old_objects target_objects),
             ms_source_records = source_records, ms_records_mappable = mappable,
             ms_records_unmapped = source_records - mappable,
             ms_conflicts = length conflicts\<rparr>\<rparr>)"

section \<open>The report\<close>

definition old_only_summary :: "system_snapshot \<Rightarrow> migration_summary" where
  "old_only_summary old =
     (let n = total_records old
      in \<lparr>ms_source_objects = length (sn_objects old), ms_target_objects = 0,
          ms_mapped_objects = 0, ms_source_records = n, ms_records_mappable = 0,
          ms_records_unmapped = n, ms_conflicts = 0\<rparr>)"

definition em_dash :: string where
  "em_dash = [CHR 0xE2, CHR 0x80, CHR 0x94]"

definition report_plan ::
  "system_kind \<Rightarrow> object_type_def list \<Rightarrow> counts \<Rightarrow> string option \<Rightarrow> migration_plan option" where
  "report_plan for_system old_objects counts selected =
     (case (for_system, selected) of
        (Selected, Some key) \<Rightarrow>
          map_option (\<lambda>t. build_plan key old_objects counts (bt_objects t)) (template_by_key key)
      | _ \<Rightarrow> None)"

definition report_notes ::
  "system_kind \<Rightarrow> migration_plan option \<Rightarrow> system_snapshot \<Rightarrow> string list" where
  "report_notes for_system plan old =
     (case plan of
        Some p \<Rightarrow>
          [''This is a plan only '' @ em_dash @ '' no records were moved, rewritten, or deleted.'',
           show_int (ms_records_mappable (mp_summary p)) @ '' of '' @
             show_int (ms_source_records (mp_summary p)) @
             '' record(s) map onto the selected system; '' @
             show_int (ms_records_unmapped (mp_summary p)) @ '' stay in the old system.'']
      | None \<Rightarrow>
          (case for_system of
             Old \<Rightarrow> [''Inventory of your current (old) system. You can keep booting it; '' @
                     ''nothing here has changed.'']
           | Selected \<Rightarrow> [''No target system is selected, so there is nothing to migrate onto '' @
                     ''yet. Showing the old-system inventory.''])) @
     (case plan of
        Some p \<Rightarrow>
          (if 0 < ms_conflicts (mp_summary p)
           then [show_nat (ms_conflicts (mp_summary p)) @
                 '' conflict(s) need a decision before a clean import '' @ em_dash @
                 '' see `plan.conflicts`.'']
           else [''No conflicts detected; the selected system is a clean fit.''])
      | None \<Rightarrow> []) @
     [''Old system: '' @ show_nat (length (sn_objects old)) @ '' object type(s), '' @
      show_int (total_records old) @ '' active record(s).'']"

definition build_report ::
  "kernel \<Rightarrow> string \<Rightarrow> system_kind \<Rightarrow> object_type_def list \<Rightarrow> counts \<Rightarrow> string option
   \<Rightarrow> migration_report kern" where
  "build_report k t for_system old_objects counts selected =
     (let old = snapshot_from_objects old_objects counts;
          plan = report_plan for_system old_objects counts selected in
      bindK (new_id k) (\<lambda>rid.
      bindK (now_rfc3339 k) (\<lambda>ts.
      retK \<lparr>mr_id = rid, mr_tenant_id = t, mr_generated_at = ts, mr_for_system = for_system,
            mr_source_system = old, mr_target_system = map_option mp_target_system plan,
            mr_plan = plan,
            mr_summary = (case plan of Some p \<Rightarrow> mp_summary p | None \<Rightarrow> old_only_summary old),
            mr_notes = report_notes for_system plan old\<rparr>)))"

section \<open>Sessions\<close>

definition active_record_counts :: "kernel \<Rightarrow> string \<Rightarrow> counts kern" where
  "active_record_counts k t =
     query k (\<lambda>d key.
       let n = length (filter (\<lambda>r. r_tenant_id r = t \<and> r_lifecycle r = Active \<and>
                                    r_object_type r = key) (records d))
       in if n = 0 then None else Some (int n))"

definition old_objects_and_counts ::
  "kernel \<Rightarrow> auth_context \<Rightarrow> (object_type_def list \<times> counts) kern" where
  "old_objects_and_counts k ctx =
     bindK (list_object_types k ctx) (\<lambda>objects.
     bindK (active_record_counts k (tenant_id ctx)) (\<lambda>counts. retK (objects, counts)))"

definition find_session :: "database \<Rightarrow> string \<Rightarrow> migration_session option" where
  "find_session d t = find (\<lambda>se. se_tenant_id se = t) (migration_sessions d)"

definition load_session :: "kernel \<Rightarrow> string \<Rightarrow> migration_session option kern" where
  "load_session k t = query k (\<lambda>d. find_session d t)"

definition require_session :: "kernel \<Rightarrow> auth_context \<Rightarrow> migration_session kern" where
  "require_session k ctx =
     bindK (load_session k (tenant_id ctx))
       (someK (failed_precondition ''no migration session; call start_migration first''))"

definition set_session :: "string \<Rightarrow> (migration_session \<Rightarrow> migration_session) \<Rightarrow> database \<Rightarrow> database" where
  "set_session t f d =
     d\<lparr>migration_sessions := upd_where (\<lambda>se. se_tenant_id se = t) f (migration_sessions d)\<rparr>"

text \<open>\<open>INSERT .. ON CONFLICT(tenant_id) DO UPDATE\<close>: a restart keeps \<open>active_system\<close>.\<close>

definition upsert_session ::
  "string \<Rightarrow> migration_status \<Rightarrow> string option \<Rightarrow> system_snapshot \<Rightarrow> string \<Rightarrow> database
   \<Rightarrow> sql_error + unit \<times> database" where
  "upsert_session t status target snapshot ts d =
     (if list_ex (\<lambda>se. se_tenant_id se = t) (migration_sessions d)
      then Inr ((), set_session t
             (\<lambda>se. se\<lparr>se_status := status, se_selected_system_key := target,
                      se_old_system := snapshot, se_updated_at := ts\<rparr>) d)
      else sql_insert True (tenant_exists d t)
             (d\<lparr>migration_sessions := migration_sessions d @
                [\<lparr>se_tenant_id = t, se_status = status, se_active_system = Old,
                  se_selected_system_key = target, se_old_system = snapshot,
                  se_last_report = None, se_created_at = ts, se_updated_at = ts\<rparr>]\<rparr>))"

definition audit_migration :: "kernel \<Rightarrow> auth_context \<Rightarrow> string \<Rightarrow> json \<Rightarrow> unit kern" where
  "audit_migration k ctx act after =
     bindK (event_from k ctx act (Some RESOURCE) None None (Some after)) (\<lambda>ev. audit k ev)"

definition start_migration ::
  "kernel \<Rightarrow> auth_context \<Rightarrow> string option \<Rightarrow> migration_session kern" where
  "start_migration k ctx target =
     seqK (authorize k ctx Configure RESOURCE None) (
     seqK (case target of
             Some key \<Rightarrow> bindK (resK (ensure_template key)) (\<lambda>_. retK ())
           | None \<Rightarrow> retK ()) (
     bindK (old_objects_and_counts k ctx) (\<lambda>(objects, counts).
     let snapshot = snapshot_from_objects objects counts;
         status = (if target \<noteq> None then TargetSelected else BootedOld) in
     bindK (now_rfc3339 k) (\<lambda>ts.
     seqK (stmt k (upsert_session (tenant_id ctx) status target snapshot ts)) (
     seqK (audit_migration k ctx ''migration.start''
             (jobj [(''objects'', jnat (length (sn_objects snapshot))),
                    (''records'', JNumber (PosInt (of_int (total_records snapshot)))),
                    (''target'', jopt target)]))
     (require_session k ctx))))))"

definition get_migration :: "kernel \<Rightarrow> auth_context \<Rightarrow> migration_session option kern" where
  "get_migration k ctx =
     seqK (authorize k ctx Read RESOURCE None) (load_session k (tenant_id ctx))"

definition select_target_system ::
  "kernel \<Rightarrow> auth_context \<Rightarrow> string \<Rightarrow> migration_session kern" where
  "select_target_system k ctx target =
     seqK (authorize k ctx Configure RESOURCE None) (
     bindK (resK (ensure_template target)) (\<lambda>_.
     bindK (require_session k ctx) (\<lambda>_.
     bindK (now_rfc3339 k) (\<lambda>ts.
     seqK (update_stmt k (set_session (tenant_id ctx)
             (\<lambda>se. se\<lparr>se_selected_system_key := Some target, se_status := TargetSelected,
                      se_updated_at := ts\<rparr>))) (
     seqK (audit_migration k ctx ''migration.select_target''
             (jobj [(''target'', JString target)]))
     (require_session k ctx))))))"

text \<open>The status after switching: booting the old system never downgrades a reported session.\<close>

definition status_after :: "system_kind \<Rightarrow> migration_status \<Rightarrow> migration_status" where
  "status_after active current =
     (case (active, current) of (Selected, BootedOld) \<Rightarrow> TargetSelected | (_, st) \<Rightarrow> st)"

definition set_active_system ::
  "kernel \<Rightarrow> auth_context \<Rightarrow> system_kind \<Rightarrow> migration_session kern" where
  "set_active_system k ctx active =
     seqK (authorize k ctx Configure RESOURCE None) (
     bindK (require_session k ctx) (\<lambda>se.
     seqK (guardK (\<not> (active = Selected \<and> se_selected_system_key se = None))
             (failed_precondition ''select a target system before activating it'')) (
     bindK (now_rfc3339 k) (\<lambda>ts.
     seqK (update_stmt k (set_session (tenant_id ctx)
             (\<lambda>row. row\<lparr>se_active_system := active,
                        se_status := status_after active (se_status se),
                        se_updated_at := ts\<rparr>))) (
     seqK (audit_migration k ctx ''migration.set_active_system''
             (jobj [(''active'', JString (system_kind_str active))]))
     (require_session k ctx))))))"

definition plan_migration :: "kernel \<Rightarrow> auth_context \<Rightarrow> migration_plan kern" where
  "plan_migration k ctx =
     seqK (authorize k ctx Read RESOURCE None) (
     bindK (require_session k ctx) (\<lambda>se.
     bindK (someK (failed_precondition ''no target system selected to plan against'')
              (se_selected_system_key se)) (\<lambda>target_key.
     bindK (resK (ensure_template target_key)) (\<lambda>template_objects.
     bindK (old_objects_and_counts k ctx) (\<lambda>(objects, counts).
     retK (build_plan target_key objects counts template_objects))))))"

definition generate_and_store_report ::
  "kernel \<Rightarrow> auth_context \<Rightarrow> system_kind \<Rightarrow> migration_report kern" where
  "generate_and_store_report k ctx for_system =
     bindK (require_session k ctx) (\<lambda>se.
     bindK (old_objects_and_counts k ctx) (\<lambda>(objects, counts).
     bindK (build_report k (tenant_id ctx) for_system objects counts (se_selected_system_key se))
       (\<lambda>report.
     bindK (now_rfc3339 k) (\<lambda>ts.
     seqK (update_stmt k (set_session (tenant_id ctx)
             (\<lambda>row. row\<lparr>se_last_report := Some report, se_status := Reported,
                        se_updated_at := ts\<rparr>))) (
     seqK (audit_migration k ctx ''migration.report''
             (jobj [(''for_system'', JString (system_kind_str for_system)),
                    (''source_records'',
                       JNumber (PosInt (of_int (ms_source_records (mr_summary report))))),
                    (''records_mappable'',
                       JNumber (PosInt (of_int (ms_records_mappable (mr_summary report))))),
                    (''conflicts'', jnat (ms_conflicts (mr_summary report)))])) (
     seqK (emit_event k ctx ''migration.report_generated''
             (jobj [(''for_system'', JString (system_kind_str for_system))]))
     (retK report)))))))"

definition migration_report ::
  "kernel \<Rightarrow> auth_context \<Rightarrow> system_kind \<Rightarrow> migration_report kern" where
  "migration_report k ctx for_system =
     seqK (authorize k ctx Read RESOURCE None) (
     bindK (require_session k ctx) (\<lambda>_.
     generate_and_store_report k ctx for_system))"

definition logout_migration_output :: "kernel \<Rightarrow> auth_context \<Rightarrow> migration_report option kern" where
  "logout_migration_output k ctx =
     bindK (load_session k (tenant_id ctx)) (\<lambda>found.
     case found of
       None \<Rightarrow> retK None
     | Some se \<Rightarrow>
         bindK (generate_and_store_report k ctx (se_active_system se)) (\<lambda>r. retK (Some r)))"

section \<open>The accounting of a plan\<close>

lemma lookup_old_iff:
  assumes "distinct (map ot_key objects)"
  shows "lookup_old objects key = Some o' \<longleftrightarrow> o' \<in> set objects \<and> ot_key o' = key"
proof -
  have "distinct (map fst (rev (map (\<lambda>o'. (ot_key o', o')) objects)))"
    using assms by (simp add: rev_map [symmetric] comp_def)
  then have "lookup_old objects key = Some o' \<longleftrightarrow>
      (key, o') \<in> set (rev (map (\<lambda>o'. (ot_key o', o')) objects))"
    unfolding lookup_old_def by simp
  then show ?thesis by auto
qed

lemma lookup_old_None: "lookup_old objects key = None \<longleftrightarrow> key \<notin> ot_key ` set objects"
  by (auto simp: lookup_old_def map_of_eq_None_iff image_comp)

lemma total_snapshot: "total_records (snapshot_from_objects objects counts) =
    sum_list (map (\<lambda>o'. count_of counts (ot_key o')) objects)"
  by (simp add: total_records_def snapshot_from_objects_def comp_def)

text \<open>
  With distinct keys on both sides, the mappable records are those of the old objects the target
  has, the unmapped ones those of the others, and nothing is counted twice or lost.
\<close>

lemma mappable_records:
  assumes "distinct (map ot_key olds)" "distinct (map bd_key targets)"
  shows "ms_records_mappable (mp_summary (build_plan tk olds counts targets)) =
    sum_list (map (\<lambda>o'. count_of counts (ot_key o'))
      (filter (\<lambda>o'. ot_key o' \<in> set (map bd_key targets)) olds))"
proof -
  have set: "set (map bd_key (matched olds targets)) =
      set (map ot_key (filter (\<lambda>o'. ot_key o' \<in> set (map bd_key targets)) olds))"
    by (auto simp: matched_def lookup_old_None image_iff) (metis, metis)
  have d1: "distinct (map bd_key (matched olds targets))"
    using assms(2) by (simp add: matched_def distinct_map_filter)
  have d2: "distinct (map ot_key (filter (\<lambda>o'. ot_key o' \<in> set (map bd_key targets)) olds))"
    using assms(1) by (simp add: distinct_map_filter)
  have "sum_list (map (count_of counts) (map bd_key (matched olds targets)))
      = sum_list (map (count_of counts) (map ot_key (filter (\<lambda>o'. ot_key o' \<in> set (map bd_key targets)) olds)))"
    unfolding sum_list_distinct_conv_sum_set [OF d1] sum_list_distinct_conv_sum_set [OF d2] set ..
  then show ?thesis by (simp add: build_plan_def Let_def comp_def)
qed

lemma unmapped_records:
  assumes "distinct (map ot_key olds)" "distinct (map bd_key targets)"
  shows "ms_records_unmapped (mp_summary (build_plan tk olds counts targets)) =
    sum_list (map (\<lambda>o'. count_of counts (ot_key o'))
      (filter (\<lambda>o'. ot_key o' \<notin> set (map bd_key targets)) olds))"
proof -
  have split: "sum_list (map g xs) = sum_list (map g (filter P xs)) + sum_list (map g (filter (\<lambda>x. \<not> P x) xs))"
    for g :: "object_type_def \<Rightarrow> int" and P xs by (induction xs) auto
  have "ms_records_unmapped (mp_summary (build_plan tk olds counts targets)) =
      total_records (snapshot_from_objects olds counts) -
      ms_records_mappable (mp_summary (build_plan tk olds counts targets))"
    by (simp add: build_plan_def Let_def)
  then show ?thesis
    unfolding mappable_records [OF assms] total_snapshot
    using split [of "\<lambda>o'. count_of counts (ot_key o')" olds "\<lambda>o'. ot_key o' \<in> set (map bd_key targets)"]
    by simp
qed

text \<open>Every target field and every source field of a mapped object appears in its mapping.\<close>

lemma map_fields_targets:
  "map fm_target_field (fst (map_fields tk old tfs)) =
     map (\<lambda>tf. Some (f_key tf)) tfs @
     map (\<lambda>_. None) (filter (\<lambda>sf. f_key sf \<notin> set (map f_key tfs)) (ot_fields old))"
  by (auto simp: map_fields_def Let_def dropped_field_def map_target_field_def split: option.splits)

lemma map_fields_sources:
  assumes "sf \<in> set (ot_fields old)"
  shows "\<exists>m\<in>set (fst (map_fields tk old tfs)). fm_source_field m = Some (f_key sf)"
proof (cases "f_key sf \<in> set (map f_key tfs)")
  case True
  then obtain tf where tf: "tf \<in> set tfs" "f_key tf = f_key sf" by auto
  have "field_of old (f_key tf) \<noteq> None"
    using assms tf by (auto simp: field_of_def find_None_all)
  then obtain sf' where "field_of old (f_key tf) = Some sf'" by auto
  moreover from this have "f_key sf' = f_key sf" using tf by (auto dest: field_of_Some)
  ultimately have "fm_source_field (fst (map_target_field tk old tf)) = Some (f_key sf)"
    by (simp add: map_target_field_def)
  moreover have "fst (map_target_field tk old tf) \<in> set (fst (map_fields tk old tfs))"
    using tf by (auto simp: map_fields_def Let_def)
  ultimately show ?thesis by blast
next
  case False
  with assms have "dropped_field sf \<in> set (fst (map_fields tk old tfs))"
    by (auto simp: map_fields_def Let_def)
  then show ?thesis by (force simp: dropped_field_def)
qed

text \<open>A mapping raises a conflict exactly when it is not clean.\<close>

definition clean_mapping :: "field_mapping \<Rightarrow> bool" where
  "clean_mapping m \<longleftrightarrow> fm_status m \<in> {Mapped, AddedInTarget}"

lemma map_fields_conflicts:
  "length (snd (map_fields tk old tfs)) =
     length (filter (\<lambda>m. \<not> clean_mapping m) (fst (map_fields tk old tfs)))"
proof -
  have one: "length (snd (map_target_field tk old tf)) =
      (if clean_mapping (fst (map_target_field tk old tf)) then 0 else 1)" for tf
    by (auto simp: map_target_field_def clean_mapping_def split: option.splits)
  have "length (concat (map (snd \<circ> map_target_field tk old) tfs)) =
      length (filter (\<lambda>m. \<not> clean_mapping m) (map (fst \<circ> map_target_field tk old) tfs))"
    by (induction tfs) (simp_all add: one)
  moreover have "filter (\<lambda>m. \<not> clean_mapping m) (map dropped_field xs) = map dropped_field xs" for xs
    by (induction xs) (simp_all add: dropped_field_def clean_mapping_def)
  ultimately show ?thesis
    by (simp add: map_fields_def Let_def)
qed

section \<open>Nothing is migrated\<close>

text \<open>What the service may change: its session, the audit log, and the events.\<close>

definition nondestructive :: "database \<Rightarrow> database \<Rightarrow> bool" where
  "nondestructive d d' \<longleftrightarrow>
     d'\<lparr>migration_sessions := [], audit_logs := [], events := []\<rparr> =
     d\<lparr>migration_sessions := [], audit_logs := [], events := []\<rparr>"

interpretation nondestructive: denial_frame nondestructive t for t
  by unfold_locales (simp_all add: nondestructive_def log_audit_def)

lemma keeps_nondestructive_writes [frame_rules]:
  "keeps nondestructive (audit_migration k ctx act after)"
  "keeps nondestructive (emit_event k ctx kind payload)"
  "keeps nondestructive (update_stmt k (set_session t f))"
  unfolding audit_migration_def audit_def insert_audit_def emit_event_def emit_on_def
  by (intro frame_rules, auto simp: nondestructive_def log_audit_def set_session_def)+

lemma upsert_session_frames:
  "upsert_session t st tg sn ts d = Inr (x, d') \<Longrightarrow>
     nondestructive d d' \<and> isolated t d d' \<and> same_log d d'"
  by (auto simp: upsert_session_def set_session_def nondestructive_def isolated_def same_log_def
      intro!: others_upd_where split: if_splits)

context denial_frame begin

lemma keeps_session_reads [frame_rules]:
  "keeps R (load_session k t')" "keeps R (require_session k ctx)"
  "keeps R (build_report k t' fs objs counts sel)"
  "tenant_id ctx = t \<Longrightarrow> keeps R (old_objects_and_counts k ctx)"
  unfolding load_session_def require_session_def build_report_def Let_def
    old_objects_and_counts_def list_object_types_def active_record_counts_def
  by (intro keeps_query keeps_bindK keeps_someK keeps_new_id keeps_now_rfc3339 keeps_retK
      keeps_seqK keeps_authorize; assumption?)+

end

lemma keeps_nondestructive_start:
  "keeps nondestructive (start_migration k ctx target)"
  unfolding start_migration_def Let_def
  by (rule frame_rules refl | blast dest: upsert_session_frames | simp)+

lemma keeps_nondestructive_reads:
  "keeps nondestructive (get_migration k ctx)" "keeps nondestructive (plan_migration k ctx)"
  unfolding get_migration_def plan_migration_def by (rule frame_rules refl)+

lemma keeps_nondestructive_select: "keeps nondestructive (select_target_system k ctx target)"
  unfolding select_target_system_def by (rule frame_rules refl)+

lemma keeps_nondestructive_activate: "keeps nondestructive (set_active_system k ctx active)"
  unfolding set_active_system_def by (rule frame_rules refl)+

lemma keeps_nondestructive_generate [frame_rules]:
  "keeps nondestructive (generate_and_store_report k ctx fs)"
  unfolding generate_and_store_report_def by (rule frame_rules refl)+

lemma keeps_nondestructive_report: "keeps nondestructive (migration_report k ctx fs)"
  unfolding migration_report_def by (rule frame_rules refl)+

lemma keeps_nondestructive_logout: "keeps nondestructive (logout_migration_output k ctx)"
  unfolding logout_migration_output_def by (rule frame_rules refl)+

lemma keeps_isolated_set_session [frame_rules]:
  assumes "\<And>x. se_tenant_id (f x) = se_tenant_id x"
  shows "isolated t d (set_session t f d)"
  using assms by (auto simp: isolated_def set_session_def intro!: others_upd_where)

lemma keeps_isolated_audit_migration [frame_rules]:
  "tenant_id ctx = t \<Longrightarrow> keeps (isolated t) (audit_migration k ctx act after)"
  unfolding audit_migration_def using keeps_audit_now(2) [where decorate = "\<lambda>ev. ev"] by simp

lemma keeps_isolated_start: "keeps (isolated (tenant_id ctx)) (start_migration k ctx target)"
  unfolding start_migration_def Let_def
  by (rule frame_rules refl | blast dest: upsert_session_frames | simp)+

lemma keeps_isolated_select: "keeps (isolated (tenant_id ctx)) (select_target_system k ctx target)"
  unfolding select_target_system_def by (rule frame_rules refl | simp)+

lemma keeps_isolated_activate: "keeps (isolated (tenant_id ctx)) (set_active_system k ctx active)"
  unfolding set_active_system_def by (rule frame_rules refl | simp)+

lemma keeps_isolated_generate [frame_rules]:
  "keeps (isolated (tenant_id ctx)) (generate_and_store_report k ctx fs)"
  unfolding generate_and_store_report_def by (rule frame_rules refl | simp)+

lemma keeps_isolated_report: "keeps (isolated (tenant_id ctx)) (migration_report k ctx fs)"
  unfolding migration_report_def by (rule frame_rules refl | simp)+

lemma keeps_isolated_logout_output:
  "keeps (isolated (tenant_id ctx)) (logout_migration_output k ctx)"
  unfolding logout_migration_output_def by (rule frame_rules refl | simp)+

end
