(* ===== verification/Auth.thy ===== *)
theory Auth
  imports Identity Migration
begin

text \<open>
  Authentication (\<open>kernel/src/auth.rs\<close>): login with the rate limiter, the verification of bearer
  tokens, logout, and the housekeeping of the session table. The login limiter is the part of the
  state that no transaction rolls back; each of its operations reads the monotonic clock.
\<close>

record login_result =
  lr_token :: string
  lr_expires_at :: string
  lr_user_id :: string
  lr_tenant_id :: string
  lr_org_id :: string
  lr_name :: string
  lr_email :: string
  lr_role_keys :: "string list"
  lr_is_platform_admin :: bool

section \<open>Session lifetime\<close>

definition digits_value :: "string \<Rightarrow> nat" where
  "digits_value s = foldl (\<lambda>n c. 10 * n + (of_char c - 48)) 0 s"

text \<open>\<open>str::parse::<i64>\<close>.\<close>

definition parse_i64 :: "string \<Rightarrow> int option" where
  "parse_i64 s =
     (let (neg, digits) = (case s of
            [] \<Rightarrow> (False, [])
          | c # cs \<Rightarrow> if c = CHR ''-'' then (True, cs)
                      else if c = CHR ''+'' then (False, cs) else (False, c # cs));
          n = (if neg then - int (digits_value digits) else int (digits_value digits))
      in if digits \<noteq> [] \<and> list_all is_digit digits \<and> - (2 ^ 63) \<le> n \<and> n < 2 ^ 63
         then Some n else None)"

definition DEFAULT_SESSION_TTL_DAYS :: int where
  "DEFAULT_SESSION_TTL_DAYS = 30"

definition session_ttl_days :: "kernel \<Rightarrow> int" where
  "session_ttl_days k =
     (case env_var k ''LATENTDB_SESSION_TTL_DAYS'' of
        None \<Rightarrow> DEFAULT_SESSION_TTL_DAYS
      | Some v \<Rightarrow> (case parse_i64 (trim v) of
                     None \<Rightarrow> DEFAULT_SESSION_TTL_DAYS
                   | Some d \<Rightarrow> min (max d 1) 365))"

text \<open>\<open>Duration::days\<close> on the clock of the model, which counts nanoseconds.\<close>

definition days_ns :: "int \<Rightarrow> int" where
  "days_ns n = n * 86400 * 1000000000"

section \<open>The limiter of the kernel\<close>

definition limiter_is_locked :: "kernel \<Rightarrow> string \<Rightarrow> bool kern" where
  "limiter_is_locked k key = (\<lambda>s.
     let (locked, l) = is_locked (instant_at k (tick s)) key (limiter s)
     in (Inr locked, s\<lparr>limiter := l, tick := Suc (tick s)\<rparr>))"

definition limiter_record_failure :: "kernel \<Rightarrow> string \<Rightarrow> unit kern" where
  "limiter_record_failure k key = (\<lambda>s.
     (Inr (), s\<lparr>limiter := snd (record_failure (instant_at k (tick s)) (instant_at k (Suc (tick s)))
                                 key (limiter s)),
                tick := tick s + 2\<rparr>))"

definition limiter_reset :: "string \<Rightarrow> unit kern" where
  "limiter_reset key = (\<lambda>s. (Inr (), s\<lparr>limiter := reset key (limiter s)\<rparr>))"

definition limiter_prune :: "kernel \<Rightarrow> unit kern" where
  "limiter_prune k = (\<lambda>s.
     (Inr (), s\<lparr>limiter := prune (instant_at k (tick s)) (limiter s), tick := Suc (tick s)\<rparr>))"

section \<open>Login\<close>

definition anonymous_ctx :: "string \<Rightarrow> string \<Rightarrow> source \<Rightarrow> auth_context" where
  "anonymous_ctx tenant_slug rid src =
     \<lparr>actor_type = User, actor_id = ''anonymous'', tenant_id = ''slug:'' @ tenant_slug, org_id = [],
      workspace_id = None, role_keys = [], is_platform_admin = False, request_id = rid,
      source = src, agent_safety_level = None\<rparr>"

definition audit_login_failure ::
  "kernel \<Rightarrow> string \<Rightarrow> string \<Rightarrow> string \<Rightarrow> string \<Rightarrow> source \<Rightarrow> unit kern" where
  "audit_login_failure k tenant_slug email reason rid src =
     bindK (event_from k (anonymous_ctx tenant_slug rid src) ''auth.login.failed'' (Some ''user'')
              None None (Some (jobj [(''email'', JString email)])))
       (\<lambda>ev. ignoreK (audit k (ev\<lparr>a_reason := Some reason\<rparr>)))"

text \<open>The code returns the error; every caller returns it at once as the failure of the login.\<close>

definition login_failure ::
  "kernel \<Rightarrow> string \<Rightarrow> string \<Rightarrow> string \<Rightarrow> string \<Rightarrow> string \<Rightarrow> source \<Rightarrow> 'a kern" where
  "login_failure k key tenant_slug email reason rid src =
     seqK (limiter_record_failure k key) (
     seqK (audit_login_failure k tenant_slug email reason rid src)
       (failK (unauthorized ''invalid credentials'')))"

definition user_ctx ::
  "user_row \<Rightarrow> string \<Rightarrow> string \<Rightarrow> string list \<Rightarrow> string \<Rightarrow> source \<Rightarrow> auth_context" where
  "user_ctx u t oid keys rid src =
     \<lparr>actor_type = User, actor_id = us_id u, tenant_id = t, org_id = oid, workspace_id = None,
      role_keys = keys, is_platform_admin = us_is_platform_admin u, request_id = rid,
      source = src, agent_safety_level = None\<rparr>"

definition insert_session :: "kernel \<Rightarrow> session_row \<Rightarrow> unit kern" where
  "insert_session k row =
     stmt k (\<lambda>d. sql_insert
       (ss_id row \<notin> ss_id ` set (sessions d) \<and>
        ss_token_hash row \<notin> ss_token_hash ` set (sessions d))
       (tenant_exists d (ss_tenant_id row) \<and> ss_user_id row \<in> us_id ` set (users d))
       (d\<lparr>sessions := sessions d @ [row]\<rparr>))"

text \<open>After the password check: the roles, the token, and the session with its audit event.\<close>

definition open_session ::
  "kernel \<Rightarrow> user_row \<Rightarrow> string \<Rightarrow> string \<Rightarrow> string \<Rightarrow> source \<Rightarrow> login_result kern" where
  "open_session k u t email rid src =
     (let oid = (case us_default_org_id u of Some o' \<Rightarrow> o' | None \<Rightarrow> []) in
      bindK (roles_for_principal k t (us_id u)) (\<lambda>keys.
      bindK (new_token k ''lds_'') (\<lambda>(token, token_hash).
      bindK (now k) (\<lambda>ts.
      let created_at = rfc3339 k ts; expires_at = rfc3339 k (ts + days_ns (session_ttl_days k)) in
      seqK (transaction k (
        bindK (new_id k) (\<lambda>sid.
        seqK (insert_session k
          \<lparr>ss_id = sid, ss_tenant_id = t, ss_user_id = us_id u, ss_org_id = oid,
           ss_token_hash = token_hash, ss_created_at = created_at, ss_expires_at = expires_at,
           ss_revoked = False\<rparr>)
          (audit_change k (user_ctx u t oid keys rid src) ''auth.login'' (Some ''user'')
             (Some (us_id u)) None None (\<lambda>ev. ev)))))
      (retK \<lparr>lr_token = token, lr_expires_at = expires_at, lr_user_id = us_id u,
             lr_tenant_id = t, lr_org_id = oid, lr_name = us_name u, lr_email = email,
             lr_role_keys = keys, lr_is_platform_admin = us_is_platform_admin u\<rparr>)))))"

definition find_active_slug :: "database \<Rightarrow> string \<Rightarrow> tenant_row option" where
  "find_active_slug d slug = find (\<lambda>r. tn_slug r = slug \<and> tn_status r = ''active'') (tenants d)"

definition find_by_email :: "database \<Rightarrow> string \<Rightarrow> string \<Rightarrow> user_row option" where
  "find_by_email d t email = find (\<lambda>r. us_tenant_id r = t \<and> us_email r = email) (users d)"

definition login ::
  "kernel \<Rightarrow> string \<Rightarrow> string \<Rightarrow> string \<Rightarrow> string \<Rightarrow> source \<Rightarrow> login_result kern" where
  "login k tenant_slug0 email0 password rid src =
     (let tenant_slug = trim tenant_slug0; email = normalize_email email0;
          key = tenant_slug @ ''|'' @ email;
          fail = (\<lambda>reason. login_failure k key tenant_slug email reason rid src) in
      bindK (limiter_is_locked k key) (\<lambda>locked.
      if locked
      then seqK (audit_login_failure k tenant_slug email ''rate_limited'' rid src)
             (failK (new_error RateLimited ''too many failed login attempts; try again later''))
      else
        bindK (query k (\<lambda>d. find_active_slug d tenant_slug)) (\<lambda>tenant.
        case tenant of
          None \<Rightarrow> fail ''unknown_tenant''
        | Some tn \<Rightarrow>
            bindK (query k (\<lambda>d. find_by_email d (tn_id tn) email)) (\<lambda>user.
            case user of
              None \<Rightarrow> fail ''unknown_user''
            | Some u \<Rightarrow>
                if us_status u \<noteq> ''active'' then fail ''user_inactive''
                else bindK (resK (verify_password k password (us_password_hash u))) (\<lambda>ok.
                  if \<not> ok then fail ''bad_password''
                  else seqK (limiter_reset key) (open_session k u (tn_id tn) email rid src))))))"

section \<open>Verification of tokens\<close>

definition require_tenant_active :: "kernel \<Rightarrow> string \<Rightarrow> unit kern" where
  "require_tenant_active k t =
     bindK (query k (\<lambda>d. find (\<lambda>r. tn_id r = t) (tenants d))) (\<lambda>row.
     bindK (someK (unauthorized ''tenant not found'') row) (\<lambda>r.
     guardK (tn_status r = ''active'') (unauthorized ''tenant is not active'')))"

definition live_session :: "database \<Rightarrow> string \<Rightarrow> session_row option" where
  "live_session d hash = find (\<lambda>r. ss_token_hash r = hash \<and> \<not> ss_revoked r) (sessions d)"

text \<open>An expiry that does not parse is not checked.\<close>

definition check_expiry :: "kernel \<Rightarrow> string \<Rightarrow> unit kern" where
  "check_expiry k expires_at =
     (case parse_rfc3339 k expires_at of
        None \<Rightarrow> retK ()
      | Some expiry \<Rightarrow>
          bindK (now k) (\<lambda>ts. guardK (\<not> expiry \<le> ts) (unauthorized ''session expired'')))"

definition authenticate_session :: "kernel \<Rightarrow> string \<Rightarrow> string \<Rightarrow> source \<Rightarrow> auth_context kern" where
  "authenticate_session k token_hash rid src =
     bindK (query k (\<lambda>d. live_session d token_hash)) (\<lambda>found.
     bindK (someK (unauthorized ''invalid or expired session'') found) (\<lambda>row.
     seqK (check_expiry k (ss_expires_at row)) (
     seqK (require_tenant_active k (ss_tenant_id row)) (
     bindK (query k (\<lambda>d. find (\<lambda>u. us_id u = ss_user_id row) (users d))) (\<lambda>user.
     bindK (someK (unauthorized ''user not found'') user) (\<lambda>u.
     seqK (guardK (us_status u = ''active'') (unauthorized ''user inactive'')) (
     bindK (roles_for_principal k (ss_tenant_id row) (ss_user_id row)) (\<lambda>keys.
     retK (user_ctx u (ss_tenant_id row) (ss_org_id row) keys rid src)))))))))"

definition live_api_key :: "database \<Rightarrow> string \<Rightarrow> api_key_row option" where
  "live_api_key d hash =
     find (\<lambda>r. ak_token_hash r = hash \<and> ak_status r = ''active'') (api_keys d)"

definition principal_status :: "database \<Rightarrow> string \<Rightarrow> string \<Rightarrow> string \<Rightarrow> string option" where
  "principal_status d ptype t pid =
     (if ptype = ''user''
      then map_option us_status (find (\<lambda>r. us_tenant_id r = t \<and> us_id r = pid) (users d))
      else map_option sa_status
             (find (\<lambda>r. sa_tenant_id r = t \<and> sa_id r = pid) (service_accounts d)))"

definition touch_key :: "string \<Rightarrow> string \<Rightarrow> database \<Rightarrow> database" where
  "touch_key kid ts d =
     d\<lparr>api_keys := upd_where (\<lambda>r. ak_id r = kid) (\<lambda>r. r\<lparr>ak_last_used_at := Some ts\<rparr>) (api_keys d)\<rparr>"

definition authenticate_api_key :: "kernel \<Rightarrow> string \<Rightarrow> string \<Rightarrow> source \<Rightarrow> auth_context kern" where
  "authenticate_api_key k token_hash rid src =
     bindK (query k (\<lambda>d. live_api_key d token_hash)) (\<lambda>found.
     bindK (someK (unauthorized ''invalid api key'') found) (\<lambda>row.
     seqK (require_tenant_active k (ak_tenant_id row)) (
     bindK (query k (\<lambda>d. principal_status d (ak_principal_type row) (ak_tenant_id row)
              (ak_principal_id row))) (\<lambda>status.
     seqK (guardK (status = Some ''active'') (unauthorized ''api key principal is not active'')) (
     bindK (roles_for_principal k (ak_tenant_id row) (ak_principal_id row)) (\<lambda>keys.
     bindK (now_rfc3339 k) (\<lambda>ts.
     seqK (ignoreK (update_stmt k (touch_key (ak_id row) ts)))
     (retK \<lparr>actor_type = (if ak_principal_type row = ''user'' then User else ServiceAccount),
            actor_id = ak_principal_id row, tenant_id = ak_tenant_id row, org_id = ak_org_id row,
            workspace_id = None, role_keys = keys, is_platform_admin = False, request_id = rid,
            source = src, agent_safety_level = None\<rparr>))))))))"

definition authenticate :: "kernel \<Rightarrow> string \<Rightarrow> string \<Rightarrow> source \<Rightarrow> auth_context kern" where
  "authenticate k token rid src =
     (let hash = sha256_hex k token in
      if starts_with ''ldb_'' token then authenticate_api_key k hash rid src
      else authenticate_session k hash rid src)"

section \<open>Logout and housekeeping\<close>

definition revoke_hash :: "string \<Rightarrow> database \<Rightarrow> database" where
  "revoke_hash hash d =
     d\<lparr>sessions := upd_where (\<lambda>r. ss_token_hash r = hash) (\<lambda>r. r\<lparr>ss_revoked := True\<rparr>) (sessions d)\<rparr>"

definition logout :: "kernel \<Rightarrow> string \<Rightarrow> migration_report option kern" where
  "logout k token =
     (let hash = sha256_hex k token in
      bindK (query k (\<lambda>d. live_session d hash)) (\<lambda>found.
      bindK (case found of
               None \<Rightarrow> retK None
             | Some row \<Rightarrow>
                 bindK (new_id k) (\<lambda>rid.
                 matchK (logout_migration_output k
                           (system_ctx rid (ss_tenant_id row) (ss_org_id row)))
                   (\<lambda>_. retK None) retK)) (\<lambda>report.
      seqK (update_stmt k (revoke_hash hash)) (retK report))))"

definition dead_session :: "string \<Rightarrow> session_row \<Rightarrow> bool" where
  "dead_session ts r \<longleftrightarrow> ss_revoked r \<or> ss_expires_at r \<le> ts"

definition cleanup_expired_sessions :: "kernel \<Rightarrow> nat kern" where
  "cleanup_expired_sessions k =
     bindK (now_rfc3339 k) (\<lambda>ts.
     stmt k (\<lambda>d. Inr (length (filter (dead_session ts) (sessions d)),
                      d\<lparr>sessions := filter (\<lambda>r. \<not> dead_session ts r) (sessions d)\<rparr>)))"

definition run_housekeeping :: "kernel \<Rightarrow> unit kern" where
  "run_housekeeping k = seqK (cleanup_expired_sessions k) (limiter_prune k)"

section \<open>What a login does\<close>

lemma limiter_is_locked_run:
  "limiter_is_locked k key s =
     (Inr (fst (is_locked (instant_at k (tick s)) key (limiter s))),
      s\<lparr>limiter := snd (is_locked (instant_at k (tick s)) key (limiter s)), tick := Suc (tick s)\<rparr>)"
  by (simp add: limiter_is_locked_def split: prod.splits)

lemma login_failure_Inr [simp]: "login_failure k key slug email reason rid src s = (Inr x, s') \<longleftrightarrow> False"
  by (simp add: login_failure_def seqK_Inr)

text \<open>Only the audit log may change, by a failed-login event filed under the slug.\<close>

definition failure_logged :: "string \<Rightarrow> database \<Rightarrow> database \<Rightarrow> bool" where
  "failure_logged slug d d' \<longleftrightarrow>
     (\<exists>new. d' = d\<lparr>audit_logs := audit_logs d @ new\<rparr> \<and>
            (\<forall>ev\<in>set new. a_tenant_id ev = ''slug:'' @ slug \<and> a_action ev = ''auth.login.failed''))"

interpretation failure_logged: db_frame "failure_logged slug" for slug
proof unfold_locales
  show "failure_logged slug d d" for d
    by (auto simp: failure_logged_def intro!: exI [of _ "[]"])
  show "failure_logged slug d d''" if "failure_logged slug d d'" "failure_logged slug d' d''" for d d' d''
  proof -
    from that(1) obtain n1 where 1: "d' = d\<lparr>audit_logs := audit_logs d @ n1\<rparr>"
      "\<forall>ev\<in>set n1. a_tenant_id ev = ''slug:'' @ slug \<and> a_action ev = ''auth.login.failed''"
      unfolding failure_logged_def by blast
    from that(2) obtain n2 where 2: "d'' = d'\<lparr>audit_logs := audit_logs d' @ n2\<rparr>"
      "\<forall>ev\<in>set n2. a_tenant_id ev = ''slug:'' @ slug \<and> a_action ev = ''auth.login.failed''"
      unfolding failure_logged_def by blast
    from 1 2 show ?thesis
      unfolding failure_logged_def by (intro exI [of _ "n1 @ n2"]) auto
  qed
qed

lemma keeps_failure_limiter [frame_rules]:
  "keeps (failure_logged slug) (limiter_record_failure k key)"
  "keeps (failure_logged slug) (limiter_is_locked k key)"
  "keeps (failure_logged slug) (limiter_reset key)"
  by (simp_all add: keeps_def limiter_record_failure_def limiter_is_locked_run limiter_reset_def
      failure_logged.frame_refl)

lemma keeps_failure_audit [frame_rules]:
  "keeps (failure_logged slug) (audit_login_failure k slug email reason rid src)"
proof (rule keepsI)
  fix s r s'
  assume run: "audit_login_failure k slug email reason rid src s = (r, s')"
  obtain ev where ev: "event_from k (anonymous_ctx slug rid src) ''auth.login.failed'' (Some ''user'')
        None None (Some (jobj [(''email'', JString email)])) s = (Inr ev, s\<lparr>tick := tick s + 2\<rparr>)"
    and a: "a_tenant_id ev = ''slug:'' @ slug" "a_action ev = ''auth.login.failed''"
    by (auto simp: event_from_Inr anonymous_ctx_def)
  have "keeps (failure_logged slug) (audit k (ev\<lparr>a_reason := Some reason\<rparr>))"
    unfolding audit_def insert_audit_def
    using a by (intro frame_rules) (auto simp: failure_logged_def log_audit_def)
  then have "failure_logged slug (db (s\<lparr>tick := tick s + 2\<rparr>))
      (db (snd (audit k (ev\<lparr>a_reason := Some reason\<rparr>) (s\<lparr>tick := tick s + 2\<rparr>))))"
    unfolding keeps_def by blast
  then show "failure_logged slug (db s) (db s')"
    using run ev by (auto simp: audit_login_failure_def bindK_def ignoreK_def)
qed

lemma keeps_login_failure [frame_rules]:
  "keeps (failure_logged slug) (login_failure k key slug email reason rid src)"
  unfolding login_failure_def by (rule frame_rules)+

text \<open>The errors a program can end with, and what its failing runs leave behind.\<close>

definition errors_in :: "api_error set \<Rightarrow> 'a kern \<Rightarrow> bool" where
  "errors_in E m \<longleftrightarrow> (\<forall>s e s'. m s = (Inl e, s') \<longrightarrow> e \<in> E)"

definition errors_keep :: "(database \<Rightarrow> database \<Rightarrow> bool) \<Rightarrow> 'a kern \<Rightarrow> bool" where
  "errors_keep R m \<longleftrightarrow> (\<forall>s e s'. m s = (Inl e, s') \<longrightarrow> R (db s) (db s'))"

lemma errors_in_rules:
  "errors_in E (retK x)"
  "err \<in> E \<Longrightarrow> errors_in E (failK err)"
  "err \<in> E \<Longrightarrow> errors_in E (guardK b err)"
  "err \<in> E \<Longrightarrow> errors_in E (someK err o')"
  "errors_in E m \<Longrightarrow> (\<And>x. errors_in E (f x)) \<Longrightarrow> errors_in E (bindK m f)"
  "errors_in E m \<Longrightarrow> errors_in E m' \<Longrightarrow> errors_in E (seqK m m')"
  by (auto simp: errors_in_def retK_def failK_def guardK_def someK_def bindK_def seqK_def
      split: if_splits option.splits sum.splits prod.splits)

lemma errors_in_struct:
  "errors_in E m \<Longrightarrow> errors_in E m' \<Longrightarrow> errors_in E (if b then m else m')"
  "errors_in E m \<Longrightarrow> (\<And>x. errors_in E (f x)) \<Longrightarrow> errors_in E (case o' of None \<Rightarrow> m | Some x \<Rightarrow> f x)"
  "(\<And>x y. errors_in E (g x y)) \<Longrightarrow> errors_in E (case q of (x, y) \<Rightarrow> g x y)"
  by (auto split: option.splits prod.splits)

definition storage_errors :: "api_error set" where
  "storage_errors = range map_db_err"

lemma errors_in_stmt: "storage_errors \<subseteq> E \<Longrightarrow> errors_in E (stmt k q)"
  unfolding errors_in_def storage_errors_def stmt_def Let_def
  by (auto simp del: map_db_err.simps split: if_splits sum.splits)

lemma errors_in_query: "storage_errors \<subseteq> E \<Longrightarrow> errors_in E (query k q)"
  unfolding query_def by (rule errors_in_stmt)

lemma errors_in_update: "storage_errors \<subseteq> E \<Longrightarrow> errors_in E (update_stmt k u)"
  unfolding update_stmt_def by (rule errors_in_stmt)

lemma errors_in_tickers:
  "errors_in E (new_id k)" "errors_in E (now k)" "errors_in E (now_rfc3339 k)"
  "errors_in E (event_from k ctx act ty target prev after)" "errors_in E (new_token k p)"
  "errors_in E (ignoreK m)" "errors_in E (limiter_record_failure k key)"
  "errors_in E (limiter_reset key)" "errors_in E (limiter_is_locked k key)"
  by (auto simp: errors_in_def new_id_def now_def now_rfc3339_def event_from_def bindK_def retK_def
      new_token_def Let_def ignoreK_def limiter_record_failure_def limiter_reset_def limiter_is_locked_run)

lemma errors_in_transaction:
  assumes "storage_errors \<subseteq> E" "errors_in E body"
  shows "errors_in E (transaction k body)"
  unfolding errors_in_def
proof (intro allI impI)
  fix s e s'
  assume run: "transaction k body s = (Inl e, s')"
  let ?bc = "stmt k (\<lambda>d. Inr ((), d))"
  have "errors_in E (seqK ?bc (bindK body (\<lambda>x. seqK ?bc (retK x))))"
    by (intro errors_in_rules errors_in_stmt assms)
  with run show "e \<in> E"
    unfolding errors_in_def transaction_def Let_def by (auto split: sum.splits prod.splits)
qed

lemmas errors_in_intros = errors_in_rules errors_in_struct errors_in_stmt errors_in_query errors_in_update
  errors_in_tickers errors_in_transaction

context db_frame begin

lemma errors_keep_keeps: "keeps R m \<Longrightarrow> errors_keep R m"
  unfolding errors_keep_def by (auto dest: keepsD)

lemma errors_keep_bind:
  assumes "keeps R m" "\<And>x. errors_keep R (f x)"
  shows "errors_keep R (bindK m f)"
proof (unfold errors_keep_def, intro allI impI)
  fix s e s'
  assume run: "bindK m f s = (Inl e, s')"
  obtain r s1 where m: "m s = (r, s1)" by force
  with assms(1) have 1: "R (db s) (db s1)" by (rule keepsD)
  show "R (db s) (db s')"
  proof (cases r)
    case (Inl e')
    with run m 1 show ?thesis by (simp add: bindK_def)
  next
    case (Inr x)
    with run m have "f x s1 = (Inl e, s')" by (simp add: bindK_def)
    with assms(2) have "R (db s1) (db s')" unfolding errors_keep_def by blast
    with 1 show ?thesis by (rule frame_trans)
  qed
qed

lemma errors_keep_seq: "keeps R m \<Longrightarrow> errors_keep R m' \<Longrightarrow> errors_keep R (seqK m m')"
  unfolding seqK_def by (rule errors_keep_bind)

lemma errors_keep_struct:
  "errors_keep R m \<Longrightarrow> errors_keep R m' \<Longrightarrow> errors_keep R (if b then m else m')"
  "errors_keep R m \<Longrightarrow> (\<And>x. errors_keep R (f x)) \<Longrightarrow>
     errors_keep R (case o' of None \<Rightarrow> m | Some x \<Rightarrow> f x)"
  "(\<And>x y. errors_keep R (g x y)) \<Longrightarrow> errors_keep R (case q of (x, y) \<Rightarrow> g x y)"
  "errors_keep R (failK err)"
  by (auto simp: errors_keep_def failK_def frame_refl split: option.splits prod.splits)

lemma errors_keep_transaction_tail:
  "errors_keep R (seqK (transaction k body) (retK x))"
  unfolding errors_keep_def seqK_def bindK_def
  by (auto simp: retK_def frame_refl dest: transaction_Inl split: sum.splits prod.splits)

lemmas errors_keep_intros = errors_keep_struct errors_keep_transaction_tail errors_keep_bind
  errors_keep_seq

end

definition invalid_credentials :: api_error where
  "invalid_credentials = unauthorized ''invalid credentials''"

definition too_many_attempts :: api_error where
  "too_many_attempts = new_error RateLimited ''too many failed login attempts; try again later''"

lemma errors_in_login_failure:
  "invalid_credentials \<in> E \<Longrightarrow> errors_in E (login_failure k key slug email reason rid src)"
  unfolding login_failure_def audit_login_failure_def invalid_credentials_def
  by (intro errors_in_intros)

lemma errors_in_open_session: "storage_errors \<subseteq> E \<Longrightarrow> errors_in E (open_session k u t email rid src)"
  unfolding open_session_def Let_def roles_for_principal_def insert_session_def audit_change_def
    insert_audit_def
  by (intro errors_in_intros)

text \<open>
  A failed login says one of two things, or reports a fault of the store or of the stored hash:
  the unknown tenant, the unknown user, the disabled user and the wrong password cannot be told
  apart.
\<close>

definition login_errors :: "api_error set" where
  "login_errors = {invalid_credentials, too_many_attempts} \<union> storage_errors \<union>
     {e. \<exists>msg. e = internal (''stored hash invalid: '' @ msg)}"

lemma errors_in_login: "errors_in login_errors (login k slug email pw rid src)"
proof -
  have s: "storage_errors \<subseteq> login_errors" and i: "invalid_credentials \<in> login_errors"
    and t: "new_error RateLimited ''too many failed login attempts; try again later'' \<in> login_errors"
    by (auto simp: login_errors_def too_many_attempts_def)
  have v: "errors_in login_errors (resK (verify_password k pw h))" for h
    by (auto simp: errors_in_def resK_def verify_password_def login_errors_def failK_def retK_def
        split: sum.splits)
  show ?thesis
    unfolding login_def Let_def audit_login_failure_def
    by (intro errors_in_intros s t v errors_in_login_failure [OF i] errors_in_open_session [OF s])
qed

lemma login_errors_keep:
  "errors_keep (failure_logged (trim slug)) (login k slug email pw rid src)"
proof -
  let ?R = "failure_logged (trim slug)"
  have o': "errors_keep ?R (open_session k u t em rid src)" for u t em
    unfolding open_session_def Let_def roles_for_principal_def
    by (intro failure_logged.errors_keep_intros frame_rules)
  show ?thesis
    unfolding login_def Let_def
    by (intro o' failure_logged.errors_keep_intros
        failure_logged.errors_keep_keeps [OF keeps_login_failure] frame_rules)
qed

section \<open>A successful login\<close>

definition accepted ::
  "kernel \<Rightarrow> database \<Rightarrow> string \<Rightarrow> string \<Rightarrow> string \<Rightarrow> tenant_row \<Rightarrow> user_row \<Rightarrow> bool" where
  "accepted k d slug email pw tn u \<longleftrightarrow>
     find_active_slug d slug = Some tn \<and> find_by_email d (tn_id tn) email = Some u \<and>
     us_status u = ''active'' \<and> argon2_verify k pw (us_password_hash u) = Inr True"

lemma open_session_Inr:
  assumes "open_session k u t email rid src s = (Inr lr, s')"
  obtains row ev where "db s' = log_audit ev ((db s)\<lparr>sessions := sessions (db s) @ [row]\<rparr>)"
    "limiter s' = limiter s"
    "ss_tenant_id row = t" "ss_user_id row = us_id u" "\<not> ss_revoked row"
    "ss_token_hash row = sha256_hex k (lr_token lr)" "starts_with ''lds_'' (lr_token lr)"
    "ss_token_hash row \<notin> ss_token_hash ` set (sessions (db s))"
    "ss_expires_at row = lr_expires_at lr"
    "lr_expires_at lr = rfc3339 k (now_at k (tick s + 2) + days_ns (session_ttl_days k))"
    "ss_org_id row = lr_org_id lr"
    "lr_user_id lr = us_id u" "lr_tenant_id lr = t" "lr_email lr = email"
    "lr_role_keys lr = role_keys_of (db s) t (us_id u)"
    "lr_is_platform_admin lr = us_is_platform_admin u"
    "a_action ev = ''auth.login''" "a_actor_id ev = us_id u" "a_tenant_id ev = t"
    "ss_created_at row = rfc3339 k (now_at k (tick s + 2))" "tick s + 2 < tick s'"
proof -
  from assms obtain s1 where
    tx: "transaction k (bindK (new_id k) (\<lambda>sid. seqK (insert_session k
          \<lparr>ss_id = sid, ss_tenant_id = t, ss_user_id = us_id u, ss_org_id = lr_org_id lr,
           ss_token_hash = sha256_hex k (lr_token lr),
           ss_created_at = rfc3339 k (now_at k (tick s + 2)), ss_expires_at = lr_expires_at lr,
           ss_revoked = False\<rparr>)
          (audit_change k (user_ctx u t (lr_org_id lr) (lr_role_keys lr) rid src) ''auth.login''
             (Some ''user'') (Some (us_id u)) None None (\<lambda>ev. ev))))
        (s\<lparr>tick := tick s + 3\<rparr>) = (Inr (), s1)"
    and lr: "s' = s1"
      "lr_expires_at lr = rfc3339 k (now_at k (tick s + 2) + days_ns (session_ttl_days k))"
      "lr_user_id lr = us_id u" "lr_tenant_id lr = t" "lr_email lr = email"
      "lr_role_keys lr = role_keys_of (db s) t (us_id u)"
      "lr_is_platform_admin lr = us_is_platform_admin u"
      "lr_token lr = ''lds_'' @ hex_encode (random_at k (tick s + 1))"
    by (auto simp: open_session_def Let_def roles_for_principal_def bindK_Inr seqK_Inr query_Inr
        new_token_def now_def numeral_3_eq_3 numeral_2_eq_2)
  from tx obtain s2 s3 where
    ins: "insert_session k
          \<lparr>ss_id = uuid_at k (tick s + 4), ss_tenant_id = t, ss_user_id = us_id u, ss_org_id = lr_org_id lr,
           ss_token_hash = sha256_hex k (lr_token lr),
           ss_created_at = rfc3339 k (now_at k (tick s + 2)), ss_expires_at = lr_expires_at lr,
           ss_revoked = False\<rparr> (s\<lparr>tick := tick s + 5\<rparr>) = (Inr (), s2)"
    and au: "audit_change k (user_ctx u t (lr_org_id lr) (lr_role_keys lr) rid src) ''auth.login''
             (Some ''user'') (Some (us_id u)) None None (\<lambda>ev. ev) s2 = (Inr (), s3)"
    and s1: "s1 = s3\<lparr>tick := Suc (tick s3)\<rparr>"
    by (auto simp: transaction_Inr bindK_Inr seqK_Inr new_id_Inr eval_nat_numeral)
  have lim: "limiter s3 = limiter s2" "tick s2 \<le> tick s3"
    using au by (auto simp: audit_change_def bindK_Inr event_from_Inr insert_audit_Inr)
  let ?row = "\<lparr>ss_id = uuid_at k (tick s + 4), ss_tenant_id = t, ss_user_id = us_id u,
      ss_org_id = lr_org_id lr, ss_token_hash = sha256_hex k (lr_token lr),
      ss_created_at = rfc3339 k (now_at k (tick s + 2)), ss_expires_at = lr_expires_at lr,
      ss_revoked = False\<rparr>"
  have i: "db s2 = (db s)\<lparr>sessions := sessions (db s) @ [?row]\<rparr>" "limiter s2 = limiter s"
    "sha256_hex k (lr_token lr) \<notin> ss_token_hash ` set (sessions (db s))" "tick s2 = tick s + 6"
    using ins by (auto simp: insert_session_def stmt_Inr)
  from audit_change_Inr [OF au] obtain ev where ev: "db s3 = log_audit ev (db s2)"
    "a_action ev = ''auth.login''" "a_actor_id ev = us_id u" "a_tenant_id ev = t"
    by (metis user_ctx_def auth_context.select_convs(2,3))
  show thesis
    by (rule that [where row = ?row and ev = ev])
      (use i ev lim lr(1-7) s1 in \<open>simp_all add: lr(8) starts_with_iff\<close>)
qed

lemma login_Inr:
  assumes "login k slug email pw rid src s = (Inr lr, s')"
  obtains tn u s1 where
    "\<not> fst (is_locked (instant_at k (tick s)) (trim slug @ ''|'' @ normalize_email email) (limiter s))"
    "accepted k (db s) (trim slug) (normalize_email email) pw tn u"
    "open_session k u (tn_id tn) (normalize_email email) rid src s1 = (Inr lr, s')"
    "db s1 = db s" "limiter s1 (trim slug @ ''|'' @ normalize_email email) = None" "tick s \<le> tick s1"
  using assms
  by (auto simp: login_def Let_def bindK_Inr seqK_Inr limiter_is_locked_run query_Inr
      verify_password_def accepted_def limiter_reset_def reset_def
      split: if_splits option.splits sum.splits)

section \<open>Rejected logins\<close>

lemma audit_limiter: "limiter (snd (audit k ev s)) = limiter s"
  and audit_tick: "tick s \<le> tick (snd (audit k ev s))" "tick (snd (audit k ev s)) \<le> tick s + 2"
  by (simp_all add: audit_def insert_audit_def query_def stmt_def seqK_def bindK_def Let_def
      split: sum.splits prod.splits)

lemma audit_login_failure_run:
  "\<exists>s'. audit_login_failure k slug email reason rid src s = (Inr (), s') \<and> limiter s' = limiter s \<and>
     tick s \<le> tick s' \<and> tick s' \<le> tick s + 4"
proof -
  have "tick s \<le> tick (snd (audit k ev s1)) \<and> tick (snd (audit k ev s1)) \<le> tick s + 4"
    if "s1 = s\<lparr>tick := n\<rparr>" "tick s \<le> n" "n \<le> tick s + 2" for ev s1 n
    using audit_tick [where s = s1 and k = k and ev = ev] that by simp
  from this [OF refl] audit_limiter show ?thesis
    by (simp add: audit_login_failure_def event_from_def new_id_def now_rfc3339_def now_def retK_def
        bindK_def ignoreK_def)
qed

lemma login_locked:
  assumes "fst (is_locked (instant_at k (tick s)) (trim slug @ ''|'' @ normalize_email email) (limiter s))"
  obtains s' where "login k slug email pw rid src s = (Inl too_many_attempts, s')"
    "limiter s' = snd (is_locked (instant_at k (tick s)) (trim slug @ ''|'' @ normalize_email email) (limiter s))"
    "tick s \<le> tick s'" "tick s' \<le> tick s + 10"
proof -
  obtain s' where "audit_login_failure k (trim slug) (normalize_email email) ''rate_limited'' rid src
      (s\<lparr>limiter := snd (is_locked (instant_at k (tick s)) (trim slug @ ''|'' @ normalize_email email) (limiter s)),
         tick := Suc (tick s)\<rparr>) = (Inr (), s')"
    "limiter s' = snd (is_locked (instant_at k (tick s)) (trim slug @ ''|'' @ normalize_email email) (limiter s))"
    "Suc (tick s) \<le> tick s'" "tick s' \<le> tick s + 5"
    using audit_login_failure_run [where s = "s\<lparr>limiter := snd (is_locked (instant_at k (tick s)) (trim slug @ ''|'' @ normalize_email email) (limiter s)),
         tick := Suc (tick s)\<rparr>"] by fastforce
  with assms show thesis
    by (intro that [of s'])
      (simp_all add: login_def Let_def bindK_def limiter_is_locked_run seqK_def failK_def
        too_many_attempts_def)
qed

lemma login_failure_run:
  "\<exists>s'. login_failure k key slug email reason rid src s = (Inl invalid_credentials, s') \<and>
     limiter s' = snd (record_failure (instant_at k (tick s)) (instant_at k (Suc (tick s))) key (limiter s)) \<and>
     Suc (tick s) < tick s' \<and> tick s' \<le> tick s + 6"
proof -
  let ?s1 = "s\<lparr>limiter := snd (record_failure (instant_at k (tick s)) (instant_at k (Suc (tick s)))
                                 key (limiter s)), tick := tick s + 2\<rparr>"
  obtain s' where "audit_login_failure k slug email reason rid src ?s1 = (Inr (), s')"
    "limiter s' = limiter ?s1" "tick ?s1 \<le> tick s'" "tick s' \<le> tick ?s1 + 4" using audit_login_failure_run by blast
  then show ?thesis
    by (intro exI [of _ s'])
      (simp add: login_failure_def limiter_record_failure_def seqK_def bindK_def failK_def
        invalid_credentials_def)
qed

lemma login_rejected:
  assumes "reliable k"
    and "\<not> fst (is_locked (instant_at k (tick s)) (trim slug @ ''|'' @ normalize_email email) (limiter s))"
    and "\<nexists>tn u. accepted k (db s) (trim slug) (normalize_email email) pw tn u"
    and "\<And>h. argon2_verify k pw h \<in> range Inr"
  obtains s' n where "login k slug email pw rid src s = (Inl invalid_credentials, s')"
    "limiter s' = snd (record_failure (instant_at k n) (instant_at k (Suc n))
      (trim slug @ ''|'' @ normalize_email email)
      (snd (is_locked (instant_at k (tick s)) (trim slug @ ''|'' @ normalize_email email) (limiter s))))"
    "tick s \<le> n" "Suc n < tick s'" "tick s' \<le> tick s + 10"
proof -
  let ?key = "trim slug @ ''|'' @ normalize_email email"
  let ?l = "snd (is_locked (instant_at k (tick s)) ?key (limiter s))"
  have "\<exists>reason n. tick s \<le> n \<and> n \<le> tick s + 3 \<and> login k slug email pw rid src s =
      login_failure k ?key (trim slug) (normalize_email email) reason rid src
        (s\<lparr>limiter := ?l, tick := n\<rparr>)"
  proof (cases "find_active_slug (db s) (trim slug)")
    case None
    with assms(1,2) show ?thesis
      by (intro exI [of _ "''unknown_tenant''"] exI [of _ "tick s + 2"])
        (simp add: login_def Let_def bindK_def limiter_is_locked_run run_stmt)
  next
    case tn: (Some tn)
    show ?thesis
    proof (cases "find_by_email (db s) (tn_id tn) (normalize_email email)")
      case None
      with tn assms(1,2) show ?thesis
        by (intro exI [of _ "''unknown_user''"] exI [of _ "tick s + 3"])
          (simp add: login_def Let_def bindK_def limiter_is_locked_run run_stmt eval_nat_numeral)
    next
      case u: (Some u)
      obtain b where b: "argon2_verify k pw (us_password_hash u) = Inr b"
        using assms(4) by (metis imageE)
      with tn u assms(3) have "us_status u = ''active'' \<Longrightarrow> \<not> b"
        by (auto simp: accepted_def)
      with tn u b assms(1,2) show ?thesis
        by (intro exI [of _ "if us_status u = ''active'' then ''bad_password'' else ''user_inactive''"]
            exI [of _ "tick s + 3"])
         (simp add: login_def Let_def bindK_def limiter_is_locked_run run_stmt resK_def
            verify_password_def retK_def eval_nat_numeral)
    qed
  qed
  then obtain reason n where n: "tick s \<le> n" "n \<le> tick s + 3" and l: "login k slug email pw rid src s =
      login_failure k ?key (trim slug) (normalize_email email) reason rid src
        (s\<lparr>limiter := ?l, tick := n\<rparr>)" by blast
  from login_failure_run [of k ?key "trim slug" "normalize_email email" reason rid src
      "s\<lparr>limiter := ?l, tick := n\<rparr>"] obtain s' where
    "login_failure k ?key (trim slug) (normalize_email email) reason rid src
       (s\<lparr>limiter := ?l, tick := n\<rparr>) = (Inl (invalid_credentials) :: api_error + login_result, s')"
    "limiter s' = snd (record_failure (instant_at k n) (instant_at k (Suc n)) ?key ?l)" "Suc n < tick s'" "tick s' \<le> n + 6"
    by auto
  with n show thesis by (intro that [of s' n]) (simp_all add: l)
qed

section \<open>Who a token authenticates\<close>

lemma require_tenant_active_Inr: "require_tenant_active k t s = (Inr x, s') \<longleftrightarrow>
    \<not> db_fault k (tick s) \<and> s' = s\<lparr>tick := Suc (tick s)\<rparr> \<and>
    (\<exists>r. find (\<lambda>r. tn_id r = t) (tenants (db s)) = Some r \<and> tn_status r = ''active'')"
  by (auto simp: require_tenant_active_def bindK_Inr query_Inr)

definition tenant_active :: "database \<Rightarrow> string \<Rightarrow> bool" where
  "tenant_active d t \<longleftrightarrow> (\<exists>r\<in>set (tenants d). tn_id r = t \<and> tn_status r = ''active'')"

text \<open>What an authenticated context stands for: a live credential of an active principal.\<close>

definition backed_by_session ::
  "kernel \<Rightarrow> database \<Rightarrow> int \<Rightarrow> string \<Rightarrow> auth_context \<Rightarrow> bool" where
  "backed_by_session k d clock token ctx \<longleftrightarrow>
     (\<exists>row u. row \<in> set (sessions d) \<and> ss_token_hash row = sha256_hex k token \<and> \<not> ss_revoked row \<and>
        tenant_active d (ss_tenant_id row) \<and>
        u \<in> set (users d) \<and> us_id u = ss_user_id row \<and> us_status u = ''active'' \<and>
        (\<forall>expiry. parse_rfc3339 k (ss_expires_at row) = Some expiry \<longrightarrow> clock < expiry) \<and>
        tenant_id ctx = ss_tenant_id row \<and> actor_id ctx = us_id u \<and> actor_type ctx = User \<and>
        role_keys ctx = role_keys_of d (ss_tenant_id row) (us_id u) \<and>
        is_platform_admin ctx = us_is_platform_admin u)"

definition backed_by_key :: "kernel \<Rightarrow> database \<Rightarrow> string \<Rightarrow> auth_context \<Rightarrow> bool" where
  "backed_by_key k d token ctx \<longleftrightarrow>
     (\<exists>row. row \<in> set (api_keys d) \<and> ak_token_hash row = sha256_hex k token \<and>
        ak_status row = ''active'' \<and> tenant_active d (ak_tenant_id row) \<and>
        principal_active d (ak_principal_type row) (ak_tenant_id row) (ak_principal_id row) \<and>
        tenant_id ctx = ak_tenant_id row \<and> actor_id ctx = ak_principal_id row \<and>
        actor_type ctx \<in> {User, ServiceAccount} \<and>
        role_keys ctx = role_keys_of d (ak_tenant_id row) (ak_principal_id row) \<and>
        \<not> is_platform_admin ctx)"

lemma check_expiry_Inr: "check_expiry k e s = (Inr x, s') \<Longrightarrow>
    db s' = db s \<and> (\<forall>expiry. parse_rfc3339 k e = Some expiry \<longrightarrow> now_at k (tick s) < expiry)"
  by (auto simp: check_expiry_def bindK_Inr now_def not_le split: option.splits)

lemma authenticate_session_Inr:
  assumes "authenticate_session k (sha256_hex k token) rid src s = (Inr ctx, s')"
  shows "backed_by_session k (db s) (now_at k (Suc (tick s))) token ctx \<and> db s' = db s"
proof -
  from assms obtain row u s1 s2 where
    row: "live_session (db s) (sha256_hex k token) = Some row"
    and e: "check_expiry k (ss_expires_at row) s1 = (Inr (), s2)" "db s1 = db s"
      "tick s1 = Suc (tick s)"
    and t: "\<exists>r. find (\<lambda>r. tn_id r = ss_tenant_id row) (tenants (db s2)) = Some r \<and> tn_status r = ''active''"
    and u: "find (\<lambda>u. us_id u = ss_user_id row) (users (db s2)) = Some u" "us_status u = ''active''"
    and ctx: "ctx = user_ctx u (ss_tenant_id row) (ss_org_id row)
        (role_keys_of (db s2) (ss_tenant_id row) (ss_user_id row)) rid src" "db s' = db s2"
    by (auto simp: authenticate_session_def bindK_Inr seqK_Inr query_Inr require_tenant_active_Inr
        roles_for_principal_def)
  from check_expiry_Inr [OF e(1)] e(2) have d: "db s2 = db s" by simp
  from row have r: "row \<in> set (sessions (db s))" "ss_token_hash row = sha256_hex k token" "\<not> ss_revoked row"
    by (auto simp: live_session_def dest!: find_Some_in)
  from u d have u': "u \<in> set (users (db s))" "us_id u = ss_user_id row" by (auto dest!: find_Some_in)
  have "tenant_active (db s) (ss_tenant_id row)"
    using t d by (auto simp: tenant_active_def dest!: find_Some_in)
  with r u' u(2) ctx d check_expiry_Inr [OF e(1)] e(3) show ?thesis
    unfolding backed_by_session_def
    by (intro conjI exI [of _ row] exI [of _ u]) (auto simp: user_ctx_def)
qed

lemma principal_status_active:
  "principal_status d pt t pid = Some ''active'' \<Longrightarrow> principal_active d pt t pid"
  by (auto simp: principal_status_def principal_active_def list_ex_iff split: if_splits
      dest!: find_Some_in)

definition only_touches_keys :: "database \<Rightarrow> database \<Rightarrow> bool" where
  "only_touches_keys d d' \<longleftrightarrow>
     d'\<lparr>api_keys := []\<rparr> = d\<lparr>api_keys := []\<rparr> \<and>
     map (ak_last_used_at_update (\<lambda>_. None)) (api_keys d') =
     map (ak_last_used_at_update (\<lambda>_. None)) (api_keys d)"

lemma touch_key_only: "only_touches_keys d (touch_key kid ts d)"
proof -
  have "map (ak_last_used_at_update (\<lambda>_. None)) (upd_where P (\<lambda>r. r\<lparr>ak_last_used_at := Some ts\<rparr>) xs) =
      map (ak_last_used_at_update (\<lambda>_. None)) xs" for P xs
    by (induction xs) (auto simp: upd_where_def)
  then show ?thesis by (simp add: only_touches_keys_def touch_key_def)
qed

interpretation only_touches_keys: db_frame only_touches_keys
  by unfold_locales (auto simp: only_touches_keys_def)

lemma keeps_authenticate: "keeps only_touches_keys (authenticate k token rid src)"
  unfolding authenticate_def authenticate_session_def authenticate_api_key_def check_expiry_def
    require_tenant_active_def roles_for_principal_def Let_def
  by (intro frame_rules touch_key_only)

lemma authenticate_api_key_Inr:
  assumes "authenticate_api_key k (sha256_hex k token) rid src s = (Inr ctx, s')"
  shows "backed_by_key k (db s) token ctx"
proof -
  from assms obtain row where
    row: "live_api_key (db s) (sha256_hex k token) = Some row"
    and t: "\<exists>r. find (\<lambda>r. tn_id r = ak_tenant_id row) (tenants (db s)) = Some r \<and> tn_status r = ''active''"
    and p: "principal_status (db s) (ak_principal_type row) (ak_tenant_id row) (ak_principal_id row)
        = Some ''active''"
    and ctx: "tenant_id ctx = ak_tenant_id row" "actor_id ctx = ak_principal_id row"
       "actor_type ctx \<in> {User, ServiceAccount}"
       "role_keys ctx = role_keys_of (db s) (ak_tenant_id row) (ak_principal_id row)"
       "\<not> is_platform_admin ctx"
    by (auto simp: authenticate_api_key_def bindK_Inr seqK_Inr query_Inr require_tenant_active_Inr
        roles_for_principal_def now_rfc3339_Inr)
  from row have "row \<in> set (api_keys (db s))" "ak_token_hash row = sha256_hex k token"
    "ak_status row = ''active''"
    by (auto simp: live_api_key_def dest!: find_Some_in)
  moreover have "tenant_active (db s) (ak_tenant_id row)"
    using t by (auto simp: tenant_active_def dest!: find_Some_in)
  ultimately show ?thesis
    using ctx principal_status_active [OF p] unfolding backed_by_key_def by blast
qed

lemma authenticate_Inr:
  assumes "authenticate k token rid src s = (Inr ctx, s')"
  shows "if starts_with ''ldb_'' token then backed_by_key k (db s) token ctx
         else backed_by_session k (db s) (now_at k (Suc (tick s))) token ctx"
  using assms authenticate_session_Inr authenticate_api_key_Inr
  by (auto simp: authenticate_def Let_def split: if_splits)

section \<open>The life of a session\<close>

lemma accepted_rows: "accepted k d slug email pw tn u \<Longrightarrow>
    tn \<in> set (tenants d) \<and> tn_slug tn = slug \<and> tn_status tn = ''active'' \<and>
    u \<in> set (users d) \<and> us_tenant_id u = tn_id tn \<and> us_email u = email \<and> us_status u = ''active''"
  by (auto simp: accepted_def find_active_slug_def find_by_email_def dest: find_Some_in)

lemma find_unique: "distinct (map f xs) \<Longrightarrow> x \<in> set xs \<Longrightarrow> find (\<lambda>y. f y = f x) xs = Some x"
  by (induction xs) auto

lemma login_then_authenticate:
  assumes "reliable k" and run: "login k slug email pw rid src s = (Inr lr, s')"
    and dist: "distinct (map us_id (users (db s)))" "distinct (map tn_id (tenants (db s)))"
    and e: "parse_rfc3339 k (lr_expires_at lr) = Some expiry" "now_at k (Suc (tick s')) < expiry"
  shows "\<exists>ctx s''. authenticate k (lr_token lr) rid' src' s' = (Inr ctx, s'') \<and>
    actor_type ctx = User \<and> actor_id ctx = lr_user_id lr \<and> tenant_id ctx = lr_tenant_id lr \<and>
    role_keys ctx = lr_role_keys lr \<and> is_platform_admin ctx = lr_is_platform_admin lr \<and>
    org_id ctx = lr_org_id lr"
proof -
  from login_Inr [OF run] obtain tn u s1 where
    acc: "accepted k (db s) (trim slug) (normalize_email email) pw tn u"
    and op: "open_session k u (tn_id tn) (normalize_email email) rid src s1 = (Inr lr, s')"
    and s1: "db s1 = db s" by blast
  from open_session_Inr [OF op] obtain row ev where
    d: "db s' = log_audit ev ((db s)\<lparr>sessions := sessions (db s) @ [row]\<rparr>)"
    and row: "ss_tenant_id row = tn_id tn" "ss_user_id row = us_id u" "\<not> ss_revoked row"
      "ss_token_hash row = sha256_hex k (lr_token lr)" "starts_with ''lds_'' (lr_token lr)"
      "ss_token_hash row \<notin> ss_token_hash ` set (sessions (db s))"
      "ss_expires_at row = lr_expires_at lr" "ss_org_id row = lr_org_id lr"
    and lr: "lr_user_id lr = us_id u" "lr_tenant_id lr = tn_id tn"
      "lr_role_keys lr = role_keys_of (db s) (tn_id tn) (us_id u)"
      "lr_is_platform_admin lr = us_is_platform_admin u"
    unfolding s1 by metis
  have nk: "\<not> starts_with ''ldb_'' (lr_token lr)"
    using row(5) by (auto simp: starts_with_iff)
  have live: "live_session (db s') (sha256_hex k (lr_token lr)) = Some row"
    using row d by (auto simp: live_session_def find_append find_None_iff image_iff log_audit_def
        split: option.splits dest!: find_Some_in)
  note r = accepted_rows [OF acc]
  have tn: "find (\<lambda>x. tn_id x = tn_id tn) (tenants (db s')) = Some tn"
    using find_unique [OF dist(2), of tn] r d by (simp add: log_audit_def)
  have u: "find (\<lambda>x. us_id x = us_id u) (users (db s')) = Some u"
    using find_unique [OF dist(1), of u] r d by (simp add: log_audit_def)
  have ra: "role_keys_of (db s') = role_keys_of (db s)"
    using d by (simp add: role_keys_of_def log_audit_def fun_eq_iff)
  show ?thesis
    using live nk tn u e r assms(1) row lr ra
    by (auto simp: authenticate_def authenticate_session_def Let_def bindK_def seqK_def run_stmt
        someK_def retK_def check_expiry_def now_def guardK_def require_tenant_active_def
        roles_for_principal_def user_ctx_def)
qed

definition revoked_hash :: "database \<Rightarrow> string \<Rightarrow> bool" where
  "revoked_hash d hash \<longleftrightarrow> (\<forall>r\<in>set (sessions d). ss_token_hash r = hash \<longrightarrow> ss_revoked r)"

lemma logout_Inr:
  assumes "logout k token s = (Inr r, s')"
  shows "revoked_hash (db s') (sha256_hex k token)"
proof -
  from assms obtain s0 s1 x where
    "s1 = s0\<lparr>tick := Suc (tick s0), db := revoke_hash (sha256_hex k token) (db s0)\<rparr>"
    "retK x s1 = (Inr r, s')"
    unfolding logout_def Let_def bindK_Inr seqK_Inr update_stmt_Inr by blast
  then have "db s' = revoke_hash (sha256_hex k token) (db s0)" by simp
  then show ?thesis
    by (auto simp: revoked_hash_def revoke_hash_def upd_where_def)
qed

lemma revoked_not_authenticated:
  assumes "revoked_hash (db s) (sha256_hex k token)" "\<not> starts_with ''ldb_'' token"
  shows "authenticate k token rid src s \<noteq> (Inr ctx, s')"
  using authenticate_Inr [of k token rid src s ctx s'] assms
  by (auto simp: revoked_hash_def backed_by_session_def)

lemma suspended_not_authenticated:
  assumes "authenticate k token rid src s = (Inr ctx, s')"
  shows "tenant_active (db s) (tenant_id ctx)"
  using authenticate_Inr [OF assms]
  by (auto simp: backed_by_session_def backed_by_key_def split: if_splits)

lemma cleanup_Inr:
  assumes "cleanup_expired_sessions k s = (Inr n, s')"
  shows "sessions (db s') = filter (\<lambda>r. \<not> dead_session (rfc3339 k (now_at k (tick s))) r) (sessions (db s))"
    and "n + length (sessions (db s')) = length (sessions (db s))"
  using assms sum_length_filter_compl [of "dead_session (rfc3339 k (now_at k (tick s)))" "sessions (db s)"]
  by (auto simp: cleanup_expired_sessions_def bindK_Inr now_rfc3339_Inr stmt_Inr)

lemma session_ttl_bounds: "1 \<le> session_ttl_days k \<and> session_ttl_days k \<le> 365"
  by (auto simp: session_ttl_days_def DEFAULT_SESSION_TTL_DAYS_def split: option.splits)

end
