(* ===== verification/Workflows.thy ===== *)
theory Workflows
  imports ObjectTypes
begin

text \<open>
  Workflow definitions (\<open>kernel/src/workflow.rs\<close>): registering or overwriting a definition,
  reading it, and the initial state a new record of a type with a workflow gets. A definition is
  accepted only when it names its initial state and both ends of every transition among its
  states.
\<close>

section \<open>Validation\<close>

fun validate_transitions :: "workflow_def \<Rightarrow> transition_t list \<Rightarrow> api_error + unit" where
  "validate_transitions w [] = Inr ()"
| "validate_transitions w (t # ts) =
     (if wf_state w (t_from t) = None \<or> wf_state w (t_to t) = None
      then Inl (validation (''transition '' @ quoted (t_key t) @ '' references unknown state''))
      else validate_transitions w ts)"

definition validate_workflow :: "workflow_def \<Rightarrow> api_error + unit" where
  "validate_workflow w =
     (if trim (wf_key w) = [] \<or> trim (wf_object_type w) = []
      then Inl (validation ''workflow key and object_type are required'')
      else if wf_state w (wf_initial_state w) = None
      then Inl (validation ''initial_state must be one of the states'')
      else validate_transitions w (wf_transitions w))"

definition workflow_ok :: "workflow_def \<Rightarrow> bool" where
  "workflow_ok w \<longleftrightarrow>
     trim (wf_key w) \<noteq> [] \<and> trim (wf_object_type w) \<noteq> [] \<and>
     wf_initial_state w \<in> ws_key ` set (wf_states w) \<and>
     (\<forall>t\<in>set (wf_transitions w). t_from t \<in> ws_key ` set (wf_states w) \<and>
        t_to t \<in> ws_key ` set (wf_states w))"

lemma validate_transitions_ok: "validate_transitions w ts = Inr () \<longleftrightarrow>
    (\<forall>t\<in>set ts. t_from t \<in> ws_key ` set (wf_states w) \<and> t_to t \<in> ws_key ` set (wf_states w))"
  by (induction ts) (auto simp: wf_state_None)

lemma validate_workflow_iff: "validate_workflow w = Inr () \<longleftrightarrow> workflow_ok w"
  by (auto simp: validate_workflow_def workflow_ok_def validate_transitions_ok wf_state_None)

section \<open>The state machine of a definition\<close>

text \<open>The states that transitions of \<open>w\<close> reach from its initial state.\<close>

inductive wf_reach :: "workflow_def \<Rightarrow> string \<Rightarrow> bool" for w where
  wf_init: "wf_reach w (wf_initial_state w)"
| wf_step: "wf_reach w q \<Longrightarrow> t \<in> set (available_from w q) \<Longrightarrow> wf_reach w (t_to t)"

inductive_cases wf_reachE: "wf_reach w q"

lemma wf_reach_states: "wf_reach w q \<Longrightarrow> workflow_ok w \<Longrightarrow> q \<in> ws_key ` set (wf_states w)"
  by (induction rule: wf_reach.induct) (auto simp: workflow_ok_def available_from_def)

section \<open>Operations\<close>

definition find_workflow :: "database \<Rightarrow> string \<Rightarrow> string \<Rightarrow> workflow_def option" where
  "find_workflow d t key =
     map_option wr_definition (find (\<lambda>r. wr_tenant_id r = t \<and> wr_key r = key) (workflows d))"

text \<open>\<open>INSERT .. ON CONFLICT(tenant_id, key) DO UPDATE\<close>.\<close>

definition upsert_workflow :: "string \<Rightarrow> workflow_def \<Rightarrow> string \<Rightarrow> string \<Rightarrow> database
    \<Rightarrow> sql_error + unit \<times> database" where
  "upsert_workflow t w wid ts d =
     (let hit = (\<lambda>r. wr_tenant_id r = t \<and> wr_key r = wf_key w)
      in if list_ex hit (workflows d)
         then Inr ((), d\<lparr>workflows := upd_where hit
                (\<lambda>r. r\<lparr>wr_object_type := wf_object_type w, wr_name := wf_name w,
                       wr_definition := w\<rparr>) (workflows d)\<rparr>)
         else sql_insert (wid \<notin> wr_id ` set (workflows d)) (tenant_exists d t)
                (d\<lparr>workflows := workflows d @
                   [\<lparr>wr_id = wid, wr_tenant_id = t, wr_key = wf_key w,
                     wr_object_type = wf_object_type w, wr_name = wf_name w, wr_definition = w,
                     wr_created_at = ts\<rparr>]\<rparr>))"

definition create_workflow :: "kernel \<Rightarrow> auth_context \<Rightarrow> workflow_def \<Rightarrow> workflow_def kern" where
  "create_workflow k ctx w =
     seqK (authorize k ctx Configure ''workflows'' None) (
     seqK (resK (validate_workflow w)) (
     bindK (now_rfc3339 k) (\<lambda>ts.
     seqK (transaction k (
       seqK (bindK (new_id k) (\<lambda>id. stmt k (upsert_workflow (tenant_id ctx) w id ts)))
            (audit_change k ctx ''workflow.create'' (Some ''workflow'') (Some (wf_key w)) None
               (Some (jobj [(''object_type'', JString (wf_object_type w)),
                            (''states'', jnat (length (wf_states w)))])) (\<lambda>ev. ev))))
     (retK w))))"

definition load_workflow :: "kernel \<Rightarrow> string \<Rightarrow> string \<Rightarrow> workflow_def option kern" where
  "load_workflow k t key = query k (\<lambda>d. find_workflow d t key)"

definition get_workflow :: "kernel \<Rightarrow> auth_context \<Rightarrow> string \<Rightarrow> workflow_def kern" where
  "get_workflow k ctx key =
     seqK (authorize k ctx Read ''workflows'' None)
       (bindK (load_workflow k (tenant_id ctx) key) (someK (not_found ''workflow not found'')))"

definition list_workflows :: "kernel \<Rightarrow> auth_context \<Rightarrow> workflow_def list kern" where
  "list_workflows k ctx =
     seqK (authorize k ctx Read ''workflows'' None)
       (query k (\<lambda>d. map wr_definition (sort_key wr_key
          (filter (\<lambda>r. wr_tenant_id r = tenant_id ctx) (workflows d)))))"

definition workflow_initial_state :: "kernel \<Rightarrow> string \<Rightarrow> string \<Rightarrow> string option kern" where
  "workflow_initial_state k t key =
     bindK (load_workflow k t key) (\<lambda>w. retK (map_option wf_initial_state w))"

section \<open>Facts\<close>

lemma load_workflow_Inr: "load_workflow k t key s = (Inr w, s') \<longleftrightarrow>
    \<not> db_fault k (tick s) \<and> w = find_workflow (db s) t key \<and> s' = s\<lparr>tick := Suc (tick s)\<rparr>"
  by (simp add: load_workflow_def query_Inr)

lemma upsert_workflow_find:
  assumes "upsert_workflow t w wid ts d = Inr (x, d')"
  shows "find_workflow d' t (wf_key w) = Some w"
proof (cases "list_ex (\<lambda>r. wr_tenant_id r = t \<and> wr_key r = wf_key w) (workflows d)")
  case True
  then obtain r where "find (\<lambda>r. wr_tenant_id r = t \<and> wr_key r = wf_key w) (workflows d) = Some r"
    by (metis (mono_tags, lifting) find_None_all list_ex_iff not_None_eq)
  with True show ?thesis
    using assms by (auto simp: upsert_workflow_def find_workflow_def Let_def find_upd_where)
next
  case False
  then have "find (\<lambda>r. wr_tenant_id r = t \<and> wr_key r = wf_key w) (workflows d) = None"
    by (auto simp: find_None_all list_ex_iff)
  with False show ?thesis
    using assms by (auto simp: upsert_workflow_def find_workflow_def find_append)
qed

context db_frame begin

lemma keeps_load_workflow [frame_rules]: "keeps R (load_workflow k t key)"
  unfolding load_workflow_def by (rule keeps_query)

lemma keeps_workflow_initial_state [frame_rules]: "keeps R (workflow_initial_state k t key)"
  unfolding workflow_initial_state_def by (intro keeps_bindK keeps_load_workflow keeps_retK)

end

lemma upsert_workflow_isolated:
  "upsert_workflow t w wid ts d = Inr (x, d') \<Longrightarrow> isolated t d d' \<and> same_log d d'"
  by (auto simp: upsert_workflow_def isolated_def same_log_def Let_def intro!: others_upd_where
      split: if_splits)

lemma keeps_isolated_create_workflow:
  "keeps (isolated (tenant_id ctx)) (create_workflow k ctx w)"
  unfolding create_workflow_def
  by (intro frame_rules | auto dest: upsert_workflow_isolated)+

lemma keeps_audited_create_workflow: "keeps audited (create_workflow k ctx w)"
  unfolding create_workflow_def
  by (intro frame_rules refl keeps_audited_transaction logs_seq_second logs_audit_change
      | auto dest: upsert_workflow_isolated)+

end
