(* ===== verification/Records.thy ===== *)
theory Records
  imports Workflows
begin

text \<open>
  The record service (\<open>kernel/src/record.rs\<close>): create, read, update, archive and restore, listing
  with filters, search, sorting and pages, the relation graph, and the permission-aware scan the
  analytics use. Every operation is the code's sequence of calls: load, authorize, check each
  field that is written, validate the whole data map, one transaction with the change, its audit
  event and its domain event, and the projection of what is returned.
\<close>

definition resource_for :: "string \<Rightarrow> string" where
  "resource_for ty = ''object:'' @ ty"

definition MAX_SCAN :: nat where
  "MAX_SCAN = 5000"

record relation_edge =
  re_id :: string
  re_relation_type :: string
  re_direction :: string
  re_record_id :: string
  re_created_at :: string

section \<open>Validation of a data map\<close>

fun validate_data :: "(string \<Rightarrow> int option) \<Rightarrow> field_definition list \<Rightarrow> jmap \<Rightarrow> api_error + unit" where
  "validate_data parse [] data = Inr ()"
| "validate_data parse (f # fs) data =
     (case validate_value parse f (case jget data (f_key f) of Some v \<Rightarrow> v | None \<Rightarrow> JNull) of
        Inl msg \<Rightarrow> Inl (validation msg)
      | Inr _ \<Rightarrow> validate_data parse fs data)"

definition validate_against_type ::
  "(string \<Rightarrow> int option) \<Rightarrow> object_type_def \<Rightarrow> jmap \<Rightarrow> api_error + unit" where
  "validate_against_type parse ot data = validate_data parse (ot_fields ot) data"

text \<open>The specification: every declared field holds an admitted value (absent counts as null).\<close>

definition conforms :: "(string \<Rightarrow> int option) \<Rightarrow> object_type_def \<Rightarrow> jmap \<Rightarrow> bool" where
  "conforms parse ot data \<longleftrightarrow>
     (\<forall>f\<in>set (ot_fields ot).
        admits parse f (case jget data (f_key f) of Some v \<Rightarrow> v | None \<Rightarrow> JNull))"

lemma validate_data_iff: "validate_data parse fs data = Inr () \<longleftrightarrow>
    (\<forall>f\<in>set fs. admits parse f (case jget data (f_key f) of Some v \<Rightarrow> v | None \<Rightarrow> JNull))"
proof (induction fs)
  case (Cons f fs)
  let ?v = "case jget data (f_key f) of Some v \<Rightarrow> v | None \<Rightarrow> JNull"
  show ?case
    using Cons validate_value_admits [of parse f ?v] by (cases "validate_value parse f ?v") auto
qed simp

lemma validate_against_type_iff:
  "validate_against_type parse ot data = Inr () \<longleftrightarrow> conforms parse ot data"
  by (simp add: validate_against_type_def validate_data_iff conforms_def)

section \<open>Loading and projecting\<close>

definition find_record :: "database \<Rightarrow> string \<Rightarrow> string \<Rightarrow> record_t option" where
  "find_record d t rid = find (\<lambda>r. r_tenant_id r = t \<and> r_id r = rid) (records d)"

definition load_record :: "kernel \<Rightarrow> string \<Rightarrow> string \<Rightarrow> record_t option kern" where
  "load_record k t rid = query k (\<lambda>d. find_record d t rid)"

text \<open>\<open>load_record(..)?.ok_or_else(|| not_found(..))?\<close>.\<close>

definition require_record :: "kernel \<Rightarrow> auth_context \<Rightarrow> string \<Rightarrow> string \<Rightarrow> record_t kern" where
  "require_record k ctx rid msg =
     bindK (load_record k (tenant_id ctx) rid) (someK (not_found msg))"

definition project_for_read ::
  "kernel \<Rightarrow> auth_context \<Rightarrow> record_t \<Rightarrow> object_type_def \<Rightarrow> record_t kern" where
  "project_for_read k ctx r ot =
     (if trusted ctx then retK r
      else bindK (effective_grants k ctx) (\<lambda>grants.
        let read_grants =
              applicable_read_grants k grants ctx (resource_for (r_object_type r)) (Some r)
        in retK (project_fields (field_permitted read_grants ot) r)))"

section \<open>Create\<close>

definition defaults :: "object_type_def \<Rightarrow> jmap" where
  "defaults ot =
     foldl (\<lambda>m f. case f_default f of Some v \<Rightarrow> jinsert (f_key f) v m | None \<Rightarrow> m) [] (ot_fields ot)"

text \<open>
  The loop over the provided values, shared by create and update; \<open>put\<close> is what it does with an
  accepted value.
\<close>

fun write_fields ::
  "kernel \<Rightarrow> auth_context \<Rightarrow> string \<Rightarrow> string option \<Rightarrow> object_type_def \<Rightarrow> permission_grant list
   \<Rightarrow> (string \<Rightarrow> json \<Rightarrow> jmap \<Rightarrow> jmap) \<Rightarrow> jmap \<Rightarrow> jmap \<Rightarrow> jmap kern" where
  "write_fields k ctx resource target ot grants put [] data = retK data"
| "write_fields k ctx resource target ot grants put ((key, v) # kvs) data =
     bindK (someK (validation (''unknown field '' @ quoted key)) (field_of ot key)) (\<lambda>field.
     seqK (guardK (\<not> f_system field)
             (validation (''field '' @ quoted key @ '' is system-managed'')))
     (if f_restricted field \<and> \<not> field_permitted grants ot key
      then seqK (audit_denial k ctx ''write_field'' resource target)
             (failK (forbidden (''not permitted to set field '' @ quoted key)))
      else write_fields k ctx resource target ot grants put kvs (put key v data)))"

definition insert_record :: "kernel \<Rightarrow> record_t \<Rightarrow> unit kern" where
  "insert_record k r =
     stmt k (\<lambda>d. sql_insert (r_id r \<notin> r_id ` set (records d)) (tenant_exists d (r_tenant_id r))
       (d\<lparr>records := records d @ [r]\<rparr>))"

definition record_event :: "string \<Rightarrow> string \<Rightarrow> json" where
  "record_event ty rid = jobj [(''object_type'', JString ty), (''id'', JString rid)]"

definition created_record ::
  "auth_context \<Rightarrow> new_record \<Rightarrow> jmap \<Rightarrow> string option \<Rightarrow> string \<Rightarrow> string \<Rightarrow> record_t" where
  "created_record ctx nr data state rid ts =
     \<lparr>r_id = rid, r_object_type = nr_object_type nr, r_tenant_id = tenant_id ctx,
      r_org_id = org_id ctx,
      r_workspace_id = (case nr_workspace_id nr of Some w \<Rightarrow> Some w | None \<Rightarrow> workspace_id ctx),
      r_data = data, r_lifecycle = Active, r_workflow_state = state, r_created_by = actor_id ctx,
      r_created_at = ts, r_updated_at = ts, r_archived_at = None\<rparr>"

definition create_record :: "kernel \<Rightarrow> auth_context \<Rightarrow> new_record \<Rightarrow> record_t kern" where
  "create_record k ctx nr =
     (let resource = resource_for (nr_object_type nr) in
      seqK (authorize k ctx Create resource None) (
      bindK (load_object_type k (tenant_id ctx) (nr_object_type nr)) (\<lambda>ot.
      bindK (grants_for k ctx Create resource None) (\<lambda>grants.
      bindK (write_fields k ctx resource None ot grants jinsert (nr_data nr) (defaults ot)) (\<lambda>data.
      seqK (resK (validate_against_type (parse_rfc3339 k) ot data)) (
      bindK (case ot_workflow_key ot of
               Some wkey \<Rightarrow> workflow_initial_state k (tenant_id ctx) wkey
             | None \<Rightarrow> retK None) (\<lambda>state.
      bindK (new_id k) (\<lambda>rid.
      bindK (now_rfc3339 k) (\<lambda>ts.
      let r = created_record ctx nr data state rid ts in
      seqK (transaction k (
        seqK (insert_record k r) (
        seqK (audit_change k ctx ''record.create'' (Some (nr_object_type nr)) (Some rid) None
               (Some (JObject data)) (\<lambda>ev. ev))
             (emit_on k ctx ''record.created'' (record_event (nr_object_type nr) rid)))))
      (project_for_read k ctx r ot))))))))))"

section \<open>Read\<close>

definition get_record :: "kernel \<Rightarrow> auth_context \<Rightarrow> string \<Rightarrow> record_t kern" where
  "get_record k ctx rid =
     bindK (require_record k ctx rid ''record not found'') (\<lambda>r.
     seqK (authorize k ctx Read (resource_for (r_object_type r)) (Some r)) (
     bindK (load_object_type k (tenant_id ctx) (r_object_type r)) (\<lambda>ot.
     project_for_read k ctx r ot)))"

section \<open>Update\<close>

definition patch_value :: "string \<Rightarrow> json \<Rightarrow> jmap \<Rightarrow> jmap" where
  "patch_value key v data = (if is_null v then jremove key data else jinsert key v data)"

definition set_record :: "string \<Rightarrow> string \<Rightarrow> (record_t \<Rightarrow> record_t) \<Rightarrow> database \<Rightarrow> database" where
  "set_record t rid f d =
     d\<lparr>records := upd_where (\<lambda>r. r_tenant_id r = t \<and> r_id r = rid) f (records d)\<rparr>"

definition update_record :: "kernel \<Rightarrow> auth_context \<Rightarrow> string \<Rightarrow> record_patch \<Rightarrow> record_t kern" where
  "update_record k ctx rid patch =
     bindK (require_record k ctx rid ''record not found'') (\<lambda>r.
     let resource = resource_for (r_object_type r) in
     seqK (authorize k ctx Update resource (Some r)) (
     bindK (load_object_type k (tenant_id ctx) (r_object_type r)) (\<lambda>ot.
     bindK (grants_for k ctx Update resource (Some r)) (\<lambda>grants.
     bindK (write_fields k ctx resource (Some rid) ot grants patch_value (rp_data patch) (r_data r))
       (\<lambda>data.
     seqK (resK (validate_against_type (parse_rfc3339 k) ot data)) (
     bindK (now_rfc3339 k) (\<lambda>ts.
     seqK (transaction k (
       seqK (update_stmt k (set_record (tenant_id ctx) rid
               (\<lambda>row. row\<lparr>r_data := data, r_updated_at := ts\<rparr>))) (
       seqK (audit_change k ctx ''record.update'' (Some (r_object_type r)) (Some rid)
               (Some (JObject (r_data r))) (Some (JObject data)) (\<lambda>ev. ev))
            (emit_on k ctx ''record.updated'' (record_event (r_object_type r) rid)))))
     (project_for_read k ctx (r\<lparr>r_data := data, r_updated_at := ts\<rparr>) ot))))))))"

section \<open>Archive and restore\<close>

definition set_lifecycle :: "kernel \<Rightarrow> auth_context \<Rightarrow> string \<Rightarrow> lifecycle \<Rightarrow> unit kern" where
  "set_lifecycle k ctx rid lc =
     bindK (require_record k ctx rid ''record not found'') (\<lambda>r.
     seqK (authorize k ctx (case lc of Archived \<Rightarrow> Archive | Active \<Rightarrow> Restore)
             (resource_for (r_object_type r)) (Some r)) (
     bindK (now_rfc3339 k) (\<lambda>ts.
     transaction k (
       seqK (update_stmt k (set_record (tenant_id ctx) rid
               (\<lambda>row. row\<lparr>r_lifecycle := lc,
                          r_archived_at := (case lc of Archived \<Rightarrow> Some ts | Active \<Rightarrow> None),
                          r_updated_at := ts\<rparr>)))
            (audit_change k ctx
               (case lc of Archived \<Rightarrow> ''record.archive'' | Active \<Rightarrow> ''record.restore'')
               (Some (r_object_type r)) (Some rid) None None (\<lambda>ev. ev))))))"

definition archive_record :: "kernel \<Rightarrow> auth_context \<Rightarrow> string \<Rightarrow> unit kern" where
  "archive_record k ctx rid = set_lifecycle k ctx rid Archived"

definition restore_record :: "kernel \<Rightarrow> auth_context \<Rightarrow> string \<Rightarrow> unit kern" where
  "restore_record k ctx rid = set_lifecycle k ctx rid Active"

section \<open>Listing\<close>

definition record_matches_search :: "record_t \<Rightarrow> string \<Rightarrow> bool" where
  "record_matches_search r needle =
     list_ex (\<lambda>(_, v). case v of JString s \<Rightarrow> str_contains (to_lowercase s) needle | _ \<Rightarrow> False)
       (r_data r)"

definition compare_field :: "string \<Rightarrow> record_t \<Rightarrow> record_t \<Rightarrow> ordering" where
  "compare_field field a b =
     (if field = ''created_at'' then cmp_of (r_created_at a) (r_created_at b)
      else case (jget (r_data a) field, jget (r_data b) field) of
             (Some (JNumber x), Some (JNumber y)) \<Rightarrow> cmp_of (as_f64_num x) (as_f64_num y)
           | (Some (JString x), Some (JString y)) \<Rightarrow> cmp_of x y
           | (Some _, None) \<Rightarrow> Greater
           | (None, Some _) \<Rightarrow> Less
           | _ \<Rightarrow> Equal)"

definition filter_clause :: "field_filter \<Rightarrow> record_t \<Rightarrow> bool" where
  "filter_clause c r =
     (case jget (r_data r) (ff_field c) of
        Some v \<Rightarrow> value_matches v (ff_op c) (ff_value c)
      | None \<Rightarrow> False)"

text \<open>The candidate rows: tenant, type and lifecycle, newest first, at most \<open>MAX_SCAN\<close>.\<close>

definition candidates :: "string \<Rightarrow> string \<Rightarrow> bool \<Rightarrow> database \<Rightarrow> record_t list" where
  "candidates t ty archived d =
     take MAX_SCAN (order_desc r_created_at
       (filter (\<lambda>r. r_tenant_id r = t \<and> r_object_type r = ty \<and> (archived \<or> r_lifecycle r = Active))
          (records d)))"

text \<open>The in-memory part of a listing: search, filters, sort.\<close>

definition select_records :: "record_filter \<Rightarrow> record_t list \<Rightarrow> record_t list" where
  "select_records flt rs =
     (let rs1 = (case rf_search flt of
                   Some sr \<Rightarrow>
                     if sr \<noteq> [] then filter (\<lambda>r. record_matches_search r (to_lowercase sr)) rs else rs
                 | None \<Rightarrow> rs);
          rs2 = fold (\<lambda>c. filter (filter_clause c)) (rf_filters flt) rs1
      in case rf_sort flt of
           Some field \<Rightarrow>
             (let sorted = sort_by (compare_field field) rs2
              in if rf_desc flt then rev sorted else sorted)
         | None \<Rightarrow> rs2)"

definition smin :: "64 word \<Rightarrow> 64 word \<Rightarrow> 64 word" where
  "smin a b = (if b <s a then b else a)"

text \<open>
  The page of the selection: \<open>records[start..end]\<close> with \<open>start\<close> and \<open>end\<close> computed in \<open>i64\<close> and
  cast to \<open>usize\<close>. None is the panic of the slice.
\<close>

definition page_items :: "page \<Rightarrow> 'a list \<Rightarrow> 'a list option" where
  "page_items pg xs =
     (let total = of_nat (length xs);
          start = unat (smin (pg_offset pg) total);
          end' = unat (smin (pg_offset pg + pg_limit pg) total)
      in slice_range start end' xs)"

definition project_list ::
  "kernel \<Rightarrow> auth_context \<Rightarrow> permission_grant list \<Rightarrow> string \<Rightarrow> object_type_def \<Rightarrow> record_t
   \<Rightarrow> record_t" where
  "project_list k ctx grants resource ot r =
     (if trusted ctx then r
      else project_fields
             (field_permitted (applicable_read_grants k grants ctx resource (Some r)) ot) r)"

definition list_records ::
  "kernel \<Rightarrow> auth_context \<Rightarrow> string \<Rightarrow> record_filter \<Rightarrow> record_t list_response option kern" where
  "list_records k ctx ty flt =
     (let resource = resource_for ty in
      seqK (authorize k ctx Search resource None) (
      bindK (load_object_type k (tenant_id ctx) ty) (\<lambda>ot.
      bindK (effective_grants k ctx) (\<lambda>grants.
      bindK (query k (candidates (tenant_id ctx) ty (rf_include_archived flt))) (\<lambda>rows.
      let readable = filter (\<lambda>r. grants_allow k grants ctx Read resource (Some r)) rows;
          found = select_records flt readable;
          pg = clamped (rf_page flt)
      in retK (map_option (\<lambda>items.
           \<lparr>lr_items = map (project_list k ctx grants resource ot) items,
            lr_total = of_nat (length found), lr_limit = pg_limit pg, lr_offset = pg_offset pg\<rparr>)
           (page_items pg found)))))))"

definition scan_records ::
  "kernel \<Rightarrow> auth_context \<Rightarrow> string \<Rightarrow> record_filter \<Rightarrow> record_t list kern" where
  "scan_records k ctx ty flt =
     (let resource = resource_for ty in
      seqK (authorize k ctx Search resource None) (
      bindK (load_object_type k (tenant_id ctx) ty) (\<lambda>ot.
      bindK (effective_grants k ctx) (\<lambda>grants.
      bindK (query k (candidates (tenant_id ctx) ty (rf_include_archived flt))) (\<lambda>rows.
      let readable = filter (\<lambda>r. grants_allow k grants ctx Read resource (Some r)) rows;
          found = fold (\<lambda>c. filter (filter_clause c)) (rf_filters flt) readable
      in retK (map (project_list k ctx grants resource ot) found))))))"

section \<open>Relations\<close>

text \<open>\<open>INSERT OR IGNORE\<close>: a row that violates a uniqueness constraint is skipped silently.\<close>

definition insert_relation :: "relation_row \<Rightarrow> database \<Rightarrow> sql_error + unit \<times> database" where
  "insert_relation row d =
     (let edge = (\<lambda>r. (rl_tenant_id r, rl_from_record r, rl_to_record r, rl_relation_type r))
      in if rl_id row \<in> rl_id ` set (relations d) \<or> edge row \<in> edge ` set (relations d)
         then Inr ((), d)
         else sql_insert True (tenant_exists d (rl_tenant_id row))
                (d\<lparr>relations := relations d @ [row]\<rparr>))"

definition relate ::
  "kernel \<Rightarrow> auth_context \<Rightarrow> string \<Rightarrow> string \<Rightarrow> string \<Rightarrow> relation_edge kern" where
  "relate k ctx from_id to_id relation_type =
     bindK (require_record k ctx from_id ''from record not found'') (\<lambda>from.
     bindK (require_record k ctx to_id ''to record not found'') (\<lambda>to.
     seqK (authorize k ctx Relate (resource_for (r_object_type from)) (Some from)) (
     seqK (authorize k ctx Read (resource_for (r_object_type to)) (Some to)) (
     bindK (new_id k) (\<lambda>rid.
     bindK (now_rfc3339 k) (\<lambda>ts.
     seqK (transaction k (
       seqK (stmt k (insert_relation
               \<lparr>rl_id = rid, rl_tenant_id = tenant_id ctx, rl_from_record = from_id,
                rl_to_record = to_id, rl_relation_type = relation_type,
                rl_created_by = actor_id ctx, rl_created_at = ts\<rparr>))
            (audit_change k ctx ''relation.create'' (Some (r_object_type from)) (Some from_id)
               None
               (Some (jobj [(''to'', JString to_id), (''type'', JString relation_type)]))
               (\<lambda>ev. ev))))
     (retK \<lparr>re_id = rid, re_relation_type = relation_type, re_direction = ''out'',
            re_record_id = to_id, re_created_at = ts\<rparr>)))))))"

definition edge_of :: "string \<Rightarrow> relation_row \<Rightarrow> relation_edge" where
  "edge_of rid row =
     (let (direction, other) =
            (if rl_from_record row = rid then (''out'', rl_to_record row)
             else (''in'', rl_from_record row))
      in \<lparr>re_id = rl_id row, re_relation_type = rl_relation_type row, re_direction = direction,
          re_record_id = other, re_created_at = rl_created_at row\<rparr>)"

definition get_relations :: "kernel \<Rightarrow> auth_context \<Rightarrow> string \<Rightarrow> relation_edge list kern" where
  "get_relations k ctx rid =
     bindK (require_record k ctx rid ''record not found'') (\<lambda>r.
     seqK (authorize k ctx Read (resource_for (r_object_type r)) (Some r)) (
     query k (\<lambda>d. map (edge_of rid)
       (filter (\<lambda>row. rl_tenant_id row = tenant_id ctx \<and>
                  (rl_from_record row = rid \<or> rl_to_record row = rid)) (relations d)))))"

end
