(* ===== verification/RecordFacts.thy ===== *)
theory RecordFacts
  imports Records
begin

text \<open>
  What the record service guarantees: who sees which field (\<open>can_see\<close>), what a successful create,
  update or listing did, the pages a listing returns, and the frames of every operation.
\<close>

section \<open>Field visibility\<close>

text \<open>
  The specification of a projection: an unrestricted field is visible to every reader, a
  restricted one only when a read grant that covers this record has a field rule admitting it.
\<close>

definition can_see ::
  "kernel \<Rightarrow> database \<Rightarrow> auth_context \<Rightarrow> object_type_def \<Rightarrow> record_t \<Rightarrow> string \<Rightarrow> bool" where
  "can_see k d ctx ot r key \<longleftrightarrow>
     trusted ctx \<or>
     (\<forall>f. field_of ot key = Some f \<longrightarrow> f_restricted f \<longrightarrow>
        (\<exists>g\<in>granted k d ctx Read (resource_for (r_object_type r)) (Some r).
           \<exists>fr. g_fields g = Some fr \<and> permits fr key))"

lemma can_see_cong: "roles d = roles d' \<Longrightarrow> can_see k d = can_see k d'"
  by (simp add: can_see_def fun_eq_iff granted_cong [of d d'])

lemma jrestrict_True: "(\<And>key. P key) \<Longrightarrow> jrestrict P m = m"
  by (simp add: jrestrict_def)

lemma project_fields_True: "(\<And>key. P key) \<Longrightarrow> project_fields P r = r"
  by (simp add: project_fields_def jrestrict_True)

lemma set_applicable_read_grants:
  "set (applicable_read_grants k (role_grants_of d (tenant_id ctx) (role_keys ctx)) ctx resource target)
     = granted k d ctx Read resource target"
  unfolding applicable_read_grants_def granted_def by (auto simp: set_role_grants_of)

lemma field_permitted_can_see:
  "\<not> trusted ctx \<Longrightarrow>
   field_permitted (applicable_read_grants k (role_grants_of d (tenant_id ctx) (role_keys ctx)) ctx
      (resource_for (r_object_type r)) (Some r)) ot = can_see k d ctx ot r"
  by (auto simp: fun_eq_iff field_permitted_iff can_see_def set_applicable_read_grants)

lemma project_for_read_Inr:
  assumes "project_for_read k ctx r ot s = (Inr r', s')"
  shows "r' = project_fields (can_see k (db s) ctx ot r) r \<and> db s' = db s \<and> limiter s' = limiter s"
proof (cases "trusted ctx")
  case True
  with assms show ?thesis
    by (auto simp: project_for_read_def can_see_def project_fields_True)
next
  case False
  with assms obtain gs where eg: "effective_grants k ctx s = (Inr gs, s')"
    and r': "r' = project_fields (field_permitted (applicable_read_grants k gs ctx
      (resource_for (r_object_type r)) (Some r)) ot) r"
    by (auto simp: project_for_read_def bindK_Inr Let_def)
  from effective_grants_Inr [OF eg] r' False show ?thesis
    by (simp add: field_permitted_can_see)
qed

lemma project_list_can_see:
  assumes "r_object_type r = ty"
  shows "project_list k ctx (role_grants_of d (tenant_id ctx) (role_keys ctx)) (resource_for ty) ot r
    = project_fields (can_see k d ctx ot r) r"
proof (cases "trusted ctx")
  case True
  then show ?thesis by (simp add: project_list_def can_see_def project_fields_True)
next
  case False
  with assms field_permitted_can_see [OF False, of k d r ot] show ?thesis
    by (simp add: project_list_def)
qed

lemma project_for_read_never_fails: "reliable k \<Longrightarrow> never_fails (project_for_read k ctx r ot)"
  unfolding project_for_read_def effective_grants_def
  by (auto simp: Let_def intro!: never_fails_retK never_fails_bind never_fails_query)

section \<open>Writing fields\<close>

text \<open>A field a caller may set, given the grants that cover the write.\<close>

definition writable :: "permission_grant list \<Rightarrow> object_type_def \<Rightarrow> string \<Rightarrow> bool" where
  "writable grants ot key \<longleftrightarrow>
     (\<exists>f. field_of ot key = Some f \<and> \<not> f_system f \<and>
          (f_restricted f \<longrightarrow> field_permitted grants ot key))"

lemma write_fields_Inr:
  "write_fields k ctx resource target ot grants put kvs data s = (Inr data', s') \<longleftrightarrow>
     s' = s \<and> data' = fold (\<lambda>(key, v). put key v) kvs data \<and>
     (\<forall>key\<in>fst ` set kvs. writable grants ot key)"
proof (induction kvs arbitrary: data s)
  case (Cons p kvs)
  obtain key v where p: "p = (key, v)" by force
  show ?case
    using Cons.IH [of "put key v data"]
    by (auto simp: p run_inv writable_def split: if_splits)
qed auto

section \<open>Creating and updating\<close>

lemma insert_record_Inr: "insert_record k r s = (Inr x, s') \<longleftrightarrow>
    \<not> db_fault k (tick s) \<and> r_id r \<notin> r_id ` set (records (db s)) \<and>
    tenant_exists (db s) (r_tenant_id r) \<and>
    s' = s\<lparr>tick := Suc (tick s), db := (db s)\<lparr>records := records (db s) @ [r]\<rparr>\<rparr>"
  by (auto simp: insert_record_def run_inv)

lemma create_record_Inr:
  assumes "create_record k ctx nr s = (Inr r', s')"
  obtains ot grants r ev e where
    "allowed k (db s) ctx Create (resource_for (nr_object_type nr)) None"
    "find_object_type (db s) (tenant_id ctx) (nr_object_type nr) = Some ot"
    "\<not> trusted ctx \<Longrightarrow> set grants = granted k (db s) ctx Create (resource_for (nr_object_type nr)) None"
    "\<forall>key\<in>fst ` set (nr_data nr). writable grants ot key"
    "conforms (parse_rfc3339 k) ot (r_data r)"
    "r = created_record ctx nr (fold (\<lambda>(key, v). jinsert key v) (nr_data nr) (defaults ot))
           (case ot_workflow_key ot of
              Some wkey \<Rightarrow> map_option wf_initial_state (find_workflow (db s) (tenant_id ctx) wkey)
            | None \<Rightarrow> None) (r_id r) (r_created_at r)"
    "r_id r \<notin> r_id ` set (records (db s))"
    "tenant_exists (db s) (tenant_id ctx)"
    "db s' = (log_audit ev ((db s)\<lparr>records := records (db s) @ [r]\<rparr>))
        \<lparr>events := events (db s) @ [e]\<rparr>"
    "a_action ev = ''record.create''" "a_tenant_id ev = tenant_id ctx" "a_target_record_id ev = Some (r_id r)"
    "r' = project_fields (can_see k (db s) ctx ot r) r"
proof -
  let ?res = "resource_for (nr_object_type nr)"
  from assms obtain s1 s2 s3 s4 s5 s6 s7 ot grants data state rid ts x where
    1: "authorize k ctx Create ?res None s = (Inr x, s1)" and
    2: "load_object_type k (tenant_id ctx) (nr_object_type nr) s1 = (Inr ot, s2)" and
    3: "grants_for k ctx Create ?res None s2 = (Inr grants, s3)" and
    4: "write_fields k ctx ?res None ot grants jinsert (nr_data nr) (defaults ot) s3 = (Inr data, s3)" and
    5: "validate_against_type (parse_rfc3339 k) ot data = Inr ()" and
    6: "(case ot_workflow_key ot of Some wkey \<Rightarrow> workflow_initial_state k (tenant_id ctx) wkey
        | None \<Rightarrow> retK None) s3 = (Inr state, s4)" and
    7: "new_id k s4 = (Inr rid, s5)" and
    8: "now_rfc3339 k s5 = (Inr ts, s6)" and
    9: "transaction k (seqK (insert_record k (created_record ctx nr data state rid ts)) (
        seqK (audit_change k ctx ''record.create'' (Some (nr_object_type nr)) (Some rid) None
               (Some (JObject data)) (\<lambda>ev. ev))
             (emit_on k ctx ''record.created'' (record_event (nr_object_type nr) rid)))) s6
        = (Inr (), s7)" and
    10: "project_for_read k ctx (created_record ctx nr data state rid ts) ot s7 = (Inr r', s')"
    unfolding create_record_def Let_def bindK_Inr seqK_Inr resK_Inr
    by (auto simp: write_fields_Inr)
  let ?r = "created_record ctx nr data state rid ts"
  have r: "r_id ?r = rid" "r_created_at ?r = ts" "r_data ?r = data" "r_tenant_id ?r = tenant_id ctx"
    by (simp_all add: created_record_def)
  have d6: "db s6 = db s" and d2: "db s2 = db s"
    using 1 2 3 6 7 8
    by (auto dest!: authorize_Inr grants_for_Inr simp: load_object_type_Inr run_inv
        workflow_initial_state_def load_workflow_def split: option.splits)
  have st: "state = (case ot_workflow_key ot of
              Some wkey \<Rightarrow> map_option wf_initial_state (find_workflow (db s) (tenant_id ctx) wkey)
            | None \<Rightarrow> None)"
    using 1 2 3 6
    by (auto dest!: authorize_Inr grants_for_Inr simp: load_object_type_Inr run_inv
        workflow_initial_state_def load_workflow_def split: option.splits)
  from 9 obtain t0 y t1 ev e where t0: "db t0 = db s6"
    and ins: "insert_record k ?r t0 = (Inr y, t1)"
    and d7: "db s7 = (log_audit ev (db t1))\<lparr>events := events (db t1) @ [e]\<rparr>"
    and ev: "a_action ev = ''record.create''" "a_tenant_id ev = tenant_id ctx"
      "a_target_record_id ev = Some rid"
    by (rule tx_audit_emit_Inr)
  from ins t0 d6 have i: "r_id ?r \<notin> r_id ` set (records (db s))" "tenant_exists (db s) (tenant_id ctx)"
    and t1: "db t1 = (db s)\<lparr>records := records (db s) @ [?r]\<rparr>"
    by (auto simp: insert_record_Inr r)
  have d': "db s' = (log_audit ev ((db s)\<lparr>records := records (db s) @ [?r]\<rparr>))
        \<lparr>events := events (db s) @ [e]\<rparr>"
    and pr: "r' = project_fields (can_see k (db s7) ctx ot ?r) ?r"
    using project_for_read_Inr [OF 10] d7 t1 by simp_all
  have "roles (db s7) = roles (db s)" using d7 t1 by simp
  then have vis: "can_see k (db s7) = can_see k (db s)" by (rule can_see_cong)
  show thesis
  proof (rule that)
    show "allowed k (db s) ctx Create ?res None" using authorize_Inr [OF 1] by simp
    show "find_object_type (db s) (tenant_id ctx) (nr_object_type nr) = Some ot"
      using authorize_Inr [OF 1] 2 by (auto simp: load_object_type_Inr)
    show "set grants = granted k (db s) ctx Create ?res None" if "\<not> trusted ctx"
      using grants_for_Inr [OF 3] that d2 by simp
    show "\<forall>key\<in>fst ` set (nr_data nr). writable grants ot key"
      using 4 by (simp add: write_fields_Inr)
    show "conforms (parse_rfc3339 k) ot (r_data ?r)"
      using 5 r by (simp add: validate_against_type_iff)
    show "?r = created_record ctx nr (fold (\<lambda>(key, v). jinsert key v) (nr_data nr) (defaults ot))
           (case ot_workflow_key ot of
              Some wkey \<Rightarrow> map_option wf_initial_state (find_workflow (db s) (tenant_id ctx) wkey)
            | None \<Rightarrow> None) (r_id ?r) (r_created_at ?r)"
      using 4 st by (simp add: write_fields_Inr created_record_def)
    show "r' = project_fields (can_see k (db s) ctx ot ?r) ?r" using pr vis by simp
  qed (use i r d' ev in auto)
qed

lemma require_record_Inr: "require_record k ctx rid msg s = (Inr r, s') \<longleftrightarrow>
    \<not> db_fault k (tick s) \<and> find_record (db s) (tenant_id ctx) rid = Some r \<and>
    s' = s\<lparr>tick := Suc (tick s)\<rparr>"
  by (auto simp: require_record_def load_record_def run_inv)

lemma find_record_Some: "find_record d t rid = Some r \<Longrightarrow> r \<in> set (records d) \<and> r_tenant_id r = t \<and> r_id r = rid"
  by (auto simp: find_record_def dest: find_Some_in)

lemma set_record_simps [simp]:
  "roles (set_record t rid f d) = roles d"
  "audit_logs (set_record t rid f d) = audit_logs d"
  "events (set_record t rid f d) = events d"
  "records (set_record t rid f d) = upd_where (\<lambda>r. r_tenant_id r = t \<and> r_id r = rid) f (records d)"
  by (simp_all add: set_record_def)

lemma update_record_Inr:
  assumes "update_record k ctx rid patch s = (Inr r', s')"
  obtains r ot grants data ts ev e where
    "find_record (db s) (tenant_id ctx) rid = Some r"
    "allowed k (db s) ctx Update (resource_for (r_object_type r)) (Some r)"
    "find_object_type (db s) (tenant_id ctx) (r_object_type r) = Some ot"
    "\<not> trusted ctx \<Longrightarrow> set grants = granted k (db s) ctx Update (resource_for (r_object_type r)) (Some r)"
    "\<forall>key\<in>fst ` set (rp_data patch). writable grants ot key"
    "data = fold (\<lambda>(key, v). patch_value key v) (rp_data patch) (r_data r)"
    "conforms (parse_rfc3339 k) ot data"
    "db s' = (log_audit ev (set_record (tenant_id ctx) rid
        (\<lambda>row. row\<lparr>r_data := data, r_updated_at := ts\<rparr>) (db s)))\<lparr>events := events (db s) @ [e]\<rparr>"
    "a_action ev = ''record.update''" "a_tenant_id ev = tenant_id ctx" "a_target_record_id ev = Some rid"
    "a_before ev = Some (JObject (r_data r))" "a_after ev = Some (JObject data)"
    "r' = project_fields (can_see k (db s) ctx ot (r\<lparr>r_data := data, r_updated_at := ts\<rparr>))
            (r\<lparr>r_data := data, r_updated_at := ts\<rparr>)"
proof -
  from assms obtain r s1 s2 ot s3 grants s4 data ts s5 s6 x where
    1: "require_record k ctx rid ''record not found'' s = (Inr r, s1)" and
    2: "authorize k ctx Update (resource_for (r_object_type r)) (Some r) s1 = (Inr x, s2)" and
    3: "load_object_type k (tenant_id ctx) (r_object_type r) s2 = (Inr ot, s3)" and
    4: "grants_for k ctx Update (resource_for (r_object_type r)) (Some r) s3 = (Inr grants, s4)" and
    5: "write_fields k ctx (resource_for (r_object_type r)) (Some rid) ot grants patch_value
          (rp_data patch) (r_data r) s4 = (Inr data, s4)" and
    6: "validate_against_type (parse_rfc3339 k) ot data = Inr ()" and
    7: "now_rfc3339 k s4 = (Inr ts, s5)" and
    8: "transaction k (seqK (update_stmt k (set_record (tenant_id ctx) rid
               (\<lambda>row. row\<lparr>r_data := data, r_updated_at := ts\<rparr>))) (
       seqK (audit_change k ctx ''record.update'' (Some (r_object_type r)) (Some rid)
               (Some (JObject (r_data r))) (Some (JObject data)) (\<lambda>ev. ev))
            (emit_on k ctx ''record.updated'' (record_event (r_object_type r) rid)))) s5
        = (Inr (), s6)" and
    9: "project_for_read k ctx (r\<lparr>r_data := data, r_updated_at := ts\<rparr>) ot s6 = (Inr r', s')"
    unfolding update_record_def Let_def bindK_Inr seqK_Inr resK_Inr
    by (auto simp: write_fields_Inr)
  have d: "db s1 = db s" "db s2 = db s" "db s3 = db s" "db s4 = db s" "db s5 = db s"
    using 1 2 3 4 7
    by (auto dest!: authorize_Inr grants_for_Inr simp: load_object_type_Inr run_inv require_record_Inr)
  from 8 obtain t0 y t1 ev e where t0: "db t0 = db s5"
    and upd: "update_stmt k (set_record (tenant_id ctx) rid
               (\<lambda>row. row\<lparr>r_data := data, r_updated_at := ts\<rparr>)) t0 = (Inr y, t1)"
    and d6: "db s6 = (log_audit ev (db t1))\<lparr>events := events (db t1) @ [e]\<rparr>"
    and ev: "a_action ev = ''record.update''" "a_tenant_id ev = tenant_id ctx"
      "a_target_record_id ev = Some rid" "a_before ev = Some (JObject (r_data r))"
      "a_after ev = Some (JObject data)"
    by (rule tx_audit_emit_Inr)
  have t1: "db t1 = set_record (tenant_id ctx) rid
      (\<lambda>row. row\<lparr>r_data := data, r_updated_at := ts\<rparr>) (db s)"
    using upd t0 d by (auto simp: update_stmt_Inr)
  have "roles (db s6) = roles (db s)" using d6 t1 by simp
  then have vis: "can_see k (db s6) = can_see k (db s)" by (rule can_see_cong)
  show thesis
  proof (rule that)
    show "find_record (db s) (tenant_id ctx) rid = Some r" using 1 by (simp add: require_record_Inr)
    show "allowed k (db s) ctx Update (resource_for (r_object_type r)) (Some r)"
      using authorize_Inr [OF 2] d by simp
    show "find_object_type (db s) (tenant_id ctx) (r_object_type r) = Some ot"
      using 3 d by (simp add: load_object_type_Inr)
    show "set grants = granted k (db s) ctx Update (resource_for (r_object_type r)) (Some r)"
      if "\<not> trusted ctx"
      using grants_for_Inr [OF 4] that d by simp
    show "\<forall>key\<in>fst ` set (rp_data patch). writable grants ot key"
      and "data = fold (\<lambda>(key, v). patch_value key v) (rp_data patch) (r_data r)"
      using 5 by (simp_all add: write_fields_Inr)
    show "conforms (parse_rfc3339 k) ot data"
      using 6 by (simp add: validate_against_type_iff)
    show "db s' = (log_audit ev (set_record (tenant_id ctx) rid
        (\<lambda>row. row\<lparr>r_data := data, r_updated_at := ts\<rparr>) (db s)))\<lparr>events := events (db s) @ [e]\<rparr>"
      using project_for_read_Inr [OF 9] d6 t1 by simp
    show "r' = project_fields (can_see k (db s) ctx ot (r\<lparr>r_data := data, r_updated_at := ts\<rparr>))
            (r\<lparr>r_data := data, r_updated_at := ts\<rparr>)"
      using project_for_read_Inr [OF 9] vis by simp
  qed (use ev in auto)
qed

lemma get_record_Inr:
  assumes "get_record k ctx rid s = (Inr r', s')"
  obtains r ot where "find_record (db s) (tenant_id ctx) rid = Some r"
    "allowed k (db s) ctx Read (resource_for (r_object_type r)) (Some r)"
    "find_object_type (db s) (tenant_id ctx) (r_object_type r) = Some ot"
    "r' = project_fields (can_see k (db s) ctx ot r) r" "db s' = db s"
  using assms unfolding get_record_def
  by (auto simp: bindK_Inr seqK_Inr require_record_Inr load_object_type_Inr
      dest!: authorize_Inr project_for_read_Inr)

section \<open>Pages\<close>

text \<open>
  The page is the requested one exactly when \<open>offset + limit\<close> fits \<open>i64\<close>; otherwise the sum
  wraps to a negative number and the slice panics.
\<close>

lemma page_items_spec:
  assumes "0 \<le> sint (pg_offset pg)" "0 \<le> sint (pg_limit pg)" "length xs < 2 ^ 63"
  shows "page_items pg xs =
    (if sint (pg_offset pg) + sint (pg_limit pg) < 2 ^ 63
     then Some (take (nat (sint (pg_limit pg))) (drop (nat (sint (pg_offset pg))) xs))
     else None)"
proof -
  have n: "sint (of_nat (length xs) :: 64 word) = int (length xs)"
    using assms(3) by (rule sint_of_nat64)
  have min: "sint (smin a b) = min (sint a) (sint b)" for a b
    by (auto simp: smin_def word_sless_alt)
  have start: "unat (smin (pg_offset pg) (of_nat (length xs)))
      = min (nat (sint (pg_offset pg))) (length xs)"
    using assms(1) by (simp add: unat_sint64 min n)
  show ?thesis
  proof (cases "sint (pg_offset pg) + sint (pg_limit pg) < 2 ^ 63")
    case True
    then have "unat (smin (pg_offset pg + pg_limit pg) (of_nat (length xs)))
        = min (nat (sint (pg_offset pg)) + nat (sint (pg_limit pg))) (length xs)"
      using assms(1,2) sint_plus64 [of "pg_offset pg" "pg_limit pg"]
      by (simp add: unat_sint64 min n nat_add_distrib flip: of_nat_add)
    with True start show ?thesis
      by (auto simp: page_items_def slice_range_def Let_def min_def)
  next
    case False
    let ?s = "sint (pg_offset pg + pg_limit pg)"
    have "?s < 0" "?s \<ge> - (2 ^ 63)"
      using False assms(1,2) sint_plus64 [of "pg_offset pg" "pg_limit pg"]
        sint_bounds64 [of "pg_offset pg"] sint_bounds64 [of "pg_limit pg"] by simp_all
    then have "\<not> unat (smin (pg_offset pg + pg_limit pg) (of_nat (length xs))) \<le> length xs"
      using assms(3) by (simp add: unat_sint64 min n)
    with False show ?thesis
      by (simp add: page_items_def slice_range_def Let_def)
  qed
qed

lemma page_items_clamped:
  assumes "length xs < 2 ^ 63"
  shows "page_items (clamped pg) xs =
    (if max 0 (sint (pg_offset pg)) + sint (pg_limit (clamped pg)) < 2 ^ 63
     then Some (take (nat (sint (pg_limit (clamped pg)))) (drop (nat (sint (pg_offset pg))) xs))
     else None)"
  using page_items_spec [of "clamped pg" xs] assms sint_clamped_limit [of pg]
  by (simp add: sint_clamped_offset max_def split: if_splits)

section \<open>Listing\<close>

lemma length_fold_filter: "length (fold (\<lambda>c. filter (P c)) cs xs) \<le> length xs"
proof (induction cs arbitrary: xs)
  case (Cons c cs)
  have "length (fold (\<lambda>c. filter (P c)) cs (filter (P c) xs)) \<le> length (filter (P c) xs)"
    by (rule Cons)
  also have "\<dots> \<le> length xs" by simp
  finally show ?case by simp
qed simp

lemma fold_filter_all: "x \<in> set (fold (\<lambda>c. filter (P c)) cs xs) \<longleftrightarrow> x \<in> set xs \<and> (\<forall>c\<in>set cs. P c x)"
  by (induction cs arbitrary: xs) auto

lemma select_records_iff: "r \<in> set (select_records flt rs) \<longleftrightarrow>
    r \<in> set rs \<and> (\<forall>c\<in>set (rf_filters flt). filter_clause c r) \<and>
    (\<forall>sr. rf_search flt = Some sr \<longrightarrow> sr \<noteq> [] \<longrightarrow> record_matches_search r (to_lowercase sr))"
  by (auto simp: select_records_def Let_def fold_filter_all split: option.splits)

lemma length_select_records: "length (select_records flt rs) \<le> length rs"
proof -
  have "length (fold (\<lambda>c. filter (filter_clause c)) cs xs) \<le> length rs"
    if "length xs \<le> length rs" for cs xs
    using length_fold_filter that by (rule order_trans)
  then show ?thesis
    by (auto simp: select_records_def Let_def split: option.splits)
qed

lemma candidates_in: "r \<in> set (candidates t ty archived d) \<Longrightarrow>
    r \<in> set (records d) \<and> r_tenant_id r = t \<and> r_object_type r = ty \<and>
    (archived \<or> r_lifecycle r = Active)"
  by (auto simp: candidates_def dest!: in_set_takeD)

lemma length_candidates: "length (candidates t ty archived d) \<le> MAX_SCAN"
  by (simp add: candidates_def)

text \<open>The records a caller may read, of one type: what a listing selects from.\<close>

definition readable ::
  "kernel \<Rightarrow> database \<Rightarrow> auth_context \<Rightarrow> string \<Rightarrow> bool \<Rightarrow> record_t list" where
  "readable k d ctx ty archived =
     filter (\<lambda>r. allowed k d ctx Read (resource_for ty) (Some r))
       (candidates (tenant_id ctx) ty archived d)"

lemma length_readable: "length (readable k d ctx ty archived) \<le> MAX_SCAN"
  unfolding readable_def by (rule order_trans [OF length_filter_le length_candidates])

lemma select_bound: "length (select_records flt (readable k d ctx ty archived)) < 2 ^ 63"
  using length_select_records [of flt "readable k d ctx ty archived"] length_readable [of k d ctx ty archived]
  by (simp add: MAX_SCAN_def)

lemma list_records_Inr:
  assumes "list_records k ctx ty flt s = (Inr res, s')"
  obtains ot where "allowed k (db s) ctx Search (resource_for ty) None"
    "find_object_type (db s) (tenant_id ctx) ty = Some ot" "db s' = db s"
    "let found = select_records flt (readable k (db s) ctx ty (rf_include_archived flt));
         pg = clamped (rf_page flt)
     in res = map_option (\<lambda>items.
          \<lparr>lr_items = map (\<lambda>r. project_fields (can_see k (db s) ctx ot r) r) items,
           lr_total = of_nat (length found), lr_limit = pg_limit pg, lr_offset = pg_offset pg\<rparr>)
          (page_items pg found)"
proof -
  from assms obtain s1 ot s2 gs s3 x where
    1: "authorize k ctx Search (resource_for ty) None s = (Inr x, s1)" and
    2: "load_object_type k (tenant_id ctx) ty s1 = (Inr ot, s2)" and
    3: "effective_grants k ctx s2 = (Inr gs, s3)" and
    4: "db s' = db s3" and
    5: "res = (let rows = candidates (tenant_id ctx) ty (rf_include_archived flt) (db s3);
          readable = filter (\<lambda>r. grants_allow k gs ctx Read (resource_for ty) (Some r)) rows;
          found = select_records flt readable;
          pg = clamped (rf_page flt)
      in map_option (\<lambda>items.
           \<lparr>lr_items = map (project_list k ctx gs (resource_for ty) ot) items,
            lr_total = of_nat (length found), lr_limit = pg_limit pg, lr_offset = pg_offset pg\<rparr>)
           (page_items pg found))"
    by (auto simp: list_records_def Let_def bindK_Inr seqK_Inr query_Inr)
  have d: "db s1 = db s" "db s2 = db s" "db s3 = db s" "db s' = db s"
    and gs: "gs = role_grants_of (db s) (tenant_id ctx) (role_keys ctx)"
    using 1 2 3 4 by (auto dest!: authorize_Inr effective_grants_Inr simp: load_object_type_Inr)
  let ?found = "select_records flt (readable k (db s) ctx ty (rf_include_archived flt))"
  have ty: "r_object_type r = ty" if "page_items pg ?found = Some items" "r \<in> set items" for r items pg
  proof -
    from that have "r \<in> set ?found"
      by (auto simp: page_items_def slice_range_def Let_def dest!: set_take_drop split: if_splits)
    then show ?thesis by (auto simp: select_records_iff readable_def dest!: candidates_in)
  qed
  show thesis
  proof (rule that)
    show "let found = select_records flt (readable k (db s) ctx ty (rf_include_archived flt));
         pg = clamped (rf_page flt)
     in res = map_option (\<lambda>items.
          \<lparr>lr_items = map (\<lambda>r. project_fields (can_see k (db s) ctx ot r) r) items,
           lr_total = of_nat (length found), lr_limit = pg_limit pg, lr_offset = pg_offset pg\<rparr>)
          (page_items pg found)"
      unfolding 5 Let_def gs d(3) grants_allow_iff readable_def [symmetric]
      using ty by (cases "page_items (clamped (rf_page flt)) ?found") (auto simp: project_list_can_see)
  qed (use 1 2 d in \<open>auto dest!: authorize_Inr simp: load_object_type_Inr\<close>)
qed

lemma list_records_None: "list_records k ctx ty flt s = (Inr res, s') \<Longrightarrow> res = None \<longleftrightarrow>
    2 ^ 63 \<le> max 0 (sint (pg_offset (rf_page flt))) + sint (pg_limit (clamped (rf_page flt)))"
  by (erule list_records_Inr) (auto simp: Let_def page_items_clamped [OF select_bound])

lemma list_records_items:
  assumes "list_records k ctx ty flt s = (Inr (Some res), s')"
    and "find_object_type (db s) (tenant_id ctx) ty = Some ot"
  shows "db s' = db s \<and> length (lr_items res) \<le> 500 \<and>
    (\<forall>x\<in>set (lr_items res). \<exists>r\<in>set (records (db s)).
       x = project_fields (can_see k (db s) ctx ot r) r \<and>
       r_tenant_id r = tenant_id ctx \<and> r_object_type r = ty \<and>
       (rf_include_archived flt \<or> r_lifecycle r = Active) \<and>
       allowed k (db s) ctx Read (resource_for ty) (Some r) \<and>
       (\<forall>c\<in>set (rf_filters flt). filter_clause c r) \<and>
       (\<forall>sr. rf_search flt = Some sr \<and> sr \<noteq> [] \<longrightarrow> record_matches_search r (to_lowercase sr)))"
proof -
  let ?found = "select_records flt (readable k (db s) ctx ty (rf_include_archived flt))"
  obtain items where items: "page_items (clamped (rf_page flt)) ?found = Some items"
    "lr_items res = map (\<lambda>r. project_fields (can_see k (db s) ctx ot r) r) items" "db s' = db s"
    by (rule list_records_Inr [OF assms(1)])
      (use assms(2) in \<open>auto simp: Let_def eq_commute [of "Some res"]\<close>)
  from items(1) have pg: "items = take (nat (sint (pg_limit (clamped (rf_page flt)))))
      (drop (nat (sint (pg_offset (rf_page flt)))) ?found)"
    unfolding page_items_clamped [OF select_bound] by (auto split: if_splits)
  have "length items \<le> 500"
    unfolding pg using sint_clamped_limit [of "rf_page flt"] by (simp add: min_def) linarith
  moreover have "r \<in> set ?found" if "r \<in> set items" for r
    using that unfolding pg by (rule set_take_drop)
  ultimately show ?thesis
    using items(2,3) by (fastforce simp: select_records_iff readable_def dest: candidates_in)
qed

section \<open>Frames\<close>

context denial_frame begin

lemma keeps_require_record [frame_rules]: "keeps R (require_record k ctx rid msg)"
  unfolding require_record_def load_record_def by (intro keeps_bindK keeps_query keeps_someK)

lemma keeps_project_for_read [frame_rules]: "keeps R (project_for_read k ctx r ot)"
  unfolding project_for_read_def
  by (intro keeps_if keeps_retK keeps_bindK keeps_effective_grants keeps_Let)

lemma keeps_write_fields [frame_rules]:
  "tenant_id ctx = t \<Longrightarrow> keeps R (write_fields k ctx resource target ot grants put kvs data)"
proof (induction kvs arbitrary: data)
  case Nil
  show ?case by (simp add: keeps_retK)
next
  case (Cons p kvs)
  obtain key v where p: "p = (key, v)" by force
  show ?case unfolding p write_fields.simps
    by (intro keeps_bindK keeps_someK keeps_seqK keeps_guardK keeps_if keeps_audit_denial
        keeps_failK Cons)
qed

lemma keeps_get_record: "tenant_id ctx = t \<Longrightarrow> keeps R (get_record k ctx rid)"
  unfolding get_record_def
  by (intro keeps_bindK keeps_require_record keeps_seqK keeps_authorize keeps_load_object_type
      keeps_project_for_read)

lemma keeps_list_records: "tenant_id ctx = t \<Longrightarrow> keeps R (list_records k ctx ty flt)"
  unfolding list_records_def Let_def
  by (intro keeps_bindK keeps_seqK keeps_authorize keeps_load_object_type keeps_effective_grants
      keeps_query keeps_retK)

lemma keeps_scan_records [frame_rules]: "tenant_id ctx = t \<Longrightarrow> keeps R (scan_records k ctx ty flt)"
  unfolding scan_records_def Let_def
  by (intro keeps_bindK keeps_seqK keeps_authorize keeps_load_object_type keeps_effective_grants
      keeps_query keeps_retK)

lemma keeps_get_relations: "tenant_id ctx = t \<Longrightarrow> keeps R (get_relations k ctx rid)"
  unfolding get_relations_def
  by (intro keeps_bindK keeps_require_record keeps_seqK keeps_authorize keeps_query)

end

lemma isolated_set_record [frame_rules]:
  assumes "\<And>r. r_tenant_id (f r) = r_tenant_id r"
  shows "isolated t d (set_record t rid f d)"
  using assms by (auto simp: isolated_def set_record_def intro!: others_upd_where)

lemma insert_relation_isolated:
  "insert_relation row d = Inr (x, d') \<Longrightarrow> rl_tenant_id row = t \<Longrightarrow> isolated t d d' \<and> same_log d d'"
  by (auto simp: insert_relation_def Let_def isolated_def same_log_def split: if_splits)

lemma keeps_isolated_create_record:
  "keeps (isolated (tenant_id ctx)) (create_record k ctx nr)"
  unfolding create_record_def Let_def insert_record_def
  by (intro frame_rules | auto simp: isolated_def created_record_def)+

lemma keeps_isolated_update_record:
  "keeps (isolated (tenant_id ctx)) (update_record k ctx rid patch)"
  unfolding update_record_def Let_def
  by (intro frame_rules refl | simp)+

lemma keeps_isolated_set_lifecycle:
  "keeps (isolated (tenant_id ctx)) (set_lifecycle k ctx rid lc)"
  unfolding set_lifecycle_def
  by (intro frame_rules refl | simp)+

lemma keeps_isolated_relate:
  "keeps (isolated (tenant_id ctx)) (relate k ctx a b ty)"
  unfolding relate_def
  by (intro frame_rules refl | simp)+ (auto dest!: insert_relation_isolated)

lemma keeps_audited_create_record: "keeps audited (create_record k ctx nr)"
  unfolding create_record_def Let_def insert_record_def
  by (intro frame_rules refl keeps_audited_transaction logs_seq_second logs_seq_first
      logs_audit_change | auto simp: same_log_def)+

lemma keeps_audited_update_record: "keeps audited (update_record k ctx rid patch)"
  unfolding update_record_def Let_def
  by (intro frame_rules refl keeps_audited_transaction logs_seq_second logs_seq_first
      logs_audit_change | auto simp: same_log_def)+

lemma keeps_audited_set_lifecycle: "keeps audited (set_lifecycle k ctx rid lc)"
  unfolding set_lifecycle_def
  by (intro frame_rules refl keeps_audited_transaction logs_seq_second logs_seq_first
      logs_audit_change | auto simp: same_log_def split: lifecycle.splits)+

lemma keeps_audited_relate: "keeps audited (relate k ctx a b ty)"
  unfolding relate_def
  by (intro frame_rules refl keeps_audited_transaction logs_seq_second logs_seq_first
      logs_audit_change | auto dest!: insert_relation_isolated)+

lemma clean_errors_create_record:
  assumes "reliable k"
  shows "clean_errors (tenant_id ctx) (create_record k ctx nr)"
  unfolding create_record_def Let_def
  by (intro clean_bind clean_seq clean_seq_tail clean_transaction project_for_read_never_fails assms
      frame_rules refl)

lemma clean_errors_update_record:
  assumes "reliable k"
  shows "clean_errors (tenant_id ctx) (update_record k ctx rid patch)"
  unfolding update_record_def Let_def
  by (intro clean_bind clean_seq clean_seq_tail clean_transaction project_for_read_never_fails assms
      frame_rules refl)

end
