(* ===== verification/Tasks.thy ===== *)
theory Tasks
  imports RecordFacts
begin

text \<open>
  Tasks (\<open>kernel/src/task.rs\<close>): creating, reading, listing and closing units of work, and the
  closing of the tasks an approval created when the approval is decided.
\<close>

section \<open>Operations\<close>

definition open_task ::
  "auth_context \<Rightarrow> string \<Rightarrow> string \<Rightarrow> string \<Rightarrow> string option \<Rightarrow> string option
   \<Rightarrow> string option \<Rightarrow> json \<Rightarrow> string \<Rightarrow> task_t" where
  "open_task ctx tid kind title assignee rel_type rel_id data ts =
     \<lparr>tk_id = tid, tk_tenant_id = tenant_id ctx, tk_org_id = org_id ctx, tk_kind = kind,
      tk_title = title, tk_assignee_id = assignee, tk_status = ''open'', tk_due_at = None,
      tk_related_object_type = rel_type, tk_related_record_id = rel_id, tk_data = data,
      tk_created_by = actor_id ctx, tk_created_at = ts, tk_updated_at = ts\<rparr>"

definition insert_task ::
  "kernel \<Rightarrow> auth_context \<Rightarrow> string \<Rightarrow> string \<Rightarrow> string \<Rightarrow> string option \<Rightarrow> string option
   \<Rightarrow> string option \<Rightarrow> json \<Rightarrow> unit kern" where
  "insert_task k ctx tid kind title assignee rel_type rel_id data =
     bindK (now_rfc3339 k) (\<lambda>ts.
     stmt k (\<lambda>d. sql_insert (tid \<notin> tk_id ` set (tasks d)) (tenant_exists d (tenant_id ctx))
       (d\<lparr>tasks := tasks d @ [open_task ctx tid kind title assignee rel_type rel_id data ts]\<rparr>)))"

definition find_task :: "database \<Rightarrow> string \<Rightarrow> string \<Rightarrow> task_t option" where
  "find_task d t tid = find (\<lambda>x. tk_tenant_id x = t \<and> tk_id x = tid) (tasks d)"

definition get_task :: "kernel \<Rightarrow> auth_context \<Rightarrow> string \<Rightarrow> task_t kern" where
  "get_task k ctx tid =
     bindK (query k (\<lambda>d. find_task d (tenant_id ctx) tid)) (\<lambda>row.
     bindK (someK (not_found ''task not found'') row) (\<lambda>task.
     bindK (effective_grants k ctx) (\<lambda>grants.
     let broad = grants_allow k grants ctx Read ''task'' None
     in if \<not> broad \<and> tk_assignee_id task \<noteq> Some (actor_id ctx) \<and> tk_created_by task \<noteq> actor_id ctx
        then seqK (audit_denial k ctx ''read'' ''task'' (Some tid))
               (failK (forbidden ''not permitted to view this task''))
        else retK task)))"

definition create_task ::
  "kernel \<Rightarrow> auth_context \<Rightarrow> string \<Rightarrow> string \<Rightarrow> string option \<Rightarrow> string option \<Rightarrow> string option
   \<Rightarrow> json \<Rightarrow> task_t kern" where
  "create_task k ctx kind title assignee rel_type rel_id data =
     seqK (authorize k ctx Create ''task'' None) (
     bindK (new_id k) (\<lambda>tid.
     seqK (transaction k (
       seqK (insert_task k ctx tid kind title assignee rel_type rel_id data)
            (audit_change k ctx ''task.create'' (Some ''task'') (Some tid) None
               (Some (jobj [(''kind'', JString kind), (''title'', JString title)])) (\<lambda>ev. ev))))
     (get_task k ctx tid)))"

definition list_tasks ::
  "kernel \<Rightarrow> auth_context \<Rightarrow> bool \<Rightarrow> string option \<Rightarrow> task_t list kern" where
  "list_tasks k ctx only_mine status =
     (let with_status = (\<lambda>x. case status of Some st \<Rightarrow> tk_status x = st | None \<Rightarrow> True)
      in if only_mine then
           query k (\<lambda>d. order_desc tk_created_at
             (filter (\<lambda>x. tk_tenant_id x = tenant_id ctx \<and> tk_assignee_id x = Some (actor_id ctx) \<and>
                with_status x) (tasks d)))
         else
           seqK (authorize k ctx Read ''task'' None)
             (query k (\<lambda>d. order_desc tk_created_at
               (filter (\<lambda>x. tk_tenant_id x = tenant_id ctx \<and> with_status x) (tasks d)))))"

definition set_task :: "string \<Rightarrow> string \<Rightarrow> (task_t \<Rightarrow> task_t) \<Rightarrow> database \<Rightarrow> database" where
  "set_task t tid f d = d\<lparr>tasks := upd_where (\<lambda>x. tk_tenant_id x = t \<and> tk_id x = tid) f (tasks d)\<rparr>"

definition complete_task :: "kernel \<Rightarrow> auth_context \<Rightarrow> string \<Rightarrow> string \<Rightarrow> task_t kern" where
  "complete_task k ctx tid status =
     seqK (guardK (status \<in> {''done'', ''cancelled''})
             (validation (''status must be '' @ quoted ''done'' @ '' or '' @ quoted ''cancelled''))) (
     bindK (get_task k ctx tid) (\<lambda>task.
     seqK (guardK (tk_status task = ''open'' \<or> tk_status task = ''in_progress'')
             (failed_precondition ''task is already closed'')) (
     bindK (now_rfc3339 k) (\<lambda>ts.
     seqK (transaction k (
       seqK (update_stmt k (set_task (tenant_id ctx) tid
               (\<lambda>x. x\<lparr>tk_status := status, tk_updated_at := ts\<rparr>)))
            (audit_change k ctx ''task.update'' (Some ''task'') (Some tid)
               (Some (jobj [(''status'', JString (tk_status task))]))
               (Some (jobj [(''status'', JString status)])) (\<lambda>ev. ev))))
     (get_task k ctx tid)))))"

text \<open>
  \<open>json_extract(data_json, '$.approval_id') = ?\<close>: the entry is compared as a string. (SQLite
  gives the JSON text of an entry that is an array or an object; it is never an identifier.)
\<close>

definition task_approval :: "task_t \<Rightarrow> string option" where
  "task_approval x =
     (case tk_data x of
        JObject m \<Rightarrow> (case jget m ''approval_id'' of Some (JString a) \<Rightarrow> Some a | _ \<Rightarrow> None)
      | _ \<Rightarrow> None)"

definition close_tasks_for_approval ::
  "kernel \<Rightarrow> string \<Rightarrow> string \<Rightarrow> string \<Rightarrow> unit kern" where
  "close_tasks_for_approval k t aid status =
     bindK (now_rfc3339 k) (\<lambda>ts.
     update_stmt k (\<lambda>d. d\<lparr>tasks := upd_where
       (\<lambda>x. tk_tenant_id x = t \<and> task_approval x = Some aid)
       (\<lambda>x. x\<lparr>tk_status := status, tk_updated_at := ts\<rparr>) (tasks d)\<rparr>))"

section \<open>Facts\<close>

text \<open>Who may view a task: its assignee, its creator, and readers of the resource \<open>task\<close>.\<close>

definition may_view_task :: "kernel \<Rightarrow> database \<Rightarrow> auth_context \<Rightarrow> task_t \<Rightarrow> bool" where
  "may_view_task k d ctx x \<longleftrightarrow>
     tk_tenant_id x = tenant_id ctx \<and>
     (allowed k d ctx Read ''task'' None \<or> tk_assignee_id x = Some (actor_id ctx) \<or>
      tk_created_by x = actor_id ctx)"

lemma find_task_Some: "find_task d t tid = Some x \<Longrightarrow> x \<in> set (tasks d) \<and> tk_tenant_id x = t \<and> tk_id x = tid"
  by (auto simp: find_task_def dest: find_Some_in)

lemma get_task_Inr:
  assumes "get_task k ctx tid s = (Inr x, s')"
  shows "find_task (db s) (tenant_id ctx) tid = Some x \<and> may_view_task k (db s) ctx x \<and> db s' = db s"
  using assms
  by (auto simp: get_task_def run_inv Let_def grants_allow_iff may_view_task_def split: if_splits
      dest!: effective_grants_Inr dest: find_task_Some)

lemma set_task_simps [simp]:
  "tasks (set_task t tid f d) = upd_where (\<lambda>x. tk_tenant_id x = t \<and> tk_id x = tid) f (tasks d)"
  "roles (set_task t tid f d) = roles d"
  "audit_logs (set_task t tid f d) = audit_logs d"
  by (simp_all add: set_task_def)

lemma isolated_set_task [frame_rules]:
  "(\<And>x. tk_tenant_id (f x) = tk_tenant_id x) \<Longrightarrow> isolated t d (set_task t tid f d)"
  by (auto simp: isolated_def set_task_def intro!: others_upd_where)

lemma complete_task_Inr:
  assumes "complete_task k ctx tid status s = (Inr x, s')"
  obtains old ts ev where
    "status \<in> {''done'', ''cancelled''}"
    "find_task (db s) (tenant_id ctx) tid = Some old"
    "may_view_task k (db s) ctx old" "tk_status old \<in> {''open'', ''in_progress''}"
    "db s' = log_audit ev (set_task (tenant_id ctx) tid
        (\<lambda>x. x\<lparr>tk_status := status, tk_updated_at := ts\<rparr>) (db s))"
    "a_action ev = ''task.update''"
    "x = old\<lparr>tk_status := status, tk_updated_at := ts\<rparr>"
proof -
  from assms obtain old s1 s2 ts s3 where
    st: "status \<in> {''done'', ''cancelled''}" and
    1: "get_task k ctx tid s = (Inr old, s1)" and
    2: "tk_status old = ''open'' \<or> tk_status old = ''in_progress''" and
    3: "now_rfc3339 k s1 = (Inr ts, s2)" and
    4: "transaction k (seqK (update_stmt k (set_task (tenant_id ctx) tid
               (\<lambda>x. x\<lparr>tk_status := status, tk_updated_at := ts\<rparr>)))
            (audit_change k ctx ''task.update'' (Some ''task'') (Some tid)
               (Some (jobj [(''status'', JString (tk_status old))]))
               (Some (jobj [(''status'', JString status)])) (\<lambda>ev. ev))) s2 = (Inr (), s3)" and
    5: "get_task k ctx tid s3 = (Inr x, s')"
    unfolding complete_task_def bindK_Inr seqK_Inr guardK_Inr by auto
  have d2: "db s2 = db s" using get_task_Inr [OF 1] 3 by (auto simp: now_rfc3339_Inr)
  from 4 d2 obtain u1 u2 where
    a: "audit_change k ctx ''task.update'' (Some ''task'') (Some tid)
               (Some (jobj [(''status'', JString (tk_status old))]))
               (Some (jobj [(''status'', JString status)])) (\<lambda>ev. ev) u1 = (Inr (), u2)"
    and u: "db u1 = set_task (tenant_id ctx) tid
        (\<lambda>x. x\<lparr>tk_status := status, tk_updated_at := ts\<rparr>) (db s)" "db s3 = db u2"
    unfolding transaction_Inr seqK_Inr update_stmt_Inr by fastforce
  from audit_change_Inr [OF a] obtain ev where ev: "db u2 = log_audit ev (db u1)"
    "a_action ev = ''task.update''" by metis
  have "find_task (db s3) (tenant_id ctx) tid
      = map_option (\<lambda>x. x\<lparr>tk_status := status, tk_updated_at := ts\<rparr>) (find_task (db s) (tenant_id ctx) tid)"
    by (simp add: u ev find_task_def find_upd_where)
  with get_task_Inr [OF 1] get_task_Inr [OF 5] have "x = old\<lparr>tk_status := status, tk_updated_at := ts\<rparr>"
    by simp
  with st 2 get_task_Inr [OF 1] get_task_Inr [OF 5] u ev show thesis by (auto intro: that)
qed

context denial_frame begin

lemma keeps_get_task [frame_rules]: "tenant_id ctx = t \<Longrightarrow> keeps R (get_task k ctx tid)"
  unfolding get_task_def Let_def
  by (intro keeps_bindK keeps_query keeps_someK keeps_effective_grants keeps_if keeps_seqK
      keeps_audit_denial keeps_failK keeps_retK)

lemma keeps_list_tasks: "tenant_id ctx = t \<Longrightarrow> keeps R (list_tasks k ctx only_mine status)"
  unfolding list_tasks_def Let_def by (intro keeps_if keeps_query keeps_seqK keeps_authorize)

end

lemma keeps_isolated_insert_task [frame_rules]:
  "tenant_id ctx = t \<Longrightarrow> keeps (isolated t) (insert_task k ctx tid kind title a ty rid data)"
  unfolding insert_task_def by (intro frame_rules) (auto simp: isolated_def open_task_def)

lemma keeps_same_log_insert_task [frame_rules]:
  "keeps same_log (insert_task k ctx tid kind title a ty rid data)"
  unfolding insert_task_def by (intro frame_rules) (auto simp: same_log_def)

lemma keeps_isolated_close_tasks [frame_rules]:
  "keeps (isolated t) (close_tasks_for_approval k t aid status)"
  unfolding close_tasks_for_approval_def
  by (intro frame_rules) (auto simp: isolated_def intro!: others_upd_where)

lemma keeps_same_log_close_tasks [frame_rules]:
  "keeps same_log (close_tasks_for_approval k t aid status)"
  unfolding close_tasks_for_approval_def by (intro frame_rules) (simp add: same_log_def)

lemma keeps_isolated_create_task:
  "keeps (isolated (tenant_id ctx)) (create_task k ctx kind title a ty rid data)"
  unfolding create_task_def by (intro frame_rules refl | simp)+

lemma keeps_isolated_complete_task:
  "keeps (isolated (tenant_id ctx)) (complete_task k ctx tid status)"
  unfolding complete_task_def by (intro frame_rules refl | simp)+

lemma keeps_audited_create_task: "keeps audited (create_task k ctx kind title a ty rid data)"
  unfolding create_task_def
  by (intro frame_rules refl keeps_audited_transaction logs_seq_second logs_audit_change | simp)+

lemma keeps_audited_complete_task: "keeps audited (complete_task k ctx tid status)"
  unfolding complete_task_def
  by (intro frame_rules refl keeps_audited_transaction logs_seq_second logs_audit_change
      | simp add: same_log_def)+

end
