(* ===== verification/Approvals.thy ===== *)
theory Approvals
  imports Tasks
begin

text \<open>
  Approvals (\<open>kernel/src/approval.rs\<close>): the pending request a gated transition records, its
  reading, and the decision, which applies the transition or rejects it, logs it with the
  approval's id, and closes the tasks of the request, all in one transaction.
\<close>

section \<open>Operations\<close>

definition pending_approval ::
  "auth_context \<Rightarrow> string \<Rightarrow> string option \<Rightarrow> string option \<Rightarrow> string option \<Rightarrow> string option
   \<Rightarrow> string option \<Rightarrow> rat option \<Rightarrow> json \<Rightarrow> string \<Rightarrow> approval_t" where
  "pending_approval ctx aid policy rel_type rel_id tkey target_state risk data ts =
     \<lparr>ap_id = aid, ap_tenant_id = tenant_id ctx, ap_org_id = org_id ctx,
      ap_status = ''pending'', ap_policy = policy, ap_requested_by = actor_id ctx,
      ap_decided_by = None, ap_decision_reason = None, ap_related_object_type = rel_type,
      ap_related_record_id = rel_id, ap_transition_key = tkey,
      ap_target_state = target_state, ap_risk_score = risk, ap_data = data,
      ap_created_at = ts, ap_decided_at = None\<rparr>"

definition insert_approval ::
  "kernel \<Rightarrow> auth_context \<Rightarrow> string \<Rightarrow> string option \<Rightarrow> string option \<Rightarrow> string option
   \<Rightarrow> string option \<Rightarrow> string option \<Rightarrow> rat option \<Rightarrow> json \<Rightarrow> unit kern" where
  "insert_approval k ctx aid policy rel_type rel_id tkey target_state risk data =
     bindK (now_rfc3339 k) (\<lambda>ts.
     stmt k (\<lambda>d. sql_insert (aid \<notin> ap_id ` set (approvals d)) (tenant_exists d (tenant_id ctx))
       (d\<lparr>approvals := approvals d @
            [pending_approval ctx aid policy rel_type rel_id tkey target_state risk data ts]\<rparr>)))"

definition find_approval :: "database \<Rightarrow> string \<Rightarrow> string \<Rightarrow> approval_t option" where
  "find_approval d t aid = find (\<lambda>a. ap_tenant_id a = t \<and> ap_id a = aid) (approvals d)"

definition load_approval :: "kernel \<Rightarrow> string \<Rightarrow> string \<Rightarrow> approval_t option kern" where
  "load_approval k t aid = query k (\<lambda>d. find_approval d t aid)"

definition get_approval :: "kernel \<Rightarrow> auth_context \<Rightarrow> string \<Rightarrow> approval_t kern" where
  "get_approval k ctx aid =
     seqK (authorize k ctx Read ''approval'' None)
       (bindK (query k (\<lambda>d. find_approval d (tenant_id ctx) aid))
          (someK (not_found ''approval not found'')))"

definition list_pending_approvals :: "kernel \<Rightarrow> auth_context \<Rightarrow> approval_t list kern" where
  "list_pending_approvals k ctx =
     seqK (authorize k ctx Read ''approval'' None)
       (query k (\<lambda>d. order_desc ap_created_at
          (filter (\<lambda>a. ap_tenant_id a = tenant_id ctx \<and> ap_status a = ''pending'') (approvals d))))"

definition set_approval :: "string \<Rightarrow> string \<Rightarrow> (approval_t \<Rightarrow> approval_t) \<Rightarrow> database \<Rightarrow> database" where
  "set_approval t aid f d =
     d\<lparr>approvals := upd_where (\<lambda>a. ap_tenant_id a = t \<and> ap_id a = aid) f (approvals d)\<rparr>"

text \<open>The event of a decision carries the approval's id and the reason.\<close>

definition decided_event :: "string \<Rightarrow> string option \<Rightarrow> audit_event \<Rightarrow> audit_event" where
  "decided_event aid reason ev = ev\<lparr>a_approval_id := Some aid, a_reason := reason\<rparr>"

text \<open>The branch \<open>if approved\<close>: the record moves to the state the request asked for.\<close>

definition apply_approval ::
  "kernel \<Rightarrow> auth_context \<Rightarrow> approval_t \<Rightarrow> string \<Rightarrow> record_t option \<Rightarrow> string \<Rightarrow> string option
   \<Rightarrow> unit kern" where
  "apply_approval k ctx ap ty target ts reason =
     (case (ap_related_record_id ap, ap_target_state ap) of
        (Some rid, Some target_state) \<Rightarrow>
          (let before_state = (case target of Some r \<Rightarrow> r_workflow_state r | None \<Rightarrow> None) in
           seqK (update_stmt k (set_record (tenant_id ctx) rid
                   (\<lambda>row. row\<lparr>r_workflow_state := Some target_state, r_updated_at := ts\<rparr>))) (
           seqK (audit_change k ctx ''workflow.transition'' (Some ty) (Some rid)
                   (Some (jobj [(''workflow_state'', jopt before_state)]))
                   (Some (jobj [(''workflow_state'', JString target_state)]))
                   (decided_event (ap_id ap) reason))
                (emit_on k ctx ''workflow.transitioned''
                   (jobj [(''object_type'', JString ty), (''id'', JString rid),
                          (''to'', JString target_state),
                          (''via_approval'', JString (ap_id ap))]))))
      | _ \<Rightarrow> retK ())"

definition decision_status :: "bool \<Rightarrow> string" where
  "decision_status approved = (if approved then ''approved'' else ''rejected'')"

text \<open>What the decision stores in the approval: its columns, and the value the caller gets back.\<close>

definition decided ::
  "auth_context \<Rightarrow> bool \<Rightarrow> string option \<Rightarrow> string \<Rightarrow> approval_t \<Rightarrow> approval_t" where
  "decided ctx approved reason ts a =
     a\<lparr>ap_status := decision_status approved, ap_decided_by := Some (actor_id ctx),
       ap_decision_reason := reason, ap_decided_at := Some ts\<rparr>"

text \<open>The body of the transaction.\<close>

definition record_decision ::
  "kernel \<Rightarrow> auth_context \<Rightarrow> approval_t \<Rightarrow> string \<Rightarrow> record_t option \<Rightarrow> string \<Rightarrow> bool
   \<Rightarrow> string option \<Rightarrow> unit kern" where
  "record_decision k ctx ap ty target ts approved reason =
     seqK (if approved then apply_approval k ctx ap ty target ts reason
           else audit_change k ctx ''approval.reject'' (Some ty) (ap_related_record_id ap)
                  None None (decided_event (ap_id ap) reason)) (
     seqK (update_stmt k (set_approval (tenant_id ctx) (ap_id ap) (decided ctx approved reason ts)))
          (close_tasks_for_approval k (tenant_id ctx) (ap_id ap)
             (if approved then ''done'' else ''cancelled'')))"

definition decide_approval ::
  "kernel \<Rightarrow> auth_context \<Rightarrow> string \<Rightarrow> bool \<Rightarrow> string option \<Rightarrow> approval_t kern" where
  "decide_approval k ctx aid approved reason =
     bindK (load_approval k (tenant_id ctx) aid) (\<lambda>found.
     bindK (someK (not_found ''approval not found'') found) (\<lambda>ap.
     seqK (guardK (ap_status ap = ''pending'') (failed_precondition ''approval already decided'')) (
     if enable_approval_separation_of_duties (flags k) \<and> ap_requested_by ap = actor_id ctx \<and>
        \<not> is_system ctx \<and> \<not> is_platform_admin ctx
     then seqK (audit_denial k ctx ''approve'' ''approval'' (Some aid))
            (failK (forbidden ''the requester cannot decide their own approval''))
     else
       let ty = (case ap_related_object_type ap of Some x \<Rightarrow> x | None \<Rightarrow> []) in
       bindK (case ap_related_record_id ap of
                Some rid \<Rightarrow> load_record k (tenant_id ctx) rid
              | None \<Rightarrow> retK None) (\<lambda>target.
       seqK (authorize k ctx Approve (resource_for ty) target) (
       bindK (now_rfc3339 k) (\<lambda>ts.
       seqK (transaction k (
         record_decision k ctx ap ty target ts approved reason))
       (retK (decided ctx approved reason ts ap))))))))"

section \<open>Facts\<close>

lemma find_approval_Some:
  "find_approval d t aid = Some a \<Longrightarrow> a \<in> set (approvals d) \<and> ap_tenant_id a = t \<and> ap_id a = aid"
  by (auto simp: find_approval_def dest: find_Some_in)

lemma decided_event_simps [simp]:
  "a_action (decided_event aid reason ev) = a_action ev"
  "a_tenant_id (decided_event aid reason ev) = a_tenant_id ev"
  "a_approval_id (decided_event aid reason ev) = Some aid"
  "a_reason (decided_event aid reason ev) = reason"
  by (simp_all add: decided_event_def)

lemma set_approval_simps [simp]:
  "approvals (set_approval t aid f d) =
     upd_where (\<lambda>a. ap_tenant_id a = t \<and> ap_id a = aid) f (approvals d)"
  "records (set_approval t aid f d) = records d"
  "tasks (set_approval t aid f d) = tasks d"
  "audit_logs (set_approval t aid f d) = audit_logs d"
  by (simp_all add: set_approval_def)

lemma set_record_approvals [simp]: "approvals (set_record t rid f d) = approvals d"
  by (simp add: set_record_def)

text \<open>The move an approved request makes: the record's state in the records table.\<close>

definition approved_move :: "string \<Rightarrow> approval_t \<Rightarrow> string \<Rightarrow> record_t list \<Rightarrow> record_t list" where
  "approved_move t ap ts rs =
     (case (ap_related_record_id ap, ap_target_state ap) of
        (Some rid, Some q) \<Rightarrow>
          upd_where (\<lambda>r. r_tenant_id r = t \<and> r_id r = rid)
            (\<lambda>r. r\<lparr>r_workflow_state := Some q, r_updated_at := ts\<rparr>) rs
      | _ \<Rightarrow> rs)"

lemma apply_approval_Inr:
  assumes "apply_approval k ctx ap ty target ts reason s = (Inr x, s')"
  shows "records (db s') = approved_move (tenant_id ctx) ap ts (records (db s)) \<and>
    approvals (db s') = approvals (db s)"
proof (cases "ap_related_record_id ap")
  case None
  with assms show ?thesis by (auto simp: apply_approval_def approved_move_def)
next
  case (Some rid)
  note rid = this
  show ?thesis
  proof (cases "ap_target_state ap")
    case None
    with assms rid show ?thesis by (auto simp: apply_approval_def approved_move_def)
  next
    case (Some q)
    with assms rid obtain s1 s2 y where
      0: "update_stmt k (set_record (tenant_id ctx) rid
            (\<lambda>row. row\<lparr>r_workflow_state := Some q, r_updated_at := ts\<rparr>)) s = (Inr y, s1)" and
      2: "audit_change k ctx ''workflow.transition'' (Some ty) (Some rid)
           (Some (jobj [(''workflow_state'', jopt (case target of Some r \<Rightarrow> r_workflow_state r | None \<Rightarrow> None))]))
           (Some (jobj [(''workflow_state'', JString q)])) (decided_event (ap_id ap) reason) s1 = (Inr (), s2)" and
      3: "emit_on k ctx ''workflow.transitioned''
           (jobj [(''object_type'', JString ty), (''id'', JString rid), (''to'', JString q),
                  (''via_approval'', JString (ap_id ap))]) s2 = (Inr x, s')"
      by (auto simp: apply_approval_def seqK_Inr Let_def)
    have 1: "db s1 = set_record (tenant_id ctx) rid
            (\<lambda>row. row\<lparr>r_workflow_state := Some q, r_updated_at := ts\<rparr>) (db s)"
      using 0 by (auto simp: update_stmt_Inr)
    show ?thesis
      by (rule audit_change_Inr [OF 2], rule emit_on_tables [OF 3])
        (simp add: 1 rid Some approved_move_def)
  qed
qed

lemma close_tasks_Inr:
  assumes "close_tasks_for_approval k t aid status s = (Inr x, s')"
  obtains ts where "db s' = (db s)\<lparr>tasks := upd_where (\<lambda>x. tk_tenant_id x = t \<and> task_approval x = Some aid)
       (\<lambda>x. x\<lparr>tk_status := status, tk_updated_at := ts\<rparr>) (tasks (db s))\<rparr>"
proof -
  from assms obtain ts s1 where 1: "now_rfc3339 k s = (Inr ts, s1)" and
    2: "update_stmt k (\<lambda>d. d\<lparr>tasks := upd_where
       (\<lambda>x. tk_tenant_id x = t \<and> task_approval x = Some aid)
       (\<lambda>x. x\<lparr>tk_status := status, tk_updated_at := ts\<rparr>) (tasks d)\<rparr>) s1 = (Inr x, s')"
    unfolding close_tasks_for_approval_def bindK_Inr by blast
  from 1 have "db s1 = db s" by (simp add: now_rfc3339_Inr)
  with 2 have "db s' = (db s)\<lparr>tasks := upd_where (\<lambda>x. tk_tenant_id x = t \<and> task_approval x = Some aid)
       (\<lambda>x. x\<lparr>tk_status := status, tk_updated_at := ts\<rparr>) (tasks (db s))\<rparr>"
    unfolding update_stmt_Inr by simp
  then show thesis by (rule that)
qed

lemma decided_simps [simp]:
  "ap_id (decided ctx approved reason ts a) = ap_id a"
  "ap_tenant_id (decided ctx approved reason ts a) = ap_tenant_id a"
  "ap_status (decided ctx approved reason ts a) = decision_status approved"
  "ap_decided_by (decided ctx approved reason ts a) = Some (actor_id ctx)"
  "ap_related_record_id (decided ctx approved reason ts a) = ap_related_record_id a"
  "ap_target_state (decided ctx approved reason ts a) = ap_target_state a"
  by (simp_all add: decided_def)

lemma decision_status_not_pending [simp]: "decision_status approved \<noteq> ''pending''"
  by (simp add: decision_status_def)

lemma record_decision_Inr:
  assumes "record_decision k ctx ap ty target ts approved reason s = (Inr x, s')"
  shows "approvals (db s') = upd_where (\<lambda>a. ap_tenant_id a = tenant_id ctx \<and> ap_id a = ap_id ap)
      (decided ctx approved reason ts) (approvals (db s)) \<and>
    records (db s') = (if approved then approved_move (tenant_id ctx) ap ts (records (db s))
      else records (db s))"
proof -
  from assms obtain y s1 z s2 where
    a: "(if approved then apply_approval k ctx ap ty target ts reason
         else audit_change k ctx ''approval.reject'' (Some ty) (ap_related_record_id ap)
                None None (decided_event (ap_id ap) reason)) s = (Inr y, s1)" and
    u: "update_stmt k (set_approval (tenant_id ctx) (ap_id ap) (decided ctx approved reason ts)) s1
          = (Inr z, s2)" and
    c: "close_tasks_for_approval k (tenant_id ctx) (ap_id ap)
          (if approved then ''done'' else ''cancelled'') s2 = (Inr x, s')"
    unfolding record_decision_def seqK_Inr by blast
  have 1: "records (db s1) = (if approved then approved_move (tenant_id ctx) ap ts (records (db s))
      else records (db s)) \<and> approvals (db s1) = approvals (db s)"
  proof (cases approved)
    case True
    with a apply_approval_Inr show ?thesis by simp
  next
    case False
    with a have "audit_change k ctx ''approval.reject'' (Some ty) (ap_related_record_id ap)
                   None None (decided_event (ap_id ap) reason) s = (Inr y, s1)" by simp
    then show ?thesis by (rule audit_change_Inr) (simp add: False)
  qed
  have 2: "db s2 = set_approval (tenant_id ctx) (ap_id ap) (decided ctx approved reason ts) (db s1)"
    using u by (simp add: update_stmt_Inr)
  have 3: "records (db s') = records (db s2)" "approvals (db s') = approvals (db s2)"
    using c by (rule close_tasks_Inr, simp)+
  from 1 2 3 show ?thesis by simp
qed

text \<open>The record an approval is about, and the resource the decision is authorized on.\<close>

definition approval_target :: "database \<Rightarrow> string \<Rightarrow> approval_t \<Rightarrow> record_t option" where
  "approval_target d t ap = Option.bind (ap_related_record_id ap) (find_record d t)"

definition approval_resource :: "approval_t \<Rightarrow> string" where
  "approval_resource ap =
     resource_for (case ap_related_object_type ap of Some ty \<Rightarrow> ty | None \<Rightarrow> [])"

lemma decide_approval_Inr:
  assumes "decide_approval k ctx aid approved reason s = (Inr ap', s')"
  obtains ap ts where
    "find_approval (db s) (tenant_id ctx) aid = Some ap" "ap_status ap = ''pending''"
    "enable_approval_separation_of_duties (flags k) \<Longrightarrow> trusted ctx \<or> ap_requested_by ap \<noteq> actor_id ctx"
    "allowed k (db s) ctx Approve (approval_resource ap) (approval_target (db s) (tenant_id ctx) ap)"
    "ap' = decided ctx approved reason ts ap"
    "approvals (db s') = upd_where (\<lambda>a. ap_tenant_id a = tenant_id ctx \<and> ap_id a = aid)
       (decided ctx approved reason ts) (approvals (db s))"
    "records (db s') = (if approved then approved_move (tenant_id ctx) ap ts (records (db s)) else records (db s))"
proof -
  from assms obtain ap s1 where
    1: "load_approval k (tenant_id ctx) aid s = (Inr (Some ap), s1)" and
    2: "ap_status ap = ''pending''" and
    rest: "(if enable_approval_separation_of_duties (flags k) \<and> ap_requested_by ap = actor_id ctx \<and>
        \<not> is_system ctx \<and> \<not> is_platform_admin ctx
      then seqK (audit_denial k ctx ''approve'' ''approval'' (Some aid))
            (failK (forbidden ''the requester cannot decide their own approval''))
      else
       let ty = (case ap_related_object_type ap of Some x \<Rightarrow> x | None \<Rightarrow> []) in
       bindK (case ap_related_record_id ap of
                Some rid \<Rightarrow> load_record k (tenant_id ctx) rid
              | None \<Rightarrow> retK None) (\<lambda>target.
       seqK (authorize k ctx Approve (resource_for ty) target) (
       bindK (now_rfc3339 k) (\<lambda>ts.
       seqK (transaction k (record_decision k ctx ap ty target ts approved reason))
            (retK (decided ctx approved reason ts ap)))))) s1 = (Inr ap', s')"
    unfolding decide_approval_def bindK_Inr [of "load_approval k (tenant_id ctx) aid"]
    by (simp only: bindK_Inr [of "someK e o'" for e o'] seqK_Inr [of "guardK b e" for b e]
        someK_Inr guardK_Inr) blast
  have sod: "\<not> (enable_approval_separation_of_duties (flags k) \<and> ap_requested_by ap = actor_id ctx \<and>
        \<not> is_system ctx \<and> \<not> is_platform_admin ctx)"
    using rest by (auto simp: seqK_Inr split: if_splits)
  let ?ty = "case ap_related_object_type ap of Some x \<Rightarrow> x | None \<Rightarrow> []"
  from rest obtain target s2 s3 ts s4 x y where
    3: "(case ap_related_record_id ap of Some rid \<Rightarrow> load_record k (tenant_id ctx) rid
         | None \<Rightarrow> retK None) s1 = (Inr target, s2)" and
    4: "authorize k ctx Approve (resource_for ?ty) target s2 = (Inr x, s3)" and
    5: "now_rfc3339 k s3 = (Inr ts, s4)" and
    6: "transaction k (record_decision k ctx ap ?ty target ts approved reason) s4 = (Inr y, s')" and
    7: "ap' = decided ctx approved reason ts ap"
    unfolding if_not_P [OF sod] Let_def bindK_Inr seqK_Inr retK_Inr by blast
  have d: "db s1 = db s" "db s2 = db s" "db s4 = db s"
    and target: "target = approval_target (db s) (tenant_id ctx) ap"
    and ap: "find_approval (db s) (tenant_id ctx) aid = Some ap"
    using 1 3 5 authorize_Inr [OF 4]
    by (auto simp: load_approval_def load_record_def query_Inr now_rfc3339_Inr approval_target_def
        split: option.splits)
  from 6 d(3) obtain u u' where 8: "record_decision k ctx ap ?ty target ts approved reason u = (Inr y, u')"
    "db u = db s" "db s' = db u'"
    unfolding transaction_Inr by fastforce
  have sep: "trusted ctx \<or> ap_requested_by ap \<noteq> actor_id ctx"
    if "enable_approval_separation_of_duties (flags k)"
    using sod that by blast
  have al: "allowed k (db s) ctx Approve (approval_resource ap) (approval_target (db s) (tenant_id ctx) ap)"
    using authorize_Inr [OF 4] d target by (simp add: approval_resource_def)
  have eff: "approvals (db s') = upd_where (\<lambda>a. ap_tenant_id a = tenant_id ctx \<and> ap_id a = aid)
       (decided ctx approved reason ts) (approvals (db s))"
    "records (db s') = (if approved then approved_move (tenant_id ctx) ap ts (records (db s)) else records (db s))"
    using record_decision_Inr [OF 8(1)] 8(2,3) find_approval_Some [OF ap] by simp_all
  show thesis by (rule that [OF ap 2 sep al 7 eff])
qed

section \<open>Frames\<close>

context denial_frame begin

lemma keeps_load_approval [frame_rules]: "keeps R (load_approval k t' aid)"
  unfolding load_approval_def by (rule keeps_query)

lemma keeps_load_record [frame_rules]: "keeps R (load_record k t' rid)"
  unfolding load_record_def by (rule keeps_query)

end

lemma isolated_set_approval [frame_rules]:
  "(\<And>x. ap_tenant_id (f x) = ap_tenant_id x) \<Longrightarrow> isolated t d (set_approval t aid f d)"
  by (auto simp: isolated_def set_approval_def intro!: others_upd_where)

lemma keeps_isolated_insert_approval [frame_rules]:
  "tenant_id ctx = t \<Longrightarrow> keeps (isolated t) (insert_approval k ctx aid pol ty rid tk st risk data)"
  unfolding insert_approval_def by (intro frame_rules) (auto simp: isolated_def pending_approval_def)

lemma keeps_same_log_insert_approval [frame_rules]:
  "keeps same_log (insert_approval k ctx aid pol ty rid tk st risk data)"
  unfolding insert_approval_def by (intro frame_rules) (auto simp: same_log_def)

lemma keeps_isolated_apply_approval [frame_rules]:
  "tenant_id ctx = t \<Longrightarrow> keeps (isolated t) (apply_approval k ctx ap ty target ts reason)"
  unfolding apply_approval_def Let_def by (intro frame_rules refl | simp)+

lemma keeps_isolated_record_decision [frame_rules]:
  "keeps (isolated (tenant_id ctx)) (record_decision k ctx ap ty target ts approved reason)"
  unfolding record_decision_def by (intro frame_rules refl decided_event_simps decided_simps)

lemma keeps_isolated_decide_approval:
  "keeps (isolated (tenant_id ctx)) (decide_approval k ctx aid approved reason)"
  unfolding decide_approval_def Let_def
  by (intro frame_rules refl | simp)+

lemma clean_errors_decide_approval:
  "clean_errors (tenant_id ctx) (decide_approval k ctx aid approved reason)"
  unfolding decide_approval_def Let_def
  by (intro clean_bind clean_seq clean_seq_tail clean_if clean_transaction never_fails_retK
      clean_failK frame_rules refl)

end
