(* ===== verification/Transitions.thy ===== *)
theory Transitions
  imports Approvals
begin

text \<open>
  The workflow engine (\<open>kernel/src/transition.rs\<close>): which transitions a record offers, and the
  execution of one. A gated transition records a pending approval and a task instead of moving
  the record; deciding the approval (theory \<open>Approvals\<close>) applies it.
\<close>

section \<open>Operations\<close>

record transition_result =
  tr_status :: string
  tr_record_id :: string
  tr_from :: string
  tr_to :: string
  tr_approval_id :: "string option"

text \<open>\<open>record.workflow_state.unwrap_or_else(|| wf.initial_state.clone())\<close>.\<close>

definition current_state :: "workflow_def \<Rightarrow> record_t \<Rightarrow> string" where
  "current_state w r =
     (case r_workflow_state r of Some q \<Rightarrow> q | None \<Rightarrow> wf_initial_state w)"

definition available_transitions ::
  "kernel \<Rightarrow> auth_context \<Rightarrow> string \<Rightarrow> transition_t list kern" where
  "available_transitions k ctx rid =
     bindK (require_record k ctx rid ''record not found'') (\<lambda>r.
     seqK (authorize k ctx Read (resource_for (r_object_type r)) (Some r)) (
     bindK (load_object_type k (tenant_id ctx) (r_object_type r)) (\<lambda>ot.
     case ot_workflow_key ot of
       None \<Rightarrow> retK []
     | Some wkey \<Rightarrow>
         bindK (load_workflow k (tenant_id ctx) wkey) (\<lambda>found.
         case found of
           None \<Rightarrow> retK []
         | Some w \<Rightarrow> retK (available_from w (current_state w r))))))"

text \<open>Both branches decorate their audit event with the reason, the gated one with the approval.\<close>

definition with_reason :: "string option \<Rightarrow> audit_event \<Rightarrow> audit_event" where
  "with_reason reason ev = ev\<lparr>a_reason := reason\<rparr>"

definition request_transition ::
  "kernel \<Rightarrow> auth_context \<Rightarrow> string \<Rightarrow> string \<Rightarrow> string \<Rightarrow> string \<Rightarrow> transition_t \<Rightarrow> string option
   \<Rightarrow> string kern" where
  "request_transition k ctx rid ty current tkey tr reason =
     bindK (new_id k) (\<lambda>aid.
     bindK (new_id k) (\<lambda>tid.
     seqK (insert_approval k ctx aid (t_approval_policy tr) (Some ty) (Some rid) (Some tkey)
             (Some (t_to tr)) None
             (jobj [(''from'', JString current), (''to'', JString (t_to tr))])) (
     seqK (insert_task k ctx tid ''approval'' (''Approve: '' @ t_label tr) None (Some ty) (Some rid)
             (jobj [(''approval_id'', JString aid), (''transition'', JString tkey)])) (
     seqK (audit_change k ctx ''workflow.transition.requested'' (Some ty) (Some rid)
             (Some (jobj [(''state'', JString current)]))
             (Some (jobj [(''requested_state'', JString (t_to tr))]))
             (decided_event aid reason)) (
     seqK (emit_on k ctx ''approval.requested''
             (jobj [(''object_type'', JString ty), (''id'', JString rid),
                    (''approval_id'', JString aid)]))
     (retK aid))))))"

definition apply_transition ::
  "kernel \<Rightarrow> auth_context \<Rightarrow> string \<Rightarrow> string \<Rightarrow> string \<Rightarrow> transition_t \<Rightarrow> string \<Rightarrow> string option
   \<Rightarrow> unit kern" where
  "apply_transition k ctx rid ty current tr ts reason =
     seqK (update_stmt k (set_record (tenant_id ctx) rid
             (\<lambda>row. row\<lparr>r_workflow_state := Some (t_to tr), r_updated_at := ts\<rparr>))) (
     seqK (audit_change k ctx ''workflow.transition'' (Some ty) (Some rid)
             (Some (jobj [(''workflow_state'', JString current)]))
             (Some (jobj [(''workflow_state'', JString (t_to tr))])) (with_reason reason))
          (emit_on k ctx ''workflow.transitioned''
             (jobj [(''object_type'', JString ty), (''id'', JString rid),
                    (''to'', JString (t_to tr))])))"

definition transition_record ::
  "kernel \<Rightarrow> auth_context \<Rightarrow> string \<Rightarrow> string \<Rightarrow> string option \<Rightarrow> transition_result kern" where
  "transition_record k ctx rid tkey reason =
     bindK (require_record k ctx rid ''record not found'') (\<lambda>r.
     bindK (load_object_type k (tenant_id ctx) (r_object_type r)) (\<lambda>ot.
     bindK (someK (failed_precondition ''object type has no workflow'') (ot_workflow_key ot)) (\<lambda>wkey.
     bindK (load_workflow k (tenant_id ctx) wkey) (\<lambda>found.
     bindK (someK (failed_precondition ''workflow not found'') found) (\<lambda>w.
     let current = current_state w r in
     bindK (someK (failed_precondition (''transition '' @ quoted tkey @
              '' is not valid from state '' @ quoted current))
             (transition_from w current tkey)) (\<lambda>tr.
     seqK (authorize k ctx Transition
             (case t_guard_permission tr of
                Some g \<Rightarrow> g | None \<Rightarrow> resource_for (r_object_type r)) (Some r)) (
     bindK (now_rfc3339 k) (\<lambda>ts.
     if t_requires_approval tr then
       bindK (transaction k
         (request_transition k ctx rid (r_object_type r) current tkey tr reason)) (\<lambda>aid.
       retK \<lparr>tr_status = ''pending_approval'', tr_record_id = rid, tr_from = current,
             tr_to = t_to tr, tr_approval_id = Some aid\<rparr>)
     else
       seqK (transaction k (apply_transition k ctx rid (r_object_type r) current tr ts reason))
       (retK \<lparr>tr_status = ''transitioned'', tr_record_id = rid, tr_from = current,
             tr_to = t_to tr, tr_approval_id = None\<rparr>)))))))))"

section \<open>What a transition does\<close>

lemma with_reason_simps [simp]:
  "a_action (with_reason r ev) = a_action ev" "a_tenant_id (with_reason r ev) = a_tenant_id ev"
  by (simp_all add: with_reason_def)

text \<open>
  The workflow that governs a record: the one its object type names, in the record's tenant.
\<close>

definition governing_workflow :: "database \<Rightarrow> string \<Rightarrow> record_t \<Rightarrow> workflow_def option" where
  "governing_workflow d t r =
     Option.bind (find_object_type d t (r_object_type r))
       (\<lambda>ot. Option.bind (ot_workflow_key ot) (find_workflow d t))"

lemma apply_transition_Inr:
  assumes "apply_transition k ctx rid ty current tr ts reason s = (Inr x, s')"
  shows "records (db s') = upd_where (\<lambda>r. r_tenant_id r = tenant_id ctx \<and> r_id r = rid)
      (\<lambda>row. row\<lparr>r_workflow_state := Some (t_to tr), r_updated_at := ts\<rparr>) (records (db s)) \<and>
    approvals (db s') = approvals (db s)"
proof -
  from assms obtain y s1 z s2 where
    u: "update_stmt k (set_record (tenant_id ctx) rid
          (\<lambda>row. row\<lparr>r_workflow_state := Some (t_to tr), r_updated_at := ts\<rparr>)) s = (Inr y, s1)" and
    a: "audit_change k ctx ''workflow.transition'' (Some ty) (Some rid)
          (Some (jobj [(''workflow_state'', JString current)]))
          (Some (jobj [(''workflow_state'', JString (t_to tr))])) (with_reason reason) s1
        = (Inr z, s2)" and
    e: "emit_on k ctx ''workflow.transitioned''
          (jobj [(''object_type'', JString ty), (''id'', JString rid), (''to'', JString (t_to tr))])
          s2 = (Inr x, s')"
    unfolding apply_transition_def seqK_Inr by blast
  have 1: "db s1 = set_record (tenant_id ctx) rid
      (\<lambda>row. row\<lparr>r_workflow_state := Some (t_to tr), r_updated_at := ts\<rparr>) (db s)"
    using u by (simp add: update_stmt_Inr)
  show ?thesis
    by (rule audit_change_Inr [OF a], rule emit_on_tables [OF e]) (simp add: 1)
qed

text \<open>The pending request a gated transition leaves.\<close>

definition pending_request ::
  "auth_context \<Rightarrow> string \<Rightarrow> string \<Rightarrow> string \<Rightarrow> transition_t \<Rightarrow> approval_t \<Rightarrow> bool" where
  "pending_request ctx rid ty aid tr ap \<longleftrightarrow>
     ap_id ap = aid \<and> ap_tenant_id ap = tenant_id ctx \<and> ap_status ap = ''pending'' \<and>
     ap_requested_by ap = actor_id ctx \<and> ap_related_object_type ap = Some ty \<and>
     ap_related_record_id ap = Some rid \<and> ap_transition_key ap = Some (t_key tr) \<and>
     ap_target_state ap = Some (t_to tr) \<and> ap_decided_by ap = None"

lemma insert_approval_Inr: "insert_approval k ctx aid pol ty rid tk st risk data s = (Inr x, s') \<Longrightarrow>
    aid \<notin> ap_id ` set (approvals (db s)) \<and>
    (\<exists>ts. db s' = (db s)\<lparr>approvals := approvals (db s) @
              [pending_approval ctx aid pol ty rid tk st risk data ts]\<rparr>)"
  by (auto simp: insert_approval_def bindK_Inr now_rfc3339_Inr stmt_Inr)

lemma insert_task_Inr: "insert_task k ctx tid kind title a ty rid data s = (Inr x, s') \<Longrightarrow>
    \<exists>ts. db s' = (db s)\<lparr>tasks := tasks (db s) @ [open_task ctx tid kind title a ty rid data ts]\<rparr>"
  by (auto simp: insert_task_def bindK_Inr now_rfc3339_Inr stmt_Inr)

lemma request_transition_Inr:
  assumes "request_transition k ctx rid ty current tkey tr reason s = (Inr aid, s')"
    "t_key tr = tkey"
  obtains ap tk where "pending_request ctx rid ty aid tr ap"
    "approvals (db s') = approvals (db s) @ [ap]" "aid \<notin> ap_id ` set (approvals (db s))"
    "tasks (db s') = tasks (db s) @ [tk]" "task_approval tk = Some aid" "tk_status tk = ''open''"
    "tk_tenant_id tk = tenant_id ctx"
    "records (db s') = records (db s)"
proof -
  from assms(1) obtain a s1 tid s2 x s3 y s4 z s5 v s6 where
    0: "new_id k s = (Inr a, s1)" "new_id k s1 = (Inr tid, s2)" and
    1: "insert_approval k ctx a (t_approval_policy tr) (Some ty) (Some rid) (Some tkey)
          (Some (t_to tr)) None
          (jobj [(''from'', JString current), (''to'', JString (t_to tr))]) s2 = (Inr x, s3)" and
    2: "insert_task k ctx tid ''approval'' (''Approve: '' @ t_label tr) None (Some ty) (Some rid)
          (jobj [(''approval_id'', JString a), (''transition'', JString tkey)]) s3 = (Inr y, s4)" and
    3: "audit_change k ctx ''workflow.transition.requested'' (Some ty) (Some rid)
          (Some (jobj [(''state'', JString current)]))
          (Some (jobj [(''requested_state'', JString (t_to tr))])) (decided_event a reason) s4
        = (Inr z, s5)" and
    4: "emit_on k ctx ''approval.requested''
          (jobj [(''object_type'', JString ty), (''id'', JString rid), (''approval_id'', JString a)])
          s5 = (Inr v, s6)" and
    5: "retK a s6 = (Inr aid, s')"
    unfolding request_transition_def bindK_Inr seqK_Inr by blast
  have d: "db s2 = db s" and eq: "a = aid" "s6 = s'" using 0 5 by (auto simp: new_id_Inr)
  from insert_approval_Inr [OF 1] obtain ts where ap:
    "db s3 = (db s)\<lparr>approvals := approvals (db s) @
       [pending_approval ctx aid (t_approval_policy tr) (Some ty) (Some rid) (Some tkey) (Some (t_to tr)) None
          (jobj [(''from'', JString current), (''to'', JString (t_to tr))]) ts]\<rparr>"
    (is "_ = _\<lparr>approvals := _ @ [?ap]\<rparr>")
    and fresh: "aid \<notin> ap_id ` set (approvals (db s))"
    using d eq by auto
  from insert_task_Inr [OF 2] obtain ts' where tk: "db s4 = (db s3)\<lparr>tasks := tasks (db s3) @
      [open_task ctx tid ''approval'' (''Approve: '' @ t_label tr) None (Some ty) (Some rid)
         (jobj [(''approval_id'', JString aid), (''transition'', JString tkey)]) ts']\<rparr>"
    (is "_ = _\<lparr>tasks := _ @ [?tk]\<rparr>")
    using eq by auto
  have pr: "pending_request ctx rid ty aid tr ?ap"
    using assms(2) by (simp add: pending_request_def pending_approval_def)
  have ta: "task_approval ?tk = Some aid" "tk_status ?tk = ''open''" "tk_tenant_id ?tk = tenant_id ctx"
    by (simp_all add: task_approval_def open_task_def jobj_def jget_def)
  show thesis
    by (rule audit_change_Inr [OF 3], rule emit_on_tables [OF 4], rule that [OF pr _ fresh _ ta])
      (use ap tk eq in simp_all)
qed

lemma transition_record_Inr:
  assumes "transition_record k ctx rid tkey reason s = (Inr res, s')"
  obtains r w tr where
    "find_record (db s) (tenant_id ctx) rid = Some r"
    "governing_workflow (db s) (tenant_id ctx) r = Some w"
    "tr \<in> set (available_from w (current_state w r))" "t_key tr = tkey"
    "allowed k (db s) ctx Transition
       (case t_guard_permission tr of Some g \<Rightarrow> g | None \<Rightarrow> resource_for (r_object_type r)) (Some r)"
    "tr_from res = current_state w r" "tr_to res = t_to tr" "tr_record_id res = rid"
    "(t_requires_approval tr \<and> tr_status res = ''pending_approval'' \<and>
       records (db s') = records (db s) \<and>
       (\<exists>aid ap. tr_approval_id res = Some aid \<and> pending_request ctx rid (r_object_type r) aid tr ap \<and>
          aid \<notin> ap_id ` set (approvals (db s)) \<and> approvals (db s') = approvals (db s) @ [ap])) \<or>
     (\<not> t_requires_approval tr \<and> tr_status res = ''transitioned'' \<and> tr_approval_id res = None \<and>
       approvals (db s') = approvals (db s) \<and>
       (\<exists>ts. records (db s') = upd_where (\<lambda>r. r_tenant_id r = tenant_id ctx \<and> r_id r = rid)
          (\<lambda>row. row\<lparr>r_workflow_state := Some (t_to tr), r_updated_at := ts\<rparr>) (records (db s))))"
proof -
  from assms obtain r ot wkey w tr s1 s2 s3 s4 s5 ts x where
    1: "require_record k ctx rid ''record not found'' s = (Inr r, s1)" and
    2: "load_object_type k (tenant_id ctx) (r_object_type r) s1 = (Inr ot, s2)" and
    3: "ot_workflow_key ot = Some wkey" and
    4: "load_workflow k (tenant_id ctx) wkey s2 = (Inr (Some w), s3)" and
    5: "transition_from w (current_state w r) tkey = Some tr" and
    6: "authorize k ctx Transition
          (case t_guard_permission tr of Some g \<Rightarrow> g | None \<Rightarrow> resource_for (r_object_type r)) (Some r) s3
        = (Inr x, s4)" and
    7: "now_rfc3339 k s4 = (Inr ts, s5)" and
    8: "(if t_requires_approval tr then
       bindK (transaction k
         (request_transition k ctx rid (r_object_type r) (current_state w r) tkey tr reason)) (\<lambda>aid.
       retK \<lparr>tr_status = ''pending_approval'', tr_record_id = rid, tr_from = current_state w r,
             tr_to = t_to tr, tr_approval_id = Some aid\<rparr>)
     else
       seqK (transaction k (apply_transition k ctx rid (r_object_type r) (current_state w r) tr ts reason))
       (retK \<lparr>tr_status = ''transitioned'', tr_record_id = rid, tr_from = current_state w r,
             tr_to = t_to tr, tr_approval_id = None\<rparr>)) s5 = (Inr res, s')"
    unfolding transition_record_def Let_def bindK_Inr [of "require_record k ctx rid ''record not found''"]
    by (simp only: bindK_Inr [of "load_object_type k t y" for t y] bindK_Inr [of "someK e y" for e y]
        bindK_Inr [of "load_workflow k t y" for t y] seqK_Inr [of "authorize k ctx a b c" for a b c]
        bindK_Inr [of "now_rfc3339 k"] someK_Inr) blast
  have d: "db s1 = db s" "db s2 = db s" "db s3 = db s" "db s5 = db s"
    using 1 2 4 7 authorize_Inr [OF 6]
    by (auto simp: require_record_Inr load_object_type_Inr load_workflow_Inr now_rfc3339_Inr)
  have r: "find_record (db s) (tenant_id ctx) rid = Some r"
    and w: "governing_workflow (db s) (tenant_id ctx) r = Some w"
    using 1 2 3 4 d
    by (auto simp: require_record_Inr load_object_type_Inr load_workflow_Inr governing_workflow_def)
  have tr: "tr \<in> set (available_from w (current_state w r))" "t_key tr = tkey"
    using transition_from_Some [OF 5] by simp_all
  have al: "allowed k (db s) ctx Transition
       (case t_guard_permission tr of Some g \<Rightarrow> g | None \<Rightarrow> resource_for (r_object_type r)) (Some r)"
    using authorize_Inr [OF 6] d by simp
  show thesis
  proof (cases "t_requires_approval tr")
    case True
    with 8 obtain aid u u' where
      q: "request_transition k ctx rid (r_object_type r) (current_state w r) tkey tr reason u = (Inr aid, u')"
      "db u = db s5" "db s' = db u'" and
      res: "res = \<lparr>tr_status = ''pending_approval'', tr_record_id = rid, tr_from = current_state w r,
             tr_to = t_to tr, tr_approval_id = Some aid\<rparr>"
      by (fastforce simp: bindK_Inr transaction_Inr)
    from request_transition_Inr [OF q(1) tr(2)] obtain ap where
      "pending_request ctx rid (r_object_type r) aid tr ap"
      "approvals (db u') = approvals (db u) @ [ap]" "aid \<notin> ap_id ` set (approvals (db u))"
      "records (db u') = records (db u)" by metis
    with q res True d that [OF r w tr al] show ?thesis by auto
  next
    case False
    with 8 obtain u u' y where
      q: "apply_transition k ctx rid (r_object_type r) (current_state w r) tr ts reason u = (Inr y, u')"
      "db u = db s5" "db s' = db u'" and
      res: "res = \<lparr>tr_status = ''transitioned'', tr_record_id = rid, tr_from = current_state w r,
             tr_to = t_to tr, tr_approval_id = None\<rparr>"
      by (fastforce simp: seqK_Inr transaction_Inr)
    from apply_transition_Inr [OF q(1)] q res False d that [OF r w tr al] show ?thesis by auto
  qed
qed

section \<open>Frames\<close>

context denial_frame begin

lemma keeps_available_transitions: "tenant_id ctx = t \<Longrightarrow> keeps R (available_transitions k ctx rid)"
  unfolding available_transitions_def
  by (intro keeps_bindK keeps_require_record keeps_seqK keeps_authorize keeps_load_object_type
      keeps_case_option keeps_retK keeps_load_workflow)

end

lemma keeps_isolated_request_transition [frame_rules]:
  "keeps (isolated (tenant_id ctx)) (request_transition k ctx rid ty current tkey tr reason)"
  unfolding request_transition_def by (intro frame_rules refl decided_event_simps)

lemma keeps_isolated_apply_transition [frame_rules]:
  "keeps (isolated (tenant_id ctx)) (apply_transition k ctx rid ty current tr ts reason)"
  unfolding apply_transition_def by (intro frame_rules refl with_reason_simps) simp

lemma keeps_isolated_transition_record:
  "keeps (isolated (tenant_id ctx)) (transition_record k ctx rid tkey reason)"
  unfolding transition_record_def Let_def by (intro frame_rules refl | simp)+

lemma logs_request_transition: "logs (request_transition k ctx rid ty current tkey tr reason)"
  unfolding request_transition_def
  by (intro logs_bind_second logs_seq_second logs_seq_first logs_audit_change frame_rules
      decided_event_simps) simp

lemma logs_apply_transition: "logs (apply_transition k ctx rid ty current tr ts reason)"
  unfolding apply_transition_def
  by (intro logs_seq_second logs_seq_first logs_audit_change frame_rules with_reason_simps)
    (simp_all add: same_log_def)

lemma keeps_audited_transition_record: "keeps audited (transition_record k ctx rid tkey reason)"
  unfolding transition_record_def Let_def
  by (intro keeps_audited_transaction logs_request_transition logs_apply_transition
      audited.keeps_bindK audited.keeps_seqK keeps_if frame_rules refl | rule refl)+

lemma clean_errors_transition_record:
  "clean_errors (tenant_id ctx) (transition_record k ctx rid tkey reason)"
  unfolding transition_record_def Let_def
  by (intro clean_bind clean_seq clean_seq_tail clean_bind_tail clean_if clean_transaction
      never_fails_retK frame_rules refl)

end
