(* ===== verification/Floats.thy ===== *)
theory Floats
  imports Json "HOL-Library.Log_Nat"
begin

text \<open>
  The \<open>f64\<close> arithmetic the program computes with. A finite \<open>f64\<close> is the rational it denotes;
  a sum or quotient is the exact result rounded to 53 significant bits, ties to even. Results
  beyond the largest finite \<open>f64\<close> or below the smallest normal one do not occur with the values
  the program handles and are not modelled; the two infinities do occur (the minimum and the
  maximum of nothing).
\<close>

datatype f64 = Fin rat | Inf | NegInf

definition round_half_even :: "rat \<Rightarrow> int" where
  "round_half_even q =
     (let fl = \<lfloor>q\<rfloor>; r = q - of_int fl
      in if r > 1 / 2 \<or> (r = 1 / 2 \<and> odd fl) then fl + 1 else fl)"

definition pow2 :: "int \<Rightarrow> rat" where
  "pow2 e = (if e \<ge> 0 then 2 ^ nat e else 1 / 2 ^ nat (- e))"

text \<open>The binary exponent: \<open>2 ^ e \<le> \<bar>q\<bar> < 2 ^ (e + 1)\<close>.\<close>

definition exponent :: "rat \<Rightarrow> int" where
  "exponent q =
     (let (n, d) = quotient_of \<bar>q\<bar>; e = bitlen n - bitlen d
      in if pow2 e \<le> \<bar>q\<bar> then e else e - 1)"

definition f64_round :: "rat \<Rightarrow> rat" where
  "f64_round q =
     (if q = 0 then 0
      else let e = exponent q - 52 in of_int (round_half_even (q / pow2 e)) * pow2 e)"

definition f64_add :: "rat \<Rightarrow> rat \<Rightarrow> rat" where
  "f64_add a b = f64_round (a + b)"

definition f64_div :: "rat \<Rightarrow> rat \<Rightarrow> rat" where
  "f64_div a b = f64_round (a / b)"

text \<open>\<open>iter().sum::<f64>()\<close>: additions from the left, each rounded.\<close>

definition f64_sum :: "rat list \<Rightarrow> rat" where
  "f64_sum xs = foldl f64_add 0 xs"

section \<open>Exactness on integers\<close>

lemma pow2_pos: "0 < pow2 e"
  by (simp add: pow2_def)

lemma pow2_neg: "pow2 (- e) = 1 / pow2 e"
  by (simp add: pow2_def)

lemma round_half_even_int: "round_half_even (of_int n) = n"
  by (simp add: round_half_even_def)

lemma exponent_int_upper:
  assumes "n \<noteq> 0" "\<bar>n\<bar> < 2 ^ 53"
  shows "exponent (of_int n) \<le> 52"
proof -
  have q: "quotient_of \<bar>rat_of_int n\<bar> = (\<bar>n\<bar>, 1)"
    using quotient_of_rat_of_int [of "\<bar>n\<bar>"] by simp
  have b: "bitlen \<bar>n\<bar> \<le> 53"
    unfolding bitlen_le_iff_power using assms(2) by simp
  have one: "bitlen 1 = 1" by (simp add: bitlen_eq_zero_iff bitlen_alt_def)
  show ?thesis
    unfolding exponent_def q Let_def prod.case one using b by simp
qed

lemma f64_round_int:
  assumes "\<bar>n\<bar> < 2 ^ 53"
  shows "f64_round (of_int n) = of_int n"
proof (cases "n = 0")
  case False
  define k where "k = nat (52 - exponent (rat_of_int n))"
  have e: "exponent (rat_of_int n) - 52 = - int k"
    using exponent_int_upper [OF False assms] by (simp add: k_def)
  have p: "pow2 (- int k) = 1 / 2 ^ k" by (simp add: pow2_def)
  have "rat_of_int n / pow2 (- int k) = of_int (n * 2 ^ k)" by (simp add: p)
  then have "f64_round (of_int n) = of_int (n * 2 ^ k) * (1 / 2 ^ k)"
    using False by (simp only: f64_round_def e Let_def round_half_even_int p) simp
  then show ?thesis by simp
qed (simp add: f64_round_def)

lemma f64_add_int:
  "\<bar>a + b\<bar> < 2 ^ 53 \<Longrightarrow> f64_add (of_int a) (of_int b) = of_int (a + b)"
  by (simp add: f64_add_def f64_round_int flip: of_int_add)

text \<open>A sum of integers is exact while the sum of the absolute values stays below \<open>2 ^ 53\<close>.\<close>

lemma f64_sum_int:
  assumes "sum_list (map abs xs) < 2 ^ 53"
  shows "f64_sum (map of_int xs) = of_int (sum_list xs)"
proof -
  have "foldl f64_add (of_int a) (map of_int xs) = of_int (a + sum_list xs)"
    if "\<bar>a\<bar> + sum_list (map abs xs) < 2 ^ 53" for a
    using that
  proof (induction xs arbitrary: a)
    case (Cons x xs)
    have nonneg: "0 \<le> sum_list (map abs xs)" by (rule sum_list_nonneg) auto
    with Cons.prems have "\<bar>a + x\<bar> < 2 ^ 53" "\<bar>a + x\<bar> + sum_list (map abs xs) < 2 ^ 53" by auto
    with Cons.IH [of "a + x"] show ?case by (simp add: f64_add_int add.assoc)
  qed simp
  from this [of 0] assms show ?thesis by (simp add: f64_sum_def)
qed

end
