(* ===== verification/Analytics.thy ===== *)
theory Analytics
  imports RecordFacts Floats
begin

text \<open>
  Metrics, saved reports and dashboards (\<open>kernel/src/analytics.rs\<close>). Every aggregation runs over
  \<open>scan_records\<close>, so its input is what the caller may read, projected to the fields the caller
  may see.
\<close>

section \<open>Aggregation\<close>

definition num_val :: "json \<Rightarrow> rat option" where
  "num_val v =
     (case v of
        JNumber n \<Rightarrow> Some (as_f64_num n)
      | JBool b \<Rightarrow> Some (if b then 1 else 0)
      | _ \<Rightarrow> None)"

definition value_to_key :: "kernel \<Rightarrow> json \<Rightarrow> string" where
  "value_to_key k v =
     (case v of
        JString s \<Rightarrow> s
      | JNull \<Rightarrow> ''(none)''
      | other \<Rightarrow> json_text k other)"

definition field_values :: "record_t list \<Rightarrow> string option \<Rightarrow> rat list" where
  "field_values rs field =
     List.map_filter (\<lambda>r. Option.bind (Option.bind field (jget (r_data r))) num_val) rs"

text \<open>
  \<open>fold(f64::INFINITY, f64::min)\<close> and its dual. A length or a count is converted exactly up to
  \<open>2 ^ 53\<close>, far above \<open>MAX_SCAN\<close>.
\<close>

definition compute :: "record_t list \<Rightarrow> agg_op \<Rightarrow> string option \<Rightarrow> f64" where
  "compute rs op field =
     (let vals = field_values rs field in
      case op of
        Count \<Rightarrow> Fin (of_nat (length rs))
      | Sum \<Rightarrow> Fin (f64_sum vals)
      | Avg \<Rightarrow> if vals = [] then Fin 0 else Fin (f64_div (f64_sum vals) (of_nat (length vals)))
      | Min \<Rightarrow> (case vals of [] \<Rightarrow> Inf | v # vs \<Rightarrow> Fin (foldl min v vs))
      | Max \<Rightarrow> (case vals of [] \<Rightarrow> NegInf | v # vs \<Rightarrow> Fin (foldl max v vs)))"

definition aggregate ::
  "kernel \<Rightarrow> auth_context \<Rightarrow> string \<Rightarrow> agg_op \<Rightarrow> string option \<Rightarrow> field_filter list \<Rightarrow> f64 kern" where
  "aggregate k ctx ty op field filters =
     bindK (scan_records k ctx ty (default_filter\<lparr>rf_filters := filters\<rparr>)) (\<lambda>rs.
     retK (compute rs op field))"

section \<open>Reports\<close>

record group_bucket =
  gb_key :: string
  gb_value :: f64
  gb_count :: nat

record report_result =
  rr_key :: string
  rr_op :: agg_op
  rr_value :: "f64 option"
  rr_groups :: "group_bucket list"
  rr_sample_size :: nat

fun agg_op_str :: "agg_op \<Rightarrow> string" where
  "agg_op_str Count = ''count''"
| "agg_op_str Sum = ''sum''"
| "agg_op_str Avg = ''avg''"
| "agg_op_str Min = ''min''"
| "agg_op_str Max = ''max''"

definition upsert_report ::
  "string \<Rightarrow> report_def \<Rightarrow> string \<Rightarrow> string \<Rightarrow> database \<Rightarrow> sql_error + unit \<times> database" where
  "upsert_report t def rid ts d =
     (let hit = (\<lambda>r. rp_tenant_id r = t \<and> rd_key (rp_def r) = rd_key def)
      in if list_ex hit (reports d)
         then Inr ((), d\<lparr>reports := upd_where hit (\<lambda>r. r\<lparr>rp_def := def\<rparr>) (reports d)\<rparr>)
         else sql_insert (rid \<notin> rp_id ` set (reports d)) (tenant_exists d t)
                (d\<lparr>reports := reports d @
                   [\<lparr>rp_id = rid, rp_tenant_id = t, rp_def = def, rp_created_at = ts\<rparr>]\<rparr>))"

definition save_report :: "kernel \<Rightarrow> auth_context \<Rightarrow> report_def \<Rightarrow> report_def kern" where
  "save_report k ctx def =
     seqK (authorize k ctx Configure ''report'' None) (
     seqK (transaction k (
       bindK (new_id k) (\<lambda>rid.
       bindK (now_rfc3339 k) (\<lambda>ts.
       seqK (stmt k (upsert_report (tenant_id ctx) def rid ts))
            (audit_change k ctx ''report.save'' (Some ''report'') (Some (rd_key def)) None
               (Some (jobj [(''object_type'', JString (rd_object_type def)),
                            (''op'', JString (agg_op_str (rd_op def)))])) (\<lambda>ev. ev))))))
     (retK def))"

definition list_reports :: "kernel \<Rightarrow> auth_context \<Rightarrow> report_def list kern" where
  "list_reports k ctx =
     seqK (authorize k ctx Read ''report'' None)
       (query k (\<lambda>d. sort_key rd_key
          (map rp_def (filter (\<lambda>r. rp_tenant_id r = tenant_id ctx) (reports d)))))"

definition find_report :: "database \<Rightarrow> string \<Rightarrow> string \<Rightarrow> report_def option" where
  "find_report d t key =
     map_option rp_def (find (\<lambda>r. rp_tenant_id r = t \<and> rd_key (rp_def r) = key) (reports d))"

definition load_report :: "kernel \<Rightarrow> auth_context \<Rightarrow> string \<Rightarrow> report_def kern" where
  "load_report k ctx key =
     bindK (query k (\<lambda>d. find_report d (tenant_id ctx) key))
       (someK (not_found ''report not found''))"

text \<open>\<open>buckets.entry(key).or_default().push(r)\<close> on a \<open>BTreeMap\<close>.\<close>

definition push_bucket ::
  "string \<Rightarrow> record_t \<Rightarrow> (string \<times> record_t list) list \<Rightarrow> (string \<times> record_t list) list" where
  "push_bucket key r m =
     jinsert key ((case jget m key of Some rs \<Rightarrow> rs | None \<Rightarrow> []) @ [r]) m"

definition group_key :: "kernel \<Rightarrow> string \<Rightarrow> record_t \<Rightarrow> string" where
  "group_key k field r =
     (case jget (r_data r) field of Some v \<Rightarrow> value_to_key k v | None \<Rightarrow> ''(none)'')"

definition buckets :: "kernel \<Rightarrow> string \<Rightarrow> record_t list \<Rightarrow> (string \<times> record_t list) list" where
  "buckets k field rs = foldl (\<lambda>m r. push_bucket (group_key k field r) r m) [] rs"

definition run_report_def :: "kernel \<Rightarrow> auth_context \<Rightarrow> report_def \<Rightarrow> report_result kern" where
  "run_report_def k ctx def =
     bindK (scan_records k ctx (rd_object_type def)
              (default_filter\<lparr>rf_filters := rd_filters def\<rparr>)) (\<lambda>rs.
     case rd_group_by def of
       Some group_field \<Rightarrow>
         retK \<lparr>rr_key = rd_key def, rr_op = rd_op def, rr_value = None,
               rr_groups = map (\<lambda>(key, rs'). \<lparr>gb_key = key,
                    gb_value = compute rs' (rd_op def) (rd_field def), gb_count = length rs'\<rparr>)
                  (buckets k group_field rs),
               rr_sample_size = length rs\<rparr>
     | None \<Rightarrow>
         retK \<lparr>rr_key = rd_key def, rr_op = rd_op def,
               rr_value = Some (compute rs (rd_op def) (rd_field def)), rr_groups = [],
               rr_sample_size = length rs\<rparr>)"

definition run_report :: "kernel \<Rightarrow> auth_context \<Rightarrow> string \<Rightarrow> report_result kern" where
  "run_report k ctx key =
     seqK (authorize k ctx Read ''report'' None)
       (bindK (load_report k ctx key) (run_report_def k ctx))"

section \<open>Dashboards\<close>

definition upsert_dashboard ::
  "string \<Rightarrow> dashboard_t \<Rightarrow> string \<Rightarrow> string \<Rightarrow> database \<Rightarrow> sql_error + unit \<times> database" where
  "upsert_dashboard t dash did ts d =
     (let hit = (\<lambda>r. dr_tenant_id r = t \<and> da_key (dr_dashboard r) = da_key dash)
      in if list_ex hit (dashboards d)
         then Inr ((), d\<lparr>dashboards :=
                upd_where hit (\<lambda>r. r\<lparr>dr_dashboard := dash\<rparr>) (dashboards d)\<rparr>)
         else sql_insert (did \<notin> dr_id ` set (dashboards d)) (tenant_exists d t)
                (d\<lparr>dashboards := dashboards d @
                   [\<lparr>dr_id = did, dr_tenant_id = t, dr_dashboard = dash, dr_created_at = ts\<rparr>]\<rparr>))"

definition save_dashboard :: "kernel \<Rightarrow> auth_context \<Rightarrow> dashboard_t \<Rightarrow> dashboard_t kern" where
  "save_dashboard k ctx dash =
     seqK (authorize k ctx Configure ''report'' None) (
     seqK (transaction k (
       bindK (new_id k) (\<lambda>did.
       bindK (now_rfc3339 k) (\<lambda>ts.
       seqK (stmt k (upsert_dashboard (tenant_id ctx) dash did ts))
            (audit_change k ctx ''dashboard.save'' (Some ''dashboard'') (Some (da_key dash)) None
               None (\<lambda>ev. ev))))))
     (retK dash))"

definition list_dashboards :: "kernel \<Rightarrow> auth_context \<Rightarrow> dashboard_t list kern" where
  "list_dashboards k ctx =
     seqK (authorize k ctx Read ''dashboard'' None)
       (query k (\<lambda>d. sort_key da_key
          (map dr_dashboard (filter (\<lambda>r. dr_tenant_id r = tenant_id ctx) (dashboards d)))))"

definition get_dashboard :: "kernel \<Rightarrow> auth_context \<Rightarrow> string \<Rightarrow> dashboard_t kern" where
  "get_dashboard k ctx key =
     seqK (authorize k ctx Read ''dashboard'' None)
       (bindK (query k (\<lambda>d. map_option dr_dashboard
                 (find (\<lambda>r. dr_tenant_id r = tenant_id ctx \<and> da_key (dr_dashboard r) = key)
                    (dashboards d))))
          (someK (not_found ''dashboard not found'')))"

section \<open>Facts\<close>

text \<open>What a scan returns: the readable records that pass the filters, projected.\<close>

definition scanned ::
  "kernel \<Rightarrow> database \<Rightarrow> auth_context \<Rightarrow> object_type_def \<Rightarrow> string \<Rightarrow> record_filter \<Rightarrow> record_t list" where
  "scanned k d ctx ot ty flt =
     map (\<lambda>r. project_fields (can_see k d ctx ot r) r)
       (fold (\<lambda>c. filter (filter_clause c)) (rf_filters flt)
          (readable k d ctx ty (rf_include_archived flt)))"

lemma scan_records_Inr:
  assumes "scan_records k ctx ty flt s = (Inr rs, s')"
  obtains ot where "allowed k (db s) ctx Search (resource_for ty) None"
    "find_object_type (db s) (tenant_id ctx) ty = Some ot" "db s' = db s"
    "rs = scanned k (db s) ctx ot ty flt"
proof -
  from assms obtain s1 ot s2 gs s3 x where
    1: "authorize k ctx Search (resource_for ty) None s = (Inr x, s1)" and
    2: "load_object_type k (tenant_id ctx) ty s1 = (Inr ot, s2)" and
    3: "effective_grants k ctx s2 = (Inr gs, s3)" and
    4: "db s' = db s3" and
    5: "rs = map (project_list k ctx gs (resource_for ty) ot)
          (fold (\<lambda>c. filter (filter_clause c)) (rf_filters flt)
            (filter (\<lambda>r. grants_allow k gs ctx Read (resource_for ty) (Some r))
              (candidates (tenant_id ctx) ty (rf_include_archived flt) (db s3))))"
    by (auto simp: scan_records_def Let_def bindK_Inr seqK_Inr query_Inr)
  have d: "db s1 = db s" "db s2 = db s" "db s3 = db s" "db s' = db s"
    and gs: "gs = role_grants_of (db s) (tenant_id ctx) (role_keys ctx)"
    using 1 2 3 4 by (auto dest!: authorize_Inr effective_grants_Inr simp: load_object_type_Inr)
  have "rs = scanned k (db s) ctx ot ty flt"
    unfolding 5 gs d(3) grants_allow_iff readable_def [symmetric] scanned_def
  proof (rule map_cong [OF refl])
    fix r
    assume "r \<in> set (fold (\<lambda>c. filter (filter_clause c)) (rf_filters flt)
              (readable k (db s) ctx ty (rf_include_archived flt)))"
    then have "r_object_type r = ty"
      by (auto simp: fold_filter_all readable_def dest!: candidates_in)
    then show "project_list k ctx (role_grants_of (db s) (tenant_id ctx) (role_keys ctx)) (resource_for ty) ot r
        = project_fields (can_see k (db s) ctx ot r) r"
      by (rule project_list_can_see)
  qed
  with 1 2 d show thesis
    by (intro that) (auto dest!: authorize_Inr simp: load_object_type_Inr)
qed

lemma aggregate_Inr:
  assumes "aggregate k ctx ty op field filters s = (Inr v, s')"
  obtains ot where "allowed k (db s) ctx Search (resource_for ty) None"
    "find_object_type (db s) (tenant_id ctx) ty = Some ot" "db s' = db s"
    "v = compute (scanned k (db s) ctx ot ty (default_filter\<lparr>rf_filters := filters\<rparr>)) op field"
proof -
  from assms obtain rs where 1: "scan_records k ctx ty (default_filter\<lparr>rf_filters := filters\<rparr>) s = (Inr rs, s')"
    and 2: "v = compute rs op field"
    by (auto simp: aggregate_def bindK_Inr)
  from 1 show thesis by (rule scan_records_Inr) (use 2 that in blast)
qed

text \<open>A field no one of the records shows contributes nothing to an aggregate.\<close>

lemma field_values_hidden:
  "(\<And>r. r \<in> set rs \<Longrightarrow> jget (r_data r) f = None) \<Longrightarrow> field_values rs (Some f) = []"
  by (auto simp: field_values_def map_filter_def filter_empty_conv)

lemma compute_hidden:
  assumes "\<And>r. r \<in> set rs \<Longrightarrow> jget (r_data r) f = None"
  shows "compute rs Sum (Some f) = Fin 0" "compute rs Avg (Some f) = Fin 0"
    "compute rs Min (Some f) = Inf" "compute rs Max (Some f) = NegInf"
  using field_values_hidden [OF assms] by (simp_all add: compute_def Let_def f64_sum_def)

text \<open>Grouping is a partition of the records by their key.\<close>

lemma buckets_snoc: "buckets k f (rs @ [r]) = push_bucket (group_key k f r) r (buckets k f rs)"
  by (simp add: buckets_def)

lemma jget_buckets: "jget (buckets k f rs) key =
    (let g = filter (\<lambda>r. group_key k f r = key) rs in if g = [] then None else Some g)"
proof (induction rs rule: rev_induct)
  case Nil
  show ?case by (simp add: buckets_def jget_def)
next
  case (snoc r rs)
  then show ?case
    by (auto simp: buckets_snoc push_bucket_def Let_def split: option.splits if_splits)
qed

lemma jwf_buckets: "jwf (buckets k f rs)"
proof (induction rs rule: rev_induct)
  case Nil
  show ?case by (simp add: buckets_def)
next
  case (snoc r rs)
  then show ?case by (simp add: buckets_snoc push_bucket_def)
qed

lemma sum_jinsert_fresh:
  fixes g :: "'v \<Rightarrow> nat"
  assumes "jwf m"
  shows "sum_list (map (g \<circ> snd) (jinsert key v m)) + (case jget m key of Some w \<Rightarrow> g w | None \<Rightarrow> 0)
    = sum_list (map (g \<circ> snd) m) + g v"
  using assms
proof (induction key v m rule: jinsert.induct)
  case (2 key v k' v' m)
  then have wf: "jwf m" and lt: "\<forall>x\<in>fst ` set m. k' < x" by (auto simp: jwf_def)
  have "jget ((k', v') # m) key = None" if "key < k'"
    using lt that by (auto simp: jget_def map_of_eq_None_iff)
  then show ?case
    using 2(1) wf by (auto simp: jget_def split: option.splits)
qed (simp add: jget_def)

lemma buckets_total: "sum_list (map (length \<circ> snd) (buckets k f rs)) = length rs"
proof (induction rs rule: rev_induct)
  case Nil
  show ?case by (simp add: buckets_def)
next
  case (snoc r rs)
  let ?key = "group_key k f r" and ?m = "buckets k f rs"
  have "sum_list (map (length \<circ> snd) (push_bucket ?key r ?m))
      = sum_list (map (length \<circ> snd) ?m) + 1"
    using sum_jinsert_fresh [OF jwf_buckets, of length ?key
        "(case jget ?m ?key of Some rs \<Rightarrow> rs | None \<Rightarrow> []) @ [r]" k f rs]
    by (auto simp: push_bucket_def split: option.splits)
  with snoc show ?case by (simp add: buckets_snoc comp_def)
qed

section \<open>Frames\<close>

context denial_frame begin

lemma keeps_aggregate: "tenant_id ctx = t \<Longrightarrow> keeps R (aggregate k ctx ty op field filters)"
  unfolding aggregate_def by (intro keeps_bindK keeps_scan_records keeps_retK)

lemma keeps_run_report_def [frame_rules]: "tenant_id ctx = t \<Longrightarrow> keeps R (run_report_def k ctx def)"
  unfolding run_report_def_def
  by (intro keeps_bindK keeps_scan_records keeps_case_option keeps_retK)

lemma keeps_run_report: "tenant_id ctx = t \<Longrightarrow> keeps R (run_report k ctx key)"
  unfolding run_report_def load_report_def
  by (intro keeps_seqK keeps_authorize keeps_bindK keeps_query keeps_someK keeps_run_report_def)

end

lemma upsert_report_isolated:
  "upsert_report t def rid ts d = Inr (x, d') \<Longrightarrow> isolated t d d' \<and> same_log d d'"
  by (auto simp: upsert_report_def isolated_def same_log_def Let_def intro!: others_upd_where
      split: if_splits)

lemma upsert_dashboard_isolated:
  "upsert_dashboard t dash did ts d = Inr (x, d') \<Longrightarrow> isolated t d d' \<and> same_log d d'"
  by (auto simp: upsert_dashboard_def isolated_def same_log_def Let_def intro!: others_upd_where
      split: if_splits)

lemma keeps_isolated_save_report [frame_rules]:
  "tenant_id ctx = t \<Longrightarrow> keeps (isolated t) (save_report k ctx def)"
  unfolding save_report_def by (intro frame_rules refl | simp)+ (auto dest: upsert_report_isolated)

lemma keeps_isolated_save_dashboard [frame_rules]:
  "tenant_id ctx = t \<Longrightarrow> keeps (isolated t) (save_dashboard k ctx dash)"
  unfolding save_dashboard_def
  by (intro frame_rules refl | simp)+ (auto dest: upsert_dashboard_isolated)

lemma keeps_audited_save_report [frame_rules]: "keeps audited (save_report k ctx def)"
  unfolding save_report_def
  by (intro frame_rules refl keeps_audited_transaction logs_bind_second logs_seq_second
      logs_audit_change | auto dest: upsert_report_isolated)+

lemma keeps_audited_save_dashboard [frame_rules]: "keeps audited (save_dashboard k ctx dash)"
  unfolding save_dashboard_def
  by (intro frame_rules refl keeps_audited_transaction logs_bind_second logs_seq_second
      logs_audit_change | auto dest: upsert_dashboard_isolated)+

end
