(* ===== verification/Builder.thy ===== *)
theory Builder
  imports Transitions Analytics Templates
begin

text \<open>
  The governed object builder (\<open>kernel/src/builder.rs\<close>): validating a draft definition, saving,
  publishing (the workflow, then the object type, then the draft's status), and installing a
  built-in template with its sample data and reports.
\<close>

section \<open>Validation\<close>

record builder_preview =
  pv_object_type :: object_type_def
  pv_workflow :: "workflow_def option"
  pv_permissions :: "permission_grant list"
  pv_approval_rules :: "approval_rule list"

record builder_validation =
  bv_valid :: bool
  bv_status :: builder_status
  bv_issues :: "validation_issue list"
  bv_preview :: builder_preview

fun status_str :: "builder_status \<Rightarrow> string" where
  "status_str Draft = ''draft''"
| "status_str Validated = ''validated''"
| "status_str Published = ''published''"

definition parse_status :: "string \<Rightarrow> builder_status" where
  "parse_status v =
     (if v = ''validated'' then Validated else if v = ''published'' then Published else Draft)"

definition issue :: "string \<Rightarrow> string \<Rightarrow> validation_issue" where
  "issue path msg = \<lparr>vi_path = path, vi_message = msg\<rparr>"

definition validate_key :: "string \<Rightarrow> string \<Rightarrow> validation_issue list" where
  "validate_key path key =
     (if trim key = [] then [issue path ''key is required'']
      else if \<not> list_all (\<lambda>c. is_lower c \<or> is_digit c \<or> c = CHR ''_'') key \<or>
              starts_with ''_'' key \<or>
              (case key of c # _ \<Rightarrow> is_digit c | [] \<Rightarrow> False)
      then [issue path ''key must be snake_case and start with a letter'']
      else [])"

definition field_issues ::
  "string list \<Rightarrow> builder_definition \<Rightarrow> string set \<Rightarrow> nat \<Rightarrow> field_definition \<Rightarrow> validation_issue list" where
  "field_issues object_keys def seen idx f =
     (let path = ''fields['' @ show_nat idx @ '']'' in
      validate_key (path @ ''.key'') (f_key f) @
      (if f_key f \<in> seen then [issue (path @ ''.key'') ''field keys must be unique''] else []) @
      (if f_type f \<in> {Enum, MultiEnum} \<and> f_enum_options f = []
       then [issue path ''enum fields require options''] else []) @
      (if f_type f = RecordRef
       then (case f_ref_object_type f of
               Some target \<Rightarrow>
                 if target \<in> set object_keys \<or> target = bd_key def then []
                 else [issue path ''reference target must be an existing object type'']
             | None \<Rightarrow> [issue path ''reference target must be an existing object type''])
       else []) @
      (if f_restricted f \<and> f_ai_visible f \<and> \<not> bd_sensitive_ai_visibility_confirmed def
       then [issue path ''sensitive AI visibility requires explicit confirmation''] else []))"

fun fields_issues ::
  "string list \<Rightarrow> builder_definition \<Rightarrow> string set \<Rightarrow> nat \<Rightarrow> field_definition list
   \<Rightarrow> validation_issue list" where
  "fields_issues object_keys def seen idx [] = []"
| "fields_issues object_keys def seen idx (f # fs) =
     field_issues object_keys def seen idx f @
     fields_issues object_keys def (insert (f_key f) seen) (Suc idx) fs"

definition workflow_issues :: "workflow_def \<Rightarrow> validation_issue list" where
  "workflow_issues w =
     (let states = ws_key ` set (wf_states w) in
      (if wf_initial_state w \<notin> states
       then [issue ''workflow.initial_state'' ''initial state must exist''] else []) @
      concat (map (\<lambda>t. if t_from t \<notin> states \<or> t_to t \<notin> states
                       then [issue ''workflow.transitions'' ''transition references unknown state'']
                       else []) (wf_transitions w)))"

definition relation_issues ::
  "string list \<Rightarrow> builder_definition \<Rightarrow> builder_relation \<Rightarrow> validation_issue list" where
  "relation_issues object_keys def rel =
     (if br_to_object rel \<noteq> bd_key def \<and> br_to_object rel \<notin> set object_keys
      then [issue ''relations'' ''relation target must exist or be this draft object''] else []) @
     (if br_kind rel = ManyToMany
      then [issue ''relations'' ''many-to-many relations are not publishable in this build'']
      else [])"

text \<open>All issues, in the order the code pushes them.\<close>

definition definition_issues :: "string list \<Rightarrow> builder_definition \<Rightarrow> validation_issue list" where
  "definition_issues object_keys def =
     validate_key ''key'' (bd_key def) @
     (if trim (bd_label def) = [] then [issue ''label'' ''display name is required''] else []) @
     (if bd_fields def = [] then [issue ''fields'' ''at least one field is required''] else []) @
     fields_issues object_keys def {} 0 (bd_fields def) @
     (case bd_display_field def of
        Some shown \<Rightarrow>
          if \<not> list_ex (\<lambda>f. f_key f = shown) (bd_fields def)
          then [issue ''display_field'' ''display field must be one of the fields''] else []
      | None \<Rightarrow> []) @
     (case bd_workflow def of Some w \<Rightarrow> workflow_issues w | None \<Rightarrow> []) @
     concat (map (relation_issues object_keys def) (bd_relations def))"

definition validation_result ::
  "string list \<Rightarrow> builder_definition \<Rightarrow> builder_validation" where
  "validation_result object_keys def =
     (let issues = definition_issues object_keys def; valid = (issues = []) in
      \<lparr>bv_valid = valid, bv_status = (if valid then Validated else Draft), bv_issues = issues,
       bv_preview = \<lparr>pv_object_type = to_object_type def, pv_workflow = bd_workflow def,
                     pv_permissions = bd_permissions def,
                     pv_approval_rules = bd_approval_rules def\<rparr>\<rparr>)"

text \<open>\<open>list_object_types(ctx).await.unwrap_or_default()\<close>: a failure counts as no object types.\<close>

definition validate_builder_definition ::
  "kernel \<Rightarrow> auth_context \<Rightarrow> builder_definition \<Rightarrow> builder_validation kern" where
  "validate_builder_definition k ctx def =
     seqK (authorize k ctx Configure ''builder'' None)
       (bindK (matchK (list_object_types k ctx) (\<lambda>_. retK []) retK) (\<lambda>object_types.
        retK (validation_result (map ot_key object_types) def)))"

section \<open>Drafts\<close>

record save_draft_request =
  sd_id :: "string option"
  sd_definition :: builder_definition

definition list_builder_drafts :: "kernel \<Rightarrow> auth_context \<Rightarrow> builder_draft list kern" where
  "list_builder_drafts k ctx =
     seqK (authorize k ctx Configure ''builder'' None)
       (query k (\<lambda>d. order_desc bf_updated_at
          (filter (\<lambda>r. bf_tenant_id r = tenant_id ctx) (builder_drafts d))))"

definition get_builder_draft :: "kernel \<Rightarrow> auth_context \<Rightarrow> string \<Rightarrow> builder_draft kern" where
  "get_builder_draft k ctx did =
     seqK (authorize k ctx Configure ''builder'' None)
       (bindK (query k (\<lambda>d. find (\<lambda>r. bf_tenant_id r = tenant_id ctx \<and> bf_id r = did)
                 (builder_drafts d)))
          (someK (not_found ''builder draft not found'')))"

definition upsert_draft ::
  "string \<Rightarrow> string \<Rightarrow> builder_status \<Rightarrow> builder_definition \<Rightarrow> string \<Rightarrow> database
   \<Rightarrow> sql_error + unit \<times> database" where
  "upsert_draft t did status def ts d =
     (let hit = (\<lambda>r. bf_tenant_id r = t \<and> bf_key r = bd_key def)
      in if list_ex hit (builder_drafts d)
         then Inr ((), d\<lparr>builder_drafts := upd_where hit
                (\<lambda>r. r\<lparr>bf_status := status, bf_definition := def, bf_updated_at := ts\<rparr>)
                (builder_drafts d)\<rparr>)
         else sql_insert (did \<notin> bf_id ` set (builder_drafts d)) (tenant_exists d t)
                (d\<lparr>builder_drafts := builder_drafts d @
                   [\<lparr>bf_id = did, bf_tenant_id = t, bf_status = status, bf_key = bd_key def,
                     bf_definition = def, bf_created_at = ts, bf_updated_at = ts,
                     bf_published_at = None\<rparr>]\<rparr>))"

definition save_builder_draft ::
  "kernel \<Rightarrow> auth_context \<Rightarrow> save_draft_request \<Rightarrow> builder_draft kern" where
  "save_builder_draft k ctx req =
     (let def = sd_definition req in
      seqK (authorize k ctx Configure ''builder'' None) (
      bindK (case sd_id req of Some i \<Rightarrow> retK i | None \<Rightarrow> new_id k) (\<lambda>did.
      bindK (now_rfc3339 k) (\<lambda>ts.
      bindK (validate_builder_definition k ctx def) (\<lambda>v.
      let status = (if bv_valid v then Validated else Draft) in
      seqK (transaction k (
        seqK (stmt k (upsert_draft (tenant_id ctx) did status def ts))
             (audit_change k ctx ''builder.draft.save'' (Some ''builder_draft'') (Some (bd_key def))
                None (Some (jobj [(''status'', JString (status_str status)),
                                  (''fields'', jnat (length (bd_fields def)))])) (\<lambda>ev. ev))))
      (matchK (get_builder_draft k ctx did)
         (\<lambda>_. bindK (query k (\<lambda>d. find (\<lambda>r. bf_tenant_id r = tenant_id ctx \<and> bf_key r = bd_key def)
                      (builder_drafts d)))
                (someK (not_found ''builder draft not found'')))
         retK))))))"

definition validate_builder_draft :: "kernel \<Rightarrow> auth_context \<Rightarrow> string \<Rightarrow> builder_validation kern" where
  "validate_builder_draft k ctx did =
     bindK (get_builder_draft k ctx did) (\<lambda>draft.
     validate_builder_definition k ctx (bf_definition draft))"

section \<open>Publishing\<close>

record publish_result =
  pb_draft :: builder_draft
  pb_object_type :: object_type_def
  pb_workflow :: "workflow_def option"

text \<open>Create the object type, or replace it when the key is taken.\<close>

definition install_object :: "kernel \<Rightarrow> auth_context \<Rightarrow> object_type_def \<Rightarrow> object_type_def kern" where
  "install_object k ctx ot =
     matchK (create_object_type k ctx ot)
       (\<lambda>e. if e_code e = Conflict then update_object_type k ctx (ot_key ot) ot else failK e)
       retK"

definition install_workflow :: "kernel \<Rightarrow> auth_context \<Rightarrow> workflow_def option \<Rightarrow> unit kern" where
  "install_workflow k ctx w =
     (case w of Some w' \<Rightarrow> seqK (create_workflow k ctx w') (retK ()) | None \<Rightarrow> retK ())"

definition mark_published :: "kernel \<Rightarrow> auth_context \<Rightarrow> string \<Rightarrow> object_type_def \<Rightarrow> string \<Rightarrow> unit kern" where
  "mark_published k ctx did published ts =
     transaction k (
       seqK (update_stmt k (\<lambda>d. d\<lparr>builder_drafts :=
               upd_where (\<lambda>r. bf_tenant_id r = tenant_id ctx \<and> bf_id r = did)
                 (\<lambda>r. r\<lparr>bf_status := Published, bf_updated_at := ts, bf_published_at := Some ts\<rparr>)
                 (builder_drafts d)\<rparr>))
            (audit_change k ctx ''builder.publish'' (Some ''object_type'') (Some (ot_key published))
               None (Some (jobj [(''fields'', jnat (length (ot_fields published)))])) (\<lambda>ev. ev)))"

definition publish_builder_draft :: "kernel \<Rightarrow> auth_context \<Rightarrow> string \<Rightarrow> publish_result kern" where
  "publish_builder_draft k ctx did =
     bindK (get_builder_draft k ctx did) (\<lambda>draft.
     bindK (validate_builder_definition k ctx (bf_definition draft)) (\<lambda>v.
     seqK (guardK (bv_valid v) (validation ''builder draft is not valid'')) (
     seqK (install_workflow k ctx (bd_workflow (bf_definition draft))) (
     bindK (install_object k ctx (to_object_type (bf_definition draft))) (\<lambda>published.
     bindK (now_rfc3339 k) (\<lambda>ts.
     seqK (mark_published k ctx did published ts) (
     seqK (emit_event k ctx ''builder.object_published''
             (jobj [(''object_type'', JString (ot_key published))])) (
     bindK (get_builder_draft k ctx did) (\<lambda>draft'.
     retK \<lparr>pb_draft = draft', pb_object_type = published,
           pb_workflow = bd_workflow (bf_definition draft')\<rparr>)))))))))"

section \<open>Templates\<close>

definition builder_templates :: "kernel \<Rightarrow> auth_context \<Rightarrow> builder_template list kern" where
  "builder_templates k ctx = seqK (authorize k ctx Configure ''builder'' None) (retK templates)"

text \<open>\<open>create(kernel, ctx, object_type, json!({..}))\<close>, the id of the new record.\<close>

definition create_sample ::
  "kernel \<Rightarrow> auth_context \<Rightarrow> string \<Rightarrow> (string \<times> json) list \<Rightarrow> string kern" where
  "create_sample k ctx ty kvs =
     bindK (create_record k ctx
       \<lparr>nr_object_type = ty,
        nr_data = (case jobj kvs of JObject m \<Rightarrow> m | _ \<Rightarrow> []),
        nr_workspace_id = None\<rparr>) (\<lambda>r.
     retK (r_id r))"

definition pad_nat :: "nat \<Rightarrow> nat \<Rightarrow> string" where
  "pad_nat w n = (let s = show_nat n in replicate (w - length s) (CHR ''0'') @ s)"

definition install_finance_records :: "kernel \<Rightarrow> auth_context \<Rightarrow> nat kern" where
  "install_finance_records k ctx =
     bindK (mapK (\<lambda>i. create_sample k ctx ''account''
              [(''name'', JString (''Account '' @ pad_nat 2 i)),
               (''email'', JString (''billing'' @ show_nat i @ ''@customer.test'')),
               (''tier'', JString ''standard'')]) [1..<11]) (\<lambda>account_ids.
     bindK (mapK (\<lambda>i. create_sample k ctx ''invoice''
              [(''number'', JString (''INV-'' @ pad_nat 4 i)),
               (''account_id'', JString (account_ids ! ((i - 1) mod length account_ids))),
               (''amount'', jnat (i * 125000)),
               (''status'', JString ''draft''),
               (''due_date'', JString ''2026-07-01'')]) [1..<11]) (\<lambda>invoice_ids.
     seqK (forK (\<lambda>inv.
             seqK (ignoreK (transition_record k ctx inv ''submit'' (Some ''builder-template'')))
                  (ignoreK (transition_record k ctx inv ''approve'' (Some ''builder-template''))))
             (take 3 invoice_ids)) (
     bindK (mapK (\<lambda>i. create_sample k ctx ''payment''
              [(''reference'', JString (''PAY-'' @ pad_nat 4 i)),
               (''amount'', jnat (i * 100000)),
               (''paid_date'', JString ''2026-06-15'')]) [1..<4]) (\<lambda>_.
     retK 23))))"

definition install_procurement_records :: "kernel \<Rightarrow> auth_context \<Rightarrow> nat kern" where
  "install_procurement_records k ctx =
     bindK (mapK (\<lambda>i. create_sample k ctx ''vendor''
              [(''name'', JString (''Vendor '' @ pad_nat 2 i)),
               (''email'', JString (''ap'' @ show_nat i @ ''@vendor.test'')),
               (''risk'', JString (if i = 5 then ''high'' else ''low''))]) [1..<6]) (\<lambda>vendor_ids.
     bindK (mapK (\<lambda>i. create_sample k ctx ''purchase_request''
              [(''number'', JString (''PR-'' @ pad_nat 4 i)),
               (''item'', JString (''Item '' @ show_nat i)),
               (''estimated_cost'', jnat (i * 75000)),
               (''status'', JString ''requested'')]) [1..<6]) (\<lambda>_.
     bindK (mapK (\<lambda>i. create_sample k ctx ''purchase_order''
              [(''number'', JString (''PO-'' @ pad_nat 4 i)),
               (''vendor_id'', JString (vendor_ids ! ((i - 1) mod length vendor_ids))),
               (''amount'', jnat (i * 150000))]) [1..<4]) (\<lambda>_.
     retK 13)))"

definition install_inventory_records :: "kernel \<Rightarrow> auth_context \<Rightarrow> nat kern" where
  "install_inventory_records k ctx =
     bindK (mapK (\<lambda>i. create_sample k ctx ''warehouse''
              [(''name'', JString (''Warehouse '' @ show_nat i)),
               (''location'', JString ''Primary'')]) [1..<4]) (\<lambda>_.
     bindK (mapK (\<lambda>i. create_sample k ctx ''product''
              [(''sku'', JString (''SKU-'' @ pad_nat 4 i)),
               (''name'', JString (''Product '' @ pad_nat 2 i)),
               (''price'', jnat (i * 10000)),
               (''quantity'', jnat (100 + i)),
               (''reorder_point'', jnat 20)]) [1..<11]) (\<lambda>_.
     retK 13))"

definition install_sample_records :: "kernel \<Rightarrow> auth_context \<Rightarrow> string \<Rightarrow> nat kern" where
  "install_sample_records k ctx key =
     (if key = ''finance'' then install_finance_records k ctx
      else if key = ''procurement'' then install_procurement_records k ctx
      else if key = ''inventory'' then install_inventory_records k ctx
      else retK 0)"

definition finance_reports :: "report_def list" where
  "finance_reports =
     [\<lparr>rd_key = ''revenue'', rd_name = ''Revenue'', rd_object_type = ''invoice'', rd_op = Sum,
       rd_field = Some ''amount'', rd_filters = [], rd_group_by = None\<rparr>,
      \<lparr>rd_key = ''invoices_by_status'', rd_name = ''Invoices by Status'',
       rd_object_type = ''invoice'', rd_op = Count, rd_field = None, rd_filters = [],
       rd_group_by = Some ''status''\<rparr>,
      \<lparr>rd_key = ''invoice_count'', rd_name = ''Invoice Count'', rd_object_type = ''invoice'',
       rd_op = Count, rd_field = None, rd_filters = [], rd_group_by = None\<rparr>]"

definition finance_dashboard :: dashboard_t where
  "finance_dashboard =
     \<lparr>da_key = ''finance'', da_name = ''Finance'',
      da_cards =
        [jobj [(''title'', JString ''Revenue''), (''report'', JString ''revenue'')],
         jobj [(''title'', JString ''Invoices by Status''),
               (''report'', JString ''invoices_by_status'')]]\<rparr>"

definition install_template_reports :: "kernel \<Rightarrow> auth_context \<Rightarrow> string \<Rightarrow> (nat \<times> nat) kern" where
  "install_template_reports k ctx key =
     (let reports = (if key = ''finance'' then finance_reports else []) in
      seqK (forK (\<lambda>r. ignoreK (save_report k ctx r)) reports) (
      if key = ''finance''
      then seqK (ignoreK (save_dashboard k ctx finance_dashboard)) (retK (length reports, 1))
      else retK (length reports, 0)))"

record install_request =
  ir_key :: string
  ir_include_sample_records :: bool

record install_result =
  it_template_key :: string
  it_object_types :: "object_type_def list"
  it_record_count :: nat
  it_report_count :: nat
  it_dashboard_count :: nat

definition install_builder_template ::
  "kernel \<Rightarrow> auth_context \<Rightarrow> install_request \<Rightarrow> install_result kern" where
  "install_builder_template k ctx req =
     seqK (authorize k ctx Configure ''builder'' None) (
     bindK (someK (not_found ''builder template not found'')
              (find (\<lambda>t. bt_key t = ir_key req) templates)) (\<lambda>template.
     bindK (mapK (\<lambda>def. seqK (install_workflow k ctx (bd_workflow def))
                            (install_object k ctx (to_object_type def)))
              (bt_objects template)) (\<lambda>object_types.
     bindK (if ir_include_sample_records req then install_sample_records k ctx (ir_key req)
            else retK 0) (\<lambda>record_count.
     bindK (install_template_reports k ctx (ir_key req)) (\<lambda>(report_count, dashboard_count).
     seqK (bindK (event_from k ctx ''builder.template.install'' (Some ''builder_template'')
                    (Some (ir_key req)) None
                    (Some (jobj [(''objects'', jnat (length object_types)),
                                 (''records'', jnat record_count)])))
             (\<lambda>ev. audit k
                (ev\<lparr>a_client_meta := Some (jobj [(''template'', JString (ir_key req))])\<rparr>)))
     (retK \<lparr>it_template_key = ir_key req, it_object_types = object_types,
            it_record_count = record_count, it_report_count = report_count,
            it_dashboard_count = dashboard_count\<rparr>))))))"

end
