(* ===== verification/BuilderFacts.thy ===== *)
theory BuilderFacts
  imports Builder
begin

text \<open>
  What builder validation guarantees, what the templates contain, and the frames of the builder's
  operations.
\<close>

section \<open>A valid definition\<close>

text \<open>The specification of a publishable definition, given the keys of the existing object types.\<close>

definition snake_key :: "string \<Rightarrow> bool" where
  "snake_key key \<longleftrightarrow>
     key \<noteq> [] \<and> is_lower (hd key) \<and> (\<forall>c\<in>set key. is_lower c \<or> is_digit c \<or> c = CHR ''_'')"

definition builder_field_ok ::
  "string list \<Rightarrow> builder_definition \<Rightarrow> field_definition \<Rightarrow> bool" where
  "builder_field_ok object_keys def f \<longleftrightarrow>
     snake_key (f_key f) \<and>
     (f_type f \<in> {Enum, MultiEnum} \<longrightarrow> f_enum_options f \<noteq> []) \<and>
     (f_type f = RecordRef \<longrightarrow>
        (\<exists>target. f_ref_object_type f = Some target \<and>
           (target \<in> set object_keys \<or> target = bd_key def))) \<and>
     (f_restricted f \<and> f_ai_visible f \<longrightarrow> bd_sensitive_ai_visibility_confirmed def)"

definition builder_ok :: "string list \<Rightarrow> builder_definition \<Rightarrow> bool" where
  "builder_ok object_keys def \<longleftrightarrow>
     snake_key (bd_key def) \<and> trim (bd_label def) \<noteq> [] \<and> bd_fields def \<noteq> [] \<and>
     distinct (map f_key (bd_fields def)) \<and>
     (\<forall>f\<in>set (bd_fields def). builder_field_ok object_keys def f) \<and>
     (\<forall>shown. bd_display_field def = Some shown \<longrightarrow> shown \<in> f_key ` set (bd_fields def)) \<and>
     (\<forall>w. bd_workflow def = Some w \<longrightarrow>
        wf_initial_state w \<in> ws_key ` set (wf_states w) \<and>
        (\<forall>t\<in>set (wf_transitions w). t_from t \<in> ws_key ` set (wf_states w) \<and>
           t_to t \<in> ws_key ` set (wf_states w))) \<and>
     (\<forall>rel\<in>set (bd_relations def). br_kind rel \<noteq> ManyToMany \<and>
        (br_to_object rel = bd_key def \<or> br_to_object rel \<in> set object_keys))"

lemma is_ws_letter: "is_lower c \<Longrightarrow> \<not> is_ws c"
proof -
  have "\<forall>c. is_ws c \<longrightarrow> \<not> is_lower c"
    by (auto simp: is_ws_def is_lower_def less_eq_char_def)
  then show "is_lower c \<Longrightarrow> \<not> is_ws c" by blast
qed

lemma trim_snake: "snake_key key \<Longrightarrow> trim key \<noteq> []"
proof -
  assume "snake_key key"
  then obtain c cs where c: "key = c # cs" "is_lower c" by (cases key) (auto simp: snake_key_def)
  then have "\<not> is_ws c" by (simp add: is_ws_letter)
  with c have "dropWhile is_ws key = key" "\<exists>x\<in>set (rev key). \<not> is_ws x" by auto
  then show ?thesis by (auto simp: trim_def dropWhile_eq_Nil_conv)
qed

lemma char_disjoint: "is_lower c \<Longrightarrow> \<not> is_digit c" "is_lower c \<Longrightarrow> c \<noteq> CHR ''_''"
  by (auto simp: is_lower_def is_digit_def less_eq_char_def)

lemma validate_key_Nil: "validate_key path key = [] \<longleftrightarrow> snake_key key"
proof (cases key)
  case Nil
  then show ?thesis by (simp add: validate_key_def snake_key_def trim_def)
next
  case (Cons c cs)
  show ?thesis
  proof
    assume "validate_key path key = []"
    then show "snake_key key"
      using Cons by (auto simp: validate_key_def snake_key_def list_all_iff starts_with_iff split: if_splits)
  next
    assume s: "snake_key key"
    then have "trim key \<noteq> []" by (rule trim_snake)
    with s Cons show "validate_key path key = []"
      by (auto simp: validate_key_def snake_key_def list_all_iff starts_with_iff char_disjoint)
  qed
qed

lemma field_issues_Nil: "field_issues object_keys def seen idx f = [] \<longleftrightarrow>
    builder_field_ok object_keys def f \<and> f_key f \<notin> seen"
  by (auto simp: field_issues_def builder_field_ok_def Let_def validate_key_Nil split: option.splits)

lemma fields_issues_Nil: "fields_issues object_keys def seen idx fs = [] \<longleftrightarrow>
    distinct (map f_key fs) \<and> seen \<inter> f_key ` set fs = {} \<and>
    (\<forall>f\<in>set fs. builder_field_ok object_keys def f)"
  by (induction fs arbitrary: seen idx) (auto simp: field_issues_Nil)

lemma workflow_issues_Nil: "workflow_issues w = [] \<longleftrightarrow>
    wf_initial_state w \<in> ws_key ` set (wf_states w) \<and>
    (\<forall>t\<in>set (wf_transitions w). t_from t \<in> ws_key ` set (wf_states w) \<and>
       t_to t \<in> ws_key ` set (wf_states w))"
  by (auto simp: workflow_issues_def Let_def)

lemma relation_issues_Nil: "relation_issues object_keys def rel = [] \<longleftrightarrow>
    br_kind rel \<noteq> ManyToMany \<and> (br_to_object rel = bd_key def \<or> br_to_object rel \<in> set object_keys)"
  by (auto simp: relation_issues_def)

lemma definition_issues_Nil: "definition_issues object_keys def = [] \<longleftrightarrow> builder_ok object_keys def"
proof -
  have display: "(case bd_display_field def of
        Some shown \<Rightarrow> if \<not> list_ex (\<lambda>f. f_key f = shown) (bd_fields def)
          then [issue ''display_field'' ''display field must be one of the fields''] else []
      | None \<Rightarrow> []) = [] \<longleftrightarrow>
      (\<forall>shown. bd_display_field def = Some shown \<longrightarrow> shown \<in> f_key ` set (bd_fields def))"
    by (auto simp: list_ex_iff split: option.splits)
  have wf: "(case bd_workflow def of Some w \<Rightarrow> workflow_issues w | None \<Rightarrow> []) = [] \<longleftrightarrow>
      (\<forall>w. bd_workflow def = Some w \<longrightarrow> workflow_issues w = [])"
    by (auto split: option.splits)
  show ?thesis
    unfolding definition_issues_def append_is_Nil_conv display wf
    by (auto simp: builder_ok_def validate_key_Nil fields_issues_Nil workflow_issues_Nil
        relation_issues_Nil)
qed

text \<open>What is publishable as an object is an acceptable object type.\<close>

lemma builder_ok_object_type: "builder_ok object_keys def \<Longrightarrow> object_type_ok (to_object_type def)"
  by (auto simp: builder_ok_def object_type_ok_def to_object_type_def builder_field_ok_def field_ok_def
      trim_snake)

section \<open>The templates\<close>

text \<open>
  Every template object is publishable when the template's objects are installed in order, and
  the workflows are acceptable.
\<close>

fun installable :: "string list \<Rightarrow> builder_definition list \<Rightarrow> bool" where
  "installable keys [] = True"
| "installable keys (def # defs) =
     (definition_issues keys def = [] \<and> installable (bd_key def # keys) defs)"

lemma templates_installable: "list_all (\<lambda>t. installable [] (bt_objects t)) templates"
  by code_simp

lemma invoice_workflow_valid: "validate_workflow invoice_wf = Inr ()"
  by code_simp

lemma template_keys_distinct: "list_all (\<lambda>t. distinct (map bd_key (bt_objects t))) templates"
  by code_simp

lemma templates_keys: "map bt_key templates = [''finance'', ''procurement'', ''inventory'', ''crm'', ''hr'']"
  by code_simp

lemma template_objects_distinct: "t \<in> set templates \<Longrightarrow> distinct (map bd_key (bt_objects t))"
  using template_keys_distinct by (simp add: list_all_iff)

section \<open>Frames\<close>

context denial_frame begin

lemma keeps_list_object_types [frame_rules]:
  "tenant_id ctx = t \<Longrightarrow> keeps R (list_object_types k ctx)"
  unfolding list_object_types_def by (intro keeps_seqK keeps_authorize keeps_query)

lemma keeps_validate_builder_definition [frame_rules]:
  "tenant_id ctx = t \<Longrightarrow> keeps R (validate_builder_definition k ctx def)"
  unfolding validate_builder_definition_def
  by (intro keeps_seqK keeps_authorize keeps_bindK keeps_matchK keeps_list_object_types keeps_retK)

lemma keeps_get_builder_draft [frame_rules]:
  "tenant_id ctx = t \<Longrightarrow> keeps R (get_builder_draft k ctx did)"
  unfolding get_builder_draft_def
  by (intro keeps_seqK keeps_authorize keeps_bindK keeps_query keeps_someK)

end

lemma upsert_draft_isolated:
  "upsert_draft t did st def ts d = Inr (x, d') \<Longrightarrow> isolated t d d' \<and> same_log d d'"
  by (auto simp: upsert_draft_def isolated_def same_log_def Let_def intro!: others_upd_where
      split: if_splits)

lemmas keeps_isolated_ops [frame_rules] = keeps_isolated_create_workflow
  keeps_isolated_create_object_type keeps_isolated_update_object_type keeps_isolated_create_record
  keeps_isolated_transition_record

lemmas keeps_audited_ops [frame_rules] = keeps_audited_create_workflow
  keeps_audited_create_object_type keeps_audited_update_object_type keeps_audited_create_record
  keeps_audited_transition_record

lemma keeps_isolated_save_builder_draft:
  "keeps (isolated (tenant_id ctx)) (save_builder_draft k ctx req)"
  unfolding save_builder_draft_def Let_def
  by (intro frame_rules refl | simp)+ (auto dest: upsert_draft_isolated)

lemma keeps_audited_save_builder_draft: "keeps audited (save_builder_draft k ctx req)"
  unfolding save_builder_draft_def Let_def
  by (intro frame_rules refl keeps_audited_transaction logs_seq_second logs_audit_change
      | auto dest: upsert_draft_isolated)+

lemma keeps_isolated_mark_published [frame_rules]:
  "keeps (isolated (tenant_id ctx)) (mark_published k ctx did ot ts)"
  unfolding mark_published_def
  by (intro frame_rules refl | simp)+ (auto simp: isolated_def intro!: others_upd_where)

lemma logs_mark_published: "logs (mark_published k ctx did ot ts)"
  unfolding mark_published_def
  by (intro logs_transaction logs_seq_second logs_audit_change frame_rules) (auto simp: same_log_def)

lemma keeps_audited_mark_published: "keeps audited (mark_published k ctx did ot ts)"
  unfolding mark_published_def
  by (intro keeps_audited_transaction logs_seq_second logs_audit_change frame_rules)
    (auto simp: same_log_def)

lemma keeps_isolated_install [frame_rules]:
  "keeps (isolated (tenant_id ctx)) (install_workflow k ctx w)"
  "keeps (isolated (tenant_id ctx)) (install_object k ctx ot)"
  unfolding install_workflow_def install_object_def by (intro frame_rules refl)+

lemma keeps_audited_install [frame_rules]:
  "keeps audited (install_workflow k ctx w)" "keeps audited (install_object k ctx ot)"
  unfolding install_workflow_def install_object_def by (intro frame_rules refl)+

lemma keeps_isolated_publish:
  "keeps (isolated (tenant_id ctx)) (publish_builder_draft k ctx did)"
  unfolding publish_builder_draft_def by (intro frame_rules refl)

lemma keeps_audited_publish_tail:
  "keeps appends m \<Longrightarrow> keeps audited (seqK (mark_published k ctx did ot ts)
     (seqK (emit_event k ctx kind payload) m))"
  by (intro keeps_audited_seq_logged keeps_audited_mark_published logs_mark_published
      appends.keeps_seqK keeps_appends(2) [OF keeps_emit_event(1)])

lemma keeps_audited_publish: "keeps audited (publish_builder_draft k ctx did)"
  unfolding publish_builder_draft_def
  by (rule keeps_audited_publish_tail | rule frame_rules | rule refl)+

lemma keeps_create_sample [frame_rules]:
  "keeps (isolated (tenant_id ctx)) (create_sample k ctx ty kvs)"
  "keeps audited (create_sample k ctx ty kvs)"
  unfolding create_sample_def by (intro frame_rules)+

lemma keeps_install_sample_records [frame_rules]:
  "keeps (isolated (tenant_id ctx)) (install_sample_records k ctx key)"
  "keeps audited (install_sample_records k ctx key)"
  unfolding install_sample_records_def install_finance_records_def
    install_procurement_records_def install_inventory_records_def
  by (intro frame_rules)+

lemma keeps_install_template_reports [frame_rules]:
  "keeps (isolated (tenant_id ctx)) (install_template_reports k ctx key)"
  "keeps audited (install_template_reports k ctx key)"
  unfolding install_template_reports_def Let_def
  by (intro frame_rules refl)+

lemma keeps_install_builder_template:
  "keeps (isolated (tenant_id ctx)) (install_builder_template k ctx req)"
  "keeps audited (install_builder_template k ctx req)"
  unfolding install_builder_template_def
  by (intro frame_rules refl | simp)+

end
