(* ===== verification/Usage.thy ===== *)
theory Usage
  imports Rbac
begin

text \<open>
  Per-tenant usage metering (\<open>kernel/src/usage.rs\<close>): a counter per tenant, metric and calendar
  month, incremented by an upsert. The counter is the integer SQLite keeps; the readers' \<open>i64\<close>
  bound is not reached.
\<close>

definition pad0 :: "nat \<Rightarrow> string \<Rightarrow> string" where
  "pad0 w s = replicate (w - length s) (CHR ''0'') @ s"

definition current_period :: "kernel \<Rightarrow> string kern" where
  "current_period k =
     bindK (now k) (\<lambda>t.
     let (y, m) = year_month k t
     in retK (pad0 4 (show_nat y) @ ''-'' @ pad0 2 (show_nat m)))"

definition bump_meter ::
  "string \<Rightarrow> string \<Rightarrow> string \<Rightarrow> int \<Rightarrow> string \<Rightarrow> string \<Rightarrow> database \<Rightarrow> sql_error + unit \<times> database" where
  "bump_meter t metric period amount uid ts d =
     (let hit = (\<lambda>r. um_tenant_id r = t \<and> um_metric r = metric \<and> um_period r = period)
      in if list_ex hit (usage_meters d)
         then Inr ((), d\<lparr>usage_meters := upd_where hit
                (\<lambda>r. r\<lparr>um_value := um_value r + amount, um_updated_at := ts\<rparr>) (usage_meters d)\<rparr>)
         else sql_insert (uid \<notin> um_id ` set (usage_meters d)) True
                (d\<lparr>usage_meters := usage_meters d @
                   [\<lparr>um_id = uid, um_tenant_id = t, um_metric = metric, um_period = period,
                     um_value = amount, um_updated_at = ts\<rparr>]\<rparr>))"

definition record_usage :: "kernel \<Rightarrow> string \<Rightarrow> string \<Rightarrow> int \<Rightarrow> unit kern" where
  "record_usage k t metric amount =
     (if \<not> enable_usage_metering (flags k) then retK ()
      else bindK (new_id k) (\<lambda>uid.
           bindK (current_period k) (\<lambda>period.
           bindK (now_rfc3339 k) (\<lambda>ts.
           stmt k (bump_meter t metric period amount uid ts)))))"

definition meter_api_call :: "kernel \<Rightarrow> auth_context \<Rightarrow> unit kern" where
  "meter_api_call k ctx = ignoreK (record_usage k (tenant_id ctx) ''api_calls'' 1)"

definition list_usage :: "kernel \<Rightarrow> auth_context \<Rightarrow> usage_row list kern" where
  "list_usage k ctx =
     seqK (authorize k ctx Read ''usage'' None)
       (query k (\<lambda>d. order_desc um_period (sort_key um_metric
          (filter (\<lambda>r. um_tenant_id r = tenant_id ctx) (usage_meters d)))))"

text \<open>The abstraction: the value of a counter, zero when there is no row.\<close>

definition meter_value :: "database \<Rightarrow> string \<Rightarrow> string \<Rightarrow> string \<Rightarrow> int" where
  "meter_value d t metric period =
     sum_list (map um_value (filter
       (\<lambda>r. um_tenant_id r = t \<and> um_metric r = metric \<and> um_period r = period) (usage_meters d)))"

text \<open>The uniqueness constraint of the table.\<close>

definition meters_unique :: "database \<Rightarrow> bool" where
  "meters_unique d \<longleftrightarrow>
     distinct (map (\<lambda>r. (um_tenant_id r, um_metric r, um_period r)) (usage_meters d))"

lemma bump_meter_unique:
  assumes "meters_unique d" "bump_meter t metric period amount uid ts d = Inr (x, d')"
  shows "meters_unique d'"
proof -
  let ?key = "\<lambda>r :: usage_row. (um_tenant_id r, um_metric r, um_period r)"
  let ?f = "\<lambda>r :: usage_row. r\<lparr>um_value := um_value r + amount, um_updated_at := ts\<rparr>"
  have "map ?key (upd_where P ?f xs) = map ?key xs" for P xs
    by (rule map_upd_where) simp
  with assms show ?thesis
    by (auto simp: bump_meter_def meters_unique_def Let_def list_ex_iff split: if_splits)
qed

lemma bump_one:
  fixes xs :: "usage_row list"
  assumes "distinct (map (\<lambda>r. (um_tenant_id r, um_metric r, um_period r)) xs)"
    and "\<exists>r\<in>set xs. um_tenant_id r = t \<and> um_metric r = m \<and> um_period r = p"
  shows "sum_list (map um_value (filter (\<lambda>r. um_tenant_id r = t \<and> um_metric r = m \<and> um_period r = p)
      (upd_where (\<lambda>r. um_tenant_id r = t \<and> um_metric r = m \<and> um_period r = p)
         (\<lambda>r. r\<lparr>um_value := um_value r + amount, um_updated_at := ts\<rparr>) xs)))
    = sum_list (map um_value (filter (\<lambda>r. um_tenant_id r = t \<and> um_metric r = m \<and> um_period r = p) xs)) + amount"
  using assms
proof (induction xs)
  case (Cons a xs)
  show ?case
  proof (cases "um_tenant_id a = t \<and> um_metric a = m \<and> um_period a = p")
    case True
    with Cons.prems(1) have "\<forall>r\<in>set xs. \<not> (um_tenant_id r = t \<and> um_metric r = m \<and> um_period r = p)"
      by (auto simp: image_iff)
    with True show ?thesis by (simp add: upd_where_none filter_False)
  next
    case False
    with Cons show ?thesis by auto
  qed
qed simp

text \<open>A bump adds the amount to its counter, whether or not the row existed, and to no other.\<close>

lemma bump_meter_value:
  assumes "meters_unique d" "bump_meter t metric period amount uid ts d = Inr (x, d')"
  shows "meter_value d' t metric period = meter_value d t metric period + amount"
proof (cases "\<exists>r\<in>set (usage_meters d). um_tenant_id r = t \<and> um_metric r = metric \<and> um_period r = period")
  case True
  with assms show ?thesis
    using bump_one [where xs = "usage_meters d" and t = t and m = metric and p = period]
    by (auto simp: bump_meter_def Let_def list_ex_iff meter_value_def meters_unique_def)
next
  case False
  then have "filter (\<lambda>r. um_tenant_id r = t \<and> um_metric r = metric \<and> um_period r = period)
      (usage_meters d) = []" by (auto simp: filter_empty_conv)
  with False assms show ?thesis
    by (auto simp: bump_meter_def Let_def list_ex_iff meter_value_def split: if_splits)
qed

lemma meter_api_call_never_fails: "never_fails (meter_api_call k ctx)"
  by (simp add: never_fails_def meter_api_call_def ignoreK_def)

lemma keeps_isolated_record_usage [frame_rules]: "keeps (isolated t) (record_usage k t metric amount)"
  unfolding record_usage_def current_period_def Let_def
  by (intro frame_rules) (auto simp: bump_meter_def isolated_def Let_def intro!: others_upd_where split: if_splits)

lemma keeps_isolated_meter: "keeps (isolated (tenant_id ctx)) (meter_api_call k ctx)"
  unfolding meter_api_call_def by (intro frame_rules)

end
