(* ===== verification/Tenants.thy ===== *)
theory Tenants
  imports Identity
begin

text \<open>
  Tenants, organizations and workspaces (\<open>kernel/src/tenant.rs\<close>), and the bootstrap that
  provisions a tenant: the tenant row, its default organization, the two system roles, and the
  first administrator, in one transaction.
\<close>

record bootstrap_result =
  bs_tenant :: tenant_row
  bs_org :: organization_row
  bs_admin_user_id :: string

section \<open>Slugs\<close>

definition slug_edge :: "char \<Rightarrow> bool" where
  "slug_edge c \<longleftrightarrow> is_lower c \<or> is_digit c"

definition validate_slug :: "string \<Rightarrow> api_error + unit" where
  "validate_slug slug =
     (let ok = 2 \<le> length slug \<and> length slug \<le> 63 \<and>
               list_all (\<lambda>c. slug_edge c \<or> c = CHR ''-'' \<or> c = CHR ''_'') slug \<and>
               (case slug of [] \<Rightarrow> False | c # _ \<Rightarrow> slug_edge c) \<and>
               (case rev slug of [] \<Rightarrow> False | c # _ \<Rightarrow> slug_edge c)
      in if ok then Inr ()
         else Inl (validation (''slug must be 2-63 chars of lowercase letters, digits, hyphens, or '' @
                ''underscores, starting and ending alphanumeric'')))"

lemma validate_slug_iff: "validate_slug slug = Inr () \<longleftrightarrow>
    2 \<le> length slug \<and> length slug \<le> 63 \<and>
    (\<forall>c\<in>set slug. slug_edge c \<or> c \<in> {CHR ''-'', CHR ''_''}) \<and>
    slug_edge (hd slug) \<and> slug_edge (last slug)"
proof (cases slug rule: rev_cases)
  case (snoc m z)
  then show ?thesis
    by (cases m) (auto simp: validate_slug_def Let_def list_all_iff)
qed (simp add: validate_slug_def)

section \<open>Bootstrap\<close>

definition insert_tenant :: "kernel \<Rightarrow> tenant_row \<Rightarrow> unit kern" where
  "insert_tenant k t =
     stmt k (\<lambda>d. sql_insert
       (tn_id t \<notin> tn_id ` set (tenants d) \<and> tn_slug t \<notin> tn_slug ` set (tenants d)) True
       (d\<lparr>tenants := tenants d @ [t]\<rparr>))"

definition insert_organization :: "kernel \<Rightarrow> organization_row \<Rightarrow> unit kern" where
  "insert_organization k og =
     stmt k (\<lambda>d. sql_insert
       (og_id og \<notin> og_id ` set (organizations d) \<and>
        (og_tenant_id og, og_slug og) \<notin> (\<lambda>r. (og_tenant_id r, og_slug r)) ` set (organizations d))
       (tenant_exists d (og_tenant_id og))
       (d\<lparr>organizations := organizations d @ [og]\<rparr>))"

text \<open>The role rows get fresh ids; the other columns are those of \<open>system_roles\<close>.\<close>

definition insert_system_role :: "kernel \<Rightarrow> string \<Rightarrow> string \<Rightarrow> role_t \<Rightarrow> unit kern" where
  "insert_system_role k t ts role =
     bindK (new_id k) (\<lambda>rid.
     insert_role k \<lparr>ro_tenant_id = t, ro_role = role\<lparr>role_id := rid\<rparr>, ro_created_at = ts\<rparr>)"

definition first_tenant :: "string \<Rightarrow> string \<Rightarrow> string \<Rightarrow> string \<Rightarrow> tenant_row" where
  "first_tenant tid name slug ts =
     \<lparr>tn_id = tid, tn_name = name, tn_slug = slug, tn_plan = ''standard'', tn_status = ''active'',
      tn_created_at = ts\<rparr>"

definition default_org :: "string \<Rightarrow> string \<Rightarrow> string \<Rightarrow> string \<Rightarrow> organization_row" where
  "default_org oid tid name ts =
     \<lparr>og_id = oid, og_tenant_id = tid, og_name = name, og_slug = ''default'', og_created_at = ts\<rparr>"

definition first_admin ::
  "string \<Rightarrow> string \<Rightarrow> string \<Rightarrow> string \<Rightarrow> string \<Rightarrow> string \<Rightarrow> string \<Rightarrow> user_row" where
  "first_admin admin_id tid oid email name pw_hash ts =
     \<lparr>us_id = admin_id, us_tenant_id = tid, us_email = email, us_name = name,
      us_password_hash = pw_hash, us_status = ''active'', us_is_platform_admin = False,
      us_default_org_id = Some oid, us_created_at = ts\<rparr>"

text \<open>The transaction of the bootstrap.\<close>

definition provision ::
  "kernel \<Rightarrow> auth_context \<Rightarrow> string \<Rightarrow> string \<Rightarrow> user_row \<Rightarrow> string \<Rightarrow> unit kern" where
  "provision k ctx name slug admin ts =
     seqK (insert_tenant k (first_tenant (tenant_id ctx) name slug ts)) (
     seqK (insert_organization k (default_org (org_id ctx) (tenant_id ctx) name ts)) (
     seqK (forK (insert_system_role k (tenant_id ctx) ts) system_roles) (
     seqK (insert_user k admin) (
     seqK (new_assignment k ctx ''user'' (us_id admin) ''tenant_admin'' ts)
          (audit_change k ctx ''tenant.create'' (Some ''tenant'') (Some (tenant_id ctx)) None
             (Some (jobj [(''name'', JString name), (''slug'', JString slug),
                          (''admin'', JString (us_email admin))])) (\<lambda>ev. ev))))))"

definition bootstrap_tenant ::
  "kernel \<Rightarrow> string \<Rightarrow> string \<Rightarrow> string \<Rightarrow> string \<Rightarrow> string \<Rightarrow> bootstrap_result kern" where
  "bootstrap_tenant k name slug0 admin_email0 admin_name admin_password =
     (let slug = to_lowercase (trim slug0); admin_email = normalize_email admin_email0 in
      seqK (resK (validate_slug slug)) (
      seqK (resK (validate_email admin_email)) (
      seqK (resK (validate_password_strength admin_password)) (
      bindK (now_rfc3339 k) (\<lambda>ts.
      bindK (new_id k) (\<lambda>tid.
      bindK (new_id k) (\<lambda>oid.
      bindK (new_id k) (\<lambda>admin_id.
      bindK (new_id k) (\<lambda>rid.
      bindK (hash_password k admin_password) (\<lambda>pw_hash.
      seqK (transaction k (provision k (system_ctx rid tid oid) name slug
             (first_admin admin_id tid oid admin_email admin_name pw_hash ts) ts))
      (retK \<lparr>bs_tenant = first_tenant tid name slug ts, bs_org = default_org oid tid name ts,
             bs_admin_user_id = admin_id\<rparr>)))))))))))"

section \<open>Reading and managing tenants\<close>

definition get_tenant :: "kernel \<Rightarrow> auth_context \<Rightarrow> tenant_row kern" where
  "get_tenant k ctx =
     seqK (authorize k ctx Read ''tenant'' None)
       (bindK (query k (\<lambda>d. find (\<lambda>r. tn_id r = tenant_id ctx) (tenants d)))
          (someK (not_found ''tenant not found'')))"

definition list_tenants :: "kernel \<Rightarrow> auth_context \<Rightarrow> tenant_row list kern" where
  "list_tenants k ctx =
     (if \<not> is_platform_admin ctx \<and> \<not> is_system ctx
      then seqK (audit_denial k ctx ''read'' ''platform:tenants'' None)
             (failK (forbidden ''platform admin required''))
      else query k (\<lambda>d. order_desc tn_created_at (tenants d)))"

definition list_organizations :: "kernel \<Rightarrow> auth_context \<Rightarrow> organization_row list kern" where
  "list_organizations k ctx =
     seqK (authorize k ctx Read ''organization'' None)
       (query k (\<lambda>d. sort_key og_created_at
          (filter (\<lambda>r. og_tenant_id r = tenant_id ctx) (organizations d))))"

definition tenants_exist :: "kernel \<Rightarrow> bool kern" where
  "tenants_exist k = query k (\<lambda>d. tenants d \<noteq> [])"

definition set_tenant_status ::
  "kernel \<Rightarrow> auth_context \<Rightarrow> string \<Rightarrow> string \<Rightarrow> tenant_row kern" where
  "set_tenant_status k ctx tid status =
     (if \<not> is_platform_admin ctx \<and> \<not> is_system ctx
      then seqK (audit_denial k ctx ''configure'' ''platform:tenants'' None)
             (failK (forbidden ''platform admin required''))
      else
        seqK (guardK (status \<in> {''active'', ''suspended''})
                (validation (''status must be '' @ quoted ''active'' @ '' or '' @ quoted ''suspended''))) (
        bindK (query k (\<lambda>d. find (\<lambda>r. tn_id r = tid) (tenants d))) (\<lambda>found.
        bindK (someK (not_found ''tenant not found'') found) (\<lambda>row.
        seqK (transaction k (
          seqK (update_stmt k (\<lambda>d. d\<lparr>tenants :=
                  upd_where (\<lambda>r. tn_id r = tid) (\<lambda>r. r\<lparr>tn_status := status\<rparr>) (tenants d)\<rparr>))
               (audit_change k ctx ''tenant.set_status'' (Some ''tenant'') (Some tid)
                  (Some (jobj [(''status'', JString (tn_status row))]))
                  (Some (jobj [(''status'', JString status)])) (\<lambda>ev. ev))))
        (retK (row\<lparr>tn_status := status\<rparr>))))))"

definition insert_workspace :: "kernel \<Rightarrow> workspace_row \<Rightarrow> unit kern" where
  "insert_workspace k w =
     stmt k (\<lambda>d. sql_insert (wk_id w \<notin> wk_id ` set (workspaces d))
       (tenant_exists d (wk_tenant_id w) \<and> wk_org_id w \<in> og_id ` set (organizations d))
       (d\<lparr>workspaces := workspaces d @ [w]\<rparr>))"

definition create_workspace :: "kernel \<Rightarrow> auth_context \<Rightarrow> string \<Rightarrow> workspace_row kern" where
  "create_workspace k ctx name =
     seqK (authorize k ctx Configure ''organization'' None) (
     bindK (new_id k) (\<lambda>wid.
     bindK (now_rfc3339 k) (\<lambda>ts.
     let w = \<lparr>wk_id = wid, wk_tenant_id = tenant_id ctx, wk_org_id = org_id ctx, wk_name = name,
              wk_created_at = ts\<rparr> in
     seqK (transaction k (
       seqK (insert_workspace k w)
            (audit_change k ctx ''workspace.create'' (Some ''workspace'') (Some wid) None
               (Some (jobj [(''name'', JString name)])) (\<lambda>ev. ev))))
     (retK w))))"

section \<open>Facts\<close>

lemma insert_tenant_Inr: "insert_tenant k t s = (Inr x, s') \<longleftrightarrow>
    \<not> db_fault k (tick s) \<and> tn_id t \<notin> tn_id ` set (tenants (db s)) \<and>
    tn_slug t \<notin> tn_slug ` set (tenants (db s)) \<and>
    s' = s\<lparr>tick := Suc (tick s), db := (db s)\<lparr>tenants := tenants (db s) @ [t]\<rparr>\<rparr>"
  by (auto simp: insert_tenant_def run_inv)

text \<open>Adding a row never drops one: every table of the identity layer only grows.\<close>

definition grows :: "database \<Rightarrow> database \<Rightarrow> bool" where
  "grows d d' \<longleftrightarrow> set (tenants d) \<subseteq> set (tenants d') \<and> set (roles d) \<subseteq> set (roles d') \<and>
     set (users d) \<subseteq> set (users d') \<and> set (role_assignments d) \<subseteq> set (role_assignments d')"

interpretation grows: db_frame grows
  by unfold_locales (auto simp: grows_def)

lemma growsD: "m s = (r, s') \<Longrightarrow> keeps grows m \<Longrightarrow> grows (db s) (db s')"
  by (rule keepsD)

lemma keeps_grows_rows [frame_rules]:
  "keeps grows (insert_user k u)" "keeps grows (insert_assignment k a)"
  "keeps grows (insert_role k r)" "keeps grows (insert_organization k og)"
  "keeps grows (audit_change k ctx act ty target prev after decorate)"
  unfolding insert_user_def insert_assignment_def insert_role_def insert_organization_def
    audit_change_def insert_audit_def
  by (intro frame_rules, auto simp: grows_def log_audit_def)+

lemma keeps_grows_new_assignment [frame_rules]: "keeps grows (new_assignment k ctx ty p key ts)"
  unfolding new_assignment_def by (intro frame_rules)

lemma keeps_grows_system_role [frame_rules]: "keeps grows (insert_system_role k t ts role)"
  unfolding insert_system_role_def by (intro frame_rules)

lemma insert_system_role_Inr:
  assumes "insert_system_role k t ts role s = (Inr x, s')"
  shows "\<exists>rid. \<lparr>ro_tenant_id = t, ro_role = role\<lparr>role_id := rid\<rparr>, ro_created_at = ts\<rparr> \<in> set (roles (db s'))"
  using assms by (auto simp: insert_system_role_def insert_role_def run_inv)

lemma keeps_isolated_insert_organization [frame_rules]:
  "og_tenant_id og = t \<Longrightarrow> keeps (isolated t) (insert_organization k og)"
  unfolding insert_organization_def by (intro frame_rules) (auto simp: isolated_def)

lemma keeps_isolated_insert_tenant [frame_rules]:
  "tn_id tn = t \<Longrightarrow> keeps (isolated t) (insert_tenant k tn)"
  unfolding insert_tenant_def by (intro frame_rules) (auto simp: isolated_def)

lemma keeps_isolated_system_role [frame_rules]: "keeps (isolated t) (insert_system_role k t ts role)"
  unfolding insert_system_role_def by (intro frame_rules) simp

lemma keeps_isolated_create_workspace:
  "keeps (isolated (tenant_id ctx)) (create_workspace k ctx name)"
  unfolding create_workspace_def insert_workspace_def Let_def by (intro frame_rules refl | auto simp: isolated_def)+

lemma keeps_audited_create_workspace: "keeps audited (create_workspace k ctx name)"
  unfolding create_workspace_def insert_workspace_def Let_def
  by (intro frame_rules refl keeps_audited_transaction logs_seq_second logs_audit_change
      | auto simp: same_log_def)+

lemma keeps_audited_set_tenant_status: "keeps audited (set_tenant_status k ctx tid status)"
  unfolding set_tenant_status_def
  by (intro frame_rules refl keeps_audited_transaction logs_seq_second logs_audit_change
      | auto simp: same_log_def)+

text \<open>What a successful bootstrap leaves behind.\<close>

lemma bootstrap_tenant_Inr:
  assumes "bootstrap_tenant k name slug0 email0 admin_name pw s = (Inr res, s')"
  obtains tid where
    "validate_slug (to_lowercase (trim slug0)) = Inr ()"
    "validate_email (normalize_email email0) = Inr ()"
    "validate_password_strength pw = Inr ()"
    "tn_id (bs_tenant res) = tid" "tid \<notin> tn_id ` set (tenants (db s))"
    "to_lowercase (trim slug0) \<notin> tn_slug ` set (tenants (db s))"
    "bs_tenant res \<in> set (tenants (db s'))"
    "\<exists>rid ts. \<lparr>ro_tenant_id = tid, ro_role = (hd system_roles)\<lparr>role_id := rid\<rparr>, ro_created_at = ts\<rparr>
        \<in> set (roles (db s'))"
    "''tenant_admin'' \<in> set (role_keys_of (db s') tid (bs_admin_user_id res))"
    "isolated tid (db s) (db s')"
proof -
  let ?slug = "to_lowercase (trim slug0)" and ?email = "normalize_email email0"
  from assms obtain v1 v2 v3 ts tid oid admin rid pwh s0 s1 s2 s3 s4 s5 s6 x where
    v0: "validate_slug ?slug = Inr v1" "validate_email ?email = Inr v2" "validate_password_strength pw = Inr v3" and
    e: "now_rfc3339 k s = (Inr ts, s0)" "new_id k s0 = (Inr tid, s1)" "new_id k s1 = (Inr oid, s2)"
       "new_id k s2 = (Inr admin, s3)" "new_id k s3 = (Inr rid, s4)"
       "hash_password k pw s4 = (Inr pwh, s5)" and
    tx: "transaction k (provision k (system_ctx rid tid oid) name ?slug
           (first_admin admin tid oid ?email admin_name pwh ts) ts) s5 = (Inr x, s6)" and
    ret: "retK \<lparr>bs_tenant = first_tenant tid name ?slug ts, bs_org = default_org oid tid name ts,
             bs_admin_user_id = admin\<rparr> s6 = (Inr res, s')"
    unfolding bootstrap_tenant_def Let_def bindK_Inr seqK_Inr resK_Inr by blast
  have v: "validate_slug ?slug = Inr ()" "validate_email ?email = Inr ()" "validate_password_strength pw = Inr ()"
    using v0 by simp_all
  have d5: "db s5 = db s"
    using e by (auto simp: new_id_Inr now_rfc3339_Inr hash_password_def)
  have res: "bs_tenant res = first_tenant tid name ?slug ts" "bs_admin_user_id res = admin" "s' = s6"
    using ret by simp_all
  let ?ctx = "system_ctx rid tid oid" and ?admin = "first_admin admin tid oid ?email admin_name pwh ts"
  have ctx: "tenant_id ?ctx = tid" by (simp add: system_ctx_def)
  have "keeps (isolated tid) (transaction k (provision k ?ctx name ?slug ?admin ts))"
    unfolding provision_def ctx
    by (intro frame_rules refl | simp add: ctx first_tenant_def default_org_def first_admin_def)+
  from keepsD [OF this tx] have iso: "isolated tid (db s) (db s')" using d5 res by simp
  from tx obtain u0 u2 where p: "provision k ?ctx name ?slug ?admin ts u0 = (Inr (), u2)" and
    u: "db u0 = db s" "db s' = db u2"
    using d5 res unfolding transaction_Inr by fastforce
  from p obtain u1 w1 w2 w3 w4 y0 y1 y2 y3 y4 where
    i1: "insert_tenant k (first_tenant tid name ?slug ts) u0 = (Inr y0, u1)" and
    r1: "insert_organization k (default_org oid tid name ts) u1 = (Inr y1, w1)" and
    r2: "forK (insert_system_role k tid ts) system_roles w1 = (Inr y2, w2)" and
    r3: "insert_user k ?admin w2 = (Inr y3, w3)" and
    r4: "new_assignment k ?ctx ''user'' (us_id ?admin) ''tenant_admin'' ts w3 = (Inr y4, w4)" and
    r5: "audit_change k ?ctx ''tenant.create'' (Some ''tenant'') (Some tid) None
                (Some (jobj [(''name'', JString name), (''slug'', JString ?slug),
                             (''admin'', JString (us_email ?admin))])) (\<lambda>ev. ev) w4 = (Inr (), u2)"
    unfolding provision_def seqK_Inr ctx by (auto simp: system_ctx_def)
  have g1: "grows (db u1) (db w1)" using r1 by (rule growsD) (intro frame_rules)
  have g2: "grows (db w1) (db w2)" using r2 by (rule growsD) (intro frame_rules)
  have g3: "grows (db w2) (db w3)" using r3 by (rule growsD) (intro frame_rules)
  have g4: "grows (db w3) (db w4)" using r4 by (rule growsD) (intro frame_rules)
  have g5: "grows (db w4) (db u2)" using r5 by (rule growsD) (intro frame_rules)
  note g = g1 g2 g3 g4 g5
  from i1 u have tn: "tid \<notin> tn_id ` set (tenants (db s))" "?slug \<notin> tn_slug ` set (tenants (db s))"
    "first_tenant tid name ?slug ts \<in> set (tenants (db u1))"
    by (simp_all add: insert_tenant_Inr first_tenant_def)
  have tn': "first_tenant tid name ?slug ts \<in> set (tenants (db u2))"
    using tn(3) g unfolding grows_def by blast
  from r2 obtain v1 z1 z2 where
    f: "insert_system_role k tid ts (hd system_roles) w1 = (Inr z1, v1)"
       "forK (insert_system_role k tid ts) (tl system_roles) v1 = (Inr z2, w2)"
    unfolding system_roles_def forK.simps seqK_Inr list.sel by blast
  have g': "grows (db v1) (db w2)" using f(2) by (rule growsD) (intro frame_rules)
  from insert_system_role_Inr [OF f(1)] obtain rid' where
    "\<lparr>ro_tenant_id = tid, ro_role = (hd system_roles)\<lparr>role_id := rid'\<rparr>, ro_created_at = ts\<rparr> \<in> set (roles (db v1))"
    by blast
  with g g' have ro: "\<lparr>ro_tenant_id = tid, ro_role = (hd system_roles)\<lparr>role_id := rid'\<rparr>, ro_created_at = ts\<rparr>
      \<in> set (roles (db u2))" unfolding grows_def by blast
  from r4 have "\<exists>a\<in>set (role_assignments (db w4)). ra_tenant_id a = tid \<and> ra_principal_id a = admin \<and>
      ra_role_key a = ''tenant_admin''"
    by (auto simp: new_assignment_def insert_assignment_def run_inv system_ctx_def first_admin_def)
  with g(5) have "\<exists>a\<in>set (role_assignments (db u2)). ra_tenant_id a = tid \<and> ra_principal_id a = admin \<and>
      ra_role_key a = ''tenant_admin''" unfolding grows_def by blast
  then have ra: "''tenant_admin'' \<in> set (role_keys_of (db u2) tid admin)"
    by (auto simp: role_keys_of_def intro: rev_image_eqI)
  have tid: "tn_id (bs_tenant res) = tid" using res by (simp add: first_tenant_def)
  show thesis
    by (rule that [OF v tid tn(1,2) _ _ _ iso]) (use res tn' u ro ra in auto)
qed

text \<open>The grants of the administrator role cover everything but platform scope.\<close>

lemma tenant_admin_allows:
  assumes "row \<in> set (roles d)" "ro_tenant_id row = tenant_id ctx"
    "ro_role row = (hd system_roles)\<lparr>role_id := rid\<rparr>" "''tenant_admin'' \<in> set (role_keys ctx)"
  shows "allowed k d ctx act resource target"
proof -
  let ?g = "(new_grant Manage ''*'' Tenant)\<lparr>g_fields := Some deny_nothing\<rparr>"
  have "?g \<in> set (role_grants (ro_role row))" "role_key (ro_role row) = ''tenant_admin''"
    by (simp_all add: assms(3) system_roles_def)
  moreover have "grant_covers k ctx act resource target ?g"
    by (simp add: grant_covers_def action_covered_by_def new_grant_def matches_resource_def scope_ok_def
        conditions_ok_def)
  ultimately show ?thesis
    using assms unfolding allowed_def granted_def by fastforce
qed

end
