(* ===== verification/Invariants.thy ===== *)
theory Invariants
  imports Auth BuilderFacts Transitions Usage Tenants
begin

text \<open>
  What holds of the database in every state the services can reach: the keys of each table are
  unique, every row belongs to a known tenant, every stored object type and workflow passed its
  validation, no user is a platform administrator; and what no service ever does: shorten the
  audit log, or touch an approval that has been decided. All of this is one relation \<open>evolves\<close>
  between the database before and after, a \<open>denial_frame\<close> built with the locale \<open>invariant\<close>;
  each operation of the kernel keeps it.
\<close>

section \<open>The interface of an invariant\<close>

locale invariant =
  fixes I :: "database \<Rightarrow> bool"
  assumes ignores_log: "I (log_audit ev d) = I d"
begin

definition preserves :: "database \<Rightarrow> database \<Rightarrow> bool" where
  "preserves d d' \<longleftrightarrow> (I d \<longrightarrow> I d')"

end

sublocale invariant \<subseteq> preserves: denial_frame preserves t for t
  by unfold_locales (auto simp: preserves_def ignores_log)

section \<open>Unique keys\<close>

definition uniq :: "('a \<Rightarrow> 'k) \<Rightarrow> 'a list \<Rightarrow> bool" where
  "uniq f xs \<longleftrightarrow> distinct (map f xs)"

lemma uniq_Nil [simp]: "uniq f []"
  by (simp add: uniq_def)

lemma uniq_snoc [simp]: "uniq f (xs @ [x]) \<longleftrightarrow> uniq f xs \<and> f x \<notin> f ` set xs"
  by (auto simp: uniq_def)

lemma uniq_upd_where [simp]: "(\<And>x. f (g x) = f x) \<Longrightarrow> uniq f (upd_where P g xs) = uniq f xs"
  by (simp add: uniq_def map_upd_where)

lemma uniq_filter [simp]: "uniq f xs \<Longrightarrow> uniq f (filter P xs)"
  by (simp add: uniq_def distinct_map_filter)

definition relation_key :: "relation_row \<Rightarrow> string \<times> string \<times> string \<times> string" where
  "relation_key r = (rl_tenant_id r, rl_from_record r, rl_to_record r, rl_relation_type r)"

definition keys_unique :: "database \<Rightarrow> bool" where
  "keys_unique d \<longleftrightarrow>
     uniq tn_id (tenants d) \<and> uniq tn_slug (tenants d) \<and> uniq og_id (organizations d) \<and>
     uniq wk_id (workspaces d) \<and> uniq us_id (users d) \<and>
     uniq (\<lambda>r. (us_tenant_id r, us_email r)) (users d) \<and> uniq sa_id (service_accounts d) \<and>
     uniq (\<lambda>r. (ro_tenant_id r, role_key (ro_role r))) (roles d) \<and>
     uniq assignment_key (role_assignments d) \<and> uniq ak_token_hash (api_keys d) \<and>
     uniq ak_id (api_keys d) \<and>
     uniq ss_token_hash (sessions d) \<and>
     uniq (\<lambda>r. (ob_tenant_id r, ot_key (ob_def r))) (object_types d) \<and>
     uniq r_id (records d) \<and> uniq (\<lambda>r. (wr_tenant_id r, wr_key r)) (workflows d) \<and>
     uniq tk_id (tasks d) \<and> uniq ap_id (approvals d) \<and> uniq ev_id (events d) \<and>
     uniq (\<lambda>r. (bf_tenant_id r, bf_key r)) (builder_drafts d) \<and>
     uniq (\<lambda>r. (rp_tenant_id r, rd_key (rp_def r))) (reports d) \<and>
     uniq (\<lambda>r. (dr_tenant_id r, da_key (dr_dashboard r))) (dashboards d) \<and>
     uniq (\<lambda>r. (um_tenant_id r, um_metric r, um_period r)) (usage_meters d) \<and>
     uniq se_tenant_id (migration_sessions d) \<and>
     uniq (\<lambda>r. (og_tenant_id r, og_slug r)) (organizations d) \<and>
     uniq (role_id \<circ> ro_role) (roles d) \<and> uniq ra_id (role_assignments d) \<and>
     uniq ss_id (sessions d) \<and> uniq (ot_id \<circ> ob_def) (object_types d) \<and>
     uniq bf_id (builder_drafts d) \<and> uniq rl_id (relations d) \<and> uniq relation_key (relations d) \<and>
     uniq wr_id (workflows d) \<and> uniq rp_id (reports d) \<and> uniq dr_id (dashboards d) \<and>
     uniq um_id (usage_meters d)"

section \<open>Foreign keys\<close>

definition tenants_known :: "database \<Rightarrow> bool" where
  "tenants_known d \<longleftrightarrow>
     (let known = (\<lambda>t. t \<in> tn_id ` set (tenants d)) in
      (\<forall>r\<in>set (organizations d). known (og_tenant_id r)) \<and>
      (\<forall>r\<in>set (workspaces d). known (wk_tenant_id r)) \<and>
      (\<forall>r\<in>set (users d). known (us_tenant_id r)) \<and>
      (\<forall>r\<in>set (service_accounts d). known (sa_tenant_id r)) \<and>
      (\<forall>r\<in>set (roles d). known (ro_tenant_id r)) \<and>
      (\<forall>r\<in>set (role_assignments d). known (ra_tenant_id r)) \<and>
      (\<forall>r\<in>set (api_keys d). known (ak_tenant_id r)) \<and>
      (\<forall>r\<in>set (sessions d). known (ss_tenant_id r) \<and> ss_user_id r \<in> us_id ` set (users d)) \<and>
      (\<forall>r\<in>set (object_types d). known (ob_tenant_id r)) \<and>
      (\<forall>r\<in>set (records d). known (r_tenant_id r)) \<and>
      (\<forall>r\<in>set (workflows d). known (wr_tenant_id r)) \<and>
      (\<forall>r\<in>set (tasks d). known (tk_tenant_id r)) \<and>
      (\<forall>r\<in>set (approvals d). known (ap_tenant_id r)) \<and>
      (\<forall>r\<in>set (builder_drafts d). known (bf_tenant_id r)) \<and>
      (\<forall>r\<in>set (relations d). known (rl_tenant_id r)) \<and>
      (\<forall>r\<in>set (reports d). known (rp_tenant_id r)) \<and>
      (\<forall>r\<in>set (dashboards d). known (dr_tenant_id r)) \<and>
      (\<forall>r\<in>set (migration_sessions d). known (se_tenant_id r)) \<and>
      (\<forall>r\<in>set (workspaces d). wk_org_id r \<in> og_id ` set (organizations d)) \<and>
      (\<forall>r\<in>set (service_accounts d). sa_org_id r \<in> og_id ` set (organizations d)))"

section \<open>Stored definitions\<close>

definition definitions_valid :: "database \<Rightarrow> bool" where
  "definitions_valid d \<longleftrightarrow>
     (\<forall>row\<in>set (object_types d). object_type_ok (ob_def row)) \<and>
     (\<forall>row\<in>set (workflows d). workflow_ok (wr_definition row) \<and> wr_key row = wf_key (wr_definition row))"

definition no_platform_admin :: "database \<Rightarrow> bool" where
  "no_platform_admin d \<longleftrightarrow> (\<forall>u\<in>set (users d). \<not> us_is_platform_admin u)"

text \<open>An approval is only ever requested for a transition, so it has a record and a target state.\<close>

definition approvals_targeted :: "database \<Rightarrow> bool" where
  "approvals_targeted d \<longleftrightarrow>
     (\<forall>a\<in>set (approvals d). ap_related_record_id a \<noteq> None \<and> ap_target_state a \<noteq> None)"

definition db_inv :: "database \<Rightarrow> bool" where
  "db_inv d \<longleftrightarrow> keys_unique d \<and> tenants_known d \<and> definitions_valid d \<and> no_platform_admin d \<and>
     approvals_targeted d"

lemmas db_inv_defs = db_inv_def keys_unique_def tenants_known_def definitions_valid_def
  no_platform_admin_def approvals_targeted_def Let_def

lemma db_inv_log [simp]: "db_inv (d\<lparr>audit_logs := als\<rparr>) = db_inv d"
  by (simp add: db_inv_defs)

interpretation db_inv: invariant db_inv
  by unfold_locales (simp add: log_audit_def)

lemma db_inv_empty: "db_inv empty_db"
  by (simp add: db_inv_defs empty_db_def)

section \<open>Decided approvals\<close>

definition decided_final :: "database \<Rightarrow> database \<Rightarrow> bool" where
  "decided_final d d' \<longleftrightarrow>
     (\<forall>a\<in>set (approvals d). ap_status a \<noteq> ''pending'' \<longrightarrow> a \<in> set (approvals d'))"

section \<open>The relation\<close>

definition evolves :: "database \<Rightarrow> database \<Rightarrow> bool" where
  "evolves d d' \<longleftrightarrow>
     appends d d' \<and> log_ids_kept d d' \<and> (db_inv d \<longrightarrow> db_inv d' \<and> decided_final d d')"

interpretation evolves: denial_frame evolves t for t
proof unfold_locales
  show "evolves d d" for d
    by (simp add: evolves_def decided_final_def appends.frame_refl)
  show "evolves d d''" if "evolves d d'" "evolves d' d''" for d d' d''
    using that unfolding evolves_def
    by (auto simp: decided_final_def intro: appends.frame_trans log_ids_kept_trans)
  show "evolves d (log_audit ev d)"
    if "a_tenant_id ev = t" "a_action ev = ''permission.denied''" "a_id ev \<notin> a_id ` set (audit_logs d)" for ev d
    using that by (simp add: evolves_def decided_final_def db_inv.ignores_log appends_def)
qed

lemma evolvesI:
  assumes "audit_logs d' = audit_logs d" "approvals d' = approvals d" "db_inv d \<Longrightarrow> db_inv d'"
  shows "evolves d d'"
  using assms by (auto simp: evolves_def appends_def decided_final_def)

section \<open>The statements\<close>

lemma keeps_evolves_rows [frame_rules]:
  "\<not> us_is_platform_admin u \<Longrightarrow> keeps evolves (insert_user k u)"
  "keeps evolves (insert_assignment k a)" "keeps evolves (insert_role k r)"
  "keeps evolves (insert_service_account k sa)" "keeps evolves (insert_api_key k ak)"
  "keeps evolves (insert_tenant k tn)" "keeps evolves (insert_organization k og)"
  "keeps evolves (insert_session k row)"
  unfolding insert_user_def insert_assignment_def insert_role_def insert_service_account_def
    insert_api_key_def insert_tenant_def insert_organization_def insert_session_def
  by (intro frame_rules evolvesI; force simp: db_inv_defs tenant_exists_def)+

lemma keeps_evolves_insert_record [frame_rules]: "keeps evolves (insert_record k r)"
  unfolding insert_record_def
  by (intro frame_rules evolvesI) (auto simp: db_inv_defs tenant_exists_def)

lemma keeps_evolves_insert_object_type [frame_rules]:
  "object_type_ok def \<Longrightarrow> keeps evolves (insert_object_type k t def ts)"
  unfolding insert_object_type_def
  by (intro frame_rules evolvesI) (auto simp: db_inv_defs tenant_exists_def)

lemma keeps_evolves_insert_task [frame_rules]:
  "keeps evolves (insert_task k ctx tid kind title a ty rid data)"
  unfolding insert_task_def
  by (intro frame_rules evolvesI) (auto simp: db_inv_defs tenant_exists_def open_task_def)

lemma keeps_evolves_insert_approval [frame_rules]:
  "rid \<noteq> None \<Longrightarrow> st \<noteq> None \<Longrightarrow> keeps evolves (insert_approval k ctx aid pol ty rid tk st risk data)"
  unfolding insert_approval_def
  by (intro frame_rules) (auto simp: evolves_def appends_def decided_final_def
      db_inv_defs tenant_exists_def pending_approval_def)

lemma keeps_evolves_log [frame_rules]:
  "keeps evolves (insert_audit k ev)" "keeps evolves (audit k ev)"
  "keeps evolves (audit_change k ctx act ty target prev after decorate)"
  "keeps evolves (emit_on k ctx kind payload)" "keeps evolves (emit_event k ctx kind payload)"
proof -
  show i: "keeps evolves (insert_audit k ev)" for ev
    unfolding insert_audit_def
    by (intro frame_rules) (auto simp: evolves_def appends_def decided_final_def
        db_inv.ignores_log)
  show "keeps evolves (audit k ev)" "keeps evolves (audit_change k ctx act ty target prev after decorate)"
    unfolding audit_def audit_change_def by (intro frame_rules i)+
  show e: "keeps evolves (emit_on k ctx kind payload)"
    unfolding emit_on_def by (intro frame_rules evolvesI) (auto simp: db_inv_defs)
  show "keeps evolves (emit_event k ctx kind payload)"
    unfolding emit_event_def by (intro frame_rules e)
qed

lemma evolves_set_record [frame_rules]:
  "(\<And>r. r_id (f r) = r_id r) \<Longrightarrow> (\<And>r. r_tenant_id (f r) = r_tenant_id r) \<Longrightarrow> evolves d (set_record t rid f d)"
  by (rule evolvesI) (auto simp: db_inv_defs set_record_def set_upd_where)

lemma evolves_set_task [frame_rules]:
  "(\<And>r. tk_id (f r) = tk_id r) \<Longrightarrow> (\<And>r. tk_tenant_id (f r) = tk_tenant_id r) \<Longrightarrow> evolves d (set_task t rid f d)"
  by (rule evolvesI) (auto simp: db_inv_defs set_task_def set_upd_where)

lemma keeps_evolves_close_tasks [frame_rules]:
  "keeps evolves (close_tasks_for_approval k t aid status)"
  unfolding close_tasks_for_approval_def
  by (intro frame_rules evolvesI) (auto simp: db_inv_defs set_upd_where)

text \<open>An upsert on a two-column key, in its two cases.\<close>

lemma uniq_upd_pair:
  assumes "uniq (\<lambda>r. (a r, b r)) xs" "\<And>r. a (f r) = a r" "\<And>r. b r = c \<Longrightarrow> b (f r) = c"
  shows "uniq (\<lambda>r. (a r, b r)) (upd_where (\<lambda>r. a r = t \<and> b r = c) f xs)"
proof -
  have "map (\<lambda>r. (a r, b r)) (upd_where (\<lambda>r. a r = t \<and> b r = c) f xs) = map (\<lambda>r. (a r, b r)) xs"
    by (rule map_upd_where) (use assms in auto)
  with assms(1) show ?thesis by (simp add: uniq_def)
qed

lemma uniq_snoc_pair:
  "\<not> list_ex (\<lambda>r. a r = t \<and> b r = c) xs \<Longrightarrow> uniq (\<lambda>r. (a r, b r)) xs \<Longrightarrow> a x = t \<Longrightarrow> b x = c \<Longrightarrow>
     uniq (\<lambda>r. (a r, b r)) (xs @ [x])"
  by (auto simp: list_ex_iff)

text \<open>A table that is written by upserts on the tenant and a key, and has identifiers.\<close>

definition table_fine ::
  "('a \<Rightarrow> string) \<Rightarrow> ('a \<Rightarrow> string) \<Rightarrow> ('a \<Rightarrow> string) \<Rightarrow> database \<Rightarrow> 'a list \<Rightarrow> bool" where
  "table_fine ten key ident d xs \<longleftrightarrow>
     uniq (\<lambda>r. (ten r, key r)) xs \<and> uniq ident xs \<and> (\<forall>r\<in>set xs. ten r \<in> tn_id ` set (tenants d))"

lemma table_fine_upsert:
  assumes "table_fine ten key ident d xs" "\<And>r. ten (f r) = ten r" "\<And>r. ident (f r) = ident r"
    "\<And>r. key r = c \<Longrightarrow> key (f r) = c"
  shows "table_fine ten key ident d (upd_where (\<lambda>r. ten r = t \<and> key r = c) f xs)"
  using assms by (auto simp: table_fine_def set_upd_where simp del: uniq_upd_where intro: uniq_upd_pair)
    (simp add: uniq_upd_where)

lemma table_fine_upd:
  assumes "table_fine ten key ident d xs" "\<And>r. ten (f r) = ten r" "\<And>r. ident (f r) = ident r"
    "\<And>r. key (f r) = key r"
  shows "table_fine ten key ident d (upd_where P f xs)"
  using assms by (auto simp: table_fine_def set_upd_where)

lemma table_fine_snoc:
  assumes "table_fine ten key ident d xs" "\<not> list_ex (\<lambda>r. ten r = t \<and> key r = c) xs"
    "ident x \<notin> ident ` set xs" "tenant_exists d t" "ten x = t" "key x = c"
  shows "table_fine ten key ident d (xs @ [x])"
  using assms uniq_snoc_pair [OF assms(2), of x] by (simp add: table_fine_def tenant_exists_def)

lemma db_inv_tables:
  assumes "db_inv d"
  shows "table_fine rp_tenant_id (\<lambda>r. rd_key (rp_def r)) rp_id d (reports d)"
    "table_fine dr_tenant_id (\<lambda>r. da_key (dr_dashboard r)) dr_id d (dashboards d)"
    "table_fine bf_tenant_id bf_key bf_id d (builder_drafts d)"
  using assms by (simp_all add: db_inv_defs table_fine_def)

lemma db_inv_upserted:
  "db_inv d \<Longrightarrow> table_fine rp_tenant_id (\<lambda>r. rd_key (rp_def r)) rp_id d rp \<Longrightarrow> db_inv (d\<lparr>reports := rp\<rparr>)"
  "db_inv d \<Longrightarrow> table_fine dr_tenant_id (\<lambda>r. da_key (dr_dashboard r)) dr_id d dr \<Longrightarrow> db_inv (d\<lparr>dashboards := dr\<rparr>)"
  "db_inv d \<Longrightarrow> table_fine bf_tenant_id bf_key bf_id d bf \<Longrightarrow> db_inv (d\<lparr>builder_drafts := bf\<rparr>)"
  by (simp_all add: db_inv_defs table_fine_def)

text \<open>What the invariant says of the two tables of definitions.\<close>

definition workflows_fine :: "database \<Rightarrow> workflow_row list \<Rightarrow> bool" where
  "workflows_fine d ws \<longleftrightarrow>
     uniq (\<lambda>r. (wr_tenant_id r, wr_key r)) ws \<and> uniq wr_id ws \<and>
     (\<forall>r\<in>set ws. wr_tenant_id r \<in> tn_id ` set (tenants d) \<and> workflow_ok (wr_definition r) \<and>
        wr_key r = wf_key (wr_definition r))"

definition object_types_fine :: "database \<Rightarrow> object_type_row list \<Rightarrow> bool" where
  "object_types_fine d obs \<longleftrightarrow>
     uniq (\<lambda>r. (ob_tenant_id r, ot_key (ob_def r))) obs \<and> uniq (ot_id \<circ> ob_def) obs \<and>
     (\<forall>r\<in>set obs. ob_tenant_id r \<in> tn_id ` set (tenants d) \<and> object_type_ok (ob_def r))"

lemma db_inv_fine:
  "db_inv d \<Longrightarrow> workflows_fine d (workflows d)"
  "db_inv d \<Longrightarrow> object_types_fine d (object_types d)"
  "db_inv d \<Longrightarrow> workflows_fine d ws \<Longrightarrow> db_inv (d\<lparr>workflows := ws\<rparr>)"
  "db_inv d \<Longrightarrow> object_types_fine d obs \<Longrightarrow> db_inv (d\<lparr>object_types := obs\<rparr>)"
  by (simp_all add: db_inv_defs workflows_fine_def object_types_fine_def)

lemma db_inv_uniq:
  assumes "db_inv d"
  shows "uniq (\<lambda>r. (rp_tenant_id r, rd_key (rp_def r))) (reports d)"
    "uniq (\<lambda>r. (dr_tenant_id r, da_key (dr_dashboard r))) (dashboards d)"
    "uniq (\<lambda>r. (bf_tenant_id r, bf_key r)) (builder_drafts d)"
    "uniq tn_id (tenants d)" "uniq us_id (users d)" "uniq r_id (records d)" "uniq ap_id (approvals d)"
  using assms by (simp_all add: db_inv_defs)

lemma evolves_upsert_workflow:
  assumes "workflow_ok w" "upsert_workflow t w wid ts d = Inr (x, d')"
  shows "evolves d d'"
proof (cases "list_ex (\<lambda>r. wr_tenant_id r = t \<and> wr_key r = wf_key w) (workflows d)")
  case True
  let ?f = "\<lambda>r. r\<lparr>wr_object_type := wf_object_type w, wr_name := wf_name w, wr_definition := w\<rparr>"
  from True assms(2) have d': "d' = d\<lparr>workflows :=
      upd_where (\<lambda>r. wr_tenant_id r = t \<and> wr_key r = wf_key w) ?f (workflows d)\<rparr>"
    by (simp add: upsert_workflow_def)
  show ?thesis
    unfolding d'
  proof (rule evolvesI)
    assume "db_inv d"
    then have "workflows_fine d (workflows d)" by (rule db_inv_fine)
    then have "workflows_fine d
        (upd_where (\<lambda>r. wr_tenant_id r = t \<and> wr_key r = wf_key w) ?f (workflows d))"
      using assms(1) by (auto simp: workflows_fine_def set_upd_where)
    with \<open>db_inv d\<close> show "db_inv (d\<lparr>workflows :=
        upd_where (\<lambda>r. wr_tenant_id r = t \<and> wr_key r = wf_key w) ?f (workflows d)\<rparr>)"
      by (rule db_inv_fine)
  qed simp_all
next
  case False
  let ?row = "\<lparr>wr_id = wid, wr_tenant_id = t, wr_key = wf_key w,
       wr_object_type = wf_object_type w, wr_name = wf_name w, wr_definition = w, wr_created_at = ts\<rparr>"
  from False assms(2) have t: "tenant_exists d t" "wid \<notin> wr_id ` set (workflows d)"
    and d': "d' = d\<lparr>workflows := workflows d @ [?row]\<rparr>"
    by (simp_all add: upsert_workflow_def)
  show ?thesis
    unfolding d'
  proof (rule evolvesI)
    assume "db_inv d"
    then have "workflows_fine d (workflows d)" by (rule db_inv_fine)
    then have "workflows_fine d (workflows d @ [?row])"
      using False t assms(1) uniq_snoc_pair [OF False, of ?row]
      by (simp add: workflows_fine_def tenant_exists_def)
    with \<open>db_inv d\<close> show "db_inv (d\<lparr>workflows := workflows d @ [?row]\<rparr>)" by (rule db_inv_fine)
  qed simp_all
qed

lemma evolves_upsert_report: "upsert_report t def rid ts d = Inr (x, d') \<Longrightarrow> evolves d d'"
  by (auto simp: upsert_report_def Let_def simp del: uniq_snoc split: if_splits
      intro!: evolvesI db_inv_upserted table_fine_upsert table_fine_snoc db_inv_tables)

lemma evolves_upsert_dashboard: "upsert_dashboard t dash did ts d = Inr (x, d') \<Longrightarrow> evolves d d'"
  by (auto simp: upsert_dashboard_def Let_def simp del: uniq_snoc split: if_splits
      intro!: evolvesI db_inv_upserted table_fine_upsert table_fine_snoc db_inv_tables)

lemma evolves_upsert_draft: "upsert_draft t did st bdef ts d = Inr (x, d') \<Longrightarrow> evolves d d'"
  by (auto simp: upsert_draft_def Let_def simp del: uniq_snoc uniq_upd_where split: if_splits
      intro!: evolvesI db_inv_upserted table_fine_upsert table_fine_snoc db_inv_tables)

definition sessions_fine :: "database \<Rightarrow> migration_session list \<Rightarrow> bool" where
  "sessions_fine d xs \<longleftrightarrow>
     uniq se_tenant_id xs \<and> (\<forall>r\<in>set xs. se_tenant_id r \<in> tn_id ` set (tenants d))"

lemma db_inv_sessions:
  "db_inv d \<Longrightarrow> sessions_fine d (migration_sessions d)"
  "db_inv d \<Longrightarrow> sessions_fine d xs \<Longrightarrow> db_inv (d\<lparr>migration_sessions := xs\<rparr>)"
  by (simp_all add: db_inv_defs sessions_fine_def)

lemma sessions_fine_upd:
  "sessions_fine d xs \<Longrightarrow> (\<And>r. se_tenant_id (f r) = se_tenant_id r) \<Longrightarrow> sessions_fine d (upd_where P f xs)"
  by (auto simp: sessions_fine_def set_upd_where)

lemma sessions_fine_snoc:
  "sessions_fine d xs \<Longrightarrow> \<not> list_ex (\<lambda>se. se_tenant_id se = t) xs \<Longrightarrow> tenant_exists d t \<Longrightarrow>
     se_tenant_id x = t \<Longrightarrow> sessions_fine d (xs @ [x])"
  by (auto simp: sessions_fine_def list_ex_iff tenant_exists_def)

lemma evolves_upsert_session: "upsert_session t ms tg sn ts d = Inr (x, d') \<Longrightarrow> evolves d d'"
  by (auto simp: upsert_session_def set_session_def split: if_splits
      intro!: evolvesI db_inv_sessions(2) sessions_fine_upd sessions_fine_snoc intro: db_inv_sessions(1))

lemma evolves_bump_meter: "bump_meter t metric period amount uid ts d = Inr (x, d') \<Longrightarrow> evolves d d'"
  by (auto intro!: evolvesI simp: bump_meter_def db_inv_defs list_ex_iff split: if_splits)

lemma evolves_insert_relation: "insert_relation rel d = Inr (x, d') \<Longrightarrow> evolves d d'"
  by (rule evolvesI) (auto simp: insert_relation_def Let_def db_inv_defs relation_key_def tenant_exists_def
      split: if_splits)

lemmas evolves_upserts = evolves_upsert_workflow evolves_upsert_report evolves_upsert_dashboard
  evolves_upsert_draft evolves_upsert_session evolves_bump_meter evolves_insert_relation

lemma evolves_set_session [frame_rules]:
  "(\<And>r. se_tenant_id (f r) = se_tenant_id r) \<Longrightarrow> evolves d (set_session t f d)"
  by (rule evolvesI) (auto simp: set_session_def intro!: db_inv_sessions(2) sessions_fine_upd intro: db_inv_sessions(1))

text \<open>A guard is known in what follows it.\<close>

context db_frame begin

lemma keeps_after_guard: "(b \<Longrightarrow> keeps R m) \<Longrightarrow> keeps R (seqK (guardK b e) m)"
  by (cases b) (auto simp: guardK_def keeps_def seqK_def bindK_def retK_def failK_def frame_refl)

lemma keeps_after_res: "(\<And>x. r = Inr x \<Longrightarrow> keeps R m) \<Longrightarrow> keeps R (seqK (resK r) m)"
  by (cases r) (auto simp: resK_def keeps_def seqK_def bindK_def retK_def failK_def frame_refl)

end

section \<open>The operations\<close>

lemma keeps_evolves_create_object_type [frame_rules]: "keeps evolves (create_object_type k ctx def)"
  unfolding create_object_type_def
  by (rule evolves.keeps_seqK, rule evolves.keeps_authorize, rule refl, rule evolves.keeps_after_res)
    (intro frame_rules, auto simp: validate_object_type_iff object_type_ok_def)

lemma keeps_evolves_update_object_type [frame_rules]:
  "keeps evolves (update_object_type k ctx key def)"
proof -
  have ok: "object_type_ok (ob_def (replace_object_type def row))"
    if "object_type_ok def" "object_type_ok (ob_def row)" for row
    using that by (simp add: object_type_ok_def)
  have "evolves d (d\<lparr>object_types := upd_where P (replace_object_type def) (object_types d)\<rparr>)"
    if "object_type_ok def" for d P
  proof (rule evolvesI)
    assume "db_inv d"
    then have "object_types_fine d (object_types d)" by (rule db_inv_fine)
    then have "object_types_fine d (upd_where P (replace_object_type def) (object_types d))"
      using ok [OF that] by (auto simp: object_types_fine_def set_upd_where)
    with \<open>db_inv d\<close>
    show "db_inv (d\<lparr>object_types := upd_where P (replace_object_type def) (object_types d)\<rparr>)"
      by (rule db_inv_fine)
  qed simp_all
  then show ?thesis
    unfolding update_object_type_def
    by (intro evolves.keeps_seqK evolves.keeps_authorize refl evolves.keeps_after_res frame_rules)
      (auto simp: validate_object_type_iff Let_def)
qed

lemma keeps_evolves_create_workflow [frame_rules]: "keeps evolves (create_workflow k ctx w)"
  unfolding create_workflow_def
  by (rule evolves.keeps_seqK, rule evolves.keeps_authorize, rule refl, rule evolves.keeps_after_res)
    (intro frame_rules, auto simp: validate_workflow_iff intro: evolves_upserts)

lemma keeps_evolves_create_record [frame_rules]: "keeps evolves (create_record k ctx nr)"
  unfolding create_record_def Let_def by (rule frame_rules refl)+

lemma keeps_evolves_update_record [frame_rules]: "keeps evolves (update_record k ctx rid patch)"
  unfolding update_record_def Let_def by (rule frame_rules refl | simp)+

lemma keeps_evolves_set_lifecycle: "keeps evolves (set_lifecycle k ctx rid lc)"
  unfolding set_lifecycle_def by (rule frame_rules refl | simp)+

lemma keeps_evolves_relate [frame_rules]: "keeps evolves (relate k ctx a b ty)"
  unfolding relate_def by (rule frame_rules refl evolves_upserts | assumption)+

lemma keeps_evolves_create_task [frame_rules]:
  "keeps evolves (create_task k ctx kind title a ty rid data)"
  unfolding create_task_def by (rule frame_rules refl)+

lemma keeps_evolves_complete_task [frame_rules]: "keeps evolves (complete_task k ctx tid status)"
  unfolding complete_task_def by (rule frame_rules refl | simp)+

lemma keeps_evolves_transition_record [frame_rules]:
  "keeps evolves (transition_record k ctx rid tkey reason)"
  unfolding transition_record_def request_transition_def apply_transition_def Let_def
  by (rule frame_rules refl | simp)+

lemma keeps_evolves_identity [frame_rules]:
  "keeps evolves (create_user k ctx email name pw keys)"
  "keeps evolves (create_service_account k ctx name keys)"
  "keeps evolves (create_api_key k ctx name p pt)"
  "keeps evolves (create_role k ctx key name desc grants)"
  unfolding create_user_def create_service_account_def create_api_key_def create_role_def
    new_assignment_def Let_def
  by (rule frame_rules refl | simp)+

lemma keeps_evolves_assign_role [frame_rules]: "keeps evolves (assign_role k ctx p key)"
  unfolding assign_role_def assign_or_ignore_def Let_def
  by (rule frame_rules refl
      | force split: if_splits intro!: evolvesI simp: db_inv_defs tenant_exists_def)+

lemma keeps_evolves_revoke [frame_rules]: "keeps evolves (revoke_sessions_for_user k t uid)"
  unfolding revoke_sessions_for_user_def Let_def
  by (rule frame_rules) (auto intro!: evolvesI simp: db_inv_defs set_upd_where)

lemma evolves_set_users:
  assumes "\<And>r. us_id (f r) = us_id r" "\<And>r. us_tenant_id (f r) = us_tenant_id r"
    "\<And>r. us_email (f r) = us_email r" "\<And>r. us_is_platform_admin (f r) = us_is_platform_admin r"
  shows "evolves d (d\<lparr>users := upd_where P f (users d)\<rparr>)"
proof -
  have "us_id ` set (upd_where P f (users d)) = us_id ` set (users d)"
    using map_upd_where [where g = us_id and f = f] assms(1) by (metis list.set_map)
  with assms show ?thesis
    by (intro evolvesI) (auto simp: db_inv_defs set_upd_where)
qed

lemma keeps_evolves_set_user_status [frame_rules]: "keeps evolves (set_user_status k ctx uid status)"
  unfolding set_user_status_def by (rule frame_rules refl evolves_set_users | simp)+

lemma keeps_evolves_bootstrap [frame_rules]:
  "keeps evolves (bootstrap_tenant k name slug email admin pw)"
  unfolding bootstrap_tenant_def provision_def insert_system_role_def new_assignment_def Let_def
  by (rule frame_rules refl | simp add: first_admin_def)+

lemma evolves_set_tenants:
  assumes "\<And>r. tn_id (f r) = tn_id r" "\<And>r. tn_slug (f r) = tn_slug r"
  shows "evolves d (d\<lparr>tenants := upd_where P f (tenants d)\<rparr>)"
proof -
  have "tn_id ` set (upd_where P f (tenants d)) = tn_id ` set (tenants d)"
    using map_upd_where [where g = tn_id and f = f] assms(1) by (metis list.set_map)
  with assms show ?thesis
    by (intro evolvesI) (auto simp: db_inv_defs)
qed

lemma keeps_evolves_set_tenant_status [frame_rules]:
  "keeps evolves (set_tenant_status k ctx tid status)"
  unfolding set_tenant_status_def by (rule frame_rules refl evolves_set_tenants | simp)+

lemma keeps_evolves_create_workspace [frame_rules]: "keeps evolves (create_workspace k ctx name)"
  unfolding create_workspace_def insert_workspace_def Let_def
  by (rule frame_rules refl | force intro!: evolvesI simp: db_inv_defs tenant_exists_def)+

lemma keeps_evolves_meter [frame_rules]: "keeps evolves (meter_api_call k ctx)"
  unfolding meter_api_call_def record_usage_def current_period_def Let_def
  by (rule frame_rules refl evolves_upserts | assumption)+

lemma keeps_evolves_reports [frame_rules]:
  "keeps evolves (save_report k ctx def)" "keeps evolves (save_dashboard k ctx dash)"
  unfolding save_report_def save_dashboard_def
  by (rule frame_rules refl evolves_upserts | assumption)+

lemma keeps_evolves_builder_reads [frame_rules]:
  "keeps evolves (get_builder_draft k ctx did)"
  "keeps evolves (validate_builder_definition k ctx bdef)"
  unfolding get_builder_draft_def validate_builder_definition_def
  by (rule frame_rules refl)+

lemma keeps_evolves_save_draft [frame_rules]: "keeps evolves (save_builder_draft k ctx req)"
  unfolding save_builder_draft_def Let_def
  by (rule frame_rules refl evolves_upserts | assumption)+

lemma keeps_evolves_install [frame_rules]:
  "keeps evolves (install_object k ctx ot)" "keeps evolves (install_workflow k ctx w)"
  unfolding install_object_def install_workflow_def by (rule frame_rules refl)+

lemma keeps_evolves_mark_published [frame_rules]: "keeps evolves (mark_published k ctx did p ts)"
  unfolding mark_published_def
  by (rule frame_rules refl | simp add: evolvesI db_inv_upserted table_fine_upd db_inv_tables)+

lemma keeps_evolves_publish [frame_rules]: "keeps evolves (publish_builder_draft k ctx did)"
  unfolding publish_builder_draft_def by (rule frame_rules refl)+

lemma keeps_evolves_samples [frame_rules]:
  "keeps evolves (install_sample_records k ctx key)"
  "keeps evolves (install_template_reports k ctx key)"
  unfolding install_sample_records_def install_finance_records_def install_procurement_records_def
    install_inventory_records_def create_sample_def install_template_reports_def Let_def
  by (rule frame_rules refl)+

lemma keeps_evolves_install_template [frame_rules]:
  "keeps evolves (install_builder_template k ctx req)"
  unfolding install_builder_template_def by (rule frame_rules refl)+

lemma keeps_evolves_migration [frame_rules]:
  "keeps evolves (start_migration k ctx target)" "keeps evolves (select_target_system k ctx key)"
  "keeps evolves (set_active_system k ctx sys)" "keeps evolves (generate_and_store_report k ctx sys)"
  unfolding start_migration_def select_target_system_def set_active_system_def
    generate_and_store_report_def audit_migration_def Let_def
  by (rule frame_rules refl evolves_upserts | assumption | simp)+

lemma keeps_evolves_migration_report [frame_rules]:
  "keeps evolves (migration_report k ctx sys)" "keeps evolves (logout_migration_output k ctx)"
  unfolding migration_report_def logout_migration_output_def by (rule frame_rules refl)+

text \<open>The rate limiter is no part of the database.\<close>

context db_frame begin

lemma keeps_limiter [frame_rules]:
  "keeps R (limiter_is_locked k key)" "keeps R (limiter_record_failure k key)"
  "keeps R (limiter_reset key)" "keeps R (limiter_prune k)"
  by (simp_all add: keeps_def limiter_is_locked_run limiter_record_failure_def limiter_reset_def
      limiter_prune_def frame_refl)

lemma keeps_require_tenant_active [frame_rules]: "keeps R (require_tenant_active k t)"
  unfolding require_tenant_active_def by (intro keeps_bindK keeps_query keeps_someK keeps_guardK)

lemma keeps_check_expiry [frame_rules]: "keeps R (check_expiry k e)"
  unfolding check_expiry_def by (intro keeps_case_option keeps_retK keeps_bindK keeps_now keeps_guardK)

end

lemma keeps_evolves_open_session [frame_rules]: "keeps evolves (open_session k u t em rid src)"
  unfolding open_session_def Let_def by (rule frame_rules refl)+

lemma keeps_evolves_login [frame_rules]: "keeps evolves (login k slug email pw rid src)"
  unfolding login_def login_failure_def audit_login_failure_def Let_def by (rule frame_rules refl)+

lemma evolves_touch_key [frame_rules]: "evolves d (touch_key kid ts d)"
  by (rule evolvesI) (auto simp: touch_key_def db_inv_defs set_upd_where)

lemma keeps_evolves_authenticate [frame_rules]: "keeps evolves (authenticate k token rid src)"
  unfolding authenticate_def authenticate_session_def authenticate_api_key_def Let_def
  by (rule frame_rules refl)+

lemma evolves_revoke_hash [frame_rules]: "evolves d (revoke_hash hash d)"
  by (rule evolvesI) (auto simp: revoke_hash_def db_inv_defs set_upd_where)

lemma keeps_evolves_logout [frame_rules]: "keeps evolves (logout k token)"
  unfolding logout_def Let_def by (rule frame_rules refl)+

lemma keeps_evolves_housekeeping [frame_rules]: "keeps evolves (run_housekeeping k)"
  unfolding run_housekeeping_def cleanup_expired_sessions_def
  by (rule frame_rules refl | force intro!: evolvesI simp: db_inv_defs)+

text \<open>
  A decision is the one operation that rewrites an approval: the approval it found pending, and
  by the uniqueness of the identifiers only that one.
\<close>

definition sound :: "database \<Rightarrow> database \<Rightarrow> bool" where
  "sound d d' \<longleftrightarrow> appends d d' \<and> log_ids_kept d d' \<and> db_inv.preserves d d'"

interpretation sound: denial_frame sound t for t
proof unfold_locales
  show "sound d d" for d
    by (simp add: sound_def appends.frame_refl db_inv.preserves.frame_refl)
  show "sound d d''" if "sound d d'" "sound d' d''" for d d' d''
    using that unfolding sound_def
    by (auto intro: appends.frame_trans log_ids_kept_trans db_inv.preserves.frame_trans)
  show "sound d (log_audit ev d)"
    if "a_tenant_id ev = t" "a_action ev = ''permission.denied''" "a_id ev \<notin> a_id ` set (audit_logs d)" for ev d
    using that unfolding sound_def by (auto intro: appends.denial db_inv.preserves.denial)
qed

lemma evolves_sound: "keeps evolves m \<Longrightarrow> keeps sound m"
  by (erule keeps_mono) (auto simp: evolves_def sound_def db_inv.preserves_def)

lemma sound_set_approval [frame_rules]:
  assumes "\<And>a. ap_id (f a) = ap_id a" "\<And>a. ap_tenant_id (f a) = ap_tenant_id a"
    "\<And>a. ap_related_record_id (f a) = ap_related_record_id a" "\<And>a. ap_target_state (f a) = ap_target_state a"
  shows "sound d (set_approval t aid f d)"
  using assms
  by (auto simp: sound_def appends_def db_inv.preserves_def set_approval_def db_inv_defs set_upd_where)

lemma keeps_sound_decide: "keeps sound (decide_approval k ctx aid approved reason)"
proof -
  have "keeps evolves (apply_approval k ctx ap ty target ts reason)" for ap ty target ts
    unfolding apply_approval_def Let_def by (rule frame_rules refl | simp)+
  then have 1: "keeps sound (apply_approval k ctx ap ty target ts reason)" for ap ty target ts
    by (rule evolves_sound)
  show ?thesis
    unfolding decide_approval_def record_decision_def Let_def
    by (rule 1 frame_rules refl evolves_sound [OF keeps_evolves_log(3)]
        evolves_sound [OF keeps_evolves_close_tasks] | simp)+
qed

lemma uniq_eq:
  assumes "uniq f xs" "x \<in> set xs" "y \<in> set xs" "f x = f y"
  shows "x = y"
proof -
  have "inj_on f (set xs)" using assms(1) unfolding uniq_def by (simp add: distinct_map)
  then show ?thesis using assms(2-4) unfolding inj_on_def by blast
qed

lemma decision_final:
  assumes "uniq ap_id (approvals d)" "find_approval d t aid = Some ap" "ap_status ap = ''pending''"
    "approvals d' = upd_where (\<lambda>a. ap_tenant_id a = t \<and> ap_id a = aid) f (approvals d)"
  shows "decided_final d d'"
  unfolding decided_final_def
proof (intro ballI impI)
  fix a
  assume a: "a \<in> set (approvals d)" "ap_status a \<noteq> ''pending''"
  from find_approval_Some [OF assms(2)] have ap: "ap \<in> set (approvals d)" "ap_id ap = aid" by simp_all
  from a(2) assms(3) have "ap \<noteq> a" by auto
  with uniq_eq [OF assms(1) ap(1) a(1)] ap(2) have "ap_id a \<noteq> aid" by auto
  with a(1) show "a \<in> set (approvals d')" unfolding assms(4) set_upd_where by simp
qed

lemma only_denials_evolves: "only_denials t d d' \<Longrightarrow> evolves d d'"
  by (auto simp: only_denials_def evolves_def appends_def decided_final_def)

lemma keeps_evolves_decide [frame_rules]: "keeps evolves (decide_approval k ctx aid approved reason)"
proof (rule keepsI)
  fix s r s'
  assume run: "decide_approval k ctx aid approved reason s = (r, s')"
  from keepsD [OF keeps_sound_decide run] have snd: "sound (db s) (db s')" .
  show "evolves (db s) (db s')"
  proof (cases r)
    case (Inl e)
    with run clean_errors_decide_approval have "only_denials (tenant_id ctx) (db s) (db s')"
      unfolding clean_errors_def by blast
    then show ?thesis by (rule only_denials_evolves)
  next
    case (Inr ap')
    with run have run': "decide_approval k ctx aid approved reason s = (Inr ap', s')" by simp
    obtain ap ts where ap: "find_approval (db s) (tenant_id ctx) aid = Some ap"
      "ap_status ap = ''pending''"
      "approvals (db s') = upd_where (\<lambda>a. ap_tenant_id a = tenant_id ctx \<and> ap_id a = aid)
         (decided ctx approved reason ts) (approvals (db s))"
      by (rule decide_approval_Inr [OF run']) (rule that)
    have "decided_final (db s) (db s')" if "db_inv (db s)"
      using decision_final [OF db_inv_uniq(7) [OF that] ap] .
    with snd show ?thesis by (auto simp: sound_def evolves_def db_inv.preserves_def)
  qed
qed

end
