(* ===== verification/Sample.thy ===== *)
theory Sample
  imports Invariants Analytics
begin

text \<open>
  A small tenant to evaluate the services on: a handle without faults, with counters for
  identifiers and clocks, and a database with two users, their roles, an object type with a
  restricted field, its workflow with a gated transition, two records, an approval that waits for
  a decision with its task, an open session and an API key. The clock of the handle counts
  nanoseconds; its hash functions are
  injective stand-ins for SHA-256 and Argon2.
\<close>

section \<open>The handle\<close>

text \<open>The text of a time is its decimal number, twenty digits wide.\<close>

fun digits :: "nat \<Rightarrow> int \<Rightarrow> string" where
  "digits 0 t = []"
| "digits (Suc n) t = digits n (t div 10) @ [char_of (48 + t mod 10)]"

definition time_text :: "int \<Rightarrow> string" where
  "time_text t = digits 20 t"

definition time_of_text :: "string \<Rightarrow> int option" where
  "time_of_text s = (if length s = 20 then Some (foldl (\<lambda>n c. 10 * n + (of_char c - 48)) 0 s) else None)"

definition demo :: kernel where
  "demo =
     \<lparr>flags = default_flags, uuid_at = (\<lambda>n. ''id'' @ show_nat n), now_at = (\<lambda>n. int n),
      instant_at = (\<lambda>n. n), rfc3339 = time_text, parse_rfc3339 = time_of_text,
      year_month = (\<lambda>t. (2025, 1)), sha256 = map (\<lambda>c. of_nat (of_char c)),
      argon2_hash = (\<lambda>n pw. Inr (''hash:'' @ pw)), argon2_verify = (\<lambda>pw h. Inr (h = ''hash:'' @ pw)),
      random_at = (\<lambda>n. [7]), env_var = (\<lambda>v. None), json_text = (\<lambda>j. ''json''),
      db_fault = (\<lambda>n. False)\<rparr>"

lemma reliable_demo [simp]: "reliable demo"
  by (simp add: reliable_def demo_def)

section \<open>Definitions\<close>

definition demo_type :: object_type_def where
  "demo_type =
     \<lparr>ot_id = ''ot1'', ot_key = ''invoice'', ot_label = ''Invoice'', ot_label_plural = None,
      ot_description = None, ot_system = False, ot_workflow_key = Some ''invoice_flow'',
      ot_display_field = Some ''number'', ot_module = None,
      ot_fields =
        [required (new_field ''number'' ''Number'' Text), new_field ''amount'' ''Amount'' Number,
         restricted (new_field ''iban'' ''IBAN'' Text)]\<rparr>"

definition demo_flow :: workflow_def where
  "demo_flow =
     \<lparr>wf_key = ''invoice_flow'', wf_object_type = ''invoice'', wf_name = ''Invoice'',
      wf_initial_state = ''draft'',
      wf_states = [workflow_state ''draft'' False, workflow_state ''submitted'' False,
                   workflow_state ''paid'' True],
      wf_transitions =
        [workflow_transition ''submit'' ''draft'' ''submitted'' ''Submit'' False,
         workflow_transition ''pay'' ''submitted'' ''paid'' ''Pay'' True,
         workflow_transition ''withdraw'' ''submitted'' ''draft'' ''Withdraw'' False]\<rparr>"

definition clerk_role :: role_t where
  "clerk_role =
     \<lparr>role_id = ''role2'', role_key = ''clerk'', role_name = ''Clerk'', role_description = None,
      role_system = False,
      role_grants =
        [new_grant Read ''object:invoice'' Own, new_grant Search ''object:invoice'' Org,
         new_grant Create ''object:invoice'' Org, new_grant Update ''object:invoice'' Own,
         new_grant Transition ''object:invoice'' Own]\<rparr>"

section \<open>Rows\<close>

definition demo_record :: "string \<Rightarrow> string \<Rightarrow> string \<Rightarrow> string \<Rightarrow> record_t" where
  "demo_record rid owner number state =
     \<lparr>r_id = rid, r_object_type = ''invoice'', r_tenant_id = ''acme'', r_org_id = ''org1'',
      r_workspace_id = None,
      r_data = [(''amount'', JNumber (PosInt 40)), (''iban'', JString ''DE01''), (''number'', JString number)],
      r_lifecycle = Active, r_workflow_state = Some state, r_created_by = owner,
      r_created_at = time_text 1, r_updated_at = time_text 1, r_archived_at = None\<rparr>"

definition demo_user :: "string \<Rightarrow> string \<Rightarrow> user_row" where
  "demo_user uid email =
     \<lparr>us_id = uid, us_tenant_id = ''acme'', us_email = email, us_name = uid,
      us_password_hash = ''hash:secret99'', us_status = ''active'', us_is_platform_admin = False,
      us_default_org_id = Some ''org1'', us_created_at = time_text 1\<rparr>"

definition demo_assignment :: "string \<Rightarrow> string \<Rightarrow> role_assignment_row" where
  "demo_assignment uid key =
     \<lparr>ra_id = ''ra_'' @ uid, ra_tenant_id = ''acme'', ra_principal_type = ''user'',
      ra_principal_id = uid, ra_role_key = key, ra_org_id = None, ra_created_at = time_text 1\<rparr>"

definition demo_approval :: approval_t where
  "demo_approval =
     \<lparr>ap_id = ''ap1'', ap_tenant_id = ''acme'', ap_org_id = ''org1'', ap_status = ''pending'',
      ap_policy = None, ap_requested_by = ''bob'', ap_decided_by = None, ap_decision_reason = None,
      ap_related_object_type = Some ''invoice'', ap_related_record_id = Some ''rec2'',
      ap_transition_key = Some ''pay'', ap_target_state = Some ''paid'', ap_risk_score = None,
      ap_data = JNull, ap_created_at = time_text 1, ap_decided_at = None\<rparr>"

definition demo_task :: task_t where
  "demo_task =
     \<lparr>tk_id = ''tk1'', tk_tenant_id = ''acme'', tk_org_id = ''org1'', tk_kind = ''approval'',
      tk_title = ''Pay'', tk_assignee_id = None, tk_status = ''open'', tk_due_at = None,
      tk_related_object_type = Some ''invoice'', tk_related_record_id = Some ''rec2'',
      tk_data = JObject [(''approval_id'', JString ''ap1'')], tk_created_by = ''bob'',
      tk_created_at = time_text 1, tk_updated_at = time_text 1\<rparr>"

definition demo_session :: "string \<Rightarrow> session_row" where
  "demo_session token =
     \<lparr>ss_id = ''ss1'', ss_tenant_id = ''acme'', ss_user_id = ''bob'', ss_org_id = ''org1'',
      ss_token_hash = sha256_hex demo token, ss_created_at = time_text 1, ss_expires_at = ''00000000000000000900'',
      ss_revoked = False\<rparr>"

definition demo_key :: "string \<Rightarrow> api_key_row" where
  "demo_key token =
     \<lparr>ak_id = ''ak1'', ak_tenant_id = ''acme'', ak_org_id = ''org1'', ak_principal_type = ''user'',
      ak_principal_id = ''bob'', ak_name = ''ci'', ak_prefix = ''ldb_'',
      ak_token_hash = sha256_hex demo token, ak_status = ''active'', ak_created_at = time_text 1,
      ak_last_used_at = None\<rparr>"

definition demo_db :: database where
  "demo_db = empty_db
     \<lparr>tenants := [\<lparr>tn_id = ''acme'', tn_name = ''Acme'', tn_slug = ''acme'', tn_plan = ''standard'',
                   tn_status = ''active'', tn_created_at = time_text 0\<rparr>],
      users := [demo_user ''ann'' ''ann@acme.io'', demo_user ''bob'' ''bob@acme.io''],
      roles := map (\<lambda>r. \<lparr>ro_tenant_id = ''acme'', ro_role = r, ro_created_at = time_text 1\<rparr>)
                 (system_roles @ [clerk_role]),
      role_assignments := [demo_assignment ''ann'' ''tenant_admin'', demo_assignment ''bob'' ''clerk''],
      api_keys := [demo_key ''ldb_k''],
      sessions := [demo_session ''lds_b''],
      object_types := [\<lparr>ob_tenant_id = ''acme'', ob_def = demo_type, ob_created_at = time_text 1\<rparr>],
      workflows := [\<lparr>wr_id = ''wf1'', wr_tenant_id = ''acme'', wr_key = ''invoice_flow'',
                     wr_object_type = ''invoice'', wr_name = ''Invoice'', wr_definition = demo_flow,
                     wr_created_at = time_text 1\<rparr>],
      records := [demo_record ''rec1'' ''bob'' ''I-1'' ''draft'',
                  demo_record ''rec2'' ''bob'' ''I-2'' ''submitted'',
                  demo_record ''rec3'' ''ann'' ''I-3'' ''draft''],
      tasks := [demo_task],
      approvals := [demo_approval]\<rparr>"

definition demo_state :: kstate where
  "demo_state = \<lparr>db = demo_db, limiter = (\<lambda>_. None), tick = 100\<rparr>"

definition ann :: auth_context where
  "ann = user_ctx (demo_user ''ann'' ''ann@acme.io'') ''acme'' ''org1'' [''tenant_admin''] ''rq'' SrcApi"

definition bob :: auth_context where
  "bob = user_ctx (demo_user ''bob'' ''bob@acme.io'') ''acme'' ''org1'' [''clerk''] ''rq'' SrcApi"

lemma demo_state_simps [simp]:
  "db demo_state = demo_db" "tick demo_state = 100" "limiter demo_state = (\<lambda>_. None)"
  by (simp_all add: demo_state_def)

section \<open>Runs\<close>

lemma digits_value_show_nat: "digits_value (show_nat n) = n"
proof (induction n rule: show_nat.induct)
  case (1 n)
  have "digits_value (s @ [c]) = 10 * digits_value s + (of_char c - 48)" for s c
    by (simp add: digits_value_def)
  with 1 show ?case
    by (subst show_nat.simps) (simp add: digits_value_def)
qed

lemma show_nat_inj [simp]: "show_nat m = show_nat n \<longleftrightarrow> m = n"
  by (metis digits_value_show_nat)

text \<open>The decision on a request, computed from the rows of the roles table.\<close>

lemma allowed_eval: "allowed k d ctx act resource target =
    grants_allow k (role_grants_of d (tenant_id ctx) (role_keys ctx)) ctx act resource target"
  by (simp add: grants_allow_iff)

definition succeeds :: "'a kern \<Rightarrow> kstate \<Rightarrow> bool" where
  "succeeds m s = (case m s of (Inl e, s') \<Rightarrow> False | (Inr x, s') \<Rightarrow> True)"

lemma succeedsE: "succeeds m s \<Longrightarrow> (\<And>x s'. m s = (Inr x, s') \<Longrightarrow> P) \<Longrightarrow> P"
  by (auto simp: succeeds_def split: prod.splits sum.splits)

definition after :: "'a kern \<Rightarrow> kstate \<Rightarrow> kstate" where
  "after m s = snd (m s)"

text \<open>
  A run is evaluated from its first statement on: the congruence rules keep the simplifier out of
  a continuation until it is applied.
\<close>

lemma lazy:
  "bindK m f = bindK m f" "seqK m n = seqK m n" "transaction k m = transaction k m"
  "matchK m h g = matchK m h g" "ignoreK m = ignoreK m"
  by (rule refl)+

lemma run_stmt_demo: "stmt demo p s = (case p (db s) of
    Inl se \<Rightarrow> (Inl (map_db_err se), s\<lparr>tick := Suc (tick s)\<rparr>)
  | Inr (x, d) \<Rightarrow> (Inr x, s\<lparr>tick := Suc (tick s), db := d\<rparr>))"
  by (auto simp: run_stmt split: sum.splits)

lemma run_control:
  "bindK m f s = (case m s of (r, s1) \<Rightarrow> case r of Inl e \<Rightarrow> (Inl e, s1) | Inr x \<Rightarrow> f x s1)"
  "seqK m m' s = (case m s of (r, s1) \<Rightarrow> case r of Inl e \<Rightarrow> (Inl e, s1) | Inr x \<Rightarrow> m' s1)"
  "matchK m h f s = (case m s of (r, s1) \<Rightarrow> case r of Inl e \<Rightarrow> h e s1 | Inr x \<Rightarrow> f x s1)"
  "ignoreK m s = (case m s of (r, s1) \<Rightarrow> (Inr (), s1))"
  "now k s = (Inr (now_at k (tick s)), s\<lparr>tick := Suc (tick s)\<rparr>)"
  by (auto simp: bindK_def seqK_def matchK_def ignoreK_def now_def split: prod.splits sum.splits)

lemma run_transaction_demo: "transaction demo body s =
    (case body (s\<lparr>tick := Suc (tick s)\<rparr>) of (r, s1) \<Rightarrow>
       case r of Inl e \<Rightarrow> (Inl e, s1\<lparr>db := db s\<rparr>) | Inr x \<Rightarrow> (Inr x, s1\<lparr>tick := Suc (tick s1)\<rparr>))"
  by (auto simp: transaction_def Let_def run_control run_stmt_demo run_simps split: prod.splits sum.splits)

lemmas run_demo = run_simps(1-8) run_simps(13,14) run_control run_transaction_demo
  run_stmt(1,2) [OF reliable_demo] run_stmt_demo

lemma demo_simps [simp]:
  "flags demo = default_flags" "uuid_at demo n = ''id'' @ show_nat n" "now_at demo n = int n"
  "instant_at demo n = n" "rfc3339 demo = time_text" "parse_rfc3339 demo = time_of_text"
  "argon2_verify demo pw h = Inr (h = ''hash:'' @ pw)" "argon2_hash demo n pw = Inr (''hash:'' @ pw)"
  "year_month demo t = (2025, 1)" "env_var demo v = None" "random_at demo n = [7]"
  by (simp_all add: demo_def)

lemma demo_db_simps [simp]:
  "tenants demo_db = [\<lparr>tn_id = ''acme'', tn_name = ''Acme'', tn_slug = ''acme'', tn_plan = ''standard'',
                   tn_status = ''active'', tn_created_at = time_text 0\<rparr>]"
  "users demo_db = [demo_user ''ann'' ''ann@acme.io'', demo_user ''bob'' ''bob@acme.io'']"
  "roles demo_db = map (\<lambda>r. \<lparr>ro_tenant_id = ''acme'', ro_role = r, ro_created_at = time_text 1\<rparr>)
                 (system_roles @ [clerk_role])"
  "role_assignments demo_db = [demo_assignment ''ann'' ''tenant_admin'', demo_assignment ''bob'' ''clerk'']"
  "api_keys demo_db = [demo_key ''ldb_k'']"
  "sessions demo_db = [demo_session ''lds_b'']"
  "object_types demo_db =
     [\<lparr>ob_tenant_id = ''acme'', ob_def = demo_type, ob_created_at = time_text 1\<rparr>]"
  "workflows demo_db = [\<lparr>wr_id = ''wf1'', wr_tenant_id = ''acme'', wr_key = ''invoice_flow'',
                     wr_object_type = ''invoice'', wr_name = ''Invoice'', wr_definition = demo_flow,
                     wr_created_at = time_text 1\<rparr>]"
  "records demo_db = [demo_record ''rec1'' ''bob'' ''I-1'' ''draft'',
                  demo_record ''rec2'' ''bob'' ''I-2'' ''submitted'',
                  demo_record ''rec3'' ''ann'' ''I-3'' ''draft'']"
  "tasks demo_db = [demo_task]" "approvals demo_db = [demo_approval]" "audit_logs demo_db = []"
  "events demo_db = []" "usage_meters demo_db = []" "migration_sessions demo_db = []"
  "relations demo_db = []" "builder_drafts demo_db = []" "organizations demo_db = []"
  by (simp_all add: demo_db_def empty_db_def)

lemmas demo_defs = bob_def ann_def user_ctx_def demo_user_def demo_record_def demo_type_def
  demo_flow_def clerk_role_def system_roles_def new_grant_def is_system_def default_flags_def
  deny_nothing_def field_builder_defs workflow_state_def workflow_transition_def
  demo_approval_def demo_task_def demo_assignment_def demo_session_def demo_key_def

lemmas access_defs = Let_def effective_grants_def authorize_def grants_for_def grant_covers_def
  action_covered_by_def matches_resource_def starts_with_def strip_suffix_def scope_ok_def
  conditions_ok_def role_grants_of_def resource_for_def owner_candidates_def audit_denial_def
  grants_allow_def field_permitted_def applicable_read_grants_def field_of_def permits_def jget_def

lemmas write_defs = audit_change_def event_from_def audit_def insert_audit_def emit_on_def emit_event_def log_audit_def
  set_record_def upd_where_def sql_insert_def tenant_exists_def

lemmas record_defs = load_record_def require_record_def load_object_type_def find_record_def
  find_object_type_def project_for_read_def

lemmas flow_defs = current_state_def transition_from_def load_workflow_def find_workflow_def
  apply_transition_def request_transition_def with_reason_def decided_event_def insert_approval_def
  insert_task_def pending_approval_def open_task_def

lemmas approval_defs = load_approval_def find_approval_def approval_resource_def
  record_decision_def apply_approval_def set_approval_def decided_def decision_status_def
  close_tasks_for_approval_def task_approval_def set_task_def find_task_def get_task_def

lemmas login_defs = is_locked_def limiter_is_locked_run find_active_slug_def find_by_email_def
  verify_password_def limiter_reset_def open_session_def new_token_def roles_for_principal_def
  role_keys_of_def session_ttl_days_def insert_session_def

lemma demo_strings [simp]:
  "trim ''acme'' = ''acme''" "normalize_email ''bob@acme.io'' = ''bob@acme.io''"
  "normalize_email ''ann@acme.io'' = ''ann@acme.io''"
  by code_simp+

lemma demo_expiry [simp]: "time_of_text ''00000000000000000900'' = Some 900"
  by code_simp

lemma demo_hashes [simp]:
  "sha256_hex demo ''lds_b'' = ''6c64735f62''" "sha256_hex demo ''ldb_k'' = ''6c64625f6b''"
  "sha256_hex demo ''lds_07'' = ''6c64735f3037''" "sha256_hex demo ''ldb_07'' = ''6c64625f3037''"
  "HEX ! 0 = CHR ''0''" "HEX ! 7 = CHR ''7''"
  by code_simp+

lemmas token_defs = authenticate_def authenticate_session_def authenticate_api_key_def
  live_session_def live_api_key_def check_expiry_def require_tenant_active_def principal_status_def
  touch_key_def roles_for_principal_def role_keys_of_def

lemmas value_defs = validate_against_type_def patch_value_def jremove_def jinsert.simps jget_def
  validate_value_def

lemmas demo_run = run_demo demo_defs access_defs write_defs record_defs

section \<open>The sample satisfies the invariant\<close>

lemma demo_roles_valid: "uniq (\<lambda>r. (ro_tenant_id r, role_key (ro_role r))) (roles demo_db)"
  by (simp add: uniq_def demo_defs)

lemma demo_inv [simp]: "db_inv demo_db"
  unfolding db_inv_def keys_unique_def
proof (intro conjI)
  show "tenants_known demo_db"
    by (simp add: tenants_known_def Let_def demo_db_def empty_db_def demo_defs)
  show "definitions_valid demo_db"
    by (simp add: definitions_valid_def object_type_ok_def workflow_ok_def field_ok_def demo_defs
        trim_def is_ws_def)
  show "no_platform_admin demo_db"
    by (simp add: no_platform_admin_def demo_defs)
  show "approvals_targeted demo_db"
    by (simp add: approvals_targeted_def demo_defs)
qed (simp_all add: uniq_def demo_db_def empty_db_def demo_defs assignment_key_def)

end
