(* ===== verification/AccessControl.thy ===== *)
theory AccessControl
  imports Sample
begin

text \<open>
  Properties of the access decision and of what a reader gets to see: the decision is exactly the
  specification \<open>allowed\<close>, a denial is logged and nothing else happens, a single record and a
  listing are projected field by field, and the one way a listing can panic.
\<close>

section \<open>The decision\<close>

text \<open>
  C12: Without storage faults, \<open>authorize\<close> lets a request through exactly when the caller is the
  system or a platform administrator, or some grant of one of its roles in its own tenant covers
  the action, the resource, the scope and (with advanced permissions on) the conditions;
  otherwise the result is the \<open>Forbidden\<close> error that names the action and the resource.
\<close>

theorem authorize_exact:
  assumes "reliable k"
  shows "fst (authorize k ctx act resource target s) =
    (if allowed k (db s) ctx act resource target then Inr ()
     else Inl (forbidden (''not permitted: '' @ action_str act @ '' on '' @ resource)))"
proof (cases "allowed k (db s) ctx act resource target")
  case True
  from authorize_allowed [OF assms this] show ?thesis using True by auto
next
  case False
  from authorize_denied [OF assms False] show ?thesis using False by auto
qed

theorem authorize_exact_witness:
  "fst (authorize demo bob Read ''object:invoice'' (Some (demo_record ''rec1'' ''bob'' ''I-1'' ''draft'')) demo_state)
     = Inr () \<and>
   fst (authorize demo bob Read ''object:invoice'' (Some (demo_record ''rec3'' ''ann'' ''I-3'' ''draft'')) demo_state)
     = Inl (forbidden ''not permitted: read on object:invoice'')"
  unfolding authorize_exact [OF reliable_demo]
  by (simp_all add: allowed_eval demo_defs access_defs)

text \<open>
  A denied request changes nothing but the audit log, to which it appends one
  \<open>permission.denied\<close> event that names the tenant, the actor, the resource and the record (when
  the identifier it draws is new and the store does not fail).
\<close>

theorem denial_is_logged:
  assumes "reliable k" "\<not> allowed k (db s) ctx act resource target"
    and "\<forall>n. uuid_at k n \<notin> a_id ` set (audit_logs (db s))"
  shows "\<exists>ev. db (snd (authorize k ctx act resource target s)) = log_audit ev (db s) \<and>
    a_action ev = ''permission.denied'' \<and> a_tenant_id ev = tenant_id ctx \<and>
    a_actor_id ev = actor_id ctx \<and> a_target_object_type ev = Some resource \<and>
    a_target_record_id ev = map_option r_id target"
proof -
  obtain s1 where 1: "effective_grants k ctx s = (Inr (role_grants_of (db s) (tenant_id ctx) (role_keys ctx)), s1)"
    "db s1 = db s"
    using effective_grants_run [OF assms(1), of ctx s] by auto
  obtain ev s2 where 2: "audit_denial k ctx (action_str act) resource (map_option r_id target) s1 = (Inr (), s2)"
    "db s2 = log_audit ev (db s1)" "a_tenant_id ev = tenant_id ctx" "a_actor_id ev = actor_id ctx"
    "a_action ev = ''permission.denied''" "a_target_object_type ev = Some resource"
    "a_target_record_id ev = map_option r_id target"
    using audit_denial_run [OF assms(1), of s1 ctx] assms(3) 1(2) by metis
  have "snd (authorize k ctx act resource target s) = s2"
    using 1(1) 2(1) assms(2) by (simp add: authorize_def run_simps list_ex_granted allowed_def)
  then show ?thesis using 1(2) 2 by auto
qed

theorem denial_is_logged_witness:
  "\<exists>ev. db (snd (authorize demo bob Read ''object:invoice''
      (Some (demo_record ''rec3'' ''ann'' ''I-3'' ''draft'')) demo_state)) = log_audit ev (db demo_state) \<and>
    a_action ev = ''permission.denied''"
proof -
  have "\<not> allowed demo (db demo_state) bob Read ''object:invoice'' (Some (demo_record ''rec3'' ''ann'' ''I-3'' ''draft''))"
    by (simp add: allowed_eval demo_defs access_defs)
  from denial_is_logged [OF reliable_demo this] show ?thesis by auto
qed

section \<open>Reading one record\<close>

text \<open>
  C13: A record that \<open>get_record\<close> returns is the record of the caller's tenant with that
  identifier, the caller may read it, its data are the stored data restricted to the fields the
  caller can see, nothing has been written; and if the result holds a value of a restricted
  field, the caller is trusted or owns a read grant that covers this record and whose field rule
  admits the field.
\<close>

theorem get_record_projects:
  assumes "get_record k ctx rid s = (Inr r', s')"
  shows "db s' = db s \<and>
    (\<exists>r ot. find_record (db s) (tenant_id ctx) rid = Some r \<and>
       find_object_type (db s) (tenant_id ctx) (r_object_type r) = Some ot \<and>
       allowed k (db s) ctx Read (resource_for (r_object_type r)) (Some r) \<and>
       r' = project_fields (can_see k (db s) ctx ot r) r \<and>
       (\<forall>f. field_of ot (f_key f) = Some f \<and> f_restricted f \<and> jget (r_data r') (f_key f) \<noteq> None \<and>
          \<not> trusted ctx \<longrightarrow>
          (\<exists>g\<in>granted k (db s) ctx Read (resource_for (r_object_type r)) (Some r).
             \<exists>fr. g_fields g = Some fr \<and> permits fr (f_key f))))"
  by (rule get_record_Inr [OF assms])
    (simp, auto simp: can_see_def split: if_splits)

theorem get_record_projects_witness:
  "\<exists>r' s'. get_record demo bob ''rec1'' demo_state = (Inr r', s') \<and> db s' = demo_db"
proof -
  have "succeeds (get_record demo bob ''rec1'') demo_state"
    unfolding succeeds_def by (simp add: demo_run get_record_def cong: lazy)
  then obtain r' s' where run: "get_record demo bob ''rec1'' demo_state = (Inr r', s')"
    by (rule succeedsE)
  from get_record_projects [OF run] run show ?thesis by auto
qed

section \<open>Listing records\<close>

text \<open>
  C14: Every item of a listing is the projection of a record of the caller's tenant and of the
  asked type that the caller may read, that is active unless archived ones were asked for, that
  satisfies every filter and the search text; a page has at most 500 items; and nothing has been
  written.
\<close>

theorem list_records_sound:
  assumes "list_records k ctx ty flt s = (Inr (Some res), s')"
    and "find_object_type (db s) (tenant_id ctx) ty = Some ot"
  shows "db s' = db s \<and> length (lr_items res) \<le> 500 \<and>
    (\<forall>x\<in>set (lr_items res). \<exists>r\<in>set (records (db s)).
       x = project_fields (can_see k (db s) ctx ot r) r \<and>
       r_tenant_id r = tenant_id ctx \<and> r_object_type r = ty \<and>
       (rf_include_archived flt \<or> r_lifecycle r = Active) \<and>
       allowed k (db s) ctx Read (resource_for ty) (Some r) \<and>
       (\<forall>c\<in>set (rf_filters flt). filter_clause c r) \<and>
       (\<forall>sr. rf_search flt = Some sr \<and> sr \<noteq> [] \<longrightarrow> record_matches_search r (to_lowercase sr)))"
  by (rule list_records_items [OF assms])

theorem list_records_sound_witness:
  "\<exists>res s'. list_records demo bob ''invoice'' default_filter demo_state = (Inr (Some res), s') \<and>
     length (lr_items res) \<le> 500"
proof -
  have "succeeds (list_records demo bob ''invoice'' default_filter) demo_state"
    unfolding succeeds_def by (simp add: demo_run list_records_def cong: lazy)
  then obtain r' s' where run: "list_records demo bob ''invoice'' default_filter demo_state = (Inr r', s')"
    by (rule succeedsE)
  have ot: "find_object_type (db demo_state) (tenant_id bob) ''invoice'' = Some demo_type"
    by (simp add: find_object_type_def demo_defs)
  have "r' \<noteq> None"
    unfolding list_records_None [OF run]
    by (simp add: default_filter_def default_page_def clamped_def sclamp_def word_sless_alt)
  with run list_records_sound [OF _ ot] show ?thesis by fastforce
qed



end
