(* ===== verification/RecordIntegrity.thy ===== *)
theory RecordIntegrity
  imports Sample
begin

text \<open>
  Properties of the record service's writes: which data a type accepts, what creating and updating
  a record stores, that nothing is stored when they fail, and the life cycle of a record.
\<close>

section \<open>Validation\<close>

text \<open>
  The documented values of a field: \<open>field.rs\<close> says that a date is a date \<open>YYYY-MM-DD\<close>, and its other
  types are those of \<open>type_values\<close>, which for dates describes what the code admits.
\<close>

definition calendar_date :: "string \<Rightarrow> bool" where
  "calendar_date s \<longleftrightarrow>
     (let y = take 4 s; m = take 2 (drop 5 s); d = drop 8 s
      in length s = 10 \<and> s ! 4 = CHR ''-'' \<and> s ! 7 = CHR ''-'' \<and> list_all is_digit (y @ m @ d) \<and>
         1 \<le> digits_value m \<and> digits_value m \<le> 12 \<and> 1 \<le> digits_value d \<and> digits_value d \<le> 31)"

definition documented :: "(string \<Rightarrow> int option) \<Rightarrow> field_definition \<Rightarrow> json \<Rightarrow> bool" where
  "documented parse f v \<longleftrightarrow>
     (if v = JNull then \<not> f_required f
      else if f_type f = Date then (case v of JString s \<Rightarrow> calendar_date s | _ \<Rightarrow> False)
      else v \<in> type_values parse (f_enum_options f) (f_type f))"

definition value_of :: "jmap \<Rightarrow> field_definition \<Rightarrow> json" where
  "value_of data f = (case jget data (f_key f) of Some v \<Rightarrow> v | None \<Rightarrow> JNull)"

text \<open>What is admitted beyond that: ten characters with a dash in the fifth and the eighth place.\<close>

definition dashed :: "json \<Rightarrow> bool" where
  "dashed v \<longleftrightarrow>
     (case v of
        JString s \<Rightarrow> length s = 10 \<and> s ! 4 = CHR ''-'' \<and> s ! 7 = CHR ''-''
      | _ \<Rightarrow> False)"

lemma dashed_iff: "dashed v \<longleftrightarrow> v \<in> type_values parse opts Date"
proof -
  have "dashed v \<longleftrightarrow> (\<exists>s. v = JString s \<and> (length s = 10 \<and> s ! 4 = CHR ''-'' \<and> s ! 7 = CHR ''-''))"
    by (cases v) (simp_all add: dashed_def)
  also have "\<dots> \<longleftrightarrow> v \<in> type_values parse opts Date"
    by (simp only: date_shape) auto
  finally show ?thesis .
qed

lemma admits_documented: "admits parse f v \<longleftrightarrow> documented parse f v \<or> f_type f = Date \<and> dashed v"
proof (cases "f_type f = Date")
  case True
  have "admits parse f v \<longleftrightarrow> (if v = JNull then \<not> f_required f else dashed v)"
    using True by (simp add: admits_def dashed_iff [of v parse "f_enum_options f"] del: type_values.simps)
  also have "\<dots> \<longleftrightarrow> documented parse f v \<or> f_type f = Date \<and> dashed v"
    using True by (cases v) (auto simp: documented_def dashed_def calendar_date_def Let_def)
  finally show ?thesis .
qed (simp add: admits_def documented_def)

lemma calendar_dates: "calendar_date ''2024-02-29''" "\<not> calendar_date ''abcd-ef-gh''"
  by code_simp+

text \<open>
  C22: What the validation of a record's data accepts. The loop over the declared fields, with its
  nested case analysis on the field type, accepts exactly the data in which every declared field,
  null when absent, holds a documented value (one of its type and options, null only if it is not
  required), but for one deviation from the documentation: a field of type \<open>Date\<close>, documented as
  \<open>YYYY-MM-DD\<close>, also takes every other text of ten characters with a dash in the fifth and the
  eighth place. So \<open>abcd-ef-gh\<close> is stored as a date, which it is not.
\<close>

theorem validation_but_for_dates:
  "(validate_against_type parse ot data = Inr () \<longleftrightarrow>
      (\<forall>f\<in>set (ot_fields ot). documented parse f (value_of data f) \<or>
         f_type f = Date \<and> dashed (value_of data f))) \<and>
   (f_type g = Date \<longrightarrow> validate_value parse g (JString ''abcd-ef-gh'') = Inr () \<and>
      \<not> documented parse g (JString ''abcd-ef-gh''))"
proof -
  have "validate_value parse g (JString ''abcd-ef-gh'') = Inr ()" if "f_type g = Date"
    using that by (simp add: validate_value_def)
  then show ?thesis
    using calendar_dates(2) unfolding validate_against_type_iff conforms_def admits_documented value_of_def
    by (auto simp: documented_def)
qed

theorem validation_but_for_dates_witness:
  "validate_against_type (\<lambda>_. None) (demo_type\<lparr>ot_fields := [new_field ''due'' ''Due'' Date]\<rparr>)
     [(''due'', JString ''abcd-ef-gh'')] = Inr () \<and>
   validate_against_type (\<lambda>_. None) (demo_type\<lparr>ot_fields := [new_field ''due'' ''Due'' Date]\<rparr>)
     [(''due'', JString ''tomorrow'')] \<noteq> Inr ()"
proof -
  let ?f = "new_field ''due'' ''Due'' Date"
  let ?ot = "demo_type\<lparr>ot_fields := [?f]\<rparr>"
  have f: "f_type ?f = Date" "f_key ?f = ''due''" by (simp_all add: new_field_def)
  have d: "dashed (JString ''abcd-ef-gh'')" "\<not> dashed (JString ''tomorrow'')"
    by (simp_all add: dashed_def)
  have n: "\<not> documented (\<lambda>_. None) ?f (JString ''tomorrow'')"
    by (simp add: documented_def f calendar_date_def)
  show ?thesis
    using validation_but_for_dates [of "\<lambda>_. None" ?ot "[(''due'', JString ''abcd-ef-gh'')]" ?f]
      validation_but_for_dates [of "\<lambda>_. None" ?ot "[(''due'', JString ''tomorrow'')]" ?f] d n
    by (simp add: f value_of_def jget_def)
qed

section \<open>Create\<close>

text \<open>
  C19: A record that \<open>create_record\<close> reports as created is one new row, at the end of the table
  and under a fresh identifier: it belongs to the caller, its tenant and organization, it is
  active and in the initial state of the type's workflow, its data are the given values over the
  type's defaults and conform to the type, every given field was one the caller may write; the
  creation is logged with that identifier; and the caller gets the projection of it back.
\<close>

theorem create_record_stores:
  assumes "create_record k ctx nr s = (Inr r', s')"
  shows "\<exists>ot r grants ev.
    find_object_type (db s) (tenant_id ctx) (nr_object_type nr) = Some ot \<and>
    allowed k (db s) ctx Create (resource_for (nr_object_type nr)) None \<and>
    records (db s') = records (db s) @ [r] \<and> r_id r \<notin> r_id ` set (records (db s)) \<and>
    r_object_type r = nr_object_type nr \<and> r_tenant_id r = tenant_id ctx \<and>
    r_org_id r = org_id ctx \<and> r_created_by r = actor_id ctx \<and> r_lifecycle r = Active \<and>
    r_workflow_state r = (case ot_workflow_key ot of
        Some wkey \<Rightarrow> map_option wf_initial_state (find_workflow (db s) (tenant_id ctx) wkey)
      | None \<Rightarrow> None) \<and>
    r_data r = fold (\<lambda>(key, v). jinsert key v) (nr_data nr) (defaults ot) \<and>
    conforms (parse_rfc3339 k) ot (r_data r) \<and>
    (\<not> trusted ctx \<longrightarrow> set grants = granted k (db s) ctx Create (resource_for (nr_object_type nr)) None) \<and>
    (\<forall>key\<in>fst ` set (nr_data nr). writable grants ot key) \<and>
    audit_logs (db s') = audit_logs (db s) @ [ev] \<and> a_action ev = ''record.create'' \<and>
    a_target_record_id ev = Some (r_id r) \<and>
    r' = project_fields (can_see k (db s) ctx ot r) r"
proof (rule create_record_Inr [OF assms], goal_cases)
  case (1 ot grants r ev e)
  have "r_object_type r = nr_object_type nr \<and> r_tenant_id r = tenant_id ctx \<and>
      r_org_id r = org_id ctx \<and> r_created_by r = actor_id ctx \<and> r_lifecycle r = Active"
    by (subst (1 2 3 4 5) 1(6)) (simp add: created_record_def)
  moreover have "r_workflow_state r = (case ot_workflow_key ot of
        Some wkey \<Rightarrow> map_option wf_initial_state (find_workflow (db s) (tenant_id ctx) wkey)
      | None \<Rightarrow> None)" "r_data r = fold (\<lambda>(key, v). jinsert key v) (nr_data nr) (defaults ot)"
    by (subst 1(6), simp add: created_record_def)+
  ultimately show ?case
    using 1 by (intro exI [of _ ot] exI [of _ r] exI [of _ grants] exI [of _ ev]) simp
qed

theorem create_record_stores_witness:
  "\<exists>r' s'. create_record demo bob
      \<lparr>nr_object_type = ''invoice'', nr_data = [(''number'', JString ''I-9'')], nr_workspace_id = None\<rparr>
      demo_state = (Inr r', s') \<and> length (records (db s')) = 4"
proof -
  let ?nr = "\<lparr>nr_object_type = ''invoice'', nr_data = [(''number'', JString ''I-9'')], nr_workspace_id = None\<rparr>"
  have "succeeds (create_record demo bob ?nr) demo_state"
    unfolding succeeds_def
    by (simp add: demo_run flow_defs value_defs create_record_def defaults_def workflow_initial_state_def
        created_record_def insert_record_def record_event_def cong: lazy)
  then obtain r' s' where run: "create_record demo bob ?nr demo_state = (Inr r', s')"
    by (rule succeedsE)
  from create_record_stores [OF run] run show ?thesis by auto
qed

section \<open>Update\<close>

text \<open>
  C20: A successful \<open>update_record\<close> writes the patched data, and only those and the update time,
  to the record of the caller's tenant with that identifier; the patched data conform to the
  type, every patched field was one the caller may write, and the log gets the data before and
  after. No other record changes.
\<close>

theorem update_record_stores:
  assumes "update_record k ctx rid patch s = (Inr r', s')"
  shows "\<exists>r ot grants data ts ev.
    find_record (db s) (tenant_id ctx) rid = Some r \<and>
    find_object_type (db s) (tenant_id ctx) (r_object_type r) = Some ot \<and>
    allowed k (db s) ctx Update (resource_for (r_object_type r)) (Some r) \<and>
    data = fold (\<lambda>(key, v). patch_value key v) (rp_data patch) (r_data r) \<and>
    conforms (parse_rfc3339 k) ot data \<and>
    (\<not> trusted ctx \<longrightarrow> set grants = granted k (db s) ctx Update (resource_for (r_object_type r)) (Some r)) \<and>
    (\<forall>key\<in>fst ` set (rp_data patch). writable grants ot key) \<and>
    records (db s') = upd_where (\<lambda>x. r_tenant_id x = tenant_id ctx \<and> r_id x = rid)
      (\<lambda>x. x\<lparr>r_data := data, r_updated_at := ts\<rparr>) (records (db s)) \<and>
    audit_logs (db s') = audit_logs (db s) @ [ev] \<and> a_action ev = ''record.update'' \<and>
    a_before ev = Some (JObject (r_data r)) \<and> a_after ev = Some (JObject data)"
proof (rule update_record_Inr [OF assms], goal_cases)
  case (1 r ot grants data ts ev e)
  then show ?case
    by (intro exI [of _ r] exI [of _ ot] exI [of _ grants] exI [of _ data] exI [of _ ts] exI [of _ ev])
      simp
qed

theorem update_record_stores_witness:
  "\<exists>r' s'. update_record demo bob ''rec1'' \<lparr>rp_data = [(''amount'', JNumber (PosInt 7))]\<rparr> demo_state
     = (Inr r', s') \<and> length (records (db s')) = 3"
proof -
  let ?p = "\<lparr>rp_data = [(''amount'', JNumber (PosInt 7))]\<rparr>"
  have "succeeds (update_record demo bob ''rec1'' ?p) demo_state"
    unfolding succeeds_def by (simp add: demo_run update_record_def value_defs cong: lazy)
  then obtain r' s' where run: "update_record demo bob ''rec1'' ?p demo_state = (Inr r', s')"
    by (rule succeedsE)
  from update_record_stores [OF run] run show ?thesis by auto
qed

section \<open>Errors\<close>

text \<open>
  C21: When creating, updating or transitioning a record or deciding an approval ends in an error
  (the store itself being reliable), the database is as before except for permission denials of
  the caller's tenant in the audit log: no partial write survives.
\<close>

theorem failed_writes_leave_nothing:
  assumes "reliable k"
    and "create_record k ctx nr s = (Inl e, s') \<or> update_record k ctx rid patch s = (Inl e, s') \<or>
      transition_record k ctx rid tkey reason s = (Inl e, s') \<or>
      decide_approval k ctx aid approved reason s = (Inl e, s')"
  shows "only_denials (tenant_id ctx) (db s) (db s')"
  using assms clean_errors_create_record [OF assms(1), of ctx nr]
    clean_errors_update_record [OF assms(1), of ctx rid patch]
    clean_errors_transition_record [of ctx k rid tkey reason]
    clean_errors_decide_approval [of ctx k aid approved reason]
  unfolding clean_errors_def by blast

theorem failed_writes_leave_nothing_witness:
  "\<exists>e s'. update_record demo bob ''rec3'' \<lparr>rp_data = []\<rparr> demo_state = (Inl e, s') \<and>
     only_denials ''acme'' demo_db (db s')"
proof -
  have "\<not> allowed demo demo_db bob Update (resource_for ''invoice'') (Some (demo_record ''rec3'' ''ann'' ''I-3'' ''draft''))"
    by (simp add: allowed_eval demo_defs access_defs)
  moreover have "find_record demo_db (tenant_id bob) ''rec3'' = Some (demo_record ''rec3'' ''ann'' ''I-3'' ''draft'')"
    by (simp add: find_record_def demo_defs)
  ultimately have "update_record demo bob ''rec3'' \<lparr>rp_data = []\<rparr> demo_state \<noteq> (Inr r', s')" for r' s'
    by (auto elim!: update_record_Inr simp: demo_record_def)
  then obtain e s' where run: "update_record demo bob ''rec3'' \<lparr>rp_data = []\<rparr> demo_state = (Inl e, s')"
    by (metis prod.collapse sumE)
  have "tenant_id bob = ''acme''" by (simp add: demo_defs)
  with failed_writes_leave_nothing [OF reliable_demo disjI2 [OF disjI1], OF run] run show ?thesis by auto
qed

end
