(* ===== verification/WorkflowSafety.thy ===== *)
theory WorkflowSafety
  imports Sample
begin

text \<open>
  Properties of the workflow engine, of approvals and of tasks: a record moves along declared
  transitions only, a gated transition waits for a decision, an approval is decided once, and
  what a decision does to a record whose state has moved on in the meantime.
\<close>

section \<open>Transitions\<close>

text \<open>
  C16: A successful \<open>transition_record\<close> takes a transition that the record's workflow declares
  from the state the record is in, by a caller who holds the permission \<open>transition\<close>: on the resource
  the transition names as its guard, and on the type of the record if it names none. (For that case
  \<open>contracts/workflow.rs\<close> documents that whoever may update the record may take the transition; the
  code asks for more than that, as the next property shows.) An ungated transition moves that
  record, and only that record, to the target state; a gated one leaves every record as it is and
  appends one pending approval for it. A record in a state the workflow can reach is moved to, or
  waits for, another such state.
\<close>

theorem transition_follows_workflow:
  assumes "transition_record k ctx rid tkey reason s = (Inr res, s')"
  shows "\<exists>r w tr. find_record (db s) (tenant_id ctx) rid = Some r \<and>
    governing_workflow (db s) (tenant_id ctx) r = Some w \<and>
    tr \<in> set (wf_transitions w) \<and> t_key tr = tkey \<and> t_from tr = current_state w r \<and>
    tr_from res = t_from tr \<and> tr_to res = t_to tr \<and>
    allowed k (db s) ctx Transition
      (case t_guard_permission tr of Some g \<Rightarrow> g | None \<Rightarrow> resource_for (r_object_type r)) (Some r) \<and>
    (wf_reach w (current_state w r) \<longrightarrow> wf_reach w (t_to tr)) \<and>
    (if t_requires_approval tr then
       records (db s') = records (db s) \<and>
       (\<exists>aid ap. tr_approval_id res = Some aid \<and> approvals (db s') = approvals (db s) @ [ap] \<and>
          pending_request ctx rid (r_object_type r) aid tr ap)
     else
       approvals (db s') = approvals (db s) \<and>
       (\<exists>ts. records (db s') = upd_where (\<lambda>r. r_tenant_id r = tenant_id ctx \<and> r_id r = rid)
          (\<lambda>row. row\<lparr>r_workflow_state := Some (t_to tr), r_updated_at := ts\<rparr>) (records (db s))))"
proof (rule transition_record_Inr [OF assms], goal_cases)
  case (1 r w tr)
  then have tr: "tr \<in> set (wf_transitions w)" "t_from tr = current_state w r"
    by (auto simp: available_from_def)
  have "wf_reach w (t_to tr)" if "wf_reach w (current_state w r)"
    using that 1(3) by (rule wf_reach.intros(2))
  with 1 tr show ?case
    by (intro exI [of _ r] exI [of _ w] exI [of _ tr]) auto
qed

theorem transition_follows_workflow_witness:
  "\<exists>res s'. transition_record demo bob ''rec1'' ''submit'' None demo_state = (Inr res, s') \<and>
     tr_from res = ''draft''"
proof -
  have "succeeds (transition_record demo bob ''rec1'' ''submit'' None) demo_state"
    unfolding succeeds_def by (simp add: demo_run flow_defs transition_record_def cong: lazy)
  then obtain res s' where run: "transition_record demo bob ''rec1'' ''submit'' None demo_state = (Inr res, s')"
    by (rule succeedsE)
  from transition_follows_workflow [OF run] obtain r w where
    "find_record (db demo_state) (tenant_id bob) ''rec1'' = Some r"
    "governing_workflow (db demo_state) (tenant_id bob) r = Some w" "tr_from res = current_state w r" by auto
  then have "tr_from res = ''draft''"
    by (auto simp: find_record_def governing_workflow_def current_state_def demo_defs)
  with run show ?thesis by auto
qed

text \<open>
  C17: An unguarded transition is refused to a caller who may not \<open>transition\<close> records of that type,
  whatever else the caller may do: the error is the denial, and nothing but the denial is written.
  The documentation of \<open>guard_permission\<close> says the contrary, that without a guard any actor who can
  update the record may transition it. The sample clerk without the grant may update the record.
\<close>

theorem update_right_is_not_enough:
  assumes "reliable k" "find_record (db s) (tenant_id ctx) rid = Some r"
    and "governing_workflow (db s) (tenant_id ctx) r = Some w"
    and "transition_from w (current_state w r) tkey = Some tr" "t_guard_permission tr = None"
    and "\<not> allowed k (db s) ctx Transition (resource_for (r_object_type r)) (Some r)"
  shows "\<exists>s'. transition_record k ctx rid tkey reason s =
      (Inl (forbidden (''not permitted: transition on object:'' @ r_object_type r)), s') \<and>
    only_denials (tenant_id ctx) (db s) (db s')"
proof -
  from assms(3) obtain ot wkey where ot: "find_object_type (db s) (tenant_id ctx) (r_object_type r) = Some ot"
    "ot_workflow_key ot = Some wkey" "find_workflow (db s) (tenant_id ctx) wkey = Some w"
    by (auto simp: governing_workflow_def bind_eq_Some_conv)
  let ?s = "s\<lparr>tick := tick s + 3\<rparr>" and ?res = "resource_for (r_object_type r)"
  obtain s' where a: "authorize k ctx Transition ?res (Some r) ?s =
      (Inl (forbidden (''not permitted: '' @ action_str Transition @ '' on '' @ ?res)), s')"
    using authorize_denied [OF assms(1), of ?s ctx Transition ?res "Some r"] assms(6) by auto
  have "only_denials (tenant_id ctx) (db ?s) (db s')"
    by (rule keepsD [OF only_denials.keeps_authorize [OF refl] a])
  moreover have "transition_record k ctx rid tkey reason s =
      (Inl (forbidden (''not permitted: '' @ action_str Transition @ '' on '' @ ?res)), s')"
    using assms(1,2,4,5) ot a
    by (simp add: transition_record_def require_record_def load_record_def load_object_type_def
        load_workflow_def run_simps run_stmt bindK_def someK_def retK_def seqK_def Let_def eval_nat_numeral)
  ultimately show ?thesis by (simp add: resource_for_def)
qed

theorem update_right_is_not_enough_witness:
  "\<exists>s'. allowed demo demo_db (bob\<lparr>role_keys := [''member'']\<rparr>) Update ''object:invoice''
       (Some (demo_record ''rec1'' ''bob'' ''I-1'' ''draft'')) \<and>
     transition_record demo (bob\<lparr>role_keys := [''member'']\<rparr>) ''rec1'' ''submit'' None demo_state =
       (Inl (forbidden ''not permitted: transition on object:invoice''), s')"
proof -
  let ?ctx = "bob\<lparr>role_keys := [''member'']\<rparr>" and ?r = "demo_record ''rec1'' ''bob'' ''I-1'' ''draft''"
  have a: "allowed demo demo_db ?ctx Update ''object:invoice'' (Some ?r)"
    "\<not> allowed demo (db demo_state) ?ctx Transition (resource_for (r_object_type ?r)) (Some ?r)"
    by (simp_all add: allowed_eval demo_defs access_defs resource_for_def)
  have r: "find_record (db demo_state) (tenant_id ?ctx) ''rec1'' = Some ?r"
    "governing_workflow (db demo_state) (tenant_id ?ctx) ?r = Some demo_flow"
    by (simp_all add: find_record_def governing_workflow_def find_object_type_def find_workflow_def demo_defs)
  have t: "transition_from demo_flow (current_state demo_flow ?r) ''submit'' =
      Some (workflow_transition ''submit'' ''draft'' ''submitted'' ''Submit'' False)"
    by (simp add: transition_from_def current_state_def demo_defs)
  from update_right_is_not_enough [OF reliable_demo r t _ a(2), of None] a(1) show ?thesis
    by (auto simp: workflow_transition_def demo_record_def)
qed

section \<open>Approvals\<close>

text \<open>
  C18: A successful \<open>decide_approval\<close> found the approval of the caller's tenant pending; the caller
  may approve on the related record, and with separation of duties on is not the requester
  (unless trusted). It records the decision and the decider in that approval, and an approved
  request that names a record and a target state moves exactly that record there, a rejected one
  moves nothing.
\<close>

theorem decide_approval_effect:
  assumes "decide_approval k ctx aid approved reason s = (Inr ap', s')"
  shows "\<exists>ap ts. find_approval (db s) (tenant_id ctx) aid = Some ap \<and> ap_status ap = ''pending'' \<and>
    (enable_approval_separation_of_duties (flags k) \<longrightarrow> trusted ctx \<or> ap_requested_by ap \<noteq> actor_id ctx) \<and>
    allowed k (db s) ctx Approve (approval_resource ap) (approval_target (db s) (tenant_id ctx) ap) \<and>
    ap' = ap\<lparr>ap_status := if approved then ''approved'' else ''rejected'',
             ap_decided_by := Some (actor_id ctx), ap_decision_reason := reason,
             ap_decided_at := Some ts\<rparr> \<and>
    approvals (db s') = upd_where (\<lambda>a. ap_tenant_id a = tenant_id ctx \<and> ap_id a = aid)
      (decided ctx approved reason ts) (approvals (db s)) \<and>
    records (db s') =
      (case (ap_related_record_id ap, ap_target_state ap) of
         (Some rid, Some target) \<Rightarrow>
           if approved
           then upd_where (\<lambda>r. r_tenant_id r = tenant_id ctx \<and> r_id r = rid)
                  (\<lambda>row. row\<lparr>r_workflow_state := Some target, r_updated_at := ts\<rparr>) (records (db s))
           else records (db s)
       | _ \<Rightarrow> records (db s))"
proof (rule decide_approval_Inr [OF assms], goal_cases)
  case (1 ap ts)
  then show ?case
    by (intro exI [of _ ap] exI [of _ ts])
      (auto simp: decided_def decision_status_def approved_move_def split: option.splits)
qed

theorem decide_approval_effect_witness:
  "\<exists>ap' s'. decide_approval demo ann ''ap1'' True None demo_state = (Inr ap', s') \<and>
     ap_status ap' = ''approved'' \<and> ap_decided_by ap' = Some ''ann''"
proof -
  have "succeeds (decide_approval demo ann ''ap1'' True None) demo_state"
    unfolding succeeds_def
    by (simp add: demo_run flow_defs approval_defs decide_approval_def cong: lazy)
  then obtain ap' s' where run: "decide_approval demo ann ''ap1'' True None demo_state = (Inr ap', s')"
    by (rule succeedsE)
  have "actor_id ann = ''ann''" by (simp add: demo_defs)
  with decide_approval_effect [OF run] run show ?thesis by auto
qed

lemma find_approval_unique:
  assumes "uniq ap_id (approvals d)" "a \<in> set (approvals d)"
  shows "find_approval d (ap_tenant_id a) (ap_id a) = Some a"
proof -
  have "find_approval d (ap_tenant_id a) (ap_id a) \<noteq> None"
    using assms(2) by (auto simp: find_approval_def find_None_all)
  then obtain b where b: "find_approval d (ap_tenant_id a) (ap_id a) = Some b" by auto
  with find_approval_Some [OF b] uniq_eq [OF assms(1) _ assms(2), of b] show ?thesis by auto
qed

text \<open>
  An approval is decided at most once: after a decision, in every later state that the
  services can lead to (theory \<open>Invariants\<close>), a further decision on it, by whoever of the tenant
  and whichever way, is refused with the failed precondition "approval already decided".
\<close>

theorem approval_decided_once:
  assumes "decide_approval k ctx aid approved reason s = (Inr ap', s')" "db_inv (db s)"
    and "evolves (db s') (db s'')" "reliable k" "tenant_id ctx' = tenant_id ctx"
  shows "fst (decide_approval k ctx' aid approved' reason' s'') =
    Inl (failed_precondition ''approval already decided'')"
proof -
  obtain ap ts where ap: "find_approval (db s) (tenant_id ctx) aid = Some ap"
    and ap': "ap' = decided ctx approved reason ts ap"
    and upd: "approvals (db s') = upd_where (\<lambda>a. ap_tenant_id a = tenant_id ctx \<and> ap_id a = aid)
       (decided ctx approved reason ts) (approvals (db s))"
    by (rule decide_approval_Inr [OF assms(1)])
  note ap_in = find_approval_Some [OF ap]
  have inv: "db_inv (db s')"
    using keepsD [OF keeps_evolves_decide assms(1)] assms(2) by (simp add: evolves_def)
  have "ap' \<in> set (approvals (db s'))"
    using ap_in unfolding upd ap' set_upd_where by auto
  moreover have "ap_status ap' \<noteq> ''pending''" by (simp add: ap')
  ultimately have "ap' \<in> set (approvals (db s''))" "db_inv (db s'')"
    using assms(3) inv unfolding evolves_def decided_final_def by auto
  from find_approval_unique [OF db_inv_uniq(7) [OF this(2)] this(1)]
  have "find_approval (db s'') (tenant_id ctx') aid = Some ap'"
    using ap_in assms(5) by (simp add: ap')
  then show ?thesis
    using assms(4) by (simp add: decide_approval_def load_approval_def run_simps run_stmt ap')
qed

theorem approval_decided_once_witness:
  "\<exists>ap' s'. decide_approval demo ann ''ap1'' True None demo_state = (Inr ap', s') \<and>
     fst (decide_approval demo ann ''ap1'' False None s') =
       Inl (failed_precondition ''approval already decided'')"
proof -
  have "succeeds (decide_approval demo ann ''ap1'' True None) demo_state"
    unfolding succeeds_def
    by (simp add: demo_run flow_defs approval_defs decide_approval_def cong: lazy)
  then obtain ap' s' where run: "decide_approval demo ann ''ap1'' True None demo_state = (Inr ap', s')"
    by (rule succeedsE)
  have "fst (decide_approval demo ann ''ap1'' False None s') =
      Inl (failed_precondition ''approval already decided'')"
    by (rule approval_decided_once [OF run _ evolves.frame_refl]) (simp_all add: demo_inv)
  with run show ?thesis by auto
qed

text \<open>
  A decision does not look at the state the record is in by then. In the sample tenant the
  requester withdraws the submitted invoice, which goes back to draft while the approval of its
  payment is still pending; the approval then moves it from draft to paid, a move for which the
  workflow declares no transition.
\<close>

theorem stale_approval_still_applies:
  "\<exists>res s1 ap s2.
     transition_record demo bob ''rec2'' ''withdraw'' None demo_state = (Inr res, s1) \<and>
     decide_approval demo ann ''ap1'' True None s1 = (Inr ap, s2) \<and>
     map_option r_workflow_state (find_record (db s1) ''acme'' ''rec2'') = Some (Some ''draft'') \<and>
     map_option r_workflow_state (find_record (db s2) ''acme'' ''rec2'') = Some (Some ''paid'') \<and>
     \<not> (\<exists>tr\<in>set (available_from demo_flow ''draft''). t_to tr = ''paid'')"
proof -
  let ?m = "transition_record demo bob ''rec2'' ''withdraw'' None"
  let ?m' = "bindK ?m (\<lambda>_. decide_approval demo ann ''ap1'' True None)"
  note eval = demo_run flow_defs approval_defs transition_record_def decide_approval_def
  have "succeeds ?m' demo_state"
    unfolding succeeds_def by (simp add: eval cong: lazy)
  then obtain ap s2 res s1 where
    1: "?m demo_state = (Inr res, s1)" and 2: "decide_approval demo ann ''ap1'' True None s1 = (Inr ap, s2)"
    by (auto simp: succeeds_def bindK_Inr split: sum.splits prod.splits)
  have "map_option r_workflow_state (find_record (db (snd (?m demo_state))) ''acme'' ''rec2'') = Some (Some ''draft'')"
    "map_option r_workflow_state (find_record (db (snd (?m' demo_state))) ''acme'' ''rec2'') = Some (Some ''paid'')"
    by (simp_all add: eval cong: lazy)
  moreover have "snd (?m' demo_state) = s2" using 1 2 by (simp add: bindK_def)
  moreover have "\<forall>tr\<in>set (available_from demo_flow ''draft''). t_to tr \<noteq> ''paid''"
    by (simp add: available_from_def demo_defs)
  ultimately show ?thesis using 1 2 by auto
qed

section \<open>Tasks\<close>

text \<open>
  \<open>complete_task\<close> succeeds only with the status done or cancelled, on an open or started task
  of the caller's tenant that the caller may view, and then changes the status and update time of
  that task only, and logs it.
\<close>

theorem complete_task_effect:
  assumes "complete_task k ctx tid status s = (Inr x, s')"
  shows "\<exists>old ts ev. find_task (db s) (tenant_id ctx) tid = Some old \<and>
    status \<in> {''done'', ''cancelled''} \<and> tk_status old \<in> {''open'', ''in_progress''} \<and>
    may_view_task k (db s) ctx old \<and>
    db s' = log_audit ev ((db s)\<lparr>tasks := upd_where (\<lambda>x. tk_tenant_id x = tenant_id ctx \<and> tk_id x = tid)
      (\<lambda>x. x\<lparr>tk_status := status, tk_updated_at := ts\<rparr>) (tasks (db s))\<rparr>) \<and>
    a_action ev = ''task.update'' \<and> x = old\<lparr>tk_status := status, tk_updated_at := ts\<rparr>"
  by (rule complete_task_Inr [OF assms]) (auto simp: set_task_def)

theorem complete_task_effect_witness:
  "\<exists>x s'. complete_task demo ann ''tk1'' ''done'' demo_state = (Inr x, s') \<and> tk_status x = ''done''"
proof -
  have "succeeds (complete_task demo ann ''tk1'' ''done'') demo_state"
    unfolding succeeds_def by (simp add: demo_run approval_defs complete_task_def cong: lazy)
  then obtain x s' where run: "complete_task demo ann ''tk1'' ''done'' demo_state = (Inr x, s')"
    by (rule succeedsE)
  from complete_task_effect [OF run] run show ?thesis by auto
qed

end
