(* ===== verification/Sessions.thy ===== *)
theory Sessions
  imports Sample
begin

text \<open>
  Credentials and sessions: what a login gives and refuses, the lockout after repeated failures,
  the contexts that a token authenticates, the end of a session, and the token format and password
  policy.
\<close>

section \<open>Login\<close>

text \<open>
  C27: A successful login was not locked out, and its credentials are those of an active user of an
  active tenant: the password verifies against the stored hash. It appends exactly one session, for
  that user and under a new token hash, that expires the configured number of days after a reading of the clock
  the login itself has made, the one stored as the session's creation: \<open>LATENTDB_SESSION_TTL_DAYS\<close>
  days if that is set to a number from 1 to 365, 30 if it is not set. It logs
  \<open>auth.login\<close>, clears the failure counter of the key, and returns the token with the roles that
  are assigned to the user.
\<close>

theorem login_opens_session:
  assumes "login k slug email pw rid src s = (Inr lr, s')"
  shows "\<exists>tn u row ev n days.
    \<not> fst (is_locked (instant_at k (tick s)) (trim slug @ ''|'' @ normalize_email email) (limiter s)) \<and>
    tn \<in> set (tenants (db s)) \<and> tn_slug tn = trim slug \<and> tn_status tn = ''active'' \<and>
    u \<in> set (users (db s)) \<and> us_tenant_id u = tn_id tn \<and> us_email u = normalize_email email \<and>
    us_status u = ''active'' \<and> argon2_verify k pw (us_password_hash u) = Inr True \<and>
    db s' = log_audit ev ((db s)\<lparr>sessions := sessions (db s) @ [row]\<rparr>) \<and>
    a_action ev = ''auth.login'' \<and> a_actor_id ev = us_id u \<and> a_tenant_id ev = tn_id tn \<and>
    ss_user_id row = us_id u \<and> ss_tenant_id row = tn_id tn \<and> \<not> ss_revoked row \<and>
    ss_token_hash row = sha256_hex k (lr_token lr) \<and>
    ss_token_hash row \<notin> ss_token_hash ` set (sessions (db s)) \<and>
    tick s \<le> n \<and> n < tick s' \<and> ss_created_at row = rfc3339 k (now_at k n) \<and>
    ss_expires_at row = rfc3339 k (now_at k n + days * 86400 * 1000000000) \<and>
    1 \<le> days \<and> days \<le> 365 \<and>
    (env_var k ''LATENTDB_SESSION_TTL_DAYS'' = None \<longrightarrow> days = 30) \<and>
    (\<forall>v d. env_var k ''LATENTDB_SESSION_TTL_DAYS'' = Some v \<and> parse_i64 (trim v) = Some d \<and>
       1 \<le> d \<and> d \<le> 365 \<longrightarrow> days = d) \<and> lr_expires_at lr = ss_expires_at row \<and>
    limiter s' (trim slug @ ''|'' @ normalize_email email) = None \<and>
    lr_user_id lr = us_id u \<and> lr_tenant_id lr = tn_id tn \<and>
    lr_role_keys lr = role_keys_of (db s) (tn_id tn) (us_id u)"
proof -
  from login_Inr [OF assms] obtain tn u s1 where
    unlocked: "\<not> fst (is_locked (instant_at k (tick s)) (trim slug @ ''|'' @ normalize_email email) (limiter s))"
    and acc: "accepted k (db s) (trim slug) (normalize_email email) pw tn u"
    and op: "open_session k u (tn_id tn) (normalize_email email) rid src s1 = (Inr lr, s')"
    and s1: "db s1 = db s" "limiter s1 (trim slug @ ''|'' @ normalize_email email) = None" "tick s \<le> tick s1"
    by blast
  obtain row ev where "db s' = log_audit ev ((db s)\<lparr>sessions := sessions (db s) @ [row]\<rparr>)"
    "limiter s' = limiter s1"
    "ss_tenant_id row = tn_id tn" "ss_user_id row = us_id u" "\<not> ss_revoked row"
    "ss_token_hash row = sha256_hex k (lr_token lr)"
    "ss_token_hash row \<notin> ss_token_hash ` set (sessions (db s))"
    "ss_expires_at row = rfc3339 k (now_at k (tick s1 + 2) + days_ns (session_ttl_days k))"
    "lr_expires_at lr = ss_expires_at row"
    "ss_created_at row = rfc3339 k (now_at k (tick s1 + 2))" "tick s1 + 2 < tick s'"
    "lr_user_id lr = us_id u" "lr_tenant_id lr = tn_id tn"
    "lr_role_keys lr = role_keys_of (db s) (tn_id tn) (us_id u)"
    "a_action ev = ''auth.login''" "a_actor_id ev = us_id u" "a_tenant_id ev = tn_id tn"
    by (rule open_session_Inr [OF op]) (rule that, simp_all add: s1)
  with unlocked acc accepted_rows [OF acc] s1(2,3) session_ttl_bounds [of k] show ?thesis
    by (intro exI [of _ tn] exI [of _ u] exI [of _ row] exI [of _ ev] exI [of _ "tick s1 + 2"]
        exI [of _ "session_ttl_days k"])
      (simp add: accepted_def days_ns_def, simp add: session_ttl_days_def DEFAULT_SESSION_TTL_DAYS_def)
qed

lemma demo_login: "succeeds (login demo ''acme'' ''bob@acme.io'' ''secret99'' ''rq'' SrcApi) demo_state"
  unfolding succeeds_def by (simp add: demo_run login_def login_defs cong: lazy)

theorem login_opens_session_witness:
  "\<exists>lr s'. login demo ''acme'' ''bob@acme.io'' ''secret99'' ''rq'' SrcApi demo_state = (Inr lr, s') \<and>
     length (sessions (db s')) = 2"
proof -
  obtain lr s' where run: "login demo ''acme'' ''bob@acme.io'' ''secret99'' ''rq'' SrcApi demo_state = (Inr lr, s')"
    using demo_login by (rule succeedsE)
  from login_opens_session [OF run] run show ?thesis by (auto simp: log_audit_def)
qed

text \<open>
  C29: A login that fails says nothing about why: its error is "invalid credentials", the lockout
  error, or a fault of the store or of the stored hash, whether the tenant is unknown, the user is
  unknown or disabled or the password is wrong; and it leaves the database as it was but for
  failed-login events in the audit log.
\<close>

theorem login_failure_uniform:
  assumes "login k slug email pw rid src s = (Inl e, s')"
  shows "(e = invalid_credentials \<or> e = too_many_attempts \<or> e \<in> storage_errors \<or>
      (\<exists>msg. e = internal (''stored hash invalid: '' @ msg))) \<and>
    failure_logged (trim slug) (db s) (db s')"
  using errors_in_login [of k slug email pw rid src] login_errors_keep [of slug k email pw rid src] assms
  unfolding errors_in_def errors_keep_def login_errors_def by blast

theorem login_failure_uniform_witness:
  "\<exists>s'. login demo ''acme'' ''bob@acme.io'' ''wrong'' ''rq'' SrcApi demo_state = (Inl invalid_credentials, s') \<and>
     failure_logged ''acme'' demo_db (db s')"
proof -
  have "\<nexists>tn u. accepted demo (db demo_state) (trim ''acme'') (normalize_email ''bob@acme.io'') ''wrong'' tn u"
    by (simp add: accepted_def find_active_slug_def find_by_email_def demo_defs)
  then obtain s' where run: "login demo ''acme'' ''bob@acme.io'' ''wrong'' ''rq'' SrcApi demo_state
      = (Inl invalid_credentials, s')"
    by - (rule login_rejected [where k = demo and s = demo_state and slug = "''acme''"
          and email = "''bob@acme.io''" and pw = "''wrong''"], simp_all add: is_locked_def)
  from login_failure_uniform [OF run] run show ?thesis by auto
qed

section \<open>The lockout\<close>














section \<open>Bearer tokens\<close>

text \<open>
  C31: A bearer token authenticates only as the principal of a live credential: a token that starts
  with \<open>ldb_\<close> through an active API key with its hash, any other through a session with its hash
  that is neither revoked nor expired; in both cases the principal and its tenant are active, the
  context has the tenant of the credential and the roles assigned to the principal, and an API key
  never gives a platform administrator. Nothing is written but the last use of the key.
\<close>

theorem authenticate_backed:
  assumes "authenticate k token rid src s = (Inr ctx, s')"
  shows "(if starts_with ''ldb_'' token then backed_by_key k (db s) token ctx
          else backed_by_session k (db s) (now_at k (Suc (tick s))) token ctx) \<and>
    tenant_active (db s) (tenant_id ctx) \<and> only_touches_keys (db s) (db s')"
  using authenticate_Inr [OF assms] suspended_not_authenticated [OF assms]
    keepsD [OF keeps_authenticate assms] by simp

lemma demo_authenticated:
  "succeeds (authenticate demo ''lds_b'' ''rq'' SrcApi) demo_state"
  "succeeds (authenticate demo ''ldb_k'' ''rq'' SrcApi) demo_state"
  unfolding succeeds_def by (simp_all add: demo_run token_defs cong: lazy)

theorem authenticate_backed_witness:
  "\<exists>ctx s' ctx' s''. authenticate demo ''lds_b'' ''rq'' SrcApi demo_state = (Inr ctx, s') \<and>
     backed_by_session demo demo_db 101 ''lds_b'' ctx \<and>
     authenticate demo ''ldb_k'' ''rq'' SrcApi demo_state = (Inr ctx', s'') \<and>
     backed_by_key demo demo_db ''ldb_k'' ctx'"
proof -
  obtain ctx s' where 1: "authenticate demo ''lds_b'' ''rq'' SrcApi demo_state = (Inr ctx, s')"
    using demo_authenticated(1) by (rule succeedsE)
  obtain ctx' s'' where 2: "authenticate demo ''ldb_k'' ''rq'' SrcApi demo_state = (Inr ctx', s'')"
    using demo_authenticated(2) by (rule succeedsE)
  have t: "\<not> starts_with ''ldb_'' ''lds_b''" "starts_with ''ldb_'' ''ldb_k''"
    by (simp_all add: starts_with_iff)
  from authenticate_backed [OF 1] authenticate_backed [OF 2] 1 2 t show ?thesis by auto
qed






section \<open>The end of a session\<close>

text \<open>
  C32: After a logout with a session token, that token authenticates nobody: no live session with
  its hash is left, for whatever request and however the clock stands.
\<close>

theorem logout_revokes:
  assumes "logout k token s = (Inr r, s')" "\<not> starts_with ''ldb_'' token"
    and "sessions (db s'') = sessions (db s')"
  shows "authenticate k token rid src s'' \<noteq> (Inr ctx, s3)"
  using revoked_not_authenticated [of s'' k token rid src ctx s3] logout_Inr [OF assms(1)] assms(2,3)
  by (simp add: revoked_hash_def)

theorem logout_revokes_witness:
  "\<exists>r s'. logout demo ''lds_b'' demo_state = (Inr r, s') \<and>
     (\<nexists>ctx s3. authenticate demo ''lds_b'' ''rq'' SrcApi s' = (Inr ctx, s3))"
proof -
  have "succeeds (logout demo ''lds_b'') demo_state"
    unfolding succeeds_def
    by (simp add: demo_run logout_def logout_migration_output_def load_session_def find_session_def system_ctx_def live_session_def
        revoke_hash_def cong: lazy)
  then obtain r s' where run: "logout demo ''lds_b'' demo_state = (Inr r, s')" by (rule succeedsE)
  have "\<not> starts_with ''ldb_'' ''lds_b''" by (simp add: starts_with_iff)
  from logout_revokes [OF run this refl] run show ?thesis by blast
qed

section \<open>Token format and password policy\<close>

text \<open>
  The hexadecimal coding of the token bytes and hashes loses nothing: two characters a byte,
  and the bytes read back, so tokens of different bytes differ.
\<close>

lemma token_coding_roundtrip:
  "hex_decode (hex_encode bs) = bs \<and> length (hex_encode bs) = 2 * length bs \<and>
    (hex_encode bs = hex_encode bs' \<longleftrightarrow> bs = bs')"
  by (simp add: hex_roundtrip hex_encode_inj)

text \<open>
  The password policy accepts exactly the passwords of 8 to 128 characters, counted as Unicode
  scalar values and not as bytes, that are not white space only.
\<close>

lemma password_policy:
  "validate_password_strength pw = Inr () \<longleftrightarrow> 8 \<le> char_count pw \<and> char_count pw \<le> 128 \<and> trim pw \<noteq> []"
  by (rule validate_password_strength_iff)

end
