(* ===== verification/Providers.thy ===== *)
theory Providers
  imports Store
begin

text \<open>
  The AI providers (\<open>ai/src/provider.rs\<close>): the one that is not configured, the local one that
  echoes its prompt, and the OpenAI-compatible one. The HTTP client is a parameter: what an
  attempt to post a payload gives, by its place in the run. The \<open>openai\<close> cargo feature is a flag
  of the engine; \<open>serde_json::to_string_pretty\<close> is a parameter too.
\<close>

section \<open>Requests and completions\<close>

record completion_request =
  cr_system :: "string option"
  cr_prompt :: string
  cr_max_tokens :: "32 word"
  cr_temperature :: rat

definition default_max_tokens :: "32 word" where
  "default_max_tokens = 512"

definition new_request :: "string \<Rightarrow> string \<Rightarrow> completion_request" where
  "new_request sys prompt =
     \<lparr>cr_system = Some sys, cr_prompt = prompt, cr_max_tokens = default_max_tokens, cr_temperature = 0\<rparr>"

record completion =
  cp_text :: string
  cp_model :: string
  cp_provider :: string
  cp_prompt_tokens :: "32 word"
  cp_completion_tokens :: "32 word"

section \<open>Configuration\<close>

record openai_config =
  oc_base_url :: string
  oc_api_key :: string
  oc_model :: string

datatype provider = UnconfiguredProvider | OfflineProvider string | OpenAiProvider openai_config

datatype http_outcome = SendFailed string | BadBody string | Body json

record ai_engine =
  en_provider :: provider
  en_openai_built :: bool
  en_post :: "nat \<Rightarrow> string \<Rightarrow> string \<Rightarrow> json \<Rightarrow> http_outcome"
  en_pretty :: "json \<Rightarrow> string"

definition offline_default :: provider where
  "offline_default = OfflineProvider ''latentdb-offline-1''"

definition provider_from_env :: "(string \<Rightarrow> string option) \<Rightarrow> provider" where
  "provider_from_env env =
     (let var = (\<lambda>v d. case env v of Some x \<Rightarrow> x | None \<Rightarrow> d) in
      if env ''LATENTDB_AI_PROVIDER'' = Some ''openai''
      then OpenAiProvider \<lparr>oc_base_url = var ''LATENTDB_AI_BASE_URL'' ''http://localhost:1234/v1'',
             oc_api_key = var ''LATENTDB_AI_API_KEY'' [],
             oc_model = var ''LATENTDB_AI_MODEL'' ''local-model''\<rparr>
      else if env ''LATENTDB_AI_PROVIDER'' = Some ''offline'' then offline_default
      else UnconfiguredProvider)"

fun provider_name :: "provider \<Rightarrow> string" where
  "provider_name UnconfiguredProvider = ''unconfigured''"
| "provider_name (OfflineProvider _) = ''offline''"
| "provider_name (OpenAiProvider _) = ''openai''"

fun provider_model :: "provider \<Rightarrow> string" where
  "provider_model UnconfiguredProvider = ''none''"
| "provider_model (OfflineProvider m) = m"
| "provider_model (OpenAiProvider c) = oc_model c"

section \<open>Words of a text\<close>

text \<open>\<open>str::split_whitespace\<close>.\<close>

function split_whitespace :: "string \<Rightarrow> string list" where
  "split_whitespace [] = []"
| "split_whitespace (c # cs) =
     (if is_ws c then split_whitespace cs
      else (c # takeWhile (\<lambda>x. \<not> is_ws x) cs) # split_whitespace (dropWhile (\<lambda>x. \<not> is_ws x) cs))"
  by pat_completeness auto
termination
  by (relation "measure length") (auto simp: le_imp_less_Suc length_dropWhile_le)

definition approx_tokens :: "string \<Rightarrow> 32 word" where
  "approx_tokens s = of_nat (length (split_whitespace s))"

section \<open>Completion\<close>

definition offline_complete :: "string \<Rightarrow> completion_request \<Rightarrow> completion" where
  "offline_complete model req =
     (let body = trim (cr_prompt req);
          text = (if body = [] then ''No content was provided to summarize.'' else body);
          pt = approx_tokens (cr_prompt req) +
               (case cr_system req of Some sys \<Rightarrow> approx_tokens sys | None \<Rightarrow> 0)
      in \<lparr>cp_text = text, cp_model = model, cp_provider = ''offline'', cp_prompt_tokens = pt,
          cp_completion_tokens = approx_tokens text\<rparr>)"

text \<open>Indexing a \<open>Value\<close> by a key or a position gives null where there is nothing.\<close>

definition jindex :: "json \<Rightarrow> string \<Rightarrow> json" where
  "jindex v key = (case v of JObject m \<Rightarrow> (case jget m key of Some x \<Rightarrow> x | None \<Rightarrow> JNull) | _ \<Rightarrow> JNull)"

definition jindex_at :: "json \<Rightarrow> nat \<Rightarrow> json" where
  "jindex_at v n = (case v of JArray xs \<Rightarrow> if n < length xs then xs ! n else JNull | _ \<Rightarrow> JNull)"

fun as_u64 :: "json \<Rightarrow> 64 word option" where
  "as_u64 (JNumber (PosInt n)) = Some n"
| "as_u64 _ = None"

definition usage_count :: "json \<Rightarrow> string \<Rightarrow> 32 word" where
  "usage_count body key =
     (case as_u64 (jindex (jindex body ''usage'') key) of Some n \<Rightarrow> ucast n | None \<Rightarrow> 0)"

definition openai_payload :: "string \<Rightarrow> completion_request \<Rightarrow> json" where
  "openai_payload model req =
     (let message = (\<lambda>role content. jobj [(''role'', JString role), (''content'', JString content)]);
          messages = (case cr_system req of Some sys \<Rightarrow> [message ''system'' sys] | None \<Rightarrow> []) @
                     [message ''user'' (cr_prompt req)]
      in jobj [(''model'', JString model), (''messages'', JArray messages),
               (''temperature'', JNumber (JFloat (cr_temperature req))),
               (''max_tokens'', JNumber (PosInt (ucast (cr_max_tokens req))))])"

definition trim_end_matches :: "char \<Rightarrow> string \<Rightarrow> string" where
  "trim_end_matches c s = rev (dropWhile (\<lambda>x. x = c) (rev s))"

definition openai_complete ::
  "ai_engine \<Rightarrow> nat \<Rightarrow> openai_config \<Rightarrow> completion_request \<Rightarrow> api_error + completion" where
  "openai_complete eng n cfg req =
     (if en_openai_built eng
      then (let url = trim_end_matches (CHR ''/'') (oc_base_url cfg) @ ''/chat/completions'' in
            case en_post eng n url (oc_api_key cfg) (openai_payload (oc_model cfg) req) of
              SendFailed e \<Rightarrow> Inl (internal (''ai provider request failed: '' @ e))
            | BadBody e \<Rightarrow> Inl (internal (''ai provider bad response: '' @ e))
            | Body body \<Rightarrow>
                Inr \<lparr>cp_text = (case as_str (jindex (jindex (jindex_at (jindex body ''choices'') 0)
                                   ''message'') ''content'') of Some t \<Rightarrow> t | None \<Rightarrow> []),
                     cp_model = oc_model cfg, cp_provider = ''openai'',
                     cp_prompt_tokens = usage_count body ''prompt_tokens'',
                     cp_completion_tokens = usage_count body ''completion_tokens''\<rparr>)
      else Inl (feature_disabled ''OpenAI provider was not built (enable the `openai` feature)''))"

definition complete :: "ai_engine \<Rightarrow> completion_request \<Rightarrow> completion kern" where
  "complete eng req = (\<lambda>s.
     ((case en_provider eng of
         UnconfiguredProvider \<Rightarrow>
           Inl (feature_disabled ''AI provider is not configured (set LATENTDB_AI_PROVIDER)'')
       | OfflineProvider model \<Rightarrow> Inr (offline_complete model req)
       | OpenAiProvider cfg \<Rightarrow> openai_complete eng (tick s) cfg req), s\<lparr>tick := Suc (tick s)\<rparr>))"

lemma keeps_complete_db: "complete eng req s = (r, s') \<Longrightarrow> db s' = db s"
  by (auto simp: complete_def)

end
