(* ===== verification/Retrieval.thy ===== *)
theory Retrieval
  imports RecordFacts BuilderFacts Floats Providers
begin

text \<open>
  Permission-aware retrieval (\<open>ai/src/retrieval.rs\<close>): documents built from \<open>list_records\<close>, that is
  from the projections of records the caller may read. The page of a listing starts at 0, so the
  slice panic that \<open>list_records\<close> admits does not occur (\<open>list_records_first_page\<close>).
\<close>

record retrieved_doc =
  do_source_id :: string
  do_object_type :: string
  do_title :: string
  do_snippet :: string
  do_score :: rat

text \<open>The loop over the data stops at eight parts.\<close>

definition snippet_part :: "kernel \<Rightarrow> object_type_def option \<Rightarrow> string \<times> json \<Rightarrow> string option" where
  "snippet_part k ot = (\<lambda>(key, v).
     case Option.bind ot (\<lambda>o'. field_of o' key) of
       None \<Rightarrow> None
     | Some f \<Rightarrow>
         if \<not> f_ai_visible f then None
         else (case v of
                 JString s \<Rightarrow> Some (key @ ''='' @ s)
               | JNull \<Rightarrow> None
               | other \<Rightarrow> Some (key @ ''='' @ json_text k other)))"

fun snippet_parts ::
  "kernel \<Rightarrow> object_type_def option \<Rightarrow> nat \<Rightarrow> jmap \<Rightarrow> string list" where
  "snippet_parts k ot n [] = []"
| "snippet_parts k ot n (kv # kvs) =
     (case snippet_part k ot kv of
        None \<Rightarrow> snippet_parts k ot n kvs
      | Some p \<Rightarrow> if Suc n \<ge> 8 then [p] else p # snippet_parts k ot (Suc n) kvs)"

definition snippet_of :: "kernel \<Rightarrow> record_t \<Rightarrow> object_type_def option \<Rightarrow> string" where
  "snippet_of k r ot = join '', '' (snippet_parts k ot 0 (r_data r))"

text \<open>The share of the query's words that the document has.\<close>

definition score :: "string \<Rightarrow> string \<Rightarrow> string \<Rightarrow> rat" where
  "score qry title snippet =
     (if qry = [] then 1
      else let haystack = to_lowercase (title @ '' '' @ snippet);
               terms = split_whitespace qry;
               hits = foldl (\<lambda>h t. if str_contains haystack (to_lowercase t) then f64_add h 1 else h) 0 terms
           in if terms = [] then 1 else f64_div hits (of_nat (length terms)))"

definition doc_title :: "string \<Rightarrow> object_type_def option \<Rightarrow> record_t \<Rightarrow> string" where
  "doc_title ty ot r =
     (case Option.bind (Option.bind (Option.bind ot ot_display_field) (jget (r_data r))) as_str of
        Some t \<Rightarrow> t
      | None \<Rightarrow> ty @ '':'' @ r_id r)"

definition doc_of :: "kernel \<Rightarrow> string \<Rightarrow> string \<Rightarrow> object_type_def option \<Rightarrow> record_t \<Rightarrow> retrieved_doc" where
  "doc_of k qry ty ot r =
     (let title = doc_title ty ot r; snippet = snippet_of k r ot
      in \<lparr>do_source_id = r_id r, do_object_type = ty, do_title = title, do_snippet = snippet,
          do_score = score qry title snippet\<rparr>)"

definition search_filter :: "string \<Rightarrow> nat \<Rightarrow> record_filter" where
  "search_filter qry limit =
     default_filter\<lparr>rf_search := (if qry = [] then None else Some qry),
                    rf_page := \<lparr>pg_limit = of_nat limit, pg_offset = 0\<rparr>\<rparr>"

definition first_page :: "record_t list_response option \<Rightarrow> record_t list" where
  "first_page res = (case res of Some l \<Rightarrow> lr_items l | None \<Rightarrow> [])"

definition retrieve_type ::
  "kernel \<Rightarrow> auth_context \<Rightarrow> string \<Rightarrow> nat \<Rightarrow> string \<Rightarrow> retrieved_doc list kern" where
  "retrieve_type k ctx qry limit ty =
     matchK (list_records k ctx ty (search_filter qry limit))
       (\<lambda>_. retK [])
       (\<lambda>res. matchK (get_object_type k ctx ty)
          (\<lambda>_. retK (map (doc_of k qry ty None) (first_page res)))
          (\<lambda>ot. retK (map (doc_of k qry ty (Some ot)) (first_page res))))"

definition by_score :: "retrieved_doc \<Rightarrow> retrieved_doc \<Rightarrow> ordering" where
  "by_score a b = cmp_of (do_score b) (do_score a)"

definition retrieve ::
  "kernel \<Rightarrow> auth_context \<Rightarrow> string \<Rightarrow> string list \<Rightarrow> nat \<Rightarrow> retrieved_doc list kern" where
  "retrieve k ctx qry tys limit =
     bindK (if tys = []
            then bindK (list_object_types k ctx) (\<lambda>ots. retK (map ot_key ots))
            else retK tys) (\<lambda>types.
     bindK (mapK (retrieve_type k ctx qry limit) types) (\<lambda>docs.
     retK (take limit (sort_by by_score (concat docs)))))"

section \<open>What retrieval reads and writes\<close>

lemma list_records_first_page:
  assumes "list_records k ctx ty (search_filter qry limit) s = (Inr res, s')"
  shows "res \<noteq> None"
  using list_records_None [OF assms] sint_clamped_limit [of "rf_page (search_filter qry limit)"]
  by (simp add: search_filter_def)

context denial_frame begin

lemma keeps_retrieve_type [frame_rules]:
  "tenant_id ctx = t \<Longrightarrow> keeps R (retrieve_type k ctx qry limit ty)"
  unfolding retrieve_type_def get_object_type_def
  by (intro keeps_matchK keeps_list_records keeps_seqK keeps_authorize keeps_load_object_type
      keeps_retK)

lemma keeps_retrieve [frame_rules]: "tenant_id ctx = t \<Longrightarrow> keeps R (retrieve k ctx qry tys limit)"
  unfolding retrieve_def
  by (intro keeps_bindK keeps_if keeps_list_object_types keeps_mapK keeps_retrieve_type keeps_retK)

end

section \<open>What a document may cite\<close>

text \<open>A record of the caller's tenant that the caller may read.\<close>

definition citable :: "kernel \<Rightarrow> database \<Rightarrow> auth_context \<Rightarrow> string \<Rightarrow> bool" where
  "citable k d ctx rid \<longleftrightarrow>
     (\<exists>r\<in>set (records d). r_id r = rid \<and> r_tenant_id r = tenant_id ctx \<and>
        allowed k d ctx Read (resource_for (r_object_type r)) (Some r))"

lemma citable_denials: "only_denials t d d' \<Longrightarrow> citable k d' ctx rid = citable k d ctx rid"
  by (auto simp: only_denials_def citable_def allowed_def granted_def role_grants_of_def)

lemma list_records_citable:
  assumes "list_records k ctx ty flt s = (Inr (Some res), s')" "r' \<in> set (lr_items res)"
  shows "citable k (db s) ctx (r_id r')"
proof -
  obtain ot where "find_object_type (db s) (tenant_id ctx) ty = Some ot"
    by (rule list_records_Inr [OF assms(1)])
  from list_records_items [OF assms(1) this] assms(2) show ?thesis
    unfolding citable_def by (fastforce simp: project_fields_def)
qed

lemma retrieve_type_citable:
  assumes "retrieve_type k ctx qry limit ty s = (Inr docs, s')" "doc \<in> set docs"
  shows "citable k (db s) ctx (do_source_id doc)"
proof (cases "list_records k ctx ty (search_filter qry limit) s")
  case (Pair r s1)
  show ?thesis
  proof (cases r)
    case (Inl e)
    with Pair assms show ?thesis by (simp add: retrieve_type_def matchK_def retK_def)
  next
    case (Inr res)
    with Pair have run: "list_records k ctx ty (search_filter qry limit) s = (Inr res, s1)" by simp
    from list_records_first_page [OF this] obtain l where l: "res = Some l" by blast
    from run assms l obtain ot r' where "doc = doc_of k qry ty ot r'" "r' \<in> set (lr_items l)"
      by (auto simp: retrieve_type_def matchK_def first_page_def retK_def split: prod.splits sum.splits)
    with list_records_citable run l show ?thesis by (auto simp: doc_of_def Let_def)
  qed
qed

lemma retrieve_types_citable:
  assumes "mapK (retrieve_type k ctx qry limit) tys s = (Inr docs, s')" "doc \<in> set (concat docs)"
  shows "citable k (db s) ctx (do_source_id doc)"
  using assms
proof (induction tys arbitrary: s docs)
  case (Cons ty tys)
  then obtain d1 s1 ds where d1: "retrieve_type k ctx qry limit ty s = (Inr d1, s1)"
    and ds: "mapK (retrieve_type k ctx qry limit) tys s1 = (Inr ds, s')" and docs: "docs = d1 # ds"
    by (auto simp: bindK_Inr)
  have "only_denials (tenant_id ctx) (db s) (db s1)"
    by (rule keepsD [OF only_denials.keeps_retrieve_type [OF refl] d1])
  with Cons.IH [OF ds] Cons.prems(2) docs retrieve_type_citable [OF d1] show ?case
    by (auto simp: citable_denials)
qed simp

lemma retrieve_citable:
  assumes "retrieve k ctx qry tys limit s = (Inr docs, s')" "doc \<in> set docs"
  shows "citable k (db s) ctx (do_source_id doc)"
proof -
  from assms(1) obtain types s1 ds where
    t: "(if tys = [] then bindK (list_object_types k ctx) (\<lambda>ots. retK (map ot_key ots)) else retK tys) s
        = (Inr types, s1)"
    and ds: "mapK (retrieve_type k ctx qry limit) types s1 = (Inr ds, s')"
    and docs: "docs = take limit (sort_by by_score (concat ds))"
    by (auto simp: retrieve_def bindK_Inr)
  have "keeps (only_denials (tenant_id ctx)) (if tys = [] then
      bindK (list_object_types k ctx) (\<lambda>ots. retK (map ot_key ots)) else retK tys)"
    by (intro frame_rules refl)
  from keepsD [OF this t] have "only_denials (tenant_id ctx) (db s) (db s1)" .
  moreover have "doc \<in> set (concat ds)"
    using assms(2) docs in_set_takeD [of doc limit "sort_by by_score (concat ds)"] by simp
  ultimately show ?thesis
    using retrieve_types_citable [OF ds] by (simp add: citable_denials)
qed

lemma retrieve_bounded: "retrieve k ctx qry tys limit s = (Inr docs, s') \<Longrightarrow> length docs \<le> limit"
  by (auto simp: retrieve_def bindK_Inr)

text \<open>A snippet shows only fields of the type that are visible to the AI, and at most eight.\<close>

lemma snippet_part_visible:
  assumes "snippet_part k ot (key, v) = Some p"
  shows "\<exists>o' f. ot = Some o' \<and> field_of o' key = Some f \<and> f_ai_visible f \<and> starts_with (key @ ''='') p"
proof -
  from assms obtain f where f: "Option.bind ot (\<lambda>o'. field_of o' key) = Some f" "f_ai_visible f"
    and p: "\<exists>txt. p = key @ ''='' @ txt"
    by (cases v) (auto simp: snippet_part_def split: option.splits if_splits)
  from f(1) obtain o' where "ot = Some o'" "field_of o' key = Some f" by (cases ot) auto
  with f(2) p show ?thesis by (auto simp: starts_with_iff)
qed

lemma snippet_parts_visible:
  "p \<in> set (snippet_parts k ot n kvs) \<Longrightarrow>
     \<exists>o' f key v. ot = Some o' \<and> (key, v) \<in> set kvs \<and> field_of o' key = Some f \<and> f_ai_visible f \<and>
       starts_with (key @ ''='') p"
proof (induction kvs arbitrary: n)
  case (Cons kv kvs)
  obtain key v where kv: "kv = (key, v)" by force
  show ?case
  proof (cases "snippet_part k ot kv")
    case None
    with Cons.prems have "p \<in> set (snippet_parts k ot n kvs)" by simp
    from Cons.IH [OF this] show ?thesis by (metis list.set_intros(2))
  next
    case (Some q)
    with Cons.prems have "p = q \<or> p \<in> set (snippet_parts k ot (Suc n) kvs)"
      by (auto split: if_splits)
    with Cons.IH [of "Suc n"] snippet_part_visible [of k ot key v q] Some kv show ?thesis
      by (metis list.set_intros(1,2))
  qed
qed simp

lemma snippet_parts_length: "n \<le> 7 \<Longrightarrow> length (snippet_parts k ot n kvs) + n \<le> 8"
  by (induction k ot n kvs rule: snippet_parts.induct) (auto split: option.splits)

end
