(* ===== verification/Agents.thy ===== *)
theory Agents
  imports Retrieval Analytics Migration
begin

text \<open>
  The agents (\<open>ai/src/agents.rs\<close>): each computes its facts and citations from the records that
  \<open>list_records\<close> gives the caller, has the provider phrase them, and logs the answer with the
  identifiers it is grounded in.
\<close>

record ai_answer =
  an_text :: string
  an_citations :: "string list"
  an_sources :: "retrieved_doc list"
  an_model :: string
  an_provider :: string
  an_used_ai :: bool
  an_prompt_tokens :: "32 word"
  an_completion_tokens :: "32 word"

section \<open>Rendering\<close>

definition nl :: string where
  "nl = [CHR 0x0A]"

definition render_source :: "retrieved_doc \<Rightarrow> string" where
  "render_source d =
     ''- ['' @ do_source_id d @ ''] '' @ do_title d @ '' ('' @ do_object_type d @ ''): '' @ do_snippet d"

definition render_sources :: "retrieved_doc list \<Rightarrow> string" where
  "render_sources docs =
     (if docs = [] then ''(no accessible records matched)'' else join nl (map render_source docs))"

definition str_field :: "record_t \<Rightarrow> string \<Rightarrow> string option" where
  "str_field r key = Option.bind (jget (r_data r) key) as_str"

definition num_field :: "record_t \<Rightarrow> string \<Rightarrow> rat option" where
  "num_field r key = Option.bind (jget (r_data r) key) as_f64"

definition or_else :: "'a option \<Rightarrow> 'a \<Rightarrow> 'a" where
  "or_else o' d = (case o' of Some x \<Rightarrow> x | None \<Rightarrow> d)"

definition short_list :: "string list \<Rightarrow> string" where
  "short_list ids = (if ids = [] then ''(none)'' else join '', '' (take 10 ids))"

definition today_str :: "kernel \<Rightarrow> string kern" where
  "today_str k = bindK (now_rfc3339 k) (\<lambda>ts. retK (take 10 ts))"

text \<open>\<open>x as i64\<close> of an \<open>f64\<close>: truncation towards zero, saturating.\<close>

fun f64_to_i64 :: "f64 \<Rightarrow> int" where
  "f64_to_i64 (Fin q) = max (- (2 ^ 63)) (min (2 ^ 63 - 1) (if q \<ge> 0 then \<lfloor>q\<rfloor> else \<lceil>q\<rceil>))"
| "f64_to_i64 Inf = 2 ^ 63 - 1"
| "f64_to_i64 NegInf = - (2 ^ 63)"

section \<open>Answers\<close>

definition guard_agents :: "kernel \<Rightarrow> unit kern" where
  "guard_agents k =
     guardK (enable_ai_agents (flags k)) (feature_disabled ''AI agents are disabled'')"

definition agent_list :: "kernel \<Rightarrow> auth_context \<Rightarrow> string \<Rightarrow> record_t list kern" where
  "agent_list k ctx ty =
     matchK (list_records k ctx ty (search_filter [] 500)) (\<lambda>_. retK []) (\<lambda>res. retK (first_page res))"

definition ai_system_prompt :: string where
  "ai_system_prompt = ''You are LatentAI, an enterprise assistant. Use only the provided source records and cite their ids. Never invent data.''"

definition jword :: "32 word \<Rightarrow> json" where
  "jword n = JNumber (PosInt (ucast n))"

definition finish_with ::
  "ai_engine \<Rightarrow> kernel \<Rightarrow> auth_context \<Rightarrow> string \<Rightarrow> string list \<Rightarrow> retrieved_doc list \<Rightarrow> ai_answer kern" where
  "finish_with eng k ctx prompt citations sources =
     bindK (complete eng (new_request ai_system_prompt prompt)) (\<lambda>c.
     bindK (event_from k ctx ''ai.answer'' None None None
              (Some (jobj [(''chars'', jnat (length (cp_text c)))]))) (\<lambda>ev.
     bindK (new_id k) (\<lambda>eid.
     seqK (ignoreK (audit k (ev\<lparr>a_id := eid,
             a_ai_meta := Some (jobj [(''provider'', JString (cp_provider c)),
               (''model'', JString (cp_model c)), (''prompt_tokens'', jword (cp_prompt_tokens c)),
               (''completion_tokens'', jword (cp_completion_tokens c))]),
             a_retrieved_source_ids := citations\<rparr>)))
     (retK \<lparr>an_text = cp_text c, an_citations = citations, an_sources = sources,
            an_model = cp_model c, an_provider = cp_provider c, an_used_ai = True,
            an_prompt_tokens = cp_prompt_tokens c,
            an_completion_tokens = cp_completion_tokens c\<rparr>))))"

definition finish ::
  "ai_engine \<Rightarrow> kernel \<Rightarrow> auth_context \<Rightarrow> string \<Rightarrow> retrieved_doc list \<Rightarrow> ai_answer kern" where
  "finish eng k ctx prompt docs = finish_with eng k ctx prompt (map do_source_id docs) docs"

section \<open>The agents\<close>

definition ask ::
  "ai_engine \<Rightarrow> kernel \<Rightarrow> auth_context \<Rightarrow> string \<Rightarrow> string list \<Rightarrow> ai_answer kern" where
  "ask eng k ctx question tys =
     seqK (guard_agents k) (
     bindK (retrieve k ctx question tys 8) (\<lambda>docs.
     finish eng k ctx
       (''Question: '' @ question @ nl @ nl @ ''Grounded source records (cite by id):'' @ nl @
        render_sources docs @ nl @ nl @
        ''Answer using only the records above and reference their ids.'') docs))"

definition summarize_record :: "ai_engine \<Rightarrow> kernel \<Rightarrow> auth_context \<Rightarrow> string \<Rightarrow> ai_answer kern" where
  "summarize_record eng k ctx rid =
     seqK (guard_agents k) (
     bindK (get_record k ctx rid) (\<lambda>r.
     let doc = \<lparr>do_source_id = r_id r, do_object_type = r_object_type r, do_title = r_id r,
                do_snippet = json_text k (JObject (r_data r)), do_score = 1\<rparr>
     in finish eng k ctx
          (''Summarize this '' @ r_object_type r @ '' record concisely for a business user:'' @ nl @
           en_pretty eng (JObject (r_data r)) @ nl @ ''(id: '' @ r_id r @ '')'') [doc]))"

definition finding_doc :: "string \<Rightarrow> string \<Rightarrow> string \<Rightarrow> retrieved_doc" where
  "finding_doc ty snippet rid =
     \<lparr>do_source_id = rid, do_object_type = ty, do_title = rid, do_snippet = snippet, do_score = 1\<rparr>"

definition text_before :: "string option \<Rightarrow> string \<Rightarrow> bool" where
  "text_before d today = (case d of Some x \<Rightarrow> x < today | None \<Rightarrow> False)"

definition overdue_invoice :: "string \<Rightarrow> record_t \<Rightarrow> bool" where
  "overdue_invoice today iv \<longleftrightarrow>
     str_field iv ''status'' \<noteq> Some ''paid'' \<and> text_before (str_field iv ''due_date'') today"

definition finance_cashflow_risk :: "ai_engine \<Rightarrow> kernel \<Rightarrow> auth_context \<Rightarrow> ai_answer kern" where
  "finance_cashflow_risk eng k ctx =
     seqK (guard_agents k) (
     bindK (agent_list k ctx ''invoice'') (\<lambda>invoices.
     bindK (today_str k) (\<lambda>today.
     let overdue = filter (overdue_invoice today) invoices;
         ids = map r_id overdue;
         total = f64_sum (map (\<lambda>iv. or_else (num_field iv ''amount'') 0) overdue)
     in finish eng k ctx
          (''Cashflow risk assessment as of '' @ today @ '':'' @ nl @ ''- Overdue invoices: '' @
           show_nat (length ids) @ '' totaling '' @ show_int (f64_to_i64 (Fin total)) @
           '' (minor units).'' @ nl @ ''- Overdue invoice ids: '' @ short_list ids @ nl @
           ''If there are many overdue invoices, cashflow is at risk; prioritize collections.'')
          (map (finding_doc ''invoice'' ''overdue invoice'') ids))))"

definition low_stock :: "record_t \<Rightarrow> bool" where
  "low_stock p \<longleftrightarrow>
     (let qty = (case num_field p ''quantity'' of
                   Some q \<Rightarrow> q
                 | None \<Rightarrow> or_else (num_field p ''on_hand'') 0);
          reorder = or_else (num_field p ''reorder_point'') 0
      in reorder > 0 \<and> qty < reorder)"

definition procurement_low_stock :: "ai_engine \<Rightarrow> kernel \<Rightarrow> auth_context \<Rightarrow> ai_answer kern" where
  "procurement_low_stock eng k ctx =
     seqK (guard_agents k) (
     bindK (agent_list k ctx ''product'') (\<lambda>products.
     let ids = map r_id (filter low_stock products)
     in finish eng k ctx
          (''Low-stock assessment:'' @ nl @ ''- '' @ show_nat (length ids) @
           '' products are below their reorder point and should be reordered.'' @ nl @
           ''- Product ids: '' @ short_list ids @ nl @
           ''A purchase order draft is recommended for these items.'')
          (map (finding_doc ''product'' ''low stock'') ids)))"

definition deal_at_risk :: "string \<Rightarrow> record_t \<Rightarrow> bool" where
  "deal_at_risk today d \<longleftrightarrow>
     (let stage = or_else (str_field d ''stage'') [];
          closed = stage \<in> {''won'', ''lost'', ''closed_won'', ''closed_lost''};
          overdue = text_before (str_field d ''close_date'') today
      in \<not> closed \<and> (stage = ''at_risk'' \<or> overdue))"

definition sales_deal_risk :: "ai_engine \<Rightarrow> kernel \<Rightarrow> auth_context \<Rightarrow> ai_answer kern" where
  "sales_deal_risk eng k ctx =
     seqK (guard_agents k) (
     bindK (agent_list k ctx ''deal'') (\<lambda>deals.
     bindK (today_str k) (\<lambda>today.
     let at_risk = filter (deal_at_risk today) deals;
         ids = map r_id at_risk;
         total = f64_sum (map (\<lambda>d. or_else (num_field d ''amount'') 0) at_risk)
     in finish eng k ctx
          (''Deal risk assessment as of '' @ today @ '':'' @ nl @ ''- '' @ show_nat (length ids) @
           '' open deals are at risk, worth '' @ show_int (f64_to_i64 (Fin total)) @
           '' (minor units).'' @ nl @ ''- Deal ids: '' @ short_list ids)
          (map (finding_doc ''deal'' ''at-risk deal'') ids))))"

definition paid_filter :: field_filter where
  "paid_filter = \<lparr>ff_field = ''status'', ff_op = Eq, ff_value = JString ''paid''\<rparr>"

definition bi_answer :: "ai_engine \<Rightarrow> kernel \<Rightarrow> auth_context \<Rightarrow> string \<Rightarrow> ai_answer kern" where
  "bi_answer eng k ctx question =
     seqK (guard_agents k) (
     let q = to_lowercase question; has = str_contains q in
     if has ''revenue'' \<and> has ''risk'' then
       bindK (finance_cashflow_risk eng k ctx) (\<lambda>fin.
       bindK (sales_deal_risk eng k ctx) (\<lambda>sales.
       finish_with eng k ctx
         (''Revenue is at risk this period for two reasons:'' @ nl @ ''1) '' @ an_text fin @ nl @
          ''2) '' @ an_text sales)
         (an_citations fin @ an_citations sales) (an_sources fin @ an_sources sales)))
     else if has ''overdue'' \<or> has ''cashflow'' \<or> has ''cash flow'' then
       finance_cashflow_risk eng k ctx
     else if has ''low'' \<and> has ''stock'' then procurement_low_stock eng k ctx
     else if has ''deal'' \<and> has ''risk'' then sales_deal_risk eng k ctx
     else if has ''revenue'' then
       matchK (aggregate k ctx ''invoice'' Sum (Some ''amount'') [paid_filter])
         (\<lambda>_. finish eng k ctx (''Recognized revenue (paid invoices) totals '' @
                show_int (f64_to_i64 (Fin 0)) @ '' minor units.'') [])
         (\<lambda>revenue. finish eng k ctx (''Recognized revenue (paid invoices) totals '' @
                show_int (f64_to_i64 revenue) @ '' minor units.'') [])
     else ask eng k ctx question [])"

section \<open>What an answer rests on\<close>

text \<open>Only the audit log has grown, by events of the tenant.\<close>

definition only_logs :: "string \<Rightarrow> database \<Rightarrow> database \<Rightarrow> bool" where
  "only_logs t d d' \<longleftrightarrow>
     (\<exists>new. d' = d\<lparr>audit_logs := audit_logs d @ new\<rparr> \<and> (\<forall>ev\<in>set new. a_tenant_id ev = t)) \<and>
     log_ids_kept d d'"

interpretation only_logs: denial_frame "only_logs t" t for t
proof unfold_locales
  show "only_logs t d d" for d
    by (auto simp: only_logs_def intro!: exI [of _ "[]"])
  show "only_logs t d d''" if "only_logs t d d'" "only_logs t d' d''" for d d' d''
  proof -
    from that(1) obtain n1 where 1: "d' = d\<lparr>audit_logs := audit_logs d @ n1\<rparr>"
      "\<forall>ev\<in>set n1. a_tenant_id ev = t" unfolding only_logs_def by blast
    from that(2) obtain n2 where 2: "d'' = d'\<lparr>audit_logs := audit_logs d' @ n2\<rparr>"
      "\<forall>ev\<in>set n2. a_tenant_id ev = t" unfolding only_logs_def by blast
    from 1 2 show ?thesis
      using that unfolding only_logs_def
      by (intro conjI exI [of _ "n1 @ n2"]) (auto intro: log_ids_kept_trans)
  qed
  show "only_logs t d (log_audit ev d)"
    if "a_tenant_id ev = t" "a_id ev \<notin> a_id ` set (audit_logs d)" for ev d
    using that by (auto simp: only_logs_def log_audit_def log_ids_kept_def)
qed

lemma only_denials_only_logs: "only_denials t d d' \<Longrightarrow> only_logs t d d'"
  by (auto simp: only_denials_def only_logs_def)

lemma citable_only_logs: "only_logs t d d' \<Longrightarrow> citable k d' ctx rid = citable k d ctx rid"
  by (auto simp: only_logs_def citable_def allowed_def granted_def role_grants_of_def)

context db_frame begin

lemma keeps_event:
  assumes "\<And>ev. a_tenant_id ev = tenant_id ctx \<Longrightarrow> a_action ev = act \<Longrightarrow> keeps R (f ev)"
  shows "keeps R (bindK (event_from k ctx act ty target prev after) f)"
proof (rule keepsI)
  fix s r s'
  assume run: "bindK (event_from k ctx act ty target prev after) f s = (r, s')"
  obtain ev where ev: "event_from k ctx act ty target prev after s = (Inr ev, s\<lparr>tick := tick s + 2\<rparr>)"
    by (auto simp: event_from_Inr)
  then have "a_tenant_id ev = tenant_id ctx" "a_action ev = act" by (auto simp: event_from_Inr)
  from run ev have "f ev (s\<lparr>tick := tick s + 2\<rparr>) = (r, s')" by (simp add: bindK_def)
  from keepsD [OF assms [OF \<open>a_tenant_id ev = tenant_id ctx\<close> \<open>a_action ev = act\<close>] this]
  show "R (db s) (db s')" by simp
qed

end

context denial_frame begin

lemma keeps_complete [frame_rules]: "keeps R (complete eng req)"
  by (simp add: keeps_def complete_def frame_refl)

lemma keeps_guard_agents [frame_rules]: "keeps R (guard_agents k)"
  unfolding guard_agents_def by (rule keeps_guardK)

lemma keeps_today_str [frame_rules]: "keeps R (today_str k)"
  unfolding today_str_def by (intro keeps_bindK keeps_now_rfc3339 keeps_retK)

lemma keeps_agent_list [frame_rules]: "tenant_id ctx = t \<Longrightarrow> keeps R (agent_list k ctx ty)"
  unfolding agent_list_def by (intro keeps_matchK keeps_list_records keeps_retK)

end

lemma agent_list_citable:
  assumes "agent_list k ctx ty s = (Inr rs, s')" "r \<in> set rs"
  shows "citable k (db s) ctx (r_id r)"
proof (cases "list_records k ctx ty (search_filter [] 500) s")
  case (Pair res s1)
  show ?thesis
  proof (cases res)
    case (Inl e)
    with Pair assms show ?thesis by (simp add: agent_list_def matchK_def retK_def)
  next
    case (Inr l)
    with Pair list_records_first_page obtain l' where "l = Some l'" by blast
    with Inr Pair assms list_records_citable [of k ctx ty "search_filter [] 500" s l' s1 r]
    show ?thesis by (simp add: agent_list_def matchK_def retK_def first_page_def)
  qed
qed

text \<open>
  Every run of an agent satisfies \<open>grounded\<close>: it writes audit events only, and the identifiers an
  answer cites are those of its sources, each of a record the caller may read.
\<close>

definition grounded_answer :: "kernel \<Rightarrow> database \<Rightarrow> auth_context \<Rightarrow> ai_answer \<Rightarrow> bool" where
  "grounded_answer k d ctx a \<longleftrightarrow>
     an_citations a = map do_source_id (an_sources a) \<and> (\<forall>c\<in>set (an_citations a). citable k d ctx c)"

definition grounded :: "kernel \<Rightarrow> auth_context \<Rightarrow> ai_answer kern \<Rightarrow> bool" where
  "grounded k ctx m \<longleftrightarrow>
     keeps (only_logs (tenant_id ctx)) m \<and>
     (\<forall>s a s'. m s = (Inr a, s') \<longrightarrow> grounded_answer k (db s) ctx a)"

lemma grounded_bind:
  assumes "keeps (only_logs (tenant_id ctx)) m"
    and "\<And>s x s'. m s = (Inr x, s') \<Longrightarrow> Q (db s) x"
    and "\<And>x. keeps (only_logs (tenant_id ctx)) (f x)"
    and "\<And>(s :: kstate) x s1 a s'. Q (db s) x \<Longrightarrow> only_logs (tenant_id ctx) (db s) (db s1) \<Longrightarrow>
           f x s1 = (Inr a, s') \<Longrightarrow> grounded_answer k (db s) ctx a"
  shows "grounded k ctx (bindK m f)"
  unfolding grounded_def
proof (intro conjI allI impI)
  show "keeps (only_logs (tenant_id ctx)) (bindK m f)"
    by (intro frame_rules assms(1,3))
  fix s a s'
  assume "bindK m f s = (Inr a, s')"
  then obtain x s1 where m: "m s = (Inr x, s1)" and f: "f x s1 = (Inr a, s')" by (auto simp: bindK_Inr)
  show "grounded_answer k (db s) ctx a"
    by (rule assms(4) [OF assms(2) [OF m] keepsD [OF assms(1) m] f])
qed

lemma grounded_answer_only_logs:
  "only_logs (tenant_id ctx) d d' \<Longrightarrow> grounded_answer k d' ctx a = grounded_answer k d ctx a"
  by (simp add: grounded_answer_def citable_only_logs)

lemma keeps_finish_with [frame_rules]:
  "tenant_id ctx = t \<Longrightarrow> keeps (only_logs t) (finish_with eng k ctx prompt cs src)"
proof -
  assume t: "tenant_id ctx = t"
  have a: "keeps (only_logs t) (ignoreK (audit k ev))" if "a_tenant_id ev = t" for ev
    unfolding audit_def insert_audit_def
    by (intro frame_rules) (use that in \<open>auto simp: only_logs_def log_audit_def log_ids_kept_def\<close>)
  show ?thesis
    unfolding finish_with_def
    by (rule only_logs.keeps_event only_logs.keeps_complete only_logs.keeps_bindK
        only_logs.keeps_new_id only_logs.keeps_seqK only_logs.keeps_retK a | simp add: t)+
qed

lemma finish_with_Inr: "finish_with eng k ctx prompt cs src s = (Inr a, s') \<Longrightarrow>
    an_citations a = cs \<and> an_sources a = src"
  by (auto simp: finish_with_def bindK_Inr seqK_Inr)

lemma keeps_finish [frame_rules]:
  "tenant_id ctx = t \<Longrightarrow> keeps (only_logs t) (finish eng k ctx prompt docs)"
  unfolding finish_def by (rule keeps_finish_with)

lemma finish_grounded:
  "finish eng k ctx prompt docs s = (Inr a, s') \<Longrightarrow> (\<And>d. d \<in> set docs \<Longrightarrow> citable k db0 ctx (do_source_id d)) \<Longrightarrow>
     grounded_answer k db0 ctx a"
  by (auto simp: grounded_answer_def finish_def dest!: finish_with_Inr)

lemma grounded_guard: "grounded k ctx m \<Longrightarrow> grounded k ctx (seqK (guard_agents k) m)"
proof -
  assume m: "grounded k ctx m"
  have "keeps (only_logs (tenant_id ctx)) (seqK (guard_agents k) m)"
    using m by (intro frame_rules) (simp_all add: grounded_def)
  moreover have "grounded_answer k (db s) ctx a" if "seqK (guard_agents k) m s = (Inr a, s')" for s a s'
    using that m unfolding grounded_def guard_agents_def by (fastforce simp: seqK_Inr guardK_Inr)
  ultimately show ?thesis by (simp add: grounded_def)
qed

lemma grounded_finish:
  "grounded k ctx (finish eng k ctx prompt [])"
  unfolding grounded_def by (auto intro!: keeps_finish intro: finish_grounded)

text \<open>The shape of the three assessments: a listing, the date, and the rows that stand out.\<close>

lemma grounded_assessment:
  assumes "\<And>rs x. set (ids rs x) \<subseteq> r_id ` set rs" "keeps (only_logs (tenant_id ctx)) m"
    "\<And>rs x. map do_source_id (docs rs x) = ids rs x"
  shows "grounded k ctx (bindK (agent_list k ctx ty) (\<lambda>rs. bindK m (\<lambda>x.
      finish eng k ctx (prompt rs x) (docs rs x))))"
proof (rule grounded_bind [where Q = "\<lambda>d rs. \<forall>r\<in>set rs. citable k d ctx (r_id r)"])
  show "keeps (only_logs (tenant_id ctx)) (agent_list k ctx ty)" by (intro frame_rules refl)
  show "\<forall>r\<in>set rs. citable k (db s) ctx (r_id r)" if "agent_list k ctx ty s = (Inr rs, s')" for s rs s'
    using agent_list_citable [OF that] by blast
  show "keeps (only_logs (tenant_id ctx)) (bindK m (\<lambda>x. finish eng k ctx (prompt rs x) (docs rs x)))" for rs
    by (intro frame_rules refl assms(2))
  fix s s1 s' :: kstate and rs a
  assume rs: "\<forall>r\<in>set rs. citable k (db s) ctx (r_id r)"
    and "bindK m (\<lambda>x. finish eng k ctx (prompt rs x) (docs rs x)) s1 = (Inr a, s')"
  then obtain x s2 where fin: "finish eng k ctx (prompt rs x) (docs rs x) s2 = (Inr a, s')"
    by (auto simp: bindK_Inr)
  show "grounded_answer k (db s) ctx a"
  proof (rule finish_grounded [OF fin])
    fix d assume "d \<in> set (docs rs x)"
    then have "do_source_id d \<in> set (ids rs x)" using assms(3) by (metis image_eqI list.set_map)
    with assms(1) [of rs x] rs show "citable k (db s) ctx (do_source_id d)" by auto
  qed
qed

lemma finding_source [simp]: "do_source_id (finding_doc ty snippet rid) = rid"
  by (simp add: finding_doc_def)

lemma grounded_finance: "grounded k ctx (finance_cashflow_risk eng k ctx)"
  unfolding finance_cashflow_risk_def Let_def
  by (intro grounded_guard grounded_assessment
      [where ids = "\<lambda>rs today. map r_id (filter (overdue_invoice today) rs)"]) (auto intro: frame_rules)

lemma grounded_sales: "grounded k ctx (sales_deal_risk eng k ctx)"
  unfolding sales_deal_risk_def Let_def
  by (intro grounded_guard grounded_assessment
      [where ids = "\<lambda>rs today. map r_id (filter (deal_at_risk today) rs)"]) (auto intro: frame_rules)

lemma bindK_retK: "bindK (retK x) f = f x"
  by (simp add: bindK_def retK_def)

lemma grounded_procurement: "grounded k ctx (procurement_low_stock eng k ctx)"
proof -
  have "grounded k ctx (bindK (agent_list k ctx ''product'') (\<lambda>rs. bindK (retK ()) (\<lambda>x.
      finish eng k ctx (p rs) (map (finding_doc ''product'' ''low stock'') (map r_id (filter low_stock rs))))))" for p
    by (rule grounded_assessment [where ids = "\<lambda>rs x. map r_id (filter low_stock rs)"])
      (auto intro: frame_rules)
  then show ?thesis
    unfolding procurement_low_stock_def Let_def bindK_retK by (intro grounded_guard)
qed

lemma grounded_ask: "grounded k ctx (ask eng k ctx question tys)"
  unfolding ask_def
proof (intro grounded_guard grounded_bind
    [where Q = "\<lambda>d docs. \<forall>doc\<in>set docs. citable k d ctx (do_source_id doc)"])
  show "keeps (only_logs (tenant_id ctx)) (retrieve k ctx question tys 8)" by (intro frame_rules refl)
  show "\<forall>doc\<in>set docs. citable k (db s) ctx (do_source_id doc)"
    if "retrieve k ctx question tys 8 s = (Inr docs, s')" for s docs s'
    using retrieve_citable [OF that] by blast
qed (auto intro: keeps_finish finish_grounded)

lemma grounded_summarize: "grounded k ctx (summarize_record eng k ctx rid)"
  unfolding summarize_record_def Let_def
proof (intro grounded_guard grounded_bind [where Q = "\<lambda>d r. citable k d ctx (r_id r)"])
  show "keeps (only_logs (tenant_id ctx)) (get_record k ctx rid)"
    by (rule only_logs.keeps_get_record) simp
  show "citable k (db s) ctx (r_id r)" if "get_record k ctx rid s = (Inr r, s')" for s r s'
  proof -
    from that obtain r0 where "find_record (db s) (tenant_id ctx) rid = Some r0"
      "allowed k (db s) ctx Read (resource_for (r_object_type r0)) (Some r0)" "r_id r = r_id r0"
      by (elim get_record_Inr) (simp add: project_fields_def)
    then show ?thesis by (auto simp: citable_def find_record_def dest!: find_Some_in)
  qed
qed (auto intro: keeps_finish finish_grounded)

lemma grounded_revenue:
  "grounded k ctx (bindK (finance_cashflow_risk eng k ctx) (\<lambda>fin.
     bindK (sales_deal_risk eng k ctx) (\<lambda>sales.
     finish_with eng k ctx (p fin sales) (an_citations fin @ an_citations sales)
       (an_sources fin @ an_sources sales))))"
proof (rule grounded_bind [where Q = "\<lambda>d. grounded_answer k d ctx"])
  note F = grounded_finance [of k ctx eng, unfolded grounded_def] and
    S = grounded_sales [of k ctx eng, unfolded grounded_def]
  show "keeps (only_logs (tenant_id ctx)) (finance_cashflow_risk eng k ctx)" using F by blast
  show "grounded_answer k (db s) ctx x" if "finance_cashflow_risk eng k ctx s = (Inr x, s')" for s x s'
    using F that by blast
  show "keeps (only_logs (tenant_id ctx)) (bindK (sales_deal_risk eng k ctx) (\<lambda>sales.
      finish_with eng k ctx (p fin sales) (an_citations fin @ an_citations sales)
        (an_sources fin @ an_sources sales)))" for fin
    using S by (intro frame_rules refl) blast
  fix s s1 s' :: kstate and fin a
  assume fin: "grounded_answer k (db s) ctx fin" and l: "only_logs (tenant_id ctx) (db s) (db s1)"
    and "bindK (sales_deal_risk eng k ctx) (\<lambda>sales.
      finish_with eng k ctx (p fin sales) (an_citations fin @ an_citations sales)
        (an_sources fin @ an_sources sales)) s1 = (Inr a, s')"
  then obtain sales s2 where sales: "sales_deal_risk eng k ctx s1 = (Inr sales, s2)"
    and a: "an_citations a = an_citations fin @ an_citations sales"
      "an_sources a = an_sources fin @ an_sources sales"
    by (auto simp: bindK_Inr dest!: finish_with_Inr)
  from S sales have "grounded_answer k (db s1) ctx sales" by blast
  with fin a grounded_answer_only_logs [OF l] show "grounded_answer k (db s) ctx a"
    by (auto simp: grounded_answer_def)
qed

lemma grounded_if: "grounded k ctx m \<Longrightarrow> grounded k ctx m' \<Longrightarrow> grounded k ctx (if b then m else m')"
  by simp

lemma grounded_match:
  assumes "keeps (only_logs (tenant_id ctx)) m" "\<And>e. grounded k ctx (h e)" "\<And>x. grounded k ctx (f x)"
  shows "grounded k ctx (matchK m h f)"
  unfolding grounded_def
proof (intro conjI allI impI)
  show "keeps (only_logs (tenant_id ctx)) (matchK m h f)"
    using assms by (intro frame_rules) (simp_all add: grounded_def)
  fix s a s'
  assume run: "matchK m h f s = (Inr a, s')"
  obtain r s1 where m: "m s = (r, s1)" by force
  from keepsD [OF assms(1) m] have l: "only_logs (tenant_id ctx) (db s) (db s1)" .
  from run m assms(2,3) have "grounded_answer k (db s1) ctx a"
    unfolding grounded_def matchK_def by (cases r; simp; blast)
  with l show "grounded_answer k (db s) ctx a" by (simp add: grounded_answer_only_logs)
qed

lemma grounded_bi: "grounded k ctx (bi_answer eng k ctx question)"
proof -
  have "keeps (only_logs (tenant_id ctx)) (aggregate k ctx ty op f flt)" for ty op f flt
    by (rule only_logs.keeps_aggregate) simp
  then show ?thesis
    unfolding bi_answer_def Let_def
    by (intro grounded_guard grounded_if grounded_match grounded_revenue grounded_finance
        grounded_sales grounded_procurement grounded_ask grounded_finish)
qed

end
