(* ===== verification/Actions.thy ===== *)
theory Actions
  imports Agents Transitions
begin

text \<open>
  The actions an agent proposes (\<open>ai/src/action.rs\<close>): the dry run, which computes the change and
  writes nothing but its audit event, and the execution through the kernel services. The risk
  score is the finite \<open>f64\<close> of the request; results are rendered as \<open>serde_json::to_value\<close> does.
\<close>

datatype action_op = CreateRecordOp | UpdateRecordOp | TransitionOp

fun action_op_str :: "action_op \<Rightarrow> string" where
  "action_op_str CreateRecordOp = ''create_record''"
| "action_op_str UpdateRecordOp = ''update_record''"
| "action_op_str TransitionOp = ''transition''"

record agent_action =
  aa_kind :: string
  aa_description :: string
  aa_op :: action_op
  aa_object_type :: "string option"
  aa_record_id :: "string option"
  aa_payload :: json
  aa_safety_level :: "8 word"
  aa_risk_score :: rat

record action_plan =
  pl_action :: agent_action
  pl_summary :: string
  pl_before :: "json option"
  pl_after :: "json option"
  pl_requires_approval :: bool

definition requires_approval :: "agent_action \<Rightarrow> bool" where
  "requires_approval a \<longleftrightarrow> 3 \<le> aa_safety_level a"

text \<open>The values of the payload, and its \<open>key\<close>.\<close>

definition payload_data :: "agent_action \<Rightarrow> jmap" where
  "payload_data a = (case as_object (aa_payload a) of Some m \<Rightarrow> m | None \<Rightarrow> [])"

definition payload_key :: "agent_action \<Rightarrow> string option" where
  "payload_key a = Option.bind (jget (payload_data a) ''key'') as_str"

text \<open>Both entry points log an event of the same form; a failure to log is ignored.\<close>

definition audit_action ::
  "kernel \<Rightarrow> auth_context \<Rightarrow> agent_action \<Rightarrow> string \<Rightarrow> json \<Rightarrow> unit kern" where
  "audit_action k ctx a act after =
     bindK (event_from k ctx act (aa_object_type a) (aa_record_id a) None (Some after)) (\<lambda>ev.
     ignoreK (audit k (ev\<lparr>a_risk_score := Some (aa_risk_score a),
       a_ai_meta := Some (jobj [(''safety_level'', jnat (unat (aa_safety_level a)))])\<rparr>)))"

section \<open>Dry run\<close>

definition preview_change ::
  "kernel \<Rightarrow> auth_context \<Rightarrow> agent_action \<Rightarrow> (json option \<times> json option) kern" where
  "preview_change k ctx a =
     (case aa_op a of
        CreateRecordOp \<Rightarrow> retK (None, Some (aa_payload a))
      | UpdateRecordOp \<Rightarrow>
          bindK (someK (validation ''update action requires record_id'') (aa_record_id a)) (\<lambda>rid.
          bindK (get_record k ctx rid) (\<lambda>current.
          retK (Some (JObject (r_data current)),
                Some (JObject (fold (\<lambda>(key, v). jinsert key v) (payload_data a) (r_data current))))))
      | TransitionOp \<Rightarrow>
          bindK (someK (validation ''transition action requires record_id'') (aa_record_id a)) (\<lambda>rid.
          bindK (get_record k ctx rid) (\<lambda>current.
          retK (Some (jobj [(''workflow_state'', jopt (r_workflow_state current))]),
                Some (jobj [(''transition'', JString (or_else (payload_key a) ''?''))])))))"

definition dry_run :: "kernel \<Rightarrow> auth_context \<Rightarrow> agent_action \<Rightarrow> action_plan kern" where
  "dry_run k ctx a =
     seqK (guard_agents k) (
     bindK (preview_change k ctx a) (\<lambda>(prev, after).
     seqK (audit_action k ctx a ''ai.action.dry_run''
             (jobj [(''kind'', JString (aa_kind a)), (''op'', JString (action_op_str (aa_op a)))]))
     (retK \<lparr>pl_action = a, pl_summary = aa_description a, pl_before = prev, pl_after = after,
            pl_requires_approval = requires_approval a\<rparr>)))"

section \<open>Execution\<close>

definition opt_entry :: "string \<Rightarrow> string option \<Rightarrow> (string \<times> json) list" where
  "opt_entry key v = (case v of Some s \<Rightarrow> [(key, JString s)] | None \<Rightarrow> [])"

definition record_value :: "record_t \<Rightarrow> json" where
  "record_value r = jobj (
     [(''id'', JString (r_id r)), (''object_type'', JString (r_object_type r)),
      (''tenant_id'', JString (r_tenant_id r)), (''org_id'', JString (r_org_id r))] @
     opt_entry ''workspace_id'' (r_workspace_id r) @
     [(''data'', JObject (r_data r)), (''lifecycle'', JString (lifecycle_str (r_lifecycle r)))] @
     opt_entry ''workflow_state'' (r_workflow_state r) @
     [(''created_by'', JString (r_created_by r)), (''created_at'', JString (r_created_at r)),
      (''updated_at'', JString (r_updated_at r))] @
     opt_entry ''archived_at'' (r_archived_at r))"

definition transition_value :: "transition_result \<Rightarrow> json" where
  "transition_value t = jobj (
     [(''status'', JString (tr_status t)), (''record_id'', JString (tr_record_id t)),
      (''from'', JString (tr_from t)), (''to'', JString (tr_to t))] @
     opt_entry ''approval_id'' (tr_approval_id t))"

definition perform :: "kernel \<Rightarrow> auth_context \<Rightarrow> agent_action \<Rightarrow> json kern" where
  "perform k ctx a =
     (case aa_op a of
        CreateRecordOp \<Rightarrow>
          bindK (someK (validation ''create action requires object_type'') (aa_object_type a)) (\<lambda>ty.
          bindK (create_record k ctx
                   \<lparr>nr_object_type = ty, nr_data = payload_data a, nr_workspace_id = None\<rparr>) (\<lambda>r.
          retK (record_value r)))
      | UpdateRecordOp \<Rightarrow>
          bindK (someK (validation ''update action requires record_id'') (aa_record_id a)) (\<lambda>rid.
          bindK (update_record k ctx rid \<lparr>rp_data = payload_data a\<rparr>) (\<lambda>r.
          retK (record_value r)))
      | TransitionOp \<Rightarrow>
          bindK (someK (validation ''transition action requires record_id'') (aa_record_id a)) (\<lambda>rid.
          bindK (someK (validation ''transition action requires payload.key'') (payload_key a)) (\<lambda>key.
          bindK (transition_record k ctx rid key (Some ''ai-action'')) (\<lambda>t.
          retK (transition_value t)))))"

definition execute :: "kernel \<Rightarrow> auth_context \<Rightarrow> agent_action \<Rightarrow> bool \<Rightarrow> json kern" where
  "execute k ctx a approved =
     seqK (guard_agents k) (
     seqK (guardK (\<not> (3 \<le> aa_safety_level a \<and> \<not> enable_agent_action_execution (flags k)))
             (feature_disabled ''agent action execution is disabled (enable_agent_action_execution)'')) (
     seqK (guardK (\<not> (requires_approval a \<and> \<not> approved))
             (failed_precondition ''this action requires human approval before execution'')) (
     bindK (perform k ctx a) (\<lambda>result.
     seqK (audit_action k ctx a ''ai.action.execute''
             (jobj [(''kind'', JString (aa_kind a)), (''op'', JString (action_op_str (aa_op a))),
                    (''approved'', JBool approved)]))
     (retK result)))))"

section \<open>Facts\<close>

context db_frame begin

lemma keeps_audit_action:
  assumes "\<And>ev. a_tenant_id ev = tenant_id ctx \<Longrightarrow> a_action ev = act \<Longrightarrow> keeps R (audit k ev)"
  shows "keeps R (audit_action k ctx a act after)"
  unfolding audit_action_def by (rule keeps_event) (auto intro!: keeps_ignoreK assms)

end

lemma keeps_only_logs_audit: "a_tenant_id ev = t \<Longrightarrow> keeps (only_logs t) (audit k ev)"
  unfolding audit_def insert_audit_def
  by (intro frame_rules) (auto simp: only_logs_def log_audit_def log_ids_kept_def)

lemma keeps_only_logs_action: "keeps (only_logs (tenant_id ctx)) (audit_action k ctx a act after)"
  by (rule only_logs.keeps_audit_action) (rule keeps_only_logs_audit)

context denial_frame begin

lemma keeps_preview_change [frame_rules]: "tenant_id ctx = t \<Longrightarrow> keeps R (preview_change k ctx a)"
  unfolding preview_change_def
  by (cases "aa_op a") (auto intro!: keeps_bindK keeps_retK keeps_someK keeps_get_record)

end

lemma keeps_dry_run: "keeps (only_logs (tenant_id ctx)) (dry_run k ctx a)"
  unfolding dry_run_def by (intro frame_rules keeps_only_logs_action refl)

text \<open>The service an action calls decides what may change: whatever the services keep, it keeps.\<close>

lemma keeps_perform:
  assumes "\<And>nr. keeps R (create_record k ctx nr)" "\<And>rid p. keeps R (update_record k ctx rid p)"
    "\<And>rid key reason. keeps R (transition_record k ctx rid key reason)" "db_frame R"
  shows "keeps R (perform k ctx a)"
  unfolding perform_def
  by (cases "aa_op a")
    (auto intro!: db_frame.keeps_bindK [OF assms(4)] db_frame.keeps_someK [OF assms(4)]
      db_frame.keeps_retK [OF assms(4)] assms(1-3))

lemma audit_action_run:
  "\<exists>s'. audit_action k ctx a act after s = (Inr (), s') \<and> only_logs (tenant_id ctx) (db s) (db s')"
proof -
  obtain s' where "audit_action k ctx a act after s = (Inr (), s')"
    by (auto simp: audit_action_def bindK_def ignoreK_def event_from_def new_id_def
        now_rfc3339_def now_def retK_def)
  with keepsD [OF keeps_only_logs_action this] show ?thesis by blast
qed

lemma execute_Inr:
  assumes "execute k ctx a approved s = (Inr v, s')"
  obtains s1 where "perform k ctx a s = (Inr v, s1)" "only_logs (tenant_id ctx) (db s1) (db s')"
    "enable_ai_agents (flags k)" "3 \<le> aa_safety_level a \<Longrightarrow> enable_agent_action_execution (flags k) \<and> approved"
proof -
  from assms obtain s1 s2 where "perform k ctx a s = (Inr v, s1)"
    and au: "audit_action k ctx a ''ai.action.execute'' (jobj [(''kind'', JString (aa_kind a)),
      (''op'', JString (action_op_str (aa_op a))), (''approved'', JBool approved)]) s1 = (Inr (), s2)"
    and "s' = s2" "enable_ai_agents (flags k)"
      "3 \<le> aa_safety_level a \<Longrightarrow> enable_agent_action_execution (flags k) \<and> approved"
    by (auto simp: execute_def seqK_Inr bindK_Inr guardK_Inr guard_agents_def requires_approval_def)
  with keepsD [OF keeps_only_logs_action au] show thesis by (intro that) auto
qed

lemma patch_no_null:
  "\<forall>(key, v)\<in>set kvs. \<not> is_null v \<Longrightarrow>
     fold (\<lambda>(key, v). jinsert key v) kvs m = fold (\<lambda>(key, v). patch_value key v) kvs m"
  by (induction kvs arbitrary: m) (auto simp: patch_value_def)

end
