(* ===== verification/AiSafety.thy ===== *)
theory AiSafety
  imports Sample Actions
begin

text \<open>
  The safety of the AI layer: answers rest on records the caller may read, dry runs write nothing,
  and an execution goes through the kernel services behind its gates.
\<close>

section \<open>Grounding\<close>

text \<open>
  C39: Whatever the question, an agent's answer cites exactly its sources, each of which is a record
  of the caller's tenant that the caller may read, and the run writes nothing but audit events of
  the tenant. This holds of the retrieval-based answer, the record summary and the business
  questions, which route to the finance, procurement and sales assessments.
\<close>

theorem answers_are_grounded:
  assumes "ask eng k ctx question tys s = (Inr a, s') \<or>
      summarize_record eng k ctx rid s = (Inr a, s') \<or> bi_answer eng k ctx question s = (Inr a, s')"
  shows "an_citations a = map do_source_id (an_sources a) \<and>
    (\<forall>c\<in>set (an_citations a). \<exists>r\<in>set (records (db s)). r_id r = c \<and> r_tenant_id r = tenant_id ctx \<and>
       allowed k (db s) ctx Read (resource_for (r_object_type r)) (Some r)) \<and>
    (\<exists>new. db s' = (db s)\<lparr>audit_logs := audit_logs (db s) @ new\<rparr> \<and>
       (\<forall>ev\<in>set new. a_tenant_id ev = tenant_id ctx))"
proof -
  have "grounded_answer k (db s) ctx a \<and> only_logs (tenant_id ctx) (db s) (db s')"
    using assms grounded_ask [of k ctx eng question tys] grounded_summarize [of k ctx eng rid]
      grounded_bi [of k ctx eng question]
    unfolding grounded_def by (blast dest: keepsD)
  then show ?thesis by (simp add: grounded_answer_def citable_def only_logs_def)
qed

definition demo_engine :: ai_engine where
  "demo_engine = \<lparr>en_provider = offline_default, en_openai_built = False,
     en_post = (\<lambda>_ _ _ _. SendFailed ''offline''), en_pretty = (\<lambda>_. ''json'')\<rparr>"

lemmas ai_defs = guard_agents_def summarize_record_def finish_def finish_with_def complete_def
  demo_engine_def offline_default_def

theorem answers_are_grounded_witness:
  "\<exists>a s'. summarize_record demo_engine demo bob ''rec1'' demo_state = (Inr a, s') \<and>
     an_citations a = map do_source_id (an_sources a)"
proof -
  have "succeeds (summarize_record demo_engine demo bob ''rec1'') demo_state"
    unfolding succeeds_def by (simp add: demo_run ai_defs get_record_def cong: lazy)
  then obtain a s' where run: "summarize_record demo_engine demo bob ''rec1'' demo_state = (Inr a, s')"
    by (rule succeedsE)
  from answers_are_grounded [OF disjI2 [OF disjI1, OF run]] run show ?thesis by auto
qed

text \<open>
  Every part of a retrieved document's snippet is one field of the record, written as its key,
  an equals sign and its value, of a field the type declares visible to the AI; a snippet has at
  most eight parts.
\<close>

theorem snippets_show_visible_fields:
  "length (snippet_parts k (Some ot) 0 data) \<le> 8 \<and>
   \<not> (\<exists>p\<in>set (snippet_parts k (Some ot) 0 data).
        \<nexists>f key v. (key, v) \<in> set data \<and> field_of ot key = Some f \<and> f_ai_visible f \<and> starts_with (key @ ''='') p)"
  using snippet_parts_length [of 0 k "Some ot" data] snippet_parts_visible [of _ k "Some ot" 0 data]
  by auto

section \<open>Dry runs\<close>

text \<open>
  A dry run writes only audit events of the tenant and asks for approval from safety level 3 on.
  Its preview of an update is what an update with the same values makes of the data the caller
  sees, provided that no value is null (an update removes the key of a null, the preview shows it).
\<close>

theorem dry_run_previews:
  assumes "dry_run k ctx a s = (Inr plan, s')"
  shows "only_logs (tenant_id ctx) (db s) (db s') \<and>
    (pl_requires_approval plan \<longleftrightarrow> 3 \<le> unat (aa_safety_level a)) \<and>
    (aa_op a = UpdateRecordOp \<and> (\<forall>(key, v)\<in>set (payload_data a). \<not> is_null v) \<longrightarrow>
      (\<exists>rid current s1. aa_record_id a = Some rid \<and> get_record k ctx rid s = (Inr current, s1) \<and>
         pl_before plan = Some (JObject (r_data current)) \<and>
         pl_after plan = Some (JObject (fold (\<lambda>(key, v). patch_value key v) (payload_data a) (r_data current)))))"
  using assms keepsD [OF keeps_dry_run assms]
  by (auto simp: dry_run_def guard_agents_def preview_change_def seqK_Inr bindK_Inr guardK_Inr someK_Inr
      requires_approval_def word_le_nat_alt patch_no_null split: option.splits)

definition set_amount :: "8 word \<Rightarrow> agent_action" where
  "set_amount level =
     \<lparr>aa_kind = ''fix'', aa_description = ''set the amount'', aa_op = UpdateRecordOp,
      aa_object_type = Some ''invoice'', aa_record_id = Some ''rec1'',
      aa_payload = JObject [(''amount'', JNumber (PosInt 41))], aa_safety_level = level,
      aa_risk_score = 0\<rparr>"

lemmas action_defs = guard_agents_def set_amount_def payload_data_def requires_approval_def
  audit_action_def

theorem dry_run_previews_witness:
  "\<exists>plan s'. dry_run demo bob (set_amount 3) demo_state = (Inr plan, s') \<and> pl_requires_approval plan \<and>
     only_logs ''acme'' demo_db (db s')"
proof -
  have "succeeds (dry_run demo bob (set_amount 3)) demo_state"
    unfolding succeeds_def
    by (simp add: demo_run dry_run_def preview_change_def action_defs get_record_def cong: lazy)
  then obtain plan s' where run: "dry_run demo bob (set_amount 3) demo_state = (Inr plan, s')"
    by (rule succeedsE)
  have "tenant_id bob = ''acme''" by (simp add: demo_defs)
  with dry_run_previews [OF run] run show ?thesis by (auto simp: set_amount_def)
qed

section \<open>Execution\<close>

text \<open>
  C40: An executed action had the AI agents switched on, and from safety level 3 on also the
  execution switch and the approval. What it changed is what the kernel service of its kind
  changed, with that service's permission checks: beyond it only audit events are written.
\<close>

theorem execute_gated:
  assumes "execute k ctx a approved s = (Inr v, s')"
  shows "enable_ai_agents (flags k) \<and>
    (3 \<le> unat (aa_safety_level a) \<longrightarrow> enable_agent_action_execution (flags k) \<and> approved) \<and>
    (\<exists>s1. only_logs (tenant_id ctx) (db s1) (db s') \<and>
      (case aa_op a of
         CreateRecordOp \<Rightarrow> (\<exists>ty r. aa_object_type a = Some ty \<and> v = record_value r \<and>
           create_record k ctx \<lparr>nr_object_type = ty, nr_data = payload_data a, nr_workspace_id = None\<rparr> s
             = (Inr r, s1))
       | UpdateRecordOp \<Rightarrow> (\<exists>rid r. aa_record_id a = Some rid \<and> v = record_value r \<and>
           update_record k ctx rid \<lparr>rp_data = payload_data a\<rparr> s = (Inr r, s1))
       | TransitionOp \<Rightarrow> (\<exists>rid key t. aa_record_id a = Some rid \<and> payload_key a = Some key \<and>
           v = transition_value t \<and> transition_record k ctx rid key (Some ''ai-action'') s = (Inr t, s1))))"
proof -
  from execute_Inr [OF assms] obtain s1 where p: "perform k ctx a s = (Inr v, s1)"
    "only_logs (tenant_id ctx) (db s1) (db s')" and g: "enable_ai_agents (flags k)"
    "3 \<le> aa_safety_level a \<Longrightarrow> enable_agent_action_execution (flags k) \<and> approved" by blast
  from p show ?thesis
    using g by (intro conjI exI [of _ s1])
      (auto simp: perform_def bindK_Inr someK_Inr word_le_nat_alt split: action_op.splits option.splits)
qed

lemma demo_execute: "succeeds (execute demo bob (set_amount 0) False) demo_state"
  unfolding succeeds_def
  by (simp add: demo_run execute_def perform_def action_defs update_record_def value_defs cong: lazy)

theorem execute_gated_witness:
  "\<exists>v s'. execute demo bob (set_amount 0) False demo_state = (Inr v, s') \<and>
     enable_ai_agents (flags demo)"
proof -
  obtain v s' where run: "execute demo bob (set_amount 0) False demo_state = (Inr v, s')"
    using demo_execute by (rule succeedsE)
  from execute_gated [OF run] run show ?thesis by blast
qed

text \<open>
  The gate goes by the level that the request declares: below level 3 an action succeeds exactly
  when the kernel service it calls does, with no approval and whatever the execution switch says.
\<close>

theorem declared_level_decides:
  assumes "enable_ai_agents (flags k)" "unat (aa_safety_level a) < 3"
  shows "(\<exists>v s'. execute k ctx a approved s = (Inr v, s')) \<longleftrightarrow> (\<exists>v s'. perform k ctx a s = (Inr v, s'))"
proof
  assume "\<exists>v s'. execute k ctx a approved s = (Inr v, s')"
  then show "\<exists>v s'. perform k ctx a s = (Inr v, s')" by (blast elim: execute_Inr)
next
  assume "\<exists>v s'. perform k ctx a s = (Inr v, s')"
  then obtain v s1 where "perform k ctx a s = (Inr v, s1)" by blast
  moreover obtain s2 where "audit_action k ctx a ''ai.action.execute'' (jobj [(''kind'', JString (aa_kind a)),
      (''op'', JString (action_op_str (aa_op a))), (''approved'', JBool approved)]) s1 = (Inr (), s2)"
    using audit_action_run by blast
  moreover have "\<not> 3 \<le> aa_safety_level a" using assms(2) by (simp add: word_le_nat_alt)
  ultimately show "\<exists>v s'. execute k ctx a approved s = (Inr v, s')"
    using assms(1) by (simp add: execute_def seqK_def bindK_def guardK_def guard_agents_def
        requires_approval_def retK_def)
qed

theorem declared_level_decides_witness:
  "\<exists>v s'. perform demo bob (set_amount 0) demo_state = (Inr v, s')"
proof -
  have "enable_ai_agents (flags demo)" "unat (aa_safety_level (set_amount 0)) < 3"
    by (simp_all add: default_flags_def set_amount_def)
  from declared_level_decides [OF this, of bob False demo_state] demo_execute show ?thesis
    by (auto elim: succeedsE)
qed

end
