(* ===== verification/Accel.thy ===== *)
theory Accel
  imports Complex_Main Prelude
begin

text \<open>
  The acceleration crate (\<open>accel/src/lib.rs\<close>, \<open>accel/src/compute.rs\<close>): which backends a build has,
  which one a request gets, and the similarity kernels. The kernels compute with reals: the
  rounding of \<open>f32\<close> and \<open>f64\<close> and their special values are not modelled, so an equivalence here
  is one of the algorithms, not of their floating-point results. The cargo features of the build
  are an argument.
\<close>

section \<open>Backends\<close>

datatype backend = Cpu | DataFusion | Triton | Burn | WebGpu

fun backend_str :: "backend \<Rightarrow> string" where
  "backend_str Cpu = ''cpu''"
| "backend_str DataFusion = ''datafusion''"
| "backend_str Triton = ''triton''"
| "backend_str Burn = ''burn''"
| "backend_str WebGpu = ''webgpu''"

text \<open>The name of the cargo feature is the name of the backend.\<close>

definition compiled :: "string set \<Rightarrow> backend \<Rightarrow> bool" where
  "compiled features b \<longleftrightarrow> b = Cpu \<or> backend_str b \<in> features"

record backend_status =
  bk_backend :: backend
  bk_available :: bool

type_synonym capabilities = "backend_status list"

definition detect :: "string set \<Rightarrow> capabilities" where
  "detect features =
     map (\<lambda>b. \<lparr>bk_backend = b, bk_available = compiled features b\<rparr>)
       [Cpu, DataFusion, Triton, Burn, WebGpu]"

record accel_config =
  use_datafusion :: bool
  use_triton :: bool
  use_burn :: bool
  use_webgpu :: bool

definition accel_disabled :: accel_config where
  "accel_disabled = \<lparr>use_datafusion = False, use_triton = False, use_burn = False, use_webgpu = False\<rparr>"

record accel_registry =
  ar_config :: accel_config
  ar_caps :: capabilities

definition new_registry :: "string set \<Rightarrow> accel_config \<Rightarrow> accel_registry" where
  "new_registry features config = \<lparr>ar_config = config, ar_caps = detect features\<rparr>"

definition backend_available :: "accel_registry \<Rightarrow> backend \<Rightarrow> bool" where
  "backend_available reg b \<longleftrightarrow> list_ex (\<lambda>st. bk_backend st = b \<and> bk_available st) (ar_caps reg)"

definition similarity_backend :: "accel_registry \<Rightarrow> backend" where
  "similarity_backend reg =
     (case find (\<lambda>(requested, b). requested \<and> backend_available reg b)
             [(use_triton (ar_config reg), Triton), (use_burn (ar_config reg), Burn),
              (use_webgpu (ar_config reg), WebGpu)] of
        Some (_, b) \<Rightarrow> b
      | None \<Rightarrow> Cpu)"

section \<open>Kernels\<close>

text \<open>The loop over the first \<open>min\<close> indices with its three accumulators.\<close>

fun cosine_loop :: "real list \<Rightarrow> real list \<Rightarrow> real \<times> real \<times> real \<Rightarrow> real \<times> real \<times> real" where
  "cosine_loop (x # xs) (y # ys) (p, na, nb) = cosine_loop xs ys (p + x * y, na + x * x, nb + y * y)"
| "cosine_loop _ _ acc = acc"

definition cosine_baseline :: "real list \<Rightarrow> real list \<Rightarrow> real" where
  "cosine_baseline a b =
     (let (p, na, nb) = cosine_loop a b (0, 0, 0)
      in if na = 0 \<or> nb = 0 then 0 else p / (sqrt na * sqrt nb))"

definition batch_cosine_baseline :: "real list \<Rightarrow> real list list \<Rightarrow> real list" where
  "batch_cosine_baseline qv corpus = map (cosine_baseline qv) corpus"

text \<open>The optimized path computes the norm of the whole query once.\<close>

fun row_loop :: "real list \<Rightarrow> real list \<Rightarrow> real \<times> real \<Rightarrow> real \<times> real" where
  "row_loop (x # xs) (y # ys) (p, rn) = row_loop xs ys (p + x * y, rn + y * y)"
| "row_loop _ _ acc = acc"

definition batch_cosine_optimized :: "real list \<Rightarrow> real list list \<Rightarrow> real list" where
  "batch_cosine_optimized qv corpus =
     (let qnorm = sqrt (sum_list (map (\<lambda>x. x * x) qv)) in
      if qnorm = 0 then replicate (length corpus) 0
      else map (\<lambda>row. let (p, rn) = row_loop qv row (0, 0); rnorm = sqrt rn
                      in if rnorm = 0 then 0 else p / (qnorm * rnorm)) corpus)"

definition batch_cosine :: "accel_registry \<Rightarrow> real list \<Rightarrow> real list list \<Rightarrow> real list" where
  "batch_cosine reg qv corpus =
     (if similarity_backend reg = Cpu then batch_cosine_baseline qv corpus
      else batch_cosine_optimized qv corpus)"

definition by_rank :: "nat \<times> real \<Rightarrow> nat \<times> real \<Rightarrow> ordering" where
  "by_rank a b =
     (case cmp_of (snd b) (snd a) of Equal \<Rightarrow> cmp_of (fst a) (fst b) | o' \<Rightarrow> o')"

definition top_k :: "real list \<Rightarrow> nat \<Rightarrow> (nat \<times> real) list" where
  "top_k scores n = take n (sort_by by_rank (enumerate 0 scores))"

definition top_k_cosine :: "accel_registry \<Rightarrow> real list \<Rightarrow> real list list \<Rightarrow> nat \<Rightarrow> (nat \<times> real) list" where
  "top_k_cosine reg qv corpus n = top_k (batch_cosine reg qv corpus) n"

definition dot :: "real list \<Rightarrow> real list \<Rightarrow> real" where
  "dot a b = sum_list (map (\<lambda>(x, y). x * y) (zip a b))"

section \<open>Facts\<close>

lemma compiled_detect: "backend_available (new_registry features config) b = compiled features b"
  by (cases b) (auto simp: backend_available_def new_registry_def detect_def)

lemma cosine_loop_sums: "cosine_loop a b (p, na, nb) =
    (p + dot a b, na + dot (take (length b) a) (take (length b) a), nb + dot (take (length a) b) (take (length a) b))"
  by (induction a b "(p, na, nb)" arbitrary: p na nb rule: cosine_loop.induct)
    (auto simp: dot_def)

lemma row_loop_sums: "row_loop a b (p, rn) =
    (p + dot a b, rn + dot (take (length a) b) (take (length a) b))"
  by (induction a b "(p, rn)" arbitrary: p rn rule: row_loop.induct) (auto simp: dot_def)

lemma dot_self: "dot a a = sum_list (map (\<lambda>x. x * x) a)"
  by (induction a) (auto simp: dot_def)

lemma dot_self_nonneg: "0 \<le> dot a a"
  unfolding dot_self by (rule sum_list_nonneg) auto

text \<open>On rows at least as long as the query the two paths are the same function.\<close>

lemma optimized_row:
  assumes "length qv \<le> length row" "dot qv qv \<noteq> 0"
  shows "(let (p, rn) = row_loop qv row (0, 0); rnorm = sqrt rn
          in if rnorm = 0 then 0 else p / (sqrt (dot qv qv) * rnorm)) = cosine_baseline qv row"
  using assms by (simp add: cosine_baseline_def cosine_loop_sums row_loop_sums)

lemma batch_cosine_agree:
  assumes "\<And>row. row \<in> set corpus \<Longrightarrow> length qv \<le> length row"
  shows "batch_cosine_optimized qv corpus = batch_cosine_baseline qv corpus"
proof (cases "dot qv qv = 0")
  case True
  have "cosine_baseline qv row = 0" if "row \<in> set corpus" for row
    using True assms [OF that] by (simp add: cosine_baseline_def cosine_loop_sums)
  then have "batch_cosine_baseline qv corpus = replicate (length corpus) 0"
    by (simp add: batch_cosine_baseline_def map_replicate_const [symmetric])
  with True show ?thesis by (simp add: batch_cosine_optimized_def flip: dot_self)
next
  case False
  then show ?thesis
    using optimized_row [OF assms False]
    by (simp add: batch_cosine_optimized_def batch_cosine_baseline_def flip: dot_self)
qed

text \<open>The order of the result: higher scores first, equal scores by index.\<close>

definition ranks :: "nat \<times> real \<Rightarrow> nat \<times> real \<Rightarrow> bool" where
  "ranks a b \<longleftrightarrow> snd b < snd a \<or> (snd a = snd b \<and> fst a \<le> fst b)"

interpretation by_rank: comparison by_rank ranks
  by unfold_locales (auto simp: by_rank_def ranks_def cmp_of_def)

lemma top_k_split: "\<exists>rest. mset (top_k scores n @ rest) = mset (enumerate 0 scores) \<and>
    sorted_wrt ranks (top_k scores n @ rest)"
proof -
  have "top_k scores n @ drop n (sort_by by_rank (enumerate 0 scores)) = sort_by by_rank (enumerate 0 scores)"
    by (simp add: top_k_def)
  then show ?thesis
    using by_rank.sort_by_sorted [of "enumerate 0 scores"] by (metis mset_sort_by)
qed

lemma top_k_length [simp]: "length (top_k scores n) = min n (length scores)"
  by (simp add: top_k_def min.commute)

lemma top_k_best:
  assumes "i < length scores"
  shows "(i, scores ! i) \<in> set (top_k scores n) \<or> (\<forall>r\<in>set (top_k scores n). ranks r (i, scores ! i))"
proof -
  obtain rest where rest: "mset (top_k scores n @ rest) = mset (enumerate 0 scores)"
      "sorted_wrt ranks (top_k scores n @ rest)"
    using top_k_split by blast
  have "(i, scores ! i) \<in> set (enumerate 0 scores)"
    using assms by (simp add: in_set_enumerate_eq)
  then have "(i, scores ! i) \<in> set (top_k scores n @ rest)"
    using mset_eq_setD [OF rest(1)] by blast
  with rest(2) show ?thesis by (auto simp: sorted_wrt_append)
qed

lemma top_k_scores:
  assumes "(i, x) \<in> set (top_k scores n)"
  shows "i < length scores \<and> x = scores ! i"
proof -
  obtain rest where "mset (top_k scores n @ rest) = mset (enumerate 0 scores)"
    using top_k_split by blast
  then have "set (top_k scores n @ rest) = set (enumerate 0 scores)"
    by (rule mset_eq_setD)
  with assms have "(i, x) \<in> set (enumerate 0 scores)" by auto
  then show ?thesis by (simp add: in_set_enumerate_eq)
qed

lemma top_k_sorted: "sorted_wrt ranks (top_k scores n)"
  using top_k_split [of scores n] by (auto simp: sorted_wrt_append)

lemma batch_cosine_any_backend:
  assumes "\<forall>row\<in>set corpus. length qv \<le> length row"
  shows "batch_cosine reg qv corpus = map (cosine_baseline qv) corpus"
  using batch_cosine_agree [of corpus qv] assms
  by (simp add: batch_cosine_def batch_cosine_baseline_def)

lemma similarity_backend_cpu: "similarity_backend (new_registry {} config) = Cpu"
  by (simp add: similarity_backend_def compiled_detect compiled_def)

section \<open>What a backend may change\<close>

text \<open>
  The choice of backend does not change the answer. When no row of the corpus is shorter than
  the query, a search returns on every build and configuration what the CPU reference returns:
  the requested number of rows, or all if there are fewer, each with the cosine of its row, in
  descending order with ties by index, and every row that is left out ranks no better than any row
  that is returned. The arithmetic is that of the reals.
\<close>

theorem search_independent_of_backend:
  assumes "\<forall>row\<in>set corpus. length qv \<le> length row"
  shows "top_k_cosine reg qv corpus n = top_k_cosine (new_registry {} accel_disabled) qv corpus n \<and>
    length (top_k_cosine reg qv corpus n) = min n (length corpus) \<and>
    sorted_wrt ranks (top_k_cosine reg qv corpus n) \<and>
    (\<forall>(i, x)\<in>set (top_k_cosine reg qv corpus n). i < length corpus \<and> x = cosine_baseline qv (corpus ! i)) \<and>
    (\<forall>i<length corpus. (i, cosine_baseline qv (corpus ! i)) \<in> set (top_k_cosine reg qv corpus n) \<or>
      (\<forall>r\<in>set (top_k_cosine reg qv corpus n). ranks r (i, cosine_baseline qv (corpus ! i))))"
proof -
  let ?scores = "map (cosine_baseline qv) corpus"
  have eq: "top_k_cosine reg' qv corpus n = top_k ?scores n" for reg'
    by (simp add: top_k_cosine_def batch_cosine_any_backend [OF assms])
  show ?thesis
    unfolding eq
    using top_k_sorted [of ?scores n] top_k_scores [of _ _ ?scores n] top_k_best [of _ ?scores n]
    by fastforce
qed

theorem search_independent_of_backend_witness:
  "similarity_backend (new_registry {''triton''} \<lparr>use_datafusion = False, use_triton = True, use_burn = False, use_webgpu = False\<rparr>) = Triton \<and>
   top_k_cosine (new_registry {''triton''} \<lparr>use_datafusion = False, use_triton = True, use_burn = False, use_webgpu = False\<rparr>)
       [3, 4] [[4, 3], [3, 4], [0, 0]] 2 =
     top_k_cosine (new_registry {} accel_disabled) [3, 4] [[4, 3], [3, 4], [0, 0]] 2"
  using search_independent_of_backend [of "[[4, 3], [3, 4], [0, 0]]" "[3, 4]"
      "new_registry {''triton''} \<lparr>use_datafusion = False, use_triton = True, use_burn = False, use_webgpu = False\<rparr>" 2]
  by (simp add: similarity_backend_def compiled_detect compiled_def, simp add: new_registry_def)

text \<open>On a row shorter than the query the two paths differ: only the reference cuts the query too.\<close>

lemma short_rows_differ:
  "batch_cosine_baseline [3, 4] [[3]] = [1] \<and> batch_cosine_optimized [3, 4] [[3]] = [3 / 5]"
proof -
  have sq: "sqrt 9 = 3" "sqrt 25 = 5" by (simp_all add: real_sqrt_unique)
  show ?thesis
    by (simp add: batch_cosine_baseline_def batch_cosine_optimized_def cosine_baseline_def Let_def sq)
qed

end
