(* ===== verification/Handlers.thy ===== *)
theory Handlers
  imports Invariants Actions Accel
begin

text \<open>
  The HTTP layer (\<open>api/src/auth.rs\<close>, \<open>api/src/error.rs\<close>, \<open>api/src/app.rs\<close>): headers, the bearer
  extractor, and one definition per handler. A handler gets what axum extracts for it: the
  decoded body and path parameters and, where it takes \<open>Auth\<close>, the context of the caller. The
  decoding of JSON bodies and query strings is not modelled; a field that the code defaults is an
  option here and gets its default in the handler.
\<close>

section \<open>State and headers\<close>

record app_state =
  st_kernel :: kernel
  st_ai :: ai_engine
  st_features :: "string set"

text \<open>The headers the code reads, when their value is a string.\<close>

record headers =
  hd_authorization :: "string option"
  hd_request_id :: "string option"
  hd_source :: "string option"

definition bearer :: "headers \<Rightarrow> string option" where
  "bearer h = map_option trim (Option.bind (hd_authorization h) (strip_prefix ''Bearer ''))"

definition detect_source :: "headers \<Rightarrow> source" where
  "detect_source h =
     (if hd_source h = Some ''admin_ui'' then SrcAdminUi
      else if hd_source h = Some ''agent'' then SrcAgent
      else SrcApi)"

text \<open>
  The middleware: a client's request id is kept when it is 1 to 64 graphic ASCII characters,
  otherwise a new one is made; the request and the response carry it. (A graphic ASCII string and
  a UUID are both valid header values, so the conversion the code guards never fails.)
\<close>

definition is_graphic :: "char \<Rightarrow> bool" where
  "is_graphic c \<longleftrightarrow> CHR 0x21 \<le> c \<and> c \<le> CHR 0x7E"

definition sane_request_id :: "string \<Rightarrow> bool" where
  "sane_request_id v \<longleftrightarrow> 1 \<le> length v \<and> length v \<le> 64 \<and> list_all is_graphic v"

definition stamp_request_id :: "kernel \<Rightarrow> headers \<Rightarrow> headers kern" where
  "stamp_request_id k h =
     bindK (case hd_request_id h of
              Some v \<Rightarrow> if sane_request_id v then retK v else new_id k
            | None \<Rightarrow> new_id k)
       (\<lambda>rid. retK (h\<lparr>hd_request_id := Some rid\<rparr>))"

definition security_headers :: "string \<Rightarrow> (string \<times> string) list" where
  "security_headers rid =
     [(''x-request-id'', rid), (''x-content-type-options'', ''nosniff''), (''x-frame-options'', ''DENY''),
      (''referrer-policy'', ''no-referrer''), (''cache-control'', ''no-store'')]"

section \<open>The extractor\<close>

definition extract_auth :: "app_state \<Rightarrow> headers \<Rightarrow> auth_context kern" where
  "extract_auth app h =
     bindK (someK (unauthorized ''missing bearer token'') (bearer h)) (\<lambda>token.
     bindK (case hd_request_id h of Some v \<Rightarrow> retK v | None \<Rightarrow> new_id (st_kernel app)) (\<lambda>rid.
     bindK (authenticate (st_kernel app) token rid (detect_source h)) (\<lambda>ctx.
     seqK (meter_api_call (st_kernel app) ctx)
     (retK ctx))))"

section \<open>Public handlers\<close>

definition healthz :: "string" where
  "healthz = ''ok''"

definition ping :: "kernel \<Rightarrow> unit kern" where
  "ping k = query k (\<lambda>_. ())"

definition readyz :: "app_state \<Rightarrow> string kern" where
  "readyz app = seqK (ping (st_kernel app)) (retK ''ready'')"

record login_req =
  lq_tenant :: string
  lq_email :: string
  lq_password :: string

definition login_handler :: "app_state \<Rightarrow> login_req \<Rightarrow> login_result kern" where
  "login_handler app req =
     bindK (new_id (st_kernel app)) (\<lambda>rid.
     login (st_kernel app) (lq_tenant req) (lq_email req) (lq_password req) rid SrcApi)"

definition logout_handler :: "app_state \<Rightarrow> headers \<Rightarrow> migration_report option kern" where
  "logout_handler app h =
     (case Option.bind (hd_authorization h) (strip_prefix ''Bearer '') of
        Some tok \<Rightarrow> logout (st_kernel app) (trim tok)
      | None \<Rightarrow> retK None)"

record bootstrap_req =
  bq_name :: string
  bq_slug :: string
  bq_admin_email :: string
  bq_admin_name :: string
  bq_admin_password :: string

definition bootstrap_handler :: "app_state \<Rightarrow> headers \<Rightarrow> bootstrap_req \<Rightarrow> bootstrap_result kern" where
  "bootstrap_handler app h req =
     bindK (tenants_exist (st_kernel app)) (\<lambda>exist.
     seqK (if exist then
             bindK (someK (unauthorized ''missing bearer token'') (bearer h)) (\<lambda>token.
             bindK (new_id (st_kernel app)) (\<lambda>rid.
             bindK (authenticate (st_kernel app) token rid SrcApi) (\<lambda>ctx.
             guardK (is_platform_admin ctx) (forbidden ''platform admin required''))))
           else retK ())
     (bootstrap_tenant (st_kernel app) (bq_name req) (bq_slug req) (bq_admin_email req)
        (bq_admin_name req) (bq_admin_password req)))"

section \<open>Identity and tenancy\<close>

record me_body =
  me_actor_type :: actor_type
  me_actor_id :: string
  me_tenant_id :: string
  me_org_id :: string
  me_role_keys :: "string list"
  me_is_platform_admin :: bool

definition me_handler :: "auth_context \<Rightarrow> me_body" where
  "me_handler ctx =
     \<lparr>me_actor_type = actor_type ctx, me_actor_id = actor_id ctx, me_tenant_id = tenant_id ctx,
      me_org_id = org_id ctx, me_role_keys = role_keys ctx,
      me_is_platform_admin = is_platform_admin ctx\<rparr>"

definition set_tenant_status_handler :: "app_state \<Rightarrow> auth_context \<Rightarrow> string \<Rightarrow> string \<Rightarrow> tenant_row kern" where
  "set_tenant_status_handler app ctx tid status = set_tenant_status (st_kernel app) ctx tid status"

definition set_user_status_handler :: "app_state \<Rightarrow> auth_context \<Rightarrow> string \<Rightarrow> string \<Rightarrow> user_t kern" where
  "set_user_status_handler app ctx uid status = set_user_status (st_kernel app) ctx uid status"

definition get_usage_handler :: "app_state \<Rightarrow> auth_context \<Rightarrow> usage_row list kern" where
  "get_usage_handler app ctx = list_usage (st_kernel app) ctx"

definition get_tenant_handler :: "app_state \<Rightarrow> auth_context \<Rightarrow> tenant_row kern" where
  "get_tenant_handler app ctx = get_tenant (st_kernel app) ctx"

definition list_tenants_handler :: "app_state \<Rightarrow> auth_context \<Rightarrow> tenant_row list kern" where
  "list_tenants_handler app ctx = list_tenants (st_kernel app) ctx"

definition list_orgs_handler :: "app_state \<Rightarrow> auth_context \<Rightarrow> organization_row list kern" where
  "list_orgs_handler app ctx = list_organizations (st_kernel app) ctx"

record create_user_req =
  cu_email :: string
  cu_name :: string
  cu_password :: string
  cu_roles :: "string list"

definition create_user_handler :: "app_state \<Rightarrow> auth_context \<Rightarrow> create_user_req \<Rightarrow> user_t kern" where
  "create_user_handler app ctx req =
     create_user (st_kernel app) ctx (cu_email req) (cu_name req) (cu_password req) (cu_roles req)"

definition list_users_handler :: "app_state \<Rightarrow> auth_context \<Rightarrow> user_t list kern" where
  "list_users_handler app ctx = list_users (st_kernel app) ctx"

definition get_user_handler :: "app_state \<Rightarrow> auth_context \<Rightarrow> string \<Rightarrow> user_t kern" where
  "get_user_handler app ctx uid = get_user (st_kernel app) ctx uid"

record create_role_req =
  cl_key :: string
  cl_name :: string
  cl_description :: "string option"
  cl_grants :: "permission_grant list"

definition create_role_handler :: "app_state \<Rightarrow> auth_context \<Rightarrow> create_role_req \<Rightarrow> role_t kern" where
  "create_role_handler app ctx req =
     create_role (st_kernel app) ctx (cl_key req) (cl_name req) (cl_description req) (cl_grants req)"

definition list_roles_handler :: "app_state \<Rightarrow> auth_context \<Rightarrow> role_t list kern" where
  "list_roles_handler app ctx = list_roles (st_kernel app) ctx"

record create_api_key_req =
  ca_name :: string
  ca_principal_id :: "string option"
  ca_principal_type :: "string option"

definition default_principal_type :: string where
  "default_principal_type = ''user''"

definition create_api_key_handler :: "app_state \<Rightarrow> auth_context \<Rightarrow> create_api_key_req \<Rightarrow> new_api_key kern" where
  "create_api_key_handler app ctx req =
     create_api_key (st_kernel app) ctx (ca_name req) (ca_principal_id req)
       (or_else (ca_principal_type req) default_principal_type)"

section \<open>Builder\<close>

definition list_builder_drafts_handler :: "app_state \<Rightarrow> auth_context \<Rightarrow> builder_draft list kern" where
  "list_builder_drafts_handler app ctx = list_builder_drafts (st_kernel app) ctx"

definition get_builder_draft_handler :: "app_state \<Rightarrow> auth_context \<Rightarrow> string \<Rightarrow> builder_draft kern" where
  "get_builder_draft_handler app ctx did = get_builder_draft (st_kernel app) ctx did"

definition save_builder_draft_handler ::
  "app_state \<Rightarrow> auth_context \<Rightarrow> save_draft_request \<Rightarrow> builder_draft kern" where
  "save_builder_draft_handler app ctx req = save_builder_draft (st_kernel app) ctx req"

definition validate_builder_draft_handler ::
  "app_state \<Rightarrow> auth_context \<Rightarrow> string \<Rightarrow> builder_validation kern" where
  "validate_builder_draft_handler app ctx did = validate_builder_draft (st_kernel app) ctx did"

definition builder_publish_preview_handler ::
  "app_state \<Rightarrow> auth_context \<Rightarrow> string \<Rightarrow> builder_validation kern" where
  "builder_publish_preview_handler app ctx did = validate_builder_draft (st_kernel app) ctx did"

text \<open>The id in the body of a publish request is ignored: the path decides.\<close>

definition publish_builder_draft_handler ::
  "app_state \<Rightarrow> auth_context \<Rightarrow> string \<Rightarrow> string \<Rightarrow> publish_result kern" where
  "publish_builder_draft_handler app ctx did body_id = publish_builder_draft (st_kernel app) ctx did"

definition list_builder_templates_handler :: "app_state \<Rightarrow> auth_context \<Rightarrow> builder_template list kern" where
  "list_builder_templates_handler app ctx = builder_templates (st_kernel app) ctx"

definition install_builder_template_handler ::
  "app_state \<Rightarrow> auth_context \<Rightarrow> install_request \<Rightarrow> install_result kern" where
  "install_builder_template_handler app ctx req = install_builder_template (st_kernel app) ctx req"

section \<open>Migration\<close>

definition get_migration_handler :: "app_state \<Rightarrow> auth_context \<Rightarrow> migration_session option kern" where
  "get_migration_handler app ctx = get_migration (st_kernel app) ctx"

definition start_migration_handler ::
  "app_state \<Rightarrow> auth_context \<Rightarrow> string option \<Rightarrow> migration_session kern" where
  "start_migration_handler app ctx target = start_migration (st_kernel app) ctx target"

definition select_target_system_handler ::
  "app_state \<Rightarrow> auth_context \<Rightarrow> string \<Rightarrow> migration_session kern" where
  "select_target_system_handler app ctx key = select_target_system (st_kernel app) ctx key"

definition set_active_system_handler ::
  "app_state \<Rightarrow> auth_context \<Rightarrow> system_kind \<Rightarrow> migration_session kern" where
  "set_active_system_handler app ctx sys = set_active_system (st_kernel app) ctx sys"

definition plan_migration_handler :: "app_state \<Rightarrow> auth_context \<Rightarrow> migration_plan kern" where
  "plan_migration_handler app ctx = plan_migration (st_kernel app) ctx"

definition migration_report_handler ::
  "app_state \<Rightarrow> auth_context \<Rightarrow> system_kind option \<Rightarrow> migration_report kern" where
  "migration_report_handler app ctx system =
     bindK (case system of
              Some sys \<Rightarrow> retK sys
            | None \<Rightarrow> bindK (get_migration (st_kernel app) ctx) (\<lambda>m.
                retK (or_else (map_option se_active_system m) Old))) (\<lambda>for_system.
     migration_report (st_kernel app) ctx for_system)"

section \<open>Object types and records\<close>

definition create_object_type_handler ::
  "app_state \<Rightarrow> auth_context \<Rightarrow> object_type_def \<Rightarrow> object_type_def kern" where
  "create_object_type_handler app ctx def = create_object_type (st_kernel app) ctx def"

definition update_object_type_handler ::
  "app_state \<Rightarrow> auth_context \<Rightarrow> string \<Rightarrow> object_type_def \<Rightarrow> object_type_def kern" where
  "update_object_type_handler app ctx key def = update_object_type (st_kernel app) ctx key def"

definition get_object_type_handler :: "app_state \<Rightarrow> auth_context \<Rightarrow> string \<Rightarrow> object_type_def kern" where
  "get_object_type_handler app ctx key = get_object_type (st_kernel app) ctx key"

definition list_object_types_handler :: "app_state \<Rightarrow> auth_context \<Rightarrow> object_type_def list kern" where
  "list_object_types_handler app ctx = list_object_types (st_kernel app) ctx"

record list_params =
  ls_limit :: "64 word option"
  ls_offset :: "64 word option"
  ls_search :: "string option"
  ls_sort :: "string option"
  ls_desc :: bool
  ls_include_archived :: bool

definition into_filter :: "list_params \<Rightarrow> record_filter" where
  "into_filter p =
     (let f = default_filter\<lparr>rf_search := ls_search p, rf_sort := ls_sort p, rf_desc := ls_desc p,
                rf_include_archived := ls_include_archived p\<rparr>;
          f = (case ls_limit p of Some l \<Rightarrow> f\<lparr>rf_page := (rf_page f)\<lparr>pg_limit := l\<rparr>\<rparr> | None \<Rightarrow> f)
      in case ls_offset p of Some n \<Rightarrow> f\<lparr>rf_page := (rf_page f)\<lparr>pg_offset := n\<rparr>\<rparr> | None \<Rightarrow> f)"

definition list_records_handler ::
  "app_state \<Rightarrow> auth_context \<Rightarrow> string \<Rightarrow> list_params \<Rightarrow> record_t list_response option kern" where
  "list_records_handler app ctx key p = list_records (st_kernel app) ctx key (into_filter p)"

record new_record_body =
  nb_data :: jmap
  nb_workspace_id :: "string option"

definition create_record_handler ::
  "app_state \<Rightarrow> auth_context \<Rightarrow> string \<Rightarrow> new_record_body \<Rightarrow> record_t kern" where
  "create_record_handler app ctx key body =
     create_record (st_kernel app) ctx
       \<lparr>nr_object_type = key, nr_data = nb_data body, nr_workspace_id = nb_workspace_id body\<rparr>"

definition get_record_handler :: "app_state \<Rightarrow> auth_context \<Rightarrow> string \<Rightarrow> record_t kern" where
  "get_record_handler app ctx rid = get_record (st_kernel app) ctx rid"

definition update_record_handler ::
  "app_state \<Rightarrow> auth_context \<Rightarrow> string \<Rightarrow> record_patch \<Rightarrow> record_t kern" where
  "update_record_handler app ctx rid patch = update_record (st_kernel app) ctx rid patch"

text \<open>The answer \<open>Ok2 { ok: true }\<close> is the unit.\<close>

definition archive_record_handler :: "app_state \<Rightarrow> auth_context \<Rightarrow> string \<Rightarrow> unit kern" where
  "archive_record_handler app ctx rid = seqK (archive_record (st_kernel app) ctx rid) (retK ())"

definition restore_record_handler :: "app_state \<Rightarrow> auth_context \<Rightarrow> string \<Rightarrow> unit kern" where
  "restore_record_handler app ctx rid = seqK (restore_record (st_kernel app) ctx rid) (retK ())"

definition create_relation_handler ::
  "app_state \<Rightarrow> auth_context \<Rightarrow> string \<Rightarrow> string \<Rightarrow> string \<Rightarrow> relation_edge kern" where
  "create_relation_handler app ctx rid to relation_type =
     relate (st_kernel app) ctx rid to relation_type"

definition get_relations_handler :: "app_state \<Rightarrow> auth_context \<Rightarrow> string \<Rightarrow> relation_edge list kern" where
  "get_relations_handler app ctx rid = get_relations (st_kernel app) ctx rid"

section \<open>Workflows and transitions\<close>

definition create_workflow_handler :: "app_state \<Rightarrow> auth_context \<Rightarrow> workflow_def \<Rightarrow> workflow_def kern" where
  "create_workflow_handler app ctx def = create_workflow (st_kernel app) ctx def"

definition list_workflows_handler :: "app_state \<Rightarrow> auth_context \<Rightarrow> workflow_def list kern" where
  "list_workflows_handler app ctx = list_workflows (st_kernel app) ctx"

definition get_workflow_handler :: "app_state \<Rightarrow> auth_context \<Rightarrow> string \<Rightarrow> workflow_def kern" where
  "get_workflow_handler app ctx key = get_workflow (st_kernel app) ctx key"

definition list_transitions_handler :: "app_state \<Rightarrow> auth_context \<Rightarrow> string \<Rightarrow> transition_t list kern" where
  "list_transitions_handler app ctx rid = available_transitions (st_kernel app) ctx rid"

record transition_req =
  tq_key :: string
  tq_reason :: "string option"

definition do_transition_handler ::
  "app_state \<Rightarrow> auth_context \<Rightarrow> string \<Rightarrow> transition_req \<Rightarrow> transition_result kern" where
  "do_transition_handler app ctx rid req =
     transition_record (st_kernel app) ctx rid (tq_key req) (tq_reason req)"

section \<open>Tasks, approvals and the audit log\<close>

record task_params =
  tp_mine :: bool
  tp_status :: "string option"

definition list_tasks_handler :: "app_state \<Rightarrow> auth_context \<Rightarrow> task_params \<Rightarrow> task_t list kern" where
  "list_tasks_handler app ctx p = list_tasks (st_kernel app) ctx (tp_mine p) (tp_status p)"

record create_task_req =
  ct_kind :: string
  ct_title :: string
  ct_assignee_id :: "string option"
  ct_related_object_type :: "string option"
  ct_related_record_id :: "string option"
  ct_data :: json

definition create_task_handler :: "app_state \<Rightarrow> auth_context \<Rightarrow> create_task_req \<Rightarrow> task_t kern" where
  "create_task_handler app ctx req =
     create_task (st_kernel app) ctx (ct_kind req) (ct_title req) (ct_assignee_id req)
       (ct_related_object_type req) (ct_related_record_id req) (ct_data req)"

definition default_done :: string where
  "default_done = ''done''"

definition complete_task_handler ::
  "app_state \<Rightarrow> auth_context \<Rightarrow> string \<Rightarrow> string option \<Rightarrow> task_t kern" where
  "complete_task_handler app ctx tid status =
     complete_task (st_kernel app) ctx tid (or_else status default_done)"

definition list_approvals_handler :: "app_state \<Rightarrow> auth_context \<Rightarrow> approval_t list kern" where
  "list_approvals_handler app ctx = list_pending_approvals (st_kernel app) ctx"

definition get_approval_handler :: "app_state \<Rightarrow> auth_context \<Rightarrow> string \<Rightarrow> approval_t kern" where
  "get_approval_handler app ctx aid = get_approval (st_kernel app) ctx aid"

record decide_req =
  dq_approved :: bool
  dq_reason :: "string option"

definition decide_approval_handler ::
  "app_state \<Rightarrow> auth_context \<Rightarrow> string \<Rightarrow> decide_req \<Rightarrow> approval_t kern" where
  "decide_approval_handler app ctx aid req =
     decide_approval (st_kernel app) ctx aid (dq_approved req) (dq_reason req)"

record audit_params =
  pa_actor_id :: "string option"
  pa_action :: "string option"
  pa_object_type :: "string option"
  pa_record_id :: "string option"
  pa_since :: "string option"
  pa_until :: "string option"
  pa_limit :: "64 word option"
  pa_offset :: "64 word option"

definition query_audit_handler :: "app_state \<Rightarrow> auth_context \<Rightarrow> audit_params \<Rightarrow> audit_event list kern" where
  "query_audit_handler app ctx p =
     audit_query (st_kernel app) ctx
       \<lparr>q_actor_id = pa_actor_id p, q_action = pa_action p, q_target_object_type = pa_object_type p,
        q_target_record_id = pa_record_id p, q_since = pa_since p, q_until = pa_until p,
        q_limit = pa_limit p, q_offset = pa_offset p\<rparr>"

section \<open>Reports and dashboards\<close>

definition list_reports_handler :: "app_state \<Rightarrow> auth_context \<Rightarrow> report_def list kern" where
  "list_reports_handler app ctx = list_reports (st_kernel app) ctx"

definition save_report_handler :: "app_state \<Rightarrow> auth_context \<Rightarrow> report_def \<Rightarrow> report_def kern" where
  "save_report_handler app ctx def = save_report (st_kernel app) ctx def"

definition run_report_handler :: "app_state \<Rightarrow> auth_context \<Rightarrow> string \<Rightarrow> report_result kern" where
  "run_report_handler app ctx key = run_report (st_kernel app) ctx key"

definition run_report_adhoc_handler :: "app_state \<Rightarrow> auth_context \<Rightarrow> report_def \<Rightarrow> report_result kern" where
  "run_report_adhoc_handler app ctx def = run_report_def (st_kernel app) ctx def"

definition list_dashboards_handler :: "app_state \<Rightarrow> auth_context \<Rightarrow> dashboard_t list kern" where
  "list_dashboards_handler app ctx = list_dashboards (st_kernel app) ctx"

definition save_dashboard_handler :: "app_state \<Rightarrow> auth_context \<Rightarrow> dashboard_t \<Rightarrow> dashboard_t kern" where
  "save_dashboard_handler app ctx dash = save_dashboard (st_kernel app) ctx dash"

definition get_dashboard_handler :: "app_state \<Rightarrow> auth_context \<Rightarrow> string \<Rightarrow> dashboard_t kern" where
  "get_dashboard_handler app ctx key = get_dashboard (st_kernel app) ctx key"

section \<open>AI and acceleration\<close>

record ai_operation =
  ao_key :: string
  ao_label :: string
  ao_endpoint :: string

record ai_agent_capability =
  ag_key :: string
  ag_label :: string
  ag_action :: string
  ag_endpoint :: string
  ag_modules :: "string list"
  ag_object_hints :: "string list"

record ai_capabilities_t =
  cb_bi_ask :: ai_operation
  cb_agents :: "ai_agent_capability list"
  cb_actions :: "ai_operation list"

definition ai_capabilities :: ai_capabilities_t where
  "ai_capabilities =
     \<lparr>cb_bi_ask = \<lparr>ao_key = ''bi_ask'', ao_label = ''BI question'', ao_endpoint = ''/v1/ai/bi/ask''\<rparr>,
      cb_agents =
        [\<lparr>ag_key = ''finance'', ag_label = ''Finance'', ag_action = ''Cashflow risk'',
          ag_endpoint = ''/v1/ai/agents/finance/cashflow-risk'', ag_modules = [''finance'', ''erp''],
          ag_object_hints = [''invoice'', ''payment'', ''budget'', ''account'', ''bill'']\<rparr>,
         \<lparr>ag_key = ''procurement'', ag_label = ''Procurement'', ag_action = ''Supply risk'',
          ag_endpoint = ''/v1/ai/agents/procurement/low-stock'',
          ag_modules = [''procurement'', ''inventory'', ''scm''],
          ag_object_hints =
            [''purchase'', ''vendor'', ''product'', ''inventory'', ''warehouse'', ''receipt'']\<rparr>,
         \<lparr>ag_key = ''sales'', ag_label = ''Sales'', ag_action = ''Pipeline risk'',
          ag_endpoint = ''/v1/ai/agents/sales/deal-risk'', ag_modules = [''crm'', ''sales''],
          ag_object_hints = [''deal'', ''lead'', ''contact'', ''opportunity'', ''account'']\<rparr>],
      cb_actions =
        [\<lparr>ao_key = ''dry_run'', ao_label = ''Dry-run action'', ao_endpoint = ''/v1/ai/actions/dry-run''\<rparr>,
         \<lparr>ao_key = ''execute'', ao_label = ''Execute approved action'',
          ao_endpoint = ''/v1/ai/actions/execute''\<rparr>]\<rparr>"

record ask_req =
  as_question :: string
  as_object_types :: "string list"

definition ai_ask_handler :: "app_state \<Rightarrow> auth_context \<Rightarrow> ask_req \<Rightarrow> ai_answer kern" where
  "ai_ask_handler app ctx req = ask (st_ai app) (st_kernel app) ctx (as_question req) (as_object_types req)"

definition ai_bi_ask_handler :: "app_state \<Rightarrow> auth_context \<Rightarrow> string \<Rightarrow> ai_answer kern" where
  "ai_bi_ask_handler app ctx question = bi_answer (st_ai app) (st_kernel app) ctx question"

definition ai_summarize_handler :: "app_state \<Rightarrow> auth_context \<Rightarrow> string \<Rightarrow> ai_answer kern" where
  "ai_summarize_handler app ctx rid = summarize_record (st_ai app) (st_kernel app) ctx rid"

definition ai_finance_handler :: "app_state \<Rightarrow> auth_context \<Rightarrow> ai_answer kern" where
  "ai_finance_handler app ctx = finance_cashflow_risk (st_ai app) (st_kernel app) ctx"

definition ai_procurement_handler :: "app_state \<Rightarrow> auth_context \<Rightarrow> ai_answer kern" where
  "ai_procurement_handler app ctx = procurement_low_stock (st_ai app) (st_kernel app) ctx"

definition ai_sales_handler :: "app_state \<Rightarrow> auth_context \<Rightarrow> ai_answer kern" where
  "ai_sales_handler app ctx = sales_deal_risk (st_ai app) (st_kernel app) ctx"

definition ai_dry_run_handler :: "app_state \<Rightarrow> auth_context \<Rightarrow> agent_action \<Rightarrow> action_plan kern" where
  "ai_dry_run_handler app ctx act = dry_run (st_kernel app) ctx act"

record execute_req =
  xq_action :: agent_action
  xq_approved :: bool

definition ai_execute_handler :: "app_state \<Rightarrow> auth_context \<Rightarrow> execute_req \<Rightarrow> json kern" where
  "ai_execute_handler app ctx req = execute (st_kernel app) ctx (xq_action req) (xq_approved req)"

definition accel_status_handler :: "app_state \<Rightarrow> capabilities" where
  "accel_status_handler app = detect (st_features app)"

end
