(* ===== verification/Api.thy ===== *)
theory Api
  imports Handlers
begin

text \<open>
  The service as a whole (\<open>api/src/app.rs\<close>): a request is what the router hands to a handler, with
  its body decoded; \<open>serve\<close> is the handler's run, behind the bearer extractor where the handler
  takes \<open>Auth\<close>. A request runs as a whole here; the theory \<open>Interleaving\<close> cuts the requests on
  records, tasks and approvals into the phases between which others may run.
\<close>

section \<open>Requests and replies\<close>

datatype tenancy_request =
    Me
  | Get_tenant
  | List_tenants
  | Set_tenant_status string string
  | List_orgs
  | Get_usage

datatype identity_request =
    List_users
  | Create_user create_user_req
  | Get_user string
  | Set_user_status string string
  | List_roles
  | Create_role create_role_req
  | Create_api_key create_api_key_req

datatype builder_request =
    List_drafts
  | Get_draft string
  | Save_draft save_draft_request
  | Validate_draft string
  | Publish_preview string
  | Publish_draft string string
  | List_templates
  | Install_template install_request

datatype migration_request =
    Get_migration
  | Start_migration "string option"
  | Select_target string
  | Set_active system_kind
  | Plan_migration
  | Get_report "system_kind option"

datatype schema_request =
    List_object_types
  | Create_object_type object_type_def
  | Get_object_type string
  | Update_object_type string object_type_def
  | List_workflows
  | Create_workflow workflow_def
  | Get_workflow string

datatype record_request =
    List_records string list_params
  | Create_record string new_record_body
  | Get_record string
  | Update_record string record_patch
  | Archive_record string
  | Restore_record string
  | Get_relations string
  | Create_relation string string string
  | List_transitions string
  | Do_transition string transition_req

datatype flow_request =
    List_tasks task_params
  | Create_task create_task_req
  | Complete_task string "string option"
  | List_approvals
  | Get_approval string
  | Decide_approval string decide_req
  | Query_audit audit_params

datatype insight_request =
    List_reports
  | Save_report report_def
  | Run_report string
  | Run_adhoc report_def
  | List_dashboards
  | Save_dashboard dashboard_t
  | Get_dashboard string

datatype ai_request =
    Ai_capabilities
  | Ai_ask ask_req
  | Ai_bi_ask string
  | Ai_summarize string
  | Ai_finance
  | Ai_procurement
  | Ai_sales
  | Ai_dry_run agent_action
  | Ai_execute execute_req
  | Accel_status

datatype protected_request =
    Tenancy tenancy_request
  | Identity identity_request
  | Builder builder_request
  | Migration migration_request
  | Schema schema_request
  | Record record_request
  | Flow flow_request
  | Insight insight_request
  | Ai ai_request

datatype request =
    Healthz
  | Readyz
  | Login login_req
  | Logout
  | Bootstrap bootstrap_req
  | Protected protected_request

datatype tenancy_reply =
    ReMe me_body
  | ReTenant tenant_row
  | ReTenants "tenant_row list"
  | ReOrgs "organization_row list"
  | ReUsage "usage_row list"

datatype identity_reply =
    ReUsers "user_t list"
  | ReUser user_t
  | ReRoles "role_t list"
  | ReRole role_t
  | ReApiKey new_api_key

datatype builder_reply =
    ReDrafts "builder_draft list"
  | ReDraft builder_draft
  | ReValidation builder_validation
  | RePublished publish_result
  | ReTemplates "builder_template list"
  | ReInstalled install_result

datatype migration_reply =
    ReMigration "migration_session option"
  | RePlan migration_plan
  | ReReport migration_report

datatype schema_reply =
    ReObjectTypes "object_type_def list"
  | ReObjectType object_type_def
  | ReWorkflows "workflow_def list"
  | ReWorkflow workflow_def

datatype record_reply =
    ReRecords "record_t list_response option"
  | ReRecord record_t
  | ReOk
  | ReRelations "relation_edge list"
  | ReRelation relation_edge
  | ReTransitions "transition_t list"
  | ReTransition transition_result

datatype flow_reply =
    ReTasks "task_t list"
  | ReTask task_t
  | ReApprovals "approval_t list"
  | ReApproval approval_t
  | ReAudit "audit_event list"

datatype insight_reply =
    ReReports "report_def list"
  | ReReportDef report_def
  | ReReportResult report_result
  | ReDashboards "dashboard_t list"
  | ReDashboard dashboard_t

datatype ai_reply =
    ReCapabilities ai_capabilities_t
  | ReAnswer ai_answer
  | RePlanned action_plan
  | ReExecuted json
  | ReAccel capabilities

datatype reply =
    ReHealth string
  | ReLogin login_result
  | ReLogout "migration_report option"
  | ReBootstrap bootstrap_result
  | ReTenancy tenancy_reply
  | ReIdentity identity_reply
  | ReBuilder builder_reply
  | ReMigrations migration_reply
  | ReSchema schema_reply
  | ReRecordSet record_reply
  | ReFlow flow_reply
  | ReInsight insight_reply
  | ReAi ai_reply

section \<open>Dispatch\<close>

definition replyK :: "('a \<Rightarrow> 'b) \<Rightarrow> 'a kern \<Rightarrow> 'b kern" where
  "replyK f m = bindK m (\<lambda>x. retK (f x))"

fun handle_tenancy :: "app_state \<Rightarrow> auth_context \<Rightarrow> tenancy_request \<Rightarrow> tenancy_reply kern" where
  "handle_tenancy app ctx Me = retK (ReMe (me_handler ctx))"
| "handle_tenancy app ctx Get_tenant = replyK ReTenant (get_tenant_handler app ctx)"
| "handle_tenancy app ctx List_tenants = replyK ReTenants (list_tenants_handler app ctx)"
| "handle_tenancy app ctx (Set_tenant_status t st) =
     replyK ReTenant (set_tenant_status_handler app ctx t st)"
| "handle_tenancy app ctx List_orgs = replyK ReOrgs (list_orgs_handler app ctx)"
| "handle_tenancy app ctx Get_usage = replyK ReUsage (get_usage_handler app ctx)"

fun handle_identity :: "app_state \<Rightarrow> auth_context \<Rightarrow> identity_request \<Rightarrow> identity_reply kern" where
  "handle_identity app ctx List_users = replyK ReUsers (list_users_handler app ctx)"
| "handle_identity app ctx (Create_user req) = replyK ReUser (create_user_handler app ctx req)"
| "handle_identity app ctx (Get_user u) = replyK ReUser (get_user_handler app ctx u)"
| "handle_identity app ctx (Set_user_status u st) =
     replyK ReUser (set_user_status_handler app ctx u st)"
| "handle_identity app ctx List_roles = replyK ReRoles (list_roles_handler app ctx)"
| "handle_identity app ctx (Create_role req) = replyK ReRole (create_role_handler app ctx req)"
| "handle_identity app ctx (Create_api_key req) =
     replyK ReApiKey (create_api_key_handler app ctx req)"

fun handle_builder :: "app_state \<Rightarrow> auth_context \<Rightarrow> builder_request \<Rightarrow> builder_reply kern" where
  "handle_builder app ctx List_drafts = replyK ReDrafts (list_builder_drafts_handler app ctx)"
| "handle_builder app ctx (Get_draft d) = replyK ReDraft (get_builder_draft_handler app ctx d)"
| "handle_builder app ctx (Save_draft req) = replyK ReDraft (save_builder_draft_handler app ctx req)"
| "handle_builder app ctx (Validate_draft d) =
     replyK ReValidation (validate_builder_draft_handler app ctx d)"
| "handle_builder app ctx (Publish_preview d) =
     replyK ReValidation (builder_publish_preview_handler app ctx d)"
| "handle_builder app ctx (Publish_draft d b) =
     replyK RePublished (publish_builder_draft_handler app ctx d b)"
| "handle_builder app ctx List_templates =
     replyK ReTemplates (list_builder_templates_handler app ctx)"
| "handle_builder app ctx (Install_template req) =
     replyK ReInstalled (install_builder_template_handler app ctx req)"

fun handle_migration :: "app_state \<Rightarrow> auth_context \<Rightarrow> migration_request \<Rightarrow> migration_reply kern" where
  "handle_migration app ctx Get_migration = replyK ReMigration (get_migration_handler app ctx)"
| "handle_migration app ctx (Start_migration t) =
     replyK (\<lambda>m. ReMigration (Some m)) (start_migration_handler app ctx t)"
| "handle_migration app ctx (Select_target key) =
     replyK (\<lambda>m. ReMigration (Some m)) (select_target_system_handler app ctx key)"
| "handle_migration app ctx (Set_active sys) =
     replyK (\<lambda>m. ReMigration (Some m)) (set_active_system_handler app ctx sys)"
| "handle_migration app ctx Plan_migration = replyK RePlan (plan_migration_handler app ctx)"
| "handle_migration app ctx (Get_report sys) = replyK ReReport (migration_report_handler app ctx sys)"

fun handle_schema :: "app_state \<Rightarrow> auth_context \<Rightarrow> schema_request \<Rightarrow> schema_reply kern" where
  "handle_schema app ctx List_object_types = replyK ReObjectTypes (list_object_types_handler app ctx)"
| "handle_schema app ctx (Create_object_type def) =
     replyK ReObjectType (create_object_type_handler app ctx def)"
| "handle_schema app ctx (Get_object_type key) = replyK ReObjectType (get_object_type_handler app ctx key)"
| "handle_schema app ctx (Update_object_type key def) =
     replyK ReObjectType (update_object_type_handler app ctx key def)"
| "handle_schema app ctx List_workflows = replyK ReWorkflows (list_workflows_handler app ctx)"
| "handle_schema app ctx (Create_workflow def) = replyK ReWorkflow (create_workflow_handler app ctx def)"
| "handle_schema app ctx (Get_workflow key) = replyK ReWorkflow (get_workflow_handler app ctx key)"

fun handle_record :: "app_state \<Rightarrow> auth_context \<Rightarrow> record_request \<Rightarrow> record_reply kern" where
  "handle_record app ctx (List_records key p) = replyK ReRecords (list_records_handler app ctx key p)"
| "handle_record app ctx (Create_record key body) =
     replyK ReRecord (create_record_handler app ctx key body)"
| "handle_record app ctx (Get_record rid) = replyK ReRecord (get_record_handler app ctx rid)"
| "handle_record app ctx (Update_record rid patch) =
     replyK ReRecord (update_record_handler app ctx rid patch)"
| "handle_record app ctx (Archive_record rid) = replyK (\<lambda>_. ReOk) (archive_record_handler app ctx rid)"
| "handle_record app ctx (Restore_record rid) = replyK (\<lambda>_. ReOk) (restore_record_handler app ctx rid)"
| "handle_record app ctx (Get_relations rid) = replyK ReRelations (get_relations_handler app ctx rid)"
| "handle_record app ctx (Create_relation rid to ty) =
     replyK ReRelation (create_relation_handler app ctx rid to ty)"
| "handle_record app ctx (List_transitions rid) =
     replyK ReTransitions (list_transitions_handler app ctx rid)"
| "handle_record app ctx (Do_transition rid req) =
     replyK ReTransition (do_transition_handler app ctx rid req)"

fun handle_flow :: "app_state \<Rightarrow> auth_context \<Rightarrow> flow_request \<Rightarrow> flow_reply kern" where
  "handle_flow app ctx (List_tasks p) = replyK ReTasks (list_tasks_handler app ctx p)"
| "handle_flow app ctx (Create_task req) = replyK ReTask (create_task_handler app ctx req)"
| "handle_flow app ctx (Complete_task t st) = replyK ReTask (complete_task_handler app ctx t st)"
| "handle_flow app ctx List_approvals = replyK ReApprovals (list_approvals_handler app ctx)"
| "handle_flow app ctx (Get_approval a) = replyK ReApproval (get_approval_handler app ctx a)"
| "handle_flow app ctx (Decide_approval a req) =
     replyK ReApproval (decide_approval_handler app ctx a req)"
| "handle_flow app ctx (Query_audit p) = replyK ReAudit (query_audit_handler app ctx p)"

fun handle_insight :: "app_state \<Rightarrow> auth_context \<Rightarrow> insight_request \<Rightarrow> insight_reply kern" where
  "handle_insight app ctx List_reports = replyK ReReports (list_reports_handler app ctx)"
| "handle_insight app ctx (Save_report def) = replyK ReReportDef (save_report_handler app ctx def)"
| "handle_insight app ctx (Run_report key) = replyK ReReportResult (run_report_handler app ctx key)"
| "handle_insight app ctx (Run_adhoc def) = replyK ReReportResult (run_report_adhoc_handler app ctx def)"
| "handle_insight app ctx List_dashboards = replyK ReDashboards (list_dashboards_handler app ctx)"
| "handle_insight app ctx (Save_dashboard d) = replyK ReDashboard (save_dashboard_handler app ctx d)"
| "handle_insight app ctx (Get_dashboard key) = replyK ReDashboard (get_dashboard_handler app ctx key)"

fun handle_ai :: "app_state \<Rightarrow> auth_context \<Rightarrow> ai_request \<Rightarrow> ai_reply kern" where
  "handle_ai app ctx Ai_capabilities = retK (ReCapabilities ai_capabilities)"
| "handle_ai app ctx (Ai_ask req) = replyK ReAnswer (ai_ask_handler app ctx req)"
| "handle_ai app ctx (Ai_bi_ask q) = replyK ReAnswer (ai_bi_ask_handler app ctx q)"
| "handle_ai app ctx (Ai_summarize rid) = replyK ReAnswer (ai_summarize_handler app ctx rid)"
| "handle_ai app ctx Ai_finance = replyK ReAnswer (ai_finance_handler app ctx)"
| "handle_ai app ctx Ai_procurement = replyK ReAnswer (ai_procurement_handler app ctx)"
| "handle_ai app ctx Ai_sales = replyK ReAnswer (ai_sales_handler app ctx)"
| "handle_ai app ctx (Ai_dry_run act) = replyK RePlanned (ai_dry_run_handler app ctx act)"
| "handle_ai app ctx (Ai_execute req) = replyK ReExecuted (ai_execute_handler app ctx req)"
| "handle_ai app ctx Accel_status = retK (ReAccel (accel_status_handler app))"

fun handle :: "app_state \<Rightarrow> auth_context \<Rightarrow> protected_request \<Rightarrow> reply kern" where
  "handle app ctx (Tenancy req) = replyK ReTenancy (handle_tenancy app ctx req)"
| "handle app ctx (Identity req) = replyK ReIdentity (handle_identity app ctx req)"
| "handle app ctx (Builder req) = replyK ReBuilder (handle_builder app ctx req)"
| "handle app ctx (Migration req) = replyK ReMigrations (handle_migration app ctx req)"
| "handle app ctx (Schema req) = replyK ReSchema (handle_schema app ctx req)"
| "handle app ctx (Record req) = replyK ReRecordSet (handle_record app ctx req)"
| "handle app ctx (Flow req) = replyK ReFlow (handle_flow app ctx req)"
| "handle app ctx (Insight req) = replyK ReInsight (handle_insight app ctx req)"
| "handle app ctx (Ai req) = replyK ReAi (handle_ai app ctx req)"

definition serve_protected :: "app_state \<Rightarrow> headers \<Rightarrow> protected_request \<Rightarrow> reply kern" where
  "serve_protected app h req = bindK (extract_auth app h) (\<lambda>ctx. handle app ctx req)"

fun dispatch :: "app_state \<Rightarrow> headers \<Rightarrow> request \<Rightarrow> reply kern" where
  "dispatch app h Healthz = retK (ReHealth healthz)"
| "dispatch app h Readyz = replyK ReHealth (readyz app)"
| "dispatch app h (Login req) = replyK ReLogin (login_handler app req)"
| "dispatch app h Logout = replyK ReLogout (logout_handler app h)"
| "dispatch app h (Bootstrap req) = replyK ReBootstrap (bootstrap_handler app h req)"
| "dispatch app h (Protected req) = serve_protected app h req"

text \<open>Every request runs behind the middleware that stamps its request id.\<close>

definition serve :: "app_state \<Rightarrow> headers \<Rightarrow> request \<Rightarrow> reply kern" where
  "serve app h req = bindK (stamp_request_id (st_kernel app) h) (\<lambda>h'. dispatch app h' req)"

text \<open>
  The status line of a response. The listing whose slice panics has none: no layer of the router
  catches a panic, so the connection of the request ends without a response.
\<close>

definition status_of :: "api_error + reply \<Rightarrow> 16 word option" where
  "status_of r =
     (case r of
        Inl e \<Rightarrow> Some (http_status (e_code e))
      | Inr (ReRecordSet (ReRecords None)) \<Rightarrow> None
      | Inr _ \<Rightarrow> Some 200)"

end
