(* ===== verification/Services.thy ===== *)
theory Services
  imports Api
begin

text \<open>
  The interface between the HTTP layer and the services it calls: a relation between databases
  that every writing operation of the kernel keeps is kept by every handler, so by every protected
  request. The locale \<open>service_frame\<close> lists the writing operations; its interpretations are the
  isolation of tenants, the invariant of the database, and the traceability of changes.
\<close>

text \<open>The handlers that only call one service.\<close>

lemmas handler_defs = set_tenant_status_handler_def set_user_status_handler_def get_usage_handler_def
  get_tenant_handler_def list_tenants_handler_def list_orgs_handler_def create_user_handler_def
  list_users_handler_def get_user_handler_def create_role_handler_def list_roles_handler_def
  create_api_key_handler_def list_builder_drafts_handler_def get_builder_draft_handler_def
  save_builder_draft_handler_def validate_builder_draft_handler_def
  builder_publish_preview_handler_def publish_builder_draft_handler_def
  list_builder_templates_handler_def install_builder_template_handler_def get_migration_handler_def
  start_migration_handler_def select_target_system_handler_def set_active_system_handler_def
  plan_migration_handler_def create_object_type_handler_def
  update_object_type_handler_def get_object_type_handler_def list_object_types_handler_def
  list_records_handler_def create_record_handler_def get_record_handler_def
  update_record_handler_def create_relation_handler_def get_relations_handler_def
  create_workflow_handler_def list_workflows_handler_def get_workflow_handler_def
  list_transitions_handler_def do_transition_handler_def list_tasks_handler_def
  create_task_handler_def complete_task_handler_def list_approvals_handler_def
  get_approval_handler_def decide_approval_handler_def query_audit_handler_def
  list_reports_handler_def save_report_handler_def run_report_handler_def
  run_report_adhoc_handler_def list_dashboards_handler_def save_dashboard_handler_def
  get_dashboard_handler_def ai_ask_handler_def ai_bi_ask_handler_def ai_summarize_handler_def
  ai_finance_handler_def ai_procurement_handler_def ai_sales_handler_def ai_dry_run_handler_def
  ai_execute_handler_def

section \<open>The interface\<close>

lemma grounded_logs: "grounded k ctx m \<Longrightarrow> keeps (only_logs (tenant_id ctx)) m"
  by (simp add: grounded_def)

locale service_frame = denial_frame R "tenant_id ctx" for R ctx +
  fixes k :: kernel
  assumes logs_only: "only_logs (tenant_id ctx) d d' \<Longrightarrow> R d d'"
    and keeps_schema:
      "keeps R (create_object_type k ctx def)" "keeps R (update_object_type k ctx key def)"
      "keeps R (create_workflow k ctx w)"
    and keeps_records:
      "keeps R (create_record k ctx nr)" "keeps R (update_record k ctx rid patch)"
      "keeps R (set_lifecycle k ctx rid lc)" "keeps R (relate k ctx rid to ty)"
      "keeps R (transition_record k ctx rid key reason)"
    and keeps_flow:
      "keeps R (create_task k ctx kind title a ty' rid' data)" "keeps R (complete_task k ctx tid status)"
      "keeps R (decide_approval k ctx aid approved reason)"
    and keeps_accounts:
      "keeps R (create_user k ctx email name pw keys)" "keeps R (create_role k ctx key name desc grants)"
      "keeps R (create_api_key k ctx name p pt)" "keeps R (set_user_status k ctx uid status)"
      "keeps R (set_tenant_status k ctx tid status)"
    and keeps_insight:
      "keeps R (save_report k ctx rd)" "keeps R (save_dashboard k ctx dash)"
    and keeps_builder:
      "keeps R (save_builder_draft k ctx sd)" "keeps R (publish_builder_draft k ctx did)"
      "keeps R (install_builder_template k ctx ireq)"
    and keeps_onboarding:
      "keeps R (start_migration k ctx sk)" "keeps R (select_target_system k ctx target)"
      "keeps R (set_active_system k ctx sys)" "keeps R (migration_report k ctx sys)"
begin

lemmas keeps_writes = keeps_schema keeps_records keeps_flow keeps_accounts keeps_insight
  keeps_builder keeps_onboarding

lemma keeps_logs: "keeps (only_logs (tenant_id ctx)) m \<Longrightarrow> keeps R m"
  by (erule keeps_mono) (rule logs_only)

lemma keeps_replyK: "keeps R m \<Longrightarrow> keeps R (replyK f m)"
  unfolding replyK_def by (intro keeps_bindK keeps_retK)

text \<open>Reading.\<close>

lemma keeps_tenant_reads:
  "keeps R (get_tenant k ctx)" "keeps R (list_tenants k ctx)" "keeps R (list_organizations k ctx)"
  "keeps R (list_usage k ctx)" "keeps R (list_users k ctx)" "keeps R (list_roles k ctx)"
  unfolding get_tenant_def list_tenants_def list_organizations_def list_usage_def list_users_def
    list_roles_def
  by (intro keeps_seqK keeps_authorize keeps_bindK keeps_query keeps_someK keeps_if
      keeps_audit_denial keeps_failK keeps_mapK keeps_roles_for_principal keeps_retK refl)+

lemma keeps_model_reads:
  "keeps R (get_object_type k ctx key)" "keeps R (list_workflows k ctx)" "keeps R (get_workflow k ctx key)"
  unfolding get_object_type_def list_workflows_def get_workflow_def
  by (intro keeps_seqK keeps_authorize keeps_bindK keeps_query keeps_someK keeps_retK
      keeps_load_object_type keeps_load_workflow refl)+

lemma keeps_flow_reads:
  "keeps R (get_approval k ctx aid)" "keeps R (list_pending_approvals k ctx)"
  unfolding get_approval_def list_pending_approvals_def
  by (intro keeps_seqK keeps_authorize keeps_bindK keeps_query keeps_someK keeps_retK
      keeps_load_approval refl)+

lemma keeps_insight_reads:
  "keeps R (list_reports k ctx)" "keeps R (list_dashboards k ctx)" "keeps R (get_dashboard k ctx key)"
  unfolding list_reports_def list_dashboards_def get_dashboard_def
  by (intro keeps_seqK keeps_authorize keeps_bindK keeps_query keeps_someK keeps_retK refl)+

lemma keeps_builder_reads:
  "keeps R (list_builder_drafts k ctx)" "keeps R (validate_builder_draft k ctx did)"
  "keeps R (builder_templates k ctx)"
  unfolding list_builder_drafts_def validate_builder_draft_def builder_templates_def
  by (intro keeps_seqK keeps_authorize keeps_bindK keeps_query keeps_retK keeps_get_builder_draft
      keeps_validate_builder_definition refl)+

lemma keeps_migration_reads:
  "keeps R (get_migration k ctx)" "keeps R (plan_migration k ctx)"
  unfolding get_migration_def plan_migration_def
  by (intro keeps_seqK keeps_authorize keeps_bindK keeps_someK keeps_retK keeps_resK keeps_case_prod
      keeps_session_reads refl)+

lemmas keeps_reads = keeps_tenant_reads keeps_model_reads keeps_flow_reads keeps_insight_reads
  keeps_builder_reads keeps_migration_reads
  keeps_list_object_types [OF refl] keeps_get_builder_draft [OF refl] keeps_get_user [OF refl]
  keeps_get_record [OF refl] keeps_list_records [OF refl] keeps_get_relations [OF refl]
  keeps_available_transitions [OF refl] keeps_list_tasks [OF refl] keeps_audit_query [OF refl]
  keeps_run_report [OF refl] keeps_run_report_def [OF refl]

text \<open>The agents and the actions they propose.\<close>

lemmas keeps_grounded = keeps_logs [OF grounded_logs]

lemma keeps_agents:
  "keeps R (ask eng k ctx question tys)" "keeps R (summarize_record eng k ctx rid)"
  "keeps R (finance_cashflow_risk eng k ctx)" "keeps R (procurement_low_stock eng k ctx)"
  "keeps R (sales_deal_risk eng k ctx)" "keeps R (bi_answer eng k ctx question)"
  "keeps R (dry_run k ctx act)"
  by (rule keeps_grounded grounded_ask grounded_summarize grounded_finance grounded_procurement
      grounded_sales grounded_bi keeps_logs [OF keeps_dry_run])+

lemma keeps_execute: "keeps R (execute k ctx act approved)"
  unfolding execute_def
  by (intro keeps_seqK keeps_bindK keeps_guard_agents keeps_guardK keeps_retK keeps_perform
      keeps_records keeps_logs [OF keeps_only_logs_action] db_frame_axioms)

section \<open>The handlers\<close>

lemma keeps_lifecycle_handlers:
  assumes "st_kernel app = k"
  shows "keeps R (archive_record_handler app ctx rid)" "keeps R (restore_record_handler app ctx rid)"
  unfolding archive_record_handler_def restore_record_handler_def archive_record_def
    restore_record_def assms
  by (intro keeps_seqK keeps_retK keeps_writes)+

lemma keeps_report_handler:
  assumes "st_kernel app = k"
  shows "keeps R (migration_report_handler app ctx sys)"
  unfolding migration_report_handler_def assms
  by (intro keeps_bindK keeps_retK keeps_writes keeps_reads keeps_case_option)

lemmas keeps_simps = handler_defs keeps_replyK keeps_retK keeps_writes keeps_reads keeps_agents
  keeps_execute keeps_lifecycle_handlers keeps_report_handler

lemma keeps_handle_tenancy: "st_kernel app = k \<Longrightarrow> keeps R (handle_tenancy app ctx req)"
  by (cases req) (simp_all add: keeps_simps)

lemma keeps_handle_identity: "st_kernel app = k \<Longrightarrow> keeps R (handle_identity app ctx req)"
  by (cases req) (simp_all add: keeps_simps)

lemma keeps_handle_builder: "st_kernel app = k \<Longrightarrow> keeps R (handle_builder app ctx req)"
  by (cases req) (simp_all add: keeps_simps)

lemma keeps_handle_migration: "st_kernel app = k \<Longrightarrow> keeps R (handle_migration app ctx req)"
  by (cases req) (simp_all add: keeps_simps)

lemma keeps_handle_schema: "st_kernel app = k \<Longrightarrow> keeps R (handle_schema app ctx req)"
  by (cases req) (simp_all add: keeps_simps)

lemma keeps_handle_record: "st_kernel app = k \<Longrightarrow> keeps R (handle_record app ctx req)"
  by (cases req) (simp_all add: keeps_simps)

lemma keeps_handle_flow: "st_kernel app = k \<Longrightarrow> keeps R (handle_flow app ctx req)"
  by (cases req) (simp_all add: keeps_simps)

lemma keeps_handle_insight: "st_kernel app = k \<Longrightarrow> keeps R (handle_insight app ctx req)"
  by (cases req) (simp_all add: keeps_simps)

lemma keeps_handle_ai: "st_kernel app = k \<Longrightarrow> keeps R (handle_ai app ctx req)"
  by (cases req) (simp_all add: keeps_simps)

lemma keeps_handle: "st_kernel app = k \<Longrightarrow> keeps R (handle app ctx req)"
  by (cases req) (simp_all add: keeps_replyK keeps_handle_tenancy keeps_handle_identity
      keeps_handle_builder keeps_handle_migration keeps_handle_schema keeps_handle_record
      keeps_handle_flow keeps_handle_insight keeps_handle_ai)

end

end
