(* ===== verification/System.thy ===== *)
theory System
  imports Services
begin

text \<open>
  The service as a state machine. The interface \<open>service_frame\<close> is interpreted for the relations
  of interest (isolation of tenants, the invariant of the database, traceability of changes), and
  the steps of the service are requests, rounds of housekeeping and restarts of the process.
\<close>

section \<open>Isolation\<close>

text \<open>
  A caller who is neither a platform administrator nor the system stays in its tenant; the
  administrators are the only ones who may change the status of another tenant.
\<close>

definition confined :: "auth_context \<Rightarrow> database \<Rightarrow> database \<Rightarrow> bool" where
  "confined ctx d d' \<longleftrightarrow> (\<not> is_platform_admin ctx \<and> \<not> is_system ctx \<longrightarrow> isolated (tenant_id ctx) d d')"

lemma confinedI: "isolated (tenant_id ctx) d d' \<Longrightarrow> confined ctx d d'"
  by (simp add: confined_def)

lemma keeps_confined: "keeps (isolated (tenant_id ctx)) m \<Longrightarrow> keeps (confined ctx) m"
  by (erule keeps_mono) (rule confinedI)

lemma keeps_confined_set_tenant_status: "keeps (confined ctx) (set_tenant_status k ctx tid status)"
proof (cases "is_platform_admin ctx \<or> is_system ctx")
  case True
  then show ?thesis by (auto simp: keeps_def confined_def)
next
  case False
  then have "keeps (isolated (tenant_id ctx)) (set_tenant_status k ctx tid status)"
    unfolding set_tenant_status_def
    by (auto intro!: isolated.keeps_seqK isolated.keeps_audit_denial isolated.keeps_failK)
  then show ?thesis by (rule keeps_confined)
qed

lemma only_logs_isolated: "only_logs t d d' \<Longrightarrow> isolated t d d'"
  by (auto simp: only_logs_def isolated_def others_def)

interpretation confined: service_frame "confined ctx" ctx k for ctx k
  by unfold_locales
    (auto simp: confined_def isolated.frame_refl intro: isolated.frame_trans isolated.denial
      only_logs_isolated, (rule keeps_confined keeps_confined_set_tenant_status
      keeps_isolated_create_object_type keeps_isolated_update_object_type keeps_isolated_create_workflow
      keeps_isolated_create_record keeps_isolated_update_record keeps_isolated_set_lifecycle
      keeps_isolated_relate keeps_isolated_transition_record keeps_isolated_create_task
      keeps_isolated_complete_task keeps_isolated_decide_approval keeps_isolated_create_user
      keeps_isolated_create_role keeps_isolated_create_api_key keeps_isolated_set_user_status
      keeps_isolated_save_report keeps_isolated_save_dashboard keeps_isolated_save_builder_draft
      keeps_isolated_publish keeps_install_builder_template(1) keeps_isolated_start
      keeps_isolated_select keeps_isolated_activate keeps_isolated_report refl)+)

section \<open>The invariant\<close>

lemma only_logs_evolves: "only_logs t d d' \<Longrightarrow> evolves d d'"
  by (auto simp: only_logs_def evolves_def appends_def decided_final_def)

interpretation evolves_service: service_frame evolves ctx k for ctx k
  by unfold_locales
    ((rule only_logs_evolves, assumption) | rule frame_rules keeps_evolves_set_lifecycle)+

section \<open>Traceability\<close>

text \<open>
  The tables whose changes are traced: all but the audit log itself and the bookkeeping of
  sessions, key use, usage counters, domain events and the onboarding assistant.
\<close>

definition tracked :: "database \<Rightarrow> database" where
  "tracked d = d\<lparr>audit_logs := [], sessions := [], events := [], usage_meters := [],
     migration_sessions := [], api_keys := map (ak_last_used_at_update (\<lambda>_. None)) (api_keys d)\<rparr>"

definition event_logged :: "database \<Rightarrow> database \<Rightarrow> bool" where
  "event_logged d d' \<longleftrightarrow>
     (\<exists>new. audit_logs d' = audit_logs d @ new \<and> (\<exists>ev\<in>set new. a_action ev \<noteq> ''permission.denied''))"

definition traced :: "database \<Rightarrow> database \<Rightarrow> bool" where
  "traced d d' \<longleftrightarrow> evolves d d' \<and> (db_inv d \<longrightarrow> tracked d' = tracked d \<or> event_logged d d')"

lemma event_logged_trans:
  "event_logged d d' \<Longrightarrow> appends d' d'' \<Longrightarrow> event_logged d d''"
  "appends d d' \<Longrightarrow> event_logged d' d'' \<Longrightarrow> event_logged d d''"
  unfolding event_logged_def appends_def by fastforce+

lemma evolvesD: "evolves d d' \<Longrightarrow> appends d d'" "evolves d d' \<Longrightarrow> db_inv d \<Longrightarrow> db_inv d'"
  by (simp_all add: evolves_def)

lemma tracked_log [simp]: "tracked (d\<lparr>audit_logs := als\<rparr>) = tracked d"
  by (simp add: tracked_def)

interpretation traced: denial_frame traced t for t
proof unfold_locales
  show "traced d d" for d
    by (simp add: traced_def evolves.frame_refl)
  show "traced d d''" if "traced d d'" "traced d' d''" for d d' d''
    using that unfolding traced_def
    by (auto intro: evolves.frame_trans event_logged_trans evolvesD)
  show "traced d (log_audit ev d)"
    if "a_tenant_id ev = t" "a_action ev = ''permission.denied''" "a_id ev \<notin> a_id ` set (audit_logs d)" for ev d
    using evolves.denial [OF that] by (simp add: traced_def log_audit_def)
qed

lemma tracedI: "evolves d d' \<Longrightarrow> tracked d' = tracked d \<Longrightarrow> traced d d'"
  by (simp add: traced_def)

lemma audited_traced: "evolves d d' \<Longrightarrow> audited d d' \<Longrightarrow> traced d d'"
proof -
  assume e: "evolves d d'" and "audited d d'"
  then obtain new where new: "audit_logs d' = audit_logs d @ new"
    "business d' \<noteq> business d \<longrightarrow> (\<exists>ev\<in>set new. a_action ev \<noteq> ''permission.denied'')"
    unfolding audited_def by blast
  have "tracked d' = tracked d" if "business d' = business d"
  proof -
    have "tracked d' = tracked (business d')" "tracked d = tracked (business d)"
      by (simp_all add: business_def)
    with that show ?thesis by simp
  qed
  with e new show ?thesis unfolding traced_def event_logged_def by blast
qed

lemma keeps_traced_audited: "keeps evolves m \<Longrightarrow> keeps audited m \<Longrightarrow> keeps traced m"
  by (simp add: keeps_def audited_traced)

lemma keeps_traced_same: "keeps evolves m \<Longrightarrow> keeps (\<lambda>d d'. tracked d' = tracked d) m \<Longrightarrow> keeps traced m"
  by (simp add: keeps_def tracedI)

lemma nondestructive_tracked: "nondestructive d d' \<Longrightarrow> tracked d' = tracked d"
proof -
  assume "nondestructive d d'"
  then have "tracked (d'\<lparr>migration_sessions := [], audit_logs := [], events := []\<rparr>) =
      tracked (d\<lparr>migration_sessions := [], audit_logs := [], events := []\<rparr>)"
    by (simp add: nondestructive_def)
  then show ?thesis by (simp add: tracked_def)
qed

lemma keeps_traced_nondestructive: "keeps evolves m \<Longrightarrow> keeps nondestructive m \<Longrightarrow> keeps traced m"
  by (simp add: keeps_def tracedI nondestructive_tracked)

subsection \<open>The operations that log later\<close>

lemma keeps_appends_ops: "keeps evolves m \<Longrightarrow> keeps appends m"
  by (erule keeps_mono) (rule evolvesD)

lemma keeps_audited_set_user_status: "keeps audited (set_user_status k ctx uid status)"
proof -
  have body: "logs (transaction k (seqK (update_stmt k (\<lambda>d. d\<lparr>users := f d\<rparr>))
      (audit_change k ctx ''user.set_status'' ty target prev after (\<lambda>ev. ev))))" for f ty target prev after
    by (intro logs_transaction logs_seq_second logs_audit_change frame_rules) (auto simp: same_log_def)
  have tail: "keeps appends (seqK (if status \<noteq> ''active''
      then seqK (revoke_sessions_for_user k (tenant_id ctx) uid) (retK ()) else retK ()) (get_user k ctx uid))"
    by (rule appends.keeps_seqK keeps_if keeps_appends_ops [OF keeps_evolves_revoke]
        appends.keeps_retK appends.keeps_get_user refl)+
  have body': "keeps audited (transaction k (seqK (update_stmt k (\<lambda>d. d\<lparr>users := f d\<rparr>))
      (audit_change k ctx ''user.set_status'' ty target prev after (\<lambda>ev. ev))))" for f ty target prev after
    by (intro keeps_audited_transaction logs_seq_second logs_audit_change frame_rules) (auto simp: same_log_def)
  show ?thesis
    unfolding set_user_status_def
    by (rule keeps_audited_seq_logged [OF body' body tail] audited.keeps_seqK audited.keeps_authorize
        audited.keeps_guardK audited.keeps_bindK audited.keeps_get_user refl)+
qed

text \<open>A decision is logged because the approval names a record and a target state.\<close>

lemma logs_record_decision:
  assumes "ap_related_record_id ap \<noteq> None" "ap_target_state ap \<noteq> None"
  shows "logs (record_decision k ctx ap ty target ts approved reason)"
proof -
  have same: "keeps same_log (seqK (update_stmt k (set_approval t aid f)) (close_tasks_for_approval k t aid st))"
    for t aid f st
    by (intro frame_rules) (simp add: same_log_def set_approval_def)
  have "logs (apply_approval k ctx ap ty target ts reason)"
    using assms unfolding apply_approval_def Let_def
    by (auto intro!: logs_seq_second [OF _ logs_seq_first [OF logs_audit_change]] frame_rules
        simp: same_log_def set_record_def split: option.split)
  then show ?thesis
    unfolding record_decision_def
    by (cases approved) (auto intro!: logs_seq_first [OF _ same] logs_audit_change)
qed

lemma decide_audited:
  assumes run: "decide_approval k ctx aid approved reason s = (r, s')"
    and targeted: "approvals_targeted (db s)"
  shows "audited (db s) (db s')"
proof -
  obtain q s1 where l: "load_approval k (tenant_id ctx) aid s = (q, s1)" by force
  have 1: "audited (db s) (db s1)" by (rule keepsD [OF audited.keeps_load_approval l])
  show ?thesis
  proof (cases q)
    case (Inl e)
    with run l 1 show ?thesis by (simp add: decide_approval_def bindK_def)
  next
    case (Inr found)
    show ?thesis
    proof (cases found)
      case None
      with Inr run l 1 show ?thesis by (simp add: decide_approval_def bindK_def someK_def failK_def)
    next
      case (Some ap)
      from l Inr Some have "ap \<in> set (approvals (db s))"
        by (auto simp: load_approval_def query_Inr dest!: sym [of "Some _"] find_approval_Some)
      with targeted have t: "ap_related_record_id ap \<noteq> None" "ap_target_state ap \<noteq> None"
        by (simp_all add: approvals_targeted_def)
      have k: "keeps audited (seqK (guardK b e) (if c
          then seqK (audit_denial k ctx ''approve'' ''approval'' (Some aid)) (failK e')
          else let ty = tyo in bindK (case ap_related_record_id ap of
                   Some rid \<Rightarrow> load_record k (tenant_id ctx) rid | None \<Rightarrow> retK None) (\<lambda>target.
                 seqK (authorize k ctx Approve (resource_for ty) target) (
                 bindK (now_rfc3339 k) (\<lambda>ts.
                 seqK (transaction k (record_decision k ctx ap ty target ts approved reason))
                   (retK (decided ctx approved reason ts ap)))))))" for b e c e' tyo
        unfolding Let_def
        by (rule audited.keeps_seqK audited.keeps_guardK keeps_if audited.keeps_audit_denial
            audited.keeps_failK audited.keeps_bindK keeps_case_option audited.keeps_load_record
            audited.keeps_retK audited.keeps_authorize audited.keeps_now_rfc3339
            keeps_audited_transaction logs_record_decision t refl)+
      from run l Inr Some have "audited (db s1) (db s')"
        using keepsD [OF k] by (simp add: decide_approval_def bindK_def someK_def retK_def)
      with 1 show ?thesis by (rule audited.frame_trans)
    qed
  qed
qed

lemma keeps_traced_decide: "keeps traced (decide_approval k ctx aid approved reason)"
proof (rule keepsI)
  fix s r s'
  assume run: "decide_approval k ctx aid approved reason s = (r, s')"
  have e: "evolves (db s) (db s')" by (rule keepsD [OF keeps_evolves_decide run])
  show "traced (db s) (db s')"
  proof (cases "db_inv (db s)")
    case True
    then have "approvals_targeted (db s)" by (simp add: db_inv_def)
    with run e show ?thesis by (blast intro: audited_traced decide_audited)
  next
    case False
    with e show ?thesis by (simp add: traced_def)
  qed
qed

lemma only_logs_traced: "only_logs t d d' \<Longrightarrow> traced d d'"
  by (rule tracedI, erule only_logs_evolves) (auto simp: only_logs_def)

lemmas keeps_traced_writes =
  keeps_traced_audited [OF keeps_evolves_create_object_type keeps_audited_create_object_type]
  keeps_traced_audited [OF keeps_evolves_update_object_type keeps_audited_update_object_type]
  keeps_traced_audited [OF keeps_evolves_create_workflow keeps_audited_create_workflow]
  keeps_traced_audited [OF keeps_evolves_create_record keeps_audited_create_record]
  keeps_traced_audited [OF keeps_evolves_update_record keeps_audited_update_record]
  keeps_traced_audited [OF keeps_evolves_set_lifecycle keeps_audited_set_lifecycle]
  keeps_traced_audited [OF keeps_evolves_relate keeps_audited_relate]
  keeps_traced_audited [OF keeps_evolves_transition_record keeps_audited_transition_record]
  keeps_traced_audited [OF keeps_evolves_create_task keeps_audited_create_task]
  keeps_traced_audited [OF keeps_evolves_complete_task keeps_audited_complete_task]
  keeps_traced_audited [OF keeps_evolves_identity(1) keeps_audited_create_user]
  keeps_traced_audited [OF keeps_evolves_identity(4) keeps_audited_create_role]
  keeps_traced_audited [OF keeps_evolves_identity(3) keeps_audited_create_api_key]
  keeps_traced_audited [OF keeps_evolves_set_user_status keeps_audited_set_user_status]
  keeps_traced_audited [OF keeps_evolves_set_tenant_status keeps_audited_set_tenant_status]
  keeps_traced_audited [OF keeps_evolves_reports(1) keeps_audited_save_report]
  keeps_traced_audited [OF keeps_evolves_reports(2) keeps_audited_save_dashboard]
  keeps_traced_audited [OF keeps_evolves_save_draft keeps_audited_save_builder_draft]
  keeps_traced_audited [OF keeps_evolves_publish keeps_audited_publish]
  keeps_traced_audited [OF keeps_evolves_install_template keeps_install_builder_template(2)]
  keeps_traced_nondestructive [OF keeps_evolves_migration(1) keeps_nondestructive_start]
  keeps_traced_nondestructive [OF keeps_evolves_migration(2) keeps_nondestructive_select]
  keeps_traced_nondestructive [OF keeps_evolves_migration(3) keeps_nondestructive_activate]
  keeps_traced_nondestructive [OF keeps_evolves_migration_report(1) keeps_nondestructive_report]
  keeps_traced_decide

interpretation traced_service: service_frame traced ctx k for ctx k
  by unfold_locales ((rule only_logs_traced, assumption) | rule keeps_traced_writes)+

section \<open>Requests\<close>

text \<open>The requests outside the interface: sign-in and sign-out, the bootstrap, the extractor.\<close>

lemma traced_touch_key: "only_touches_keys d d' \<Longrightarrow> tracked d' = tracked d"
  by (cases d; cases d') (simp add: only_touches_keys_def tracked_def)

lemma keeps_traced_authenticate: "keeps traced (authenticate k token rid src)"
  by (rule keeps_traced_same [OF keeps_evolves_authenticate])
    (rule keeps_mono [OF keeps_authenticate], erule traced_touch_key)

definition same_tracked :: "database \<Rightarrow> database \<Rightarrow> bool" where
  "same_tracked d d' \<longleftrightarrow> tracked d' = tracked d"

interpretation same_tracked: denial_frame same_tracked t for t
  by unfold_locales (simp_all add: same_tracked_def log_audit_def)

lemma keeps_traced_untracked: "keeps evolves m \<Longrightarrow> keeps same_tracked m \<Longrightarrow> keeps traced m"
  by (rule keeps_traced_same) (simp_all add: same_tracked_def [abs_def])

lemma same_tracked_bump: "bump_meter t metric period amount uid ts d = Inr (x, d') \<Longrightarrow> same_tracked d d'"
  by (auto simp: bump_meter_def Let_def same_tracked_def tracked_def sql_insert_def split: if_splits)

lemma keeps_traced_meter: "keeps traced (meter_api_call k ctx)"
  by (rule keeps_traced_untracked [OF keeps_evolves_meter])
    (unfold meter_api_call_def record_usage_def current_period_def Let_def,
      (rule frame_rules same_tracked_bump | assumption)+)

lemma keeps_traced_logout: "keeps traced (logout k token)"
proof (rule keeps_traced_untracked [OF keeps_evolves_logout])
  have n: "keeps same_tracked (logout_migration_output k ctx)" for ctx
    by (rule keeps_mono [OF keeps_nondestructive_logout])
      (simp add: same_tracked_def nondestructive_tracked)
  have r: "same_tracked d (revoke_hash h d)" for d h
    by (simp add: same_tracked_def revoke_hash_def tracked_def)
  show "keeps same_tracked (logout k token)"
    unfolding logout_def Let_def by (rule frame_rules n r)+
qed

lemma keeps_traced_housekeeping: "keeps traced (run_housekeeping k)"
  by (rule keeps_traced_untracked [OF keeps_evolves_housekeeping])
    (unfold run_housekeeping_def cleanup_expired_sessions_def,
      (rule frame_rules | force simp: same_tracked_def tracked_def)+)

lemma keeps_traced_login: "keeps traced (login k slug email pw rid src)"
proof (rule keeps_traced_untracked [OF keeps_evolves_login])
  have a: "keeps same_tracked (insert_audit k ev)" "keeps same_tracked (audit k ev)" for ev
    unfolding audit_def insert_audit_def
    by (rule frame_rules | force simp: same_tracked_def log_audit_def)+
  have c: "keeps same_tracked (audit_change k ctx act ty target prev after decorate)"
    for ctx act ty target prev after decorate
    unfolding audit_change_def by (rule frame_rules a)+
  have i: "keeps same_tracked (insert_session k row)" for row
    unfolding insert_session_def by (rule frame_rules | force simp: same_tracked_def tracked_def)+
  show "keeps same_tracked (login k slug email pw rid src)"
    unfolding login_def login_failure_def audit_login_failure_def open_session_def Let_def
    by (rule frame_rules a c i)+
qed

lemma keeps_audited_bootstrap: "keeps audited (bootstrap_tenant k name slug email admin pw)"
proof -
  have s: "keeps same_log (insert_tenant k tn)" "keeps same_log (insert_organization k og)"
    "keeps same_log (insert_system_role k t ts role)" for tn og t ts role
    unfolding insert_tenant_def insert_organization_def insert_system_role_def
    by (rule frame_rules | force simp: same_log_def)+
  show ?thesis
    unfolding bootstrap_tenant_def provision_def Let_def
    by (rule audited.keeps_seqK audited.keeps_bindK audited.keeps_resK audited.keeps_now_rfc3339
        audited.keeps_new_id audited.keeps_retK keeps_audited_transaction
        logs_seq_second logs_audit_change s frame_rules | simp)+
qed

lemmas keeps_traced_bootstrap = keeps_traced_audited [OF keeps_evolves_bootstrap keeps_audited_bootstrap]

section \<open>The service\<close>

lemma keeps_traced_extract: "keeps traced (extract_auth app h)"
  unfolding extract_auth_def
  by (intro traced.keeps_bindK traced.keeps_someK keeps_case_option traced.keeps_retK
      traced.keeps_new_id keeps_traced_authenticate traced.keeps_seqK keeps_traced_meter)

lemma keeps_traced_ping: "keeps traced (readyz app)"
  unfolding readyz_def ping_def by (intro traced.keeps_seqK traced.keeps_query traced.keeps_retK)

lemma keeps_traced_login_handler: "keeps traced (login_handler app req)"
  unfolding login_handler_def by (intro traced.keeps_bindK traced.keeps_new_id keeps_traced_login)

lemma keeps_traced_logout_handler: "keeps traced (logout_handler app h)"
  unfolding logout_handler_def by (intro keeps_case_option traced.keeps_retK keeps_traced_logout)

lemma keeps_traced_bootstrap_handler: "keeps traced (bootstrap_handler app h req)"
  unfolding bootstrap_handler_def tenants_exist_def
  by (intro traced.keeps_bindK traced.keeps_seqK keeps_if traced.keeps_query traced.keeps_someK
      traced.keeps_new_id keeps_traced_authenticate traced.keeps_guardK traced.keeps_retK
      keeps_traced_bootstrap)

lemma keeps_traced_reply: "keeps traced m \<Longrightarrow> keeps traced (replyK f m)"
  unfolding replyK_def by (intro traced.keeps_bindK traced.keeps_retK)

lemma keeps_traced_dispatch: "keeps traced (dispatch app h req)"
proof (cases req)
  case (Protected preq)
  have "keeps traced (serve_protected app h preq)"
    unfolding serve_protected_def
    by (intro traced.keeps_bindK keeps_traced_extract traced_service.keeps_handle [OF refl])
  with Protected show ?thesis by simp
qed (simp_all add: keeps_traced_reply keeps_traced_ping keeps_traced_login_handler
      keeps_traced_logout_handler keeps_traced_bootstrap_handler traced.keeps_retK)

lemma keeps_traced_serve: "keeps traced (serve app h req)"
  unfolding serve_def stamp_request_id_def
  by (intro traced.keeps_bindK keeps_case_option keeps_if traced.keeps_retK traced.keeps_new_id
      keeps_traced_dispatch)

subsection \<open>Steps\<close>

text \<open>
  The environment is part of \<open>app\<close>: its clock, its identifiers and its storage faults may be
  anything. A restart of the process forgets the failed logins, which live in memory.
\<close>

inductive step :: "app_state \<Rightarrow> kstate \<Rightarrow> kstate \<Rightarrow> bool" for app where
  request: "serve app h req s = (r, s') \<Longrightarrow> step app s s'"
| housekeeping: "run_housekeeping (st_kernel app) s = (r, s') \<Longrightarrow> step app s s'"
| restart: "step app s (s\<lparr>limiter := (\<lambda>_. None)\<rparr>)"

inductive reachable :: "app_state \<Rightarrow> kstate \<Rightarrow> bool" for app where
  boot: "db s = empty_db \<Longrightarrow> limiter s = (\<lambda>_. None) \<Longrightarrow> reachable app s"
| next_step: "reachable app s \<Longrightarrow> step app s s' \<Longrightarrow> reachable app s'"

inductive_cases stepE: "step app s s'"

lemma step_traced: "step app s s' \<Longrightarrow> traced (db s) (db s')"
  by (erule stepE)
    (auto dest: keepsD [OF keeps_traced_serve] keepsD [OF keeps_traced_housekeeping]
      simp: traced.frame_refl)

lemma traced_inv: "traced d d' \<Longrightarrow> db_inv d \<Longrightarrow> db_inv d'"
  unfolding traced_def by (auto dest: evolvesD)

lemma reachable_inv: "reachable app s \<Longrightarrow> db_inv (db s)"
  by (induction rule: reachable.induct) (auto simp: db_inv_empty dest: step_traced traced_inv)

lemma reachable_log_ids: "reachable app s \<Longrightarrow> distinct (map a_id (audit_logs (db s)))"
proof (induction rule: reachable.induct)
  case (next_step s s')
  from step_traced [OF this(2)] have "log_ids_kept (db s) (db s')"
    by (simp add: traced_def evolves_def)
  with next_step.IH show ?case by (simp add: log_ids_kept_def)
qed (simp add: empty_db_def)

section \<open>The extractor\<close>

text \<open>A refused request has changed nothing; an accepted one only the last use of its API key.\<close>

interpretation same_db: db_frame "(=)"
  by unfold_locales simp_all

lemma never_fails_errors_keep: "never_fails m \<Longrightarrow> errors_keep R m"
  by (simp add: never_fails_def errors_keep_def)

lemma never_fails_steps: "never_fails (ignoreK m)" "never_fails (now k)" "never_fails (now_rfc3339 k)"
  by (simp_all add: never_fails_def ignoreK_def now_def now_rfc3339_def bindK_def retK_def)

lemma errors_keep_authenticate: "errors_keep (=) (authenticate k token rid src)"
proof -
  have n: "errors_keep (=) (bindK (now_rfc3339 k) (\<lambda>ts. seqK (ignoreK (m ts)) (retK x)))" for m x
    unfolding seqK_def
    by (intro never_fails_errors_keep never_fails_bind never_fails_steps never_fails_retK)
  have q: "keeps (=) (query k p)" "keeps (=) (someK e o')" "keeps (=) (guardK b e)" for p e o' b
    by (rule frame_rules)+
  have r: "keeps (=) (require_tenant_active k t)" "keeps (=) (check_expiry k ex)"
    "keeps (=) (roles_for_principal k t p)" for t ex p
    unfolding roles_for_principal_def by (rule frame_rules)+
  show ?thesis
    unfolding authenticate_def authenticate_session_def authenticate_api_key_def Let_def
    by (rule same_db.errors_keep_struct(1) n same_db.errors_keep_bind same_db.errors_keep_seq q r
        never_fails_errors_keep never_fails_retK)+
qed

lemma errors_keep_tail:
  "errors_keep R m \<Longrightarrow> (\<And>x. never_fails (f x)) \<Longrightarrow> errors_keep R (bindK m f)"
  unfolding errors_keep_def never_fails_def bindK_def by (auto split: sum.splits prod.splits)

lemma extract_refused: "extract_auth app h s = (Inl e, s') \<Longrightarrow> db s' = db s"
proof -
  have "errors_keep (=) (extract_auth app h)"
    unfolding extract_auth_def
    by (rule errors_keep_tail [OF errors_keep_authenticate] same_db.errors_keep_bind
        same_db.keeps_someK keeps_case_option same_db.keeps_retK same_db.keeps_new_id)+
      (auto intro!: never_fails_bind never_fails_retK meter_api_call_never_fails simp: seqK_def)
  then show "extract_auth app h s = (Inl e, s') \<Longrightarrow> db s' = db s"
    unfolding errors_keep_def by metis
qed

lemma authenticate_api_key_row:
  assumes "authenticate_api_key k hash rid src s = (Inr ctx, s')"
  obtains row ts where "row \<in> set (api_keys (db s))" "tenant_id ctx = ak_tenant_id row"
    "db s' = db s \<or> db s' = touch_key (ak_id row) ts (db s)"
proof -
  from assms obtain row s1 ts where "s' = snd (update_stmt k (touch_key (ak_id row) ts) s1)"
    "live_api_key (db s) hash = Some row" "db s1 = db s" "tenant_id ctx = ak_tenant_id row"
    by (fastforce simp: authenticate_api_key_def bindK_Inr seqK_Inr query_Inr require_tenant_active_Inr
        now_rfc3339_Inr roles_for_principal_def)
  then show thesis
    by (intro that [of row ts])
      (auto simp: live_api_key_def update_stmt_def stmt_def Let_def dest: find_Some_in)
qed

lemma authenticate_isolated:
  assumes "db_inv (db s)" "authenticate k token rid src s = (Inr ctx, s')"
  shows "isolated (tenant_id ctx) (db s) (db s')"
proof (cases "starts_with ''ldb_'' token")
  case True
  with assms(2) have "authenticate_api_key k (sha256_hex k token) rid src s = (Inr ctx, s')"
    by (simp add: authenticate_def)
  then obtain row ts where row: "row \<in> set (api_keys (db s))" "tenant_id ctx = ak_tenant_id row"
    "db s' = db s \<or> db s' = touch_key (ak_id row) ts (db s)"
    by (rule authenticate_api_key_row)
  have "ak_tenant_id x = ak_tenant_id row" if "x \<in> set (api_keys (db s))" "ak_id x = ak_id row" for x
    using uniq_eq [of ak_id "api_keys (db s)" x row] that row(1) assms(1) by (simp add: db_inv_defs)
  then have "others ak_tenant_id (tenant_id ctx) (api_keys (touch_key (ak_id row) ts (db s))) =
      others ak_tenant_id (tenant_id ctx) (api_keys (db s))"
    unfolding others_def touch_key_def row(2)
    by (auto simp: upd_where_def filter_map o_def if_distrib cong: if_cong intro!: map_idI)
  with row(3) show ?thesis by (auto simp: isolated_def touch_key_def)
next
  case False
  with assms(2) have "db s' = db s"
    using authenticate_session_Inr [of k token rid src s ctx s'] by (simp add: authenticate_def)
  then show ?thesis by simp
qed

end
