(* ===== verification/Guarantees.thy ===== *)
theory Guarantees
  imports System Sample
begin

text \<open>
  What the service guarantees to its tenants, whatever its clients send: the invariant holds in
  every reachable state, history is never rewritten, every change is logged, a request stays in
  the tenant of its credential, and without a credential nothing happens.
\<close>

section \<open>A server to run requests on\<close>

definition offline_engine :: ai_engine where
  "offline_engine =
     \<lparr>en_provider = offline_default, en_openai_built = False,
      en_post = (\<lambda>_ _ _ _. SendFailed ''offline''), en_pretty = (\<lambda>_. [])\<rparr>"

definition demo_app :: app_state where
  "demo_app = \<lparr>st_kernel = demo, st_ai = offline_engine, st_features = {}\<rparr>"

definition no_headers :: headers where
  "no_headers = \<lparr>hd_authorization = None, hd_request_id = None, hd_source = None\<rparr>"

definition with_token :: "string \<Rightarrow> headers" where
  "with_token token = no_headers\<lparr>hd_authorization := Some (''Bearer '' @ token)\<rparr>"

lemma demo_app_simps [simp]:
  "st_kernel demo_app = demo" "st_ai demo_app = offline_engine" "st_features demo_app = {}"
  by (simp_all add: demo_app_def)

lemma demo_headers [simp]:
  "bearer (h\<lparr>hd_request_id := x\<rparr>) = bearer h" "bearer no_headers = None"
  "hd_request_id (with_token token) = None" "hd_source (with_token token) = None"
  by (simp_all add: bearer_def with_token_def no_headers_def)

lemma demo_tokens [simp]:
  "bearer (with_token ''lds_b'') = Some ''lds_b''" "bearer (with_token ''ldb_07'') = Some ''ldb_07''"
  by code_simp+

definition empty_state :: kstate where
  "empty_state = \<lparr>db = empty_db, limiter = (\<lambda>_. None), tick = 0\<rparr>"

section \<open>All reachable states\<close>

text \<open>
  C5: In every state that requests, housekeeping and restarts lead to from an empty database, with
  any storage faults on the way: the primary keys and the unique columns of every table are unique,
  those of the audit log included; every row of a table that refers to a tenant by a foreign key
  belongs to a tenant there is, every session to a user, and every workspace and service account to
  an organization there is; every stored object type and workflow is valid; every
  approval names its record and target state; and no user is a platform administrator. The audit
  log, the event outbox and the usage counters name a tenant without a foreign key, and nothing is
  said of it: a failed login is logged under the slug that was asked for, which may be no tenant's.
\<close>

theorem reachable_consistent:
  assumes "reachable app s"
  shows "keys_unique (db s) \<and> distinct (map a_id (audit_logs (db s))) \<and> tenants_known (db s) \<and>
    definitions_valid (db s) \<and> approvals_targeted (db s) \<and> no_platform_admin (db s)"
  using reachable_inv [OF assms] reachable_log_ids [OF assms] by (simp add: db_inv_def)

definition first_bootstrap :: request where
  "first_bootstrap = Bootstrap \<lparr>bq_name = ''Acme'', bq_slug = ''acme'', bq_admin_email = ''a@acme.io'',
     bq_admin_name = ''Ann'', bq_admin_password = ''correct horse''\<rparr>"

lemma reachable_first: "reachable demo_app (snd (serve demo_app no_headers first_bootstrap empty_state))"
proof -
  have "reachable demo_app empty_state"
    by (rule boot) (simp_all add: empty_state_def)
  then show ?thesis
    by (rule next_step) (rule step.request, rule surjective_pairing)
qed

lemma first_strings:
  "to_lowercase ''acme'' = ''acme''" "validate_slug ''acme'' = Inr ()"
  "normalize_email ''a@acme.io'' = ''a@acme.io''" "validate_email ''a@acme.io'' = Inr ()"
  "validate_password_strength ''correct horse'' = Inr ()"
  by code_simp+

lemmas provision_defs = bootstrap_tenant_def provision_def resK_def retK_def hash_password_def
  insert_tenant_def insert_organization_def insert_system_role_def insert_role_def insert_user_def
  new_assignment_def insert_assignment_def first_tenant_def default_org_def first_admin_def
  system_ctx_def assignment_key_def

lemmas serve_defs = serve_def stamp_request_id_def replyK_def

lemma demo_bootstrap: "succeeds (serve demo_app no_headers first_bootstrap) empty_state"
  unfolding succeeds_def empty_state_def first_bootstrap_def
  by (simp add: demo_run serve_defs bootstrap_handler_def tenants_exist_def no_headers_def first_strings
      provision_defs empty_db_def cong: lazy)

lemma demo_first_tenant: "tenants (db (snd (serve demo_app no_headers first_bootstrap empty_state))) \<noteq> []"
  unfolding empty_state_def first_bootstrap_def
  by (simp add: demo_run serve_defs bootstrap_handler_def tenants_exist_def no_headers_def first_strings
      provision_defs empty_db_def cong: lazy)

theorem reachable_consistent_witness:
  "keys_unique (db (snd (serve demo_app no_headers first_bootstrap empty_state))) \<and>
   tenants_known (db (snd (serve demo_app no_headers first_bootstrap empty_state))) \<and>
   tenants (db (snd (serve demo_app no_headers first_bootstrap empty_state))) \<noteq> []"
  using reachable_consistent [OF reachable_first] demo_first_tenant by simp

text \<open>
  C4: Along any sequence of steps from a state that satisfies the invariant, the audit log only
  grows at its end, and an approval that has been decided stays exactly as it is.
\<close>

theorem history_preserved:
  assumes "db_inv (db s)" "(step app)\<^sup>*\<^sup>* s s'"
  shows "(\<exists>new. audit_logs (db s') = audit_logs (db s) @ new) \<and>
    (\<forall>a\<in>set (approvals (db s)). ap_status a \<noteq> ''pending'' \<longrightarrow> a \<in> set (approvals (db s')))"
proof -
  have "traced (db s) (db s')"
    using assms(2) by induction (auto intro: traced.frame_refl traced.frame_trans step_traced)
  with assms(1) show ?thesis
    by (auto simp: traced_def evolves_def appends_def decided_final_def)
qed

theorem history_preserved_witness:
  "\<exists>s' new. step demo_app demo_state s' \<and> audit_logs (db s') = audit_logs demo_db @ new"
proof -
  have 1: "step demo_app demo_state (snd (serve demo_app no_headers first_bootstrap demo_state))"
    by (rule step.request) (rule surjective_pairing)
  then have "(step demo_app)\<^sup>*\<^sup>* demo_state (snd (serve demo_app no_headers first_bootstrap demo_state))"
    by (rule r_into_rtranclp)
  from history_preserved [OF _ this] 1 show ?thesis by auto
qed

text \<open>
  C3: Every step that changes a tenant, an organization, an account, a role, an assignment, an API
  key (but for its last use), an object type, a draft, a record, a relation, a workflow, a task, an
  approval, a report or a dashboard has appended an event to the audit log that is not a mere
  permission denial, even when the step ends in an error.
\<close>

theorem changes_are_logged:
  assumes "db_inv (db s)" "step app s s'" "tracked (db s') \<noteq> tracked (db s)"
  shows "event_logged (db s) (db s')"
  using step_traced [OF assms(2)] assms(1,3) by (simp add: traced_def)

theorem changes_are_logged_witness:
  "\<exists>s'. step demo_app empty_state s' \<and> event_logged empty_db (db s')"
proof -
  obtain v s' where run: "serve demo_app no_headers first_bootstrap empty_state = (Inr v, s')"
    using demo_bootstrap by (rule succeedsE)
  then have 1: "step demo_app empty_state s'" by (rule step.request)
  from demo_first_tenant run have "tracked (db s') \<noteq> tracked empty_db"
    by (auto simp: tracked_def empty_db_def dest: arg_cong [where f = tenants])
  with changes_are_logged [OF _ 1] 1 show ?thesis by (auto simp: empty_state_def db_inv_empty)
qed

section \<open>One request\<close>

lemma serve_protected_Inr:
  assumes "serve app h (Protected req) s = (r, s')"
  obtains s1 h' where "serve_protected app h' req s1 = (r, s')" "db s1 = db s" "bearer h' = bearer h"
proof -
  obtain h' s1 where 1: "stamp_request_id (st_kernel app) h s = (Inr h', s1)" "db s1 = db s"
    "bearer h' = bearer h"
    by (cases "hd_request_id h")
      (force simp: stamp_request_id_def bindK_def retK_def new_id_def bearer_def split: if_splits)+
  with assms have "serve_protected app h' req s1 = (r, s')" by (simp add: serve_def bindK_def)
  from that [OF this 1(2,3)] show thesis .
qed

lemma extract_auth_Inr:
  assumes "extract_auth app h s = (Inr ctx, s')"
  obtains token rid s1 s2 where "bearer h = Some token" "db s1 = db s"
    "authenticate (st_kernel app) token rid (detect_source h) s1 = (Inr ctx, s2)"
    "s' = snd (meter_api_call (st_kernel app) ctx s2)"
proof -
  from assms obtain token rid s1 s2 where
    "authenticate (st_kernel app) token rid (detect_source h) s1 = (Inr ctx, s2)"
    "bearer h = Some token" "db s1 = db s" "meter_api_call (st_kernel app) ctx s2 = (Inr (), s')"
    by (fastforce simp: extract_auth_def bindK_Inr seqK_Inr new_id_Inr split: option.splits)
  then show thesis by (intro that [of token s1 rid s2]) auto
qed

text \<open>Who a token speaks for: the principal of a live credential.\<close>

definition speaks_for :: "kernel \<Rightarrow> database \<Rightarrow> string \<Rightarrow> auth_context \<Rightarrow> bool" where
  "speaks_for k d token ctx \<longleftrightarrow>
     backed_by_key k d token ctx \<or> (\<exists>clock. backed_by_session k d clock token ctx)"

lemma authenticate_speaks_for:
  "authenticate k token rid src s = (Inr ctx, s') \<Longrightarrow> speaks_for k (db s) token ctx"
  by (drule authenticate_Inr) (auto simp: speaks_for_def split: if_splits)

lemma speaks_for_ordinary:
  "no_platform_admin d \<Longrightarrow> speaks_for k d token ctx \<Longrightarrow> \<not> is_platform_admin ctx \<and> \<not> is_system ctx"
  by (auto simp: speaks_for_def backed_by_key_def backed_by_session_def no_platform_admin_def is_system_def)

text \<open>
  C1: A protected request either changes nothing and fails, or its bearer token speaks for a
  principal of a live credential, and then only rows of the tenant of that principal are added,
  changed or removed, in every table, whether it succeeds or fails.
\<close>

theorem requests_stay_in_tenant:
  assumes "db_inv (db s)" "serve app h (Protected req) s = (r, s')"
  shows "db s' = db s \<and> (\<exists>e. r = Inl e) \<or>
    (\<exists>token ctx. bearer h = Some token \<and> speaks_for (st_kernel app) (db s) token ctx \<and>
       isolated (tenant_id ctx) (db s) (db s'))"
proof -
  obtain s1 h' where 1: "serve_protected app h' req s1 = (r, s')" "db s1 = db s" "bearer h' = bearer h"
    using assms(2) by (rule serve_protected_Inr)
  obtain q s2 where x: "extract_auth app h' s1 = (q, s2)" by force
  show ?thesis
  proof (cases q)
    case (Inl e)
    with x 1 show ?thesis by (auto simp: serve_protected_def bindK_def dest: extract_refused)
  next
    case (Inr ctx)
    with x obtain token rid s0 s3 where b: "bearer h' = Some token" "db s0 = db s1"
      and a: "authenticate (st_kernel app) token rid (detect_source h') s0 = (Inr ctx, s3)"
      and m: "s2 = snd (meter_api_call (st_kernel app) ctx s3)"
      by (auto elim: extract_auth_Inr)
    from a have f: "speaks_for (st_kernel app) (db s) token ctx"
      using authenticate_speaks_for b(2) 1(2) by metis
    have "isolated (tenant_id ctx) (db s) (db s3)"
      using authenticate_isolated [OF _ a] assms(1) b(2) 1(2) by simp
    also have "isolated (tenant_id ctx) (db s3) (db s2)"
      using keeps_isolated_meter unfolding keeps_def m by blast
    finally (isolated.frame_trans) have i: "isolated (tenant_id ctx) (db s) (db s2)" .
    from 1 x Inr have "handle app ctx req s2 = (r, s')" by (simp add: serve_protected_def bindK_def)
    then have "confined ctx (db s2) (db s')"
      by (rule keepsD [OF confined.keeps_handle [OF refl]])
    moreover have "\<not> is_platform_admin ctx \<and> \<not> is_system ctx"
      by (rule speaks_for_ordinary [OF _ f]) (use assms(1) in \<open>simp add: db_inv_def\<close>)
    ultimately have "isolated (tenant_id ctx) (db s2) (db s')" by (simp add: confined_def)
    with i have "isolated (tenant_id ctx) (db s) (db s')" by (rule isolated.frame_trans)
    with f b(1) 1(3) show ?thesis by auto
  qed
qed

theorem requests_stay_in_tenant_witness:
  "\<exists>v s'. serve demo_app (with_token ''lds_b'') (Protected (Tenancy Me)) demo_state = (Inr v, s') \<and>
     (\<exists>ctx. speaks_for demo demo_db ''lds_b'' ctx \<and> isolated (tenant_id ctx) demo_db (db s'))"
proof -
  have "succeeds (serve demo_app (with_token ''lds_b'') (Protected (Tenancy Me))) demo_state"
    unfolding succeeds_def
    by (simp add: demo_run token_defs serve_protected_def extract_auth_def detect_source_def serve_defs
        meter_api_call_def record_usage_def current_period_def bump_meter_def retK_def cong: lazy)
  then obtain v s' where run:
    "serve demo_app (with_token ''lds_b'') (Protected (Tenancy Me)) demo_state = (Inr v, s')"
    by (rule succeedsE)
  from requests_stay_in_tenant [OF _ run] run show ?thesis by (auto simp: demo_tokens)
qed

text \<open>
  C33: Without storage faults, a protected request whose bearer token is missing or is the hash of
  neither a session that has not been revoked nor an active API key is answered with the status
  401, and the database is as before.
\<close>

theorem no_credential_no_service:
  assumes "reliable (st_kernel app)"
    and "\<And>token. bearer h = Some token \<Longrightarrow>
      live_session (db s) (sha256_hex (st_kernel app) token) = None \<and>
      live_api_key (db s) (sha256_hex (st_kernel app) token) = None"
  shows "status_of (fst (serve app h (Protected req) s)) = Some 401 \<and>
    db (snd (serve app h (Protected req) s)) = db s"
proof -
  obtain r s' where run: "serve app h (Protected req) s = (r, s')" by force
  then obtain s1 h' where 1: "serve_protected app h' req s1 = (r, s')" "db s1 = db s"
    "bearer h' = bearer h"
    by (rule serve_protected_Inr)
  have a: "\<exists>s3. authenticate (st_kernel app) token rid src s2 = (Inl (unauthorized msg), s3)"
    if "bearer h = Some token" "db s2 = db s"
      "msg = (if starts_with ''ldb_'' token then ''invalid api key'' else ''invalid or expired session'')"
    for token rid src s2 msg
    using assms(2) [OF that(1)] that(2,3) assms(1)
    by (auto simp: authenticate_def authenticate_api_key_def authenticate_session_def bindK_def
        query_def stmt_def someK_def failK_def Let_def)
  have "\<exists>msg s2. extract_auth app h' s1 = (Inl (unauthorized msg), s2)"
  proof (cases "bearer h")
    case None
    with 1(3) show ?thesis by (auto simp: extract_auth_def bindK_def someK_def failK_def)
  next
    case (Some token)
    obtain rid s2 where 2: "(case hd_request_id h' of Some v \<Rightarrow> retK v | None \<Rightarrow> new_id (st_kernel app)) s1
        = (Inr rid, s2)" "db s2 = db s"
      using 1(2) by (cases "hd_request_id h'") (auto simp: retK_def new_id_def)
    obtain s3 where 3: "authenticate (st_kernel app) token rid (detect_source h') s2 = (Inl (unauthorized
        (if starts_with ''ldb_'' token then ''invalid api key'' else ''invalid or expired session'')), s3)"
      using a [OF Some 2(2) refl] by blast
    have go: "bindK (someK e (Some token)) f s1 = f token s1"
      "bindK (case hd_request_id h' of Some v \<Rightarrow> retK v | None \<Rightarrow> new_id (st_kernel app)) g s1 = g rid s2"
      "bindK (authenticate (st_kernel app) token rid (detect_source h')) g' s2 = (Inl (unauthorized
        (if starts_with ''ldb_'' token then ''invalid api key'' else ''invalid or expired session'')), s3)"
      for e and f :: "string \<Rightarrow> auth_context kern" and g g'
      using 2(1) 3 by (simp_all add: bindK_def someK_def retK_def)
    show ?thesis unfolding extract_auth_def 1(3) Some go by blast
  qed
  then obtain msg s2 where x: "extract_auth app h' s1 = (Inl (unauthorized msg), s2)" by blast
  with 1(1) have "r = Inl (unauthorized msg)" "s' = s2" by (auto simp: serve_protected_def bindK_def)
  with extract_refused [OF x] 1(2) run show ?thesis
    by (simp add: status_of_def unauthorized_def new_error_def)
qed

theorem no_credential_no_service_witness:
  "status_of (fst (serve demo_app no_headers (Protected (Tenancy Me)) demo_state)) = Some 401 \<and>
   status_of (fst (serve demo_app (with_token ''ldb_07'') (Protected (Tenancy Me)) demo_state)) = Some 401"
  using no_credential_no_service [of demo_app no_headers demo_state "Tenancy Me"]
    no_credential_no_service [of demo_app "with_token ''ldb_07''" demo_state "Tenancy Me"]
  by (simp add: demo_run live_session_def live_api_key_def)

section \<open>The platform administrator\<close>

lemma authenticate_ordinary:
  "no_platform_admin (db s) \<Longrightarrow> authenticate k token rid src s = (Inr ctx, s') \<Longrightarrow>
     \<not> is_platform_admin ctx \<and> \<not> is_system ctx"
  by (rule speaks_for_ordinary, assumption, rule authenticate_speaks_for)

lemma serve_bootstrap_Inr:
  assumes "no_platform_admin (db s)" "serve app h (Bootstrap req) s = (Inr v, s')"
  obtains res s1 where "tenants (db s) = []" "db s1 = db s" "v = ReBootstrap res"
    "bootstrap_tenant (st_kernel app) (bq_name req) (bq_slug req) (bq_admin_email req)
       (bq_admin_name req) (bq_admin_password req) s1 = (Inr res, s')"
proof -
  from assms(2) obtain h' s0 res s1 where stamp: "stamp_request_id (st_kernel app) h s = (Inr h', s0)"
    and run: "bootstrap_handler app h' req s0 = (Inr res, s')" "v = ReBootstrap res"
    by (auto simp: serve_def replyK_def bindK_Inr)
  have d: "db s0 = db s"
    using stamp by (auto simp: stamp_request_id_def bindK_def retK_def new_id_def
        split: option.splits if_splits)
  from run(1) obtain s2 s3 where
    g: "(if tenants (db s) \<noteq> [] then
           bindK (someK (unauthorized ''missing bearer token'') (bearer h')) (\<lambda>token.
           bindK (new_id (st_kernel app)) (\<lambda>rid.
           bindK (authenticate (st_kernel app) token rid SrcApi) (\<lambda>ctx.
           guardK (is_platform_admin ctx) (forbidden ''platform admin required''))))
         else retK ()) s2 = (Inr (), s3)" and 2: "db s2 = db s" and
    b: "bootstrap_tenant (st_kernel app) (bq_name req) (bq_slug req) (bq_admin_email req)
       (bq_admin_name req) (bq_admin_password req) s3 = (Inr res, s')"
    unfolding bootstrap_handler_def tenants_exist_def bindK_Inr [of "query k q" for k q] query_Inr seqK_Inr
    using d by fastforce
  have "tenants (db s) = []"
  proof (rule ccontr)
    assume "tenants (db s) \<noteq> []"
    with g obtain token rid s5 ctx where
      "authenticate (st_kernel app) token rid SrcApi (s2\<lparr>tick := Suc (tick s2)\<rparr>) = (Inr ctx, s5)"
      "is_platform_admin ctx"
      by (auto simp: bindK_Inr new_id_Inr)
    with assms(1) 2 show False by (auto dest: authenticate_ordinary [rotated])
  qed
  with g 2 b run(2) show thesis by (intro that [of s3 res]) auto
qed

lemma serve_handle_Inr:
  assumes "no_platform_admin (db s)" "serve app h (Protected req) s = (Inr v, s')"
  obtains ctx s1 where "handle app ctx req s1 = (Inr v, s')" "\<not> is_platform_admin ctx \<and> \<not> is_system ctx"
proof -
  obtain s1 h' where 1: "serve_protected app h' req s1 = (Inr v, s')" "db s1 = db s"
    using assms(2) by (rule serve_protected_Inr)
  then obtain ctx s2 where x: "extract_auth app h' s1 = (Inr ctx, s2)" "handle app ctx req s2 = (Inr v, s')"
    by (auto simp: serve_protected_def bindK_Inr)
  from x(1) obtain token rid s0 s3 where "db s0 = db s1"
    "authenticate (st_kernel app) token rid (detect_source h') s0 = (Inr ctx, s3)"
    by (rule extract_auth_Inr)
  with 1(2) assms(1) have "\<not> is_platform_admin ctx \<and> \<not> is_system ctx"
    by (auto dest: authenticate_ordinary [rotated])
  with x(2) that show thesis by blast
qed

text \<open>
  C34: The operations of the platform administrator are out of reach. In every state that requests,
  housekeeping and restarts lead to from an empty database no user is one, and no further request,
  whatever it asks for, makes a user one; so once a tenant exists no bootstrap succeeds, whatever
  the token, and neither the list of tenants nor the change of a tenant's status is ever served.
\<close>

theorem platform_operations_unreachable:
  assumes "reachable app s" "tenants (db s) \<noteq> []"
  shows "no_platform_admin (db s) \<and> no_platform_admin (db (snd (serve app h' req s))) \<and>
    fst (serve app h (Bootstrap breq) s) \<noteq> Inr v \<and>
    fst (serve app h (Protected (Tenancy List_tenants)) s) \<noteq> Inr v \<and>
    fst (serve app h (Protected (Tenancy (Set_tenant_status tid status))) s) \<noteq> Inr v"
proof -
  have n: "no_platform_admin (db s)"
    using reachable_inv [OF assms(1)] by (simp add: db_inv_def)
  have "reachable app (snd (serve app h' req s))"
    by (rule next_step [OF assms(1)]) (rule step.request, rule surjective_pairing)
  then have n': "no_platform_admin (db (snd (serve app h' req s)))"
    using reachable_inv by (simp add: db_inv_def)
  have "serve app h (Bootstrap breq) s \<noteq> (Inr v, s')" for s'
    using assms(2) by (auto elim: serve_bootstrap_Inr [OF n])
  moreover have "serve app h (Protected (Tenancy List_tenants)) s \<noteq> (Inr v, s')" for s'
    by (auto elim!: serve_handle_Inr [OF n]
        simp: replyK_def bindK_Inr seqK_Inr list_tenants_handler_def list_tenants_def)
  moreover have "serve app h (Protected (Tenancy (Set_tenant_status tid status))) s \<noteq> (Inr v, s')" for s'
    by (auto elim!: serve_handle_Inr [OF n]
        simp: replyK_def bindK_Inr seqK_Inr set_tenant_status_handler_def set_tenant_status_def)
  ultimately show ?thesis using n n' by (metis prod.collapse)
qed

theorem platform_operations_unreachable_witness:
  "\<exists>s. reachable demo_app s \<and> tenants (db s) \<noteq> [] \<and> no_platform_admin (db s) \<and>
     \<not> (\<exists>v. fst (serve demo_app no_headers first_bootstrap s) = Inr v)"
  using platform_operations_unreachable [OF reachable_first demo_first_tenant, of no_headers Healthz]
    reachable_first demo_first_tenant unfolding first_bootstrap_def by blast

text \<open>
  A bootstrap succeeds only on an installation without tenants; it then creates the tenant with
  the requested slug and an administrator whose roles allow every action on every resource of that
  tenant, and writes no row of another tenant.
\<close>

theorem bootstrap_gives_admin:
  assumes "db_inv (db s)" "serve app h (Bootstrap req) s = (Inr v, s')"
  shows "tenants (db s) = [] \<and> (\<exists>res. v = ReBootstrap res \<and> bs_tenant res \<in> set (tenants (db s')) \<and>
    isolated (tn_id (bs_tenant res)) (db s) (db s') \<and>
    (\<forall>ctx act resource target. tenant_id ctx = tn_id (bs_tenant res) \<and>
       role_keys ctx = role_keys_of (db s') (tn_id (bs_tenant res)) (bs_admin_user_id res) \<longrightarrow>
       allowed (st_kernel app) (db s') ctx act resource target))"
proof -
  have n: "no_platform_admin (db s)" using assms(1) by (simp add: db_inv_def)
  from assms(2) obtain res s1 where 1: "tenants (db s) = []" "db s1 = db s" "v = ReBootstrap res"
    "bootstrap_tenant (st_kernel app) (bq_name req) (bq_slug req) (bq_admin_email req)
       (bq_admin_name req) (bq_admin_password req) s1 = (Inr res, s')"
    by (rule serve_bootstrap_Inr [OF n])
  from 1(4) obtain tid where t: "tn_id (bs_tenant res) = tid" "bs_tenant res \<in> set (tenants (db s'))"
    "\<exists>rid ts. \<lparr>ro_tenant_id = tid, ro_role = (hd system_roles)\<lparr>role_id := rid\<rparr>, ro_created_at = ts\<rparr>
        \<in> set (roles (db s'))"
    "''tenant_admin'' \<in> set (role_keys_of (db s') tid (bs_admin_user_id res))"
    "isolated tid (db s1) (db s')"
    by (rule bootstrap_tenant_Inr)
  from t(3) obtain rid ts where "\<lparr>ro_tenant_id = tid, ro_role = (hd system_roles)\<lparr>role_id := rid\<rparr>,
      ro_created_at = ts\<rparr> \<in> set (roles (db s'))" by blast
  then have "allowed (st_kernel app) (db s') ctx act resource target"
    if "tenant_id ctx = tid" "role_keys ctx = role_keys_of (db s') tid (bs_admin_user_id res)"
    for ctx act resource target
    by (rule tenant_admin_allows) (simp_all add: that t(4))
  with 1 t show ?thesis by auto
qed

theorem bootstrap_gives_admin_witness:
  "\<exists>res s'. serve demo_app no_headers first_bootstrap empty_state = (Inr (ReBootstrap res), s') \<and>
     bs_tenant res \<in> set (tenants (db s')) \<and>
     (\<exists>ctx. actor_id ctx = bs_admin_user_id res \<and> allowed demo (db s') ctx Manage ''admin:users'' None)"
proof -
  obtain v s' where run: "serve demo_app no_headers first_bootstrap empty_state = (Inr v, s')"
    using demo_bootstrap by (rule succeedsE)
  have "db_inv (db empty_state)" by (simp add: empty_state_def db_inv_empty)
  from bootstrap_gives_admin [OF this run [unfolded first_bootstrap_def]] obtain res where
    v: "v = ReBootstrap res" "bs_tenant res \<in> set (tenants (db s'))" and
    a: "\<And>ctx act resource target. tenant_id ctx = tn_id (bs_tenant res) \<Longrightarrow>
       role_keys ctx = role_keys_of (db s') (tn_id (bs_tenant res)) (bs_admin_user_id res) \<Longrightarrow>
       allowed demo (db s') ctx act resource target"
    by auto
  let ?ctx = "ann\<lparr>actor_id := bs_admin_user_id res, tenant_id := tn_id (bs_tenant res),
      role_keys := role_keys_of (db s') (tn_id (bs_tenant res)) (bs_admin_user_id res)\<rparr>"
  have "allowed demo (db s') ?ctx Manage ''admin:users'' None" by (rule a) simp_all
  with run v show ?thesis by (intro exI [of _ res] exI [of _ s'] conjI exI [of _ ?ctx]) simp_all
qed

end
