(* ===== verification/Routes.thy ===== *)
theory Routes
  imports Api
begin

text \<open>
  The routing table (\<open>router\<close> of \<open>api/src/app.rs\<close>): the paths, the methods and the names of the
  handlers, and which entry serves which request of the model. The matching of a path against the
  patterns is axum's; the property here is that no path can match two of them, so that no rule of
  precedence is needed, and that the model has exactly the requests the table routes.
\<close>

section \<open>The table\<close>

datatype http_method = GET | POST | PUT | PATCH | DELETE

type_synonym endpoint = "http_method \<times> string \<times> string"

definition routes :: "(string \<times> (http_method \<times> string) list) list" where
  "routes =
     [(''/healthz'', [(GET, ''healthz'')]),
      (''/readyz'', [(GET, ''readyz'')]),
      (''/v1/auth/login'', [(POST, ''login'')]),
      (''/v1/auth/logout'', [(POST, ''logout'')]),
      (''/v1/auth/me'', [(GET, ''me'')]),
      (''/v1/bootstrap'', [(POST, ''bootstrap'')]),
      (''/v1/tenant'', [(GET, ''get_tenant'')]),
      (''/v1/tenants'', [(GET, ''list_tenants'')]),
      (''/v1/tenants/:id/status'', [(POST, ''set_tenant_status'')]),
      (''/v1/organizations'', [(GET, ''list_orgs'')]),
      (''/v1/usage'', [(GET, ''get_usage'')]),
      (''/v1/users'', [(GET, ''list_users''), (POST, ''create_user'')]),
      (''/v1/users/:id'', [(GET, ''get_user'')]),
      (''/v1/users/:id/status'', [(POST, ''set_user_status'')]),
      (''/v1/roles'', [(GET, ''list_roles''), (POST, ''create_role'')]),
      (''/v1/api-keys'', [(POST, ''create_api_key'')]),
      (''/v1/builder/drafts'', [(GET, ''list_builder_drafts''), (POST, ''save_builder_draft'')]),
      (''/v1/builder/drafts/:id'', [(GET, ''get_builder_draft'')]),
      (''/v1/builder/drafts/:id/validate'', [(POST, ''validate_builder_draft'')]),
      (''/v1/builder/drafts/:id/publish-preview'', [(GET, ''builder_publish_preview'')]),
      (''/v1/builder/drafts/:id/publish'', [(POST, ''publish_builder_draft'')]),
      (''/v1/builder/templates'', [(GET, ''list_builder_templates'')]),
      (''/v1/builder/templates/install'', [(POST, ''install_builder_template'')]),
      (''/v1/migration'', [(GET, ''get_migration'')]),
      (''/v1/migration/start'', [(POST, ''start_migration'')]),
      (''/v1/migration/select'', [(POST, ''select_target_system'')]),
      (''/v1/migration/active'', [(POST, ''set_active_system'')]),
      (''/v1/migration/plan'', [(GET, ''plan_migration'')]),
      (''/v1/migration/report'', [(GET, ''migration_report'')]),
      (''/v1/object-types'', [(GET, ''list_object_types''), (POST, ''create_object_type'')]),
      (''/v1/object-types/:key'', [(GET, ''get_object_type''), (PUT, ''update_object_type'')]),
      (''/v1/object-types/:key/records'', [(GET, ''list_records''), (POST, ''create_record'')]),
      (''/v1/records/:id'', [(GET, ''get_record''), (PATCH, ''update_record''), (DELETE, ''archive_record'')]),
      (''/v1/records/:id/restore'', [(POST, ''restore_record'')]),
      (''/v1/records/:id/relations'', [(GET, ''get_relations''), (POST, ''create_relation'')]),
      (''/v1/records/:id/transitions'', [(GET, ''list_transitions''), (POST, ''do_transition'')]),
      (''/v1/workflows'', [(GET, ''list_workflows''), (POST, ''create_workflow'')]),
      (''/v1/workflows/:key'', [(GET, ''get_workflow'')]),
      (''/v1/tasks'', [(GET, ''list_tasks''), (POST, ''create_task'')]),
      (''/v1/tasks/:id/complete'', [(POST, ''complete_task'')]),
      (''/v1/approvals'', [(GET, ''list_approvals'')]),
      (''/v1/approvals/:id'', [(GET, ''get_approval'')]),
      (''/v1/approvals/:id/decide'', [(POST, ''decide_approval'')]),
      (''/v1/audit'', [(GET, ''query_audit'')]),
      (''/v1/reports'', [(GET, ''list_reports''), (POST, ''save_report'')]),
      (''/v1/reports/run'', [(POST, ''run_report_adhoc'')]),
      (''/v1/reports/:key/run'', [(GET, ''run_report'')]),
      (''/v1/dashboards'', [(GET, ''list_dashboards''), (POST, ''save_dashboard'')]),
      (''/v1/dashboards/:key'', [(GET, ''get_dashboard'')]),
      (''/v1/ai/ask'', [(POST, ''ai_ask'')]),
      (''/v1/ai/capabilities'', [(GET, ''ai_capabilities'')]),
      (''/v1/ai/bi/ask'', [(POST, ''ai_bi_ask'')]),
      (''/v1/ai/records/:id/summary'', [(POST, ''ai_summarize'')]),
      (''/v1/ai/agents/finance/cashflow-risk'', [(POST, ''ai_finance'')]),
      (''/v1/ai/agents/procurement/low-stock'', [(POST, ''ai_procurement'')]),
      (''/v1/ai/agents/sales/deal-risk'', [(POST, ''ai_sales'')]),
      (''/v1/ai/actions/dry-run'', [(POST, ''ai_dry_run'')]),
      (''/v1/ai/actions/execute'', [(POST, ''ai_execute'')]),
      (''/v1/accel/status'', [(GET, ''accel_status'')])]"

definition endpoints :: "endpoint list" where
  "endpoints = concat (map (\<lambda>(path, ms). map (\<lambda>(m, handler). (m, path, handler)) ms) routes)"

section \<open>The requests\<close>

fun endpoint_tenancy :: "tenancy_request \<Rightarrow> endpoint" where
  "endpoint_tenancy Me = (GET, ''/v1/auth/me'', ''me'')"
| "endpoint_tenancy Get_tenant = (GET, ''/v1/tenant'', ''get_tenant'')"
| "endpoint_tenancy List_tenants = (GET, ''/v1/tenants'', ''list_tenants'')"
| "endpoint_tenancy (Set_tenant_status a b) = (POST, ''/v1/tenants/:id/status'', ''set_tenant_status'')"
| "endpoint_tenancy List_orgs = (GET, ''/v1/organizations'', ''list_orgs'')"
| "endpoint_tenancy Get_usage = (GET, ''/v1/usage'', ''get_usage'')"

fun endpoint_identity :: "identity_request \<Rightarrow> endpoint" where
  "endpoint_identity List_users = (GET, ''/v1/users'', ''list_users'')"
| "endpoint_identity (Create_user a) = (POST, ''/v1/users'', ''create_user'')"
| "endpoint_identity (Get_user a) = (GET, ''/v1/users/:id'', ''get_user'')"
| "endpoint_identity (Set_user_status a b) = (POST, ''/v1/users/:id/status'', ''set_user_status'')"
| "endpoint_identity List_roles = (GET, ''/v1/roles'', ''list_roles'')"
| "endpoint_identity (Create_role a) = (POST, ''/v1/roles'', ''create_role'')"
| "endpoint_identity (Create_api_key a) = (POST, ''/v1/api-keys'', ''create_api_key'')"

fun endpoint_builder :: "builder_request \<Rightarrow> endpoint" where
  "endpoint_builder List_drafts = (GET, ''/v1/builder/drafts'', ''list_builder_drafts'')"
| "endpoint_builder (Save_draft a) = (POST, ''/v1/builder/drafts'', ''save_builder_draft'')"
| "endpoint_builder (Get_draft a) = (GET, ''/v1/builder/drafts/:id'', ''get_builder_draft'')"
| "endpoint_builder (Validate_draft a) = (POST, ''/v1/builder/drafts/:id/validate'', ''validate_builder_draft'')"
| "endpoint_builder (Publish_preview a) = (GET, ''/v1/builder/drafts/:id/publish-preview'', ''builder_publish_preview'')"
| "endpoint_builder (Publish_draft a b) = (POST, ''/v1/builder/drafts/:id/publish'', ''publish_builder_draft'')"
| "endpoint_builder List_templates = (GET, ''/v1/builder/templates'', ''list_builder_templates'')"
| "endpoint_builder (Install_template a) = (POST, ''/v1/builder/templates/install'', ''install_builder_template'')"

fun endpoint_migration :: "migration_request \<Rightarrow> endpoint" where
  "endpoint_migration Get_migration = (GET, ''/v1/migration'', ''get_migration'')"
| "endpoint_migration (Start_migration a) = (POST, ''/v1/migration/start'', ''start_migration'')"
| "endpoint_migration (Select_target a) = (POST, ''/v1/migration/select'', ''select_target_system'')"
| "endpoint_migration (Set_active a) = (POST, ''/v1/migration/active'', ''set_active_system'')"
| "endpoint_migration Plan_migration = (GET, ''/v1/migration/plan'', ''plan_migration'')"
| "endpoint_migration (Get_report a) = (GET, ''/v1/migration/report'', ''migration_report'')"

fun endpoint_schema :: "schema_request \<Rightarrow> endpoint" where
  "endpoint_schema List_object_types = (GET, ''/v1/object-types'', ''list_object_types'')"
| "endpoint_schema (Create_object_type a) = (POST, ''/v1/object-types'', ''create_object_type'')"
| "endpoint_schema (Get_object_type a) = (GET, ''/v1/object-types/:key'', ''get_object_type'')"
| "endpoint_schema (Update_object_type a b) = (PUT, ''/v1/object-types/:key'', ''update_object_type'')"
| "endpoint_schema List_workflows = (GET, ''/v1/workflows'', ''list_workflows'')"
| "endpoint_schema (Create_workflow a) = (POST, ''/v1/workflows'', ''create_workflow'')"
| "endpoint_schema (Get_workflow a) = (GET, ''/v1/workflows/:key'', ''get_workflow'')"

fun endpoint_record :: "record_request \<Rightarrow> endpoint" where
  "endpoint_record (List_records a b) = (GET, ''/v1/object-types/:key/records'', ''list_records'')"
| "endpoint_record (Create_record a b) = (POST, ''/v1/object-types/:key/records'', ''create_record'')"
| "endpoint_record (Get_record a) = (GET, ''/v1/records/:id'', ''get_record'')"
| "endpoint_record (Update_record a b) = (PATCH, ''/v1/records/:id'', ''update_record'')"
| "endpoint_record (Archive_record a) = (DELETE, ''/v1/records/:id'', ''archive_record'')"
| "endpoint_record (Restore_record a) = (POST, ''/v1/records/:id/restore'', ''restore_record'')"
| "endpoint_record (Get_relations a) = (GET, ''/v1/records/:id/relations'', ''get_relations'')"
| "endpoint_record (Create_relation a b c) = (POST, ''/v1/records/:id/relations'', ''create_relation'')"
| "endpoint_record (List_transitions a) = (GET, ''/v1/records/:id/transitions'', ''list_transitions'')"
| "endpoint_record (Do_transition a b) = (POST, ''/v1/records/:id/transitions'', ''do_transition'')"

fun endpoint_flow :: "flow_request \<Rightarrow> endpoint" where
  "endpoint_flow (List_tasks a) = (GET, ''/v1/tasks'', ''list_tasks'')"
| "endpoint_flow (Create_task a) = (POST, ''/v1/tasks'', ''create_task'')"
| "endpoint_flow (Complete_task a b) = (POST, ''/v1/tasks/:id/complete'', ''complete_task'')"
| "endpoint_flow List_approvals = (GET, ''/v1/approvals'', ''list_approvals'')"
| "endpoint_flow (Get_approval a) = (GET, ''/v1/approvals/:id'', ''get_approval'')"
| "endpoint_flow (Decide_approval a b) = (POST, ''/v1/approvals/:id/decide'', ''decide_approval'')"
| "endpoint_flow (Query_audit a) = (GET, ''/v1/audit'', ''query_audit'')"

fun endpoint_insight :: "insight_request \<Rightarrow> endpoint" where
  "endpoint_insight List_reports = (GET, ''/v1/reports'', ''list_reports'')"
| "endpoint_insight (Save_report a) = (POST, ''/v1/reports'', ''save_report'')"
| "endpoint_insight (Run_adhoc a) = (POST, ''/v1/reports/run'', ''run_report_adhoc'')"
| "endpoint_insight (Run_report a) = (GET, ''/v1/reports/:key/run'', ''run_report'')"
| "endpoint_insight List_dashboards = (GET, ''/v1/dashboards'', ''list_dashboards'')"
| "endpoint_insight (Save_dashboard a) = (POST, ''/v1/dashboards'', ''save_dashboard'')"
| "endpoint_insight (Get_dashboard a) = (GET, ''/v1/dashboards/:key'', ''get_dashboard'')"

fun endpoint_ai :: "ai_request \<Rightarrow> endpoint" where
  "endpoint_ai (Ai_ask a) = (POST, ''/v1/ai/ask'', ''ai_ask'')"
| "endpoint_ai Ai_capabilities = (GET, ''/v1/ai/capabilities'', ''ai_capabilities'')"
| "endpoint_ai (Ai_bi_ask a) = (POST, ''/v1/ai/bi/ask'', ''ai_bi_ask'')"
| "endpoint_ai (Ai_summarize a) = (POST, ''/v1/ai/records/:id/summary'', ''ai_summarize'')"
| "endpoint_ai Ai_finance = (POST, ''/v1/ai/agents/finance/cashflow-risk'', ''ai_finance'')"
| "endpoint_ai Ai_procurement = (POST, ''/v1/ai/agents/procurement/low-stock'', ''ai_procurement'')"
| "endpoint_ai Ai_sales = (POST, ''/v1/ai/agents/sales/deal-risk'', ''ai_sales'')"
| "endpoint_ai (Ai_dry_run a) = (POST, ''/v1/ai/actions/dry-run'', ''ai_dry_run'')"
| "endpoint_ai (Ai_execute a) = (POST, ''/v1/ai/actions/execute'', ''ai_execute'')"
| "endpoint_ai Accel_status = (GET, ''/v1/accel/status'', ''accel_status'')"

fun endpoint_protected :: "protected_request \<Rightarrow> endpoint" where
  "endpoint_protected (Tenancy req) = endpoint_tenancy req"
| "endpoint_protected (Identity req) = endpoint_identity req"
| "endpoint_protected (Builder req) = endpoint_builder req"
| "endpoint_protected (Migration req) = endpoint_migration req"
| "endpoint_protected (Schema req) = endpoint_schema req"
| "endpoint_protected (Record req) = endpoint_record req"
| "endpoint_protected (Flow req) = endpoint_flow req"
| "endpoint_protected (Insight req) = endpoint_insight req"
| "endpoint_protected (Ai req) = endpoint_ai req"

fun endpoint_of :: "request \<Rightarrow> endpoint" where
  "endpoint_of Healthz = (GET, ''/healthz'', ''healthz'')"
| "endpoint_of Readyz = (GET, ''/readyz'', ''readyz'')"
| "endpoint_of (Login b) = (POST, ''/v1/auth/login'', ''login'')"
| "endpoint_of Logout = (POST, ''/v1/auth/logout'', ''logout'')"
| "endpoint_of (Bootstrap b) = (POST, ''/v1/bootstrap'', ''bootstrap'')"
| "endpoint_of (Protected req) = endpoint_protected req"

section \<open>Patterns\<close>

text \<open>
  A pattern is a list of segments, of which those with a colon match anything. Two patterns overlap
  when some path matches both.
\<close>

fun segments :: "string \<Rightarrow> string list" where
  "segments [] = [[]]"
| "segments (c # cs) =
     (case segments cs of
        seg # segs \<Rightarrow> if c = CHR ''/'' then [] # seg # segs else (c # seg) # segs
      | [] \<Rightarrow> [[c]])"

definition is_param :: "string \<Rightarrow> bool" where
  "is_param seg \<longleftrightarrow> (case seg of c # _ \<Rightarrow> c = CHR '':'' | [] \<Rightarrow> False)"

definition matches_pattern :: "string list \<Rightarrow> string list \<Rightarrow> bool" where
  "matches_pattern pat path \<longleftrightarrow> list_all2 (\<lambda>p seg. is_param p \<or> p = seg) pat path"

definition overlap :: "string list \<Rightarrow> string list \<Rightarrow> bool" where
  "overlap p q \<longleftrightarrow> list_all2 (\<lambda>a b. is_param a \<or> is_param b \<or> a = b) p q"

lemma matches_overlap: "matches_pattern p path \<Longrightarrow> matches_pattern q path \<Longrightarrow> overlap p q"
  by (simp add: matches_pattern_def overlap_def list_all2_conv_all_nth) metis

definition patterns :: "string list list" where
  "patterns = map (\<lambda>r. segments (fst r)) routes"

lemma overlap_sym: "overlap p q \<Longrightarrow> overlap q p"
  by (auto simp: overlap_def list_all2_conv_all_nth)

lemma overlap_refl: "overlap p p"
  by (simp add: overlap_def list_all2_conv_all_nth)

lemma patterns_disjoint: "sorted_wrt (\<lambda>p q. \<not> overlap p q) patterns"
  by code_simp

lemma disjoint_distinct: "sorted_wrt (\<lambda>p q. \<not> overlap p q) ps \<Longrightarrow> distinct ps"
  by (induction ps) (auto simp: overlap_refl)

lemma disjoint_pairs:
  "sorted_wrt (\<lambda>p q. \<not> overlap p q) ps \<Longrightarrow> p \<in> set ps \<Longrightarrow> q \<in> set ps \<Longrightarrow> p \<noteq> q \<Longrightarrow> \<not> overlap p q"
  by (induction ps) (auto dest: overlap_sym)

text \<open>
  No path matches two different patterns of the routing table, and no pattern is listed twice.
\<close>

theorem routes_unambiguous:
  "distinct patterns \<and>
   \<not> (\<exists>p\<in>set patterns. \<exists>q\<in>set patterns. p \<noteq> q \<and> (\<exists>path. matches_pattern p path \<and> matches_pattern q path))"
  using disjoint_distinct [OF patterns_disjoint] disjoint_pairs [OF patterns_disjoint] matches_overlap by blast

lemma routed: "endpoint_of req \<in> set endpoints"
proof (cases req)
  case (Protected preq)
  show ?thesis
  proof (cases preq)
    case (Tenancy r)
    with Protected show ?thesis by (cases r) (simp_all add: endpoints_def routes_def)
  next
    case (Identity r)
    with Protected show ?thesis by (cases r) (simp_all add: endpoints_def routes_def)
  next
    case (Builder r)
    with Protected show ?thesis by (cases r) (simp_all add: endpoints_def routes_def)
  next
    case (Migration r)
    with Protected show ?thesis by (cases r) (simp_all add: endpoints_def routes_def)
  next
    case (Schema r)
    with Protected show ?thesis by (cases r) (simp_all add: endpoints_def routes_def)
  next
    case (Record r)
    with Protected show ?thesis by (cases r) (simp_all add: endpoints_def routes_def)
  next
    case (Flow r)
    with Protected show ?thesis by (cases r) (simp_all add: endpoints_def routes_def)
  next
    case (Insight r)
    with Protected show ?thesis by (cases r) (simp_all add: endpoints_def routes_def)
  next
    case (Ai r)
    with Protected show ?thesis by (cases r) (simp_all add: endpoints_def routes_def)
  qed
qed (simp_all add: endpoints_def routes_def)

lemma served: "set endpoints \<subseteq> endpoint_of ` set
   [Healthz,
    Readyz,
    (Login undefined),
    Logout,
    Protected (Tenancy Me),
    (Bootstrap undefined),
    Protected (Tenancy Get_tenant),
    Protected (Tenancy List_tenants),
    Protected (Tenancy (Set_tenant_status undefined undefined)),
    Protected (Tenancy List_orgs),
    Protected (Tenancy Get_usage),
    Protected (Identity List_users),
    Protected (Identity (Create_user undefined)),
    Protected (Identity (Get_user undefined)),
    Protected (Identity (Set_user_status undefined undefined)),
    Protected (Identity List_roles),
    Protected (Identity (Create_role undefined)),
    Protected (Identity (Create_api_key undefined)),
    Protected (Builder List_drafts),
    Protected (Builder (Save_draft undefined)),
    Protected (Builder (Get_draft undefined)),
    Protected (Builder (Validate_draft undefined)),
    Protected (Builder (Publish_preview undefined)),
    Protected (Builder (Publish_draft undefined undefined)),
    Protected (Builder List_templates),
    Protected (Builder (Install_template undefined)),
    Protected (Migration Get_migration),
    Protected (Migration (Start_migration undefined)),
    Protected (Migration (Select_target undefined)),
    Protected (Migration (Set_active undefined)),
    Protected (Migration Plan_migration),
    Protected (Migration (Get_report undefined)),
    Protected (Schema List_object_types),
    Protected (Schema (Create_object_type undefined)),
    Protected (Schema (Get_object_type undefined)),
    Protected (Schema (Update_object_type undefined undefined)),
    Protected (Record (List_records undefined undefined)),
    Protected (Record (Create_record undefined undefined)),
    Protected (Record (Get_record undefined)),
    Protected (Record (Update_record undefined undefined)),
    Protected (Record (Archive_record undefined)),
    Protected (Record (Restore_record undefined)),
    Protected (Record (Get_relations undefined)),
    Protected (Record (Create_relation undefined undefined undefined)),
    Protected (Record (List_transitions undefined)),
    Protected (Record (Do_transition undefined undefined)),
    Protected (Schema List_workflows),
    Protected (Schema (Create_workflow undefined)),
    Protected (Schema (Get_workflow undefined)),
    Protected (Flow (List_tasks undefined)),
    Protected (Flow (Create_task undefined)),
    Protected (Flow (Complete_task undefined undefined)),
    Protected (Flow List_approvals),
    Protected (Flow (Get_approval undefined)),
    Protected (Flow (Decide_approval undefined undefined)),
    Protected (Flow (Query_audit undefined)),
    Protected (Insight List_reports),
    Protected (Insight (Save_report undefined)),
    Protected (Insight (Run_adhoc undefined)),
    Protected (Insight (Run_report undefined)),
    Protected (Insight List_dashboards),
    Protected (Insight (Save_dashboard undefined)),
    Protected (Insight (Get_dashboard undefined)),
    Protected (Ai (Ai_ask undefined)),
    Protected (Ai Ai_capabilities),
    Protected (Ai (Ai_bi_ask undefined)),
    Protected (Ai (Ai_summarize undefined)),
    Protected (Ai Ai_finance),
    Protected (Ai Ai_procurement),
    Protected (Ai Ai_sales),
    Protected (Ai (Ai_dry_run undefined)),
    Protected (Ai (Ai_execute undefined)),
    Protected (Ai Accel_status)]"
  by (simp add: endpoints_def routes_def)

text \<open>
  Every request of the model is an entry of the routing table, with its method, path and
  handler, and every entry of the table is a request of the model.
\<close>

lemma routing_complete: "range endpoint_of = set endpoints"
  using routed served by blast

end
