(* ===== verification/ModuleCatalog.thy ===== *)
theory ModuleCatalog
  imports Identity ObjectTypes Workflows
begin

text \<open>
  The business modules (crate \<open>modules\<close>): the object types, workflows and roles that CRM, finance,
  procurement, inventory, HCM, projects and contracts contribute as metadata, and their
  installation into a tenant through the services of the kernel.
\<close>

section \<open>Object types (schema.rs)\<close>

definition module_ot ::
  "string \<Rightarrow> string \<Rightarrow> string \<Rightarrow> string \<Rightarrow> string \<Rightarrow> string option \<Rightarrow> field_definition list
   \<Rightarrow> object_type_def" where
  "module_ot key label plural module_name disp workflow flds =
     \<lparr>ot_id = [], ot_key = key, ot_label = label, ot_label_plural = Some plural,
      ot_description = None, ot_system = True, ot_workflow_key = workflow,
      ot_display_field = Some disp, ot_module = Some module_name, ot_fields = flds\<rparr>"

definition enum_f :: "string \<Rightarrow> string \<Rightarrow> string list \<Rightarrow> field_definition" where
  "enum_f key label opts = options opts (new_field key label Enum)"

definition crm_types :: "object_type_def list" where
  "crm_types =
    [module_ot ''account'' ''Account'' ''Accounts'' ''crm'' ''name'' None
       [display (required (new_field ''name'' ''Name'' Text)),
        new_field ''industry'' ''Industry'' Text,
        new_field ''website'' ''Website'' Text,
        enum_f ''tier'' ''Tier'' [''bronze'', ''silver'', ''gold'', ''platinum''],
        new_field ''email'' ''Email'' Text,
        new_field ''annual_revenue'' ''Annual Revenue'' Money],
     module_ot ''contact'' ''Contact'' ''Contacts'' ''crm'' ''name'' None
       [display (required (new_field ''name'' ''Name'' Text)),
        new_field ''email'' ''Email'' Text,
        new_field ''title'' ''Title'' Text,
        references ''account'' (new_field ''account_id'' ''Account'' RecordRef)],
     module_ot ''lead'' ''Lead'' ''Leads'' ''crm'' ''name'' None
       [display (required (new_field ''name'' ''Name'' Text)),
        new_field ''email'' ''Email'' Text,
        new_field ''company'' ''Company'' Text,
        enum_f ''status'' ''Status'' [''new'', ''qualified'', ''converted'', ''disqualified''],
        new_field ''score'' ''Score'' Number],
     module_ot ''deal'' ''Deal'' ''Deals'' ''crm'' ''name'' None
       [display (required (new_field ''name'' ''Name'' Text)),
        references ''account'' (new_field ''account_id'' ''Account'' RecordRef),
        new_field ''amount'' ''Amount'' Money,
        enum_f ''stage'' ''Stage'' [''prospecting'', ''qualification'', ''proposal'', ''negotiation'',
            ''at_risk'', ''won'', ''lost''],
        new_field ''close_date'' ''Close Date'' Date,
        new_field ''owner_id'' ''Owner'' UserRef],
     module_ot ''activity'' ''Activity'' ''Activities'' ''crm'' ''subject'' None
       [display (required (new_field ''subject'' ''Subject'' Text)),
        enum_f ''kind'' ''Kind'' [''call'', ''email'', ''meeting'', ''note''],
        references ''account'' (new_field ''account_id'' ''Account'' RecordRef),
        new_field ''at'' ''When'' DateTime],
     module_ot ''ticket'' ''Support Ticket'' ''Tickets'' ''crm'' ''subject'' None
       [display (required (new_field ''subject'' ''Subject'' Text)),
        references ''account'' (new_field ''account_id'' ''Account'' RecordRef),
        enum_f ''priority'' ''Priority'' [''low'', ''medium'', ''high'', ''urgent''],
        enum_f ''status'' ''Status'' [''open'', ''pending'', ''closed'']]]"

definition finance_types :: "object_type_def list" where
  "finance_types =
    [module_ot ''vendor'' ''Vendor'' ''Vendors'' ''finance'' ''name'' None
       [display (required (new_field ''name'' ''Name'' Text)),
        new_field ''email'' ''Email'' Text,
        enum_f ''category'' ''Category'' [''parts'', ''logistics'', ''services'', ''software''],
        enum_f ''risk'' ''Risk'' [''low'', ''medium'', ''high''],
        new_field ''lead_time_days'' ''Lead Time (days)'' Number],
     module_ot ''invoice'' ''Invoice'' ''Invoices'' ''finance'' ''number'' (Some ''invoice_approval'')
       [display (required (new_field ''number'' ''Number'' Text)),
        references ''account'' (new_field ''account_id'' ''Customer'' RecordRef),
        display (required (new_field ''amount'' ''Amount'' Money)),
        enum_f ''status'' ''Status'' [''draft'', ''submitted'', ''approved'', ''paid'', ''cancelled''],
        new_field ''issue_date'' ''Issue Date'' Date,
        new_field ''due_date'' ''Due Date'' Date,
        new_field ''notes'' ''Notes'' LongText],
     module_ot ''bill'' ''Bill'' ''Bills'' ''finance'' ''number'' None
       [display (required (new_field ''number'' ''Number'' Text)),
        references ''vendor'' (new_field ''vendor_id'' ''Vendor'' RecordRef),
        required (new_field ''amount'' ''Amount'' Money),
        enum_f ''status'' ''Status'' [''draft'', ''approved'', ''paid''],
        new_field ''due_date'' ''Due Date'' Date],
     module_ot ''payment'' ''Payment'' ''Payments'' ''finance'' ''reference'' None
       [display (required (new_field ''reference'' ''Reference'' Text)),
        references ''invoice'' (new_field ''invoice_id'' ''Invoice'' RecordRef),
        new_field ''amount'' ''Amount'' Money,
        new_field ''paid_date'' ''Paid Date'' Date,
        enum_f ''method'' ''Method'' [''ach'', ''wire'', ''card'', ''check'']],
     module_ot ''budget'' ''Budget'' ''Budgets'' ''finance'' ''name'' None
       [display (required (new_field ''name'' ''Name'' Text)),
        new_field ''period'' ''Period'' Text,
        new_field ''amount'' ''Amount'' Money,
        new_field ''spent'' ''Spent'' Money]]"

definition procurement_types :: "object_type_def list" where
  "procurement_types =
    [module_ot ''purchase_request'' ''Purchase Request'' ''Purchase Requests'' ''procurement'' ''number'' (Some ''pr_approval'')
       [display (required (new_field ''number'' ''Number'' Text)),
        new_field ''item'' ''Item'' Text,
        new_field ''quantity'' ''Quantity'' Number,
        new_field ''estimated_cost'' ''Estimated Cost'' Money,
        references ''vendor'' (new_field ''vendor_id'' ''Vendor'' RecordRef),
        enum_f ''status'' ''Status'' [''requested'', ''manager_review'', ''finance_review'',
            ''ordered'', ''received'', ''closed'', ''rejected'']],
     module_ot ''purchase_order'' ''Purchase Order'' ''Purchase Orders'' ''procurement'' ''number'' None
       [display (required (new_field ''number'' ''Number'' Text)),
        references ''vendor'' (new_field ''vendor_id'' ''Vendor'' RecordRef),
        new_field ''amount'' ''Amount'' Money,
        enum_f ''status'' ''Status'' [''draft'', ''approved'', ''ordered'', ''received'', ''closed''],
        new_field ''expected_date'' ''Expected Date'' Date],
     module_ot ''receipt'' ''Goods Receipt'' ''Receipts'' ''procurement'' ''number'' None
       [display (required (new_field ''number'' ''Number'' Text)),
        references ''purchase_order'' (new_field ''po_id'' ''Purchase Order'' RecordRef),
        new_field ''quantity'' ''Quantity'' Number,
        new_field ''received_date'' ''Received Date'' Date]]"

definition inventory_types :: "object_type_def list" where
  "inventory_types =
    [module_ot ''warehouse'' ''Warehouse'' ''Warehouses'' ''inventory'' ''name'' None
       [display (required (new_field ''name'' ''Name'' Text)),
        new_field ''location'' ''Location'' Text],
     module_ot ''product'' ''Product'' ''Products'' ''inventory'' ''name'' None
       [display (required (new_field ''sku'' ''SKU'' Text)),
        display (required (new_field ''name'' ''Name'' Text)),
        enum_f ''category'' ''Category'' [''actuators'', ''sensors'', ''controllers'', ''frames'',
            ''batteries''],
        new_field ''unit_cost'' ''Unit Cost'' Money,
        new_field ''price'' ''Price'' Money,
        new_field ''quantity'' ''On Hand'' Number,
        new_field ''reorder_point'' ''Reorder Point'' Number,
        references ''warehouse'' (new_field ''warehouse_id'' ''Warehouse'' RecordRef)],
     module_ot ''inventory_movement'' ''Inventory Movement'' ''Movements'' ''inventory'' ''reference'' None
       [display (required (new_field ''reference'' ''Reference'' Text)),
        references ''product'' (new_field ''product_id'' ''Product'' RecordRef),
        enum_f ''kind'' ''Kind'' [''in'', ''out'', ''adjust''],
        new_field ''quantity'' ''Quantity'' Number,
        new_field ''at'' ''When'' DateTime]]"

definition hcm_types :: "object_type_def list" where
  "hcm_types =
    [module_ot ''department'' ''Department'' ''Departments'' ''hcm'' ''name'' None
       [display (required (new_field ''name'' ''Name'' Text)),
        new_field ''head_id'' ''Head'' UserRef],
     module_ot ''employee'' ''Employee'' ''Employees'' ''hcm'' ''name'' None
       [display (required (new_field ''name'' ''Name'' Text)),
        new_field ''email'' ''Email'' Text,
        references ''department'' (new_field ''department_id'' ''Department'' RecordRef),
        new_field ''position'' ''Position'' Text,
        restricted (new_field ''salary'' ''Salary'' Money),
        new_field ''hire_date'' ''Hire Date'' Date],
     module_ot ''leave_request'' ''Leave Request'' ''Leave Requests'' ''hcm'' ''reference'' (Some ''leave_approval'')
       [display (required (new_field ''reference'' ''Reference'' Text)),
        references ''employee'' (new_field ''employee_id'' ''Employee'' RecordRef),
        enum_f ''kind'' ''Kind'' [''vacation'', ''sick'', ''personal''],
        new_field ''start_date'' ''Start'' Date,
        new_field ''end_date'' ''End'' Date,
        enum_f ''status'' ''Status'' [''draft'', ''submitted'', ''manager_approved'', ''hr_approved'',
            ''rejected'']],
     module_ot ''candidate'' ''Candidate'' ''Candidates'' ''hcm'' ''name'' None
       [display (required (new_field ''name'' ''Name'' Text)),
        new_field ''role'' ''Role'' Text,
        enum_f ''stage'' ''Stage'' [''applied'', ''screening'', ''interview'', ''offer'', ''hired'',
            ''rejected'']]]"

definition projects_types :: "object_type_def list" where
  "projects_types =
    [module_ot ''project'' ''Project'' ''Projects'' ''projects'' ''name'' None
       [display (required (new_field ''name'' ''Name'' Text)),
        references ''account'' (new_field ''account_id'' ''Account'' RecordRef),
        enum_f ''status'' ''Status'' [''planning'', ''active'', ''on_hold'', ''done''],
        new_field ''start_date'' ''Start'' Date,
        new_field ''end_date'' ''End'' Date],
     module_ot ''milestone'' ''Milestone'' ''Milestones'' ''projects'' ''name'' None
       [display (required (new_field ''name'' ''Name'' Text)),
        references ''project'' (new_field ''project_id'' ''Project'' RecordRef),
        new_field ''due_date'' ''Due Date'' Date,
        enum_f ''status'' ''Status'' [''pending'', ''in_progress'', ''done'']]]"

definition contracts_types :: "object_type_def list" where
  "contracts_types =
    [module_ot ''contract'' ''Contract'' ''Contracts'' ''contracts'' ''title'' None
       [display (required (new_field ''title'' ''Title'' Text)),
        enum_f ''party_type'' ''Party Type'' [''customer'', ''vendor''],
        new_field ''party_id'' ''Party'' Text,
        new_field ''value'' ''Value'' Money,
        new_field ''start_date'' ''Start'' Date,
        new_field ''end_date'' ''End'' Date,
        new_field ''renewal_date'' ''Renewal Date'' Date,
        enum_f ''status'' ''Status'' [''active'', ''renewal_review'', ''renewed'', ''expired'']]]"

definition module_object_types :: "object_type_def list" where
  "module_object_types =
     crm_types @ finance_types @ procurement_types @ inventory_types @ hcm_types @
     projects_types @ contracts_types"

section \<open>Workflows (schema.rs)\<close>

text \<open>The keys are ASCII, so the upper case of a first letter is a shift by 32.\<close>

definition to_uppercase :: "char \<Rightarrow> char" where
  "to_uppercase c =
     (if of_char CHR ''a'' \<le> (of_char c :: nat) \<and> (of_char c :: nat) \<le> of_char CHR ''z''
      then char_of ((of_char c :: nat) - 32) else c)"

fun capitalize :: "string \<Rightarrow> string" where
  "capitalize [] = []"
| "capitalize (c # cs) = to_uppercase c # cs"

fun join_words :: "string list \<Rightarrow> string" where
  "join_words [] = []"
| "join_words [w] = w"
| "join_words (w # v # ws) = w @ '' '' @ join_words (v # ws)"

definition title_case :: "string \<Rightarrow> string" where
  "title_case s = join_words (map capitalize (split_on (CHR ''_'') s))"

definition module_state :: "string \<Rightarrow> bool \<Rightarrow> workflow_state" where
  "module_state key terminal = \<lparr>ws_key = key, ws_label = title_case key, ws_terminal = terminal\<rparr>"

definition module_transition ::
  "string \<Rightarrow> string \<Rightarrow> string \<Rightarrow> string \<Rightarrow> bool \<Rightarrow> transition_t" where
  "module_transition key from to' label approval =
     \<lparr>t_key = key, t_from = from, t_to = to', t_label = label, t_guard_permission = None,
      t_requires_approval = approval,
      t_approval_policy = (if approval then Some ''default'' else None)\<rparr>"

definition invoice_approval :: workflow_def where
  "invoice_approval =
     \<lparr>wf_key = ''invoice_approval'', wf_object_type = ''invoice'',
         wf_name = ''Invoice Approval'', wf_initial_state = ''draft'',
      wf_states =
        [module_state ''draft'' False,
         module_state ''submitted'' False,
         module_state ''approved'' False,
         module_state ''paid'' True,
         module_state ''cancelled'' True],
      wf_transitions =
        [module_transition ''submit'' ''draft'' ''submitted'' ''Submit for approval'' False,
         module_transition ''approve'' ''submitted'' ''approved'' ''Approve'' True,
         module_transition ''mark_paid'' ''approved'' ''paid'' ''Mark paid'' False,
         module_transition ''cancel'' ''draft'' ''cancelled'' ''Cancel'' False,
         module_transition ''cancel_submitted'' ''submitted'' ''cancelled'' ''Cancel'' False]\<rparr>"

definition pr_approval :: workflow_def where
  "pr_approval =
     \<lparr>wf_key = ''pr_approval'', wf_object_type = ''purchase_request'',
         wf_name = ''Purchase Request Approval'', wf_initial_state = ''requested'',
      wf_states =
        [module_state ''requested'' False,
         module_state ''manager_review'' False,
         module_state ''finance_review'' False,
         module_state ''ordered'' False,
         module_state ''received'' False,
         module_state ''closed'' True,
         module_state ''rejected'' True],
      wf_transitions =
        [module_transition ''to_manager'' ''requested'' ''manager_review'' ''Send to manager'' False,
         module_transition ''manager_approve'' ''manager_review'' ''finance_review'' ''Manager approve'' True,
         module_transition ''finance_approve'' ''finance_review'' ''ordered'' ''Finance approve'' True,
         module_transition ''receive'' ''ordered'' ''received'' ''Mark received'' False,
         module_transition ''close'' ''received'' ''closed'' ''Close'' False,
         module_transition ''reject'' ''manager_review'' ''rejected'' ''Reject'' False]\<rparr>"

definition leave_approval :: workflow_def where
  "leave_approval =
     \<lparr>wf_key = ''leave_approval'', wf_object_type = ''leave_request'',
         wf_name = ''Leave Request Approval'', wf_initial_state = ''draft'',
      wf_states =
        [module_state ''draft'' False,
         module_state ''submitted'' False,
         module_state ''manager_approved'' False,
         module_state ''hr_approved'' True,
         module_state ''rejected'' True],
      wf_transitions =
        [module_transition ''submit'' ''draft'' ''submitted'' ''Submit'' False,
         module_transition ''manager_approve'' ''submitted'' ''manager_approved'' ''Manager approve'' True,
         module_transition ''hr_approve'' ''manager_approved'' ''hr_approved'' ''HR approve'' True,
         module_transition ''reject'' ''submitted'' ''rejected'' ''Reject'' False]\<rparr>"

definition module_workflows :: "workflow_def list" where
  "module_workflows = [invoice_approval, pr_approval, leave_approval]"

section \<open>Roles (roles.rs)\<close>

record role_spec =
  rs_key :: string
  rs_name :: string
  rs_description :: string
  rs_grants :: "permission_grant list"

definition org_grant :: "action \<Rightarrow> string \<Rightarrow> permission_grant" where
  "org_grant a resource = new_grant a resource Org"

definition crud :: "string \<Rightarrow> permission_grant list" where
  "crud resource =
     map (\<lambda>a. org_grant a resource) [Read, Create, Update, Search, Transition, Relate]"

definition manage :: "string \<Rightarrow> permission_grant" where
  "manage resource = org_grant Manage resource"

definition manage_sensitive :: "string \<Rightarrow> permission_grant" where
  "manage_sensitive resource =
     (manage resource)\<lparr>g_fields := Some \<lparr>fr_mode = Deny, fr_fields = []\<rparr>\<rparr>"

definition read_bi :: "permission_grant list" where
  "read_bi = [org_grant Read ''report'', org_grant Read ''metric'', org_grant Read ''dashboard'']"

definition join_grants :: "permission_grant list list \<Rightarrow> permission_grant list" where
  "join_grants groups = concat groups"

definition finance_user :: role_spec where
  "finance_user =
     \<lparr>rs_key = ''finance_user'', rs_name = ''Finance User'',
      rs_description = ''Manage invoices/bills/payments; can submit but not approve'',
      rs_grants = join_grants [crud ''object:invoice'',
          crud ''object:bill'',
          crud ''object:payment'',
          [org_grant Read ''object:account'', org_grant Read ''object:vendor'',
              org_grant Read ''object:budget''],
          read_bi]\<rparr>"

definition finance_manager :: role_spec where
  "finance_manager =
     \<lparr>rs_key = ''finance_manager'', rs_name = ''Finance Manager'',
      rs_description = ''Full finance management including invoice approval'',
      rs_grants = join_grants [[manage ''object:invoice'', manage ''object:bill'',
          manage ''object:payment'', manage ''object:budget''],
          [org_grant Read ''object:account'', org_grant Read ''object:vendor''],
          read_bi,
          [org_grant Read ''approval'', org_grant Read ''audit'']]\<rparr>"

definition sales_rep :: role_spec where
  "sales_rep =
     \<lparr>rs_key = ''sales_rep'', rs_name = ''Sales Rep'',
      rs_description = ''CRM: accounts, contacts, leads, deals, activities, tickets'',
      rs_grants = join_grants [crud ''object:account'',
          crud ''object:contact'',
          crud ''object:lead'',
          crud ''object:deal'',
          crud ''object:activity'',
          crud ''object:ticket'',
          read_bi]\<rparr>"

definition sales_manager :: role_spec where
  "sales_manager =
     \<lparr>rs_key = ''sales_manager'', rs_name = ''Sales Manager'',
      rs_description = ''Full CRM management'',
      rs_grants = join_grants [[manage ''object:account'', manage ''object:contact'',
          manage ''object:lead'', manage ''object:deal'', manage ''object:activity'',
              manage ''object:ticket''],
          read_bi,
          [org_grant Read ''approval'']]\<rparr>"

definition procurement_agent :: role_spec where
  "procurement_agent =
     \<lparr>rs_key = ''procurement_agent'', rs_name = ''Procurement Agent'',
      rs_description = ''Draft purchase requests/orders; cannot approve'',
      rs_grants = join_grants [crud ''object:purchase_request'',
          crud ''object:purchase_order'',
          [org_grant Read ''object:vendor'', org_grant Read ''object:product'',
              org_grant Read ''object:receipt''],
          crud ''object:receipt'',
          read_bi]\<rparr>"

definition procurement_manager :: role_spec where
  "procurement_manager =
     \<lparr>rs_key = ''procurement_manager'', rs_name = ''Procurement Manager'',
      rs_description = ''Approve purchase requests and orders; manage vendors'',
      rs_grants = join_grants [[manage ''object:purchase_request'', manage ''object:purchase_order'',
          manage ''object:vendor'', manage ''object:receipt''],
          [org_grant Read ''object:product''],
          read_bi,
          [org_grant Read ''approval'']]\<rparr>"

definition inventory_user :: role_spec where
  "inventory_user =
     \<lparr>rs_key = ''inventory_user'', rs_name = ''Inventory User'',
      rs_description = ''Manage products, warehouses, and stock movements'',
      rs_grants = join_grants [crud ''object:product'',
          crud ''object:warehouse'',
          crud ''object:inventory_movement'',
          read_bi]\<rparr>"

definition hr_user :: role_spec where
  "hr_user =
     \<lparr>rs_key = ''hr_user'', rs_name = ''HR User'',
      rs_description = ''Read employees and departments WITHOUT compensation'',
      rs_grants = join_grants [[org_grant Read ''object:employee'',
          org_grant Search ''object:employee'', org_grant Read ''object:department'',
              org_grant Read ''object:leave_request'', org_grant Read ''object:candidate''],
          read_bi]\<rparr>"

definition hr_manager :: role_spec where
  "hr_manager =
     \<lparr>rs_key = ''hr_manager'', rs_name = ''HR Manager'',
      rs_description = ''Full HR management including compensation and leave approval'',
      rs_grants = join_grants [[manage_sensitive ''object:employee'', manage ''object:department'',
          manage ''object:leave_request'', manage ''object:candidate''],
          read_bi,
          [org_grant Read ''approval'']]\<rparr>"

definition project_manager :: role_spec where
  "project_manager =
     \<lparr>rs_key = ''project_manager'', rs_name = ''Project Manager'',
      rs_description = ''Manage projects and milestones'',
      rs_grants = join_grants [[manage ''object:project'', manage ''object:milestone''],
          [org_grant Read ''object:account'', org_grant Read ''object:deal''],
          read_bi]\<rparr>"

definition contracts_manager :: role_spec where
  "contracts_manager =
     \<lparr>rs_key = ''contracts_manager'', rs_name = ''Contracts Manager'',
      rs_description = ''Manage contracts and documents'',
      rs_grants = join_grants [[manage ''object:contract''],
          [org_grant Read ''object:account'', org_grant Read ''object:vendor''],
          read_bi]\<rparr>"

definition exec :: role_spec where
  "exec =
     \<lparr>rs_key = ''exec'', rs_name = ''Executive'',
      rs_description = ''Read-only cross-module dashboards and audit'',
      rs_grants = join_grants [[org_grant Read ''object:*'', org_grant Search ''object:*''],
          read_bi,
          [org_grant Read ''approval'', new_grant Read ''audit'' Tenant]]\<rparr>"

definition business_roles :: "role_spec list" where
  "business_roles =
     [finance_user, finance_manager, sales_rep, sales_manager, procurement_agent,
      procurement_manager, inventory_user, hr_user, hr_manager, project_manager,
      contracts_manager, exec]"

section \<open>Installation (install.rs)\<close>

definition install :: "kernel \<Rightarrow> auth_context \<Rightarrow> unit kern" where
  "install k ctx =
     seqK (forK (\<lambda>wf. seqK (create_workflow k ctx wf) (retK ())) module_workflows) (
     seqK (forK (\<lambda>ot. seqK (create_object_type k ctx ot) (retK ())) module_object_types) (
     seqK (forK (\<lambda>role. seqK (create_role k ctx (rs_key role) (rs_name role)
                          (Some (rs_description role)) (rs_grants role)) (retK ())) business_roles)
       (retK ())))"

end
