(* ===== verification/Installation.thy ===== *)
theory Installation
  imports ModuleCatalog Invariants
begin

text \<open>
  How the installation of the business modules runs. Without storage faults, with the permission
  to configure, and with identifiers that are fresh from here on, each of the three operations it
  calls succeeds, stores its element, leaves the other elements alone and preserves what the next
  call needs; a generic rule then runs the three loops.
\<close>

section \<open>Fresh identifiers\<close>

definition stored_ids :: "database \<Rightarrow> string set" where
  "stored_ids d = wr_id ` set (workflows d) \<union> (ot_id \<circ> ob_def) ` set (object_types d) \<union>
     (role_id \<circ> ro_role) ` set (roles d) \<union> a_id ` set (audit_logs d)"

definition fresh_ids :: "kernel \<Rightarrow> kstate \<Rightarrow> bool" where
  "fresh_ids k s \<longleftrightarrow> inj (uuid_at k) \<and> (\<forall>n\<ge>tick s. uuid_at k n \<notin> stored_ids (db s))"

lemma fresh_idsD:
  assumes "fresh_ids k s" "tick s \<le> n"
  shows "uuid_at k n \<notin> wr_id ` set (workflows (db s))"
    "uuid_at k n \<notin> (ot_id \<circ> ob_def) ` set (object_types (db s))"
    "uuid_at k n \<notin> (role_id \<circ> ro_role) ` set (roles (db s))"
    "uuid_at k n \<notin> a_id ` set (audit_logs (db s))"
  using assms by (auto simp: fresh_ids_def stored_ids_def)

lemma fresh_ids_step:
  assumes "fresh_ids k s" "tick s \<le> tick s'"
    and "stored_ids (db s') \<subseteq> stored_ids (db s) \<union> uuid_at k ` {tick s..<tick s'}"
  shows "fresh_ids k s'"
proof -
  have "uuid_at k n \<notin> stored_ids (db s')" if n: "tick s' \<le> n" for n
  proof
    assume "uuid_at k n \<in> stored_ids (db s')"
    with assms have "uuid_at k n \<in> uuid_at k ` {tick s..<tick s'}"
      using n by (auto simp: fresh_ids_def)
    then have "n \<in> {tick s..<tick s'}"
      using assms(1) by (simp add: fresh_ids_def inj_image_mem_iff)
    with n show False by simp
  qed
  with assms(1) show ?thesis by (simp add: fresh_ids_def)
qed

lemma authorize_run:
  assumes "reliable k" "allowed k (db s) ctx act resource target"
  shows "\<exists>s'. authorize k ctx act resource target s = (Inr (), s') \<and> db s' = db s \<and> tick s \<le> tick s'"
proof (cases "trusted ctx")
  case True
  then show ?thesis by (auto simp: authorize_def run_simps)
next
  case False
  from effective_grants_run [OF assms(1), of ctx s] obtain s1 where
    "effective_grants k ctx s = (Inr (role_grants_of (db s) (tenant_id ctx) (role_keys ctx)), s1)"
    "db s1 = db s" "tick s \<le> tick s1" by (cases "role_keys ctx = []") auto
  with False assms(2) show ?thesis
    by (auto simp: authorize_def run_simps list_ex_granted allowed_def)
qed

lemma audit_change_run:
  assumes "reliable k" "uuid_at k (tick s) \<notin> a_id ` set (audit_logs (db s))"
  shows "\<exists>ev s'. audit_change k ctx act ty target prev post (\<lambda>ev. ev) s = (Inr (), s') \<and>
     a_id ev = uuid_at k (tick s) \<and> db s' = log_audit ev (db s) \<and> tick s' = tick s + 3"
  using assms unfolding audit_change_def bindK_Inr event_from_Inr insert_audit_Inr
  by (intro exI conjI) (auto intro: refl)

section \<open>The three operations\<close>

text \<open>What an installation keeps at hand: permission, the tenant, and fresh identifiers.\<close>

definition may_install :: "kernel \<Rightarrow> auth_context \<Rightarrow> kstate \<Rightarrow> bool" where
  "may_install k ctx s \<longleftrightarrow> tenant_exists (db s) (tenant_id ctx) \<and> fresh_ids k s \<and>
     list_all (\<lambda>resource. allowed k (db s) ctx Configure resource None)
       [''workflows'', ''object_types'', ''admin:roles'']"

lemma may_install_step:
  assumes "may_install k ctx s" "tick s \<le> tick s'" "tenants (db s') = tenants (db s)"
    and "set (roles (db s)) \<subseteq> set (roles (db s'))"
    and "stored_ids (db s') \<subseteq> stored_ids (db s) \<union> uuid_at k ` {tick s..<tick s'}"
  shows "may_install k ctx s'"
proof -
  have "allowed k (db s') ctx act resource target" if "allowed k (db s) ctx act resource target"
    for act resource target
    using that assms(4) by (fastforce simp: allowed_def granted_def)
  with assms fresh_ids_step [of k s s'] show ?thesis
    by (simp add: may_install_def tenant_exists_def)
qed


text \<open>A transaction that makes one change and logs it.\<close>

lemma install_transaction_run:
  assumes "reliable k" "may_install k ctx s" and start: "db s1 = db s" "tick s \<le> tick s1"
    and m: "m (s1\<lparr>tick := Suc (tick s1)\<rparr>) = (Inr y, s2)" "tick s1 < tick s2"
    and tables: "audit_logs (db s2) = audit_logs (db s)" "tenants (db s2) = tenants (db s)"
      "set (roles (db s)) \<subseteq> set (roles (db s2))"
    and ids: "stored_ids (db s2) \<subseteq> stored_ids (db s) \<union> uuid_at k ` {tick s..<tick s2}"
  shows "\<exists>ev s'. transaction k (seqK m (audit_change k ctx act ty target prev post (\<lambda>ev. ev))) s1
       = (Inr (), s') \<and> db s' = log_audit ev (db s2) \<and> may_install k ctx s'"
proof -
  have "fresh_ids k s" using assms(2) by (simp add: may_install_def)
  then have "uuid_at k (tick s2) \<notin> a_id ` set (audit_logs (db s2))"
    using fresh_idsD(4) [of k s "tick s2"] start m(2) tables by simp
  from audit_change_run [OF assms(1) this, of ctx act ty target prev post]
  obtain ev s3 where 3: "audit_change k ctx act ty target prev post (\<lambda>ev. ev) s2 = (Inr (), s3)"
    "a_id ev = uuid_at k (tick s2)" "db s3 = log_audit ev (db s2)" "tick s3 = tick s2 + 3" by auto
  let ?s' = "s3\<lparr>tick := Suc (tick s3)\<rparr>"
  have "transaction k (seqK m (audit_change k ctx act ty target prev post (\<lambda>ev. ev))) s1 = (Inr (), ?s')"
    using m(1) 3(1) assms(1) by (simp add: transaction_Inr run_simps)
  moreover have "stored_ids (db ?s') \<subseteq> stored_ids (db s) \<union> uuid_at k ` {tick s..<tick ?s'}"
  proof -
    let ?new = "uuid_at k ` {tick s..<tick ?s'}"
    have eq: "stored_ids (db ?s') = insert (uuid_at k (tick s2)) (stored_ids (db s2))"
      using 3 by (auto simp: stored_ids_def)
    have mem: "uuid_at k (tick s2) \<in> ?new"
      using start m 3 by (intro imageI) simp
    have sub: "uuid_at k ` {tick s..<tick s2} \<subseteq> ?new"
      using 3 by (intro image_mono) auto
    show ?thesis unfolding eq
      by (rule insert_subsetI [OF UnI2 [OF mem] subset_trans [OF ids Un_mono [OF subset_refl sub]]])
  qed
  then have "may_install k ctx ?s'"
    using may_install_step [OF assms(2), of ?s'] start m(2) 3 tables by simp
  ultimately show ?thesis using 3(3) by auto
qed

lemma upsert_workflow_run:
  assumes "wid \<notin> wr_id ` set (workflows d)" "tenant_exists d t"
  shows "\<exists>d'. upsert_workflow t w wid ts d = Inr ((), d') \<and> find_workflow d' t (wf_key w) = Some w \<and>
     (\<forall>key. key \<noteq> wf_key w \<longrightarrow> find_workflow d' t key = find_workflow d t key) \<and>
     wr_id ` set (workflows d') \<subseteq> insert wid (wr_id ` set (workflows d)) \<and>
     object_types d' = object_types d \<and> roles d' = roles d \<and> tenants d' = tenants d \<and>
     audit_logs d' = audit_logs d"
proof -
  have "\<exists>d'. upsert_workflow t w wid ts d = Inr ((), d')"
    using assms by (simp add: upsert_workflow_def Let_def)
  then obtain d' where d': "upsert_workflow t w wid ts d = Inr ((), d')" by blast
  have "find_workflow d' t key = find_workflow d t key" if "key \<noteq> wf_key w" for key
  proof -
    have "find (\<lambda>r. wr_tenant_id r = t \<and> wr_key r = key) (upd_where
        (\<lambda>r. wr_tenant_id r = t \<and> wr_key r = wf_key w)
        (\<lambda>r. r\<lparr>wr_object_type := wf_object_type w, wr_name := wf_name w, wr_definition := w\<rparr>)
        (workflows d)) = find (\<lambda>r. wr_tenant_id r = t \<and> wr_key r = key) (workflows d)"
      by (rule find_upd_where_other) (use that in auto)
    with d' that show ?thesis
      by (auto simp: upsert_workflow_def Let_def find_workflow_def find_append
          split: if_splits option.splits)
  qed
  moreover have "wr_id ` set (workflows d') \<subseteq> insert wid (wr_id ` set (workflows d))"
    using d' by (auto simp: upsert_workflow_def Let_def upd_where_def split: if_splits)
  ultimately show ?thesis
    using d' upsert_workflow_find [OF d'] upsert_workflow_isolated [OF d']
    by (auto simp: upsert_workflow_def Let_def split: if_splits)
qed

lemma create_workflow_run:
  assumes "reliable k" "may_install k ctx s" "workflow_ok w"
  shows "\<exists>s'. create_workflow k ctx w s = (Inr w, s') \<and> may_install k ctx s' \<and>
     find_workflow (db s') (tenant_id ctx) (wf_key w) = Some w \<and>
     (\<forall>key. key \<noteq> wf_key w \<longrightarrow>
        find_workflow (db s') (tenant_id ctx) key = find_workflow (db s) (tenant_id ctx) key) \<and>
     object_types (db s') = object_types (db s) \<and> roles (db s') = roles (db s)"
proof -
  have fresh: "fresh_ids k s" and tenant: "tenant_exists (db s) (tenant_id ctx)"
    and al: "allowed k (db s) ctx Configure ''workflows'' None"
    using assms(2) by (simp_all add: may_install_def)
  from authorize_run [OF assms(1) al] obtain s1 where
    1: "authorize k ctx Configure ''workflows'' None s = (Inr (), s1)" "db s1 = db s" "tick s \<le> tick s1"
    by auto
  define s2 where "s2 = s1\<lparr>tick := Suc (tick s1)\<rparr>"
  let ?ts = "rfc3339 k (now_at k (tick s1))" and ?wid = "uuid_at k (Suc (tick s2))"
  let ?m = "bindK (new_id k) (\<lambda>id. stmt k (upsert_workflow (tenant_id ctx) w id ?ts))"
  have fresh2: "fresh_ids k s2" using fresh 1 by (auto simp: fresh_ids_def s2_def)
  have new: "?wid \<notin> wr_id ` set (workflows (db s))"
    using fresh_idsD(1) [OF fresh2, of "Suc (tick s2)"] 1 by (simp add: s2_def)
  from upsert_workflow_run [OF new tenant, of w ?ts]
  obtain d' where d': "upsert_workflow (tenant_id ctx) w ?wid ?ts (db s) = Inr ((), d')"
    "find_workflow d' (tenant_id ctx) (wf_key w) = Some w"
    "\<forall>key. key \<noteq> wf_key w \<longrightarrow> find_workflow d' (tenant_id ctx) key = find_workflow (db s) (tenant_id ctx) key"
    "wr_id ` set (workflows d') \<subseteq> insert ?wid (wr_id ` set (workflows (db s)))"
    "object_types d' = object_types (db s)" "roles d' = roles (db s)" "tenants d' = tenants (db s)"
    "audit_logs d' = audit_logs (db s)"
    by auto
  define s3 where "s3 = s2\<lparr>tick := tick s2 + 3, db := d'\<rparr>"
  have m: "?m (s2\<lparr>tick := Suc (tick s2)\<rparr>) = (Inr (), s3)"
    using d'(1) assms(1) 1(2) by (simp add: run_simps run_stmt s2_def s3_def)
  have after: "tick s2 < tick s3" "audit_logs (db s3) = audit_logs (db s)"
    "tenants (db s3) = tenants (db s)" "set (roles (db s)) \<subseteq> set (roles (db s3))"
    using d' by (simp_all add: s3_def)
  have "?wid \<in> uuid_at k ` {tick s..<tick s3}"
    using 1(3) by (intro imageI) (simp add: s3_def s2_def)
  then have ids: "stored_ids (db s3) \<subseteq> stored_ids (db s) \<union> uuid_at k ` {tick s..<tick s3}"
    using d' by (auto simp: stored_ids_def s3_def)
  have start: "db s2 = db s" "tick s \<le> tick s2" using 1 by (simp_all add: s2_def)
  obtain ev s' where
    4: "transaction k (seqK ?m (audit_change k ctx ''workflow.create'' (Some ''workflow'')
          (Some (wf_key w)) None (Some (jobj [(''object_type'', JString (wf_object_type w)),
                            (''states'', jnat (length (wf_states w)))])) (\<lambda>ev. ev))) s2 = (Inr (), s')"
    "db s' = log_audit ev (db s3)" "may_install k ctx s'"
    using install_transaction_run [where m = ?m, OF assms(1,2) start m after ids] by blast
  have "create_workflow k ctx w s = (Inr w, s')"
    using 1(1) 4(1) assms(3) validate_workflow_iff [of w]
    by (simp add: create_workflow_def run_simps s2_def)
  with 4 d' show ?thesis by (auto simp: find_workflow_def s3_def)
qed

lemma create_object_type_run:
  assumes "reliable k" "may_install k ctx s" "object_type_ok def" "ot_id def = []"
    and "find_object_type (db s) (tenant_id ctx) (ot_key def) = None"
  shows "\<exists>i s'. create_object_type k ctx def s = (Inr (def\<lparr>ot_id := i\<rparr>), s') \<and> may_install k ctx s' \<and>
     find_object_type (db s') (tenant_id ctx) (ot_key def) = Some (def\<lparr>ot_id := i\<rparr>) \<and>
     (\<forall>key. key \<noteq> ot_key def \<longrightarrow>
        find_object_type (db s') (tenant_id ctx) key = find_object_type (db s) (tenant_id ctx) key) \<and>
     workflows (db s') = workflows (db s) \<and> roles (db s') = roles (db s)"
proof -
  have fresh: "fresh_ids k s" and tenant: "tenant_exists (db s) (tenant_id ctx)"
    and al: "allowed k (db s) ctx Configure ''object_types'' None"
    using assms(2) by (simp_all add: may_install_def)
  from authorize_run [OF assms(1) al] obtain s1 where
    1: "authorize k ctx Configure ''object_types'' None s = (Inr (), s1)" "db s1 = db s" "tick s \<le> tick s1"
    by auto
  let ?i = "uuid_at k (tick s1)" and ?ts = "rfc3339 k (now_at k (Suc (tick s1)))"
  let ?row = "\<lparr>ob_tenant_id = tenant_id ctx, ob_def = def\<lparr>ot_id := ?i\<rparr>, ob_created_at = ?ts\<rparr>"
  let ?d = "(db s)\<lparr>object_types := object_types (db s) @ [?row]\<rparr>"
  let ?m = "insert_object_type k (tenant_id ctx) (def\<lparr>ot_id := ?i\<rparr>) ?ts"
  define s2 where "s2 = s1\<lparr>tick := Suc (Suc (tick s1))\<rparr>"
  define s3 where "s3 = s2\<lparr>tick := tick s2 + 2, db := ?d\<rparr>"
  have "?i \<notin> (ot_id \<circ> ob_def) ` set (object_types (db s))"
    by (rule fresh_idsD(2) [OF fresh 1(3)])
  moreover have "(tenant_id ctx, ot_key def) \<notin> (\<lambda>r. (ob_tenant_id r, ot_key (ob_def r))) ` set (object_types (db s))"
    using assms(5) by (auto simp: find_object_type_def find_None_all)
  ultimately have m: "?m (s2\<lparr>tick := Suc (tick s2)\<rparr>) = (Inr (), s3)"
    using assms(1) tenant 1(2) by (simp add: insert_object_type_def run_stmt s2_def s3_def)
  have after: "tick s2 < tick s3" "audit_logs (db s3) = audit_logs (db s)"
    "tenants (db s3) = tenants (db s)" "set (roles (db s)) \<subseteq> set (roles (db s3))"
    by (simp_all add: s3_def)
  have "?i \<in> uuid_at k ` {tick s..<tick s3}"
    using 1(3) by (intro imageI) (simp add: s3_def s2_def)
  then have ids: "stored_ids (db s3) \<subseteq> stored_ids (db s) \<union> uuid_at k ` {tick s..<tick s3}"
    by (auto simp: stored_ids_def s3_def)
  have start: "db s2 = db s" "tick s \<le> tick s2" using 1 by (simp_all add: s2_def)
  obtain ev s' where
    4: "transaction k (seqK ?m (audit_change k ctx ''object_type.create'' (Some ''object_type'')
          (Some (ot_key def)) None (Some (jobj [(''key'', JString (ot_key def)),
             (''fields'', jnat (length (ot_fields def)))])) (\<lambda>ev. ev))) s2 = (Inr (), s')"
    "db s' = log_audit ev (db s3)" "may_install k ctx s'"
    using install_transaction_run [where m = ?m, OF assms(1,2) start m after ids] by blast
  have run: "create_object_type k ctx def s = (Inr (def\<lparr>ot_id := ?i\<rparr>), s')"
    using 1(1) 4(1) assms(3,4) validate_object_type_iff [of def]
    by (simp add: create_object_type_def run_simps s2_def)
  have "find_object_type (db s') (tenant_id ctx) (ot_key def) = Some (def\<lparr>ot_id := ?i\<rparr>)"
    "\<forall>key. key \<noteq> ot_key def \<longrightarrow>
        find_object_type (db s') (tenant_id ctx) key = find_object_type (db s) (tenant_id ctx) key"
    using assms(5) by (auto simp: 4(2) s3_def find_object_type_def find_append split: option.splits)
  with run 4 show ?thesis by (auto simp: s3_def)
qed

definition has_role :: "database \<Rightarrow> string \<Rightarrow> string \<Rightarrow> bool" where
  "has_role d t key \<longleftrightarrow> (\<exists>row\<in>set (roles d). ro_tenant_id row = t \<and> role_key (ro_role row) = key)"

lemma create_role_run:
  assumes "reliable k" "may_install k ctx s" "\<not> has_role (db s) (tenant_id ctx) key"
  shows "\<exists>role ts s'. create_role k ctx key name desc grants s = (Inr role, s') \<and> may_install k ctx s' \<and>
     role_key role = key \<and> role_grants role = grants \<and>
     roles (db s') = roles (db s) @ [\<lparr>ro_tenant_id = tenant_id ctx, ro_role = role, ro_created_at = ts\<rparr>] \<and>
     workflows (db s') = workflows (db s) \<and> object_types (db s') = object_types (db s)"
proof -
  have fresh: "fresh_ids k s" and tenant: "tenant_exists (db s) (tenant_id ctx)"
    and al: "allowed k (db s) ctx Configure ''admin:roles'' None"
    using assms(2) by (simp_all add: may_install_def)
  from authorize_run [OF assms(1) al] obtain s1 where
    1: "authorize k ctx Configure ''admin:roles'' None s = (Inr (), s1)" "db s1 = db s" "tick s \<le> tick s1"
    by auto
  let ?i = "uuid_at k (tick s1)" and ?ts = "rfc3339 k (now_at k (Suc (tick s1)))"
  let ?role = "\<lparr>role_id = ?i, role_key = key, role_name = name, role_description = desc,
                role_system = False, role_grants = grants\<rparr>"
  let ?row = "\<lparr>ro_tenant_id = tenant_id ctx, ro_role = ?role, ro_created_at = ?ts\<rparr>"
  let ?m = "insert_role k ?row"
  define s2 where "s2 = s1\<lparr>tick := Suc (Suc (tick s1))\<rparr>"
  define s3 where "s3 = s2\<lparr>tick := tick s2 + 2, db := (db s)\<lparr>roles := roles (db s) @ [?row]\<rparr>\<rparr>"
  have "?i \<notin> (role_id \<circ> ro_role) ` set (roles (db s))"
    by (rule fresh_idsD(3) [OF fresh 1(3)])
  moreover have "(tenant_id ctx, key) \<notin> (\<lambda>r. (ro_tenant_id r, role_key (ro_role r))) ` set (roles (db s))"
    using assms(3) by (auto simp: has_role_def)
  ultimately have m: "?m (s2\<lparr>tick := Suc (tick s2)\<rparr>) = (Inr (), s3)"
    using assms(1) tenant 1(2) by (simp add: insert_role_def run_stmt s2_def s3_def)
  have after: "tick s2 < tick s3" "audit_logs (db s3) = audit_logs (db s)"
    "tenants (db s3) = tenants (db s)" "set (roles (db s)) \<subseteq> set (roles (db s3))"
    by (auto simp: s3_def)
  have "?i \<in> uuid_at k ` {tick s..<tick s3}"
    using 1(3) by (intro imageI) (simp add: s3_def s2_def)
  then have ids: "stored_ids (db s3) \<subseteq> stored_ids (db s) \<union> uuid_at k ` {tick s..<tick s3}"
    by (auto simp: stored_ids_def s3_def)
  have start: "db s2 = db s" "tick s \<le> tick s2" using 1 by (simp_all add: s2_def)
  obtain ev s' where
    4: "transaction k (seqK ?m (audit_change k ctx ''role.create'' (Some ''role'') (Some ?i) None
          (Some (jobj [(''key'', JString key)])) (\<lambda>ev. ev))) s2 = (Inr (), s')"
    "db s' = log_audit ev (db s3)" "may_install k ctx s'"
    using install_transaction_run [where m = ?m, OF assms(1,2) start m after ids] by blast
  have "create_role k ctx key name desc grants s = (Inr ?role, s')"
    using 1(1) 4(1) by (simp add: create_role_def Let_def run_simps s2_def)
  with 4 show ?thesis by (auto simp: s3_def)
qed

section \<open>The loops\<close>

text \<open>
  A loop whose steps keep an invariant, establish one fact each, and disturb neither the
  precondition nor the fact of another element.
\<close>

lemma forK_run:
  assumes step: "\<And>x s. x \<in> U \<Longrightarrow> I s \<Longrightarrow> P x s \<Longrightarrow> \<exists>s'. f x s = (Inr (), s') \<and> I s' \<and> Q x s' \<and>
      (\<forall>y\<in>U. y \<noteq> x \<longrightarrow> (P y s \<longrightarrow> P y s') \<and> (Q y s \<longrightarrow> Q y s'))"
    and "set xs \<subseteq> U" "distinct xs" "I s" "\<forall>x\<in>set xs. P x s"
  shows "\<exists>s'. forK f xs s = (Inr (), s') \<and> I s' \<and> (\<forall>x\<in>set xs. Q x s') \<and>
     (\<forall>y\<in>U. y \<notin> set xs \<longrightarrow> Q y s \<longrightarrow> Q y s')"
  using assms(2-5)
proof (induction xs arbitrary: s)
  case Nil
  then show ?case by (auto simp: run_simps)
next
  case (Cons x xs)
  then obtain s1 where 1: "f x s = (Inr (), s1)" "I s1" "Q x s1"
    "\<forall>y\<in>U. y \<noteq> x \<longrightarrow> (P y s \<longrightarrow> P y s1) \<and> (Q y s \<longrightarrow> Q y s1)"
    using step [of x s] by auto
  with Cons.prems have "\<forall>y\<in>set xs. P y s1" by auto
  with Cons.IH [of s1] Cons.prems 1(2) obtain s2 where 2: "forK f xs s1 = (Inr (), s2)" "I s2"
    "\<forall>y\<in>set xs. Q y s2" "\<forall>y\<in>U. y \<notin> set xs \<longrightarrow> Q y s1 \<longrightarrow> Q y s2" by auto
  have "Q x s2" using 2(4) 1(3) Cons.prems by auto
  moreover have "\<forall>y\<in>U. y \<notin> set (x # xs) \<longrightarrow> Q y s \<longrightarrow> Q y s2" using 2(4) 1(4) by auto
  ultimately show ?case using 1(1) 2 by (auto simp: run_simps)
qed

lemma seqK_unit_run: "m s = (Inr x, s') \<Longrightarrow> seqK m (retK ()) s = (Inr (), s')"
  by (simp add: run_simps)

text \<open>What is stored once an element of the catalogue is installed.\<close>

definition workflow_stored :: "string \<Rightarrow> workflow_def \<Rightarrow> kstate \<Rightarrow> bool" where
  "workflow_stored t w s \<longleftrightarrow> find_workflow (db s) t (wf_key w) = Some w"

definition type_stored :: "string \<Rightarrow> object_type_def \<Rightarrow> kstate \<Rightarrow> bool" where
  "type_stored t ot s \<longleftrightarrow> (\<exists>i. find_object_type (db s) t (ot_key ot) = Some (ot\<lparr>ot_id := i\<rparr>))"

definition role_stored :: "string \<Rightarrow> role_spec \<Rightarrow> kstate \<Rightarrow> bool" where
  "role_stored t r s \<longleftrightarrow> list_ex (\<lambda>row. ro_tenant_id row = t \<and> role_key (ro_role row) = rs_key r \<and>
     role_grants (ro_role row) = rs_grants r) (roles (db s))"

lemma install_workflows_run:
  assumes "reliable k" "may_install k ctx s" "\<forall>w\<in>set ws. workflow_ok w" "distinct (map wf_key ws)"
  shows "\<exists>s'. forK (\<lambda>w. seqK (create_workflow k ctx w) (retK ())) ws s = (Inr (), s') \<and>
     may_install k ctx s' \<and> (\<forall>w\<in>set ws. workflow_stored (tenant_id ctx) w s') \<and>
     object_types (db s') = object_types (db s) \<and> roles (db s') = roles (db s)"
proof -
  let ?I = "\<lambda>s'. may_install k ctx s' \<and> object_types (db s') = object_types (db s) \<and> roles (db s') = roles (db s)"
  have inj: "y \<noteq> x \<Longrightarrow> wf_key y \<noteq> wf_key x" if "x \<in> set ws" "y \<in> set ws" for x y
    using assms(4) that by (auto simp: distinct_map inj_on_def)
  have "\<exists>s'. forK (\<lambda>w. seqK (create_workflow k ctx w) (retK ())) ws s = (Inr (), s') \<and> ?I s' \<and>
      (\<forall>w\<in>set ws. workflow_stored (tenant_id ctx) w s') \<and>
      (\<forall>w\<in>set ws. w \<notin> set ws \<longrightarrow> workflow_stored (tenant_id ctx) w s \<longrightarrow> workflow_stored (tenant_id ctx) w s')"
  proof (rule forK_run [where P = "\<lambda>_ _. True"])
    fix w s1
    assume w: "w \<in> set ws" and I: "?I s1"
    then obtain s2 where 2: "create_workflow k ctx w s1 = (Inr w, s2)" "may_install k ctx s2"
      "find_workflow (db s2) (tenant_id ctx) (wf_key w) = Some w"
      "\<forall>key. key \<noteq> wf_key w \<longrightarrow>
        find_workflow (db s2) (tenant_id ctx) key = find_workflow (db s1) (tenant_id ctx) key"
      "object_types (db s2) = object_types (db s1)" "roles (db s2) = roles (db s1)"
      using create_workflow_run [OF assms(1), of ctx s1 w] assms(3) by blast
    with I inj [OF w] seqK_unit_run [where m = "create_workflow k ctx w", OF 2(1)]
    show "\<exists>s'. seqK (create_workflow k ctx w) (retK ()) s1 = (Inr (), s') \<and> ?I s' \<and>
        workflow_stored (tenant_id ctx) w s' \<and> (\<forall>y\<in>set ws. y \<noteq> w \<longrightarrow> (True \<longrightarrow> True) \<and>
          (workflow_stored (tenant_id ctx) y s1 \<longrightarrow> workflow_stored (tenant_id ctx) y s'))"
      by (intro exI [of _ s2]) (auto simp: workflow_stored_def)
  qed (use assms in \<open>auto simp: distinct_map\<close>)
  then show ?thesis by blast
qed

lemma install_types_run:
  assumes "reliable k" "may_install k ctx s" "\<forall>ot\<in>set ots. object_type_ok ot \<and> ot_id ot = []"
    and "distinct (map ot_key ots)"
    and "\<forall>ot\<in>set ots. find_object_type (db s) (tenant_id ctx) (ot_key ot) = None"
  shows "\<exists>s'. forK (\<lambda>ot. seqK (create_object_type k ctx ot) (retK ())) ots s = (Inr (), s') \<and>
     may_install k ctx s' \<and> (\<forall>ot\<in>set ots. type_stored (tenant_id ctx) ot s') \<and>
     workflows (db s') = workflows (db s) \<and> roles (db s') = roles (db s)"
proof -
  let ?I = "\<lambda>s'. may_install k ctx s' \<and> workflows (db s') = workflows (db s) \<and> roles (db s') = roles (db s)"
  let ?P = "\<lambda>ot s. find_object_type (db s) (tenant_id ctx) (ot_key ot) = None"
  let ?Q = "type_stored (tenant_id ctx)" and ?f = "\<lambda>ot. seqK (create_object_type k ctx ot) (retK ())"
  have inj: "y \<noteq> x \<Longrightarrow> ot_key y \<noteq> ot_key x" if "x \<in> set ots" "y \<in> set ots" for x y
    using assms(4) that by (auto simp: distinct_map inj_on_def)
  have "\<exists>s'. forK ?f ots s = (Inr (), s') \<and> ?I s' \<and> (\<forall>ot\<in>set ots. ?Q ot s') \<and>
      (\<forall>ot\<in>set ots. ot \<notin> set ots \<longrightarrow> ?Q ot s \<longrightarrow> ?Q ot s')"
  proof (rule forK_run [where P = ?P])
    fix ot s1
    assume ot: "ot \<in> set ots" and I: "?I s1" and P: "?P ot s1"
    have "object_type_ok ot" "ot_id ot = []" using assms(3) ot by auto
    from create_object_type_run [OF assms(1) conjunct1 [OF I] this P] obtain i s2 where
      2: "create_object_type k ctx ot s1 = (Inr (ot\<lparr>ot_id := i\<rparr>), s2)" "may_install k ctx s2"
      "find_object_type (db s2) (tenant_id ctx) (ot_key ot) = Some (ot\<lparr>ot_id := i\<rparr>)"
      "\<forall>key. key \<noteq> ot_key ot \<longrightarrow>
        find_object_type (db s2) (tenant_id ctx) key = find_object_type (db s1) (tenant_id ctx) key"
      "workflows (db s2) = workflows (db s1)" "roles (db s2) = roles (db s1)" by blast
    with I inj [OF ot] seqK_unit_run [where m = "create_object_type k ctx ot", OF 2(1)]
    show "\<exists>s'. ?f ot s1 = (Inr (), s') \<and> ?I s' \<and> ?Q ot s' \<and>
        (\<forall>y\<in>set ots. y \<noteq> ot \<longrightarrow> (?P y s1 \<longrightarrow> ?P y s') \<and> (?Q y s1 \<longrightarrow> ?Q y s'))"
      by (intro exI [of _ s2]) (auto simp: type_stored_def)
  qed (use assms in \<open>auto simp: distinct_map\<close>)
  then show ?thesis by blast
qed

lemma install_roles_run:
  assumes "reliable k" "may_install k ctx s" "distinct (map rs_key rs)"
    and "\<forall>r\<in>set rs. \<not> has_role (db s) (tenant_id ctx) (rs_key r)"
  shows "\<exists>s'. forK (\<lambda>r. seqK (create_role k ctx (rs_key r) (rs_name r) (Some (rs_description r))
       (rs_grants r)) (retK ())) rs s = (Inr (), s') \<and>
     (\<forall>r\<in>set rs. role_stored (tenant_id ctx) r s') \<and>
     workflows (db s') = workflows (db s) \<and> object_types (db s') = object_types (db s)"
proof -
  let ?I = "\<lambda>s'. may_install k ctx s' \<and> workflows (db s') = workflows (db s) \<and>
     object_types (db s') = object_types (db s)"
  let ?P = "\<lambda>r s. \<not> has_role (db s) (tenant_id ctx) (rs_key r)"
  let ?create = "\<lambda>r. create_role k ctx (rs_key r) (rs_name r) (Some (rs_description r)) (rs_grants r)"
  let ?Q = "role_stored (tenant_id ctx)" and ?f = "\<lambda>r. seqK (?create r) (retK ())"
  have inj: "y \<noteq> x \<Longrightarrow> rs_key y \<noteq> rs_key x" if "x \<in> set rs" "y \<in> set rs" for x y
    using assms(3) that by (auto simp: distinct_map inj_on_def)
  have "\<exists>s'. forK ?f rs s = (Inr (), s') \<and> ?I s' \<and> (\<forall>r\<in>set rs. ?Q r s') \<and>
      (\<forall>r\<in>set rs. r \<notin> set rs \<longrightarrow> ?Q r s \<longrightarrow> ?Q r s')"
  proof (rule forK_run [where P = ?P])
    fix r s1
    assume r: "r \<in> set rs" and I: "?I s1" and P: "?P r s1"
    from create_role_run [OF assms(1) conjunct1 [OF I] P] obtain role ts s2 where
      2: "?create r s1 = (Inr role, s2)" "may_install k ctx s2" "role_key role = rs_key r"
      "role_grants role = rs_grants r"
      "roles (db s2) = roles (db s1) @ [\<lparr>ro_tenant_id = tenant_id ctx, ro_role = role, ro_created_at = ts\<rparr>]"
      "workflows (db s2) = workflows (db s1)" "object_types (db s2) = object_types (db s1)" by blast
    have "\<forall>y\<in>set rs. rs_key r = rs_key y \<longrightarrow> y = r" using inj [OF r] by metis
    with I 2 seqK_unit_run [where m = "?create r", OF 2(1)]
    show "\<exists>s'. ?f r s1 = (Inr (), s') \<and> ?I s' \<and> ?Q r s' \<and>
        (\<forall>y\<in>set rs. y \<noteq> r \<longrightarrow> (?P y s1 \<longrightarrow> ?P y s') \<and> (?Q y s1 \<longrightarrow> ?Q y s'))"
      by (intro exI [of _ s2]) (auto simp: role_stored_def has_role_def)
  qed (use assms in \<open>auto simp: distinct_map\<close>)
  then show ?thesis by blast
qed

end
