(* ===== verification/BusinessModules.thy ===== *)
theory BusinessModules
  imports Installation Sample
begin

text \<open>
  Properties of the business modules: the installation of the catalogue into a fresh tenant succeeds
  and stores all of it, and its roles keep the
  boundaries their documentation names: compensation is for HR managers, approvals are not for
  the staff roles.
\<close>

section \<open>The catalogue\<close>

text \<open>What the installation needs of the catalogue: it passes the validation of the kernel.\<close>

definition type_resolves :: "object_type_def \<Rightarrow> bool" where
  "type_resolves ot \<longleftrightarrow>
     validate_object_type ot = Inr () \<and> ot_id ot = [] \<and>
     (case ot_display_field ot of None \<Rightarrow> False | Some key \<Rightarrow>
        (case field_of ot key of None \<Rightarrow> False | Some f \<Rightarrow> f_required f \<and> \<not> f_restricted f)) \<and>
     list_all (\<lambda>f. case f_ref_object_type f of None \<Rightarrow> f_type f \<noteq> RecordRef
                 | Some key \<Rightarrow> key \<in> set (map ot_key module_object_types)) (ot_fields ot) \<and>
     (case ot_workflow_key ot of None \<Rightarrow> True | Some key \<Rightarrow>
        (case find (\<lambda>w. wf_key w = key) module_workflows of None \<Rightarrow> False | Some w \<Rightarrow>
           wf_object_type w = ot_key ot \<and>
           (case field_of ot ''status'' of None \<Rightarrow> False | Some f \<Rightarrow>
              f_enum_options f = map ws_key (wf_states w))))"

definition workflow_sound :: "workflow_def \<Rightarrow> bool" where
  "workflow_sound w \<longleftrightarrow>
     validate_workflow w = Inr () \<and>
     list_all (\<lambda>q. ws_key q = wf_initial_state w \<or>
       list_ex (\<lambda>t. t_to t = ws_key q) (wf_transitions w)) (wf_states w) \<and>
     list_all (\<lambda>q. ws_terminal q = (available_from w (ws_key q) = [])) (wf_states w)"

lemma types_resolve: "list_all type_resolves module_object_types"
  by code_simp

lemma workflows_sound: "list_all workflow_sound module_workflows"
  by code_simp

lemma catalogue_keys_distinct:
  "distinct (map ot_key module_object_types)" "distinct (map wf_key module_workflows)"
  "distinct (map role_key system_roles @ map rs_key business_roles)"
  by code_simp+

section \<open>Installation\<close>

text \<open>
  C35: Installation completes: without storage faults, for a caller who may configure workflows,
  object types and roles, in a tenant that exists and has none of the catalogue's object types and
  roles, with identifiers that do not repeat, \<open>install\<close> returns successfully, and afterwards the
  tenant has every workflow of the catalogue (overwriting one of the same key), every object type
  (with an identifier of its own) and every role with its grants.
\<close>

theorem install_completes:
  assumes "reliable k" "may_install k ctx s"
    and "\<forall>ot\<in>set module_object_types. find_object_type (db s) (tenant_id ctx) (ot_key ot) = None"
    and "\<forall>r\<in>set business_roles. \<not> has_role (db s) (tenant_id ctx) (rs_key r)"
  shows "\<exists>s'. install k ctx s = (Inr (), s') \<and>
    (\<forall>w\<in>set module_workflows. workflow_stored (tenant_id ctx) w s') \<and>
    (\<forall>ot\<in>set module_object_types. type_stored (tenant_id ctx) ot s') \<and>
    (\<forall>r\<in>set business_roles. role_stored (tenant_id ctx) r s')"
proof -
  have ok: "\<forall>w\<in>set module_workflows. workflow_ok w"
    "\<forall>ot\<in>set module_object_types. object_type_ok ot \<and> ot_id ot = []"
    "distinct (map rs_key business_roles)"
    using workflows_sound types_resolve catalogue_keys_distinct(3)
    by (simp_all add: list_all_iff workflow_sound_def type_resolves_def validate_workflow_iff
        validate_object_type_iff)
  from install_workflows_run [OF assms(1,2) ok(1) catalogue_keys_distinct(2)] obtain s1 where
    1: "forK (\<lambda>w. seqK (create_workflow k ctx w) (retK ())) module_workflows s = (Inr (), s1)"
    "may_install k ctx s1" "\<forall>w\<in>set module_workflows. workflow_stored (tenant_id ctx) w s1"
    "object_types (db s1) = object_types (db s)" "roles (db s1) = roles (db s)" by blast
  have fresh: "\<forall>ot\<in>set module_object_types. find_object_type (db s1) (tenant_id ctx) (ot_key ot) = None"
    using assms(3) 1(4) by (simp add: find_object_type_def)
  from install_types_run [OF assms(1) 1(2) ok(2) catalogue_keys_distinct(1) fresh] obtain s2 where
    2: "forK (\<lambda>ot. seqK (create_object_type k ctx ot) (retK ())) module_object_types s1 = (Inr (), s2)"
    "may_install k ctx s2" "\<forall>ot\<in>set module_object_types. type_stored (tenant_id ctx) ot s2"
    "workflows (db s2) = workflows (db s1)" "roles (db s2) = roles (db s1)" by blast
  have "\<forall>r\<in>set business_roles. \<not> has_role (db s2) (tenant_id ctx) (rs_key r)"
    using assms(4) 1(5) 2(5) by (simp add: has_role_def)
  from install_roles_run [OF assms(1) 2(2) ok(3) this] obtain s3 where
    3: "forK (\<lambda>role. seqK (create_role k ctx (rs_key role) (rs_name role)
          (Some (rs_description role)) (rs_grants role)) (retK ())) business_roles s2 = (Inr (), s3)"
    "\<forall>r\<in>set business_roles. role_stored (tenant_id ctx) r s3"
    "workflows (db s3) = workflows (db s2)" "object_types (db s3) = object_types (db s2)" by blast
  have "install k ctx s = (Inr (), s3)"
    using 1(1) 2(1) 3(1) by (simp add: install_def run_simps)
  moreover have "\<forall>w\<in>set module_workflows. workflow_stored (tenant_id ctx) w s3"
    "\<forall>ot\<in>set module_object_types. type_stored (tenant_id ctx) ot s3"
    using 1(3) 2(3,4) 3(3,4) by (simp_all add: workflow_stored_def type_stored_def find_workflow_def
        find_object_type_def)
  ultimately show ?thesis using 3(2) by blast
qed

definition fresh_tenant :: kstate where
  "fresh_tenant = demo_state\<lparr>db := demo_db\<lparr>object_types := []\<rparr>\<rparr>"

lemma may_install_demo: "may_install demo ann fresh_tenant"
proof -
  have "inj (uuid_at demo)" by (rule injI) (simp add: demo_def)
  moreover have "uuid_at demo n \<notin> stored_ids (db fresh_tenant)" for n
    by (auto simp: stored_ids_def fresh_tenant_def demo_def demo_defs system_roles_def)
  ultimately show ?thesis
    by (simp add: may_install_def fresh_ids_def allowed_eval)
      (simp add: fresh_tenant_def tenant_exists_def demo_defs access_defs)
qed

theorem install_completes_witness:
  "\<exists>s'. install demo ann fresh_tenant = (Inr (), s') \<and>
     list_all (\<lambda>r. role_stored ''acme'' r s') business_roles"
proof -
  have "tenant_id ann = ''acme''" by (simp add: demo_defs)
  moreover have "\<forall>ot\<in>set module_object_types.
      find_object_type (db fresh_tenant) (tenant_id ann) (ot_key ot) = None"
    by (simp add: fresh_tenant_def find_object_type_def)
  moreover have "rs_key ` set business_roles \<inter> {''tenant_admin'', ''member'', ''clerk''} = {}"
    by code_simp
  then have "\<forall>r\<in>set business_roles. \<not> has_role (db fresh_tenant) (tenant_id ann) (rs_key r)"
    by (auto simp: has_role_def fresh_tenant_def demo_defs system_roles_def)
  ultimately show ?thesis
    using install_completes [OF reliable_demo may_install_demo] by (auto simp: list_all_iff)
qed

section \<open>Role boundaries\<close>

text \<open>The caller's roles in its tenant are copies of the given specifications.\<close>

definition holds_only :: "database \<Rightarrow> auth_context \<Rightarrow> role_spec list \<Rightarrow> bool" where
  "holds_only d ctx specs \<longleftrightarrow>
     list_all (\<lambda>row. ro_tenant_id row = tenant_id ctx \<and> role_key (ro_role row) \<in> set (role_keys ctx) \<longrightarrow>
       role_grants (ro_role row) \<in> set (map rs_grants specs)) (roles d)"

lemma holds_only_granted:
  assumes "holds_only d ctx specs" "g \<in> granted k d ctx act resource target"
  obtains r where "r \<in> set specs" "g \<in> set (rs_grants r)" "grant_covers k ctx act resource target g"
  using assms unfolding holds_only_def granted_def list_all_iff by fastforce

definition staff_roles :: "role_spec list" where
  "staff_roles = [finance_user, sales_rep, procurement_agent, inventory_user, hr_user, exec]"

lemma staff_grants: "list_all (\<lambda>r. list_all (\<lambda>g. \<not> action_covered_by (g_action g) Approve) (rs_grants r)) staff_roles"
  by code_simp

lemma staff_not_allowed:
  assumes "holds_only d ctx staff_roles" "\<not> trusted ctx"
  shows "\<not> allowed k d ctx Approve resource target"
  using assms(2) staff_grants
  by (auto simp: allowed_def list_all_iff grant_covers_def elim!: holds_only_granted [OF assms(1)])

text \<open>
  Staff never decide an approval. A caller whose roles are the finance user, sales
  representative, procurement agent, inventory user, HR user or executive role of the catalogue
  gets an error from every attempt to approve or reject, whatever the approval is about, and the
  attempt leaves nothing behind but logged denials.
\<close>

theorem staff_never_decide:
  assumes "holds_only (db s) ctx staff_roles" "\<not> trusted ctx"
  shows "\<exists>e s'. decide_approval k ctx aid approved reason s = (Inl e, s') \<and>
    only_denials (tenant_id ctx) (db s) (db s')"
proof -
  obtain r s' where run: "decide_approval k ctx aid approved reason s = (r, s')" by fastforce
  have "r \<noteq> Inr ap" for ap
    using staff_not_allowed [OF assms] run by (auto elim!: decide_approval_Inr)
  then obtain e where "r = Inl e" by (cases r) auto
  with run clean_errors_decide_approval [of ctx k aid approved reason] show ?thesis
    by (auto simp: clean_errors_def)
qed

text \<open>The sample tenant with one role, held by \<open>bob\<close>, that has the grants of a specification.\<close>

definition with_role :: "role_spec \<Rightarrow> database \<Rightarrow> database" where
  "with_role spec d = d\<lparr>roles :=
     [\<lparr>ro_tenant_id = ''acme'', ro_role =
        \<lparr>role_id = ''role3'', role_key = ''clerk'', role_name = rs_name spec, role_description = None,
         role_system = False, role_grants = rs_grants spec\<rparr>,
        ro_created_at = time_text 1\<rparr>]\<rparr>"

definition staff_state :: kstate where
  "staff_state = demo_state\<lparr>db := with_role finance_user demo_db\<rparr>"

theorem staff_never_decide_witness:
  "\<exists>e s'. decide_approval demo bob ''ap1'' True None staff_state = (Inl e, s') \<and>
     approvals (db s') = [demo_approval]"
proof -
  have "holds_only (db staff_state) bob staff_roles"
    by (simp add: holds_only_def staff_state_def with_role_def staff_roles_def)
  moreover have "\<not> trusted bob" by (simp add: demo_defs)
  ultimately obtain e s' where "decide_approval demo bob ''ap1'' True None staff_state = (Inl e, s')"
    "only_denials (tenant_id bob) (db staff_state) (db s')"
    using staff_never_decide by blast
  then show ?thesis by (auto simp: only_denials_def staff_state_def with_role_def demo_defs)
qed

text \<open>Compensation.\<close>

definition employee_type :: object_type_def where
  "employee_type = the (find (\<lambda>ot. ot_key ot = ''employee'') module_object_types)"

definition non_hr_roles :: "role_spec list" where
  "non_hr_roles = filter (\<lambda>r. rs_key r \<noteq> ''hr_manager'') business_roles"

lemma non_hr_grants: "list_all (\<lambda>r. list_all (\<lambda>g. g_fields g = None) (rs_grants r)) non_hr_roles"
  by code_simp

lemma salary_restricted:
  "field_of employee_type ''salary'' = Some (restricted (new_field ''salary'' ''Salary'' Money))"
  by code_simp

text \<open>
  Compensation is for HR managers. A caller whose roles are any roles of the catalogue other
  than the HR manager's, the executive and the HR user included, reads an employee record, where
  it may, without the salary.
\<close>

theorem salary_hidden:
  assumes "get_record k ctx rid s = (Inr r', s')" "r_object_type r' = ''employee''"
    and "find_object_type (db s) (tenant_id ctx) ''employee'' = Some (employee_type\<lparr>ot_id := i\<rparr>)"
    and "holds_only (db s) ctx non_hr_roles" "\<not> trusted ctx"
  shows "jget (r_data r') ''salary'' = None"
proof (rule get_record_Inr [OF assms(1)])
  fix r ot
  assume 1: "r' = project_fields (can_see k (db s) ctx ot r) r"
    "find_object_type (db s) (tenant_id ctx) (r_object_type r) = Some ot"
  have "r_object_type r = ''employee''" using assms(2) 1(1) by (simp add: project_fields_def)
  with 1(2) assms(3) have "ot = employee_type\<lparr>ot_id := i\<rparr>" by simp
  then have "field_of ot ''salary'' = Some (restricted (new_field ''salary'' ''Salary'' Money))"
    using salary_restricted by (simp add: field_of_def)
  moreover have "g_fields g = None" if "g \<in> granted k (db s) ctx act resource target" for g act resource target
    using holds_only_granted [OF assms(4) that] non_hr_grants by (auto simp: list_all_iff)
  ultimately have "\<not> can_see k (db s) ctx ot r ''salary''"
    using assms(5) by (fastforce simp: can_see_def restricted_def)
  then show ?thesis using 1(1) by (simp add: project_fields_def)
qed

definition employee_record :: record_t where
  "employee_record =
     \<lparr>r_id = ''emp1'', r_object_type = ''employee'', r_tenant_id = ''acme'', r_org_id = ''org1'',
      r_workspace_id = None,
      r_data = [(''name'', JString ''Ann''), (''salary'', JNumber (PosInt 90))],
      r_lifecycle = Active, r_workflow_state = None, r_created_by = ''ann'',
      r_created_at = time_text 1, r_updated_at = time_text 1, r_archived_at = None\<rparr>"

definition hr_state :: kstate where
  "hr_state = demo_state\<lparr>db := with_role hr_user (demo_db\<lparr>records := [employee_record],
     object_types := [\<lparr>ob_tenant_id = ''acme'', ob_def = employee_type\<lparr>ot_id := ''ot9''\<rparr>,
                       ob_created_at = time_text 1\<rparr>]\<rparr>)\<rparr>"

lemma employee_key: "ot_key employee_type = ''employee''"
  by code_simp

lemma hr_user_listed: "hr_user \<in> set non_hr_roles"
proof -
  have "hr_user \<in> set business_roles" by (simp add: business_roles_def)
  moreover have "rs_key hr_user = ''hr_user''" by (simp add: hr_user_def)
  ultimately show ?thesis by (simp add: non_hr_roles_def)
qed

lemma employee_found: "find_record (db hr_state) ''acme'' ''emp1'' = Some employee_record"
  by (simp add: find_record_def hr_state_def with_role_def employee_record_def)

lemma employee_type_found:
  "find_object_type (db hr_state) ''acme'' ''employee'' = Some (employee_type\<lparr>ot_id := ''ot9''\<rparr>)"
  by (simp add: find_object_type_def hr_state_def with_role_def employee_key)

text \<open>A record that may be read, of a type that exists, is returned.\<close>

lemma get_record_run:
  assumes "reliable k" "find_record (db s) (tenant_id ctx) rid = Some r"
    and "allowed k (db s) ctx Read (resource_for (r_object_type r)) (Some r)"
    and "find_object_type (db s) (tenant_id ctx) (r_object_type r) = Some ot"
  shows "succeeds (get_record k ctx rid) s"
proof -
  let ?s1 = "s\<lparr>tick := Suc (tick s)\<rparr>"
  have 1: "require_record k ctx rid ''record not found'' s = (Inr r, ?s1)"
    using assms(1,2) by (simp add: require_record_Inr)
  obtain s2 where 2: "authorize k ctx Read (resource_for (r_object_type r)) (Some r) ?s1 = (Inr (), s2)"
    "db s2 = db s"
    using authorize_run [of k ?s1 ctx Read] assms(1,3) by auto
  have 3: "load_object_type k (tenant_id ctx) (r_object_type r) s2 = (Inr ot, s2\<lparr>tick := Suc (tick s2)\<rparr>)"
    using load_object_type_run [of k s2 "tenant_id ctx" "r_object_type r" ot] assms(1,4) 2(2) by simp
  obtain gs s4 where 4: "effective_grants k ctx (s2\<lparr>tick := Suc (tick s2)\<rparr>) = (Inr gs, s4)"
    using effective_grants_run [OF assms(1)] by blast
  have "\<exists>r' s'. project_for_read k ctx r ot (s2\<lparr>tick := Suc (tick s2)\<rparr>) = (Inr r', s')"
    using 4 by (simp add: project_for_read_def run_simps Let_def)
  then show ?thesis
    using 1 2 3 by (auto simp: succeeds_def get_record_def run_simps)
qed

lemma hr_reads_employee: "succeeds (get_record demo bob ''emp1'') hr_state"
proof (rule get_record_run [OF reliable_demo])
  have tenant: "tenant_id bob = ''acme''" by (simp add: demo_defs)
  show "find_record (db hr_state) (tenant_id bob) ''emp1'' = Some employee_record"
    unfolding tenant by (rule employee_found)
  show "find_object_type (db hr_state) (tenant_id bob) (r_object_type employee_record) =
      Some (employee_type\<lparr>ot_id := ''ot9''\<rparr>)"
    using employee_type_found by (simp add: tenant employee_record_def)
  let ?g = "org_grant Read ''object:employee''"
  have "?g \<in> set (rs_grants hr_user)" by code_simp
  moreover have "grant_covers demo bob Read (resource_for ''employee'') (Some employee_record) ?g"
    by (simp add: org_grant_def demo_defs access_defs employee_record_def resource_for_def)
  ultimately have "?g \<in> granted demo (db hr_state) bob Read (resource_for ''employee'') (Some employee_record)"
    by (simp add: granted_def hr_state_def with_role_def demo_defs)
  then show "allowed demo (db hr_state) bob Read (resource_for (r_object_type employee_record))
      (Some employee_record)"
    by (auto simp: allowed_def employee_record_def)
qed

theorem salary_hidden_witness:
  "\<exists>r' s'. get_record demo bob ''emp1'' hr_state = (Inr r', s') \<and> jget (r_data r') ''salary'' = None"
proof -
  obtain r' s' where run: "get_record demo bob ''emp1'' hr_state = (Inr r', s')"
    using hr_reads_employee by (rule succeedsE)
  have tenant: "tenant_id bob = ''acme''" by (simp add: demo_defs)
  have "r_object_type r' = ''employee''"
    by (rule get_record_Inr [OF run])
      (auto simp: tenant employee_found project_fields_def employee_record_def)
  moreover have "find_object_type (db hr_state) (tenant_id bob) ''employee'' = Some (employee_type\<lparr>ot_id := ''ot9''\<rparr>)"
    unfolding tenant by (rule employee_type_found)
  moreover have "holds_only (db hr_state) bob non_hr_roles"
    using hr_user_listed by (simp add: holds_only_def hr_state_def with_role_def)
  moreover have "\<not> trusted bob" by (simp add: demo_defs)
  ultimately show ?thesis using salary_hidden [OF run] run by blast
qed

end
