(* ===== verification/LimiterSpec.thy ===== *)
theory LimiterSpec
  imports RateLimit
begin

text \<open>
  The specification of the login limiter and the refinement. The specification remembers, for each
  key, the times of the failures of the current window and never forgets a key; it answers a
  question about a lock from that history. The limiter keeps a start and a 32-bit counter, drops an
  expired entry when it is asked about it and prunes the table now and then. On every sequence of
  calls with a clock that does not run backwards the two give the same answers.
\<close>

section \<open>The specification\<close>

text \<open>The failures of the current window, the latest first; the last element opened the window.\<close>

type_synonym failure_history = "string \<Rightarrow> nat list"

definition window_open :: "nat \<Rightarrow> nat list \<Rightarrow> bool" where
  "window_open t ts \<longleftrightarrow> ts \<noteq> [] \<and> t < last ts + window_ns"

definition spec_locked :: "nat \<Rightarrow> string \<Rightarrow> failure_history \<Rightarrow> bool" where
  "spec_locked t key h \<longleftrightarrow> window_open t (h key) \<and> 10 \<le> length (h key)"

definition spec_fail :: "nat \<Rightarrow> nat \<Rightarrow> string \<Rightarrow> failure_history \<Rightarrow> failure_history" where
  "spec_fail now now' key h = h(key := if window_open now' (h key) then now # h key else [now])"

definition spec_reset :: "string \<Rightarrow> failure_history \<Rightarrow> failure_history" where
  "spec_reset key h = h(key := [])"

section \<open>Sequences of calls\<close>

datatype limiter_call =
    AskLocked nat string
  | Fail nat nat string
  | Reset string
  | Prune nat

text \<open>The answers to the questions, in order.\<close>

fun limiter_run :: "limiter_call list \<Rightarrow> login_limiter \<Rightarrow> bool list" where
  "limiter_run [] st = []"
| "limiter_run (AskLocked t key # cs) st =
     (let (answer, st') = is_locked t key st in answer # limiter_run cs st')"
| "limiter_run (Fail now now' key # cs) st = limiter_run cs (snd (record_failure now now' key st))"
| "limiter_run (Reset key # cs) st = limiter_run cs (reset key st)"
| "limiter_run (Prune t # cs) st = limiter_run cs (prune t st)"

fun spec_run :: "limiter_call list \<Rightarrow> failure_history \<Rightarrow> bool list" where
  "spec_run [] h = []"
| "spec_run (AskLocked t key # cs) h = spec_locked t key h # spec_run cs h"
| "spec_run (Fail now now' key # cs) h = spec_run cs (spec_fail now now' key h)"
| "spec_run (Reset key # cs) h = spec_run cs (spec_reset key h)"
| "spec_run (Prune t # cs) h = spec_run cs h"

text \<open>The clock never runs backwards, within a call and from one call to the next.\<close>

fun clocked :: "nat \<Rightarrow> limiter_call list \<Rightarrow> bool" where
  "clocked t [] = True"
| "clocked t (AskLocked t' key # cs) = (t \<le> t' \<and> clocked t' cs)"
| "clocked t (Fail now now' key # cs) = (t \<le> now \<and> now \<le> now' \<and> clocked now' cs)"
| "clocked t (Reset key # cs) = clocked t cs"
| "clocked t (Prune t' # cs) = (t \<le> t' \<and> clocked t' cs)"

section \<open>The simulation\<close>

text \<open>The window an observer at time \<open>t\<close> still sees.\<close>

definition live_window :: "nat \<Rightarrow> failure_window option \<Rightarrow> (nat \<times> 32 word) option" where
  "live_window t e =
     (case e of
        Some w \<Rightarrow> if t < window_start w + window_ns then Some (window_start w, failures w) else None
      | None \<Rightarrow> None)"

definition spec_window :: "nat \<Rightarrow> nat list \<Rightarrow> (nat \<times> 32 word) option" where
  "spec_window t ts = (if window_open t ts then Some (last ts, of_nat (length ts)) else None)"

definition simulates :: "nat \<Rightarrow> login_limiter \<Rightarrow> failure_history \<Rightarrow> bool" where
  "simulates t0 st h \<longleftrightarrow> (\<forall>key t. t0 \<le> t \<longrightarrow> live_window t (st key) = spec_window t (h key))"

lemma elapsed_expired: "elapsed t start \<ge> window_ns \<longleftrightarrow> \<not> t < start + window_ns"
  using window_ns_pos unfolding elapsed_def by linarith

lemma elapsed_live: "elapsed t start < window_ns \<longleftrightarrow> t < start + window_ns"
  using elapsed_expired [of t start] by linarith

lemma simulates_later: "simulates t0 st h \<Longrightarrow> t0 \<le> t1 \<Longrightarrow> simulates t1 st h"
  by (simp add: simulates_def)

text \<open>Dropping an expired entry cannot be observed later.\<close>

lemma is_locked_window: "t \<le> u \<Longrightarrow> live_window u (snd (is_locked t key st) k) = live_window u (st k)"
  by (auto simp: is_locked_def elapsed_expired live_window_def split: option.splits)

lemma prune_window: "t \<le> u \<Longrightarrow> live_window u (prune t st k) = live_window u (st k)"
  by (auto simp: prune_def elapsed_live live_window_def split: option.splits)

lemma is_locked_answer: "fst (is_locked t key st) \<longleftrightarrow>
    (case live_window t (st key) of None \<Rightarrow> False | Some (_, n) \<Rightarrow> MAX_FAILURES \<le> n)"
  by (auto simp: is_locked_def elapsed_expired live_window_def split: option.splits)

lemma locked_simulates:
  assumes "simulates t0 st h" "t0 \<le> t" "length (h key) < 2 ^ 32"
  shows "fst (is_locked t key st) = spec_locked t key h"
proof -
  have "(10 :: 32 word) \<le> of_nat (length (h key)) \<longleftrightarrow> 10 \<le> length (h key)"
    using assms(3) by (simp add: word_le_nat_alt unat_of_nat)
  moreover have "live_window t (st key) = spec_window t (h key)"
    using assms by (simp add: simulates_def)
  ultimately show ?thesis
    by (simp add: is_locked_answer spec_window_def spec_locked_def MAX_FAILURES_def)
qed

lemma record_failure_window:
  assumes "now \<le> now'" "now' \<le> u"
  shows "live_window u (snd (record_failure now now' key st) k) =
    (if k \<noteq> key then live_window u (st k)
     else case live_window now' (st key) of
            None \<Rightarrow> if u < now + window_ns then Some (now, 1) else None
          | Some (start, n) \<Rightarrow> if u < start + window_ns then Some (start, n + 1) else None)"
  using assms
  by (auto simp: record_failure_def Let_def elapsed_expired live_window_def split: option.splits)

lemma spec_fail_window:
  assumes "now' \<le> u"
  shows "spec_window u (spec_fail now now' key h k) =
    (if k \<noteq> key then spec_window u (h k)
     else case spec_window now' (h key) of
            None \<Rightarrow> if u < now + window_ns then Some (now, 1) else None
          | Some (start, n) \<Rightarrow> if u < start + window_ns then Some (start, n + 1) else None)"
  using assms by (auto simp: spec_fail_def spec_window_def window_open_def)

lemma record_failure_simulates:
  assumes "simulates t0 st h" "t0 \<le> now" "now \<le> now'"
  shows "simulates now' (snd (record_failure now now' key st)) (spec_fail now now' key h)"
  using assms by (simp add: simulates_def record_failure_window spec_fail_window)

lemma reset_simulates: "simulates t0 st h \<Longrightarrow> simulates t0 (reset key st) (spec_reset key h)"
  by (simp add: simulates_def reset_def spec_reset_def live_window_def spec_window_def window_open_def)

lemma spec_fail_length: "length (spec_fail now now' key h k) \<le> Suc (length (h k))"
  by (simp add: spec_fail_def)

lemma run_simulates:
  assumes "simulates t0 st h" "clocked t0 cs" "\<And>key. length (h key) + length cs < 2 ^ 32"
  shows "limiter_run cs st = spec_run cs h"
  using assms
proof (induction cs arbitrary: t0 st h)
  case (Cons c cs)
  show ?case
  proof (cases c)
    case (AskLocked t key)
    with Cons.prems have "simulates t (snd (is_locked t key st)) h"
      by (simp add: simulates_def is_locked_window)
    moreover have "fst (is_locked t key st) = spec_locked t key h"
      using Cons.prems AskLocked add_lessD1 [OF Cons.prems(3) [of key]]
      by (intro locked_simulates [of t0]) auto
    moreover have "length (h k) + length cs < 2 ^ 32" for k using Cons.prems(3) [of k] by simp
    ultimately show ?thesis
      using Cons.IH [of t "snd (is_locked t key st)" h] Cons.prems(2) AskLocked
      by (simp add: Let_def case_prod_beta)
  next
    case (Fail now now' key)
    have "length (spec_fail now now' key h k) + length cs < 2 ^ 32" for k
      using Cons.prems(3) [of k] spec_fail_length [of now now' key h k] by simp
    then show ?thesis
      using Cons.IH [OF record_failure_simulates [of t0 st h now now' key]] Cons.prems Fail by simp
  next
    case (Reset key)
    have "length (spec_reset key h k) + length cs < 2 ^ 32" for k
      using Cons.prems(3) [of k] by (simp add: spec_reset_def)
    then show ?thesis
      using Cons.IH [OF reset_simulates [of t0 st h key]] Cons.prems Reset by simp
  next
    case (Prune t)
    with Cons.prems have "simulates t (prune t st) h" by (simp add: simulates_def prune_window)
    moreover have "length (h k) + length cs < 2 ^ 32" for k using Cons.prems(3) [of k] by simp
    ultimately show ?thesis using Cons.IH [of t "prune t st" h] Cons.prems(2) Prune by simp
  qed
qed simp

text \<open>
  C23: The login limiter refines its specification: starting empty, on every sequence of fewer than
  2^32 questions, failures, resets and prunings under a clock that never runs backwards, the
  limiter gives exactly the answers the histories give: a key is locked if and only if the
  window its history opened has not lasted fifteen minutes and holds at least ten failures. In
  particular neither the eviction of expired entries nor the 32-bit counter can be observed.
\<close>

theorem limiter_refines_history:
  assumes "clocked t0 cs" "length cs < 2 ^ 32"
  shows "limiter_run cs (\<lambda>_. None) = spec_run cs (\<lambda>_. [])"
  using assms
  by (intro run_simulates [of t0])
    (auto simp: simulates_def live_window_def spec_window_def window_open_def)

theorem limiter_refines_history_witness:
  "limiter_run (AskLocked 5 ''k'' # map (\<lambda>t. Fail t t ''k'') [7, 7, 8, 8, 9, 9, 9, 10, 11, 12] @
       [AskLocked 13 ''k'', AskLocked 13 ''j'', Prune (7 + window_ns), AskLocked (7 + window_ns) ''k''])
     (\<lambda>_. None) = [False, True, False, False]"
proof -
  let ?cs = "AskLocked 5 ''k'' # map (\<lambda>t. Fail t t ''k'') [7, 7, 8, 8, 9, 9, 9, 10, 11, 12] @
       [AskLocked 13 ''k'', AskLocked 13 ''j'', Prune (7 + window_ns), AskLocked (7 + window_ns) ''k'']"
  have "clocked 5 ?cs" by (simp add: window_ns_def WINDOW_SECS_def)
  moreover have "length ?cs < 2 ^ 32" by simp
  ultimately show ?thesis
    using limiter_refines_history [of 5 ?cs]
    by (simp add: spec_fail_def spec_locked_def window_open_def window_ns_def WINDOW_SECS_def)
qed

end
