(* ===== verification/MigrationSafety.thy ===== *)
theory MigrationSafety
  imports Migration Sample
begin

text \<open>
  Properties of the migration service: it plans and reports but migrates nothing, whatever the
  outcome of a call, and a plan accounts for every record and every field of the old system.
\<close>

text \<open>
  C38: Nothing is migrated. Every operation of the migration service (reading the session, starting,
  selecting a target, switching the active system, planning, reporting, and the output on logout),
  whether it succeeds or fails at any point, leaves every table as it was except the sessions of the migration, the audit log and the
  event outbox; in particular every record, object type and workflow is untouched.
\<close>

theorem migration_nondestructive:
  "nondestructive (db s) (db (snd (get_migration k ctx s))) \<and>
   nondestructive (db s) (db (snd (start_migration k ctx target s))) \<and>
   nondestructive (db s) (db (snd (select_target_system k ctx target' s))) \<and>
   nondestructive (db s) (db (snd (set_active_system k ctx active s))) \<and>
   nondestructive (db s) (db (snd (plan_migration k ctx s))) \<and>
   nondestructive (db s) (db (snd (migration_report k ctx for_system s))) \<and>
   nondestructive (db s) (db (snd (logout_migration_output k ctx s)))"
  by (intro conjI; rule keepsD [OF _ prod.collapse [symmetric]]; rule keeps_nondestructive_reads
      keeps_nondestructive_start keeps_nondestructive_select keeps_nondestructive_activate keeps_nondestructive_report
      keeps_nondestructive_logout)

lemma nondestructive_records: "nondestructive d d' \<Longrightarrow>
    records d' = records d \<and> object_types d' = object_types d \<and> workflows d' = workflows d"
  unfolding nondestructive_def by (cases d; cases d') simp

text \<open>
  A plan accounts for everything. Over old object types and target objects with distinct keys,
  the mappable records are exactly the active records of the old types that the target has, the
  unmapped ones exactly those of the others. The mapping of an object mentions every target field
  and every source field, and it raises exactly one conflict for each field that does not carry
  over cleanly.
\<close>

theorem plan_accounts_for_everything:
  assumes "distinct (map ot_key olds)" "distinct (map bd_key targets)"
  shows "ms_records_mappable (mp_summary (build_plan tk olds counts targets)) =
      sum_list (map (\<lambda>o'. count_of counts (ot_key o'))
        (filter (\<lambda>o'. ot_key o' \<in> set (map bd_key targets)) olds)) \<and>
    ms_records_unmapped (mp_summary (build_plan tk olds counts targets)) =
      sum_list (map (\<lambda>o'. count_of counts (ot_key o'))
        (filter (\<lambda>o'. ot_key o' \<notin> set (map bd_key targets)) olds)) \<and>
    (\<forall>tf\<in>set tfs. \<exists>m\<in>set (fst (map_fields tk old tfs)). fm_target_field m = Some (f_key tf)) \<and>
    (\<forall>sf\<in>set (ot_fields old). \<exists>m\<in>set (fst (map_fields tk old tfs)). fm_source_field m = Some (f_key sf)) \<and>
    length (snd (map_fields tk old tfs)) =
      length (filter (\<lambda>m. \<not> clean_mapping m) (fst (map_fields tk old tfs)))"
proof -
  have "\<exists>m\<in>set (fst (map_fields tk old tfs)). fm_target_field m = Some (f_key tf)" if "tf \<in> set tfs" for tf
  proof -
    have "Some (f_key tf) \<in> set (map fm_target_field (fst (map_fields tk old tfs)))"
      unfolding map_fields_targets using that by simp
    then show ?thesis by auto
  qed
  then show ?thesis
    using mappable_records [OF assms] unmapped_records [OF assms] map_fields_sources map_fields_conflicts
    by blast
qed

definition demo_counts :: counts where
  "demo_counts = [''invoice'' \<mapsto> 3, ''memo'' \<mapsto> 2]"

theorem plan_accounts_for_everything_witness:
  "ms_records_mappable (mp_summary (build_plan ''finance''
       [demo_type, demo_type\<lparr>ot_key := ''memo''\<rparr>] demo_counts (bt_objects finance_template))) = 3 \<and>
   ms_records_unmapped (mp_summary (build_plan ''finance''
       [demo_type, demo_type\<lparr>ot_key := ''memo''\<rparr>] demo_counts (bt_objects finance_template))) = 2"
proof -
  have keys: "map bd_key (bt_objects finance_template) = [''account'', ''invoice'', ''payment'', ''budget'']"
    by code_simp
  have "distinct (map ot_key [demo_type, demo_type\<lparr>ot_key := ''memo''\<rparr>])"
    "distinct (map bd_key (bt_objects finance_template))"
    unfolding keys by (simp_all add: demo_type_def)
  from plan_accounts_for_everything [OF this, of "''finance''" demo_counts "[]" demo_type]
  show ?thesis unfolding keys by (simp add: count_of_def demo_counts_def demo_type_def)
qed

end
