(* ===== verification/Blindness.thy ===== *)
theory Blindness
  imports Frames
begin

text \<open>
  Confidentiality between tenants. Two databases look the same to the tenant \<open>t\<close> when its own rows
  are the same, in the same order, and the identifiers that rows of other tenants occupy are the
  same; everything else about other tenants may differ. A kernel program is blind to other tenants
  when, started in two states that look the same to its tenant, it returns the same result and
  leaves states that look the same. This theory has the relation, the composition rules and the
  rules for statements; every service inherits blindness from them.
\<close>

named_theorems blind_rules

section \<open>One table\<close>

definition agree :: "('a \<Rightarrow> string) \<Rightarrow> ('a \<Rightarrow> 'i) \<Rightarrow> string \<Rightarrow> 'a list \<Rightarrow> 'a list \<Rightarrow> bool" where
  "agree ten ident t xs ys \<longleftrightarrow>
     filter (\<lambda>x. ten x = t) xs = filter (\<lambda>x. ten x = t) ys \<and>
     ident ` set (filter (\<lambda>x. ten x \<noteq> t) xs) = ident ` set (filter (\<lambda>x. ten x \<noteq> t) ys)"

lemma agree_refl [simp]: "agree ten ident t xs xs"
  by (simp add: agree_def)

lemma agree_append: "agree ten ident t xs ys \<Longrightarrow> agree ten ident t (xs @ [x]) (ys @ [x])"
  by (simp add: agree_def image_Un)

lemma agree_upd_where:
  assumes "agree ten ident t xs ys" "\<forall>x. P x \<longrightarrow> ten x = t \<and> ten (f x) = t"
  shows "agree ten ident t (upd_where P f xs) (upd_where P f ys)"
proof -
  have own: "filter (\<lambda>x. ten x = t) (upd_where P f zs) = upd_where P f (filter (\<lambda>x. ten x = t) zs)" for zs
    using assms(2) by (induction zs) auto
  have "filter (\<lambda>x. ten x \<noteq> t) (upd_where P f zs) = filter (\<lambda>x. ten x \<noteq> t) zs" for zs
    by (rule filter_upd_where) (use assms(2) in auto)
  with own assms(1) show ?thesis by (simp add: agree_def)
qed

lemma agree_filter_own:
  assumes "agree ten ident t xs ys" "\<forall>x. P x \<longrightarrow> ten x = t"
  shows "filter P xs = filter P ys"
proof -
  have "filter P zs = filter P (filter (\<lambda>x. ten x = t) zs)" for zs
    by (induction zs) (use assms(2) in auto)
  with assms(1) show ?thesis by (metis agree_def)
qed

lemma find_filter: "find P xs = (case filter P xs of [] \<Rightarrow> None | x # _ \<Rightarrow> Some x)"
  by (induction xs) auto

lemma agree_find:
  assumes "agree ten ident t xs ys" "\<forall>x. P x \<longrightarrow> ten x = t"
  shows "find P xs = find P ys"
  using agree_filter_own [OF assms] by (simp add: find_filter)

lemma agree_list_ex:
  assumes "agree ten ident t xs ys" "\<forall>x. P x \<longrightarrow> ten x = t"
  shows "list_ex P xs = list_ex P ys"
  using agree_filter_own [OF assms] by (metis filter_empty_conv list_ex_iff)

lemma agree_ident:
  assumes "agree ten ident t xs ys"
  shows "ident ` set xs = ident ` set ys"
proof -
  have "ident ` set zs = ident ` set (filter (\<lambda>x. ten x = t) zs) \<union> ident ` set (filter (\<lambda>x. ten x \<noteq> t) zs)"
    for zs by (auto simp flip: image_Un)
  with assms show ?thesis unfolding agree_def by metis
qed

lemma agree_keyed:
  assumes "agree ten ident t xs ys" "\<forall>x. f x = v \<longrightarrow> ten x = t"
  shows "v \<in> f ` set xs \<longleftrightarrow> v \<in> f ` set ys"
proof -
  have "v \<in> f ` set zs \<longleftrightarrow> list_ex (\<lambda>x. f x = v) zs" for zs
    by (auto simp: list_ex_iff)
  with agree_list_ex [OF assms(1), of "\<lambda>x. f x = v"] assms(2) show ?thesis by simp
qed

section \<open>The view of a tenant\<close>

definition api_key_ident :: "api_key_row \<Rightarrow> string \<times> string" where
  "api_key_ident r = (ak_id r, ak_token_hash r)"

definition same_view :: "string \<Rightarrow> database \<Rightarrow> database \<Rightarrow> bool" where
  "same_view t d d' \<longleftrightarrow>
     agree tn_id tn_id t (tenants d) (tenants d') \<and>
     agree og_tenant_id og_id t (organizations d) (organizations d') \<and>
     agree wk_tenant_id wk_id t (workspaces d) (workspaces d') \<and>
     agree us_tenant_id us_id t (users d) (users d') \<and>
     agree sa_tenant_id sa_id t (service_accounts d) (service_accounts d') \<and>
     agree ro_tenant_id (role_id \<circ> ro_role) t (roles d) (roles d') \<and>
     agree ra_tenant_id ra_id t (role_assignments d) (role_assignments d') \<and>
     agree ak_tenant_id api_key_ident t (api_keys d) (api_keys d') \<and>
     agree ss_tenant_id ss_token_hash t (sessions d) (sessions d') \<and>
     agree ob_tenant_id (ot_id \<circ> ob_def) t (object_types d) (object_types d') \<and>
     agree bf_tenant_id bf_id t (builder_drafts d) (builder_drafts d') \<and>
     agree r_tenant_id r_id t (records d) (records d') \<and>
     agree rl_tenant_id rl_id t (relations d) (relations d') \<and>
     agree wr_tenant_id wr_id t (workflows d) (workflows d') \<and>
     agree tk_tenant_id tk_id t (tasks d) (tasks d') \<and>
     agree ap_tenant_id ap_id t (approvals d) (approvals d') \<and>
     agree a_tenant_id a_id t (audit_logs d) (audit_logs d') \<and>
     agree ev_tenant_id ev_id t (events d) (events d') \<and>
     agree rp_tenant_id rp_id t (reports d) (reports d') \<and>
     agree dr_tenant_id dr_id t (dashboards d) (dashboards d') \<and>
     agree um_tenant_id um_id t (usage_meters d) (usage_meters d') \<and>
     agree se_tenant_id se_tenant_id t (migration_sessions d) (migration_sessions d')"

lemma same_view_refl [simp]: "same_view t d d"
  by (simp add: same_view_def)

lemma same_view_tables:
  "same_view t d d' \<Longrightarrow> agree tn_id tn_id t (tenants d) (tenants d')"
  "same_view t d d' \<Longrightarrow> agree og_tenant_id og_id t (organizations d) (organizations d')"
  "same_view t d d' \<Longrightarrow> agree wk_tenant_id wk_id t (workspaces d) (workspaces d')"
  "same_view t d d' \<Longrightarrow> agree us_tenant_id us_id t (users d) (users d')"
  "same_view t d d' \<Longrightarrow> agree sa_tenant_id sa_id t (service_accounts d) (service_accounts d')"
  "same_view t d d' \<Longrightarrow> agree ro_tenant_id (role_id \<circ> ro_role) t (roles d) (roles d')"
  "same_view t d d' \<Longrightarrow> agree ra_tenant_id ra_id t (role_assignments d) (role_assignments d')"
  "same_view t d d' \<Longrightarrow> agree ak_tenant_id api_key_ident t (api_keys d) (api_keys d')"
  "same_view t d d' \<Longrightarrow> agree ss_tenant_id ss_token_hash t (sessions d) (sessions d')"
  "same_view t d d' \<Longrightarrow> agree ob_tenant_id (ot_id \<circ> ob_def) t (object_types d) (object_types d')"
  "same_view t d d' \<Longrightarrow> agree bf_tenant_id bf_id t (builder_drafts d) (builder_drafts d')"
  "same_view t d d' \<Longrightarrow> agree r_tenant_id r_id t (records d) (records d')"
  "same_view t d d' \<Longrightarrow> agree rl_tenant_id rl_id t (relations d) (relations d')"
  "same_view t d d' \<Longrightarrow> agree wr_tenant_id wr_id t (workflows d) (workflows d')"
  "same_view t d d' \<Longrightarrow> agree tk_tenant_id tk_id t (tasks d) (tasks d')"
  "same_view t d d' \<Longrightarrow> agree ap_tenant_id ap_id t (approvals d) (approvals d')"
  "same_view t d d' \<Longrightarrow> agree a_tenant_id a_id t (audit_logs d) (audit_logs d')"
  "same_view t d d' \<Longrightarrow> agree ev_tenant_id ev_id t (events d) (events d')"
  "same_view t d d' \<Longrightarrow> agree rp_tenant_id rp_id t (reports d) (reports d')"
  "same_view t d d' \<Longrightarrow> agree dr_tenant_id dr_id t (dashboards d) (dashboards d')"
  "same_view t d d' \<Longrightarrow> agree um_tenant_id um_id t (usage_meters d) (usage_meters d')"
  "same_view t d d' \<Longrightarrow> agree se_tenant_id se_tenant_id t (migration_sessions d) (migration_sessions d')"
  by (simp_all add: same_view_def)

lemma same_view_update:
  "agree tn_id tn_id t xs_tenants ys_tenants \<Longrightarrow> same_view t d d' \<Longrightarrow>
     same_view t (d\<lparr>tenants := xs_tenants\<rparr>) (d'\<lparr>tenants := ys_tenants\<rparr>)"
  "agree og_tenant_id og_id t xs_organizations ys_organizations \<Longrightarrow> same_view t d d' \<Longrightarrow>
     same_view t (d\<lparr>organizations := xs_organizations\<rparr>) (d'\<lparr>organizations := ys_organizations\<rparr>)"
  "agree wk_tenant_id wk_id t xs_workspaces ys_workspaces \<Longrightarrow> same_view t d d' \<Longrightarrow>
     same_view t (d\<lparr>workspaces := xs_workspaces\<rparr>) (d'\<lparr>workspaces := ys_workspaces\<rparr>)"
  "agree us_tenant_id us_id t xs_users ys_users \<Longrightarrow> same_view t d d' \<Longrightarrow>
     same_view t (d\<lparr>users := xs_users\<rparr>) (d'\<lparr>users := ys_users\<rparr>)"
  "agree sa_tenant_id sa_id t xs_service_accounts ys_service_accounts \<Longrightarrow> same_view t d d' \<Longrightarrow>
     same_view t (d\<lparr>service_accounts := xs_service_accounts\<rparr>) (d'\<lparr>service_accounts := ys_service_accounts\<rparr>)"
  "agree ro_tenant_id (role_id \<circ> ro_role) t xs_roles ys_roles \<Longrightarrow> same_view t d d' \<Longrightarrow>
     same_view t (d\<lparr>roles := xs_roles\<rparr>) (d'\<lparr>roles := ys_roles\<rparr>)"
  "agree ra_tenant_id ra_id t xs_role_assignments ys_role_assignments \<Longrightarrow> same_view t d d' \<Longrightarrow>
     same_view t (d\<lparr>role_assignments := xs_role_assignments\<rparr>) (d'\<lparr>role_assignments := ys_role_assignments\<rparr>)"
  "agree ak_tenant_id api_key_ident t xs_api_keys ys_api_keys \<Longrightarrow> same_view t d d' \<Longrightarrow>
     same_view t (d\<lparr>api_keys := xs_api_keys\<rparr>) (d'\<lparr>api_keys := ys_api_keys\<rparr>)"
  "agree ss_tenant_id ss_token_hash t xs_sessions ys_sessions \<Longrightarrow> same_view t d d' \<Longrightarrow>
     same_view t (d\<lparr>sessions := xs_sessions\<rparr>) (d'\<lparr>sessions := ys_sessions\<rparr>)"
  "agree ob_tenant_id (ot_id \<circ> ob_def) t xs_object_types ys_object_types \<Longrightarrow> same_view t d d' \<Longrightarrow>
     same_view t (d\<lparr>object_types := xs_object_types\<rparr>) (d'\<lparr>object_types := ys_object_types\<rparr>)"
  "agree bf_tenant_id bf_id t xs_builder_drafts ys_builder_drafts \<Longrightarrow> same_view t d d' \<Longrightarrow>
     same_view t (d\<lparr>builder_drafts := xs_builder_drafts\<rparr>) (d'\<lparr>builder_drafts := ys_builder_drafts\<rparr>)"
  "agree r_tenant_id r_id t xs_records ys_records \<Longrightarrow> same_view t d d' \<Longrightarrow>
     same_view t (d\<lparr>records := xs_records\<rparr>) (d'\<lparr>records := ys_records\<rparr>)"
  "agree rl_tenant_id rl_id t xs_relations ys_relations \<Longrightarrow> same_view t d d' \<Longrightarrow>
     same_view t (d\<lparr>relations := xs_relations\<rparr>) (d'\<lparr>relations := ys_relations\<rparr>)"
  "agree wr_tenant_id wr_id t xs_workflows ys_workflows \<Longrightarrow> same_view t d d' \<Longrightarrow>
     same_view t (d\<lparr>workflows := xs_workflows\<rparr>) (d'\<lparr>workflows := ys_workflows\<rparr>)"
  "agree tk_tenant_id tk_id t xs_tasks ys_tasks \<Longrightarrow> same_view t d d' \<Longrightarrow>
     same_view t (d\<lparr>tasks := xs_tasks\<rparr>) (d'\<lparr>tasks := ys_tasks\<rparr>)"
  "agree ap_tenant_id ap_id t xs_approvals ys_approvals \<Longrightarrow> same_view t d d' \<Longrightarrow>
     same_view t (d\<lparr>approvals := xs_approvals\<rparr>) (d'\<lparr>approvals := ys_approvals\<rparr>)"
  "agree a_tenant_id a_id t xs_audit_logs ys_audit_logs \<Longrightarrow> same_view t d d' \<Longrightarrow>
     same_view t (d\<lparr>audit_logs := xs_audit_logs\<rparr>) (d'\<lparr>audit_logs := ys_audit_logs\<rparr>)"
  "agree ev_tenant_id ev_id t xs_events ys_events \<Longrightarrow> same_view t d d' \<Longrightarrow>
     same_view t (d\<lparr>events := xs_events\<rparr>) (d'\<lparr>events := ys_events\<rparr>)"
  "agree rp_tenant_id rp_id t xs_reports ys_reports \<Longrightarrow> same_view t d d' \<Longrightarrow>
     same_view t (d\<lparr>reports := xs_reports\<rparr>) (d'\<lparr>reports := ys_reports\<rparr>)"
  "agree dr_tenant_id dr_id t xs_dashboards ys_dashboards \<Longrightarrow> same_view t d d' \<Longrightarrow>
     same_view t (d\<lparr>dashboards := xs_dashboards\<rparr>) (d'\<lparr>dashboards := ys_dashboards\<rparr>)"
  "agree um_tenant_id um_id t xs_usage_meters ys_usage_meters \<Longrightarrow> same_view t d d' \<Longrightarrow>
     same_view t (d\<lparr>usage_meters := xs_usage_meters\<rparr>) (d'\<lparr>usage_meters := ys_usage_meters\<rparr>)"
  "agree se_tenant_id se_tenant_id t xs_migration_sessions ys_migration_sessions \<Longrightarrow> same_view t d d' \<Longrightarrow>
     same_view t (d\<lparr>migration_sessions := xs_migration_sessions\<rparr>) (d'\<lparr>migration_sessions := ys_migration_sessions\<rparr>)"
  by (simp_all add: same_view_def)

lemma same_view_append:
  "same_view t d d' \<Longrightarrow> same_view t (d\<lparr>tenants := tenants d @ [x_tenants]\<rparr>) (d'\<lparr>tenants := tenants d' @ [x_tenants]\<rparr>)"
  "same_view t d d' \<Longrightarrow> same_view t (d\<lparr>organizations := organizations d @ [x_organizations]\<rparr>) (d'\<lparr>organizations := organizations d' @ [x_organizations]\<rparr>)"
  "same_view t d d' \<Longrightarrow> same_view t (d\<lparr>workspaces := workspaces d @ [x_workspaces]\<rparr>) (d'\<lparr>workspaces := workspaces d' @ [x_workspaces]\<rparr>)"
  "same_view t d d' \<Longrightarrow> same_view t (d\<lparr>users := users d @ [x_users]\<rparr>) (d'\<lparr>users := users d' @ [x_users]\<rparr>)"
  "same_view t d d' \<Longrightarrow> same_view t (d\<lparr>service_accounts := service_accounts d @ [x_service_accounts]\<rparr>) (d'\<lparr>service_accounts := service_accounts d' @ [x_service_accounts]\<rparr>)"
  "same_view t d d' \<Longrightarrow> same_view t (d\<lparr>roles := roles d @ [x_roles]\<rparr>) (d'\<lparr>roles := roles d' @ [x_roles]\<rparr>)"
  "same_view t d d' \<Longrightarrow> same_view t (d\<lparr>role_assignments := role_assignments d @ [x_role_assignments]\<rparr>) (d'\<lparr>role_assignments := role_assignments d' @ [x_role_assignments]\<rparr>)"
  "same_view t d d' \<Longrightarrow> same_view t (d\<lparr>api_keys := api_keys d @ [x_api_keys]\<rparr>) (d'\<lparr>api_keys := api_keys d' @ [x_api_keys]\<rparr>)"
  "same_view t d d' \<Longrightarrow> same_view t (d\<lparr>sessions := sessions d @ [x_sessions]\<rparr>) (d'\<lparr>sessions := sessions d' @ [x_sessions]\<rparr>)"
  "same_view t d d' \<Longrightarrow> same_view t (d\<lparr>object_types := object_types d @ [x_object_types]\<rparr>) (d'\<lparr>object_types := object_types d' @ [x_object_types]\<rparr>)"
  "same_view t d d' \<Longrightarrow> same_view t (d\<lparr>builder_drafts := builder_drafts d @ [x_builder_drafts]\<rparr>) (d'\<lparr>builder_drafts := builder_drafts d' @ [x_builder_drafts]\<rparr>)"
  "same_view t d d' \<Longrightarrow> same_view t (d\<lparr>records := records d @ [x_records]\<rparr>) (d'\<lparr>records := records d' @ [x_records]\<rparr>)"
  "same_view t d d' \<Longrightarrow> same_view t (d\<lparr>relations := relations d @ [x_relations]\<rparr>) (d'\<lparr>relations := relations d' @ [x_relations]\<rparr>)"
  "same_view t d d' \<Longrightarrow> same_view t (d\<lparr>workflows := workflows d @ [x_workflows]\<rparr>) (d'\<lparr>workflows := workflows d' @ [x_workflows]\<rparr>)"
  "same_view t d d' \<Longrightarrow> same_view t (d\<lparr>tasks := tasks d @ [x_tasks]\<rparr>) (d'\<lparr>tasks := tasks d' @ [x_tasks]\<rparr>)"
  "same_view t d d' \<Longrightarrow> same_view t (d\<lparr>approvals := approvals d @ [x_approvals]\<rparr>) (d'\<lparr>approvals := approvals d' @ [x_approvals]\<rparr>)"
  "same_view t d d' \<Longrightarrow> same_view t (d\<lparr>audit_logs := audit_logs d @ [x_audit_logs]\<rparr>) (d'\<lparr>audit_logs := audit_logs d' @ [x_audit_logs]\<rparr>)"
  "same_view t d d' \<Longrightarrow> same_view t (d\<lparr>events := events d @ [x_events]\<rparr>) (d'\<lparr>events := events d' @ [x_events]\<rparr>)"
  "same_view t d d' \<Longrightarrow> same_view t (d\<lparr>reports := reports d @ [x_reports]\<rparr>) (d'\<lparr>reports := reports d' @ [x_reports]\<rparr>)"
  "same_view t d d' \<Longrightarrow> same_view t (d\<lparr>dashboards := dashboards d @ [x_dashboards]\<rparr>) (d'\<lparr>dashboards := dashboards d' @ [x_dashboards]\<rparr>)"
  "same_view t d d' \<Longrightarrow> same_view t (d\<lparr>usage_meters := usage_meters d @ [x_usage_meters]\<rparr>) (d'\<lparr>usage_meters := usage_meters d' @ [x_usage_meters]\<rparr>)"
  "same_view t d d' \<Longrightarrow> same_view t (d\<lparr>migration_sessions := migration_sessions d @ [x_migration_sessions]\<rparr>) (d'\<lparr>migration_sessions := migration_sessions d' @ [x_migration_sessions]\<rparr>)"
  by (simp_all add: same_view_update same_view_tables agree_append)

lemma same_view_upd_where:
  "same_view t d d' \<Longrightarrow> \<forall>x. P_tenants x \<longrightarrow> tn_id x = t \<and> tn_id (f_tenants x) = t \<Longrightarrow>
     same_view t (d\<lparr>tenants := upd_where P_tenants f_tenants (tenants d)\<rparr>) (d'\<lparr>tenants := upd_where P_tenants f_tenants (tenants d')\<rparr>)"
  "same_view t d d' \<Longrightarrow> \<forall>x. P_organizations x \<longrightarrow> og_tenant_id x = t \<and> og_tenant_id (f_organizations x) = t \<Longrightarrow>
     same_view t (d\<lparr>organizations := upd_where P_organizations f_organizations (organizations d)\<rparr>) (d'\<lparr>organizations := upd_where P_organizations f_organizations (organizations d')\<rparr>)"
  "same_view t d d' \<Longrightarrow> \<forall>x. P_workspaces x \<longrightarrow> wk_tenant_id x = t \<and> wk_tenant_id (f_workspaces x) = t \<Longrightarrow>
     same_view t (d\<lparr>workspaces := upd_where P_workspaces f_workspaces (workspaces d)\<rparr>) (d'\<lparr>workspaces := upd_where P_workspaces f_workspaces (workspaces d')\<rparr>)"
  "same_view t d d' \<Longrightarrow> \<forall>x. P_users x \<longrightarrow> us_tenant_id x = t \<and> us_tenant_id (f_users x) = t \<Longrightarrow>
     same_view t (d\<lparr>users := upd_where P_users f_users (users d)\<rparr>) (d'\<lparr>users := upd_where P_users f_users (users d')\<rparr>)"
  "same_view t d d' \<Longrightarrow> \<forall>x. P_service_accounts x \<longrightarrow> sa_tenant_id x = t \<and> sa_tenant_id (f_service_accounts x) = t \<Longrightarrow>
     same_view t (d\<lparr>service_accounts := upd_where P_service_accounts f_service_accounts (service_accounts d)\<rparr>) (d'\<lparr>service_accounts := upd_where P_service_accounts f_service_accounts (service_accounts d')\<rparr>)"
  "same_view t d d' \<Longrightarrow> \<forall>x. P_roles x \<longrightarrow> ro_tenant_id x = t \<and> ro_tenant_id (f_roles x) = t \<Longrightarrow>
     same_view t (d\<lparr>roles := upd_where P_roles f_roles (roles d)\<rparr>) (d'\<lparr>roles := upd_where P_roles f_roles (roles d')\<rparr>)"
  "same_view t d d' \<Longrightarrow> \<forall>x. P_role_assignments x \<longrightarrow> ra_tenant_id x = t \<and> ra_tenant_id (f_role_assignments x) = t \<Longrightarrow>
     same_view t (d\<lparr>role_assignments := upd_where P_role_assignments f_role_assignments (role_assignments d)\<rparr>) (d'\<lparr>role_assignments := upd_where P_role_assignments f_role_assignments (role_assignments d')\<rparr>)"
  "same_view t d d' \<Longrightarrow> \<forall>x. P_api_keys x \<longrightarrow> ak_tenant_id x = t \<and> ak_tenant_id (f_api_keys x) = t \<Longrightarrow>
     same_view t (d\<lparr>api_keys := upd_where P_api_keys f_api_keys (api_keys d)\<rparr>) (d'\<lparr>api_keys := upd_where P_api_keys f_api_keys (api_keys d')\<rparr>)"
  "same_view t d d' \<Longrightarrow> \<forall>x. P_sessions x \<longrightarrow> ss_tenant_id x = t \<and> ss_tenant_id (f_sessions x) = t \<Longrightarrow>
     same_view t (d\<lparr>sessions := upd_where P_sessions f_sessions (sessions d)\<rparr>) (d'\<lparr>sessions := upd_where P_sessions f_sessions (sessions d')\<rparr>)"
  "same_view t d d' \<Longrightarrow> \<forall>x. P_object_types x \<longrightarrow> ob_tenant_id x = t \<and> ob_tenant_id (f_object_types x) = t \<Longrightarrow>
     same_view t (d\<lparr>object_types := upd_where P_object_types f_object_types (object_types d)\<rparr>) (d'\<lparr>object_types := upd_where P_object_types f_object_types (object_types d')\<rparr>)"
  "same_view t d d' \<Longrightarrow> \<forall>x. P_builder_drafts x \<longrightarrow> bf_tenant_id x = t \<and> bf_tenant_id (f_builder_drafts x) = t \<Longrightarrow>
     same_view t (d\<lparr>builder_drafts := upd_where P_builder_drafts f_builder_drafts (builder_drafts d)\<rparr>) (d'\<lparr>builder_drafts := upd_where P_builder_drafts f_builder_drafts (builder_drafts d')\<rparr>)"
  "same_view t d d' \<Longrightarrow> \<forall>x. P_records x \<longrightarrow> r_tenant_id x = t \<and> r_tenant_id (f_records x) = t \<Longrightarrow>
     same_view t (d\<lparr>records := upd_where P_records f_records (records d)\<rparr>) (d'\<lparr>records := upd_where P_records f_records (records d')\<rparr>)"
  "same_view t d d' \<Longrightarrow> \<forall>x. P_relations x \<longrightarrow> rl_tenant_id x = t \<and> rl_tenant_id (f_relations x) = t \<Longrightarrow>
     same_view t (d\<lparr>relations := upd_where P_relations f_relations (relations d)\<rparr>) (d'\<lparr>relations := upd_where P_relations f_relations (relations d')\<rparr>)"
  "same_view t d d' \<Longrightarrow> \<forall>x. P_workflows x \<longrightarrow> wr_tenant_id x = t \<and> wr_tenant_id (f_workflows x) = t \<Longrightarrow>
     same_view t (d\<lparr>workflows := upd_where P_workflows f_workflows (workflows d)\<rparr>) (d'\<lparr>workflows := upd_where P_workflows f_workflows (workflows d')\<rparr>)"
  "same_view t d d' \<Longrightarrow> \<forall>x. P_tasks x \<longrightarrow> tk_tenant_id x = t \<and> tk_tenant_id (f_tasks x) = t \<Longrightarrow>
     same_view t (d\<lparr>tasks := upd_where P_tasks f_tasks (tasks d)\<rparr>) (d'\<lparr>tasks := upd_where P_tasks f_tasks (tasks d')\<rparr>)"
  "same_view t d d' \<Longrightarrow> \<forall>x. P_approvals x \<longrightarrow> ap_tenant_id x = t \<and> ap_tenant_id (f_approvals x) = t \<Longrightarrow>
     same_view t (d\<lparr>approvals := upd_where P_approvals f_approvals (approvals d)\<rparr>) (d'\<lparr>approvals := upd_where P_approvals f_approvals (approvals d')\<rparr>)"
  "same_view t d d' \<Longrightarrow> \<forall>x. P_audit_logs x \<longrightarrow> a_tenant_id x = t \<and> a_tenant_id (f_audit_logs x) = t \<Longrightarrow>
     same_view t (d\<lparr>audit_logs := upd_where P_audit_logs f_audit_logs (audit_logs d)\<rparr>) (d'\<lparr>audit_logs := upd_where P_audit_logs f_audit_logs (audit_logs d')\<rparr>)"
  "same_view t d d' \<Longrightarrow> \<forall>x. P_events x \<longrightarrow> ev_tenant_id x = t \<and> ev_tenant_id (f_events x) = t \<Longrightarrow>
     same_view t (d\<lparr>events := upd_where P_events f_events (events d)\<rparr>) (d'\<lparr>events := upd_where P_events f_events (events d')\<rparr>)"
  "same_view t d d' \<Longrightarrow> \<forall>x. P_reports x \<longrightarrow> rp_tenant_id x = t \<and> rp_tenant_id (f_reports x) = t \<Longrightarrow>
     same_view t (d\<lparr>reports := upd_where P_reports f_reports (reports d)\<rparr>) (d'\<lparr>reports := upd_where P_reports f_reports (reports d')\<rparr>)"
  "same_view t d d' \<Longrightarrow> \<forall>x. P_dashboards x \<longrightarrow> dr_tenant_id x = t \<and> dr_tenant_id (f_dashboards x) = t \<Longrightarrow>
     same_view t (d\<lparr>dashboards := upd_where P_dashboards f_dashboards (dashboards d)\<rparr>) (d'\<lparr>dashboards := upd_where P_dashboards f_dashboards (dashboards d')\<rparr>)"
  "same_view t d d' \<Longrightarrow> \<forall>x. P_usage_meters x \<longrightarrow> um_tenant_id x = t \<and> um_tenant_id (f_usage_meters x) = t \<Longrightarrow>
     same_view t (d\<lparr>usage_meters := upd_where P_usage_meters f_usage_meters (usage_meters d)\<rparr>) (d'\<lparr>usage_meters := upd_where P_usage_meters f_usage_meters (usage_meters d')\<rparr>)"
  "same_view t d d' \<Longrightarrow> \<forall>x. P_migration_sessions x \<longrightarrow> se_tenant_id x = t \<and> se_tenant_id (f_migration_sessions x) = t \<Longrightarrow>
     same_view t (d\<lparr>migration_sessions := upd_where P_migration_sessions f_migration_sessions (migration_sessions d)\<rparr>) (d'\<lparr>migration_sessions := upd_where P_migration_sessions f_migration_sessions (migration_sessions d')\<rparr>)"
  by (simp_all add: same_view_update same_view_tables agree_upd_where)

lemmas view_writes = same_view_append same_view_upd_where

text \<open>What a statement of the tenant may read.\<close>

lemmas view_filter = same_view_tables [THEN agree_filter_own]
lemmas view_find = same_view_tables [THEN agree_find]
lemmas view_list_ex = same_view_tables [THEN agree_list_ex]
lemmas view_ident = same_view_tables [THEN agree_ident, unfolded comp_def]
lemmas view_keyed = same_view_tables [THEN agree_keyed]

lemma view_tenant_exists: "same_view t d d' \<Longrightarrow> tenant_exists d t' = tenant_exists d' t'"
  using view_ident(1) [of t d d'] by (simp add: tenant_exists_def)

lemma view_api_keys: "same_view t d d' \<Longrightarrow> ak_id ` set (api_keys d) = ak_id ` set (api_keys d')"
  "same_view t d d' \<Longrightarrow> ak_token_hash ` set (api_keys d) = ak_token_hash ` set (api_keys d')"
proof -
  have "fst ` api_key_ident ` X = ak_id ` X" "snd ` api_key_ident ` X = ak_token_hash ` X" for X
    by (simp_all add: image_image api_key_ident_def)
  then show "same_view t d d' \<Longrightarrow> ak_id ` set (api_keys d) = ak_id ` set (api_keys d')"
    "same_view t d d' \<Longrightarrow> ak_token_hash ` set (api_keys d) = ak_token_hash ` set (api_keys d')"
    using view_ident(8) by metis+
qed

lemmas view_rules = view_filter view_find view_list_ex view_ident view_api_keys view_tenant_exists
  view_keyed

section \<open>Programs\<close>

definition same_state :: "string \<Rightarrow> kstate \<Rightarrow> kstate \<Rightarrow> bool" where
  "same_state t s s' \<longleftrightarrow> same_view t (db s) (db s') \<and> tick s = tick s' \<and> limiter s = limiter s'"

definition blind :: "string \<Rightarrow> 'a kern \<Rightarrow> bool" where
  "blind t m \<longleftrightarrow> (\<forall>s s'. same_state t s s' \<longrightarrow>
     fst (m s) = fst (m s') \<and> same_state t (snd (m s)) (snd (m s')))"

lemma blindI:
  assumes "\<And>s s'. same_state t s s' \<Longrightarrow> fst (m s) = fst (m s') \<and> same_state t (snd (m s)) (snd (m s'))"
  shows "blind t m"
  using assms by (simp add: blind_def)

lemma blindE:
  assumes "blind t m" "same_state t s s'"
  obtains r s1 s1' where "m s = (r, s1)" "m s' = (r, s1')" "same_state t s1 s1'"
  using assms by (metis blind_def prod.collapse)

lemma blind_retK [blind_rules]: "blind t (retK x)"
  by (simp add: blind_def retK_def)

lemma blind_failK [blind_rules]: "blind t (failK e)"
  by (simp add: blind_def failK_def)

lemma blind_bindK [blind_rules]:
  assumes "blind t m" "\<And>x. blind t (f x)"
  shows "blind t (bindK m f)"
proof (rule blindI)
  fix s s'
  assume "same_state t s s'"
  with assms(1) obtain r s1 s1' where 1: "m s = (r, s1)" "m s' = (r, s1')" "same_state t s1 s1'"
    by (rule blindE)
  show "fst (bindK m f s) = fst (bindK m f s') \<and> same_state t (snd (bindK m f s)) (snd (bindK m f s'))"
  proof (cases r)
    case (Inl e)
    with 1 show ?thesis by (simp add: bindK_def)
  next
    case (Inr x)
    with 1 assms(2) [of x] show ?thesis by (simp add: bindK_def blind_def)
  qed
qed

lemma blind_seqK [blind_rules]: "blind t m \<Longrightarrow> blind t m' \<Longrightarrow> blind t (seqK m m')"
  by (simp add: seqK_def blind_bindK)

lemma blind_ignoreK [blind_rules]: "blind t m \<Longrightarrow> blind t (ignoreK m)"
  by (simp add: blind_def ignoreK_def)

lemma blind_matchK [blind_rules]:
  assumes "blind t m" "\<And>e. blind t (h e)" "\<And>x. blind t (f x)"
  shows "blind t (matchK m h f)"
proof (rule blindI)
  fix s s'
  assume "same_state t s s'"
  with assms(1) obtain r s1 s1' where "m s = (r, s1)" "m s' = (r, s1')" "same_state t s1 s1'"
    by (rule blindE)
  with assms(2,3) show "fst (matchK m h f s) = fst (matchK m h f s') \<and>
      same_state t (snd (matchK m h f s)) (snd (matchK m h f s'))"
    by (cases r) (simp_all add: matchK_def blind_def)
qed

lemma blind_guardK [blind_rules]: "blind t (guardK b e)"
  by (simp add: guardK_def blind_retK blind_failK)

lemma blind_someK [blind_rules]: "blind t (someK e o')"
  by (simp add: someK_def blind_retK blind_failK split: option.splits)

lemma blind_resK [blind_rules]: "blind t (resK r)"
  by (simp add: resK_def blind_retK blind_failK split: sum.splits)

lemma blind_forK [blind_rules]: "(\<And>x. blind t (f x)) \<Longrightarrow> blind t (forK f xs)"
  by (induction xs) (simp_all add: blind_retK blind_seqK)

lemma blind_mapK [blind_rules]: "(\<And>x. blind t (f x)) \<Longrightarrow> blind t (mapK f xs)"
  by (induction xs) (simp_all add: blind_retK blind_bindK)

lemma blind_new_id [blind_rules]: "blind t (new_id k)"
  by (simp add: blind_def new_id_def same_state_def)

lemma blind_now [blind_rules]: "blind t (now k)"
  by (simp add: blind_def now_def same_state_def)

lemma blind_now_rfc3339 [blind_rules]: "blind t (now_rfc3339 k)"
  by (simp add: now_rfc3339_def blind_bindK blind_now blind_retK)

lemma blind_if [blind_rules]:
  "(b \<Longrightarrow> blind t m) \<Longrightarrow> (\<not> b \<Longrightarrow> blind t m') \<Longrightarrow> blind t (if b then m else m')"
  by simp

lemma blind_case_option [blind_rules]:
  "blind t m \<Longrightarrow> (\<And>x. blind t (f x)) \<Longrightarrow> blind t (case o' of None \<Rightarrow> m | Some x \<Rightarrow> f x)"
  by (cases o') simp_all

lemma blind_case_sum [blind_rules]:
  "(\<And>x. blind t (f x)) \<Longrightarrow> (\<And>y. blind t (g y)) \<Longrightarrow> blind t (case r of Inl x \<Rightarrow> f x | Inr y \<Rightarrow> g y)"
  by (cases r) simp_all

lemma blind_case_prod [blind_rules]:
  "(\<And>x y. blind t (f x y)) \<Longrightarrow> blind t (case p of (x, y) \<Rightarrow> f x y)"
  by (cases p) simp

lemma blind_Let [blind_rules]: "(\<And>x. x = y \<Longrightarrow> blind t (f x)) \<Longrightarrow> blind t (let x = y in f x)"
  by (simp add: Let_def)

section \<open>Statements\<close>

definition same_outcome :: "string \<Rightarrow> sql_error + 'a \<times> database \<Rightarrow> sql_error + 'a \<times> database \<Rightarrow> bool" where
  "same_outcome t r r' \<longleftrightarrow>
     (case (r, r') of
        (Inl e, Inl e') \<Rightarrow> e = e'
      | (Inr (x, d), Inr (x', d')) \<Rightarrow> x = x' \<and> same_view t d d'
      | _ \<Rightarrow> False)"

lemma same_outcome_Inr: "x = x' \<Longrightarrow> same_view t d d' \<Longrightarrow> same_outcome t (Inr (x, d)) (Inr (x', d'))"
  by (simp add: same_outcome_def)

lemma same_outcome_insert:
  "u = u' \<Longrightarrow> fk = fk' \<Longrightarrow> same_view t d d' \<Longrightarrow> same_outcome t (sql_insert u fk d) (sql_insert u' fk' d')"
  by (simp add: same_outcome_def sql_insert_def)

lemma same_outcome_if:
  "b = b' \<Longrightarrow> (b' \<Longrightarrow> same_outcome t r r') \<Longrightarrow> (\<not> b' \<Longrightarrow> same_outcome t q q') \<Longrightarrow>
     same_outcome t (if b then r else q) (if b' then r' else q')"
  by simp

lemma blind_stmt:
  assumes "\<And>d d'. same_view t d d' \<Longrightarrow> same_outcome t (q d) (q d')"
  shows "blind t (stmt k q)"
proof (rule blindI)
  fix s s'
  assume "same_state t s s'"
  then have 1: "same_view t (db s) (db s')" "tick s = tick s'" "limiter s = limiter s'"
    by (simp_all add: same_state_def)
  from assms [OF 1(1)] 1 show "fst (stmt k q s) = fst (stmt k q s') \<and>
      same_state t (snd (stmt k q s)) (snd (stmt k q s'))"
    by (auto simp: stmt_def Let_def same_outcome_def same_state_def split: sum.splits prod.splits)
qed

lemma blind_query:
  assumes "\<And>d d'. same_view t d d' \<Longrightarrow> q d = q d'"
  shows "blind t (query k q)"
  unfolding query_def by (rule blind_stmt) (rule same_outcome_Inr, rule assms)

lemma blind_update_stmt:
  assumes "\<And>d d'. same_view t d d' \<Longrightarrow> same_view t (u d) (u d')"
  shows "blind t (update_stmt k u)"
  unfolding update_stmt_def by (rule blind_stmt) (rule same_outcome_Inr [OF refl], rule assms)

lemma blind_transaction [blind_rules]:
  assumes "blind t body"
  shows "blind t (transaction k body)"
proof (rule blindI)
  fix s s'
  assume eq: "same_state t s s'"
  let ?bc = "stmt k (\<lambda>d. Inr ((), d))"
  have "blind t ?bc" by (rule blind_stmt) (rule same_outcome_Inr [OF refl])
  then have "blind t (seqK ?bc (bindK body (\<lambda>x. seqK ?bc (retK x))))"
    by (intro blind_rules assms)
  then obtain r s1 s1' where 1: "seqK ?bc (bindK body (\<lambda>x. seqK ?bc (retK x))) s = (r, s1)"
    "seqK ?bc (bindK body (\<lambda>x. seqK ?bc (retK x))) s' = (r, s1')" "same_state t s1 s1'"
    using eq by (rule blindE)
  with eq show "fst (transaction k body s) = fst (transaction k body s') \<and>
      same_state t (snd (transaction k body s)) (snd (transaction k body s'))"
    by (cases r) (simp_all add: transaction_def Let_def same_state_def)
qed

end
