(* ===== verification/BlindServices.thy ===== *)
theory BlindServices
  imports Blindness Handlers
begin

section \<open>Audit log and access control\<close>

lemma blind_insert_audit [blind_rules]: "blind t (insert_audit k ev)"
  unfolding insert_audit_def log_audit_def
  apply (rule blind_stmt)
  subgoal premises p for d d'
    using p by (intro same_outcome_insert) (simp_all add: view_rules [OF p] same_view_append)
  done

lemma blind_audit_log [blind_rules]:
  "blind t (event_from k ctx act ty target prev post)" "blind t (audit k ev)"
  "blind t (audit_denial k ctx action resource rid)"
  "blind t (audit_change k ctx act ty target prev post decorate)"
  unfolding event_from_def audit_def audit_denial_def audit_change_def event_from_def
  by (intro blind_rules blind_query refl)+

lemma blind_emit_on [blind_rules]: "blind t (emit_on k ctx kind payload)"
  unfolding emit_on_def
  apply (intro blind_rules blind_stmt)
  subgoal premises p for rid ts d d'
    using p by (intro same_outcome_insert) (simp_all add: view_rules [OF p] same_view_append)
  done

lemma blind_emit_event [blind_rules]: "blind t (emit_event k ctx kind payload)"
  unfolding emit_event_def by (intro blind_rules blind_query refl)

lemma view_role_grants: "same_view t d d' \<Longrightarrow> role_grants_of d t keys = role_grants_of d' t keys"
  subgoal premises p
    by (simp add: role_grants_of_def view_rules [OF p])
  done

lemma blind_effective_grants [blind_rules]: "blind (tenant_id ctx) (effective_grants k ctx)"
  unfolding effective_grants_def by (intro blind_rules blind_query view_role_grants)

lemma blind_authorize [blind_rules]:
  "blind (tenant_id ctx) (authorize k ctx act resource target)"
  "blind (tenant_id ctx) (grants_for k ctx act resource target)"
  unfolding authorize_def grants_for_def by (intro blind_rules)+

lemma blind_audit_query [blind_rules]: "blind (tenant_id ctx) (audit_query k ctx q)"
  unfolding audit_query_def audit_rows_def
  apply (intro blind_rules blind_query)
  subgoal premises p for d d'
    by (simp add: view_rules [OF p])
  done

section \<open>Object types, workflows, records\<close>

lemma view_lookups:
  assumes "same_view t d d'"
  shows "find_object_type d t key = find_object_type d' t key"
    "find_workflow d t key = find_workflow d' t key"
    "find_record d t key = find_record d' t key"
    "find_task d t key = find_task d' t key"
    "find_approval d t key = find_approval d' t key"
    "candidates t ty archived d = candidates t ty archived d'"
    "role_keys_of d t key = role_keys_of d' t key"
    "find_user d t key = find_user d' t key"
    "principal_active d ptype t key = principal_active d' ptype t key"
    "find_report d t key = find_report d' t key"
    "find_session d t = find_session d' t"
  by (simp_all add: find_object_type_def find_workflow_def find_record_def find_task_def
      find_approval_def candidates_def role_keys_of_def find_user_def principal_active_def
      find_report_def find_session_def view_rules [OF assms])

lemma blind_load_object_type [blind_rules]: "blind t (load_object_type k t key)"
  unfolding load_object_type_def by (intro blind_rules blind_query view_lookups)

lemma blind_insert_object_type [blind_rules]: "blind t (insert_object_type k t def ts)"
  unfolding insert_object_type_def
  apply (rule blind_stmt)
  subgoal premises p for d d'
    by (rule same_outcome_insert) (simp_all add: view_rules [OF p] view_writes [OF p])
  done

lemma blind_object_types [blind_rules]:
  "blind (tenant_id ctx) (create_object_type k ctx def)"
  "blind (tenant_id ctx) (get_object_type k ctx key)"
  unfolding create_object_type_def get_object_type_def by (intro blind_rules)+

lemma blind_update_object_type [blind_rules]: "blind (tenant_id ctx) (update_object_type k ctx key def)"
  unfolding update_object_type_def
  apply (intro blind_rules blind_stmt)
  subgoal premises p for x d d'
    by (simp add: Let_def, rule same_outcome_Inr)
      (simp_all add: view_rules [OF p] view_writes [OF p])
  done

lemma blind_list_object_types [blind_rules]: "blind (tenant_id ctx) (list_object_types k ctx)"
  unfolding list_object_types_def
  apply (intro blind_rules blind_query)
  subgoal premises p for d d' by (simp add: view_rules [OF p])
  done

lemma view_upsert_workflow: "same_view t d d' \<Longrightarrow>
    same_outcome t (upsert_workflow t w wid ts d) (upsert_workflow t w wid ts d')"
  subgoal premises p
    unfolding upsert_workflow_def Let_def
    by (intro same_outcome_if same_outcome_Inr same_outcome_insert)
      (simp_all add: view_rules [OF p] view_writes [OF p])
  done

lemma blind_workflows [blind_rules]:
  "blind t (load_workflow k t key)"
  "blind (tenant_id ctx) (create_workflow k ctx w)" "blind (tenant_id ctx) (get_workflow k ctx key)"
  "blind t (workflow_initial_state k t key)"
  unfolding create_workflow_def get_workflow_def load_workflow_def workflow_initial_state_def
  by (intro blind_rules blind_query blind_stmt view_lookups view_upsert_workflow; assumption?)+

lemma blind_list_workflows [blind_rules]: "blind (tenant_id ctx) (list_workflows k ctx)"
  unfolding list_workflows_def
  apply (intro blind_rules blind_query)
  subgoal premises p for d d' by (simp add: view_rules [OF p])
  done

lemma blind_loads [blind_rules]:
  "blind t (load_record k t rid)" "blind (tenant_id ctx) (require_record k ctx rid msg)"
  "blind (tenant_id ctx) (project_for_read k ctx r ot)"
  unfolding load_record_def require_record_def project_for_read_def
  by (intro blind_rules blind_query view_lookups; assumption?)+

lemma blind_write_fields [blind_rules]: "blind t (write_fields k ctx resource target ot grants put kvs data)"
  by (induction k ctx resource target ot grants put kvs data rule: write_fields.induct)
    (simp_all add: blind_rules)

lemma blind_insert_record [blind_rules]: "r_tenant_id r = t \<Longrightarrow> blind t (insert_record k r)"
  unfolding insert_record_def
  apply (rule blind_stmt)
  subgoal premises p for d d'
    by (rule same_outcome_insert) (simp_all add: view_rules [OF p(2)] view_writes [OF p(2)])
  done

lemma view_set_record: "same_view t d d' \<Longrightarrow> (\<And>r. r_tenant_id (f r) = r_tenant_id r) \<Longrightarrow>
    same_view t (set_record t rid f d) (set_record t rid f d')"
  by (simp add: set_record_def view_writes)

lemma blind_set_record [blind_rules]:
  "(\<And>r. r_tenant_id (f r) = r_tenant_id r) \<Longrightarrow> blind t (update_stmt k (set_record t rid f))"
  by (intro blind_update_stmt view_set_record)

lemma blind_records [blind_rules]:
  "blind (tenant_id ctx) (create_record k ctx nr)" "blind (tenant_id ctx) (get_record k ctx rid)"
  "blind (tenant_id ctx) (update_record k ctx rid patch)"
  "blind (tenant_id ctx) (set_lifecycle k ctx rid lc)"
  "blind (tenant_id ctx) (list_records k ctx ty flt)"
  "blind (tenant_id ctx) (scan_records k ctx ty flt)"
  unfolding create_record_def get_record_def update_record_def set_lifecycle_def list_records_def
    scan_records_def
  by (intro blind_rules blind_query view_lookups; (assumption | simp add: created_record_def)?)+

lemma view_insert_relation: "same_view t d d' \<Longrightarrow> rl_tenant_id row = t \<Longrightarrow>
    same_outcome t (insert_relation row d) (insert_relation row d')"
  subgoal premises p
    unfolding insert_relation_def Let_def
    by (intro same_outcome_if same_outcome_Inr same_outcome_insert)
      (simp_all add: p view_rules [OF p(1)] view_writes [OF p(1)])
  done

lemma blind_relate [blind_rules]: "blind (tenant_id ctx) (relate k ctx rid to ty)"
  unfolding relate_def by (intro blind_rules blind_stmt view_insert_relation; simp)

lemma blind_get_relations [blind_rules]: "blind (tenant_id ctx) (get_relations k ctx rid)"
  unfolding get_relations_def
  apply (intro blind_rules blind_query)
  subgoal premises p for r d d' by (simp add: view_rules [OF p])
  done

section \<open>Tasks, approvals, transitions\<close>

lemma blind_insert_task [blind_rules]:
  "blind (tenant_id ctx) (insert_task k ctx tid kind title a ty rid data)"
  unfolding insert_task_def
  apply (intro blind_rules blind_stmt)
  subgoal premises p for ts d d'
    by (rule same_outcome_insert) (simp_all add: view_rules [OF p] view_writes [OF p])
  done

lemma blind_get_task [blind_rules]: "blind (tenant_id ctx) (get_task k ctx tid)"
  unfolding get_task_def by (intro blind_rules blind_query view_lookups; assumption)

lemma blind_list_tasks [blind_rules]: "blind (tenant_id ctx) (list_tasks k ctx mine status)"
  unfolding list_tasks_def Let_def
  apply (intro blind_rules blind_query)
  subgoal premises p for d d' by (simp add: view_rules [OF p(2)])
  subgoal premises p for d d' by (simp add: view_rules [OF p(2)])
  done

lemma blind_task_writes [blind_rules]:
  "(\<And>x. tk_tenant_id (f x) = tk_tenant_id x) \<Longrightarrow> blind t (update_stmt k (set_task t tid f))"
  "blind t (close_tasks_for_approval k t aid status)"
  unfolding set_task_def close_tasks_for_approval_def
  by (intro blind_rules blind_update_stmt; simp add: view_writes)+

lemma blind_tasks [blind_rules]:
  "blind (tenant_id ctx) (create_task k ctx kind title a ty rid data)"
  "blind (tenant_id ctx) (complete_task k ctx tid status)"
  unfolding create_task_def complete_task_def by (intro blind_rules; simp)+

lemma blind_insert_approval [blind_rules]:
  "blind (tenant_id ctx) (insert_approval k ctx aid policy ty rid tkey st risk data)"
  unfolding insert_approval_def
  apply (intro blind_rules blind_stmt)
  subgoal premises p for ts d d'
    by (rule same_outcome_insert) (simp_all add: view_rules [OF p] view_writes [OF p])
  done

lemma blind_approval_reads [blind_rules]:
  "blind t (load_approval k t aid)" "blind (tenant_id ctx) (get_approval k ctx aid)"
  unfolding load_approval_def get_approval_def
  by (intro blind_rules blind_query view_lookups; assumption)+

lemma blind_list_approvals [blind_rules]: "blind (tenant_id ctx) (list_pending_approvals k ctx)"
  unfolding list_pending_approvals_def
  apply (intro blind_rules blind_query)
  subgoal premises p for d d' by (simp add: view_rules [OF p])
  done

lemma blind_set_approval [blind_rules]:
  "(\<And>x. ap_tenant_id (f x) = ap_tenant_id x) \<Longrightarrow> blind t (update_stmt k (set_approval t aid f))"
  unfolding set_approval_def by (intro blind_update_stmt) (simp add: view_writes)

lemma blind_apply_approval [blind_rules]:
  "blind (tenant_id ctx) (apply_approval k ctx ap ty target ts reason)"
  unfolding apply_approval_def
  by (cases "ap_related_record_id ap"; cases "ap_target_state ap"; simp; intro blind_rules; simp)

lemma blind_decide [blind_rules]:
  "blind (tenant_id ctx) (record_decision k ctx ap ty target ts approved reason)"
  "blind (tenant_id ctx) (decide_approval k ctx aid approved reason)"
  unfolding record_decision_def decide_approval_def by (intro blind_rules; simp add: decided_def)+

lemma blind_transitions [blind_rules]:
  "blind (tenant_id ctx) (available_transitions k ctx rid)"
  "blind (tenant_id ctx) (request_transition k ctx rid ty q tkey tr reason)"
  "blind (tenant_id ctx) (apply_transition k ctx rid ty q tr ts reason)"
  "blind (tenant_id ctx) (transition_record k ctx rid tkey reason)"
  unfolding available_transitions_def request_transition_def apply_transition_def transition_record_def
  by (intro blind_rules; simp?)+

section \<open>Accounts and tenants\<close>

lemma blind_list_usage [blind_rules]: "blind (tenant_id ctx) (list_usage k ctx)"
  unfolding list_usage_def
  apply (intro blind_rules blind_query)
  subgoal premises p for d d' by (simp add: view_rules [OF p])
  done

lemma blind_roles_for_principal [blind_rules]: "blind t (roles_for_principal k t prin)"
  unfolding roles_for_principal_def by (intro blind_query view_lookups)

lemma blind_inserts [blind_rules]:
  "us_tenant_id u = t \<Longrightarrow> blind t (insert_user k u)"
  "ra_tenant_id a = t \<Longrightarrow> blind t (insert_assignment k a)"
  "ro_tenant_id r = t \<Longrightarrow> blind t (insert_role k r)"
  "ak_tenant_id ak = t \<Longrightarrow> blind t (insert_api_key k ak)"
  unfolding insert_user_def insert_assignment_def insert_role_def insert_api_key_def
  apply (rule blind_stmt)
  subgoal premises p for d d'
    by (rule same_outcome_insert) (simp_all add: p(1) view_rules [OF p(2)] view_writes [OF p(2)])
  apply (rule blind_stmt)
  subgoal premises p for d d'
    by (rule same_outcome_insert)
      (simp_all add: p(1) assignment_key_def view_rules [OF p(2)] view_writes [OF p(2)])
  apply (rule blind_stmt)
  subgoal premises p for d d'
    by (rule same_outcome_insert)
      (simp_all add: p(1) comp_def view_rules [OF p(2)] view_writes [OF p(2)])
  apply (rule blind_stmt)
  subgoal premises p for d d'
    by (rule same_outcome_insert) (simp_all add: p(1) view_rules [OF p(2)] view_writes [OF p(2)])
  done

lemma blind_hash_password [blind_rules]: "blind t (hash_password k pw)" "blind t (new_token k prefix)"
  unfolding hash_password_def new_token_def blind_def same_state_def
  by (auto simp: Let_def split: sum.splits)

lemma blind_new_assignment [blind_rules]: "blind (tenant_id ctx) (new_assignment k ctx ty p key ts)"
  unfolding new_assignment_def by (intro blind_rules; simp)

lemma blind_users [blind_rules]:
  "blind (tenant_id ctx) (create_user k ctx email name pw keys)"
  "blind (tenant_id ctx) (get_user k ctx uid)"
  "blind (tenant_id ctx) (create_role k ctx key name desc grants)"
  "blind (tenant_id ctx) (create_api_key k ctx name prin ptype)"
  unfolding create_user_def get_user_def create_role_def create_api_key_def
  by (intro blind_rules blind_query view_lookups; (assumption | simp)?)+

lemma blind_list_users [blind_rules]: "blind (tenant_id ctx) (list_users k ctx)"
  unfolding list_users_def
  apply (intro blind_rules blind_query)
  subgoal premises p for d d' by (simp add: view_rules [OF p])
  done

lemma blind_list_roles [blind_rules]: "blind (tenant_id ctx) (list_roles k ctx)"
  unfolding list_roles_def
  apply (intro blind_rules blind_query)
  subgoal premises p for d d' by (simp add: view_rules [OF p])
  done

lemma blind_revoke_sessions [blind_rules]: "blind t (revoke_sessions_for_user k t uid)"
  unfolding revoke_sessions_for_user_def
  apply (rule blind_stmt)
  subgoal premises p for d d'
    unfolding Let_def
    by (rule same_outcome_Inr) (simp_all add: view_rules [OF p] view_writes [OF p])
  done

lemma blind_set_user_status [blind_rules]: "blind (tenant_id ctx) (set_user_status k ctx uid status)"
  unfolding set_user_status_def
  by (intro blind_rules blind_update_stmt; simp add: view_writes)

lemma blind_get_tenant [blind_rules]: "blind (tenant_id ctx) (get_tenant k ctx)"
  unfolding get_tenant_def
  apply (intro blind_rules blind_query)
  subgoal premises p for d d' by (simp add: view_rules [OF p])
  done

lemma blind_list_organizations [blind_rules]: "blind (tenant_id ctx) (list_organizations k ctx)"
  unfolding list_organizations_def
  apply (intro blind_rules blind_query)
  subgoal premises p for d d' by (simp add: view_rules [OF p])
  done

text \<open>The two operations of the platform refuse a caller that is not trusted.\<close>

lemma blind_platform [blind_rules]:
  "\<not> trusted ctx \<Longrightarrow> blind t (list_tenants k ctx)"
  "\<not> trusted ctx \<Longrightarrow> blind t (set_tenant_status k ctx tid status)"
  unfolding list_tenants_def set_tenant_status_def by (auto intro!: blind_rules)

section \<open>Reports, the builder, the migration\<close>

lemma view_upserts:
  assumes "same_view t d d'"
  shows "same_outcome t (upsert_report t def rid ts d) (upsert_report t def rid ts d')"
    "same_outcome t (upsert_dashboard t dash did ts d) (upsert_dashboard t dash did ts d')"
    "same_outcome t (upsert_draft t did status bdef ts d) (upsert_draft t did status bdef ts d')"
    "same_outcome t (upsert_session t mstatus target snapshot ts d) (upsert_session t mstatus target snapshot ts d')"
  unfolding upsert_report_def upsert_dashboard_def upsert_draft_def upsert_session_def
    set_session_def Let_def
  by (intro same_outcome_if same_outcome_Inr same_outcome_insert;
      simp add: view_rules [OF assms] view_writes [OF assms])+

lemma blind_reports [blind_rules]:
  "blind (tenant_id ctx) (save_report k ctx def)" "blind (tenant_id ctx) (save_dashboard k ctx dash)"
  "blind (tenant_id ctx) (load_report k ctx key)" "blind (tenant_id ctx) (run_report_def k ctx def)"
  "blind (tenant_id ctx) (run_report k ctx key)"
  unfolding save_report_def save_dashboard_def load_report_def run_report_def_def run_report_def
  by (intro blind_rules blind_query blind_stmt view_lookups view_upserts; assumption?)+

lemma blind_report_lists [blind_rules]:
  "blind (tenant_id ctx) (list_reports k ctx)" "blind (tenant_id ctx) (list_dashboards k ctx)"
  "blind (tenant_id ctx) (get_dashboard k ctx key)"
  unfolding list_reports_def list_dashboards_def get_dashboard_def
  apply (intro blind_rules blind_query)
  subgoal premises p for d d' by (simp add: view_rules [OF p])
  apply (intro blind_rules blind_query)
  subgoal premises p for d d' by (simp add: view_rules [OF p])
  apply (intro blind_rules blind_query)
  subgoal premises p for d d' by (simp add: view_rules [OF p])
  done

lemma blind_drafts [blind_rules]:
  "blind (tenant_id ctx) (validate_builder_definition k ctx def)"
  "blind (tenant_id ctx) (list_builder_drafts k ctx)"
  "blind (tenant_id ctx) (get_builder_draft k ctx did)"
  unfolding validate_builder_definition_def list_builder_drafts_def get_builder_draft_def
  apply (intro blind_rules)
  apply (intro blind_rules blind_query)
  subgoal premises p for d d' by (simp add: view_rules [OF p])
  apply (intro blind_rules blind_query)
  subgoal premises p for d d' by (simp add: view_rules [OF p])
  done

lemma blind_save_draft [blind_rules]: "blind (tenant_id ctx) (save_builder_draft k ctx req)"
  unfolding save_builder_draft_def
  apply (intro blind_rules blind_query blind_stmt view_upserts; assumption?)
  subgoal premises p for def did ts v status e d d' by (simp add: view_rules [OF p(3)])
  done

lemma blind_mark_published [blind_rules]: "blind (tenant_id ctx) (mark_published k ctx did ot ts)"
  unfolding mark_published_def by (intro blind_rules blind_update_stmt) (simp add: view_writes)

lemma blind_publish [blind_rules]:
  "blind (tenant_id ctx) (validate_builder_draft k ctx did)"
  "blind (tenant_id ctx) (install_object k ctx ot)" "blind (tenant_id ctx) (install_workflow k ctx w)"
  "blind (tenant_id ctx) (publish_builder_draft k ctx did)"
  "blind (tenant_id ctx) (builder_templates k ctx)"
  unfolding validate_builder_draft_def install_object_def install_workflow_def
    publish_builder_draft_def builder_templates_def
  by (intro blind_rules)+

lemma blind_create_sample [blind_rules]: "blind (tenant_id ctx) (create_sample k ctx ty kvs)"
  unfolding create_sample_def by (intro blind_rules)

lemma blind_install_template [blind_rules]:
  "blind (tenant_id ctx) (install_sample_records k ctx key)"
  "blind (tenant_id ctx) (install_template_reports k ctx key)"
  "blind (tenant_id ctx) (install_builder_template k ctx req)"
  unfolding install_sample_records_def install_finance_records_def install_procurement_records_def
    install_inventory_records_def install_template_reports_def install_builder_template_def
  by (intro blind_rules)+

lemma blind_active_record_counts [blind_rules]: "blind t (active_record_counts k t)"
  unfolding active_record_counts_def
  apply (intro blind_query)
  subgoal premises p for d d' by (simp add: view_rules [OF p])
  done

lemma blind_session_parts [blind_rules]:
  "blind (tenant_id ctx) (old_objects_and_counts k ctx)" "blind t (load_session k t)"
  "blind (tenant_id ctx) (require_session k ctx)" "blind t (audit_migration k ctx act after)"
  "blind t' (build_report k t for_system objects counts selected)"
  "(\<And>x. se_tenant_id (f x) = se_tenant_id x) \<Longrightarrow> blind t (update_stmt k (set_session t f))"
  unfolding old_objects_and_counts_def load_session_def require_session_def audit_migration_def
    build_report_def set_session_def
  by (intro blind_rules blind_query blind_update_stmt view_lookups; (assumption | simp add: view_writes)?)+

lemma blind_migration [blind_rules]:
  "blind (tenant_id ctx) (start_migration k ctx target)" "blind (tenant_id ctx) (get_migration k ctx)"
  "blind (tenant_id ctx) (select_target_system k ctx target')"
  "blind (tenant_id ctx) (set_active_system k ctx active)"
  "blind (tenant_id ctx) (plan_migration k ctx)"
  "blind (tenant_id ctx) (generate_and_store_report k ctx for_system)"
  "blind (tenant_id ctx) (migration_report k ctx for_system)"
  unfolding start_migration_def get_migration_def select_target_system_def set_active_system_def
    plan_migration_def generate_and_store_report_def migration_report_def
  by (intro blind_rules blind_stmt view_upserts; (assumption | simp)?)+

section \<open>Agents and actions\<close>

lemma blind_retrieve [blind_rules]:
  "blind (tenant_id ctx) (retrieve_type k ctx qry limit ty)"
  "blind (tenant_id ctx) (retrieve k ctx qry tys limit)"
  unfolding retrieve_type_def retrieve_def by (intro blind_rules)+

lemma blind_complete [blind_rules]: "blind t (complete eng req)"
  by (cases "en_provider eng") (auto simp: complete_def blind_def same_state_def)

lemma blind_agent_parts [blind_rules]:
  "blind t (guard_agents k)" "blind t (today_str k)"
  "blind (tenant_id ctx) (agent_list k ctx ty)"
  "blind t (finish_with eng k ctx prompt citations sources)"
  "blind (tenant_id ctx) (aggregate k ctx ty op fld filters)"
  unfolding guard_agents_def today_str_def agent_list_def finish_with_def aggregate_def
  by (intro blind_rules)+

lemma blind_agents [blind_rules]:
  "blind (tenant_id ctx) (ask eng k ctx question tys)"
  "blind (tenant_id ctx) (summarize_record eng k ctx rid)"
  "blind (tenant_id ctx) (finance_cashflow_risk eng k ctx)"
  "blind (tenant_id ctx) (procurement_low_stock eng k ctx)"
  "blind (tenant_id ctx) (sales_deal_risk eng k ctx)"
  "blind (tenant_id ctx) (bi_answer eng k ctx question)"
  unfolding ask_def summarize_record_def finance_cashflow_risk_def procurement_low_stock_def
    sales_deal_risk_def bi_answer_def finish_def
  by (intro blind_rules)+

lemma blind_action_parts [blind_rules]:
  "blind t (audit_action k ctx a act after)" "blind (tenant_id ctx) (preview_change k ctx a)"
  "blind (tenant_id ctx) (perform k ctx a)"
  unfolding audit_action_def preview_change_def perform_def
  by (intro blind_rules) (cases "aa_op a"; simp; intro blind_rules)+

lemma blind_actions [blind_rules]:
  "blind (tenant_id ctx) (dry_run k ctx a)" "blind (tenant_id ctx) (execute k ctx a approved)"
  unfolding dry_run_def execute_def by (intro blind_rules)+

end
