(* ===== verification/Confidentiality.thy ===== *)
theory Confidentiality
  imports BlindServices Guarantees
begin

text \<open>
  Confidentiality between tenants at the HTTP layer: no handler of a protected request reveals
  anything that depends on the rows of another tenant. The handlers inherit it from the services
  (theory \<open>BlindServices\<close>); authentication, which reads by token before the tenant is known, is
  blind under the condition that the token is a credential of the tenant.
\<close>

section \<open>The handlers\<close>

lemma blind_replyK: "blind t m \<Longrightarrow> blind t (replyK f m)"
  unfolding replyK_def by (intro blind_rules)

lemma blind_lifecycle_handlers [blind_rules]:
  "blind (tenant_id ctx) (archive_record_handler app ctx rid)"
  "blind (tenant_id ctx) (restore_record_handler app ctx rid)"
  "blind (tenant_id ctx) (migration_report_handler app ctx sys)"
  unfolding archive_record_handler_def restore_record_handler_def archive_record_def
    restore_record_def migration_report_handler_def
  by (intro blind_rules)+

lemmas blind_simps = handler_defs blind_replyK blind_rules

lemma blind_handle_tenancy: "\<not> trusted ctx \<Longrightarrow> blind (tenant_id ctx) (handle_tenancy app ctx req)"
  by (cases req) (simp_all add: blind_simps)

lemma blind_handle_identity: "blind (tenant_id ctx) (handle_identity app ctx req)"
  by (cases req) (simp_all add: blind_simps)

lemma blind_handle_builder: "blind (tenant_id ctx) (handle_builder app ctx req)"
  by (cases req) (simp_all add: blind_simps)

lemma blind_handle_migration: "blind (tenant_id ctx) (handle_migration app ctx req)"
  by (cases req) (simp_all add: blind_simps)

lemma blind_handle_schema: "blind (tenant_id ctx) (handle_schema app ctx req)"
  by (cases req) (simp_all add: blind_simps)

lemma blind_handle_record: "blind (tenant_id ctx) (handle_record app ctx req)"
  by (cases req) (simp_all add: blind_simps)

lemma blind_handle_flow: "blind (tenant_id ctx) (handle_flow app ctx req)"
  by (cases req) (simp_all add: blind_simps)

lemma blind_handle_insight: "blind (tenant_id ctx) (handle_insight app ctx req)"
  by (cases req) (simp_all add: blind_simps)

lemma blind_handle_ai: "blind (tenant_id ctx) (handle_ai app ctx req)"
  by (cases req) (simp_all add: blind_simps)

lemma blind_handle: "\<not> trusted ctx \<Longrightarrow> blind (tenant_id ctx) (handle app ctx req)"
  by (cases req) (simp_all add: blind_replyK blind_handle_tenancy blind_handle_identity blind_handle_builder blind_handle_migration blind_handle_schema blind_handle_record blind_handle_flow blind_handle_insight blind_handle_ai)

section \<open>Authentication\<close>

text \<open>
  Authentication starts from a token, before any tenant is known. The token belongs to a tenant
  when its hash is stored only in rows of that tenant, the users of its sessions are users of that
  tenant, and so is every key that shares a key's identifier.
\<close>

definition own_token :: "kernel \<Rightarrow> string \<Rightarrow> database \<Rightarrow> string \<Rightarrow> bool" where
  "own_token k t d token \<longleftrightarrow>
     (\<forall>r\<in>set (sessions d). ss_token_hash r = sha256_hex k token \<longrightarrow>
        ss_tenant_id r = t \<and> (\<forall>u\<in>set (users d). us_id u = ss_user_id r \<longrightarrow> us_tenant_id u = t)) \<and>
     (\<forall>r\<in>set (api_keys d). ak_token_hash r = sha256_hex k token \<longrightarrow>
        ak_tenant_id r = t \<and> (\<forall>q\<in>set (api_keys d). ak_id q = ak_id r \<longrightarrow> ak_tenant_id q = t))"

text \<open>Rows selected by a condition that only rows of the tenant meet, here or in the other database.\<close>

lemma agree_find_own:
  assumes "agree ten ident t xs ys" "\<forall>x\<in>set xs. P x \<longrightarrow> ten x = t" "\<forall>y\<in>set ys. P y \<longrightarrow> ten y = t"
  shows "find P xs = find P ys"
proof -
  have "filter P zs = filter (\<lambda>x. P x \<and> ten x = t) zs" if "\<forall>x\<in>set zs. P x \<longrightarrow> ten x = t" for zs
    using that by (auto intro: filter_cong)
  moreover have "filter (\<lambda>x. P x \<and> ten x = t) xs = filter (\<lambda>x. P x \<and> ten x = t) ys"
    by (rule agree_filter_own [OF assms(1)]) simp
  ultimately show ?thesis using assms(2,3) by (simp add: find_filter)
qed

lemma agree_upd_where_own:
  assumes "agree ten ident t xs ys" "\<forall>x\<in>set xs. P x \<longrightarrow> ten x = t" "\<forall>y\<in>set ys. P y \<longrightarrow> ten y = t"
    "\<forall>x. ten (f x) = ten x"
  shows "agree ten ident t (upd_where P f xs) (upd_where P f ys)"
proof -
  have "upd_where P f zs = upd_where (\<lambda>x. P x \<and> ten x = t) f zs" if "\<forall>x\<in>set zs. P x \<longrightarrow> ten x = t" for zs
    using that by (auto simp: upd_where_def)
  with assms show ?thesis by (simp add: agree_upd_where)
qed

text \<open>Identifiers of foreign rows are shared, so a condition on them holds of foreign rows in both or in neither.\<close>

lemma agree_owned:
  assumes "agree ten ident t xs ys" "\<forall>x\<in>set xs. P (ident x) \<longrightarrow> ten x = t"
  shows "\<forall>y\<in>set ys. P (ident y) \<longrightarrow> ten y = t"
proof (intro ballI impI, rule ccontr)
  fix y assume y: "y \<in> set ys" "P (ident y)" "ten y \<noteq> t"
  then have "ident y \<in> ident ` set (filter (\<lambda>x. ten x \<noteq> t) ys)" by simp
  with assms(1) have "ident y \<in> ident ` set (filter (\<lambda>x. ten x \<noteq> t) xs)" by (simp add: agree_def)
  then obtain x where "x \<in> set xs" "ten x \<noteq> t" "ident x = ident y" by auto
  with y assms(2) show False by metis
qed

lemma view_session_found:
  assumes "same_view t d d'" "own_token k t d token"
  shows "live_session d (sha256_hex k token) = live_session d' (sha256_hex k token)"
proof -
  let ?h = "sha256_hex k token"
  have 1: "\<forall>r\<in>set (sessions d). ss_token_hash r = ?h \<longrightarrow> ss_tenant_id r = t"
    using assms(2) by (simp add: own_token_def)
  from agree_owned [OF same_view_tables(9) [OF assms(1)] this]
  have "\<forall>r\<in>set (sessions d'). ss_token_hash r = ?h \<longrightarrow> ss_tenant_id r = t" .
  with 1 show ?thesis
    unfolding live_session_def by (intro agree_find_own [OF same_view_tables(9) [OF assms(1)]]) auto
qed

lemma view_session_user:
  assumes "same_view t d d'" "own_token k t d token" "live_session d (sha256_hex k token) = Some row"
  shows "ss_tenant_id row = t"
    "find (\<lambda>u. us_id u = ss_user_id row) (users d) = find (\<lambda>u. us_id u = ss_user_id row) (users d')"
proof -
  from assms(3) have row: "row \<in> set (sessions d)" "ss_token_hash row = sha256_hex k token"
    by (auto simp: live_session_def find_Some_iff)
  with assms(2) show "ss_tenant_id row = t" by (simp add: own_token_def)
  have 1: "\<forall>u\<in>set (users d). us_id u = ss_user_id row \<longrightarrow> us_tenant_id u = t"
    using row assms(2) by (simp add: own_token_def)
  from agree_owned [OF same_view_tables(4) [OF assms(1)] this]
  show "find (\<lambda>u. us_id u = ss_user_id row) (users d) = find (\<lambda>u. us_id u = ss_user_id row) (users d')"
    by (intro agree_find_own [OF same_view_tables(4) [OF assms(1)] 1])
qed

lemma view_key_found:
  assumes "same_view t d d'" "own_token k t d token"
  shows "live_api_key d (sha256_hex k token) = live_api_key d' (sha256_hex k token)"
proof -
  let ?h = "sha256_hex k token"
  have 1: "\<forall>r\<in>set (api_keys d). ak_token_hash r = ?h \<longrightarrow> ak_tenant_id r = t"
    using assms(2) by (simp add: own_token_def)
  then have "\<forall>r\<in>set (api_keys d). snd (api_key_ident r) = ?h \<longrightarrow> ak_tenant_id r = t"
    by (simp add: api_key_ident_def)
  from agree_owned [OF same_view_tables(8) [OF assms(1)] this]
  have "\<forall>r\<in>set (api_keys d'). ak_token_hash r = ?h \<longrightarrow> ak_tenant_id r = t"
    by (simp add: api_key_ident_def)
  with 1 show ?thesis
    unfolding live_api_key_def by (intro agree_find_own [OF same_view_tables(8) [OF assms(1)]]) auto
qed

lemma view_touch_key:
  assumes "same_view t d d'" "own_token k t d token" "live_api_key d (sha256_hex k token) = Some row"
  shows "ak_tenant_id row = t" "same_view t (touch_key (ak_id row) ts d) (touch_key (ak_id row) ts d')"
proof -
  from assms(3) have row: "row \<in> set (api_keys d)" "ak_token_hash row = sha256_hex k token"
    by (auto simp: live_api_key_def find_Some_iff)
  with assms(2) show "ak_tenant_id row = t" by (simp add: own_token_def)
  have 1: "\<forall>q\<in>set (api_keys d). ak_id q = ak_id row \<longrightarrow> ak_tenant_id q = t"
    using row assms(2) by (simp add: own_token_def)
  then have "\<forall>q\<in>set (api_keys d). fst (api_key_ident q) = ak_id row \<longrightarrow> ak_tenant_id q = t"
    by (simp add: api_key_ident_def)
  from agree_owned [OF same_view_tables(8) [OF assms(1)] this]
  have "\<forall>q\<in>set (api_keys d'). ak_id q = ak_id row \<longrightarrow> ak_tenant_id q = t"
    by (simp add: api_key_ident_def)
  with 1 show "same_view t (touch_key (ak_id row) ts d) (touch_key (ak_id row) ts d')"
    unfolding touch_key_def
    by (intro same_view_update(8) agree_upd_where_own [OF same_view_tables(8) [OF assms(1)]] assms(1)) auto
qed

text \<open>Blindness from databases that meet a condition, which the reads that come first establish.\<close>

definition blind_if :: "(database \<Rightarrow> database \<Rightarrow> bool) \<Rightarrow> string \<Rightarrow> 'a kern \<Rightarrow> bool" where
  "blind_if Q t m \<longleftrightarrow> (\<forall>s s'. same_state t s s' \<and> Q (db s) (db s') \<longrightarrow>
     fst (m s) = fst (m s') \<and> same_state t (snd (m s)) (snd (m s')))"

lemma blind_if_blind: "blind t m \<Longrightarrow> blind_if Q t m"
  by (simp add: blind_if_def blind_def)

lemma blind_if_never: "(\<And>d d'. \<not> Q d d') \<Longrightarrow> blind_if Q t m"
  by (simp add: blind_if_def)

lemma blind_if_query:
  assumes "\<And>d d'. same_view t d d' \<Longrightarrow> Q d d' \<Longrightarrow> q d = q d'"
    and "\<And>x. blind_if (\<lambda>d d'. Q d d' \<and> q d = x) t (f x)"
  shows "blind_if Q t (bindK (query k q) f)"
  unfolding blind_if_def
proof (intro allI impI)
  fix s s' assume a: "same_state t s s' \<and> Q (db s) (db s')"
  let ?n = "\<lambda>s. s\<lparr>tick := Suc (tick s)\<rparr>"
  from a have t: "tick s = tick s'" and n: "same_state t (?n s) (?n s')" by (simp_all add: same_state_def)
  have q: "q (db s) = q (db s')" using a assms(1) by (simp add: same_state_def)
  show "fst (bindK (query k q) f s) = fst (bindK (query k q) f s') \<and>
      same_state t (snd (bindK (query k q) f s)) (snd (bindK (query k q) f s'))"
  proof (cases "db_fault k (tick s)")
    case True
    with t n show ?thesis by (simp add: bindK_def query_def stmt_def)
  next
    case False
    with t q n a assms(2) [of "q (db s)"] show ?thesis
      by (simp add: bindK_def query_def stmt_def blind_if_def)
  qed
qed

lemma blind_if_bindK:
  assumes "blind t m" "\<And>s. db (snd (m s)) = db s" "\<And>x. blind_if Q t (f x)"
  shows "blind_if Q t (bindK m f)"
  unfolding blind_if_def
proof (intro allI impI)
  fix s s' assume a: "same_state t s s' \<and> Q (db s) (db s')"
  with assms(1) obtain r s1 s1' where 1: "m s = (r, s1)" "m s' = (r, s1')" "same_state t s1 s1'"
    by (blast elim: blindE)
  moreover have "Q (db s1) (db s1')" using a 1 assms(2) [of s] assms(2) [of s'] by simp
  ultimately show "fst (bindK m f s) = fst (bindK m f s') \<and>
      same_state t (snd (bindK m f s)) (snd (bindK m f s'))"
    using assms(3) by (cases r) (simp_all add: bindK_def blind_if_def)
qed

lemmas blind_if_seqK = blind_if_bindK [where f = "\<lambda>_. m" for m, folded seqK_def]

lemma blind_if_someK:
  assumes "\<And>x. o' = Some x \<Longrightarrow> blind_if Q t (f x)"
  shows "blind_if Q t (bindK (someK e o') f)"
  using assms by (cases o') (auto simp: blind_if_def bindK_def someK_def failK_def retK_def)

lemma blind_if_then:
  assumes "blind_if Q t m" "\<And>x. blind t (f x)"
  shows "blind_if Q t (bindK m f)"
  unfolding blind_if_def
proof (intro allI impI)
  fix s s' assume a: "same_state t s s' \<and> Q (db s) (db s')"
  then obtain r s1 s1' where 1: "m s = (r, s1)" "m s' = (r, s1')" "same_state t s1 s1'"
    using assms(1) unfolding blind_if_def by (metis prod.collapse)
  then show "fst (bindK m f s) = fst (bindK m f s') \<and>
      same_state t (snd (bindK m f s)) (snd (bindK m f s'))"
    using assms(2) by (cases r) (simp_all add: bindK_def blind_def)
qed

lemma blind_if_update:
  assumes "\<And>d d'. same_view t d d' \<Longrightarrow> Q d d' \<Longrightarrow> same_view t (u d) (u d')"
  shows "blind_if Q t (ignoreK (update_stmt k u))"
  using assms by (auto simp: blind_if_def ignoreK_def update_stmt_def stmt_def same_state_def Let_def)

lemma blind_check_expiry: "blind t (check_expiry k ts)"
  unfolding check_expiry_def by (intro blind_rules)

lemma blind_require_tenant_active: "blind t (require_tenant_active k t)"
  unfolding require_tenant_active_def
  by (intro blind_rules blind_query) (simp add: view_rules)

lemma pure_require: "db (snd (require_tenant_active k t s)) = db s" "db (snd (check_expiry k ts s)) = db s"
  "db (snd (guardK b e s)) = db s"
  by (auto simp: require_tenant_active_def check_expiry_def bindK_def query_def stmt_def someK_def guardK_def
      retK_def failK_def now_def Let_def split: option.splits)

lemma pure_roles: "db (snd (roles_for_principal k t p s)) = db s" "db (snd (now_rfc3339 k s)) = db s"
  "db (snd (query k q s)) = db s"
  by (auto simp: roles_for_principal_def now_rfc3339_def bindK_def query_def stmt_def retK_def now_def Let_def)

lemma blind_principal: "blind t (query k (\<lambda>d. principal_status d ptype t pid))"
  by (rule blind_query) (simp add: principal_status_def view_rules)

lemma blind_authenticate_session:
  "blind_if (\<lambda>d d'. own_token k t d token) t (authenticate_session k (sha256_hex k token) rid src)"
proof -
  have "blind_if (\<lambda>d d'. own_token k t d token \<and> live_session d (sha256_hex k token) = Some row) t
     (seqK (check_expiry k (ss_expires_at row)) (
      seqK (require_tenant_active k (ss_tenant_id row)) (
      bindK (query k (\<lambda>d. find (\<lambda>u. us_id u = ss_user_id row) (users d))) (\<lambda>user.
      bindK (someK (unauthorized ''user not found'') user) (\<lambda>u.
      seqK (guardK (us_status u = ''active'') (unauthorized ''user inactive'')) (
      bindK (roles_for_principal k (ss_tenant_id row) (ss_user_id row)) (\<lambda>keys.
      retK (user_ctx u (ss_tenant_id row) (ss_org_id row) keys rid src))))))))" for row
  proof (cases "ss_tenant_id row = t")
    case True
    show ?thesis
      unfolding True
      by (intro blind_if_seqK blind_check_expiry blind_require_tenant_active pure_require blind_if_query
          blind_if_blind blind_rules) (blast dest: view_session_user(2))
  next
    case False
    then show ?thesis
      using view_session_user(1) [OF same_view_refl] by (blast intro: blind_if_never)
  qed
  then show ?thesis
    unfolding authenticate_session_def
    by (intro blind_if_query blind_if_someK view_session_found) (assumption | simp)+
qed

lemma blind_authenticate_api_key:
  "blind_if (\<lambda>d d'. own_token k t d token) t (authenticate_api_key k (sha256_hex k token) rid src)"
proof -
  have "blind_if (\<lambda>d d'. own_token k t d token \<and> live_api_key d (sha256_hex k token) = Some row) t
     (seqK (require_tenant_active k (ak_tenant_id row)) (
      bindK (query k (\<lambda>d. principal_status d (ak_principal_type row) (ak_tenant_id row)
               (ak_principal_id row))) (\<lambda>status.
      seqK (guardK (status = Some ''active'') (unauthorized ''api key principal is not active'')) (
      bindK (roles_for_principal k (ak_tenant_id row) (ak_principal_id row)) (\<lambda>keys.
      bindK (now_rfc3339 k) (\<lambda>ts.
      seqK (ignoreK (update_stmt k (touch_key (ak_id row) ts)))
      (retK \<lparr>actor_type = (if ak_principal_type row = ''user'' then User else ServiceAccount),
             actor_id = ak_principal_id row, tenant_id = ak_tenant_id row, org_id = ak_org_id row,
             workspace_id = None, role_keys = keys, is_platform_admin = False, request_id = rid,
             source = src, agent_safety_level = None\<rparr>)))))))" for row
  proof (cases "ak_tenant_id row = t")
    case True
    show ?thesis
      unfolding True seqK_def [of "ignoreK m" for m]
      by (intro blind_if_seqK blind_require_tenant_active blind_principal pure_require
          pure_roles blind_roles_for_principal blind_now_rfc3339 blind_guardK blind_if_bindK [of _ "now_rfc3339 k"]
          blind_if_bindK [of _ "roles_for_principal k t (ak_principal_id row)"]
          blind_if_bindK [of _ "query k (\<lambda>d. principal_status d (ak_principal_type row) t (ak_principal_id row))"]
          blind_if_then blind_if_update blind_retK) (blast dest: view_touch_key(2))
  next
    case False
    then show ?thesis
      using view_touch_key(1) [OF same_view_refl] by (blast intro: blind_if_never)
  qed
  then show ?thesis
    unfolding authenticate_api_key_def
    by (intro blind_if_query blind_if_someK view_key_found) (assumption | simp)+
qed

lemma blind_authenticate:
  "blind_if (\<lambda>d d'. own_token k t d token) t (authenticate k token rid src)"
  by (simp add: authenticate_def Let_def blind_authenticate_session blind_authenticate_api_key)

lemma blind_meter_api_call: "tenant_id ctx = t \<Longrightarrow> blind t (meter_api_call k ctx)"
  unfolding meter_api_call_def record_usage_def current_period_def
  apply (intro blind_rules blind_stmt)
  subgoal premises p for uid period ts d d'
    unfolding bump_meter_def Let_def
    by (intro same_outcome_if same_outcome_Inr same_outcome_insert)
      (simp_all add: p(1) view_rules [OF p(3)] view_writes [OF p(3)])
  done

lemma own_token_tenant:
  assumes "own_token k t d token" "speaks_for k d token ctx"
  shows "tenant_id ctx = t"
  using assms by (auto simp: own_token_def speaks_for_def backed_by_key_def backed_by_session_def)

text \<open>The whole request: stamping the request id, the extractor with its metering, the handler.\<close>

lemma blind_stamp: "blind t (stamp_request_id k h)"
  unfolding stamp_request_id_def by (intro blind_rules)

text \<open>What follows a successful authentication runs for an ordinary caller of the tenant.\<close>

lemma blind_if_authenticated:
  assumes "\<And>ctx. tenant_id ctx = t \<Longrightarrow> \<not> trusted ctx \<Longrightarrow> blind t (f ctx)"
  shows "blind_if (\<lambda>d d'. own_token k t d token \<and> no_platform_admin d) t
    (bindK (authenticate k token rid src) f)"
  unfolding blind_if_def
proof (intro allI impI)
  fix s s' assume a: "same_state t s s' \<and> own_token k t (db s) token \<and> no_platform_admin (db s)"
  then obtain r s1 s1' where 1: "authenticate k token rid src s = (r, s1)"
    "authenticate k token rid src s' = (r, s1')" "same_state t s1 s1'"
    using blind_authenticate unfolding blind_if_def by (metis prod.collapse)
  show "fst (bindK (authenticate k token rid src) f s) = fst (bindK (authenticate k token rid src) f s') \<and>
      same_state t (snd (bindK (authenticate k token rid src) f s))
        (snd (bindK (authenticate k token rid src) f s'))"
  proof (cases r)
    case (Inl e)
    with 1 show ?thesis by (simp add: bindK_def)
  next
    case (Inr ctx)
    with 1(1) have sp: "speaks_for k (db s) token ctx" by (simp add: authenticate_speaks_for)
    then have "tenant_id ctx = t" using a own_token_tenant by blast
    moreover have "\<not> trusted ctx" using speaks_for_ordinary [OF _ sp] a by simp
    ultimately have "blind t (f ctx)" by (rule assms)
    with 1 Inr show ?thesis by (simp add: bindK_def blind_def)
  qed
qed

definition own_bearer :: "kernel \<Rightarrow> string \<Rightarrow> database \<Rightarrow> headers \<Rightarrow> bool" where
  "own_bearer k t d h \<longleftrightarrow> (case bearer h of None \<Rightarrow> True | Some token \<Rightarrow> own_token k t d token)"

lemma blind_if_serve_protected:
  "blind_if (\<lambda>d d'. own_bearer (st_kernel app) t d h \<and> no_platform_admin d) t (serve_protected app h req)"
proof -
  let ?k = "st_kernel app"
  let ?id = "case hd_request_id h of Some v \<Rightarrow> retK v | None \<Rightarrow> new_id ?k"
  let ?go = "\<lambda>token rid. bindK (authenticate ?k token rid (detect_source h)) (\<lambda>ctx.
    seqK (meter_api_call ?k ctx) (handle app ctx req))"
  have serve: "serve_protected app h req =
    bindK (someK (unauthorized ''missing bearer token'') (bearer h)) (\<lambda>token. bindK ?id (?go token))"
    by (rule ext) (simp add: serve_protected_def extract_auth_def bindK_def seqK_def retK_def
        split: sum.splits prod.splits)
  have id: "blind t ?id" "db (snd (?id s)) = db s" for s
  proof -
    show "blind t ?id" by (intro blind_rules)
    show "db (snd (?id s)) = db s" by (simp add: retK_def new_id_def split: option.splits)
  qed
  show ?thesis
    unfolding serve own_bearer_def
    by (intro blind_if_someK blind_if_bindK [OF id])
      (auto intro: blind_if_authenticated blind_seqK blind_meter_api_call blind_handle)
qed

lemma blind_if_serve:
  "blind_if (\<lambda>d d'. own_bearer (st_kernel app) t d h \<and> no_platform_admin d) t (serve app h (Protected req))"
proof -
  let ?id = "case hd_request_id h of
      Some v \<Rightarrow> if sane_request_id v then retK v else new_id (st_kernel app)
    | None \<Rightarrow> new_id (st_kernel app)"
  have serve: "serve app h (Protected req) =
      bindK ?id (\<lambda>rid. serve_protected app (h\<lparr>hd_request_id := Some rid\<rparr>) req)"
    by (rule ext) (simp add: serve_def stamp_request_id_def bindK_def retK_def split: sum.splits prod.splits)
  have id: "blind t ?id" "db (snd (?id s)) = db s" for s
  proof -
    show "blind t ?id" by (intro blind_rules)
    show "db (snd (?id s)) = db s" by (simp add: retK_def new_id_def split: option.splits)
  qed
  have "own_bearer k t d (h\<lparr>hd_request_id := x\<rparr>) = own_bearer k t d h" for k d x
    by (simp add: own_bearer_def)
  with blind_if_serve_protected [of app t "h\<lparr>hd_request_id := x\<rparr>" req for x]
  have "blind_if (\<lambda>d d'. own_bearer (st_kernel app) t d h \<and> no_platform_admin d) t
      (serve_protected app (h\<lparr>hd_request_id := Some rid\<rparr>) req)" for rid
    by simp
  then show ?thesis unfolding serve by (rule blind_if_bindK [OF id])
qed

section \<open>The guarantee\<close>

text \<open>
  C2: A reply depends on nothing but the tenant's own rows. Take any two databases that agree on
  the rows of a tenant, in every table, and in which the rows of other tenants occupy the same
  identifiers but may hold entirely different data. Then every protected request whose bearer token
  is a credential of that tenant, or is missing, or is no credential at all, is answered identically,
  whether with a result or with an error, from the request id and the authentication to the reply;
  and the two databases it leaves agree in the same way, so that no later request can tell them
  apart either.
\<close>

theorem replies_reveal_own_rows_only:
  assumes "no_platform_admin d" "own_bearer (st_kernel app) t d h" "same_view t d d'"
  shows "fst (serve app h (Protected req) \<lparr>db = d, limiter = l, tick = n\<rparr>) =
      fst (serve app h (Protected req) \<lparr>db = d', limiter = l, tick = n\<rparr>) \<and>
    same_view t (db (snd (serve app h (Protected req) \<lparr>db = d, limiter = l, tick = n\<rparr>)))
      (db (snd (serve app h (Protected req) \<lparr>db = d', limiter = l, tick = n\<rparr>)))"
proof -
  have "same_state t \<lparr>db = d, limiter = l, tick = n\<rparr> \<lparr>db = d', limiter = l, tick = n\<rparr>"
    using assms(3) by (simp add: same_state_def)
  with blind_if_serve [of app t h req] assms(1,2) show ?thesis
    unfolding blind_if_def by (fastforce simp: same_state_def)
qed

text \<open>The sample database with a record of another tenant that holds the given text.\<close>

definition with_neighbour :: "string \<Rightarrow> database" where
  "with_neighbour secret = demo_db\<lparr>records := records demo_db @
     [(demo_record ''rec9'' ''eve'' secret ''draft'')\<lparr>r_tenant_id := ''globex''\<rparr>]\<rparr>"

theorem replies_reveal_own_rows_only_witness:
  "with_neighbour ''X'' \<noteq> with_neighbour ''Y'' \<and>
   fst (serve demo_app (with_token ''lds_b'') (Protected (Record (List_records ''invoice''
      \<lparr>ls_limit = None, ls_offset = None, ls_search = Some ''x'', ls_sort = None, ls_desc = False,
       ls_include_archived = True\<rparr>)))
      \<lparr>db = with_neighbour ''X'', limiter = (\<lambda>_. None), tick = 100\<rparr>) =
   fst (serve demo_app (with_token ''lds_b'') (Protected (Record (List_records ''invoice''
      \<lparr>ls_limit = None, ls_offset = None, ls_search = Some ''x'', ls_sort = None, ls_desc = False,
       ls_include_archived = True\<rparr>)))
      \<lparr>db = with_neighbour ''Y'', limiter = (\<lambda>_. None), tick = 100\<rparr>)"
proof -
  have "no_platform_admin (with_neighbour ''X'')"
    by (simp add: with_neighbour_def no_platform_admin_def demo_defs)
  moreover have "own_bearer (st_kernel demo_app) ''acme'' (with_neighbour ''X'') (with_token ''lds_b'')"
    by (simp add: own_bearer_def own_token_def with_neighbour_def demo_run demo_defs)
  moreover have "same_view ''acme'' (with_neighbour ''X'') (with_neighbour ''Y'')"
    unfolding with_neighbour_def
    by (rule same_view_update(12)) (simp_all add: agree_def demo_record_def)
  moreover have "map r_data (records (with_neighbour ''X'')) \<noteq> map r_data (records (with_neighbour ''Y''))"
    by (simp add: with_neighbour_def demo_record_def jobj_def)
  then have "with_neighbour ''X'' \<noteq> with_neighbour ''Y''" by metis
  ultimately show ?thesis using replies_reveal_own_rows_only by blast
qed

end
