(* ===== verification/Startup.thy ===== *)
theory Startup
  imports Handlers
begin

text \<open>
  What the server takes from its environment when it starts: where the store is and how many
  connections it gets (\<open>kernel/src/store.rs\<close>), the origins that browsers may call from
  (\<open>cors_layer\<close> of \<open>api/src/app.rs\<close>), the AI provider (\<open>ai/src/lib.rs\<close>) and the state the handlers
  share (\<open>build_state\<close> of \<open>api/src/lib.rs\<close>). Environment variables are a function. Opening the store
  and the syntax of header values belong to libraries and are arguments.
\<close>

section \<open>The store\<close>

datatype store_config = Memory | File string

definition strip_prefix :: "string \<Rightarrow> string \<Rightarrow> string option" where
  "strip_prefix p s = (if take (length p) s = p then Some (drop (length p) s) else None)"

definition store_config_from_env :: "(string \<Rightarrow> string option) \<Rightarrow> store_config" where
  "store_config_from_env env =
     (case env ''LATENTDB_DATABASE_URL'' of
        Some v \<Rightarrow>
          if v = '':memory:'' \<or> v = ''sqlite::memory:'' then Memory
          else File (case strip_prefix ''sqlite://'' v of Some p \<Rightarrow> p | None \<Rightarrow> v)
      | None \<Rightarrow> File ''latentdb.db'')"

text \<open>\<open>str::parse::<u32>\<close>: an optional plus sign and digits.\<close>

definition parse_u32 :: "string \<Rightarrow> nat option" where
  "parse_u32 s =
     (let digits = (case s of [] \<Rightarrow> [] | c # cs \<Rightarrow> if c = CHR ''+'' then cs else c # cs)
      in if digits \<noteq> [] \<and> list_all is_digit digits \<and> digits_value digits < 2 ^ 32
         then Some (digits_value digits) else None)"

definition file_pool_size :: "(string \<Rightarrow> string option) \<Rightarrow> nat" where
  "file_pool_size env =
     (case env ''LATENTDB_MAX_CONNECTIONS'' of
        None \<Rightarrow> 8
      | Some v \<Rightarrow> (case parse_u32 (trim v) of None \<Rightarrow> 8 | Some n \<Rightarrow> min (max n 1) 64))"

text \<open>What \<open>connect\<close> asks of the SQLite driver and of the pool.\<close>

datatype journal_mode = DefaultJournal | Wal

datatype synchronous = DefaultSync | NormalSync

record connect_options =
  co_filename :: "string option"
  co_create_if_missing :: bool
  co_foreign_keys :: bool
  co_journal_mode :: journal_mode
  co_synchronous :: synchronous
  co_busy_timeout_secs :: "nat option"

record pool_options =
  po_connect :: connect_options
  po_max_connections :: nat
  po_min_connections :: nat
  po_idle_timeout :: "nat option"
  po_max_lifetime :: "nat option"

definition connect :: "(string \<Rightarrow> string option) \<Rightarrow> store_config \<Rightarrow> pool_options" where
  "connect env config =
     (let (opts, max_conns) =
        (case config of
           Memory \<Rightarrow>
             (\<lparr>co_filename = None, co_create_if_missing = False, co_foreign_keys = True,
               co_journal_mode = DefaultJournal, co_synchronous = DefaultSync,
               co_busy_timeout_secs = None\<rparr>, 1)
         | File path \<Rightarrow>
             (\<lparr>co_filename = Some path, co_create_if_missing = True, co_foreign_keys = True,
               co_journal_mode = Wal, co_synchronous = NormalSync,
               co_busy_timeout_secs = Some 5\<rparr>, file_pool_size env))
      in \<lparr>po_connect = opts, po_max_connections = max_conns, po_min_connections = 1,
          po_idle_timeout = None, po_max_lifetime = None\<rparr>)"

lemma connect_pool:
  "po_min_connections (connect env config) \<le> po_max_connections (connect env config)"
  "po_max_connections (connect env config) \<le> 64"
  "co_foreign_keys (po_connect (connect env config))"
  by (simp_all add: connect_def file_pool_size_def split: store_config.split option.split)

section \<open>Origins\<close>

datatype cors_policy = CorsPermissive | CorsOrigins "string list"

definition cors_layer :: "(string \<Rightarrow> string option) \<Rightarrow> (string \<Rightarrow> string option) \<Rightarrow> cors_policy" where
  "cors_layer parse_header env =
     (case env ''LATENTDB_CORS_ALLOWED_ORIGINS'' of
        Some raw \<Rightarrow>
          if trim raw \<noteq> [] \<and> trim raw \<noteq> ''*''
          then CorsOrigins (List.map_filter (\<lambda>o'. parse_header (trim o')) (split_on (CHR '','') raw))
          else CorsPermissive
      | None \<Rightarrow> CorsPermissive)"

section \<open>The application state\<close>

text \<open>
  \<open>AiEngine::from_env\<close>: the provider comes from the environment; whether the \<open>openai\<close> feature is
  built, the HTTP client and the pretty printer stay as the given engine has them.
\<close>

definition engine_from_env :: "(string \<Rightarrow> string option) \<Rightarrow> ai_engine \<Rightarrow> ai_engine" where
  "engine_from_env env eng = eng\<lparr>en_provider := provider_from_env env\<rparr>"

definition build_state ::
  "(pool_options \<Rightarrow> api_error + unit) \<Rightarrow> kernel \<Rightarrow> ai_engine \<Rightarrow> string set \<Rightarrow> string + app_state" where
  "build_state open_store k eng features =
     (let env = env_var k in
      case open_store (connect env (store_config_from_env env)) of
        Inl e \<Rightarrow> Inl (''kernel open failed: '' @ e_message e)
      | Inr () \<Rightarrow> Inr \<lparr>st_kernel = k\<lparr>flags := flags_from_env env\<rparr>, st_ai = engine_from_env env eng,
                      st_features = features\<rparr>)"

lemma build_state_Inr:
  assumes "build_state open_store k eng features = Inr app"
  shows "st_kernel app = k\<lparr>flags := flags_from_env (env_var k)\<rparr>"
    "en_provider (st_ai app) = provider_from_env (env_var k)" "st_features app = features"
proof -
  from assms have "app = \<lparr>st_kernel = k\<lparr>flags := flags_from_env (env_var k)\<rparr>,
      st_ai = engine_from_env (env_var k) eng, st_features = features\<rparr>"
    unfolding build_state_def Let_def by (simp split: sum.splits unit.splits)
  then show "st_kernel app = k\<lparr>flags := flags_from_env (env_var k)\<rparr>"
    "en_provider (st_ai app) = provider_from_env (env_var k)" "st_features app = features"
    by (simp_all add: engine_from_env_def)
qed

text \<open>Without a configured provider no agent answers, rather than answering from a placeholder.\<close>

lemma unconfigured_never_completes:
  assumes "build_state open_store k eng features = Inr app"
    "env_var k ''LATENTDB_AI_PROVIDER'' \<notin> {Some ''openai'', Some ''offline''}"
  shows "fst (complete (st_ai app) req s) =
    Inl (feature_disabled ''AI provider is not configured (set LATENTDB_AI_PROVIDER)'')"
  using assms(2) build_state_Inr(2) [OF assms(1)]
  by (simp add: complete_def provider_from_env_def Let_def)

lemma unconfigured_agents_silent:
  assumes "build_state open_store k eng features = Inr app"
    "env_var k ''LATENTDB_AI_PROVIDER'' \<notin> {Some ''openai'', Some ''offline''}"
  shows "ai_ask_handler app ctx req s \<noteq> (Inr a, s')"
proof
  assume "ai_ask_handler app ctx req s = (Inr a, s')"
  then obtain c s1 x where "fst (complete (st_ai app) c s1) = Inr x"
    unfolding ai_ask_handler_def ask_def finish_def finish_with_def seqK_Inr bindK_Inr
    by (metis fst_conv)
  with unconfigured_never_completes [OF assms] show False by simp
qed

end
