(* ===== verification/Publishing.thy ===== *)
theory Publishing
  imports BuilderFacts Sample
begin

text \<open>
  Publishing a draft of the object builder (\<open>publish_builder_draft\<close> of \<open>kernel/src/builder.rs\<close>): what
  a successful run has validated, and what it has installed. The steps are separate transactions;
  the lemmas of the first section say what each of them does to the metadata of the tenant.
\<close>

section \<open>The steps\<close>

text \<open>The tables publishing reads or writes, but for the logs.\<close>

definition metadata ::
  "database \<Rightarrow> object_type_row list \<times> workflow_row list \<times> builder_draft list \<times> record_t list" where
  "metadata d = (object_types d, workflows d, builder_drafts d, records d)"

definition find_draft :: "database \<Rightarrow> string \<Rightarrow> string \<Rightarrow> builder_draft option" where
  "find_draft d t did = find (\<lambda>r. bf_tenant_id r = t \<and> bf_id r = did) (builder_drafts d)"

lemma only_denials_metadata: "only_denials t d d' \<Longrightarrow> metadata d' = metadata d"
  by (auto simp: only_denials_def metadata_def)

lemma metadata_log [simp]: "metadata (log_audit ev d) = metadata d"
  by (simp add: metadata_def log_audit_def)

lemma metadata_events [simp]: "metadata (d\<lparr>events := es\<rparr>) = metadata d"
  by (simp add: metadata_def)

lemma metadata_tables:
  assumes "metadata d' = metadata d"
  shows "find_object_type d' = find_object_type d" "find_workflow d' = find_workflow d"
    "find_draft d' = find_draft d" "records d' = records d"
    "object_types d' = object_types d" "workflows d' = workflows d" "builder_drafts d' = builder_drafts d"
  using assms by (simp_all add: metadata_def find_object_type_def find_workflow_def find_draft_def fun_eq_iff)

lemma get_builder_draft_Inr:
  assumes "get_builder_draft k ctx did s = (Inr draft, s')"
  shows "db s' = db s \<and> find_draft (db s) (tenant_id ctx) did = Some draft"
  using assms by (auto simp: get_builder_draft_def run_inv find_draft_def dest!: authorize_Inr)

text \<open>Validation reads the keys of the tenant's object types, or none where it may not read them.\<close>

lemma list_object_types_Inr:
  assumes "list_object_types k ctx s = (Inr ots, s')"
  shows "\<forall>ot\<in>set ots. find_object_type (db s) (tenant_id ctx) (ot_key ot) \<noteq> None"
  using assms by (auto simp: list_object_types_def run_inv find_object_type_def find_None_all dest!: authorize_Inr)

lemma validate_builder_definition_Inr:
  assumes "validate_builder_definition k ctx def s = (Inr v, s')"
  obtains keys where "v = validation_result keys def" "metadata (db s') = metadata (db s)"
    "\<forall>key\<in>set keys. find_object_type (db s) (tenant_id ctx) key \<noteq> None"
proof -
  have meta: "metadata (db s') = metadata (db s)"
    using keepsD [OF only_denials.keeps_validate_builder_definition [OF refl] assms]
    by (rule only_denials_metadata)
  from assms obtain u s1 ots s2 where 1: "authorize k ctx Configure ''builder'' None s = (Inr u, s1)"
    and 2: "matchK (list_object_types k ctx) (\<lambda>_. retK []) retK s1 = (Inr ots, s2)"
    and v: "v = validation_result (map ot_key ots) def"
    by (auto simp: validate_builder_definition_def bindK_Inr seqK_Inr)
  have "db s1 = db s" using 1 by (auto dest: authorize_Inr)
  moreover have "\<forall>ot\<in>set ots. find_object_type (db s1) (tenant_id ctx) (ot_key ot) \<noteq> None"
    using 2 by (auto simp: matchK_def dest: list_object_types_Inr split: prod.splits sum.splits)
  ultimately show thesis by (intro that [OF v meta]) auto
qed

lemma valid_builder_ok: "bv_valid (validation_result keys def) \<longleftrightarrow> builder_ok keys def"
  by (simp add: validation_result_def Let_def definition_issues_Nil)

lemma create_workflow_Inr:
  assumes "create_workflow k ctx w s = (Inr x, s')"
  shows "workflow_ok w \<and> find_workflow (db s') (tenant_id ctx) (wf_key w) = Some w \<and>
    object_types (db s') = object_types (db s) \<and> builder_drafts (db s') = builder_drafts (db s) \<and>
    records (db s') = records (db s)"
proof -
  from assms obtain u s1 s2 ts where 1: "authorize k ctx Configure ''workflows'' None s = (Inr u, s1)"
    and ok: "workflow_ok w"
    and 2: "transaction k (seqK (bindK (new_id k) (\<lambda>id. stmt k (upsert_workflow (tenant_id ctx) w id ts)))
            (audit_change k ctx ''workflow.create'' (Some ''workflow'') (Some (wf_key w)) None
               (Some (jobj [(''object_type'', JString (wf_object_type w)),
                            (''states'', jnat (length (wf_states w)))])) (\<lambda>ev. ev))) s2 = (Inr (), s')"
    and "db s2 = db s1"
    by (auto simp: create_workflow_def bindK_Inr seqK_Inr now_rfc3339_Inr validate_workflow_iff)
  then have d: "db s2 = db s" by (auto dest: authorize_Inr)
  from 2 obtain s3 s4 wid d1 where 3: "upsert_workflow (tenant_id ctx) w wid ts (db s) = Inr ((), d1)"
    and 4: "audit_change k ctx ''workflow.create'' (Some ''workflow'') (Some (wf_key w)) None
               (Some (jobj [(''object_type'', JString (wf_object_type w)),
                            (''states'', jnat (length (wf_states w)))])) (\<lambda>ev. ev) s3 = (Inr (), s4)"
    "db s3 = d1" "db s' = db s4"
    by (auto simp: transaction_Inr seqK_Inr bindK_Inr stmt_Inr new_id_Inr d)
  from 4(1) obtain ev where "db s4 = log_audit ev (db s3)" by (rule audit_change_Inr)
  with 4 have "metadata (db s') = metadata d1" by simp
  moreover have "object_types d1 = object_types (db s)" "builder_drafts d1 = builder_drafts (db s)"
    "records d1 = records (db s)"
    using 3 by (auto simp: upsert_workflow_def Let_def split: if_splits)
  ultimately show ?thesis
    using ok upsert_workflow_find [OF 3] by (simp add: metadata_def find_workflow_def)
qed

text \<open>An object type is installed when the tenant has it under its key, whatever its identifier.\<close>

definition installed :: "object_type_def \<Rightarrow> object_type_def \<Rightarrow> bool" where
  "installed ot ot' \<longleftrightarrow> (\<exists>i sys. ot' = ot\<lparr>ot_id := i, ot_system := sys\<rparr>)"

definition has_type :: "database \<Rightarrow> string \<Rightarrow> object_type_def \<Rightarrow> bool" where
  "has_type d t ot \<longleftrightarrow> (\<exists>ot'. find_object_type d t (ot_key ot) = Some ot' \<and> installed ot ot')"

text \<open>The effect of creating or replacing the object type of a key: no other table and no other key.\<close>

definition type_set :: "string \<Rightarrow> object_type_def \<Rightarrow> database \<Rightarrow> database \<Rightarrow> bool" where
  "type_set t ot d d' \<longleftrightarrow>
     has_type d' t ot \<and>
     (\<forall>key. key \<noteq> ot_key ot \<longrightarrow> find_object_type d' t key = find_object_type d t key) \<and>
     workflows d' = workflows d \<and> builder_drafts d' = builder_drafts d \<and> records d' = records d"

lemma type_set_metadata:
  assumes "type_set t ot d d'" "metadata d1 = metadata d" "metadata d2 = metadata d'"
  shows "type_set t ot d1 d2"
  using assms(1) metadata_tables [OF assms(2)] metadata_tables [OF assms(3)]
  by (simp add: type_set_def has_type_def)

lemma type_set_insert:
  assumes "(t, ot_key ot) \<notin> (\<lambda>r. (ob_tenant_id r, ot_key (ob_def r))) ` set (object_types d)"
  shows "type_set t ot d (d\<lparr>object_types := object_types d @
      [\<lparr>ob_tenant_id = t, ob_def = ot\<lparr>ot_id := i\<rparr>, ob_created_at = ts\<rparr>]\<rparr>)"
proof -
  have none: "find (\<lambda>row. ob_tenant_id row = t \<and> ot_key (ob_def row) = ot_key ot) (object_types d) = None"
    using assms by (auto simp: find_None_all image_iff)
  have "installed ot (ot\<lparr>ot_id := i\<rparr>)"
    by (auto simp: installed_def intro!: exI [of _ i] exI [of _ "ot_system ot"])
  with none show ?thesis
    by (auto simp: type_set_def has_type_def find_object_type_def find_append split: option.splits)
qed

lemma replace_installed: "ot_key (ob_def row) = ot_key ot \<Longrightarrow> installed ot (ob_def (replace_object_type ot row))"
  unfolding installed_def replace_object_type_def
  by (intro exI [of _ "ot_id (ob_def row)"] exI [of _ "ot_system (ob_def row)"]) simp

lemma type_set_update:
  assumes "find_object_type d t (ot_key ot) \<noteq> None"
  shows "type_set t ot d (d\<lparr>object_types :=
      upd_where (\<lambda>row. ob_tenant_id row = t \<and> ot_key (ob_def row) = ot_key ot) (replace_object_type ot) (object_types d)\<rparr>)"
proof -
  let ?hit = "\<lambda>key row. ob_tenant_id row = t \<and> ot_key (ob_def row) = key"
  from assms obtain row where row: "find (?hit (ot_key ot)) (object_types d) = Some row"
    by (auto simp: find_object_type_def)
  then have "?hit (ot_key ot) row" by (auto dest: find_Some_in)
  with row have "find (?hit (ot_key ot)) (upd_where (?hit (ot_key ot)) (replace_object_type ot) (object_types d))
      = Some (replace_object_type ot row)" "installed ot (ob_def (replace_object_type ot row))"
    by (simp_all add: find_upd_where replace_installed)
  moreover have "find (?hit key) (upd_where (?hit (ot_key ot)) (replace_object_type ot) (object_types d))
      = find (?hit key) (object_types d)" if "key \<noteq> ot_key ot" for key
    by (rule find_upd_where_other) (use that in auto)
  ultimately show ?thesis by (auto simp: type_set_def has_type_def find_object_type_def)
qed

lemma create_object_type_Inr:
  assumes "create_object_type k ctx ot s = (Inr x, s')"
  shows "type_set (tenant_id ctx) ot (db s) (db s') \<and> installed ot x"
proof -
  let ?audit = "audit_change k ctx ''object_type.create'' (Some ''object_type'') (Some (ot_key ot)) None
      (Some (jobj [(''key'', JString (ot_key ot)), (''fields'', jnat (length (ot_fields ot)))])) (\<lambda>ev. ev)"
  from assms obtain u s1 s1' s2 i ts where 1: "authorize k ctx Configure ''object_types'' None s = (Inr u, s1)"
    and i: "(if ot_id ot = [] then new_id k else retK (ot_id ot)) s1 = (Inr i, s1')"
    and 2: "transaction k (seqK (insert_object_type k (tenant_id ctx) (ot\<lparr>ot_id := i\<rparr>) ts) ?audit) s2 = (Inr (), s')"
    and d2: "db s2 = db s1'" and x: "x = ot\<lparr>ot_id := i\<rparr>"
    by (auto simp: create_object_type_def bindK_Inr seqK_Inr now_rfc3339_Inr split del: if_split)
  from i have "db s1' = db s1" by (auto simp: new_id_Inr split: if_splits)
  with 1 d2 have d: "db s2 = db s" by (auto dest: authorize_Inr)
  let ?d = "(db s)\<lparr>object_types := object_types (db s) @
      [\<lparr>ob_tenant_id = tenant_id ctx, ob_def = ot\<lparr>ot_id := i\<rparr>, ob_created_at = ts\<rparr>]\<rparr>"
  from 2 obtain s3 s4 where fresh: "(tenant_id ctx, ot_key ot) \<notin>
        (\<lambda>r. (ob_tenant_id r, ot_key (ob_def r))) ` set (object_types (db s))"
    and 4: "?audit s3 = (Inr (), s4)" "db s' = db s4" and 3: "db s3 = ?d"
    by (auto simp: transaction_Inr seqK_Inr insert_object_type_def stmt_Inr sql_insert_def d split: if_splits)
  from 4(1) obtain ev where "db s4 = log_audit ev (db s3)" by (rule audit_change_Inr)
  with 3 4(2) have "metadata (db s') = metadata ?d" by simp
  moreover have "installed ot x"
    unfolding installed_def x by (intro exI [of _ i] exI [of _ "ot_system ot"]) simp
  ultimately show ?thesis
    using type_set_metadata [OF type_set_insert [OF fresh] refl] by blast
qed

lemma create_object_type_Inl:
  assumes "create_object_type k ctx ot s = (Inl e, s')"
  shows "metadata (db s') = metadata (db s)"
proof -
  have "clean_errors (tenant_id ctx) (create_object_type k ctx ot)"
    unfolding create_object_type_def
    by (intro clean_seq clean_bind clean_seq_tail clean_transaction never_fails_retK clean_if
        only_denials.keeps_authorize only_denials.keeps_resK only_denials.keeps_new_id only_denials.keeps_retK
        only_denials.keeps_now_rfc3339 keeps_if refl)
  with assms show ?thesis unfolding clean_errors_def by (blast dest: only_denials_metadata)
qed

lemma update_object_type_Inr:
  assumes "update_object_type k ctx (ot_key ot) ot s = (Inr x, s')"
  shows "type_set (tenant_id ctx) ot (db s) (db s') \<and> installed ot x"
proof -
  let ?hit = "\<lambda>row. ob_tenant_id row = tenant_id ctx \<and> ot_key (ob_def row) = ot_key ot"
  let ?audit = "\<lambda>prev. audit_change k ctx ''object_type.update'' (Some ''object_type'') (Some (ot_key ot))
      (Some (jobj [(''fields'', jnat (length (ot_fields prev)))]))
      (Some (jobj [(''fields'', jnat (length (ot_fields ot)))])) (\<lambda>ev. ev)"
  let ?d = "(db s)\<lparr>object_types := upd_where ?hit (replace_object_type ot) (object_types (db s))\<rparr>"
  from assms obtain u s1 s2 prev where 1: "authorize k ctx Configure ''object_types'' None s = (Inr u, s1)"
    and prev: "find_object_type (db s1) (tenant_id ctx) (ot_key ot) = Some prev"
    and 2: "transaction k (bindK (stmt k (\<lambda>d. let hit = ?hit in Inr (length (filter hit (object_types d)),
                 d\<lparr>object_types := upd_where hit (replace_object_type ot) (object_types d)\<rparr>)))
       (\<lambda>affected. seqK (guardK (affected \<noteq> 0) (not_found ''object type not found'')) (?audit prev))) s2 = (Inr (), s')"
    and d2: "db s2 = db s1" and x: "x = ot\<lparr>ot_key := ot_key ot\<rparr>"
    by (auto simp: update_object_type_def bindK_Inr seqK_Inr load_object_type_Inr)
  from 1 d2 have d: "db s2 = db s" "db s1 = db s" by (auto dest: authorize_Inr)
  from 2 obtain s3 s4 where 4: "?audit prev s3 = (Inr (), s4)" "db s' = db s4" and 3: "db s3 = ?d"
    by (auto simp: transaction_Inr seqK_Inr bindK_Inr stmt_Inr Let_def d)
  from 4(1) obtain ev where "db s4 = log_audit ev (db s3)" by (rule audit_change_Inr)
  with 3 4(2) have "metadata (db s') = metadata ?d" by simp
  moreover have "installed ot x"
    unfolding installed_def x by (intro exI [of _ "ot_id ot"] exI [of _ "ot_system ot"]) simp
  moreover have "type_set (tenant_id ctx) ot (db s) ?d"
    by (rule type_set_update) (use prev d in simp)
  ultimately show ?thesis using type_set_metadata [of _ ot "db s" ?d "db s" "db s'"] by blast
qed

lemma install_object_Inr:
  assumes "install_object k ctx ot s = (Inr x, s')"
  shows "type_set (tenant_id ctx) ot (db s) (db s') \<and> installed ot x"
proof -
  obtain r s1 where m: "create_object_type k ctx ot s = (r, s1)" by force
  show ?thesis
  proof (cases r)
    case (Inr y)
    with m assms show ?thesis
      by (auto simp: install_object_def matchK_def dest: create_object_type_Inr)
  next
    case (Inl e)
    with m assms have "update_object_type k ctx (ot_key ot) ot s1 = (Inr x, s')"
      by (auto simp: install_object_def matchK_def split: if_splits)
    then have "type_set (tenant_id ctx) ot (db s1) (db s') \<and> installed ot x"
      by (rule update_object_type_Inr)
    moreover have "metadata (db s1) = metadata (db s)"
      using m Inl by (blast intro: create_object_type_Inl)
    ultimately show ?thesis by (metis type_set_metadata)
  qed
qed

definition published_draft :: "string \<Rightarrow> builder_draft \<Rightarrow> builder_draft" where
  "published_draft ts r = r\<lparr>bf_status := Published, bf_updated_at := ts, bf_published_at := Some ts\<rparr>"

lemma mark_published_Inr:
  assumes "mark_published k ctx did ot ts s = (Inr x, s')"
  shows "find_draft (db s') (tenant_id ctx) did = map_option (published_draft ts) (find_draft (db s) (tenant_id ctx) did) \<and>
    object_types (db s') = object_types (db s) \<and> workflows (db s') = workflows (db s) \<and> records (db s') = records (db s)"
proof -
  let ?hit = "\<lambda>r. bf_tenant_id r = tenant_id ctx \<and> bf_id r = did"
  let ?audit = "audit_change k ctx ''builder.publish'' (Some ''object_type'') (Some (ot_key ot)) None
      (Some (jobj [(''fields'', jnat (length (ot_fields ot)))])) (\<lambda>ev. ev)"
  let ?d = "(db s)\<lparr>builder_drafts := upd_where ?hit (published_draft ts) (builder_drafts (db s))\<rparr>"
  from assms obtain s3 s4 where 4: "?audit s3 = (Inr x, s4)" "db s' = db s4" and 3: "db s3 = ?d"
    by (auto simp: mark_published_def published_draft_def [abs_def] transaction_Inr seqK_Inr update_stmt_Inr)
  from 4(1) obtain ev where "db s4 = log_audit ev (db s3)" by (rule audit_change_Inr)
  with 3 4(2) have "metadata (db s') = metadata ?d" by simp
  note eqs = metadata_tables [OF this]
  have "find ?hit (upd_where ?hit (published_draft ts) (builder_drafts (db s)))
      = map_option (published_draft ts) (find ?hit (builder_drafts (db s)))"
    by (rule find_upd_where) (simp add: published_draft_def)
  with eqs show ?thesis by (simp add: find_draft_def)
qed

lemma install_workflow_Inr:
  assumes "install_workflow k ctx w s = (Inr x, s')"
  shows "(\<forall>w'. w = Some w' \<longrightarrow> workflow_ok w' \<and> find_workflow (db s') (tenant_id ctx) (wf_key w') = Some w') \<and>
    object_types (db s') = object_types (db s) \<and> builder_drafts (db s') = builder_drafts (db s) \<and>
    records (db s') = records (db s)"
  using assms by (auto simp: install_workflow_def seqK_Inr dest!: create_workflow_Inr split: option.splits)

section \<open>A successful publication\<close>

text \<open>
  C36: What has been published was valid, and is installed. A successful publication found the draft
  in the caller's tenant, and its definition meets the specification of a publishable definition
  with respect to object types the tenant had. Afterwards the tenant has that object type under its
  key, field by field as in the draft (only the identifier and the system mark are the store's),
  and the workflow of the draft, a valid one, under its key; the draft is marked as published and
  is otherwise unchanged. No other object type of the tenant and no record has changed.
\<close>

theorem publish_installs_valid:
  assumes "publish_builder_draft k ctx did s = (Inr res, s')"
  shows "\<exists>draft keys ts.
    find_draft (db s) (tenant_id ctx) did = Some draft \<and>
    builder_ok keys (bf_definition draft) \<and>
    (\<forall>key\<in>set keys. find_object_type (db s) (tenant_id ctx) key \<noteq> None) \<and>
    has_type (db s') (tenant_id ctx) (to_object_type (bf_definition draft)) \<and>
    installed (to_object_type (bf_definition draft)) (pb_object_type res) \<and>
    (\<forall>w. bd_workflow (bf_definition draft) = Some w \<longrightarrow>
       workflow_ok w \<and> find_workflow (db s') (tenant_id ctx) (wf_key w) = Some w) \<and>
    find_draft (db s') (tenant_id ctx) did = Some (published_draft ts draft) \<and>
    pb_draft res = published_draft ts draft \<and> pb_workflow res = bd_workflow (bf_definition draft) \<and>
    (\<forall>key. key \<noteq> bd_key (bf_definition draft) \<longrightarrow>
       find_object_type (db s') (tenant_id ctx) key = find_object_type (db s) (tenant_id ctx) key) \<and>
    records (db s') = records (db s)"
proof -
  from assms obtain draft s1 v s2 s3 published s4 ts s5 s6 s7 u u' u'' draft' where
    1: "get_builder_draft k ctx did s = (Inr draft, s1)" and
    2: "validate_builder_definition k ctx (bf_definition draft) s1 = (Inr v, s2)" "bv_valid v" and
    3: "install_workflow k ctx (bd_workflow (bf_definition draft)) s2 = (Inr u, s3)" and
    4: "install_object k ctx (to_object_type (bf_definition draft)) s3 = (Inr published, s4)" and
    5: "mark_published k ctx did published ts s5 = (Inr u', s6)" and
    6: "emit_event k ctx ''builder.object_published'' (jobj [(''object_type'', JString (ot_key published))]) s6 = (Inr u'', s7)" and
    7: "get_builder_draft k ctx did s7 = (Inr draft', s')" and
    s5: "db s5 = db s4" and
    8: "res = \<lparr>pb_draft = draft', pb_object_type = published, pb_workflow = bd_workflow (bf_definition draft')\<rparr>"
    by (auto simp: publish_builder_draft_def bindK_Inr seqK_Inr now_rfc3339_Inr)
  let ?def = "bf_definition draft" and ?t = "tenant_id ctx"
  have draft: "db s1 = db s" "find_draft (db s) ?t did = Some draft"
    using get_builder_draft_Inr [OF 1] by simp_all
  from 2(1) obtain keys where v: "v = validation_result keys ?def" and meta: "metadata (db s2) = metadata (db s)"
    and keys: "\<forall>key\<in>set keys. find_object_type (db s) ?t key \<noteq> None"
    unfolding draft(1) [symmetric] by (rule validate_builder_definition_Inr)
  have ok: "builder_ok keys ?def" using 2(2) by (simp add: v valid_builder_ok)
  note s2 = metadata_tables [OF meta]
  note s3 = install_workflow_Inr [OF 3]
  have s4: "type_set ?t (to_object_type ?def) (db s3) (db s4)" "installed (to_object_type ?def) published"
    using install_object_Inr [OF 4] by simp_all
  note s6 = mark_published_Inr [OF 5, unfolded s5]
  have "metadata (db s7) = metadata (db s6)"
    using 6 by (auto simp: emit_event_def seqK_Inr query_Inr elim!: emit_on_tables)
  then have s7: "metadata (db s') = metadata (db s6)" and draft': "find_draft (db s') ?t did = Some draft'"
    using get_builder_draft_Inr [OF 7] by simp_all
  note s7 = metadata_tables [OF s7]
  have types: "find_object_type (db s') = find_object_type (db s4)"
    "find_object_type (db s3) = find_object_type (db s)"
    using s2(5) s3 s6 s7(1) by (simp_all add: find_object_type_def fun_eq_iff)
  have flows: "find_workflow (db s') = find_workflow (db s3)"
    using s4(1) s6 s7(2) by (simp add: type_set_def find_workflow_def fun_eq_iff)
  have drafts: "find_draft (db s4) = find_draft (db s)"
    using s4(1) s3 s2(7) by (simp add: type_set_def find_draft_def fun_eq_iff)
  have d': "draft' = published_draft ts draft" using draft' draft(2) s6 s7(3) drafts by simp
  have recs: "records (db s') = records (db s)" using s2(4) s3 s4(1) s6 s7(4) by (simp add: type_set_def)
  have wf: "workflow_ok w \<and> find_workflow (db s') ?t (wf_key w) = Some w"
    if "bd_workflow ?def = Some w" for w using s3 that flows by simp
  have key: "ot_key (to_object_type ?def) = bd_key ?def" by (simp add: to_object_type_def)
  have ot: "has_type (db s') ?t (to_object_type ?def)"
    "\<forall>key. key \<noteq> bd_key ?def \<longrightarrow> find_object_type (db s') ?t key = find_object_type (db s) ?t key"
    using s4(1) types by (simp_all add: type_set_def has_type_def key)
  have res: "pb_draft res = published_draft ts draft" "pb_workflow res = bd_workflow ?def"
    "installed (to_object_type ?def) (pb_object_type res)"
    using s4(2) by (simp_all add: 8 d' published_draft_def)
  show ?thesis
    using draft(2) ok keys ot wf draft' d' recs res by blast
qed

text \<open>A draft of a vendor, with a workflow, saved by the administrator of the sample tenant.\<close>

definition vendor_draft :: builder_draft where
  "vendor_draft =
     \<lparr>bf_id = ''dr1'', bf_tenant_id = ''acme'', bf_status = Validated, bf_key = ''vendor'',
      bf_definition =
        \<lparr>bd_key = ''vendor'', bd_label = ''Vendor'', bd_label_plural = None, bd_description = None, bd_icon = None,
         bd_module = None, bd_display_field = Some ''name'',
         bd_fields = [required (new_field ''name'' ''Name'' Text)], bd_relations = [],
         bd_workflow = Some (demo_flow\<lparr>wf_key := ''vendor_flow'', wf_object_type := ''vendor''\<rparr>),
         bd_permissions = [], bd_approval_rules = [], bd_sensitive_ai_visibility_confirmed = False\<rparr>,
      bf_created_at = time_text 1, bf_updated_at = time_text 1, bf_published_at = None\<rparr>"

definition draft_state :: kstate where
  "draft_state = demo_state\<lparr>db := demo_db\<lparr>builder_drafts := [vendor_draft]\<rparr>\<rparr>"

lemma ann_covered:
  assumes "roles d = roles demo_db" "act \<in> {Configure, Read}"
  shows "list_ex (grant_covers demo ann act resource None) (role_grants_of d ''acme'' [''tenant_admin''])"
  using assms by (auto simp: access_defs demo_defs)

lemma ann_authorized:
  assumes "roles (db s) = roles demo_db" "act \<in> {Configure, Read}"
  shows "authorize demo ann act resource None s = (Inr (), s\<lparr>tick := Suc (tick s)\<rparr>)"
proof -
  have "tenant_id ann = ''acme''" "role_keys ann = [''tenant_admin'']" "\<not> is_system ann" "\<not> is_platform_admin ann"
    by (simp_all add: demo_defs)
  with ann_covered [OF assms] show ?thesis
    by (simp add: authorize_def effective_grants_def run_demo)
qed

abbreviation vendor_def :: builder_definition where
  "vendor_def \<equiv> bf_definition vendor_draft"

definition vendor_flow :: workflow_def where
  "vendor_flow = demo_flow\<lparr>wf_key := ''vendor_flow'', wf_object_type := ''vendor''\<rparr>"

lemma vendor_facts:
  "bv_valid (validation_result [''invoice''] vendor_def)" "bd_workflow vendor_def = Some vendor_flow"
  "validate_workflow vendor_flow = Inr ()" "validate_object_type (to_object_type vendor_def) = Inr ()"
  "wf_key vendor_flow = ''vendor_flow''" "ot_key (to_object_type vendor_def) = ''vendor''"
  "ot_id (to_object_type vendor_def) = []" "ot_key demo_type = ''invoice''" "ot_id demo_type = ''ot1''"
  "bf_id vendor_draft = ''dr1''" "bf_tenant_id vendor_draft = ''acme''" "tenant_id ann = ''acme''"
  by code_simp+

lemmas publish_defs = publish_builder_draft_def get_builder_draft_def validate_builder_definition_def
  list_object_types_def install_workflow_def create_workflow_def upsert_workflow_def install_object_def
  create_object_type_def insert_object_type_def mark_published_def

theorem publish_installs_valid_witness:
  "\<exists>res s'. publish_builder_draft demo ann ''dr1'' draft_state = (Inr res, s') \<and>
     (\<exists>ot. find_object_type (db s') ''acme'' ''vendor'' = Some ot)"
proof -
  have "succeeds (publish_builder_draft demo ann ''dr1'') draft_state"
    unfolding succeeds_def
    by (simp add: run_demo write_defs ann_authorized draft_state_def vendor_facts publish_defs cong: lazy)
  then obtain res s' where run: "publish_builder_draft demo ann ''dr1'' draft_state = (Inr res, s')"
    by (rule succeedsE)
  have "find_draft (db draft_state) (tenant_id ann) ''dr1'' = Some vendor_draft"
    by (simp add: find_draft_def draft_state_def vendor_draft_def demo_defs)
  moreover have "ot_key (to_object_type (bf_definition vendor_draft)) = ''vendor''" "tenant_id ann = ''acme''"
    by (simp_all add: to_object_type_def vendor_draft_def demo_defs)
  ultimately show ?thesis
    using publish_installs_valid [OF run] run by (auto simp: has_type_def)
qed

end
