(* ===== verification/Reporting.thy ===== *)
theory Reporting
  imports Sample
begin

text \<open>
  What a report computes: the aggregate of \<open>compute\<close> over the records that the caller may read,
  with the fields that the caller may see, split into groups when the report asks for it.
\<close>

lemma jget_member:
  "jwf m \<Longrightarrow> (key, v) \<in> set m \<Longrightarrow> jget m key = Some v"
  by (auto simp: jwf_def jget_def strict_sorted_iff intro: map_of_is_SomeI)

lemma buckets_in:
  assumes "(key, g) \<in> set (buckets k f rs)"
  shows "g = filter (\<lambda>r. group_key k f r = key) rs"
  using jget_member [OF jwf_buckets assms] by (simp add: jget_buckets Let_def split: if_splits)

lemma buckets_keys: "fst ` set (buckets k f rs) = group_key k f ` set rs"
proof (rule set_eqI)
  fix key
  have "key \<in> fst ` set (buckets k f rs) \<longleftrightarrow> jget (buckets k f rs) key \<noteq> None"
    by (simp add: jget_def map_of_eq_None_iff)
  also have "\<dots> \<longleftrightarrow> key \<in> group_key k f ` set rs"
    by (auto simp: jget_buckets Let_def filter_empty_conv)
  finally show "key \<in> fst ` set (buckets k f rs) \<longleftrightarrow> key \<in> group_key k f ` set rs" .
qed

text \<open>The filters of a scan take records away and change none.\<close>

lemma scanned_in:
  assumes "x \<in> set (scanned k d ctx ot ty flt)"
  obtains r where "x = project_fields (can_see k d ctx ot r) r"
    "r \<in> set (readable k d ctx ty (rf_include_archived flt))" "\<forall>c\<in>set (rf_filters flt). filter_clause c r"
  using assms by (auto simp: scanned_def fold_filter_all)

lemma scanned_hidden:
  assumes "\<forall>r\<in>set (readable k d ctx ty (rf_include_archived flt)). \<not> can_see k d ctx ot r f"
  shows "field_values (scanned k d ctx ot ty flt) (Some f) = []"
  by (rule field_values_hidden) (use assms in \<open>auto elim!: scanned_in\<close>)

text \<open>
  C37: A report is the aggregate of what its reader may see. A report that is run succeeds only for
  a caller who may search the object type, and writes nothing. It ranges over the scanned records:
  the readable ones that pass the filters, each cut down to the fields the caller can see there. Its
  sample size is their number. Without grouping its value is the aggregate over all of them. With
  grouping the keys of the groups are the values of the grouping field, in ascending order and each
  once; a group aggregates and counts exactly the records with its key; and the counts of the
  groups add up to the sample size. A field that the caller sees in none of the readable records
  contributes nothing: the aggregate over it is that of no values.
\<close>

theorem report_over_visible:
  assumes "run_report_def k ctx def s = (Inr res, s')"
  shows "db s' = db s \<and> allowed k (db s) ctx Search (resource_for (rd_object_type def)) None \<and>
    (\<exists>ot rs. find_object_type (db s) (tenant_id ctx) (rd_object_type def) = Some ot \<and>
       rs = scanned k (db s) ctx ot (rd_object_type def) (default_filter\<lparr>rf_filters := rd_filters def\<rparr>) \<and>
       rr_sample_size res = length rs \<and>
       (rd_group_by def = None \<longrightarrow>
          rr_value res = Some (compute rs (rd_op def) (rd_field def)) \<and> rr_groups res = []) \<and>
       (\<forall>f. rd_group_by def = Some f \<longrightarrow>
          rr_value res = None \<and>
          sorted_wrt (<) (map gb_key (rr_groups res)) \<and>
          set (map gb_key (rr_groups res)) = group_key k f ` set rs \<and>
          (\<forall>b\<in>set (rr_groups res).
             let group = filter (\<lambda>r. group_key k f r = gb_key b) rs
             in gb_value b = compute group (rd_op def) (rd_field def) \<and> gb_count b = length group) \<and>
          sum_list (map gb_count (rr_groups res)) = length rs) \<and>
       (\<forall>f. (\<forall>r\<in>set (readable k (db s) ctx (rd_object_type def) False). \<not> can_see k (db s) ctx ot r f) \<longrightarrow>
          field_values rs (Some f) = []))"
proof -
  let ?flt = "default_filter\<lparr>rf_filters := rd_filters def\<rparr>"
  from assms obtain rs where scan: "scan_records k ctx (rd_object_type def) ?flt s = (Inr rs, s')"
    and res: "res = \<lparr>rr_key = rd_key def, rr_op = rd_op def,
        rr_value = (case rd_group_by def of None \<Rightarrow> Some (compute rs (rd_op def) (rd_field def)) | Some _ \<Rightarrow> None),
        rr_groups = (case rd_group_by def of None \<Rightarrow> [] | Some f \<Rightarrow>
          map (\<lambda>(key, rs'). \<lparr>gb_key = key, gb_value = compute rs' (rd_op def) (rd_field def),
            gb_count = length rs'\<rparr>) (buckets k f rs)),
        rr_sample_size = length rs\<rparr>"
    by (auto simp: run_report_def_def bindK_Inr retK_Inr split: option.splits)
  from scan obtain ot where ot: "allowed k (db s) ctx Search (resource_for (rd_object_type def)) None"
    "find_object_type (db s) (tenant_id ctx) (rd_object_type def) = Some ot" "db s' = db s"
    "rs = scanned k (db s) ctx ot (rd_object_type def) ?flt"
    by (rule scan_records_Inr)
  have keys: "map gb_key (map (\<lambda>(key, rs'). \<lparr>gb_key = key, gb_value = compute rs' (rd_op def) (rd_field def),
      gb_count = length rs'\<rparr>) m) = map fst m" for m
    by (induction m) auto
  have counts: "map gb_count (map (\<lambda>(key, rs'). \<lparr>gb_key = key, gb_value = compute rs' (rd_op def) (rd_field def),
      gb_count = length rs'\<rparr>) m) = map (length \<circ> snd) m" for m
    by (induction m) auto
  have sorted: "sorted_wrt (<) (map fst (buckets k f rs))" for f
    using jwf_buckets [of k f rs] by (simp add: jwf_def)
  have hidden: "field_values rs (Some f) = []"
    if "\<forall>r\<in>set (readable k (db s) ctx (rd_object_type def) False). \<not> can_see k (db s) ctx ot r f" for f
    unfolding ot(4) by (rule scanned_hidden) (use that in \<open>simp add: default_filter_def\<close>)
  have groups: "gb_value b = compute (filter (\<lambda>r. group_key k f r = gb_key b) rs) (rd_op def) (rd_field def) \<and>
      gb_count b = length (filter (\<lambda>r. group_key k f r = gb_key b) rs)"
    if "b \<in> set (rr_groups res)" "rd_group_by def = Some f" for b f
    using that by (auto simp: res dest!: buckets_in)
  show ?thesis
    using ot hidden groups sorted buckets_keys
    by (intro conjI exI [of _ ot] exI [of _ rs])
      (auto simp: res keys counts buckets_total Let_def simp del: map_map)
qed

definition demo_report :: report_def where
  "demo_report = \<lparr>rd_key = ''by_number'', rd_name = ''By number'', rd_object_type = ''invoice'', rd_op = Count,
     rd_field = None, rd_filters = [], rd_group_by = Some ''number''\<rparr>"

theorem report_over_visible_witness:
  "\<exists>res s'. run_report_def demo bob demo_report demo_state = (Inr res, s') \<and>
     sum_list (map gb_count (rr_groups res)) = rr_sample_size res"
proof -
  have "succeeds (run_report_def demo bob demo_report) demo_state"
    unfolding succeeds_def
    by (simp add: demo_run run_report_def_def scan_records_def demo_report_def cong: lazy)
  then obtain res s' where run: "run_report_def demo bob demo_report demo_state = (Inr res, s')"
    by (rule succeedsE)
  moreover have "rd_group_by demo_report = Some ''number''" by (simp add: demo_report_def)
  ultimately show ?thesis using report_over_visible [OF run] by auto
qed

end
