(* ===== verification/DbSchema.thy ===== *)
theory DbSchema
  imports Store
begin

text \<open>
  The schema of \<open>kernel/src/store.rs\<close> as data, and what SQLite does under it with the statements
  the kernel sends. A table is its columns, in order, each with its type, whether it is
  \<open>NOT NULL\<close>, its default and its reference, and its uniqueness constraints, the primary key
  first (a primary key that is not an integer does not forbid nulls in SQLite). The indexes that
  are not unique have no effect on results and are left out.

  Theory \<open>Store\<close> and the services state the effect of each statement directly on the rows of the
  model; theory \<open>SchemaConformance\<close> shows that this is what the engine here does with the row the
  code binds.
\<close>

section \<open>Cells, rows, tables\<close>

datatype cell = CNull | CText string | CInt int | CReal rat

type_synonym sql_row = "(string \<times> cell) list"

datatype column_type = TextCol | IntegerCol | RealCol

text \<open>The names of the tables.\<close>

datatype table_name =
    TENANTS | ORGANIZATIONS | WORKSPACES | USERS | SERVICE_ACCOUNTS | ROLES | ROLE_ASSIGNMENTS
    | API_KEYS | SESSIONS | OBJECT_TYPES | BUILDER_DRAFTS | RECORDS | RELATIONS | DOCUMENTS
    | WORKFLOWS | TASKS | APPROVALS | AUDIT_LOGS | EVENTS | REPORTS | DASHBOARDS | AI_PROVIDERS
    | AGENTS | USAGE_METERS | SETTINGS | MIGRATION_SESSIONS

record column =
  cl_name :: string
  cl_type :: column_type
  cl_not_null :: bool
  cl_default :: cell
  cl_references :: "table_name option"

record table_def =
  tb_name :: table_name
  tb_columns :: "column list"
  tb_keys :: "string list list"

text \<open>A database file: the tables that exist, with their rows.\<close>

type_synonym sql_db = "table_name \<Rightarrow> sql_row list option"

definition nullable :: "column_type \<Rightarrow> string \<Rightarrow> column" where
  "nullable ty name =
     \<lparr>cl_name = name, cl_type = ty, cl_not_null = False, cl_default = CNull, cl_references = None\<rparr>"

definition text_column :: "string \<Rightarrow> column" where
  "text_column name = (nullable TextCol name)\<lparr>cl_not_null := True\<rparr>"

definition defaulted :: "string \<Rightarrow> string \<Rightarrow> column" where
  "defaulted name value = (text_column name)\<lparr>cl_default := CText value\<rparr>"

definition int_column :: "string \<Rightarrow> column" where
  "int_column name = (nullable IntegerCol name)\<lparr>cl_not_null := True, cl_default := CInt 0\<rparr>"

text \<open>Every \<open>REFERENCES\<close> of the schema is to the column \<open>id\<close>.\<close>

definition refers_to :: "table_name \<Rightarrow> column \<Rightarrow> column" where
  "refers_to tb c = c\<lparr>cl_references := Some tb\<rparr>"

section \<open>The schema\<close>

definition tenants_table :: table_def where
  "tenants_table =
     \<lparr>tb_name = TENANTS,
      tb_columns =
        [nullable TextCol ''id'', text_column ''name'', text_column ''slug'',
         defaulted ''plan'' ''standard'', defaulted ''status'' ''active'',
         text_column ''created_at''],
      tb_keys = [[''id''], [''slug'']]\<rparr>"

definition organizations_table :: table_def where
  "organizations_table =
     \<lparr>tb_name = ORGANIZATIONS,
      tb_columns =
        [nullable TextCol ''id'', refers_to TENANTS (text_column ''tenant_id''),
         text_column ''name'', text_column ''slug'', text_column ''created_at''],
      tb_keys = [[''id''], [''tenant_id'', ''slug'']]\<rparr>"

definition workspaces_table :: table_def where
  "workspaces_table =
     \<lparr>tb_name = WORKSPACES,
      tb_columns =
        [nullable TextCol ''id'', refers_to TENANTS (text_column ''tenant_id''),
         refers_to ORGANIZATIONS (text_column ''org_id''), text_column ''name'',
         text_column ''created_at''],
      tb_keys = [[''id'']]\<rparr>"

definition users_table :: table_def where
  "users_table =
     \<lparr>tb_name = USERS,
      tb_columns =
        [nullable TextCol ''id'', refers_to TENANTS (text_column ''tenant_id''),
         text_column ''email'', text_column ''name'', text_column ''password_hash'',
         defaulted ''status'' ''active'', int_column ''is_platform_admin'',
         nullable TextCol ''default_org_id'', text_column ''created_at''],
      tb_keys = [[''id''], [''tenant_id'', ''email'']]\<rparr>"

definition service_accounts_table :: table_def where
  "service_accounts_table =
     \<lparr>tb_name = SERVICE_ACCOUNTS,
      tb_columns =
        [nullable TextCol ''id'', refers_to TENANTS (text_column ''tenant_id''),
         refers_to ORGANIZATIONS (text_column ''org_id''), text_column ''name'',
         defaulted ''status'' ''active'', text_column ''created_at''],
      tb_keys = [[''id'']]\<rparr>"

definition roles_table :: table_def where
  "roles_table =
     \<lparr>tb_name = ROLES,
      tb_columns =
        [nullable TextCol ''id'', refers_to TENANTS (text_column ''tenant_id''),
         text_column ''key'', text_column ''name'', nullable TextCol ''description'',
         int_column ''system'', defaulted ''grants_json'' ''[]'',
         text_column ''created_at''],
      tb_keys = [[''id''], [''tenant_id'', ''key'']]\<rparr>"

definition role_assignments_table :: table_def where
  "role_assignments_table =
     \<lparr>tb_name = ROLE_ASSIGNMENTS,
      tb_columns =
        [nullable TextCol ''id'', refers_to TENANTS (text_column ''tenant_id''),
         text_column ''principal_type'', text_column ''principal_id'',
         text_column ''role_key'', nullable TextCol ''org_id'', text_column ''created_at''],
      tb_keys = [[''id''], [''tenant_id'', ''principal_id'', ''role_key'']]\<rparr>"

definition api_keys_table :: table_def where
  "api_keys_table =
     \<lparr>tb_name = API_KEYS,
      tb_columns =
        [nullable TextCol ''id'', refers_to TENANTS (text_column ''tenant_id''),
         text_column ''org_id'', text_column ''principal_type'',
         text_column ''principal_id'', text_column ''name'', text_column ''prefix'',
         text_column ''token_hash'', defaulted ''status'' ''active'',
         text_column ''created_at'', nullable TextCol ''last_used_at''],
      tb_keys = [[''id''], [''token_hash'']]\<rparr>"

definition sessions_table :: table_def where
  "sessions_table =
     \<lparr>tb_name = SESSIONS,
      tb_columns =
        [nullable TextCol ''id'', refers_to TENANTS (text_column ''tenant_id''),
         refers_to USERS (text_column ''user_id''), text_column ''org_id'',
         text_column ''token_hash'', text_column ''created_at'',
         text_column ''expires_at'', int_column ''revoked''],
      tb_keys = [[''id''], [''token_hash'']]\<rparr>"

definition object_types_table :: table_def where
  "object_types_table =
     \<lparr>tb_name = OBJECT_TYPES,
      tb_columns =
        [nullable TextCol ''id'', refers_to TENANTS (text_column ''tenant_id''),
         text_column ''key'', text_column ''label'', nullable TextCol ''label_plural'',
         nullable TextCol ''description'', int_column ''system'',
         nullable TextCol ''workflow_key'', nullable TextCol ''display_field'',
         nullable TextCol ''module'', defaulted ''fields_json'' ''[]'',
         text_column ''created_at''],
      tb_keys = [[''id''], [''tenant_id'', ''key'']]\<rparr>"

definition builder_drafts_table :: table_def where
  "builder_drafts_table =
     \<lparr>tb_name = BUILDER_DRAFTS,
      tb_columns =
        [nullable TextCol ''id'', refers_to TENANTS (text_column ''tenant_id''),
         defaulted ''status'' ''draft'', text_column ''key'',
         text_column ''definition_json'', text_column ''created_at'',
         text_column ''updated_at'', nullable TextCol ''published_at''],
      tb_keys = [[''id''], [''tenant_id'', ''key'']]\<rparr>"

definition records_table :: table_def where
  "records_table =
     \<lparr>tb_name = RECORDS,
      tb_columns =
        [nullable TextCol ''id'', refers_to TENANTS (text_column ''tenant_id''),
         text_column ''org_id'', nullable TextCol ''workspace_id'',
         text_column ''object_type'', defaulted ''data_json'' ''{}'',
         defaulted ''lifecycle'' ''active'', nullable TextCol ''workflow_state'',
         text_column ''created_by'', text_column ''created_at'',
         text_column ''updated_at'', nullable TextCol ''archived_at''],
      tb_keys = [[''id'']]\<rparr>"

definition relations_table :: table_def where
  "relations_table =
     \<lparr>tb_name = RELATIONS,
      tb_columns =
        [nullable TextCol ''id'', refers_to TENANTS (text_column ''tenant_id''),
         text_column ''from_record'', text_column ''to_record'',
         text_column ''relation_type'', defaulted ''data_json'' ''{}'',
         text_column ''created_by'', text_column ''created_at''],
      tb_keys = [[''id''], [''tenant_id'', ''from_record'', ''to_record'', ''relation_type'']]\<rparr>"

definition documents_table :: table_def where
  "documents_table =
     \<lparr>tb_name = DOCUMENTS,
      tb_columns =
        [nullable TextCol ''id'', refers_to TENANTS (text_column ''tenant_id''),
         text_column ''org_id'', text_column ''name'', nullable TextCol ''mime'',
         int_column ''size'', nullable TextCol ''storage_ref'',
         nullable TextCol ''extracted_text'', text_column ''created_by'',
         text_column ''created_at''],
      tb_keys = [[''id'']]\<rparr>"

definition workflows_table :: table_def where
  "workflows_table =
     \<lparr>tb_name = WORKFLOWS,
      tb_columns =
        [nullable TextCol ''id'', refers_to TENANTS (text_column ''tenant_id''),
         text_column ''key'', text_column ''object_type'', text_column ''name'',
         text_column ''definition_json'', text_column ''created_at''],
      tb_keys = [[''id''], [''tenant_id'', ''key'']]\<rparr>"

definition tasks_table :: table_def where
  "tasks_table =
     \<lparr>tb_name = TASKS,
      tb_columns =
        [nullable TextCol ''id'', refers_to TENANTS (text_column ''tenant_id''),
         text_column ''org_id'', text_column ''kind'', text_column ''title'',
         nullable TextCol ''assignee_id'', defaulted ''status'' ''open'',
         nullable TextCol ''due_at'', nullable TextCol ''related_object_type'',
         nullable TextCol ''related_record_id'', defaulted ''data_json'' ''{}'',
         text_column ''created_by'', text_column ''created_at'', text_column ''updated_at''],
      tb_keys = [[''id'']]\<rparr>"

definition approvals_table :: table_def where
  "approvals_table =
     \<lparr>tb_name = APPROVALS,
      tb_columns =
        [nullable TextCol ''id'', refers_to TENANTS (text_column ''tenant_id''),
         text_column ''org_id'', defaulted ''status'' ''pending'',
         nullable TextCol ''policy'', text_column ''requested_by'',
         nullable TextCol ''decided_by'', nullable TextCol ''decision_reason'',
         nullable TextCol ''related_object_type'', nullable TextCol ''related_record_id'',
         nullable TextCol ''transition_key'', nullable TextCol ''target_state'',
         nullable RealCol ''risk_score'', defaulted ''data_json'' ''{}'',
         text_column ''created_at'', nullable TextCol ''decided_at''],
      tb_keys = [[''id'']]\<rparr>"

definition audit_logs_table :: table_def where
  "audit_logs_table =
     \<lparr>tb_name = AUDIT_LOGS,
      tb_columns =
        [nullable TextCol ''id'', text_column ''tenant_id'', nullable TextCol ''org_id'',
         text_column ''actor_type'', text_column ''actor_id'', text_column ''action'',
         nullable TextCol ''target_object_type'', nullable TextCol ''target_record_id'',
         nullable TextCol ''before_json'', nullable TextCol ''after_json'',
         text_column ''request_id'', nullable TextCol ''reason'', text_column ''source'',
         text_column ''timestamp'', nullable TextCol ''client_meta_json'',
         nullable TextCol ''ai_meta_json'',
         nullable TextCol ''retrieved_source_ids_json'', nullable RealCol ''risk_score'',
         nullable TextCol ''approval_id''],
      tb_keys = [[''id'']]\<rparr>"

definition events_table :: table_def where
  "events_table =
     \<lparr>tb_name = EVENTS,
      tb_columns =
        [nullable TextCol ''id'', text_column ''tenant_id'', nullable TextCol ''org_id'',
         text_column ''kind'', defaulted ''payload_json'' ''{}'',
         text_column ''created_at'', int_column ''processed''],
      tb_keys = [[''id'']]\<rparr>"

definition reports_table :: table_def where
  "reports_table =
     \<lparr>tb_name = REPORTS,
      tb_columns =
        [nullable TextCol ''id'', refers_to TENANTS (text_column ''tenant_id''),
         text_column ''key'', text_column ''name'', text_column ''definition_json'',
         text_column ''created_at''],
      tb_keys = [[''id''], [''tenant_id'', ''key'']]\<rparr>"

definition dashboards_table :: table_def where
  "dashboards_table =
     \<lparr>tb_name = DASHBOARDS,
      tb_columns =
        [nullable TextCol ''id'', refers_to TENANTS (text_column ''tenant_id''),
         text_column ''key'', text_column ''name'', defaulted ''cards_json'' ''[]'',
         text_column ''created_at''],
      tb_keys = [[''id''], [''tenant_id'', ''key'']]\<rparr>"

definition ai_providers_table :: table_def where
  "ai_providers_table =
     \<lparr>tb_name = AI_PROVIDERS,
      tb_columns =
        [nullable TextCol ''id'', refers_to TENANTS (text_column ''tenant_id''),
         text_column ''name'', text_column ''kind'', nullable TextCol ''base_url'',
         nullable TextCol ''model'', nullable TextCol ''api_key_ref'',
         defaulted ''config_json'' ''{}'', defaulted ''status'' ''active'',
         text_column ''created_at''],
      tb_keys = [[''id'']]\<rparr>"

definition agents_table :: table_def where
  "agents_table =
     \<lparr>tb_name = AGENTS,
      tb_columns =
        [nullable TextCol ''id'', refers_to TENANTS (text_column ''tenant_id''),
         text_column ''key'', text_column ''name'', text_column ''kind'',
         int_column ''safety_level'', nullable TextCol ''role_key'',
         defaulted ''config_json'' ''{}'', defaulted ''status'' ''active'',
         text_column ''created_at''],
      tb_keys = [[''id''], [''tenant_id'', ''key'']]\<rparr>"

definition usage_meters_table :: table_def where
  "usage_meters_table =
     \<lparr>tb_name = USAGE_METERS,
      tb_columns =
        [nullable TextCol ''id'', text_column ''tenant_id'', text_column ''metric'',
         text_column ''period'', int_column ''value'', text_column ''updated_at''],
      tb_keys = [[''id''], [''tenant_id'', ''metric'', ''period'']]\<rparr>"

definition settings_table :: table_def where
  "settings_table =
     \<lparr>tb_name = SETTINGS,
      tb_columns =
        [text_column ''tenant_id'', text_column ''key'', text_column ''value_json'',
         text_column ''updated_at''],
      tb_keys = [[''tenant_id'', ''key'']]\<rparr>"

definition migration_sessions_table :: table_def where
  "migration_sessions_table =
     \<lparr>tb_name = MIGRATION_SESSIONS,
      tb_columns =
        [refers_to TENANTS (nullable TextCol ''tenant_id''),
         defaulted ''status'' ''booted_old'', defaulted ''active_system'' ''old'',
         nullable TextCol ''selected_system_key'', defaulted ''snapshot_json'' ''{}'',
         nullable TextCol ''last_report_json'', text_column ''created_at'',
         text_column ''updated_at''],
      tb_keys = [[''tenant_id'']]\<rparr>"

definition SCHEMA :: "table_def list" where
  "SCHEMA =
     [tenants_table, organizations_table, workspaces_table, users_table, service_accounts_table,
      roles_table, role_assignments_table, api_keys_table, sessions_table, object_types_table,
      builder_drafts_table, records_table, relations_table, documents_table, workflows_table,
      tasks_table, approvals_table, audit_logs_table, events_table, reports_table,
      dashboards_table, ai_providers_table, agents_table, usage_meters_table, settings_table,
      migration_sessions_table]"

lemmas column_defs = nullable_def text_column_def defaulted_def int_column_def refers_to_def

lemmas table_defs = tenants_table_def organizations_table_def workspaces_table_def users_table_def
  service_accounts_table_def roles_table_def role_assignments_table_def api_keys_table_def
  sessions_table_def object_types_table_def builder_drafts_table_def records_table_def
  relations_table_def documents_table_def workflows_table_def tasks_table_def approvals_table_def
  audit_logs_table_def events_table_def reports_table_def dashboards_table_def
  ai_providers_table_def agents_table_def usage_meters_table_def settings_table_def
  migration_sessions_table_def

text \<open>\<open>CREATE TABLE IF NOT EXISTS\<close>, for every statement of the schema.\<close>

definition create_table :: "table_def \<Rightarrow> sql_db \<Rightarrow> sql_db" where
  "create_table tb D = (case D (tb_name tb) of None \<Rightarrow> D(tb_name tb := Some []) | Some _ \<Rightarrow> D)"

definition migrate :: "sql_db \<Rightarrow> sql_db" where
  "migrate D = fold create_table SCHEMA D"

lemma create_table_keeps: "D t = Some rows \<Longrightarrow> create_table tb D t = Some rows"
  by (auto simp: create_table_def split: option.splits)

lemma create_tables_keep: "D t = Some rows \<Longrightarrow> fold create_table tbs D t = Some rows"
  by (induction tbs arbitrary: D) (simp_all add: create_table_keeps)

lemma create_tables_present: "\<forall>tb\<in>set tbs. D (tb_name tb) \<noteq> None \<Longrightarrow> fold create_table tbs D = D"
  by (induction tbs) (auto simp: create_table_def split: option.splits)

lemma create_tables_exist: "tb \<in> set tbs \<Longrightarrow> fold create_table tbs D (tb_name tb) \<noteq> None"
proof (induction tbs arbitrary: D)
  case (Cons t tbs)
  then show ?case
  proof (cases "tb = t")
    case True
    obtain rows where "create_table t D (tb_name t) = Some rows"
      by (cases "D (tb_name t)") (auto simp: create_table_def)
    then show ?thesis by (simp add: True create_tables_keep)
  qed simp
qed simp

lemma migrate_idempotent: "migrate (migrate D) = migrate D"
  unfolding migrate_def by (rule create_tables_present) (simp add: create_tables_exist)

section \<open>Constraints\<close>

definition cell_of :: "sql_row \<Rightarrow> string \<Rightarrow> cell" where
  "cell_of row c = (case map_of row c of None \<Rightarrow> CNull | Some v \<Rightarrow> v)"

text \<open>The stored row: the columns of the table in order, defaults where nothing is bound.\<close>

definition complete_row :: "table_def \<Rightarrow> sql_row \<Rightarrow> sql_row" where
  "complete_row tb bound =
     map (\<lambda>c. (cl_name c, case map_of bound (cl_name c) of None \<Rightarrow> cl_default c | Some v \<Rightarrow> v))
       (tb_columns tb)"

definition nulls_ok :: "table_def \<Rightarrow> sql_row \<Rightarrow> bool" where
  "nulls_ok tb row \<longleftrightarrow> list_all (\<lambda>c. cl_not_null c \<longrightarrow> cell_of row (cl_name c) \<noteq> CNull) (tb_columns tb)"

text \<open>Two rows collide on a key when all its cells are equal and none is null.\<close>

definition collide :: "string list \<Rightarrow> sql_row \<Rightarrow> sql_row \<Rightarrow> bool" where
  "collide key row r \<longleftrightarrow>
     list_all (\<lambda>c. cell_of row c \<noteq> CNull \<and> cell_of r c = cell_of row c) key"

definition unique_ok :: "table_def \<Rightarrow> sql_row list \<Rightarrow> sql_row \<Rightarrow> bool" where
  "unique_ok tb rows row \<longleftrightarrow> list_all (\<lambda>key. \<not> list_ex (collide key row) rows) (tb_keys tb)"

definition reference_ok :: "sql_db \<Rightarrow> sql_row \<Rightarrow> column \<Rightarrow> bool" where
  "reference_ok D row c =
     (case cl_references c of
        None \<Rightarrow> True
      | Some tb \<Rightarrow> cell_of row (cl_name c) = CNull \<or>
          (case D tb of
             None \<Rightarrow> False
           | Some rows \<Rightarrow> list_ex (\<lambda>r. cell_of r ''id'' = cell_of row (cl_name c)) rows))"

definition references_ok :: "sql_db \<Rightarrow> table_def \<Rightarrow> sql_row \<Rightarrow> bool" where
  "references_ok D tb row \<longleftrightarrow> list_all (reference_ok D row) (tb_columns tb)"

section \<open>Statements\<close>

text \<open>\<open>INSERT INTO .. VALUES\<close>.\<close>

definition engine_insert :: "table_def \<Rightarrow> sql_row \<Rightarrow> sql_db \<Rightarrow> sql_error + sql_db" where
  "engine_insert tb bound D =
     (case D (tb_name tb) of
        None \<Rightarrow> Inl EngineFailure
      | Some rows \<Rightarrow>
          let row = complete_row tb bound in
          if \<not> nulls_ok tb row then Inl EngineFailure
          else if \<not> unique_ok tb rows row then Inl UniqueViolation
          else if \<not> references_ok D tb row then Inl ForeignKeyViolation
          else Inr (D(tb_name tb := Some (rows @ [row]))))"

text \<open>\<open>INSERT OR IGNORE INTO\<close>: a row that breaks a uniqueness or null constraint is skipped.\<close>

definition engine_insert_or_ignore :: "table_def \<Rightarrow> sql_row \<Rightarrow> sql_db \<Rightarrow> sql_error + sql_db" where
  "engine_insert_or_ignore tb bound D =
     (case D (tb_name tb) of
        None \<Rightarrow> Inl EngineFailure
      | Some rows \<Rightarrow>
          let row = complete_row tb bound in
          if \<not> nulls_ok tb row \<or> \<not> unique_ok tb rows row then Inr D
          else if \<not> references_ok D tb row then Inl ForeignKeyViolation
          else Inr (D(tb_name tb := Some (rows @ [row]))))"

text \<open>
  \<open>INSERT .. ON CONFLICT(target) DO UPDATE SET\<close>: the row that collides on the target is updated,
  the columns of \<open>sets\<close> from the row that was not inserted (\<open>excluded\<close>).
\<close>

definition set_columns :: "(string \<times> (sql_row \<Rightarrow> sql_row \<Rightarrow> cell)) list \<Rightarrow> sql_row \<Rightarrow> sql_row \<Rightarrow> sql_row" where
  "set_columns sets excluded row =
     map (\<lambda>(c, v). (c, case map_of sets c of None \<Rightarrow> v | Some f \<Rightarrow> f row excluded)) row"

definition from_excluded :: "string \<Rightarrow> string \<times> (sql_row \<Rightarrow> sql_row \<Rightarrow> cell)" where
  "from_excluded c = (c, \<lambda>row excluded. cell_of excluded c)"

definition engine_upsert ::
  "table_def \<Rightarrow> string list \<Rightarrow> (string \<times> (sql_row \<Rightarrow> sql_row \<Rightarrow> cell)) list \<Rightarrow> sql_row \<Rightarrow> sql_db
   \<Rightarrow> sql_error + sql_db" where
  "engine_upsert tb target sets bound D =
     (case D (tb_name tb) of
        None \<Rightarrow> Inl EngineFailure
      | Some rows \<Rightarrow>
          let row = complete_row tb bound in
          if \<not> nulls_ok tb row then Inl EngineFailure
          else if list_ex (collide target row) rows
          then Inr (D(tb_name tb := Some (upd_where (collide target row) (set_columns sets row) rows)))
          else engine_insert tb bound D)"

text \<open>
  \<open>UPDATE .. SET .. WHERE\<close>, where the condition is a conjunction of equations. No update of the
  kernel sets a column of a key or of a reference, so only the null constraints are checked again.
\<close>

definition matches :: "(string \<times> cell) list \<Rightarrow> sql_row \<Rightarrow> bool" where
  "matches wh row \<longleftrightarrow> list_all (\<lambda>(c, v). v \<noteq> CNull \<and> cell_of row c = v) wh"

definition assign :: "(string \<times> cell) list \<Rightarrow> sql_row \<Rightarrow> sql_row" where
  "assign sets row = map (\<lambda>(c, v). (c, case map_of sets c of None \<Rightarrow> v | Some v' \<Rightarrow> v')) row"

definition engine_update ::
  "table_def \<Rightarrow> (string \<times> cell) list \<Rightarrow> (string \<times> cell) list \<Rightarrow> sql_db \<Rightarrow> sql_error + sql_db" where
  "engine_update tb sets wh D =
     (case D (tb_name tb) of
        None \<Rightarrow> Inl EngineFailure
      | Some rows \<Rightarrow>
          let rows' = upd_where (matches wh) (assign sets) rows in
          if list_all (nulls_ok tb) rows' then Inr (D(tb_name tb := Some rows')) else Inl EngineFailure)"

section \<open>Databases that meet their schema\<close>

fun has_column_type :: "column_type \<Rightarrow> cell \<Rightarrow> bool" where
  "has_column_type TextCol v = (case v of CText _ \<Rightarrow> True | CNull \<Rightarrow> True | _ \<Rightarrow> False)"
| "has_column_type IntegerCol v = (case v of CInt _ \<Rightarrow> True | CNull \<Rightarrow> True | _ \<Rightarrow> False)"
| "has_column_type RealCol v = (case v of CReal _ \<Rightarrow> True | CNull \<Rightarrow> True | _ \<Rightarrow> False)"

definition row_ok :: "sql_db \<Rightarrow> table_def \<Rightarrow> sql_row \<Rightarrow> bool" where
  "row_ok D tb row \<longleftrightarrow>
     map fst row = map cl_name (tb_columns tb) \<and>
     list_all (\<lambda>c. has_column_type (cl_type c) (cell_of row (cl_name c))) (tb_columns tb) \<and>
     nulls_ok tb row \<and> references_ok D tb row"

text \<open>No two rows, at different places, collide on a key.\<close>

definition keys_ok :: "table_def \<Rightarrow> sql_row list \<Rightarrow> bool" where
  "keys_ok tb rows \<longleftrightarrow> list_all (\<lambda>key. sorted_wrt (\<lambda>r r'. \<not> collide key r r') rows) (tb_keys tb)"

definition table_ok :: "sql_db \<Rightarrow> table_def \<Rightarrow> bool" where
  "table_ok D tb =
     (case D (tb_name tb) of
        None \<Rightarrow> False
      | Some rows \<Rightarrow> list_all (row_ok D tb) rows \<and> keys_ok tb rows)"

definition meets_schema :: "sql_db \<Rightarrow> bool" where
  "meets_schema D \<longleftrightarrow> list_all (table_ok D) SCHEMA"

end
