(* ===== verification/RowCoding.thy ===== *)
theory RowCoding
  imports DbSchema Analytics Auth Builder
begin

text \<open>
  How rows are written and read: the cells the services bind for each column, and the
  \<open>row_to_*\<close> functions that read a row back. The text of a JSON column is that of \<open>serde_json\<close>,
  which is not part of the repository: for each stored type the parameter \<open>serde\<close> holds the
  serializer and the parser, whose error is given by its text. A value survives its column when
  the parser gives it back; the functions here also say what is read when it does not.
\<close>

section \<open>Codecs\<close>

record 'a codec =
  to_text :: "'a \<Rightarrow> string"
  of_text :: "string \<Rightarrow> string + 'a"

record serde =
  value_codec :: "json codec"
  map_codec :: "jmap codec"
  strings_codec :: "string list codec"
  grants_codec :: "permission_grant list codec"
  fields_codec :: "field_definition list codec"
  definition_codec :: "builder_definition codec"
  workflow_codec :: "workflow_def codec"
  report_codec :: "report_def codec"
  cards_codec :: "json list codec"
  snapshot_codec :: "system_snapshot codec"
  migration_report_codec :: "migration_report codec"

definition survives :: "'a codec \<Rightarrow> 'a \<Rightarrow> bool" where
  "survives c v \<longleftrightarrow> of_text c (to_text c v) = Inr v"

section \<open>Writing rows\<close>

definition opt_text :: "string option \<Rightarrow> cell" where
  "opt_text o' = (case o' of None \<Rightarrow> CNull | Some s \<Rightarrow> CText s)"

definition opt_real :: "rat option \<Rightarrow> cell" where
  "opt_real o' = (case o' of None \<Rightarrow> CNull | Some x \<Rightarrow> CReal x)"

definition bool_cell :: "bool \<Rightarrow> cell" where
  "bool_cell b = CInt (if b then 1 else 0)"

text \<open>
  The row of each table, column by column in the order of the schema: the values the \<open>INSERT\<close> of
  the table binds, and for the columns it leaves out the values later updates set.
\<close>

definition row_tenant :: "tenant_row \<Rightarrow> sql_row" where
  "row_tenant r =
     [(''id'', CText (tn_id r)), (''name'', CText (tn_name r)), (''slug'', CText (tn_slug r)),
      (''plan'', CText (tn_plan r)), (''status'', CText (tn_status r)),
      (''created_at'', CText (tn_created_at r))]"

definition row_organization :: "organization_row \<Rightarrow> sql_row" where
  "row_organization r =
     [(''id'', CText (og_id r)), (''tenant_id'', CText (og_tenant_id r)),
      (''name'', CText (og_name r)), (''slug'', CText (og_slug r)),
      (''created_at'', CText (og_created_at r))]"

definition row_workspace :: "workspace_row \<Rightarrow> sql_row" where
  "row_workspace r =
     [(''id'', CText (wk_id r)), (''tenant_id'', CText (wk_tenant_id r)),
      (''org_id'', CText (wk_org_id r)), (''name'', CText (wk_name r)),
      (''created_at'', CText (wk_created_at r))]"

definition row_user :: "user_row \<Rightarrow> sql_row" where
  "row_user r =
     [(''id'', CText (us_id r)), (''tenant_id'', CText (us_tenant_id r)),
      (''email'', CText (us_email r)), (''name'', CText (us_name r)),
      (''password_hash'', CText (us_password_hash r)), (''status'', CText (us_status r)),
      (''is_platform_admin'', bool_cell (us_is_platform_admin r)),
      (''default_org_id'', opt_text (us_default_org_id r)),
      (''created_at'', CText (us_created_at r))]"

definition row_service_account :: "service_account_row \<Rightarrow> sql_row" where
  "row_service_account r =
     [(''id'', CText (sa_id r)), (''tenant_id'', CText (sa_tenant_id r)),
      (''org_id'', CText (sa_org_id r)), (''name'', CText (sa_name r)),
      (''status'', CText (sa_status r)), (''created_at'', CText (sa_created_at r))]"

definition row_role :: "serde \<Rightarrow> role_row \<Rightarrow> sql_row" where
  "row_role sj r =
     [(''id'', CText (role_id (ro_role r))), (''tenant_id'', CText (ro_tenant_id r)),
      (''key'', CText (role_key (ro_role r))), (''name'', CText (role_name (ro_role r))),
      (''description'', opt_text (role_description (ro_role r))),
      (''system'', bool_cell (role_system (ro_role r))),
      (''grants_json'', CText (to_text (grants_codec sj) (role_grants (ro_role r)))),
      (''created_at'', CText (ro_created_at r))]"

definition row_role_assignment :: "role_assignment_row \<Rightarrow> sql_row" where
  "row_role_assignment r =
     [(''id'', CText (ra_id r)), (''tenant_id'', CText (ra_tenant_id r)),
      (''principal_type'', CText (ra_principal_type r)),
      (''principal_id'', CText (ra_principal_id r)), (''role_key'', CText (ra_role_key r)),
      (''org_id'', opt_text (ra_org_id r)), (''created_at'', CText (ra_created_at r))]"

definition row_api_key :: "api_key_row \<Rightarrow> sql_row" where
  "row_api_key r =
     [(''id'', CText (ak_id r)), (''tenant_id'', CText (ak_tenant_id r)),
      (''org_id'', CText (ak_org_id r)), (''principal_type'', CText (ak_principal_type r)),
      (''principal_id'', CText (ak_principal_id r)), (''name'', CText (ak_name r)),
      (''prefix'', CText (ak_prefix r)), (''token_hash'', CText (ak_token_hash r)),
      (''status'', CText (ak_status r)), (''created_at'', CText (ak_created_at r)),
      (''last_used_at'', opt_text (ak_last_used_at r))]"

definition row_session :: "session_row \<Rightarrow> sql_row" where
  "row_session r =
     [(''id'', CText (ss_id r)), (''tenant_id'', CText (ss_tenant_id r)),
      (''user_id'', CText (ss_user_id r)), (''org_id'', CText (ss_org_id r)),
      (''token_hash'', CText (ss_token_hash r)), (''created_at'', CText (ss_created_at r)),
      (''expires_at'', CText (ss_expires_at r)), (''revoked'', bool_cell (ss_revoked r))]"

definition row_object_type :: "serde \<Rightarrow> object_type_row \<Rightarrow> sql_row" where
  "row_object_type sj r =
     [(''id'', CText (ot_id (ob_def r))), (''tenant_id'', CText (ob_tenant_id r)),
      (''key'', CText (ot_key (ob_def r))), (''label'', CText (ot_label (ob_def r))),
      (''label_plural'', opt_text (ot_label_plural (ob_def r))),
      (''description'', opt_text (ot_description (ob_def r))),
      (''system'', bool_cell (ot_system (ob_def r))),
      (''workflow_key'', opt_text (ot_workflow_key (ob_def r))),
      (''display_field'', opt_text (ot_display_field (ob_def r))),
      (''module'', opt_text (ot_module (ob_def r))),
      (''fields_json'', CText (to_text (fields_codec sj) (ot_fields (ob_def r)))),
      (''created_at'', CText (ob_created_at r))]"

definition row_draft :: "serde \<Rightarrow> builder_draft \<Rightarrow> sql_row" where
  "row_draft sj r =
     [(''id'', CText (bf_id r)), (''tenant_id'', CText (bf_tenant_id r)),
      (''status'', CText (status_str (bf_status r))), (''key'', CText (bf_key r)),
      (''definition_json'', CText (to_text (definition_codec sj) (bf_definition r))),
      (''created_at'', CText (bf_created_at r)), (''updated_at'', CText (bf_updated_at r)),
      (''published_at'', opt_text (bf_published_at r))]"

definition row_record :: "serde \<Rightarrow> record_t \<Rightarrow> sql_row" where
  "row_record sj r =
     [(''id'', CText (r_id r)), (''tenant_id'', CText (r_tenant_id r)),
      (''org_id'', CText (r_org_id r)), (''workspace_id'', opt_text (r_workspace_id r)),
      (''object_type'', CText (r_object_type r)),
      (''data_json'', CText (to_text (map_codec sj) (r_data r))),
      (''lifecycle'', CText (lifecycle_str (r_lifecycle r))),
      (''workflow_state'', opt_text (r_workflow_state r)),
      (''created_by'', CText (r_created_by r)), (''created_at'', CText (r_created_at r)),
      (''updated_at'', CText (r_updated_at r)), (''archived_at'', opt_text (r_archived_at r))]"

definition row_relation :: "relation_row \<Rightarrow> sql_row" where
  "row_relation r =
     [(''id'', CText (rl_id r)), (''tenant_id'', CText (rl_tenant_id r)),
      (''from_record'', CText (rl_from_record r)), (''to_record'', CText (rl_to_record r)),
      (''relation_type'', CText (rl_relation_type r)), (''data_json'', CText ''{}''),
      (''created_by'', CText (rl_created_by r)), (''created_at'', CText (rl_created_at r))]"

definition row_workflow :: "serde \<Rightarrow> workflow_row \<Rightarrow> sql_row" where
  "row_workflow sj r =
     [(''id'', CText (wr_id r)), (''tenant_id'', CText (wr_tenant_id r)),
      (''key'', CText (wr_key r)), (''object_type'', CText (wr_object_type r)),
      (''name'', CText (wr_name r)),
      (''definition_json'', CText (to_text (workflow_codec sj) (wr_definition r))),
      (''created_at'', CText (wr_created_at r))]"

definition row_task :: "serde \<Rightarrow> task_t \<Rightarrow> sql_row" where
  "row_task sj r =
     [(''id'', CText (tk_id r)), (''tenant_id'', CText (tk_tenant_id r)),
      (''org_id'', CText (tk_org_id r)), (''kind'', CText (tk_kind r)),
      (''title'', CText (tk_title r)), (''assignee_id'', opt_text (tk_assignee_id r)),
      (''status'', CText (tk_status r)), (''due_at'', opt_text (tk_due_at r)),
      (''related_object_type'', opt_text (tk_related_object_type r)),
      (''related_record_id'', opt_text (tk_related_record_id r)),
      (''data_json'', CText (to_text (value_codec sj) (tk_data r))),
      (''created_by'', CText (tk_created_by r)), (''created_at'', CText (tk_created_at r)),
      (''updated_at'', CText (tk_updated_at r))]"

definition row_approval :: "serde \<Rightarrow> approval_t \<Rightarrow> sql_row" where
  "row_approval sj r =
     [(''id'', CText (ap_id r)), (''tenant_id'', CText (ap_tenant_id r)),
      (''org_id'', CText (ap_org_id r)), (''status'', CText (ap_status r)),
      (''policy'', opt_text (ap_policy r)), (''requested_by'', CText (ap_requested_by r)),
      (''decided_by'', opt_text (ap_decided_by r)),
      (''decision_reason'', opt_text (ap_decision_reason r)),
      (''related_object_type'', opt_text (ap_related_object_type r)),
      (''related_record_id'', opt_text (ap_related_record_id r)),
      (''transition_key'', opt_text (ap_transition_key r)),
      (''target_state'', opt_text (ap_target_state r)),
      (''risk_score'', opt_real (ap_risk_score r)),
      (''data_json'', CText (to_text (value_codec sj) (ap_data r))),
      (''created_at'', CText (ap_created_at r)), (''decided_at'', opt_text (ap_decided_at r))]"

definition row_audit :: "serde \<Rightarrow> audit_event \<Rightarrow> sql_row" where
  "row_audit sj r =
     [(''id'', CText (a_id r)), (''tenant_id'', CText (a_tenant_id r)),
      (''org_id'', opt_text (a_org_id r)),
      (''actor_type'', CText (actor_type_str (a_actor_type r))),
      (''actor_id'', CText (a_actor_id r)), (''action'', CText (a_action r)),
      (''target_object_type'', opt_text (a_target_object_type r)),
      (''target_record_id'', opt_text (a_target_record_id r)),
      (''before_json'', opt_text (map_option (to_text (value_codec sj)) (a_before r))),
      (''after_json'', opt_text (map_option (to_text (value_codec sj)) (a_after r))),
      (''request_id'', CText (a_request_id r)), (''reason'', opt_text (a_reason r)),
      (''source'', CText (source_str (a_source r))), (''timestamp'', CText (a_timestamp r)),
      (''client_meta_json'', opt_text (map_option (to_text (value_codec sj)) (a_client_meta r))),
      (''ai_meta_json'', opt_text (map_option (to_text (value_codec sj)) (a_ai_meta r))),
      (''retrieved_source_ids_json'', if a_retrieved_source_ids r = [] then CNull
       else CText (to_text (strings_codec sj) (a_retrieved_source_ids r))),
      (''risk_score'', opt_real (a_risk_score r)), (''approval_id'', opt_text (a_approval_id r))]"

definition row_event :: "serde \<Rightarrow> event_t \<Rightarrow> sql_row" where
  "row_event sj r =
     [(''id'', CText (ev_id r)), (''tenant_id'', CText (ev_tenant_id r)),
      (''org_id'', opt_text (ev_org_id r)), (''kind'', CText (ev_kind r)),
      (''payload_json'', CText (to_text (value_codec sj) (ev_payload r))),
      (''created_at'', CText (ev_created_at r)), (''processed'', bool_cell (ev_processed r))]"

definition row_report :: "serde \<Rightarrow> report_row \<Rightarrow> sql_row" where
  "row_report sj r =
     [(''id'', CText (rp_id r)), (''tenant_id'', CText (rp_tenant_id r)),
      (''key'', CText (rd_key (rp_def r))), (''name'', CText (rd_name (rp_def r))),
      (''definition_json'', CText (to_text (report_codec sj) (rp_def r))),
      (''created_at'', CText (rp_created_at r))]"

definition row_dashboard :: "serde \<Rightarrow> dashboard_row \<Rightarrow> sql_row" where
  "row_dashboard sj r =
     [(''id'', CText (dr_id r)), (''tenant_id'', CText (dr_tenant_id r)),
      (''key'', CText (da_key (dr_dashboard r))), (''name'', CText (da_name (dr_dashboard r))),
      (''cards_json'', CText (to_text (cards_codec sj) (da_cards (dr_dashboard r)))),
      (''created_at'', CText (dr_created_at r))]"

definition row_usage :: "usage_row \<Rightarrow> sql_row" where
  "row_usage r =
     [(''id'', CText (um_id r)), (''tenant_id'', CText (um_tenant_id r)),
      (''metric'', CText (um_metric r)), (''period'', CText (um_period r)),
      (''value'', CInt (um_value r)), (''updated_at'', CText (um_updated_at r))]"

definition row_migration :: "serde \<Rightarrow> migration_session \<Rightarrow> sql_row" where
  "row_migration sj r =
     [(''tenant_id'', CText (se_tenant_id r)),
      (''status'', CText (migration_status_str (se_status r))),
      (''active_system'', CText (system_kind_str (se_active_system r))),
      (''selected_system_key'', opt_text (se_selected_system_key r)),
      (''snapshot_json'', CText (to_text (snapshot_codec sj) (se_old_system r))),
      (''last_report_json'', opt_text (map_option (to_text (migration_report_codec sj)) (se_last_report r))),
      (''created_at'', CText (se_created_at r)), (''updated_at'', CText (se_updated_at r))]"

lemmas row_defs = row_tenant_def row_organization_def row_workspace_def row_user_def
  row_service_account_def row_role_def row_role_assignment_def row_api_key_def row_session_def
  row_object_type_def row_draft_def row_record_def row_relation_def row_workflow_def row_task_def
  row_approval_def row_audit_def row_event_def row_report_def row_dashboard_def row_usage_def
  row_migration_def

section \<open>Reading cells\<close>

definition and_then :: "'e + 'a \<Rightarrow> ('a \<Rightarrow> 'e + 'b) \<Rightarrow> 'e + 'b" where
  "and_then r f = (case r of Inl e \<Rightarrow> Inl e | Inr x \<Rightarrow> f x)"

lemma and_then_simps [simp]: "and_then (Inl e) f = Inl e" "and_then (Inr x) f = f x"
  by (simp_all add: and_then_def)

definition ok_of :: "'e + 'a \<Rightarrow> 'a option" where
  "ok_of r = (case r of Inl _ \<Rightarrow> None | Inr x \<Rightarrow> Some x)"

text \<open>\<open>row.try_get(..).map_err(map_db_err)\<close> at the types the code reads.\<close>

definition get_text :: "sql_row \<Rightarrow> string \<Rightarrow> api_error + string" where
  "get_text row c =
     (case map_of row c of Some (CText s) \<Rightarrow> Inr s | _ \<Rightarrow> Inl (map_db_err EngineFailure))"

definition get_opt_text :: "sql_row \<Rightarrow> string \<Rightarrow> api_error + string option" where
  "get_opt_text row c =
     (case map_of row c of
        Some (CText s) \<Rightarrow> Inr (Some s) | Some CNull \<Rightarrow> Inr None
      | _ \<Rightarrow> Inl (map_db_err EngineFailure))"

definition get_int :: "sql_row \<Rightarrow> string \<Rightarrow> api_error + int" where
  "get_int row c =
     (case map_of row c of Some (CInt n) \<Rightarrow> Inr n | _ \<Rightarrow> Inl (map_db_err EngineFailure))"

definition get_opt_real :: "sql_row \<Rightarrow> string \<Rightarrow> api_error + rat option" where
  "get_opt_real row c =
     (case map_of row c of
        Some (CReal x) \<Rightarrow> Inr (Some x) | Some CNull \<Rightarrow> Inr None
      | _ \<Rightarrow> Inl (map_db_err EngineFailure))"

text \<open>\<open>serde_json::from_str(..).unwrap_or_default()\<close>, \<open>.map_err(ApiError::internal)?\<close>, \<open>.ok()\<close>.\<close>

definition or_default :: "'a codec \<Rightarrow> 'a \<Rightarrow> string \<Rightarrow> 'a" where
  "or_default c dflt s = (case of_text c s of Inl _ \<Rightarrow> dflt | Inr v \<Rightarrow> v)"

definition or_internal :: "string \<Rightarrow> 'a codec \<Rightarrow> string \<Rightarrow> api_error + 'a" where
  "or_internal what c s = (case of_text c s of Inl e \<Rightarrow> Inl (internal (what @ e)) | Inr v \<Rightarrow> Inr v)"

definition value_or_null :: "serde \<Rightarrow> sql_row \<Rightarrow> string \<Rightarrow> json" where
  "value_or_null sj row c =
     (case get_text row c of Inl _ \<Rightarrow> JNull | Inr s \<Rightarrow> or_default (value_codec sj) JNull s)"

definition parse_json :: "serde \<Rightarrow> string option \<Rightarrow> json option" where
  "parse_json sj o' = Option.bind o' (\<lambda>s. ok_of (of_text (value_codec sj) s))"

text \<open>What \<open>row_to_session\<close> takes for a snapshot it cannot read.\<close>

definition empty_snapshot :: system_snapshot where
  "empty_snapshot =
     \<lparr>sn_kind = Old, sn_key = OLD_SYSTEM_KEY, sn_label = OLD_SYSTEM_LABEL, sn_objects = []\<rparr>"

section \<open>Reading rows\<close>

definition row_to_record :: "serde \<Rightarrow> sql_row \<Rightarrow> api_error + record_t" where
  "row_to_record sj row =
     and_then (get_text row ''data_json'') (\<lambda>text.
     and_then (get_text row ''lifecycle'') (\<lambda>lc.
     and_then (get_text row ''id'') (\<lambda>i.
     and_then (get_text row ''object_type'') (\<lambda>ty.
     and_then (get_text row ''tenant_id'') (\<lambda>t.
     and_then (get_text row ''org_id'') (\<lambda>og.
     and_then (get_opt_text row ''workspace_id'') (\<lambda>ws.
     and_then (get_opt_text row ''workflow_state'') (\<lambda>st.
     and_then (get_text row ''created_by'') (\<lambda>by.
     and_then (get_text row ''created_at'') (\<lambda>ca.
     and_then (get_text row ''updated_at'') (\<lambda>ua.
     and_then (get_opt_text row ''archived_at'') (\<lambda>aa.
     Inr \<lparr>r_id = i, r_object_type = ty, r_tenant_id = t, r_org_id = og, r_workspace_id = ws,
          r_data = or_default (map_codec sj) [] text, r_lifecycle = lifecycle_parse lc,
          r_workflow_state = st, r_created_by = by, r_created_at = ca, r_updated_at = ua,
          r_archived_at = aa\<rparr>))))))))))))"

definition row_to_task :: "serde \<Rightarrow> sql_row \<Rightarrow> api_error + task_t" where
  "row_to_task sj row =
     and_then (get_text row ''id'') (\<lambda>i.
     and_then (get_text row ''tenant_id'') (\<lambda>t.
     and_then (get_text row ''org_id'') (\<lambda>og.
     and_then (get_text row ''kind'') (\<lambda>kd.
     and_then (get_text row ''title'') (\<lambda>ti.
     and_then (get_opt_text row ''assignee_id'') (\<lambda>asg.
     and_then (get_text row ''status'') (\<lambda>st.
     and_then (get_opt_text row ''due_at'') (\<lambda>due.
     and_then (get_opt_text row ''related_object_type'') (\<lambda>rt.
     and_then (get_opt_text row ''related_record_id'') (\<lambda>rr.
     and_then (get_text row ''created_by'') (\<lambda>by.
     and_then (get_text row ''created_at'') (\<lambda>ca.
     and_then (get_text row ''updated_at'') (\<lambda>ua.
     Inr \<lparr>tk_id = i, tk_tenant_id = t, tk_org_id = og, tk_kind = kd, tk_title = ti,
          tk_assignee_id = asg, tk_status = st, tk_due_at = due, tk_related_object_type = rt,
          tk_related_record_id = rr, tk_data = value_or_null sj row ''data_json'',
          tk_created_by = by, tk_created_at = ca, tk_updated_at = ua\<rparr>)))))))))))))"

definition row_to_approval :: "serde \<Rightarrow> sql_row \<Rightarrow> api_error + approval_t" where
  "row_to_approval sj row =
     and_then (get_text row ''id'') (\<lambda>i.
     and_then (get_text row ''tenant_id'') (\<lambda>t.
     and_then (get_text row ''org_id'') (\<lambda>og.
     and_then (get_text row ''status'') (\<lambda>st.
     and_then (get_opt_text row ''policy'') (\<lambda>po.
     and_then (get_text row ''requested_by'') (\<lambda>rb.
     and_then (get_opt_text row ''decided_by'') (\<lambda>db.
     and_then (get_opt_text row ''decision_reason'') (\<lambda>dr.
     and_then (get_opt_text row ''related_object_type'') (\<lambda>rt.
     and_then (get_opt_text row ''related_record_id'') (\<lambda>rr.
     and_then (get_opt_text row ''transition_key'') (\<lambda>tr.
     and_then (get_opt_text row ''target_state'') (\<lambda>ts.
     and_then (get_opt_real row ''risk_score'') (\<lambda>risk.
     and_then (get_text row ''created_at'') (\<lambda>ca.
     and_then (get_opt_text row ''decided_at'') (\<lambda>da.
     Inr \<lparr>ap_id = i, ap_tenant_id = t, ap_org_id = og, ap_status = st, ap_policy = po,
          ap_requested_by = rb, ap_decided_by = db, ap_decision_reason = dr,
          ap_related_object_type = rt, ap_related_record_id = rr, ap_transition_key = tr,
          ap_target_state = ts, ap_risk_score = risk,
          ap_data = value_or_null sj row ''data_json'', ap_created_at = ca, ap_decided_at = da\<rparr>)))))))))))))))"

definition row_to_event :: "serde \<Rightarrow> sql_row \<Rightarrow> api_error + audit_event" where
  "row_to_event sj row =
     and_then (get_text row ''actor_type'') (\<lambda>aty.
     and_then (get_text row ''source'') (\<lambda>src.
     and_then (get_opt_text row ''retrieved_source_ids_json'') (\<lambda>ids.
     and_then (get_text row ''id'') (\<lambda>i.
     and_then (get_text row ''tenant_id'') (\<lambda>t.
     and_then (get_opt_text row ''org_id'') (\<lambda>og.
     and_then (get_text row ''actor_id'') (\<lambda>ac.
     and_then (get_text row ''action'') (\<lambda>act.
     and_then (get_opt_text row ''target_object_type'') (\<lambda>tt.
     and_then (get_opt_text row ''target_record_id'') (\<lambda>tr.
     and_then (get_opt_text row ''before_json'') (\<lambda>be.
     and_then (get_opt_text row ''after_json'') (\<lambda>af.
     and_then (get_text row ''request_id'') (\<lambda>rq.
     and_then (get_opt_text row ''reason'') (\<lambda>rs.
     and_then (get_text row ''timestamp'') (\<lambda>ts.
     and_then (get_opt_text row ''client_meta_json'') (\<lambda>cm.
     and_then (get_opt_text row ''ai_meta_json'') (\<lambda>am.
     and_then (get_opt_real row ''risk_score'') (\<lambda>risk.
     and_then (get_opt_text row ''approval_id'') (\<lambda>ap.
     Inr \<lparr>a_id = i, a_tenant_id = t, a_org_id = og, a_actor_type = actor_type_of_column aty,
          a_actor_id = ac, a_action = act, a_target_object_type = tt, a_target_record_id = tr,
          a_before = parse_json sj be, a_after = parse_json sj af, a_request_id = rq,
          a_reason = rs, a_source = source_of_column src, a_timestamp = ts,
          a_client_meta = parse_json sj cm, a_ai_meta = parse_json sj am,
          a_retrieved_source_ids =
        (case ids of None \<Rightarrow> [] | Some s \<Rightarrow> or_default (strings_codec sj) [] s),
          a_risk_score = risk, a_approval_id = ap\<rparr>)))))))))))))))))))"

definition row_to_user :: "sql_row \<Rightarrow> string list \<Rightarrow> api_error + user_t" where
  "row_to_user row keys =
     and_then (get_text row ''id'') (\<lambda>i.
     and_then (get_text row ''tenant_id'') (\<lambda>t.
     and_then (get_text row ''email'') (\<lambda>em.
     and_then (get_text row ''name'') (\<lambda>nm.
     and_then (get_text row ''status'') (\<lambda>st.
     and_then (get_int row ''is_platform_admin'') (\<lambda>pa.
     and_then (get_opt_text row ''default_org_id'') (\<lambda>og.
     and_then (get_text row ''created_at'') (\<lambda>ca.
     Inr \<lparr>u_id = i, u_tenant_id = t, u_email = em, u_name = nm, u_status = st,
          u_is_platform_admin = (pa \<noteq> 0), u_default_org_id = og, u_role_keys = keys,
          u_created_at = ca\<rparr>))))))))"

definition row_to_role :: "serde \<Rightarrow> sql_row \<Rightarrow> api_error + role_t" where
  "row_to_role sj row =
     and_then (get_text row ''grants_json'') (\<lambda>text.
     and_then (get_text row ''id'') (\<lambda>i.
     and_then (get_text row ''key'') (\<lambda>ky.
     and_then (get_text row ''name'') (\<lambda>nm.
     and_then (get_opt_text row ''description'') (\<lambda>de.
     and_then (get_int row ''system'') (\<lambda>sy.
     Inr \<lparr>role_id = i, role_key = ky, role_name = nm, role_description = de,
          role_system = (sy \<noteq> 0), role_grants = or_default (grants_codec sj) [] text\<rparr>))))))"

definition row_to_object_type :: "serde \<Rightarrow> sql_row \<Rightarrow> api_error + object_type_def" where
  "row_to_object_type sj row =
     and_then (get_text row ''fields_json'') (\<lambda>text.
     and_then (get_text row ''id'') (\<lambda>i.
     and_then (get_text row ''key'') (\<lambda>ky.
     and_then (get_text row ''label'') (\<lambda>lb.
     and_then (get_opt_text row ''label_plural'') (\<lambda>lp.
     and_then (get_opt_text row ''description'') (\<lambda>de.
     and_then (get_int row ''system'') (\<lambda>sy.
     and_then (get_opt_text row ''workflow_key'') (\<lambda>wk.
     and_then (get_opt_text row ''display_field'') (\<lambda>df.
     and_then (get_opt_text row ''module'') (\<lambda>mo.
     Inr \<lparr>ot_id = i, ot_key = ky, ot_label = lb, ot_label_plural = lp, ot_description = de,
          ot_system = (sy \<noteq> 0), ot_workflow_key = wk, ot_display_field = df,
          ot_module = mo, ot_fields = or_default (fields_codec sj) [] text\<rparr>))))))))))"

definition row_to_draft :: "serde \<Rightarrow> sql_row \<Rightarrow> api_error + builder_draft" where
  "row_to_draft sj row =
     and_then (get_text row ''definition_json'') (\<lambda>text.
     and_then (or_internal ''parse builder draft: '' (definition_codec sj) text) (\<lambda>def.
     and_then (get_text row ''id'') (\<lambda>i.
     and_then (get_text row ''tenant_id'') (\<lambda>t.
     and_then (get_text row ''status'') (\<lambda>st.
     and_then (get_text row ''created_at'') (\<lambda>ca.
     and_then (get_text row ''updated_at'') (\<lambda>ua.
     and_then (get_opt_text row ''published_at'') (\<lambda>pa.
     Inr \<lparr>bf_id = i, bf_tenant_id = t, bf_status = parse_status st, bf_key = bd_key def,
          bf_definition = def, bf_created_at = ca, bf_updated_at = ua, bf_published_at = pa\<rparr>))))))))"

definition row_to_session :: "serde \<Rightarrow> sql_row \<Rightarrow> api_error + migration_session" where
  "row_to_session sj row =
     and_then (get_text row ''snapshot_json'') (\<lambda>text.
     and_then (get_opt_text row ''last_report_json'') (\<lambda>rep.
     and_then (get_text row ''active_system'') (\<lambda>sys.
     and_then (get_text row ''tenant_id'') (\<lambda>t.
     and_then (get_text row ''status'') (\<lambda>st.
     and_then (get_opt_text row ''selected_system_key'') (\<lambda>sel.
     and_then (get_text row ''created_at'') (\<lambda>ca.
     and_then (get_text row ''updated_at'') (\<lambda>ua.
     Inr \<lparr>se_tenant_id = t, se_status = migration_status_parse st,
          se_active_system =
        (case system_kind_parse sys of None \<Rightarrow> Old | Some kind \<Rightarrow> kind),
          se_selected_system_key = sel,
          se_old_system = or_default (snapshot_codec sj) empty_snapshot text,
          se_last_report =
        Option.bind rep (\<lambda>s. ok_of (of_text (migration_report_codec sj) s)),
          se_created_at = ca, se_updated_at = ua\<rparr>))))))))"

definition tenant_of_row :: "sql_row \<Rightarrow> api_error + tenant_row" where
  "tenant_of_row row =
     and_then (get_text row ''id'') (\<lambda>i.
     and_then (get_text row ''name'') (\<lambda>nm.
     and_then (get_text row ''slug'') (\<lambda>sl.
     and_then (get_text row ''plan'') (\<lambda>pl.
     and_then (get_text row ''status'') (\<lambda>st.
     and_then (get_text row ''created_at'') (\<lambda>ca.
     Inr \<lparr>tn_id = i, tn_name = nm, tn_slug = sl, tn_plan = pl, tn_status = st,
          tn_created_at = ca\<rparr>))))))"

definition organization_of_row :: "sql_row \<Rightarrow> api_error + organization_row" where
  "organization_of_row row =
     and_then (get_text row ''id'') (\<lambda>i.
     and_then (get_text row ''tenant_id'') (\<lambda>t.
     and_then (get_text row ''name'') (\<lambda>nm.
     and_then (get_text row ''slug'') (\<lambda>sl.
     and_then (get_text row ''created_at'') (\<lambda>ca.
     Inr \<lparr>og_id = i, og_tenant_id = t, og_name = nm, og_slug = sl, og_created_at = ca\<rparr>)))))"

definition domain_event_of_row :: "serde \<Rightarrow> sql_row \<Rightarrow> api_error + event_t" where
  "domain_event_of_row sj row =
     and_then (get_text row ''id'') (\<lambda>i.
     and_then (get_text row ''tenant_id'') (\<lambda>t.
     and_then (get_opt_text row ''org_id'') (\<lambda>og.
     and_then (get_text row ''kind'') (\<lambda>kd.
     and_then (get_text row ''payload_json'') (\<lambda>text.
     and_then (or_internal ''event payload: '' (value_codec sj) text) (\<lambda>payload.
     and_then (get_text row ''created_at'') (\<lambda>ca.
     and_then (get_int row ''processed'') (\<lambda>pr.
     Inr \<lparr>ev_id = i, ev_tenant_id = t, ev_org_id = og, ev_kind = kd, ev_payload = payload,
          ev_created_at = ca, ev_processed = (pr \<noteq> 0)\<rparr>))))))))"

definition dashboard_of_row :: "serde \<Rightarrow> sql_row \<Rightarrow> api_error + dashboard_t" where
  "dashboard_of_row sj row =
     and_then (get_text row ''key'') (\<lambda>ky.
     and_then (get_text row ''name'') (\<lambda>nm.
     Inr \<lparr>da_key = ky, da_name = nm,
          da_cards =
        (case get_text row ''cards_json'' of Inl _ \<Rightarrow> [] | Inr s \<Rightarrow> or_default (cards_codec sj) [] s)\<rparr>))"

definition usage_of_row :: "sql_row \<Rightarrow> api_error + string \<times> string \<times> int \<times> string" where
  "usage_of_row row =
     and_then (get_text row ''metric'') (\<lambda>me.
     and_then (get_text row ''period'') (\<lambda>pe.
     and_then (get_int row ''value'') (\<lambda>v.
     and_then (get_text row ''updated_at'') (\<lambda>ua.
     Inr (me, pe, v, ua)))))"

definition report_of_row :: "serde \<Rightarrow> sql_row \<Rightarrow> api_error + report_def" where
  "report_of_row sj row =
     and_then (get_text row ''definition_json'') (or_internal ''report def: '' (report_codec sj))"

definition workflow_of_row :: "serde \<Rightarrow> sql_row \<Rightarrow> api_error + workflow_def option" where
  "workflow_of_row sj row =
     and_then (get_text row ''definition_json'') (\<lambda>text. Inr (ok_of (of_text (workflow_codec sj) text)))"

definition edge_of_row :: "string \<Rightarrow> sql_row \<Rightarrow> api_error + relation_edge" where
  "edge_of_row rid row =
     and_then (get_text row ''from_record'') (\<lambda>from.
     and_then (get_text row ''to_record'') (\<lambda>to.
     let (direction, other) = (if from = rid then (''out'', to) else (''in'', from)) in
     and_then (get_text row ''id'') (\<lambda>i.
     and_then (get_text row ''relation_type'') (\<lambda>ty.
     and_then (get_text row ''created_at'') (\<lambda>ca.
     Inr \<lparr>re_id = i, re_relation_type = ty, re_direction = direction, re_record_id = other,
          re_created_at = ca\<rparr>)))))"

section \<open>What is read back\<close>

lemmas get_defs = get_text_def get_opt_text_def get_int_def get_opt_real_def opt_text_def
  opt_real_def bool_cell_def

lemma get_cells [simp]:
  "(case opt_text o' of CNull \<Rightarrow> Inr None | CText s \<Rightarrow> Inr (Some s) | CInt n \<Rightarrow> x | CReal q \<Rightarrow> y) = Inr o'"
  "(case opt_real p of CNull \<Rightarrow> Inr None | CText s \<Rightarrow> u | CInt n \<Rightarrow> v | CReal q \<Rightarrow> Inr (Some q)) = Inr p"
  "(case bool_cell b of CNull \<Rightarrow> f | CText s \<Rightarrow> g | CInt n \<Rightarrow> h n | CReal q \<Rightarrow> i) = h (if b then 1 else 0)"
  by (simp_all add: opt_text_def opt_real_def bool_cell_def split: option.splits)

lemmas read_defs = get_text_def get_opt_text_def get_int_def get_opt_real_def

lemma status_column_roundtrip [simp]: "parse_status (status_str st) = st"
  "lifecycle_parse (lifecycle_str lc) = lc"
  by (cases st; simp add: parse_status_def) (cases lc; simp add: lifecycle_parse_def)

lemmas column_roundtrips [simp] = actor_type_column_roundtrip source_column_roundtrip
  system_kind_roundtrip migration_status_roundtrip

lemma read_record:
  "row_to_record sj (row_record sj r) =
     Inr (r\<lparr>r_data := or_default (map_codec sj) [] (to_text (map_codec sj) (r_data r))\<rparr>)"
  by (simp add: row_to_record_def row_record_def read_defs)

lemma read_task:
  "row_to_task sj (row_task sj r) =
     Inr (r\<lparr>tk_data := or_default (value_codec sj) JNull (to_text (value_codec sj) (tk_data r))\<rparr>)"
  by (simp add: row_to_task_def row_task_def read_defs value_or_null_def)

lemma read_approval:
  "row_to_approval sj (row_approval sj r) =
     Inr (r\<lparr>ap_data := or_default (value_codec sj) JNull (to_text (value_codec sj) (ap_data r))\<rparr>)"
  by (simp add: row_to_approval_def row_approval_def read_defs value_or_null_def)

definition reread :: "serde \<Rightarrow> json option \<Rightarrow> json option" where
  "reread sj v = parse_json sj (map_option (to_text (value_codec sj)) v)"

lemma read_audit:
  "row_to_event sj (row_audit sj r) =
     Inr (r\<lparr>a_before := reread sj (a_before r), a_after := reread sj (a_after r),
            a_client_meta := reread sj (a_client_meta r), a_ai_meta := reread sj (a_ai_meta r),
            a_retrieved_source_ids :=
              (if a_retrieved_source_ids r = [] then []
               else or_default (strings_codec sj) [] (to_text (strings_codec sj) (a_retrieved_source_ids r)))\<rparr>)"
  by (simp add: row_to_event_def row_audit_def read_defs reread_def)

lemma read_user: "row_to_user (row_user r) keys =
    Inr \<lparr>u_id = us_id r, u_tenant_id = us_tenant_id r, u_email = us_email r, u_name = us_name r,
         u_status = us_status r, u_is_platform_admin = us_is_platform_admin r,
         u_default_org_id = us_default_org_id r, u_role_keys = keys, u_created_at = us_created_at r\<rparr>"
  by (simp add: row_to_user_def row_user_def read_defs)

lemma read_role:
  "row_to_role sj (row_role sj r) =
     Inr ((ro_role r)\<lparr>role_grants :=
       or_default (grants_codec sj) [] (to_text (grants_codec sj) (role_grants (ro_role r)))\<rparr>)"
  by (simp add: row_to_role_def row_role_def read_defs)

lemma read_object_type:
  "row_to_object_type sj (row_object_type sj r) =
     Inr ((ob_def r)\<lparr>ot_fields :=
       or_default (fields_codec sj) [] (to_text (fields_codec sj) (ot_fields (ob_def r)))\<rparr>)"
  by (simp add: row_to_object_type_def row_object_type_def read_defs)

lemma read_draft:
  "row_to_draft sj (row_draft sj r) =
     and_then (or_internal ''parse builder draft: '' (definition_codec sj)
                 (to_text (definition_codec sj) (bf_definition r)))
       (\<lambda>def. Inr (r\<lparr>bf_key := bd_key def, bf_definition := def\<rparr>))"
  by (simp add: row_to_draft_def row_draft_def read_defs or_internal_def split: sum.splits)

lemma read_session:
  "row_to_session sj (row_migration sj r) =
     Inr (r\<lparr>se_old_system :=
              or_default (snapshot_codec sj) empty_snapshot (to_text (snapshot_codec sj) (se_old_system r)),
            se_last_report := Option.bind (se_last_report r)
              (\<lambda>rep. ok_of (of_text (migration_report_codec sj) (to_text (migration_report_codec sj) rep)))\<rparr>)"
  by (cases "se_last_report r")
    (simp_all add: row_to_session_def row_migration_def read_defs)

lemma read_event:
  "domain_event_of_row sj (row_event sj r) =
     and_then (or_internal ''event payload: '' (value_codec sj) (to_text (value_codec sj) (ev_payload r)))
       (\<lambda>v. Inr (r\<lparr>ev_payload := v\<rparr>))"
  by (simp add: domain_event_of_row_def row_event_def read_defs or_internal_def split: sum.splits)

lemma read_plain_rows:
  "tenant_of_row (row_tenant tn) = Inr tn" "organization_of_row (row_organization og) = Inr og"
  "usage_of_row (row_usage um) = Inr (um_metric um, um_period um, um_value um, um_updated_at um)"
  "edge_of_row rid (row_relation rl) = Inr (edge_of rid rl)"
  by (simp_all add: tenant_of_row_def row_tenant_def organization_of_row_def row_organization_def
      usage_of_row_def row_usage_def edge_of_row_def row_relation_def edge_of_def read_defs)

lemma read_definitions:
  "report_of_row sj (row_report sj rp) =
     or_internal ''report def: '' (report_codec sj) (to_text (report_codec sj) (rp_def rp))"
  "workflow_of_row sj (row_workflow sj wr) =
     Inr (ok_of (of_text (workflow_codec sj) (to_text (workflow_codec sj) (wr_definition wr))))"
  "dashboard_of_row sj (row_dashboard sj dr) =
     Inr ((dr_dashboard dr)\<lparr>da_cards :=
       or_default (cards_codec sj) [] (to_text (cards_codec sj) (da_cards (dr_dashboard dr)))\<rparr>)"
  by (simp_all add: report_of_row_def row_report_def workflow_of_row_def row_workflow_def
      dashboard_of_row_def row_dashboard_def read_defs)

lemmas read_rows = read_record read_task read_approval read_audit read_user read_role
  read_object_type read_draft read_session read_event read_plain_rows read_definitions

lemma survives_reads:
  "survives c v \<Longrightarrow> or_default c dflt (to_text c v) = v"
  "survives c v \<Longrightarrow> or_internal what c (to_text c v) = Inr v"
  "survives c v \<Longrightarrow> ok_of (of_text c (to_text c v)) = Some v"
  by (simp_all add: survives_def or_default_def or_internal_def ok_of_def)

lemma survives_reread: "(\<And>v. o' = Some v \<Longrightarrow> survives (value_codec sj) v) \<Longrightarrow> reread sj o' = o'"
  by (cases o') (simp_all add: reread_def parse_json_def survives_reads)

text \<open>The JSON values an audit event stores.\<close>

definition audit_values :: "audit_event \<Rightarrow> json list" where
  "audit_values e = concat (map (\<lambda>o'. case o' of None \<Rightarrow> [] | Some v \<Rightarrow> [v])
     [a_before e, a_after e, a_client_meta e, a_ai_meta e])"

text \<open>
  C25: Every row that the kernel stores is read back as the value it was written from, when the
  JSON values it holds survive the serializer and the parser: tenants, organizations, records,
  relations, tasks, approvals, audit events with all their optional columns, domain events, roles,
  object types, builder drafts, workflows, reports, dashboards and migration sessions. So the
  lifecycle, the statuses, the kinds of actor and source, the flags and the empty list of retrieved
  sources that is stored as a null are decoded to what was encoded.
\<close>

theorem rows_read_back:
  assumes "survives (map_codec sj) (r_data r)" "survives (value_codec sj) (tk_data t)"
    and "survives (value_codec sj) (ap_data a)" "\<forall>v\<in>set (audit_values e). survives (value_codec sj) v"
    and "survives (strings_codec sj) (a_retrieved_source_ids e)"
    and "survives (grants_codec sj) (role_grants (ro_role ro))"
    and "survives (fields_codec sj) (ot_fields (ob_def ob))"
    and "survives (definition_codec sj) (bf_definition bf)" "bf_key bf = bd_key (bf_definition bf)"
    and "survives (snapshot_codec sj) (se_old_system se)"
    and "case se_last_report se of None \<Rightarrow> True | Some rep \<Rightarrow> survives (migration_report_codec sj) rep"
    and "survives (value_codec sj) (ev_payload ev)" "survives (report_codec sj) (rp_def rp)"
    and "survives (workflow_codec sj) (wr_definition wr)"
    and "survives (cards_codec sj) (da_cards (dr_dashboard dr))"
  shows "row_to_record sj (row_record sj r) = Inr r \<and> row_to_task sj (row_task sj t) = Inr t \<and>
    row_to_approval sj (row_approval sj a) = Inr a \<and> row_to_event sj (row_audit sj e) = Inr e \<and>
    row_to_role sj (row_role sj ro) = Inr (ro_role ro) \<and>
    row_to_object_type sj (row_object_type sj ob) = Inr (ob_def ob) \<and>
    row_to_draft sj (row_draft sj bf) = Inr bf \<and> row_to_session sj (row_migration sj se) = Inr se \<and>
    domain_event_of_row sj (row_event sj ev) = Inr ev \<and>
    report_of_row sj (row_report sj rp) = Inr (rp_def rp) \<and>
    workflow_of_row sj (row_workflow sj wr) = Inr (Some (wr_definition wr)) \<and>
    dashboard_of_row sj (row_dashboard sj dr) = Inr (dr_dashboard dr) \<and>
    tenant_of_row (row_tenant tn) = Inr tn \<and> organization_of_row (row_organization og) = Inr og \<and>
    edge_of_row rid (row_relation rl) = Inr (edge_of rid rl)"
proof (intro conjI)
  have "reread sj (a_before e) = a_before e" "reread sj (a_after e) = a_after e"
    "reread sj (a_client_meta e) = a_client_meta e" "reread sj (a_ai_meta e) = a_ai_meta e"
    using assms(4) by (auto simp: audit_values_def intro!: survives_reread)
  then show "row_to_event sj (row_audit sj e) = Inr e"
    using assms(5) by (simp add: read_rows survives_reads)
  show "row_to_session sj (row_migration sj se) = Inr se"
    using assms(10,11) by (cases "se_last_report se") (simp_all add: read_rows survives_reads)
qed (use assms in \<open>simp_all add: read_rows survives_reads\<close>)

text \<open>A codec that knows one value, and a row of each kind.\<close>

definition only :: "'a \<Rightarrow> 'a codec" where
  "only v = \<lparr>to_text = (\<lambda>_. ''v''), of_text = (\<lambda>s. if s = ''v'' then Inr v else Inl ''unknown'')\<rparr>"

definition sample_value :: json where
  "sample_value = JObject [(''amount'', JString ''12.50'')]"

definition sample_record :: record_t where
  "sample_record =
     \<lparr>r_id = ''r1'', r_object_type = ''invoice'', r_tenant_id = ''acme'', r_org_id = ''o1'',
      r_workspace_id = None, r_data = [(''amount'', JString ''12.50'')], r_lifecycle = Archived,
      r_workflow_state = Some ''paid'', r_created_by = ''ann'', r_created_at = ''t1'',
      r_updated_at = ''t2'', r_archived_at = Some ''t2''\<rparr>"

definition sample_task :: task_t where
  "sample_task =
     \<lparr>tk_id = ''k1'', tk_tenant_id = ''acme'', tk_org_id = ''o1'', tk_kind = ''approval'',
      tk_title = ''Approve'', tk_assignee_id = None, tk_status = ''open'', tk_due_at = None,
      tk_related_object_type = Some ''invoice'', tk_related_record_id = Some ''r1'',
      tk_data = sample_value, tk_created_by = ''ann'', tk_created_at = ''t1'', tk_updated_at = ''t1''\<rparr>"

definition sample_approval :: approval_t where
  "sample_approval =
     \<lparr>ap_id = ''a1'', ap_tenant_id = ''acme'', ap_org_id = ''o1'', ap_status = ''pending'',
      ap_policy = Some ''default'', ap_requested_by = ''ann'', ap_decided_by = None,
      ap_decision_reason = None, ap_related_object_type = Some ''invoice'',
      ap_related_record_id = Some ''r1'', ap_transition_key = Some ''pay'',
      ap_target_state = Some ''paid'', ap_risk_score = Some (1 / 4), ap_data = sample_value,
      ap_created_at = ''t1'', ap_decided_at = None\<rparr>"

definition sample_audit :: audit_event where
  "sample_audit =
     \<lparr>a_id = ''e1'', a_tenant_id = ''acme'', a_org_id = Some ''o1'', a_actor_type = Agent,
      a_actor_id = ''bot'', a_action = ''ai.ask'', a_target_object_type = None,
      a_target_record_id = None, a_before = None, a_after = Some sample_value,
      a_request_id = ''rq'', a_reason = None, a_source = SrcAgent, a_timestamp = ''t1'',
      a_client_meta = None, a_ai_meta = Some sample_value, a_retrieved_source_ids = [],
      a_risk_score = None, a_approval_id = None\<rparr>"

definition sample_role :: role_row where
  "sample_role =
     \<lparr>ro_tenant_id = ''acme'',
      ro_role = \<lparr>role_id = ''q1'', role_key = ''clerk'', role_name = ''Clerk'', role_description = None,
                 role_system = True, role_grants = [new_grant Read ''record:*'' Own]\<rparr>,
      ro_created_at = ''t1''\<rparr>"

definition sample_type :: object_type_row where
  "sample_type =
     \<lparr>ob_tenant_id = ''acme'',
      ob_def = \<lparr>ot_id = ''y1'', ot_key = ''invoice'', ot_label = ''Invoice'', ot_label_plural = None,
                ot_description = None, ot_system = False, ot_workflow_key = Some ''pay'',
                ot_display_field = None, ot_module = None,
                ot_fields = [restricted (new_field ''iban'' ''IBAN'' Text)]\<rparr>,
      ob_created_at = ''t1''\<rparr>"

definition sample_draft :: builder_draft where
  "sample_draft =
     \<lparr>bf_id = ''b1'', bf_tenant_id = ''acme'', bf_status = Validated, bf_key = ''asset'',
      bf_definition = \<lparr>bd_key = ''asset'', bd_label = ''Asset'', bd_label_plural = None,
        bd_description = None, bd_icon = None, bd_module = None, bd_display_field = None,
        bd_fields = [], bd_relations = [], bd_workflow = None, bd_permissions = [],
        bd_approval_rules = [], bd_sensitive_ai_visibility_confirmed = False\<rparr>,
      bf_created_at = ''t1'', bf_updated_at = ''t2'', bf_published_at = None\<rparr>"

definition sample_session :: migration_session where
  "sample_session =
     \<lparr>se_tenant_id = ''acme'', se_status = TargetSelected, se_active_system = Selected,
      se_selected_system_key = Some ''crm'', se_old_system = empty_snapshot, se_last_report = None,
      se_created_at = ''t1'', se_updated_at = ''t2''\<rparr>"

definition sample_event :: event_t where
  "sample_event =
     \<lparr>ev_id = ''v1'', ev_tenant_id = ''acme'', ev_org_id = None, ev_kind = ''record.created'',
      ev_payload = sample_value, ev_created_at = ''t1'', ev_processed = True\<rparr>"

definition sample_workflow :: workflow_row where
  "sample_workflow =
     \<lparr>wr_id = ''w1'', wr_tenant_id = ''acme'', wr_key = ''pay'', wr_object_type = ''invoice'',
      wr_name = ''Pay'',
      wr_definition = \<lparr>wf_key = ''pay'', wf_object_type = ''invoice'', wf_name = ''Pay'',
        wf_initial_state = ''draft'', wf_states = [], wf_transitions = []\<rparr>,
      wr_created_at = ''t1''\<rparr>"

definition sample_report :: report_row where
  "sample_report =
     \<lparr>rp_id = ''p1'', rp_tenant_id = ''acme'',
      rp_def = \<lparr>rd_key = ''spend'', rd_name = ''Spend'', rd_object_type = ''invoice'', rd_op = Sum,
        rd_field = Some ''amount'', rd_filters = [], rd_group_by = None\<rparr>,
      rp_created_at = ''t1''\<rparr>"

definition sample_dashboard :: dashboard_row where
  "sample_dashboard =
     \<lparr>dr_id = ''d1'', dr_tenant_id = ''acme'',
      dr_dashboard = \<lparr>da_key = ''cfo'', da_name = ''CFO'', da_cards = [sample_value]\<rparr>,
      dr_created_at = ''t1''\<rparr>"

definition no_codec :: "'a codec" where
  "no_codec = \<lparr>to_text = (\<lambda>_. []), of_text = (\<lambda>_. Inl ''unknown'')\<rparr>"

definition sample_serde :: serde where
  "sample_serde =
     \<lparr>value_codec = only sample_value, map_codec = only (r_data sample_record),
      strings_codec = only [], grants_codec = only (role_grants (ro_role sample_role)),
      fields_codec = only (ot_fields (ob_def sample_type)),
      definition_codec = only (bf_definition sample_draft),
      workflow_codec = only (wr_definition sample_workflow), report_codec = only (rp_def sample_report),
      cards_codec = only (da_cards (dr_dashboard sample_dashboard)), snapshot_codec = only empty_snapshot,
      migration_report_codec = no_codec\<rparr>"

lemmas sample_defs = sample_record_def sample_task_def sample_approval_def sample_audit_def
  sample_role_def sample_type_def sample_draft_def sample_session_def sample_event_def
  sample_workflow_def sample_report_def sample_dashboard_def sample_serde_def

lemma survives_only [simp]: "survives (only v) v" "of_text (only v) (to_text (only v) v) = Inr v"
  by (simp_all add: survives_def only_def)

theorem rows_read_back_witness:
  "row_to_record sample_serde (row_record sample_serde sample_record) = Inr sample_record \<and>
   row_to_event sample_serde (row_audit sample_serde sample_audit) = Inr sample_audit \<and>
   row_to_session sample_serde (row_migration sample_serde sample_session) = Inr sample_session \<and>
   domain_event_of_row sample_serde (row_event sample_serde sample_event) = Inr sample_event"
  using rows_read_back [of sample_serde sample_record sample_task sample_approval sample_audit
      sample_role sample_type sample_draft sample_session sample_event sample_report sample_workflow
      sample_dashboard]
  by (simp add: sample_defs audit_values_def)

text \<open>
  C26: What is read when the text of a JSON column no longer parses. A record, a task and an approval
  come back with empty data and no error; a role comes back without grants, so access is refused;
  a workflow counts as missing; an object type comes back without fields, so that no field of it is
  restricted any more and every caller who may read a record sees all of its values; only a builder
  draft, a domain event and a report definition give an internal error.
\<close>

theorem unreadable_columns:
  assumes "of_text (map_codec sj) (to_text (map_codec sj) (r_data r)) = Inl e1"
    and "of_text (value_codec sj) (to_text (value_codec sj) (tk_data t)) = Inl e2"
    and "of_text (grants_codec sj) (to_text (grants_codec sj) (role_grants (ro_role ro))) = Inl e3"
    and "of_text (fields_codec sj) (to_text (fields_codec sj) (ot_fields (ob_def ob))) = Inl e4"
    and "of_text (definition_codec sj) (to_text (definition_codec sj) (bf_definition bf)) = Inl e5"
    and "of_text (value_codec sj) (to_text (value_codec sj) (ap_data a)) = Inl e6"
    and "of_text (value_codec sj) (to_text (value_codec sj) (ev_payload ev)) = Inl e7"
    and "of_text (report_codec sj) (to_text (report_codec sj) (rp_def rp)) = Inl e8"
    and "of_text (workflow_codec sj) (to_text (workflow_codec sj) (wr_definition wr)) = Inl e9"
  shows "row_to_record sj (row_record sj r) = Inr (r\<lparr>r_data := []\<rparr>) \<and>
    row_to_task sj (row_task sj t) = Inr (t\<lparr>tk_data := JNull\<rparr>) \<and>
    row_to_approval sj (row_approval sj a) = Inr (a\<lparr>ap_data := JNull\<rparr>) \<and>
    row_to_role sj (row_role sj ro) = Inr ((ro_role ro)\<lparr>role_grants := []\<rparr>) \<and>
    workflow_of_row sj (row_workflow sj wr) = Inr None \<and>
    (\<exists>ot. row_to_object_type sj (row_object_type sj ob) = Inr ot \<and>
       field_permitted grants ot key \<and> project_fields (field_permitted grants ot) r = r) \<and>
    row_to_draft sj (row_draft sj bf) = Inl (internal (''parse builder draft: '' @ e5)) \<and>
    domain_event_of_row sj (row_event sj ev) = Inl (internal (''event payload: '' @ e7)) \<and>
    report_of_row sj (row_report sj rp) = Inl (internal (''report def: '' @ e8))"
proof -
  let ?ot = "(ob_def ob)\<lparr>ot_fields := []\<rparr>"
  have "field_permitted grants ?ot x" for x by (simp add: field_permitted_def field_of_def)
  then have "field_permitted grants ?ot = (\<lambda>_. True)" by blast
  moreover have "project_fields (\<lambda>_. True) r = r" by (simp add: project_fields_def jrestrict_def)
  moreover have "row_to_object_type sj (row_object_type sj ob) = Inr ?ot"
    using assms(4) by (simp add: read_rows or_default_def)
  ultimately show ?thesis
    using assms by (auto simp: read_rows or_default_def or_internal_def ok_of_def)
qed

definition broken_serde :: serde where
  "broken_serde = sample_serde\<lparr>map_codec := no_codec, value_codec := no_codec, grants_codec := no_codec,
     fields_codec := no_codec, definition_codec := no_codec, report_codec := no_codec,
     workflow_codec := no_codec\<rparr>"

theorem unreadable_columns_witness:
  "\<not> field_permitted [] (ob_def sample_type) ''iban'' \<and>
   (\<exists>ot. row_to_object_type broken_serde (row_object_type broken_serde sample_type) = Inr ot \<and>
      field_permitted [] ot ''iban'') \<and>
   row_to_record broken_serde (row_record broken_serde sample_record) = Inr (sample_record\<lparr>r_data := []\<rparr>)"
proof -
  have "\<not> field_permitted [] (ob_def sample_type) ''iban''"
    by (simp add: field_permitted_def field_of_def sample_type_def new_field_def restricted_def)
  moreover have broken: "of_text no_codec x = Inl ''unknown''" for x
    by (simp add: no_codec_def)
  have codecs: "map_codec broken_serde = no_codec" "value_codec broken_serde = no_codec"
    "grants_codec broken_serde = no_codec" "fields_codec broken_serde = no_codec"
    "definition_codec broken_serde = no_codec" "report_codec broken_serde = no_codec"
    "workflow_codec broken_serde = no_codec"
    by (simp_all add: broken_serde_def)
  note unreadable_columns [of broken_serde sample_record "''unknown''" sample_task "''unknown''"
      sample_role "''unknown''" sample_type "''unknown''" sample_draft "''unknown''" sample_approval
      "''unknown''" sample_event "''unknown''" sample_report "''unknown''" sample_workflow "''unknown''"
      "[]" "''iban''", unfolded codecs, OF broken broken broken broken broken broken broken broken broken]
  ultimately show ?thesis unfolding codecs by blast
qed

end
