(* ===== verification/SchemaConformance.thy ===== *)
theory SchemaConformance
  imports RowCoding Tenants Usage Workflows Transitions
begin

text \<open>
  The statements of the services against the schema. \<open>stored\<close> is the database file that holds
  the state of the model. Each \<open>INSERT\<close> of the services does to the model's tables what the
  engine of theory \<open>DbSchema\<close> does to the file with the row the code binds: the same rows are
  refused, with the same error, and an accepted row is stored with the columns it was bound to.
\<close>

section \<open>The file of a state\<close>

definition stored :: "serde \<Rightarrow> database \<Rightarrow> sql_db" where
  "stored sj d tb =
     Some (case tb of
         TENANTS \<Rightarrow> map row_tenant (tenants d)
       | ORGANIZATIONS \<Rightarrow> map row_organization (organizations d)
       | WORKSPACES \<Rightarrow> map row_workspace (workspaces d)
       | USERS \<Rightarrow> map row_user (users d)
       | SERVICE_ACCOUNTS \<Rightarrow> map row_service_account (service_accounts d)
       | ROLES \<Rightarrow> map (row_role sj) (roles d)
       | ROLE_ASSIGNMENTS \<Rightarrow> map row_role_assignment (role_assignments d)
       | API_KEYS \<Rightarrow> map row_api_key (api_keys d)
       | SESSIONS \<Rightarrow> map row_session (sessions d)
       | OBJECT_TYPES \<Rightarrow> map (row_object_type sj) (object_types d)
       | BUILDER_DRAFTS \<Rightarrow> map (row_draft sj) (builder_drafts d)
       | RECORDS \<Rightarrow> map (row_record sj) (records d)
       | RELATIONS \<Rightarrow> map row_relation (relations d)
       | WORKFLOWS \<Rightarrow> map (row_workflow sj) (workflows d)
       | TASKS \<Rightarrow> map (row_task sj) (tasks d)
       | APPROVALS \<Rightarrow> map (row_approval sj) (approvals d)
       | AUDIT_LOGS \<Rightarrow> map (row_audit sj) (audit_logs d)
       | EVENTS \<Rightarrow> map (row_event sj) (events d)
       | REPORTS \<Rightarrow> map (row_report sj) (reports d)
       | DASHBOARDS \<Rightarrow> map (row_dashboard sj) (dashboards d)
       | USAGE_METERS \<Rightarrow> map row_usage (usage_meters d)
       | MIGRATION_SESSIONS \<Rightarrow> map (row_migration sj) (migration_sessions d)
       | DOCUMENTS \<Rightarrow> []
       | AI_PROVIDERS \<Rightarrow> []
       | AGENTS \<Rightarrow> []
       | SETTINGS \<Rightarrow> [])"

lemma stored_tables:
  "stored sj d TENANTS = Some (map row_tenant (tenants d))"
  "stored sj d ORGANIZATIONS = Some (map row_organization (organizations d))"
  "stored sj d WORKSPACES = Some (map row_workspace (workspaces d))"
  "stored sj d USERS = Some (map row_user (users d))"
  "stored sj d SERVICE_ACCOUNTS = Some (map row_service_account (service_accounts d))"
  "stored sj d ROLES = Some (map (row_role sj) (roles d))"
  "stored sj d ROLE_ASSIGNMENTS = Some (map row_role_assignment (role_assignments d))"
  "stored sj d API_KEYS = Some (map row_api_key (api_keys d))"
  "stored sj d SESSIONS = Some (map row_session (sessions d))"
  "stored sj d OBJECT_TYPES = Some (map (row_object_type sj) (object_types d))"
  "stored sj d BUILDER_DRAFTS = Some (map (row_draft sj) (builder_drafts d))"
  "stored sj d RECORDS = Some (map (row_record sj) (records d))"
  "stored sj d RELATIONS = Some (map row_relation (relations d))"
  "stored sj d WORKFLOWS = Some (map (row_workflow sj) (workflows d))"
  "stored sj d TASKS = Some (map (row_task sj) (tasks d))"
  "stored sj d APPROVALS = Some (map (row_approval sj) (approvals d))"
  "stored sj d AUDIT_LOGS = Some (map (row_audit sj) (audit_logs d))"
  "stored sj d EVENTS = Some (map (row_event sj) (events d))"
  "stored sj d REPORTS = Some (map (row_report sj) (reports d))"
  "stored sj d DASHBOARDS = Some (map (row_dashboard sj) (dashboards d))"
  "stored sj d USAGE_METERS = Some (map row_usage (usage_meters d))"
  "stored sj d MIGRATION_SESSIONS = Some (map (row_migration sj) (migration_sessions d))"
  "stored sj d DOCUMENTS = Some []"
  "stored sj d AI_PROVIDERS = Some []"
  "stored sj d AGENTS = Some []"
  "stored sj d SETTINGS = Some []"
  by (simp_all add: stored_def)

lemma stored_updates:
  "(stored sj d)(TENANTS := Some (map row_tenant xs_tenants)) = stored sj (d\<lparr>tenants := xs_tenants\<rparr>)"
  "(stored sj d)(ORGANIZATIONS := Some (map row_organization xs_organizations)) = stored sj (d\<lparr>organizations := xs_organizations\<rparr>)"
  "(stored sj d)(WORKSPACES := Some (map row_workspace xs_workspaces)) = stored sj (d\<lparr>workspaces := xs_workspaces\<rparr>)"
  "(stored sj d)(USERS := Some (map row_user xs_users)) = stored sj (d\<lparr>users := xs_users\<rparr>)"
  "(stored sj d)(SERVICE_ACCOUNTS := Some (map row_service_account xs_service_accounts)) = stored sj (d\<lparr>service_accounts := xs_service_accounts\<rparr>)"
  "(stored sj d)(ROLES := Some (map (row_role sj) xs_roles)) = stored sj (d\<lparr>roles := xs_roles\<rparr>)"
  "(stored sj d)(ROLE_ASSIGNMENTS := Some (map row_role_assignment xs_role_assignments)) = stored sj (d\<lparr>role_assignments := xs_role_assignments\<rparr>)"
  "(stored sj d)(API_KEYS := Some (map row_api_key xs_api_keys)) = stored sj (d\<lparr>api_keys := xs_api_keys\<rparr>)"
  "(stored sj d)(SESSIONS := Some (map row_session xs_sessions)) = stored sj (d\<lparr>sessions := xs_sessions\<rparr>)"
  "(stored sj d)(OBJECT_TYPES := Some (map (row_object_type sj) xs_object_types)) = stored sj (d\<lparr>object_types := xs_object_types\<rparr>)"
  "(stored sj d)(BUILDER_DRAFTS := Some (map (row_draft sj) xs_builder_drafts)) = stored sj (d\<lparr>builder_drafts := xs_builder_drafts\<rparr>)"
  "(stored sj d)(RECORDS := Some (map (row_record sj) xs_records)) = stored sj (d\<lparr>records := xs_records\<rparr>)"
  "(stored sj d)(RELATIONS := Some (map row_relation xs_relations)) = stored sj (d\<lparr>relations := xs_relations\<rparr>)"
  "(stored sj d)(WORKFLOWS := Some (map (row_workflow sj) xs_workflows)) = stored sj (d\<lparr>workflows := xs_workflows\<rparr>)"
  "(stored sj d)(TASKS := Some (map (row_task sj) xs_tasks)) = stored sj (d\<lparr>tasks := xs_tasks\<rparr>)"
  "(stored sj d)(APPROVALS := Some (map (row_approval sj) xs_approvals)) = stored sj (d\<lparr>approvals := xs_approvals\<rparr>)"
  "(stored sj d)(AUDIT_LOGS := Some (map (row_audit sj) xs_audit_logs)) = stored sj (d\<lparr>audit_logs := xs_audit_logs\<rparr>)"
  "(stored sj d)(EVENTS := Some (map (row_event sj) xs_events)) = stored sj (d\<lparr>events := xs_events\<rparr>)"
  "(stored sj d)(REPORTS := Some (map (row_report sj) xs_reports)) = stored sj (d\<lparr>reports := xs_reports\<rparr>)"
  "(stored sj d)(DASHBOARDS := Some (map (row_dashboard sj) xs_dashboards)) = stored sj (d\<lparr>dashboards := xs_dashboards\<rparr>)"
  "(stored sj d)(USAGE_METERS := Some (map row_usage xs_usage_meters)) = stored sj (d\<lparr>usage_meters := xs_usage_meters\<rparr>)"
  "(stored sj d)(MIGRATION_SESSIONS := Some (map (row_migration sj) xs_migration_sessions)) = stored sj (d\<lparr>migration_sessions := xs_migration_sessions\<rparr>)"
  by (simp_all add: fun_eq_iff stored_def split: table_name.splits)

lemma stored_empty: "migrate (\<lambda>_. None) = stored sj empty_db"
proof (rule ext)
  show "migrate (\<lambda>_. None) tb = stored sj empty_db tb" for tb
    unfolding migrate_def SCHEMA_def
    by (cases tb) (simp_all add: create_table_def table_defs stored_def empty_db_def)
qed

lemma stored_present: "tb \<in> set SCHEMA \<Longrightarrow> stored sj d (tb_name tb) \<noteq> None"
  by (auto simp: stored_def)

text \<open>Opening an existing file changes nothing in it.\<close>

lemma migrate_stored: "migrate (stored sj d) = stored sj d"
  unfolding migrate_def by (rule create_tables_present) (simp add: stored_present)

section \<open>Statements that follow the engine\<close>

definition follows ::
  "serde \<Rightarrow> (database \<Rightarrow> sql_error + unit \<times> database) \<Rightarrow> (sql_db \<Rightarrow> sql_error + sql_db) \<Rightarrow> bool" where
  "follows sj f q \<longleftrightarrow> (\<forall>d. case q (stored sj d) of
       Inl e \<Rightarrow> f d = Inl e
     | Inr D \<Rightarrow> \<exists>d'. f d = Inr ((), d') \<and> stored sj d' = D)"

definition conforms :: "serde \<Rightarrow> kernel \<Rightarrow> unit kern \<Rightarrow> (sql_db \<Rightarrow> sql_error + sql_db) \<Rightarrow> bool" where
  "conforms sj k m q \<longleftrightarrow> (\<forall>s. \<not> db_fault k (tick s) \<longrightarrow>
     (case q (stored sj (db s)) of
        Inl e \<Rightarrow> m s = (Inl (map_db_err e), s\<lparr>tick := Suc (tick s)\<rparr>)
      | Inr D \<Rightarrow> \<exists>d. m s = (Inr (), s\<lparr>tick := Suc (tick s), db := d\<rparr>) \<and> stored sj d = D))"

lemma conforms_stmt: "follows sj f q \<Longrightarrow> conforms sj k (stmt k f) q"
  by (force simp: follows_def conforms_def stmt_def Let_def split: sum.splits)

lemma follows_insert:
  assumes "\<And>d. stored sj d (tb_name tb) = Some (rows d)" "complete_row tb bound = row" "nulls_ok tb row"
    and "\<And>d. unique_ok tb (rows d) row \<longleftrightarrow> u d" "\<And>d. references_ok (stored sj d) tb row \<longleftrightarrow> fk d"
    and "\<And>d. (stored sj d)(tb_name tb := Some (rows d @ [row])) = stored sj (d' d)"
  shows "follows sj (\<lambda>d. sql_insert (u d) (fk d) (d' d)) (engine_insert tb bound)"
  using assms by (simp add: follows_def engine_insert_def sql_insert_def Let_def)

lemmas engine_defs = complete_row_def nulls_ok_def unique_ok_def references_ok_def reference_ok_def
  collide_def cell_of_def column_defs stored_tables list_ex_iff tenant_exists_def

lemma referenced_ids [simp]:
  "map_of (row_tenant tn) ''id'' = Some (CText (tn_id tn))"
  "map_of (row_organization og) ''id'' = Some (CText (og_id og))"
  "map_of (row_user u) ''id'' = Some (CText (us_id u))"
  by (simp_all add: row_tenant_def row_organization_def row_user_def)

text \<open>Membership of a key among the keys of rows, with the equation the engine tests.\<close>

lemma eq_in_image: "x \<in> f ` A \<longleftrightarrow> (\<exists>y\<in>A. f y = x)"
  by auto

lemma bool_cell_not_null [simp]: "bool_cell b \<noteq> CNull" "(bool_cell b = bool_cell b') = (b = b')"
  by (simp_all add: bool_cell_def)

text \<open>Each plain \<open>INSERT\<close>, with the row that its \<open>bind\<close> calls give.\<close>

text \<open>The columns an \<open>INSERT\<close> names, where it does not name all of them.\<close>

definition columns :: "string list \<Rightarrow> sql_row \<Rightarrow> sql_row" where
  "columns cs row = map (\<lambda>c. (c, cell_of row c)) cs"

definition api_key_columns :: "string list" where
  "api_key_columns = [''id'', ''tenant_id'', ''org_id'', ''principal_type'', ''principal_id'', ''name'',
     ''prefix'', ''token_hash'', ''status'', ''created_at'']"

definition record_columns :: "string list" where
  "record_columns = [''id'', ''tenant_id'', ''org_id'', ''workspace_id'', ''object_type'', ''data_json'',
     ''lifecycle'', ''workflow_state'', ''created_by'', ''created_at'', ''updated_at'']"

lemma conforms_tenant: "conforms sj k (insert_tenant k r)
    (engine_insert tenants_table (row_tenant r))"
  unfolding insert_tenant_def
  by (intro conforms_stmt follows_insert [where rows = "\<lambda>d. map row_tenant (tenants d)"])
    (auto simp: tenants_table_def row_tenant_def engine_defs  eq_in_image simp flip: stored_updates)

lemma conforms_organization: "conforms sj k (insert_organization k r)
    (engine_insert organizations_table (row_organization r))"
  unfolding insert_organization_def
  by (intro conforms_stmt follows_insert [where rows = "\<lambda>d. map row_organization (organizations d)"])
    (auto simp: organizations_table_def row_organization_def engine_defs  eq_in_image simp flip: stored_updates)

lemma conforms_workspace: "conforms sj k (insert_workspace k r)
    (engine_insert workspaces_table (row_workspace r))"
  unfolding insert_workspace_def
  by (intro conforms_stmt follows_insert [where rows = "\<lambda>d. map row_workspace (workspaces d)"])
    (auto simp: workspaces_table_def row_workspace_def engine_defs  eq_in_image simp flip: stored_updates)

lemma conforms_user: "conforms sj k (insert_user k r)
    (engine_insert users_table (row_user r))"
  unfolding insert_user_def
  by (intro conforms_stmt follows_insert [where rows = "\<lambda>d. map row_user (users d)"])
    (auto simp: users_table_def row_user_def engine_defs  eq_in_image simp flip: stored_updates)

lemma conforms_service_account: "conforms sj k (insert_service_account k r)
    (engine_insert service_accounts_table (row_service_account r))"
  unfolding insert_service_account_def
  by (intro conforms_stmt follows_insert [where rows = "\<lambda>d. map row_service_account (service_accounts d)"])
    (auto simp: service_accounts_table_def row_service_account_def engine_defs  eq_in_image simp flip: stored_updates)

lemma conforms_role: "conforms sj k (insert_role k r)
    (engine_insert roles_table (row_role sj r))"
  unfolding insert_role_def
  by (intro conforms_stmt follows_insert [where rows = "\<lambda>d. map (row_role sj) (roles d)"])
    (auto simp: roles_table_def row_role_def engine_defs  eq_in_image simp flip: stored_updates)

lemma conforms_assignment: "conforms sj k (insert_assignment k r)
    (engine_insert role_assignments_table (row_role_assignment r))"
  unfolding insert_assignment_def
  by (intro conforms_stmt follows_insert [where rows = "\<lambda>d. map row_role_assignment (role_assignments d)"])
    (auto simp: role_assignments_table_def row_role_assignment_def engine_defs assignment_key_def eq_in_image simp flip: stored_updates)

lemma conforms_api_key: "conforms sj k (insert_api_key k (r\<lparr>ak_last_used_at := None\<rparr>))
    (engine_insert api_keys_table (columns api_key_columns (row_api_key r)))"
  unfolding insert_api_key_def
  by (intro conforms_stmt follows_insert [where rows = "\<lambda>d. map row_api_key (api_keys d)"])
    (auto simp: api_keys_table_def row_api_key_def engine_defs columns_def api_key_columns_def opt_text_def eq_in_image simp flip: stored_updates)

lemma conforms_session: "conforms sj k (insert_session k r)
    (engine_insert sessions_table (row_session r))"
  unfolding insert_session_def
  by (intro conforms_stmt follows_insert [where rows = "\<lambda>d. map row_session (sessions d)"])
    (auto simp: sessions_table_def row_session_def engine_defs  eq_in_image simp flip: stored_updates)

lemma conforms_object_type: "conforms sj k (insert_object_type k t def ts)
    (engine_insert object_types_table (row_object_type sj \<lparr>ob_tenant_id = t, ob_def = def, ob_created_at = ts\<rparr>))"
  unfolding insert_object_type_def
  by (intro conforms_stmt follows_insert [where rows = "\<lambda>d. map (row_object_type sj) (object_types d)"])
    (auto simp: object_types_table_def row_object_type_def engine_defs  eq_in_image simp flip: stored_updates)

lemma conforms_record: "conforms sj k (insert_record k (created_record ctx nr data st rid ts))
    (engine_insert records_table (columns record_columns (row_record sj (created_record ctx nr data st rid ts))))"
  unfolding insert_record_def
  by (intro conforms_stmt follows_insert [where rows = "\<lambda>d. map (row_record sj) (records d)"])
    (auto simp: records_table_def row_record_def engine_defs created_record_def columns_def record_columns_def opt_text_def eq_in_image simp flip: stored_updates)

lemma conforms_audit: "conforms sj k (insert_audit k ev)
    (engine_insert audit_logs_table (row_audit sj ev))"
  unfolding insert_audit_def
  by (intro conforms_stmt follows_insert [where rows = "\<lambda>d. map (row_audit sj) (audit_logs d)"])
    (auto simp: audit_logs_table_def row_audit_def engine_defs log_audit_def eq_in_image simp flip: stored_updates)

text \<open>The insertions that first draw an identifier or read the clock.\<close>

definition approval_columns :: "string list" where
  "approval_columns = [''id'', ''tenant_id'', ''org_id'', ''status'', ''policy'', ''requested_by'',
     ''related_object_type'', ''related_record_id'', ''transition_key'', ''target_state'',
     ''risk_score'', ''data_json'', ''created_at'']"

lemma conforms_task: "\<exists>f. insert_task k ctx tid kind title a ty rid data = bindK (now_rfc3339 k) f \<and>
    (\<forall>ts. conforms sj k (f ts) (engine_insert tasks_table
       (row_task sj (open_task ctx tid kind title a ty rid data ts))))"
  unfolding insert_task_def
  by (rule exI, rule conjI [OF refl], rule allI,
      intro conforms_stmt follows_insert [where rows = "\<lambda>d. map (row_task sj) (tasks d)"])
    (auto simp: tasks_table_def row_task_def open_task_def engine_defs eq_in_image simp flip: stored_updates)

lemma conforms_approval:
  "\<exists>f. insert_approval k ctx aid policy ty rid tkey target risk data = bindK (now_rfc3339 k) f \<and>
    (\<forall>ts. conforms sj k (f ts) (engine_insert approvals_table
       (columns approval_columns
          (row_approval sj (pending_approval ctx aid policy ty rid tkey target risk data ts)))))"
  unfolding insert_approval_def
  by (rule exI, rule conjI [OF refl], rule allI,
      intro conforms_stmt follows_insert [where rows = "\<lambda>d. map (row_approval sj) (approvals d)"])
    (auto simp: approvals_table_def row_approval_def pending_approval_def columns_def approval_columns_def
      opt_text_def engine_defs eq_in_image simp flip: stored_updates)

lemma conforms_event:
  "\<exists>f. emit_on k ctx kind payload = bindK (new_id k) (\<lambda>i. bindK (now_rfc3339 k) (f i)) \<and>
    (\<forall>i ts. conforms sj k (f i ts) (engine_insert events_table
       (row_event sj \<lparr>ev_id = i, ev_tenant_id = tenant_id ctx, ev_org_id = Some (org_id ctx),
          ev_kind = kind, ev_payload = payload, ev_created_at = ts, ev_processed = False\<rparr>)))"
  unfolding emit_on_def
  by (rule exI, rule conjI [OF refl], intro allI,
      intro conforms_stmt follows_insert [where rows = "\<lambda>d. map (row_event sj) (events d)"])
    (auto simp: events_table_def row_event_def engine_defs eq_in_image simp flip: stored_updates)

section \<open>INSERT OR IGNORE\<close>

lemma follows_ignore:
  assumes "\<And>d. stored sj d (tb_name tb) = Some (rows d)" "complete_row tb bound = row" "nulls_ok tb row"
    and "\<And>d. unique_ok tb (rows d) row \<longleftrightarrow> \<not> u d" "\<And>d. references_ok (stored sj d) tb row \<longleftrightarrow> fk d"
    and "\<And>d. (stored sj d)(tb_name tb := Some (rows d @ [row])) = stored sj (d' d)"
  shows "follows sj (\<lambda>d. if u d then Inr ((), d) else sql_insert True (fk d) (d' d))
    (engine_insert_or_ignore tb bound)"
  using assms by (simp add: follows_def engine_insert_or_ignore_def sql_insert_def Let_def)

definition relation_columns :: "string list" where
  "relation_columns = [''id'', ''tenant_id'', ''from_record'', ''to_record'', ''relation_type'',
     ''created_by'', ''created_at'']"

lemma follows_relation: "follows sj (insert_relation r)
    (engine_insert_or_ignore relations_table (columns relation_columns (row_relation r)))"
  unfolding insert_relation_def Let_def
  by (intro follows_ignore [where rows = "\<lambda>d. map row_relation (relations d)"])
    (auto simp: relations_table_def row_relation_def columns_def relation_columns_def engine_defs
      eq_in_image simp flip: stored_updates)

lemma follows_assignment: "follows sj (assign_or_ignore r)
    (engine_insert_or_ignore role_assignments_table (row_role_assignment r))"
  unfolding assign_or_ignore_def
  by (intro follows_ignore [where rows = "\<lambda>d. map row_role_assignment (role_assignments d)"])
    (auto simp: role_assignments_table_def row_role_assignment_def assignment_key_def engine_defs
      eq_in_image simp flip: stored_updates)

section \<open>ON CONFLICT DO UPDATE\<close>

lemma map_upd_where_rows:
  assumes "\<And>x. x \<in> set xs \<Longrightarrow> P' (row x) = P x" "\<And>x. x \<in> set xs \<Longrightarrow> P x \<Longrightarrow> g (row x) = row (f x)"
  shows "upd_where P' g (map row xs) = map row (upd_where P f xs)"
  using assms by (auto simp: upd_where_def)

lemma follows_upsert:
  assumes "\<And>d. stored sj d (tb_name tb) = Some (map row (rows d))"
    and "complete_row tb bound = new" "nulls_ok tb new"
    and "\<And>x. collide target new (row x) \<longleftrightarrow> hit x"
    and "\<And>x. hit x \<Longrightarrow> set_columns sets new (row x) = row (f x)"
    and "\<And>d. \<not> list_ex hit (rows d) \<Longrightarrow> unique_ok tb (map row (rows d)) new \<longleftrightarrow> u d"
    and "\<And>d. references_ok (stored sj d) tb new \<longleftrightarrow> fk d"
    and "\<And>d xs. (stored sj d)(tb_name tb := Some (map row xs)) = stored sj (put xs d)"
    and "new = row n"
  shows "follows sj (\<lambda>d. if list_ex hit (rows d) then Inr ((), put (upd_where hit f (rows d)) d)
      else sql_insert (u d) (fk d) (put (rows d @ [n]) d)) (engine_upsert tb target sets bound)"
proof -
  have 1: "upd_where (collide target new) (set_columns sets new) (map row xs) = map row (upd_where hit f xs)"
    for xs using assms(4,5) by (intro map_upd_where_rows)
  have 2: "list_ex (collide target new) (map row xs) = list_ex hit xs" for xs
    using assms(4) by (simp add: list_ex_iff)
  have 3: "(stored sj d)(tb_name tb := Some (map row (rows d) @ [row n])) = stored sj (put (rows d @ [n]) d)" for d
    using assms(8) [of d "rows d @ [n]"] by simp
  show ?thesis
    unfolding follows_def engine_upsert_def engine_insert_def
    using assms(1-3,6-9) 1 2 3 by (auto simp: Let_def sql_insert_def)
qed

text \<open>\<open>value = value + excluded.value\<close>.\<close>

definition add_excluded :: "string \<Rightarrow> string \<times> (sql_row \<Rightarrow> sql_row \<Rightarrow> cell)" where
  "add_excluded c = (c, \<lambda>row excluded.
     case (cell_of row c, cell_of excluded c) of (CInt a, CInt b) \<Rightarrow> CInt (a + b) | _ \<Rightarrow> CNull)"

definition draft_columns :: "string list" where
  "draft_columns = [''id'', ''tenant_id'', ''status'', ''key'', ''definition_json'', ''created_at'', ''updated_at'']"

definition session_columns :: "string list" where
  "session_columns = [''tenant_id'', ''status'', ''active_system'', ''selected_system_key'',
     ''snapshot_json'', ''created_at'', ''updated_at'']"

lemmas upsert_defs = set_columns_def from_excluded_def add_excluded_def columns_def engine_defs

lemma follows_upsert_report: "follows sj (upsert_report t def rid ts)
    (engine_upsert reports_table [''tenant_id'', ''key''] [from_excluded ''name'', from_excluded ''definition_json'']
       (row_report sj \<lparr>rp_id = rid, rp_tenant_id = t, rp_def = def, rp_created_at = ts\<rparr>))"
  unfolding upsert_report_def Let_def
  by (rule follows_upsert [where put = "\<lambda>xs d. d\<lparr>reports := xs\<rparr>" and row = "row_report sj"])
    (auto simp: reports_table_def row_report_def upsert_defs eq_in_image simp flip: stored_updates)

lemma follows_upsert_dashboard: "follows sj (upsert_dashboard t dash did ts)
    (engine_upsert dashboards_table [''tenant_id'', ''key''] [from_excluded ''name'', from_excluded ''cards_json'']
       (row_dashboard sj \<lparr>dr_id = did, dr_tenant_id = t, dr_dashboard = dash, dr_created_at = ts\<rparr>))"
  unfolding upsert_dashboard_def Let_def
  by (rule follows_upsert [where put = "\<lambda>xs d. d\<lparr>dashboards := xs\<rparr>" and row = "row_dashboard sj"])
    (auto simp: dashboards_table_def row_dashboard_def upsert_defs eq_in_image simp flip: stored_updates)

lemma follows_upsert_workflow: "follows sj (upsert_workflow t w wid ts)
    (engine_upsert workflows_table [''tenant_id'', ''key'']
       [from_excluded ''object_type'', from_excluded ''name'', from_excluded ''definition_json'']
       (row_workflow sj \<lparr>wr_id = wid, wr_tenant_id = t, wr_key = wf_key w, wr_object_type = wf_object_type w,
          wr_name = wf_name w, wr_definition = w, wr_created_at = ts\<rparr>))"
  unfolding upsert_workflow_def Let_def
  by (rule follows_upsert [where put = "\<lambda>xs d. d\<lparr>workflows := xs\<rparr>" and row = "row_workflow sj"])
    (auto simp: workflows_table_def row_workflow_def upsert_defs eq_in_image simp flip: stored_updates)

lemma follows_upsert_draft: "follows sj (upsert_draft t did st def ts)
    (engine_upsert builder_drafts_table [''tenant_id'', ''key'']
       [from_excluded ''status'', from_excluded ''definition_json'', from_excluded ''updated_at'']
       (columns draft_columns (row_draft sj \<lparr>bf_id = did, bf_tenant_id = t, bf_status = st,
          bf_key = bd_key def, bf_definition = def, bf_created_at = ts, bf_updated_at = ts,
          bf_published_at = None\<rparr>)))"
  unfolding upsert_draft_def Let_def
  by (rule follows_upsert [where put = "\<lambda>xs d. d\<lparr>builder_drafts := xs\<rparr>" and row = "row_draft sj"])
    (auto simp: builder_drafts_table_def row_draft_def draft_columns_def opt_text_def upsert_defs eq_in_image
      simp flip: stored_updates)

lemma follows_bump_meter: "follows sj (bump_meter t metric period amount uid ts)
    (engine_upsert usage_meters_table [''tenant_id'', ''metric'', ''period'']
       [add_excluded ''value'', from_excluded ''updated_at'']
       (row_usage \<lparr>um_id = uid, um_tenant_id = t, um_metric = metric, um_period = period,
          um_value = amount, um_updated_at = ts\<rparr>))"
  unfolding bump_meter_def Let_def
  by (rule follows_upsert [where put = "\<lambda>xs d. d\<lparr>usage_meters := xs\<rparr>" and row = row_usage])
    (auto simp: usage_meters_table_def row_usage_def upsert_defs eq_in_image simp flip: stored_updates)

lemma follows_upsert_session: "follows sj (upsert_session t st target sn ts)
    (engine_upsert migration_sessions_table [''tenant_id'']
       [from_excluded ''status'', from_excluded ''selected_system_key'', from_excluded ''snapshot_json'',
        from_excluded ''updated_at'']
       (columns session_columns (row_migration sj \<lparr>se_tenant_id = t, se_status = st,
          se_active_system = Old, se_selected_system_key = target, se_old_system = sn,
          se_last_report = None, se_created_at = ts, se_updated_at = ts\<rparr>)))"
  unfolding upsert_session_def set_session_def
  by (rule follows_upsert [where put = "\<lambda>xs d. d\<lparr>migration_sessions := xs\<rparr>" and row = "row_migration sj"])
    (auto simp: migration_sessions_table_def row_migration_def session_columns_def opt_text_def upsert_defs
      eq_in_image simp flip: stored_updates)

section \<open>UPDATE\<close>

lemma update_stored:
  assumes "\<And>d. stored sj d (tb_name tb) = Some (map row (rows d))"
    and "\<And>x. matches wh (row x) \<longleftrightarrow> hit x" "\<And>x. hit x \<Longrightarrow> assign sets (row x) = row (f x)"
    and "\<And>x. nulls_ok tb (row x)"
    and "\<And>d xs. (stored sj d)(tb_name tb := Some (map row xs)) = stored sj (put xs d)"
  shows "engine_update tb sets wh (stored sj d) = Inr (stored sj (put (upd_where hit f (rows d)) d))"
proof -
  have 1: "upd_where (matches wh) (assign sets) (map row xs) = map row (upd_where hit f xs)" for xs
    using assms(2,3) by (intro map_upd_where_rows)
  show ?thesis
    unfolding engine_update_def using assms(1,4,5) 1 by (simp add: Let_def list_all_iff)
qed

lemmas update_defs = matches_def assign_def nulls_ok_def cell_of_def column_defs

text \<open>The updates of a record: a patch of its data, archiving and restoring, a transition.\<close>

lemma update_records:
  "engine_update records_table [(''data_json'', CText (to_text (map_codec sj) data)), (''updated_at'', CText ts)]
     [(''tenant_id'', CText t), (''id'', CText rid)] (stored sj d) =
   Inr (stored sj (set_record t rid (\<lambda>row. row\<lparr>r_data := data, r_updated_at := ts\<rparr>) d))"
  "engine_update records_table [(''lifecycle'', CText (lifecycle_str lc)), (''archived_at'', opt_text at'),
      (''updated_at'', CText ts)] [(''tenant_id'', CText t), (''id'', CText rid)] (stored sj d) =
   Inr (stored sj (set_record t rid
      (\<lambda>row. row\<lparr>r_lifecycle := lc, r_archived_at := at', r_updated_at := ts\<rparr>) d))"
  "engine_update records_table [(''workflow_state'', CText st), (''updated_at'', CText ts)]
     [(''tenant_id'', CText t), (''id'', CText rid)] (stored sj d) =
   Inr (stored sj (set_record t rid (\<lambda>row. row\<lparr>r_workflow_state := Some st, r_updated_at := ts\<rparr>) d))"
  unfolding set_record_def
  by (rule update_stored [where put = "\<lambda>xs d. d\<lparr>records := xs\<rparr>" and row = "row_record sj"];
      auto simp: records_table_def row_record_def update_defs opt_text_def stored_tables simp flip: stored_updates)+

lemma update_tasks:
  "engine_update tasks_table [(''status'', CText st), (''updated_at'', CText ts)]
     [(''tenant_id'', CText t), (''id'', CText tid)] (stored sj d) =
   Inr (stored sj (set_task t tid (\<lambda>x. x\<lparr>tk_status := st, tk_updated_at := ts\<rparr>) d))"
  unfolding set_task_def
  by (rule update_stored [where put = "\<lambda>xs d. d\<lparr>tasks := xs\<rparr>" and row = "row_task sj"])
    (auto simp: tasks_table_def row_task_def update_defs stored_tables simp flip: stored_updates)

lemma update_approvals:
  "engine_update approvals_table [(''status'', CText (decision_status ok)), (''decided_by'', CText (actor_id ctx)),
      (''decision_reason'', opt_text reason), (''decided_at'', CText ts)]
     [(''tenant_id'', CText t), (''id'', CText aid)] (stored sj d) =
   Inr (stored sj (set_approval t aid (decided ctx ok reason ts) d))"
  unfolding set_approval_def
  by (rule update_stored [where put = "\<lambda>xs d. d\<lparr>approvals := xs\<rparr>" and row = "row_approval sj"])
    (auto simp: approvals_table_def row_approval_def update_defs decided_def opt_text_def stored_tables
      simp flip: stored_updates)

lemma update_credentials:
  "engine_update api_keys_table [(''last_used_at'', CText ts)] [(''id'', CText kid)] (stored sj d) =
   Inr (stored sj (touch_key kid ts d))"
  "engine_update sessions_table [(''revoked'', CInt 1)] [(''token_hash'', CText hash)] (stored sj d) =
   Inr (stored sj (revoke_hash hash d))"
  unfolding touch_key_def revoke_hash_def
  by (rule update_stored [where put = "\<lambda>xs d. d\<lparr>api_keys := xs\<rparr>" and row = row_api_key];
      auto simp: api_keys_table_def row_api_key_def update_defs opt_text_def stored_tables
        simp flip: stored_updates)
    (rule update_stored [where put = "\<lambda>xs d. d\<lparr>sessions := xs\<rparr>" and row = row_session];
      auto simp: sessions_table_def row_session_def update_defs bool_cell_def stored_tables
        simp flip: stored_updates)

lemma update_sessions:
  "engine_update migration_sessions_table [(''selected_system_key'', CText key),
      (''status'', CText (migration_status_str st)), (''updated_at'', CText ts)]
     [(''tenant_id'', CText t)] (stored sj d) =
   Inr (stored sj (set_session t
      (\<lambda>se. se\<lparr>se_selected_system_key := Some key, se_status := st, se_updated_at := ts\<rparr>) d))"
  "engine_update migration_sessions_table [(''active_system'', CText (system_kind_str sys)),
      (''status'', CText (migration_status_str st)), (''updated_at'', CText ts)]
     [(''tenant_id'', CText t)] (stored sj d) =
   Inr (stored sj (set_session t
      (\<lambda>se. se\<lparr>se_active_system := sys, se_status := st, se_updated_at := ts\<rparr>) d))"
  "engine_update migration_sessions_table
     [(''last_report_json'', CText (to_text (migration_report_codec sj) rep)),
      (''status'', CText (migration_status_str st)), (''updated_at'', CText ts)]
     [(''tenant_id'', CText t)] (stored sj d) =
   Inr (stored sj (set_session t
      (\<lambda>se. se\<lparr>se_last_report := Some rep, se_status := st, se_updated_at := ts\<rparr>) d))"
  unfolding set_session_def
  by (rule update_stored [where put = "\<lambda>xs d. d\<lparr>migration_sessions := xs\<rparr>" and row = "row_migration sj"];
      auto simp: migration_sessions_table_def row_migration_def update_defs opt_text_def stored_tables
        simp flip: stored_updates)+

lemma update_object_types:
  "engine_update object_types_table [(''label'', CText (ot_label def)),
      (''label_plural'', opt_text (ot_label_plural def)), (''description'', opt_text (ot_description def)),
      (''workflow_key'', opt_text (ot_workflow_key def)), (''display_field'', opt_text (ot_display_field def)),
      (''module'', opt_text (ot_module def)), (''fields_json'', CText (to_text (fields_codec sj) (ot_fields def)))]
     [(''tenant_id'', CText t), (''key'', CText key)] (stored sj d) =
   Inr (stored sj (d\<lparr>object_types := upd_where (\<lambda>row. ob_tenant_id row = t \<and> ot_key (ob_def row) = key)
      (replace_object_type def) (object_types d)\<rparr>))"
  by (rule update_stored [where put = "\<lambda>xs d. d\<lparr>object_types := xs\<rparr>" and row = "row_object_type sj"])
    (auto simp: object_types_table_def row_object_type_def update_defs replace_object_type_def stored_tables
      simp flip: stored_updates)

section \<open>The statements of the services\<close>

text \<open>
  C24: Every statement of the kernel that adds rows has in the model the effect that SQLite gives it
  under the schema. For each \<open>INSERT\<close>, \<open>INSERT OR IGNORE\<close> and \<open>INSERT .. ON CONFLICT DO UPDATE\<close>, with
  the row that its \<open>bind\<close> calls give: it is refused by the model, with the same error, exactly when
  a null, uniqueness or foreign key constraint of the schema refuses it; it is skipped or updates
  the row it collides with exactly when the engine does; and otherwise the file afterwards is the
  file of the model's next state, the columns that are not bound holding their defaults.
\<close>

theorem statements_follow_schema:
  "conforms sj k (insert_tenant k tn) (engine_insert tenants_table (row_tenant tn)) \<and>
    conforms sj k (insert_organization k og) (engine_insert organizations_table (row_organization
      og)) \<and>
    conforms sj k (insert_workspace k wk) (engine_insert workspaces_table (row_workspace wk)) \<and>
    conforms sj k (insert_user k us) (engine_insert users_table (row_user us)) \<and>
    conforms sj k (insert_service_account k sa) (engine_insert service_accounts_table
      (row_service_account sa)) \<and>
    conforms sj k (insert_role k ro) (engine_insert roles_table (row_role sj ro)) \<and>
    conforms sj k (insert_assignment k ra) (engine_insert role_assignments_table
      (row_role_assignment ra)) \<and>
    conforms sj k (insert_api_key k (ak\<lparr>ak_last_used_at := None\<rparr>)) (engine_insert
      api_keys_table (columns api_key_columns (row_api_key ak))) \<and>
    conforms sj k (insert_session k ss) (engine_insert sessions_table (row_session ss)) \<and>
    conforms sj k (insert_object_type k t def ts) (engine_insert object_types_table
      (row_object_type sj \<lparr>ob_tenant_id = t, ob_def = def, ob_created_at = ts\<rparr>)) \<and>
    conforms sj k (insert_record k (created_record ctx nr m st0 rid ts)) (engine_insert
      records_table (columns record_columns (row_record sj (created_record ctx nr m st0 rid ts)))) \<and>
    conforms sj k (insert_audit k ev) (engine_insert audit_logs_table (row_audit sj ev)) \<and>
    (\<exists>f. insert_task k ctx tid kind title a ty0 rid0 data = bindK (now_rfc3339 k) f \<and>
      (\<forall>ts. conforms sj k (f ts) (engine_insert tasks_table (row_task sj (open_task ctx tid
      kind title a ty0 rid0 data ts))))) \<and>
    (\<exists>f. insert_approval k ctx aid policy ty0 rid0 tkey target risk data = bindK
      (now_rfc3339 k) f \<and> (\<forall>ts. conforms sj k (f ts) (engine_insert approvals_table
      (columns approval_columns (row_approval sj (pending_approval ctx aid policy ty0 rid0 tkey
      target risk data ts)))))) \<and>
    (\<exists>f. emit_on k ctx kind payload = bindK (new_id k) (\<lambda>i. bindK (now_rfc3339 k)
      (f i)) \<and> (\<forall>i ts. conforms sj k (f i ts) (engine_insert events_table (row_event
      sj \<lparr>ev_id = i, ev_tenant_id = tenant_id ctx, ev_org_id = Some (org_id ctx), ev_kind =
      kind, ev_payload = payload, ev_created_at = ts, ev_processed = False\<rparr>)))) \<and>
    follows sj (insert_relation rl) (engine_insert_or_ignore relations_table (columns
      relation_columns (row_relation rl))) \<and>
    follows sj (assign_or_ignore ra) (engine_insert_or_ignore role_assignments_table
      (row_role_assignment ra)) \<and>
    follows sj (upsert_report t rd rid ts) (engine_upsert reports_table [''tenant_id'', ''key'']
      [from_excluded ''name'', from_excluded ''definition_json''] (row_report sj \<lparr>rp_id =
      rid, rp_tenant_id = t, rp_def = rd, rp_created_at = ts\<rparr>)) \<and>
    follows sj (upsert_dashboard t dash did ts) (engine_upsert dashboards_table [''tenant_id'',
      ''key''] [from_excluded ''name'', from_excluded ''cards_json''] (row_dashboard sj
      \<lparr>dr_id = did, dr_tenant_id = t, dr_dashboard = dash, dr_created_at = ts\<rparr>)) \<and>
    follows sj (upsert_workflow t w wid ts) (engine_upsert workflows_table [''tenant_id'', ''key'']
      [from_excluded ''object_type'', from_excluded ''name'', from_excluded ''definition_json'']
      (row_workflow sj \<lparr>wr_id = wid, wr_tenant_id = t, wr_key = wf_key w, wr_object_type =
      wf_object_type w, wr_name = wf_name w, wr_definition = w, wr_created_at = ts\<rparr>)) \<and>
    follows sj (upsert_draft t did bs bd ts) (engine_upsert builder_drafts_table [''tenant_id'',
      ''key''] [from_excluded ''status'', from_excluded ''definition_json'', from_excluded
      ''updated_at''] (columns draft_columns (row_draft sj \<lparr>bf_id = did, bf_tenant_id = t,
      bf_status = bs, bf_key = bd_key bd, bf_definition = bd, bf_created_at = ts, bf_updated_at =
      ts, bf_published_at = None\<rparr>))) \<and>
    follows sj (bump_meter t metric period amount uid ts) (engine_upsert usage_meters_table
      [''tenant_id'', ''metric'', ''period''] [add_excluded ''value'', from_excluded
      ''updated_at''] (row_usage \<lparr>um_id = uid, um_tenant_id = t, um_metric = metric,
      um_period = period, um_value = amount, um_updated_at = ts\<rparr>)) \<and>
    follows sj (upsert_session t ms tk sn ts) (engine_upsert migration_sessions_table
      [''tenant_id''] [from_excluded ''status'', from_excluded ''selected_system_key'',
      from_excluded ''snapshot_json'', from_excluded ''updated_at''] (columns session_columns
      (row_migration sj \<lparr>se_tenant_id = t, se_status = ms, se_active_system = Old,
      se_selected_system_key = tk, se_old_system = sn, se_last_report = None, se_created_at = ts,
      se_updated_at = ts\<rparr>)))"
  by (intro conjI conforms_tenant conforms_organization conforms_workspace conforms_user conforms_service_account
      conforms_role conforms_assignment conforms_api_key conforms_session conforms_object_type
      conforms_record conforms_audit conforms_task conforms_approval conforms_event
      follows_relation follows_assignment follows_upsert_report follows_upsert_dashboard follows_upsert_workflow
      follows_upsert_draft follows_bump_meter follows_upsert_session)

text \<open>
  The same holds of the updates: the patch of a record's data, archiving and restoring it, the
  change of its workflow state, closing a task, deciding an approval, stamping an API key, revoking
  a session, the three updates of a migration session, and replacing an object type's definition
  change in the file exactly the columns they set, in exactly the rows their condition names, and
  no constraint refuses them.
\<close>

theorem updates_follow_schema:
  "engine_update records_table [(''data_json'', CText (to_text (map_codec sj) m)),
      (''updated_at'', CText ts)] [(''tenant_id'', CText t), (''id'', CText rid)] (stored sj d) =
      Inr (stored sj (set_record t rid (\<lambda>row. row\<lparr>r_data := m, r_updated_at :=
      ts\<rparr>) d)) \<and>
    engine_update records_table [(''lifecycle'', CText (lifecycle_str lc)), (''archived_at'',
      opt_text at'), (''updated_at'', CText ts)] [(''tenant_id'', CText t), (''id'', CText rid)]
      (stored sj d) = Inr (stored sj (set_record t rid (\<lambda>row. row\<lparr>r_lifecycle := lc,
      r_archived_at := at', r_updated_at := ts\<rparr>) d)) \<and>
    engine_update records_table [(''workflow_state'', CText st0), (''updated_at'', CText ts)]
      [(''tenant_id'', CText t), (''id'', CText rid)] (stored sj d) = Inr (stored sj (set_record t
      rid (\<lambda>row. row\<lparr>r_workflow_state := Some st0, r_updated_at := ts\<rparr>) d)) \<and>
    engine_update tasks_table [(''status'', CText st), (''updated_at'', CText ts)] [(''tenant_id'',
      CText t), (''id'', CText tid)] (stored sj d) = Inr (stored sj (set_task t tid (\<lambda>x.
      x\<lparr>tk_status := st, tk_updated_at := ts\<rparr>) d)) \<and>
    engine_update approvals_table [(''status'', CText (decision_status ok)), (''decided_by'', CText
      (actor_id ctx)), (''decision_reason'', opt_text reason), (''decided_at'', CText ts)]
      [(''tenant_id'', CText t), (''id'', CText aid)] (stored sj d) = Inr (stored sj (set_approval
      t aid (decided ctx ok reason ts) d)) \<and>
    engine_update api_keys_table [(''last_used_at'', CText ts)] [(''id'', CText kid)] (stored sj d)
      = Inr (stored sj (touch_key kid ts d)) \<and>
    engine_update sessions_table [(''revoked'', CInt 1)] [(''token_hash'', CText hash)] (stored sj
      d) = Inr (stored sj (revoke_hash hash d)) \<and>
    engine_update migration_sessions_table [(''selected_system_key'', CText key), (''status'',
      CText (migration_status_str ms)), (''updated_at'', CText ts)] [(''tenant_id'', CText t)]
      (stored sj d) = Inr (stored sj (set_session t (\<lambda>se. se\<lparr>se_selected_system_key
      := Some key, se_status := ms, se_updated_at := ts\<rparr>) d)) \<and>
    engine_update migration_sessions_table [(''active_system'', CText (system_kind_str sys)),
      (''status'', CText (migration_status_str ms)), (''updated_at'', CText ts)] [(''tenant_id'',
      CText t)] (stored sj d) = Inr (stored sj (set_session t (\<lambda>se.
      se\<lparr>se_active_system := sys, se_status := ms, se_updated_at := ts\<rparr>) d)) \<and>
    engine_update migration_sessions_table [(''last_report_json'', CText (to_text
      (migration_report_codec sj) rep)), (''status'', CText (migration_status_str ms)),
      (''updated_at'', CText ts)] [(''tenant_id'', CText t)] (stored sj d) = Inr (stored sj
      (set_session t (\<lambda>se. se\<lparr>se_last_report := Some rep, se_status := ms,
      se_updated_at := ts\<rparr>) d)) \<and>
    engine_update object_types_table [(''label'', CText (ot_label def)), (''label_plural'',
      opt_text (ot_label_plural def)), (''description'', opt_text (ot_description def)),
      (''workflow_key'', opt_text (ot_workflow_key def)), (''display_field'', opt_text
      (ot_display_field def)), (''module'', opt_text (ot_module def)), (''fields_json'', CText
      (to_text (fields_codec sj) (ot_fields def)))] [(''tenant_id'', CText t), (''key'', CText
      key)] (stored sj d) = Inr (stored sj (d\<lparr>object_types := upd_where (\<lambda>row.
      ob_tenant_id row = t \<and> ot_key (ob_def row) = key) (replace_object_type def)
      (object_types d)\<rparr>))"
  by (simp_all only: update_records update_tasks update_approvals update_credentials update_sessions
      update_object_types simp_thms)

end
