(* ===== verification/SchemaSafety.thy ===== *)
theory SchemaSafety
  imports SchemaConformance Guarantees
begin

text \<open>
  Every reachable state, written to its file, meets the schema: every row has the columns of its
  table with values of their types, nothing is null where it must not be, no two rows collide on a
  primary key or a uniqueness constraint, and every reference is to a row that exists.
\<close>

section \<open>One table\<close>

lemma keys_from_uniq:
  assumes "uniq f xs" "\<And>x y. collide key (row x) (row y) \<Longrightarrow> f x = f y"
  shows "sorted_wrt (\<lambda>r r'. \<not> collide key r r') (map row xs)"
  using assms(1)
proof (induction xs)
  case (Cons x xs)
  then show ?case using assms(2) [of x] by (fastforce simp: uniq_def)
qed (simp add: uniq_def)

lemma table_okI1:
  assumes "D (tb_name tb) = Some (map row xs)" "list_all (row_ok D tb) (map row xs)" "tb_keys tb = [k1]"
    and "uniq f xs" "\<And>x y. collide k1 (row x) (row y) \<Longrightarrow> f x = f y"
  shows "table_ok D tb"
  using assms keys_from_uniq [of f xs k1 row] by (simp add: table_ok_def keys_ok_def)

lemma table_okI2:
  assumes "D (tb_name tb) = Some (map row xs)" "list_all (row_ok D tb) (map row xs)" "tb_keys tb = [k1, k2]"
    and "uniq f xs" "uniq g xs" "\<And>x y. collide k1 (row x) (row y) \<Longrightarrow> f x = f y"
    and "\<And>x y. collide k2 (row x) (row y) \<Longrightarrow> g x = g y"
  shows "table_ok D tb"
  using assms keys_from_uniq [of f xs k1 row] keys_from_uniq [of g xs k2 row]
  by (simp add: table_ok_def keys_ok_def)

lemma optional_cell_types [simp]:
  "case opt_text o' of CNull \<Rightarrow> True | CText _ \<Rightarrow> True | CInt _ \<Rightarrow> False | CReal _ \<Rightarrow> False"
  "case opt_real q of CNull \<Rightarrow> True | CText _ \<Rightarrow> False | CInt _ \<Rightarrow> False | CReal _ \<Rightarrow> True"
  "case bool_cell b of CNull \<Rightarrow> True | CText _ \<Rightarrow> False | CInt _ \<Rightarrow> True | CReal _ \<Rightarrow> False"
  by (simp_all add: opt_text_def opt_real_def bool_cell_def split: option.splits)

lemmas row_ok_defs = row_ok_def list_all_iff engine_defs

section \<open>The tables\<close>

lemma tenants_ok:
  assumes "uniq tn_id (tenants d)"
    and "uniq tn_slug (tenants d)"
  shows "table_ok (stored sj d) tenants_table"
  by (rule table_okI2 [where row = row_tenant, OF _ _ _ assms(1) assms(2)])
    (use assms in \<open>auto simp: tenants_table_def row_tenant_def row_ok_defs eq_in_image\<close>)

lemma organizations_ok:
  assumes "uniq og_id (organizations d)"
    and "uniq (\<lambda>r. (og_tenant_id r, og_slug r)) (organizations d)"
    and "\<forall>r\<in>set (organizations d). og_tenant_id r \<in> tn_id ` set (tenants d)"
  shows "table_ok (stored sj d) organizations_table"
  by (rule table_okI2 [where row = row_organization, OF _ _ _ assms(1) assms(2)])
    (use assms in \<open>auto simp: organizations_table_def row_organization_def row_ok_defs eq_in_image\<close>)

lemma workspaces_ok:
  assumes "uniq wk_id (workspaces d)"
    and "\<forall>r\<in>set (workspaces d). wk_tenant_id r \<in> tn_id ` set (tenants d) \<and> wk_org_id r \<in> og_id ` set (organizations d)"
  shows "table_ok (stored sj d) workspaces_table"
  by (rule table_okI1 [where row = row_workspace, OF _ _ _ assms(1)])
    (use assms in \<open>auto simp: workspaces_table_def row_workspace_def row_ok_defs eq_in_image\<close>)

lemma users_ok:
  assumes "uniq us_id (users d)"
    and "uniq (\<lambda>r. (us_tenant_id r, us_email r)) (users d)"
    and "\<forall>r\<in>set (users d). us_tenant_id r \<in> tn_id ` set (tenants d)"
  shows "table_ok (stored sj d) users_table"
  by (rule table_okI2 [where row = row_user, OF _ _ _ assms(1) assms(2)])
    (use assms in \<open>auto simp: users_table_def row_user_def row_ok_defs eq_in_image\<close>)

lemma service_accounts_ok:
  assumes "uniq sa_id (service_accounts d)"
    and "\<forall>r\<in>set (service_accounts d). sa_tenant_id r \<in> tn_id ` set (tenants d) \<and> sa_org_id r \<in> og_id ` set (organizations d)"
  shows "table_ok (stored sj d) service_accounts_table"
  by (rule table_okI1 [where row = row_service_account, OF _ _ _ assms(1)])
    (use assms in \<open>auto simp: service_accounts_table_def row_service_account_def row_ok_defs eq_in_image\<close>)

lemma roles_ok:
  assumes "uniq (role_id \<circ> ro_role) (roles d)"
    and "uniq (\<lambda>r. (ro_tenant_id r, role_key (ro_role r))) (roles d)"
    and "\<forall>r\<in>set (roles d). ro_tenant_id r \<in> tn_id ` set (tenants d)"
  shows "table_ok (stored sj d) roles_table"
  by (rule table_okI2 [where row = "row_role sj", OF _ _ _ assms(1) assms(2)])
    (use assms in \<open>auto simp: roles_table_def row_role_def row_ok_defs eq_in_image\<close>)

lemma role_assignments_ok:
  assumes "uniq ra_id (role_assignments d)"
    and "uniq assignment_key (role_assignments d)"
    and "\<forall>r\<in>set (role_assignments d). ra_tenant_id r \<in> tn_id ` set (tenants d)"
  shows "table_ok (stored sj d) role_assignments_table"
  by (rule table_okI2 [where row = row_role_assignment, OF _ _ _ assms(1) assms(2)])
    (use assms in \<open>auto simp: role_assignments_table_def row_role_assignment_def row_ok_defs eq_in_image assignment_key_def\<close>)

lemma api_keys_ok:
  assumes "uniq ak_id (api_keys d)"
    and "uniq ak_token_hash (api_keys d)"
    and "\<forall>r\<in>set (api_keys d). ak_tenant_id r \<in> tn_id ` set (tenants d)"
  shows "table_ok (stored sj d) api_keys_table"
  by (rule table_okI2 [where row = row_api_key, OF _ _ _ assms(1) assms(2)])
    (use assms in \<open>auto simp: api_keys_table_def row_api_key_def row_ok_defs eq_in_image\<close>)

lemma sessions_ok:
  assumes "uniq ss_id (sessions d)"
    and "uniq ss_token_hash (sessions d)"
    and "\<forall>r\<in>set (sessions d). ss_tenant_id r \<in> tn_id ` set (tenants d) \<and> ss_user_id r \<in> us_id ` set (users d)"
  shows "table_ok (stored sj d) sessions_table"
  by (rule table_okI2 [where row = row_session, OF _ _ _ assms(1) assms(2)])
    (use assms in \<open>auto simp: sessions_table_def row_session_def row_ok_defs eq_in_image\<close>)

lemma object_types_ok:
  assumes "uniq (ot_id \<circ> ob_def) (object_types d)"
    and "uniq (\<lambda>r. (ob_tenant_id r, ot_key (ob_def r))) (object_types d)"
    and "\<forall>r\<in>set (object_types d). ob_tenant_id r \<in> tn_id ` set (tenants d)"
  shows "table_ok (stored sj d) object_types_table"
  by (rule table_okI2 [where row = "row_object_type sj", OF _ _ _ assms(1) assms(2)])
    (use assms in \<open>auto simp: object_types_table_def row_object_type_def row_ok_defs eq_in_image\<close>)

lemma builder_drafts_ok:
  assumes "uniq bf_id (builder_drafts d)"
    and "uniq (\<lambda>r. (bf_tenant_id r, bf_key r)) (builder_drafts d)"
    and "\<forall>r\<in>set (builder_drafts d). bf_tenant_id r \<in> tn_id ` set (tenants d)"
  shows "table_ok (stored sj d) builder_drafts_table"
  by (rule table_okI2 [where row = "row_draft sj", OF _ _ _ assms(1) assms(2)])
    (use assms in \<open>auto simp: builder_drafts_table_def row_draft_def row_ok_defs eq_in_image\<close>)

lemma records_ok:
  assumes "uniq r_id (records d)"
    and "\<forall>r\<in>set (records d). r_tenant_id r \<in> tn_id ` set (tenants d)"
  shows "table_ok (stored sj d) records_table"
  by (rule table_okI1 [where row = "row_record sj", OF _ _ _ assms(1)])
    (use assms in \<open>auto simp: records_table_def row_record_def row_ok_defs eq_in_image\<close>)

lemma relations_ok:
  assumes "uniq rl_id (relations d)"
    and "uniq relation_key (relations d)"
    and "\<forall>r\<in>set (relations d). rl_tenant_id r \<in> tn_id ` set (tenants d)"
  shows "table_ok (stored sj d) relations_table"
  by (rule table_okI2 [where row = row_relation, OF _ _ _ assms(1) assms(2)])
    (use assms in \<open>auto simp: relations_table_def row_relation_def row_ok_defs eq_in_image relation_key_def\<close>)

lemma workflows_ok:
  assumes "uniq wr_id (workflows d)"
    and "uniq (\<lambda>r. (wr_tenant_id r, wr_key r)) (workflows d)"
    and "\<forall>r\<in>set (workflows d). wr_tenant_id r \<in> tn_id ` set (tenants d)"
  shows "table_ok (stored sj d) workflows_table"
  by (rule table_okI2 [where row = "row_workflow sj", OF _ _ _ assms(1) assms(2)])
    (use assms in \<open>auto simp: workflows_table_def row_workflow_def row_ok_defs eq_in_image\<close>)

lemma tasks_ok:
  assumes "uniq tk_id (tasks d)"
    and "\<forall>r\<in>set (tasks d). tk_tenant_id r \<in> tn_id ` set (tenants d)"
  shows "table_ok (stored sj d) tasks_table"
  by (rule table_okI1 [where row = "row_task sj", OF _ _ _ assms(1)])
    (use assms in \<open>auto simp: tasks_table_def row_task_def row_ok_defs eq_in_image\<close>)

lemma approvals_ok:
  assumes "uniq ap_id (approvals d)"
    and "\<forall>r\<in>set (approvals d). ap_tenant_id r \<in> tn_id ` set (tenants d)"
  shows "table_ok (stored sj d) approvals_table"
  by (rule table_okI1 [where row = "row_approval sj", OF _ _ _ assms(1)])
    (use assms in \<open>auto simp: approvals_table_def row_approval_def row_ok_defs eq_in_image\<close>)

lemma audit_logs_ok:
  assumes "uniq a_id (audit_logs d)"
  shows "table_ok (stored sj d) audit_logs_table"
  by (rule table_okI1 [where row = "row_audit sj", OF _ _ _ assms(1)])
    (use assms in \<open>auto simp: audit_logs_table_def row_audit_def row_ok_defs eq_in_image\<close>)

lemma events_ok:
  assumes "uniq ev_id (events d)"
  shows "table_ok (stored sj d) events_table"
  by (rule table_okI1 [where row = "row_event sj", OF _ _ _ assms(1)])
    (use assms in \<open>auto simp: events_table_def row_event_def row_ok_defs eq_in_image\<close>)

lemma reports_ok:
  assumes "uniq rp_id (reports d)"
    and "uniq (\<lambda>r. (rp_tenant_id r, rd_key (rp_def r))) (reports d)"
    and "\<forall>r\<in>set (reports d). rp_tenant_id r \<in> tn_id ` set (tenants d)"
  shows "table_ok (stored sj d) reports_table"
  by (rule table_okI2 [where row = "row_report sj", OF _ _ _ assms(1) assms(2)])
    (use assms in \<open>auto simp: reports_table_def row_report_def row_ok_defs eq_in_image\<close>)

lemma dashboards_ok:
  assumes "uniq dr_id (dashboards d)"
    and "uniq (\<lambda>r. (dr_tenant_id r, da_key (dr_dashboard r))) (dashboards d)"
    and "\<forall>r\<in>set (dashboards d). dr_tenant_id r \<in> tn_id ` set (tenants d)"
  shows "table_ok (stored sj d) dashboards_table"
  by (rule table_okI2 [where row = "row_dashboard sj", OF _ _ _ assms(1) assms(2)])
    (use assms in \<open>auto simp: dashboards_table_def row_dashboard_def row_ok_defs eq_in_image\<close>)

lemma usage_meters_ok:
  assumes "uniq um_id (usage_meters d)"
    and "uniq (\<lambda>r. (um_tenant_id r, um_metric r, um_period r)) (usage_meters d)"
  shows "table_ok (stored sj d) usage_meters_table"
  by (rule table_okI2 [where row = row_usage, OF _ _ _ assms(1) assms(2)])
    (use assms in \<open>auto simp: usage_meters_table_def row_usage_def row_ok_defs eq_in_image\<close>)

lemma migration_sessions_ok:
  assumes "uniq se_tenant_id (migration_sessions d)"
    and "\<forall>r\<in>set (migration_sessions d). se_tenant_id r \<in> tn_id ` set (tenants d)"
  shows "table_ok (stored sj d) migration_sessions_table"
  by (rule table_okI1 [where row = "row_migration sj", OF _ _ _ assms(1)])
    (use assms in \<open>auto simp: migration_sessions_table_def row_migration_def row_ok_defs eq_in_image\<close>)


lemma empty_table_ok: "D (tb_name tb) = Some [] \<Longrightarrow> table_ok D tb"
  by (simp add: table_ok_def keys_ok_def list_all_iff)

lemmas tables_ok = tenants_ok organizations_ok workspaces_ok users_ok service_accounts_ok roles_ok
  role_assignments_ok api_keys_ok sessions_ok object_types_ok builder_drafts_ok records_ok
  relations_ok workflows_ok tasks_ok approvals_ok audit_logs_ok events_ok reports_ok dashboards_ok
  usage_meters_ok migration_sessions_ok

lemma consistent_meets_schema:
  assumes "db_inv d" "distinct (map a_id (audit_logs d))"
  shows "meets_schema (stored sj d)"
proof -
  have u: "uniq a_id (audit_logs d)" and k: "keys_unique d" and t: "tenants_known d"
    using assms by (simp_all add: db_inv_def uniq_def)
  have uniques:
    "uniq tn_id (tenants d)" "uniq tn_slug (tenants d)" "uniq og_id (organizations d)"
    "uniq (\<lambda>r. (og_tenant_id r, og_slug r)) (organizations d)"
    "uniq wk_id (workspaces d)" "uniq us_id (users d)"
    "uniq (\<lambda>r. (us_tenant_id r, us_email r)) (users d)" "uniq sa_id (service_accounts d)"
    "uniq (role_id \<circ> ro_role) (roles d)"
    "uniq (\<lambda>r. (ro_tenant_id r, role_key (ro_role r))) (roles d)"
    "uniq ra_id (role_assignments d)" "uniq assignment_key (role_assignments d)"
    "uniq ak_id (api_keys d)" "uniq ak_token_hash (api_keys d)" "uniq ss_id (sessions d)"
    "uniq ss_token_hash (sessions d)" "uniq (ot_id \<circ> ob_def) (object_types d)"
    "uniq (\<lambda>r. (ob_tenant_id r, ot_key (ob_def r))) (object_types d)"
    "uniq bf_id (builder_drafts d)"
    "uniq (\<lambda>r. (bf_tenant_id r, bf_key r)) (builder_drafts d)" "uniq r_id (records d)"
    "uniq rl_id (relations d)" "uniq relation_key (relations d)" "uniq wr_id (workflows d)"
    "uniq (\<lambda>r. (wr_tenant_id r, wr_key r)) (workflows d)" "uniq tk_id (tasks d)"
    "uniq ap_id (approvals d)" "uniq ev_id (events d)" "uniq rp_id (reports d)"
    "uniq (\<lambda>r. (rp_tenant_id r, rd_key (rp_def r))) (reports d)"
    "uniq dr_id (dashboards d)"
    "uniq (\<lambda>r. (dr_tenant_id r, da_key (dr_dashboard r))) (dashboards d)"
    "uniq um_id (usage_meters d)"
    "uniq (\<lambda>r. (um_tenant_id r, um_metric r, um_period r)) (usage_meters d)"
    "uniq se_tenant_id (migration_sessions d)"
    using k by (simp_all only: keys_unique_def)
  have known:
    "\<forall>r\<in>set (organizations d). og_tenant_id r \<in> tn_id ` set (tenants d)"
    "\<forall>r\<in>set (workspaces d). wk_tenant_id r \<in> tn_id ` set (tenants d) \<and> wk_org_id r \<in> og_id ` set (organizations d)"
    "\<forall>r\<in>set (users d). us_tenant_id r \<in> tn_id ` set (tenants d)"
    "\<forall>r\<in>set (service_accounts d). sa_tenant_id r \<in> tn_id ` set (tenants d) \<and> sa_org_id r \<in> og_id ` set (organizations d)"
    "\<forall>r\<in>set (roles d). ro_tenant_id r \<in> tn_id ` set (tenants d)"
    "\<forall>r\<in>set (role_assignments d). ra_tenant_id r \<in> tn_id ` set (tenants d)"
    "\<forall>r\<in>set (api_keys d). ak_tenant_id r \<in> tn_id ` set (tenants d)"
    "\<forall>r\<in>set (sessions d). ss_tenant_id r \<in> tn_id ` set (tenants d) \<and> ss_user_id r \<in> us_id ` set (users d)"
    "\<forall>r\<in>set (object_types d). ob_tenant_id r \<in> tn_id ` set (tenants d)"
    "\<forall>r\<in>set (builder_drafts d). bf_tenant_id r \<in> tn_id ` set (tenants d)"
    "\<forall>r\<in>set (records d). r_tenant_id r \<in> tn_id ` set (tenants d)"
    "\<forall>r\<in>set (relations d). rl_tenant_id r \<in> tn_id ` set (tenants d)"
    "\<forall>r\<in>set (workflows d). wr_tenant_id r \<in> tn_id ` set (tenants d)"
    "\<forall>r\<in>set (tasks d). tk_tenant_id r \<in> tn_id ` set (tenants d)"
    "\<forall>r\<in>set (approvals d). ap_tenant_id r \<in> tn_id ` set (tenants d)"
    "\<forall>r\<in>set (reports d). rp_tenant_id r \<in> tn_id ` set (tenants d)"
    "\<forall>r\<in>set (dashboards d). dr_tenant_id r \<in> tn_id ` set (tenants d)"
    "\<forall>r\<in>set (migration_sessions d). se_tenant_id r \<in> tn_id ` set (tenants d)"
    using t by (simp_all add: tenants_known_def Let_def)
  have e: "table_ok (stored sj d) documents_table" "table_ok (stored sj d) ai_providers_table"
    "table_ok (stored sj d) agents_table" "table_ok (stored sj d) settings_table"
    by (rule empty_table_ok; simp add: stored_tables documents_table_def ai_providers_table_def
        agents_table_def settings_table_def)+
  show ?thesis
    unfolding meets_schema_def SCHEMA_def list.pred_inject(2)
    by (intro conjI e list.pred_inject(1)) (rule tables_ok; (rule uniques known u))+
qed

section \<open>Reachable states\<close>

text \<open>
  C6: In every state that requests, housekeeping and restarts lead to from an empty database, with
  any storage faults on the way, the database file meets its schema: in each of the tables every
  row has the declared columns with values of the declared types, no column that must not be null
  is null, no two rows agree on a primary key or on a uniqueness constraint, and every foreign key
  names a row that exists. Opening the file again, which runs the migration, leaves it unchanged.
\<close>

theorem reachable_meets_schema:
  assumes "reachable app s"
  shows "meets_schema (stored sj (db s)) \<and> migrate (stored sj (db s)) = stored sj (db s)"
  using consistent_meets_schema [OF reachable_inv [OF assms] reachable_log_ids [OF assms]]
  by (simp add: migrate_stored)

theorem reachable_meets_schema_witness:
  "meets_schema (stored sample_serde (db (snd (serve demo_app no_headers first_bootstrap empty_state)))) \<and>
   tenants (db (snd (serve demo_app no_headers first_bootstrap empty_state))) \<noteq> []"
proof -
  have "reachable demo_app empty_state"
    by (rule boot) (simp_all add: empty_state_def)
  then have "reachable demo_app (snd (serve demo_app no_headers first_bootstrap empty_state))"
    by (rule next_step) (rule step.request, rule surjective_pairing)
  from reachable_meets_schema [OF this] 
  have "meets_schema (stored sample_serde (db (snd (serve demo_app no_headers first_bootstrap empty_state))))" ..
  moreover have "tenants (db (snd (serve demo_app no_headers first_bootstrap empty_state))) \<noteq> []"
    unfolding empty_state_def first_bootstrap_def
    by (simp add: demo_run serve_defs bootstrap_handler_def tenants_exist_def no_headers_def first_strings
        provision_defs empty_db_def cong: lazy)
  ultimately show ?thesis ..
qed

end
