(* ===== verification/Interleaving.thy ===== *)
theory Interleaving
  imports Guarantees WorkflowSafety
begin

text \<open>
  Requests that overlap. The server answers each request in a task of its own over a pool of
  connections, so that between two statements of one request that are not in one transaction
  another request may run. A \<open>thread\<close> is a service cut into the phases that run undisturbed: each
  of its statements, with the computation around it, and each of its transactions (SQLite admits
  one writer at a time). A schedule says whose phase is next.

  Theory \<open>System\<close> takes whole requests as steps. Here every request on records, relations,
  transitions, tasks, approvals and the audit log is cut, and the bootstrap of a tenant; of the
  permission check too, the reading of the grants and the logging of a denial are phases of their
  own. The other requests (accounts, object types and workflows, drafts, migration, reports,
  agents, sign-in) are not cut, and nothing is said of their overlap. A phase that would have to wait for a
  connection or for the write lock is scheduled when it gets it: the limit of the pool and the busy
  timeout of \<open>store.rs\<close>, after which a statement fails, are faults of the storage here.

  The first part shows that a thread that is left alone is the service, and what holds under every
  schedule; theory \<open>Races\<close> what does not.
\<close>

section \<open>Threads\<close>

datatype 'a thread = Finished "api_error + 'a" | Running "kstate \<Rightarrow> 'a thread \<times> kstate"

definition phase :: "'a kern \<Rightarrow> ('a \<Rightarrow> 'b thread) \<Rightarrow> 'b thread" where
  "phase m f = Running (\<lambda>s.
     case m s of (Inl e, s') \<Rightarrow> (Finished (Inl e), s') | (Inr x, s') \<Rightarrow> (f x, s'))"

definition last_phase :: "'a kern \<Rightarrow> 'a thread" where
  "last_phase m = phase m (\<lambda>x. Finished (Inr x))"

text \<open>One phase of a thread, and the phases of several threads in the order of a schedule.\<close>

fun advance :: "'a thread \<Rightarrow> kstate \<Rightarrow> 'a thread \<times> kstate" where
  "advance (Finished r) s = (Finished r, s)"
| "advance (Running g) s = g s"

fun interleave :: "nat list \<Rightarrow> 'a thread list \<Rightarrow> kstate \<Rightarrow> 'a thread list \<times> kstate" where
  "interleave [] ts s = (ts, s)"
| "interleave (i # sched) ts s =
     (if i < length ts
      then (case advance (ts ! i) s of (t, s') \<Rightarrow> interleave sched (ts[i := t]) s')
      else interleave sched ts s)"

text \<open>A thread that goes on as another when it succeeds.\<close>

primrec bindT :: "'a thread \<Rightarrow> ('a \<Rightarrow> 'b thread) \<Rightarrow> 'b thread" where
  "bindT (Finished r) f = (case r of Inl e \<Rightarrow> Finished (Inl e) | Inr x \<Rightarrow> f x)"
| "bindT (Running g) f = Running (\<lambda>s. map_prod (\<lambda>t. bindT t f) id (g s))"

text \<open>A thread that runs to its end without interruption.\<close>

primrec alone :: "'a thread \<Rightarrow> 'a kern" where
  "alone (Finished r) = (\<lambda>s. (r, s))"
| "alone (Running g) = (\<lambda>s. case map_prod alone id (g s) of (m, s') \<Rightarrow> m s')"

lemma alone_phase: "alone (phase m f) = bindK m (\<lambda>x. alone (f x))"
  by (rule ext) (simp add: phase_def bindK_def split: prod.splits sum.splits)

lemma alone_last_phase: "alone (last_phase m) = m"
  by (rule ext) (simp add: last_phase_def alone_phase bindK_def split: prod.splits sum.splits)

lemma alone_failed: "alone (Finished (Inl e)) = failK e"
  by (rule ext) (simp add: failK_def)

lemma advance_phase [simp]: "advance (phase m f) s =
    (case m s of (Inl e, s') \<Rightarrow> (Finished (Inl e), s') | (Inr x, s') \<Rightarrow> (f x, s'))"
  by (simp add: phase_def)

lemma advance_last_phase [simp]: "advance (last_phase m) s = (case m s of (r, s') \<Rightarrow> (Finished r, s'))"
  by (simp add: last_phase_def split: prod.splits sum.splits)


lemma bindK_assoc: "bindK (bindK m f) g = bindK m (\<lambda>x. bindK (f x) g)"
  by (rule ext) (simp add: bindK_def split: prod.splits sum.splits)

lemma seqK_assoc: "bindK (seqK m m') g = seqK m (bindK m' g)" "seqK (bindK m f) m' = bindK m (\<lambda>x. seqK (f x) m')"
  by (simp_all add: seqK_def bindK_assoc)

lemma bindK_units: "bindK (retK x) f = f x" "seqK (retK ()) m = m" "seqK (failK e) m = failK e"
  by (simp_all add: bindK_def seqK_def retK_def failK_def fun_eq_iff)

lemma alone_bindT: "alone (bindT t f) = bindK (alone t) (\<lambda>x. alone (f x))"
proof (induction t)
  case (Running g)
  show ?case
  proof (rule ext)
    fix s
    have "alone (bindT (fst (g s)) f) = bindK (alone (fst (g s))) (\<lambda>x. alone (f x))"
      using Running [OF rangeI, of _ s] by (cases "g s") (simp add: prod_set_simps)
    then show "alone (bindT (Running g) f) s = bindK (alone (Running g)) (\<lambda>x. alone (f x)) s"
      by (cases "g s") (simp add: bindK_def)
  qed
next
  case (Finished r)
  show ?case by (rule ext) (cases r; simp add: bindK_def)
qed

lemma alone_map: "alone (map_thread f t) = replyK f (alone t)"
proof (induction t)
  case (Running g)
  show ?case
  proof (rule ext)
    fix s
    have "alone (map_thread f (fst (g s))) = replyK f (alone (fst (g s)))"
      using Running [OF rangeI, of _ s] by (cases "g s") (simp add: prod_set_simps)
    then show "alone (map_thread f (Running g)) s = replyK f (alone (Running g)) s"
      by (cases "g s") (simp add: replyK_def bindK_def)
  qed
next
  case (Finished r)
  show ?case by (rule ext) (cases r; simp add: replyK_def bindK_def retK_def)
qed

lemma bindT_phase [simp]: "bindT (phase m g) f = phase m (\<lambda>x. bindT (g x) f)"
  by (simp add: phase_def fun_eq_iff split: prod.splits sum.splits)

lemma bindT_last_phase [simp]: "bindT (last_phase m) f = phase m f"
  by (simp add: last_phase_def)

section \<open>The services as threads\<close>

text \<open>The permission check: the grants are read, and a denial is logged after that.\<close>

definition check_grants ::
  "kernel \<Rightarrow> auth_context \<Rightarrow> action \<Rightarrow> string \<Rightarrow> record_t option \<Rightarrow> bool kern" where
  "check_grants k ctx act resource target =
     (if is_system ctx \<or> is_platform_admin ctx then retK True
      else bindK (effective_grants k ctx) (\<lambda>grants.
           retK (list_ex (grant_covers k ctx act resource target) grants)))"

definition authorize_thread ::
  "kernel \<Rightarrow> auth_context \<Rightarrow> action \<Rightarrow> string \<Rightarrow> record_t option \<Rightarrow> unit thread" where
  "authorize_thread k ctx act resource target =
     phase (check_grants k ctx act resource target) (\<lambda>ok.
     if ok then Finished (Inr ())
     else last_phase (seqK (audit_denial k ctx (action_str act) resource (map_option r_id target))
            (failK (forbidden (''not permitted: '' @ action_str act @ '' on '' @ resource)))))"

subsection \<open>Records\<close>

definition create_thread :: "kernel \<Rightarrow> auth_context \<Rightarrow> new_record \<Rightarrow> record_t thread" where
  "create_thread k ctx nr =
     (let resource = resource_for (nr_object_type nr) in
      bindT (authorize_thread k ctx Create resource None) (\<lambda>_.
      phase (load_object_type k (tenant_id ctx) (nr_object_type nr)) (\<lambda>ot.
      phase (grants_for k ctx Create resource None) (\<lambda>grants.
      phase (bindK (write_fields k ctx resource None ot grants jinsert (nr_data nr) (defaults ot))
               (\<lambda>data. seqK (resK (validate_against_type (parse_rfc3339 k) ot data)) (retK data))) (\<lambda>data.
      phase (case ot_workflow_key ot of
               Some wkey \<Rightarrow> workflow_initial_state k (tenant_id ctx) wkey
             | None \<Rightarrow> retK None) (\<lambda>state.
      phase (bindK (new_id k) (\<lambda>rid.
             bindK (now_rfc3339 k) (\<lambda>ts.
             let r = created_record ctx nr data state rid ts in
             seqK (transaction k (
               seqK (insert_record k r) (
               seqK (audit_change k ctx ''record.create'' (Some (nr_object_type nr)) (Some rid) None
                      (Some (JObject data)) (\<lambda>ev. ev))
                    (emit_on k ctx ''record.created'' (record_event (nr_object_type nr) rid)))))
             (retK r)))) (\<lambda>r.
      last_phase (project_for_read k ctx r ot))))))))"

definition get_thread :: "kernel \<Rightarrow> auth_context \<Rightarrow> string \<Rightarrow> record_t thread" where
  "get_thread k ctx rid =
     phase (require_record k ctx rid ''record not found'') (\<lambda>r.
     bindT (authorize_thread k ctx Read (resource_for (r_object_type r)) (Some r)) (\<lambda>_.
     phase (load_object_type k (tenant_id ctx) (r_object_type r)) (\<lambda>ot.
     last_phase (project_for_read k ctx r ot))))"

definition lifecycle_thread :: "kernel \<Rightarrow> auth_context \<Rightarrow> string \<Rightarrow> lifecycle \<Rightarrow> unit thread" where
  "lifecycle_thread k ctx rid lc =
     phase (require_record k ctx rid ''record not found'') (\<lambda>r.
     bindT (authorize_thread k ctx (case lc of Archived \<Rightarrow> Archive | Active \<Rightarrow> Restore)
              (resource_for (r_object_type r)) (Some r)) (\<lambda>_.
     last_phase (bindK (now_rfc3339 k) (\<lambda>ts.
       transaction k (
         seqK (update_stmt k (set_record (tenant_id ctx) rid
                 (\<lambda>row. row\<lparr>r_lifecycle := lc,
                            r_archived_at := (case lc of Archived \<Rightarrow> Some ts | Active \<Rightarrow> None),
                            r_updated_at := ts\<rparr>)))
              (audit_change k ctx
                 (case lc of Archived \<Rightarrow> ''record.archive'' | Active \<Rightarrow> ''record.restore'')
                 (Some (r_object_type r)) (Some rid) None None (\<lambda>ev. ev)))))))"

definition list_thread ::
  "kernel \<Rightarrow> auth_context \<Rightarrow> string \<Rightarrow> record_filter \<Rightarrow> record_t list_response option thread" where
  "list_thread k ctx ty flt =
     (let resource = resource_for ty in
      bindT (authorize_thread k ctx Search resource None) (\<lambda>_.
      phase (load_object_type k (tenant_id ctx) ty) (\<lambda>ot.
      phase (effective_grants k ctx) (\<lambda>grants.
      last_phase (bindK (query k (candidates (tenant_id ctx) ty (rf_include_archived flt))) (\<lambda>rows.
        let readable = filter (\<lambda>r. grants_allow k grants ctx Read resource (Some r)) rows;
            found = select_records flt readable;
            pg = clamped (rf_page flt)
        in retK (map_option (\<lambda>items.
             \<lparr>lr_items = map (project_list k ctx grants resource ot) items,
              lr_total = of_nat (length found), lr_limit = pg_limit pg, lr_offset = pg_offset pg\<rparr>)
             (page_items pg found))))))))"

definition relate_thread ::
  "kernel \<Rightarrow> auth_context \<Rightarrow> string \<Rightarrow> string \<Rightarrow> string \<Rightarrow> relation_edge thread" where
  "relate_thread k ctx from_id to_id relation_type =
     phase (require_record k ctx from_id ''from record not found'') (\<lambda>from.
     phase (require_record k ctx to_id ''to record not found'') (\<lambda>to.
     bindT (authorize_thread k ctx Relate (resource_for (r_object_type from)) (Some from)) (\<lambda>_.
     bindT (authorize_thread k ctx Read (resource_for (r_object_type to)) (Some to)) (\<lambda>_.
     last_phase (bindK (new_id k) (\<lambda>rid.
       bindK (now_rfc3339 k) (\<lambda>ts.
       seqK (transaction k (
         seqK (stmt k (insert_relation
                 \<lparr>rl_id = rid, rl_tenant_id = tenant_id ctx, rl_from_record = from_id,
                  rl_to_record = to_id, rl_relation_type = relation_type,
                  rl_created_by = actor_id ctx, rl_created_at = ts\<rparr>))
              (audit_change k ctx ''relation.create'' (Some (r_object_type from)) (Some from_id)
                 None
                 (Some (jobj [(''to'', JString to_id), (''type'', JString relation_type)]))
                 (\<lambda>ev. ev))))
       (retK \<lparr>re_id = rid, re_relation_type = relation_type, re_direction = ''out'',
              re_record_id = to_id, re_created_at = ts\<rparr>))))))))"

definition relations_thread :: "kernel \<Rightarrow> auth_context \<Rightarrow> string \<Rightarrow> relation_edge list thread" where
  "relations_thread k ctx rid =
     phase (require_record k ctx rid ''record not found'') (\<lambda>r.
     bindT (authorize_thread k ctx Read (resource_for (r_object_type r)) (Some r)) (\<lambda>_.
     last_phase (query k (\<lambda>d. map (edge_of rid)
       (filter (\<lambda>row. rl_tenant_id row = tenant_id ctx \<and>
                  (rl_from_record row = rid \<or> rl_to_record row = rid)) (relations d))))))"

definition transitions_thread :: "kernel \<Rightarrow> auth_context \<Rightarrow> string \<Rightarrow> transition_t list thread" where
  "transitions_thread k ctx rid =
     phase (require_record k ctx rid ''record not found'') (\<lambda>r.
     bindT (authorize_thread k ctx Read (resource_for (r_object_type r)) (Some r)) (\<lambda>_.
     phase (load_object_type k (tenant_id ctx) (r_object_type r)) (\<lambda>ot.
     case ot_workflow_key ot of
       None \<Rightarrow> Finished (Inr [])
     | Some wkey \<Rightarrow>
         last_phase (bindK (load_workflow k (tenant_id ctx) wkey) (\<lambda>found.
           case found of
             None \<Rightarrow> retK []
           | Some w \<Rightarrow> retK (available_from w (current_state w r)))))))"

subsection \<open>Tasks, approvals and the audit log\<close>

definition get_task_thread :: "kernel \<Rightarrow> auth_context \<Rightarrow> string \<Rightarrow> task_t thread" where
  "get_task_thread k ctx tid =
     phase (bindK (query k (\<lambda>d. find_task d (tenant_id ctx) tid)) (someK (not_found ''task not found''))) (\<lambda>task.
     phase (effective_grants k ctx) (\<lambda>grants.
     let broad = grants_allow k grants ctx Read ''task'' None
     in if \<not> broad \<and> tk_assignee_id task \<noteq> Some (actor_id ctx) \<and> tk_created_by task \<noteq> actor_id ctx
        then last_phase (seqK (audit_denial k ctx ''read'' ''task'' (Some tid))
               (failK (forbidden ''not permitted to view this task'')))
        else Finished (Inr task)))"

definition create_task_thread ::
  "kernel \<Rightarrow> auth_context \<Rightarrow> string \<Rightarrow> string \<Rightarrow> string option \<Rightarrow> string option \<Rightarrow> string option
   \<Rightarrow> json \<Rightarrow> task_t thread" where
  "create_task_thread k ctx kind title assignee rel_type rel_id data =
     bindT (authorize_thread k ctx Create ''task'' None) (\<lambda>_.
     phase (bindK (new_id k) (\<lambda>tid.
            seqK (transaction k (
              seqK (insert_task k ctx tid kind title assignee rel_type rel_id data)
                   (audit_change k ctx ''task.create'' (Some ''task'') (Some tid) None
                      (Some (jobj [(''kind'', JString kind), (''title'', JString title)])) (\<lambda>ev. ev))))
            (retK tid))) (\<lambda>tid.
     get_task_thread k ctx tid))"

definition complete_task_thread :: "kernel \<Rightarrow> auth_context \<Rightarrow> string \<Rightarrow> string \<Rightarrow> task_t thread" where
  "complete_task_thread k ctx tid status =
     (if status \<in> {''done'', ''cancelled''} then
        bindT (get_task_thread k ctx tid) (\<lambda>task.
        if tk_status task = ''open'' \<or> tk_status task = ''in_progress'' then
          phase (bindK (now_rfc3339 k) (\<lambda>ts.
            transaction k (
              seqK (update_stmt k (set_task (tenant_id ctx) tid
                      (\<lambda>x. x\<lparr>tk_status := status, tk_updated_at := ts\<rparr>)))
                   (audit_change k ctx ''task.update'' (Some ''task'') (Some tid)
                      (Some (jobj [(''status'', JString (tk_status task))]))
                      (Some (jobj [(''status'', JString status)])) (\<lambda>ev. ev))))) (\<lambda>_.
          get_task_thread k ctx tid)
        else Finished (Inl (failed_precondition ''task is already closed'')))
      else Finished (Inl (validation (''status must be '' @ quoted ''done'' @ '' or '' @ quoted ''cancelled''))))"

text \<open>A list behind a permission check.\<close>

definition read_thread :: "kernel \<Rightarrow> auth_context \<Rightarrow> string \<Rightarrow> 'a kern \<Rightarrow> 'a thread" where
  "read_thread k ctx resource m = bindT (authorize_thread k ctx Read resource None) (\<lambda>_. last_phase m)"

definition list_tasks_thread ::
  "kernel \<Rightarrow> auth_context \<Rightarrow> bool \<Rightarrow> string option \<Rightarrow> task_t list thread" where
  "list_tasks_thread k ctx only_mine status =
     (let with_status = (\<lambda>x. case status of Some st \<Rightarrow> tk_status x = st | None \<Rightarrow> True)
      in if only_mine then
           last_phase (query k (\<lambda>d. order_desc tk_created_at
             (filter (\<lambda>x. tk_tenant_id x = tenant_id ctx \<and> tk_assignee_id x = Some (actor_id ctx) \<and>
                with_status x) (tasks d))))
         else
           read_thread k ctx ''task''
             (query k (\<lambda>d. order_desc tk_created_at
               (filter (\<lambda>x. tk_tenant_id x = tenant_id ctx \<and> with_status x) (tasks d)))))"

definition list_approvals_thread :: "kernel \<Rightarrow> auth_context \<Rightarrow> approval_t list thread" where
  "list_approvals_thread k ctx =
     read_thread k ctx ''approval'' (query k (\<lambda>d. order_desc ap_created_at
       (filter (\<lambda>a. ap_tenant_id a = tenant_id ctx \<and> ap_status a = ''pending'') (approvals d))))"

definition get_approval_thread :: "kernel \<Rightarrow> auth_context \<Rightarrow> string \<Rightarrow> approval_t thread" where
  "get_approval_thread k ctx aid =
     read_thread k ctx ''approval'' (bindK (query k (\<lambda>d. find_approval d (tenant_id ctx) aid))
       (someK (not_found ''approval not found'')))"

definition audit_query_thread :: "kernel \<Rightarrow> auth_context \<Rightarrow> audit_query \<Rightarrow> audit_event list thread" where
  "audit_query_thread k ctx q =
     read_thread k ctx ''audit'' (query k (audit_rows q (tenant_id ctx)))"

definition decide_thread ::
  "kernel \<Rightarrow> auth_context \<Rightarrow> string \<Rightarrow> bool \<Rightarrow> string option \<Rightarrow> approval_t thread" where
  "decide_thread k ctx aid approved reason =
     phase (bindK (load_approval k (tenant_id ctx) aid) (\<lambda>found.
            bindK (someK (not_found ''approval not found'') found) (\<lambda>ap.
            seqK (guardK (ap_status ap = ''pending'') (failed_precondition ''approval already decided''))
            (retK ap)))) (\<lambda>ap.
     if enable_approval_separation_of_duties (flags k) \<and> ap_requested_by ap = actor_id ctx \<and>
        \<not> is_system ctx \<and> \<not> is_platform_admin ctx
     then last_phase (seqK (audit_denial k ctx ''approve'' ''approval'' (Some aid))
            (failK (forbidden ''the requester cannot decide their own approval'')))
     else
       let ty = (case ap_related_object_type ap of Some x \<Rightarrow> x | None \<Rightarrow> []) in
       phase (case ap_related_record_id ap of
                Some rid \<Rightarrow> load_record k (tenant_id ctx) rid
              | None \<Rightarrow> retK None) (\<lambda>target.
       bindT (authorize_thread k ctx Approve (resource_for ty) target) (\<lambda>_.
       last_phase (bindK (now_rfc3339 k) (\<lambda>ts.
         seqK (transaction k (record_decision k ctx ap ty target ts approved reason))
         (retK (decided ctx approved reason ts ap)))))))"

definition update_thread ::
  "kernel \<Rightarrow> auth_context \<Rightarrow> string \<Rightarrow> record_patch \<Rightarrow> record_t thread" where
  "update_thread k ctx rid patch =
     phase (require_record k ctx rid ''record not found'') (\<lambda>r.
     let resource = resource_for (r_object_type r) in
     bindT (authorize_thread k ctx Update resource (Some r)) (\<lambda>_.
     phase (load_object_type k (tenant_id ctx) (r_object_type r)) (\<lambda>ot.
     phase (grants_for k ctx Update resource (Some r)) (\<lambda>grants.
     phase (bindK (write_fields k ctx resource (Some rid) ot grants patch_value (rp_data patch) (r_data r))
              (\<lambda>data. seqK (resK (validate_against_type (parse_rfc3339 k) ot data)) (retK data))) (\<lambda>data.
     phase (bindK (now_rfc3339 k) (\<lambda>ts.
       seqK (transaction k (
         seqK (update_stmt k (set_record (tenant_id ctx) rid
                 (\<lambda>row. row\<lparr>r_data := data, r_updated_at := ts\<rparr>))) (
         seqK (audit_change k ctx ''record.update'' (Some (r_object_type r)) (Some rid)
                 (Some (JObject (r_data r))) (Some (JObject data)) (\<lambda>ev. ev))
              (emit_on k ctx ''record.updated'' (record_event (r_object_type r) rid)))))
       (retK (r\<lparr>r_data := data, r_updated_at := ts\<rparr>)))) (\<lambda>r'.
     last_phase (project_for_read k ctx r' ot)))))))"

definition transition_thread ::
  "kernel \<Rightarrow> auth_context \<Rightarrow> string \<Rightarrow> string \<Rightarrow> string option \<Rightarrow> transition_result thread" where
  "transition_thread k ctx rid tkey reason =
     phase (require_record k ctx rid ''record not found'') (\<lambda>r.
     phase (bindK (load_object_type k (tenant_id ctx) (r_object_type r)) (\<lambda>ot.
            someK (failed_precondition ''object type has no workflow'') (ot_workflow_key ot))) (\<lambda>wkey.
     phase (bindK (load_workflow k (tenant_id ctx) wkey) (\<lambda>found.
            bindK (someK (failed_precondition ''workflow not found'') found) (\<lambda>w.
            bindK (someK (failed_precondition (''transition '' @ quoted tkey @
                     '' is not valid from state '' @ quoted (current_state w r)))
                    (transition_from w (current_state w r) tkey)) (\<lambda>tr.
            retK (w, tr))))) (\<lambda>(w, tr).
     let current = current_state w r in
     bindT (authorize_thread k ctx Transition
             (case t_guard_permission tr of
                Some g \<Rightarrow> g | None \<Rightarrow> resource_for (r_object_type r)) (Some r)) (\<lambda>_.
     last_phase (bindK (now_rfc3339 k) (\<lambda>ts.
       if t_requires_approval tr then
         bindK (transaction k
           (request_transition k ctx rid (r_object_type r) current tkey tr reason)) (\<lambda>aid.
         retK \<lparr>tr_status = ''pending_approval'', tr_record_id = rid, tr_from = current,
               tr_to = t_to tr, tr_approval_id = Some aid\<rparr>)
       else
         seqK (transaction k (apply_transition k ctx rid (r_object_type r) current tr ts reason))
         (retK \<lparr>tr_status = ''transitioned'', tr_record_id = rid, tr_from = current,
               tr_to = t_to tr, tr_approval_id = None\<rparr>)))))))"

subsection \<open>The bootstrap\<close>

text \<open>The question whether there are tenants, the check of the credential if there are, and the rest.\<close>

definition bootstrap_thread :: "app_state \<Rightarrow> headers \<Rightarrow> bootstrap_req \<Rightarrow> bootstrap_result thread" where
  "bootstrap_thread app h req =
     phase (tenants_exist (st_kernel app)) (\<lambda>exist.
     phase (if exist then
              bindK (someK (unauthorized ''missing bearer token'') (bearer h)) (\<lambda>token.
              bindK (new_id (st_kernel app)) (\<lambda>rid.
              bindK (authenticate (st_kernel app) token rid SrcApi) (\<lambda>ctx.
              guardK (is_platform_admin ctx) (forbidden ''platform admin required''))))
            else retK ()) (\<lambda>_.
     last_phase (bootstrap_tenant (st_kernel app) (bq_name req) (bq_slug req) (bq_admin_email req)
        (bq_admin_name req) (bq_admin_password req))))"

section \<open>Requests as threads\<close>

fun record_thread :: "app_state \<Rightarrow> auth_context \<Rightarrow> record_request \<Rightarrow> record_reply thread" where
  "record_thread app ctx (List_records key p) =
     map_thread ReRecords (list_thread (st_kernel app) ctx key (into_filter p))"
| "record_thread app ctx (Create_record key body) =
     map_thread ReRecord (create_thread (st_kernel app) ctx
       \<lparr>nr_object_type = key, nr_data = nb_data body, nr_workspace_id = nb_workspace_id body\<rparr>)"
| "record_thread app ctx (Get_record rid) = map_thread ReRecord (get_thread (st_kernel app) ctx rid)"
| "record_thread app ctx (Update_record rid patch) =
     map_thread ReRecord (update_thread (st_kernel app) ctx rid patch)"
| "record_thread app ctx (Archive_record rid) =
     map_thread (\<lambda>_. ReOk) (lifecycle_thread (st_kernel app) ctx rid Archived)"
| "record_thread app ctx (Restore_record rid) =
     map_thread (\<lambda>_. ReOk) (lifecycle_thread (st_kernel app) ctx rid Active)"
| "record_thread app ctx (Get_relations rid) =
     map_thread ReRelations (relations_thread (st_kernel app) ctx rid)"
| "record_thread app ctx (Create_relation rid to ty) =
     map_thread ReRelation (relate_thread (st_kernel app) ctx rid to ty)"
| "record_thread app ctx (List_transitions rid) =
     map_thread ReTransitions (transitions_thread (st_kernel app) ctx rid)"
| "record_thread app ctx (Do_transition rid req) =
     map_thread ReTransition (transition_thread (st_kernel app) ctx rid (tq_key req) (tq_reason req))"

fun flow_thread :: "app_state \<Rightarrow> auth_context \<Rightarrow> flow_request \<Rightarrow> flow_reply thread" where
  "flow_thread app ctx (List_tasks p) =
     map_thread ReTasks (list_tasks_thread (st_kernel app) ctx (tp_mine p) (tp_status p))"
| "flow_thread app ctx (Create_task req) =
     map_thread ReTask (create_task_thread (st_kernel app) ctx (ct_kind req) (ct_title req)
       (ct_assignee_id req) (ct_related_object_type req) (ct_related_record_id req) (ct_data req))"
| "flow_thread app ctx (Complete_task tid status) =
     map_thread ReTask (complete_task_thread (st_kernel app) ctx tid (or_else status default_done))"
| "flow_thread app ctx List_approvals = map_thread ReApprovals (list_approvals_thread (st_kernel app) ctx)"
| "flow_thread app ctx (Get_approval aid) =
     map_thread ReApproval (get_approval_thread (st_kernel app) ctx aid)"
| "flow_thread app ctx (Decide_approval aid req) =
     map_thread ReApproval (decide_thread (st_kernel app) ctx aid (dq_approved req) (dq_reason req))"
| "flow_thread app ctx (Query_audit p) =
     map_thread ReAudit (audit_query_thread (st_kernel app) ctx
       \<lparr>q_actor_id = pa_actor_id p, q_action = pa_action p, q_target_object_type = pa_object_type p,
        q_target_record_id = pa_record_id p, q_since = pa_since p, q_until = pa_until p,
        q_limit = pa_limit p, q_offset = pa_offset p\<rparr>)"

text \<open>The requests that are cut, and what each of them is when nothing interrupts it.\<close>

datatype operation = OnRecords record_request | OnFlow flow_request

fun operation_thread :: "app_state \<Rightarrow> auth_context \<Rightarrow> operation \<Rightarrow> reply thread" where
  "operation_thread app ctx (OnRecords req) = map_thread ReRecordSet (record_thread app ctx req)"
| "operation_thread app ctx (OnFlow req) = map_thread ReFlow (flow_thread app ctx req)"

fun request_of :: "operation \<Rightarrow> protected_request" where
  "request_of (OnRecords req) = Record req"
| "request_of (OnFlow req) = Flow req"

lemma alone_authorize: "alone (authorize_thread k ctx act resource target) = authorize k ctx act resource target"
  by (rule ext) (simp add: authorize_thread_def authorize_def check_grants_def alone_phase alone_last_phase
      bindK_def retK_def split: sum.splits prod.splits)

lemma alone_done: "alone (Finished (Inr x)) = retK x"
  by (rule ext) (simp add: retK_def)

declare alone.simps [simp del]

lemmas alone_rules = alone_phase alone_last_phase alone_bindT alone_authorize alone_failed alone_done
  alone_map bindK_assoc seqK_assoc bindK_retK bindK_units seqK_def [symmetric]

lemma alone_record_services:
  "alone (create_thread k ctx nr) = create_record k ctx nr"
  "alone (get_thread k ctx rid) = get_record k ctx rid"
  "alone (update_thread k ctx rid patch) = update_record k ctx rid patch"
  "alone (lifecycle_thread k ctx rid lc) = set_lifecycle k ctx rid lc"
  "alone (list_thread k ctx ty flt) = list_records k ctx ty flt"
  "alone (relate_thread k ctx from to ty) = relate k ctx from to ty"
  "alone (relations_thread k ctx rid) = get_relations k ctx rid"
  unfolding create_thread_def create_record_def get_thread_def get_record_def update_thread_def
    update_record_def lifecycle_thread_def set_lifecycle_def list_thread_def list_records_def
    relate_thread_def relate_def relations_thread_def get_relations_def
  by (simp_all add: alone_rules Let_def)

lemma alone_transition_services:
  "alone (transitions_thread k ctx rid) = available_transitions k ctx rid"
  "alone (transition_thread k ctx rid tkey reason) = transition_record k ctx rid tkey reason"
  "alone (bootstrap_thread app h req) = bootstrap_handler app h req"
  unfolding transitions_thread_def available_transitions_def transition_thread_def transition_record_def
    bootstrap_thread_def bootstrap_handler_def
  by (simp_all add: alone_rules Let_def option.case_distrib [where h = alone] cong: option.case_cong)

lemma alone_get_task: "alone (get_task_thread k ctx tid) = get_task k ctx tid"
  unfolding get_task_thread_def get_task_def
  by (simp add: alone_rules Let_def if_distrib [of alone] cong: if_cong)

lemma alone_flow_services:
  "alone (create_task_thread k ctx kind title a ty rid data) = create_task k ctx kind title a ty rid data"
  "alone (list_tasks_thread k ctx mine only) = list_tasks k ctx mine only"
  "alone (list_approvals_thread k ctx) = list_pending_approvals k ctx"
  "alone (get_approval_thread k ctx aid) = get_approval k ctx aid"
  "alone (audit_query_thread k ctx q) = audit_query k ctx q"
  unfolding create_task_thread_def create_task_def list_tasks_thread_def list_tasks_def
    list_approvals_thread_def list_pending_approvals_def get_approval_thread_def get_approval_def
    audit_query_thread_def audit_query_def read_thread_def
  by (simp_all add: alone_rules alone_get_task if_distrib [of alone] Let_def cong: if_cong)

lemma alone_complete_task: "alone (complete_task_thread k ctx tid status) = complete_task k ctx tid status"
  unfolding complete_task_thread_def complete_task_def guardK_def
  by (simp add: alone_rules alone_get_task if_distrib [of alone] if_distrib [of seqK] if_distribR cong: if_cong)

lemma alone_decide: "alone (decide_thread k ctx aid approved reason) = decide_approval k ctx aid approved reason"
  unfolding decide_thread_def decide_approval_def
  by (simp add: alone_rules if_distrib [of alone] Let_def cong: if_cong)

lemma alone_operation: "alone (operation_thread app ctx op) = handle app ctx (request_of op)"
proof -
  have "alone (record_thread app ctx req) = handle_record app ctx req" for req
    by (cases req) (simp_all add: alone_map alone_record_services alone_transition_services
        list_records_handler_def create_record_handler_def get_record_handler_def update_record_handler_def
        archive_record_handler_def archive_record_def restore_record_handler_def restore_record_def
        get_relations_handler_def create_relation_handler_def list_transitions_handler_def
        do_transition_handler_def replyK_def seqK_def bindK_assoc bindK_units)
  moreover have "alone (flow_thread app ctx req) = handle_flow app ctx req" for req
    by (cases req) (simp_all add: alone_map alone_flow_services alone_complete_task
        alone_decide list_tasks_handler_def
        create_task_handler_def complete_task_handler_def list_approvals_handler_def
        get_approval_handler_def decide_approval_handler_def query_audit_handler_def)
  ultimately show ?thesis by (cases op) (simp_all add: alone_map)
qed

section \<open>What every schedule keeps\<close>

text \<open>
  The thread relates the database before to the database after each of its phases by \<open>R\<close>, as long
  as every phase starts in a database that satisfies \<open>P\<close>.
\<close>

inductive phases_keep ::
  "(database \<Rightarrow> bool) \<Rightarrow> (database \<Rightarrow> database \<Rightarrow> bool) \<Rightarrow> 'a thread \<Rightarrow> bool" for P R where
  keep_Finished: "phases_keep P R (Finished r)"
| keep_Running: "(\<And>s. P (db s) \<Longrightarrow> R (db s) (db (snd (g s)))) \<Longrightarrow>
    (\<And>s. P (db s) \<Longrightarrow> phases_keep P R (fst (g s))) \<Longrightarrow> phases_keep P R (Running g)"

lemma phases_keep_phase:
  assumes "keeps R m" "\<And>s x s'. P (db s) \<Longrightarrow> m s = (Inr x, s') \<Longrightarrow> phases_keep P R (f x)"
  shows "phases_keep P R (phase m f)"
  unfolding phase_def
proof (rule keep_Running)
  fix s
  obtain r s' where m: "m s = (r, s')" by force
  let ?step = "case m s of (Inl e, s') \<Rightarrow> (Finished (Inl e), s') | (Inr x, s') \<Rightarrow> (f x, s')"
  have "snd ?step = s'" using m by (cases r) simp_all
  with keepsD [OF assms(1) m] show "R (db s) (db (snd ?step))" by simp
  show "phases_keep P R (fst ?step)" if "P (db s)"
    using assms(2) [OF that] m by (cases r) (auto intro: keep_Finished)
qed

lemma phases_keep_phase':
  "keeps R m \<Longrightarrow> (\<And>x. phases_keep P R (f x)) \<Longrightarrow> phases_keep P R (phase m f)"
  by (rule phases_keep_phase)

lemma phases_keep_last: "keeps R m \<Longrightarrow> phases_keep P R (last_phase m)"
  unfolding last_phase_def by (rule phases_keep_phase') (assumption, rule keep_Finished)

lemma phases_keep_map: "phases_keep P R t \<Longrightarrow> phases_keep P R (map_thread f t)"
proof (induction rule: phases_keep.induct)
  case (keep_Running g)
  show ?case
    using keep_Running by (simp, intro phases_keep.keep_Running) simp_all
qed (simp add: keep_Finished)

lemma phases_keep_bindT:
  assumes "phases_keep P R t" "\<And>x. phases_keep P R (f x)"
  shows "phases_keep P R (bindT t f)"
  using assms(1)
proof induction
  case (keep_Finished r)
  with assms(2) show ?case by (cases r) (auto intro: phases_keep.keep_Finished)
next
  case (keep_Running g)
  show ?case
    using keep_Running by (simp, intro phases_keep.keep_Running) simp_all
qed

lemma phases_keep_if:
  "(b \<Longrightarrow> phases_keep P R t) \<Longrightarrow> (\<not> b \<Longrightarrow> phases_keep P R t') \<Longrightarrow> phases_keep P R (if b then t else t')"
  by simp

lemma phases_keep_case_option:
  "phases_keep P R t \<Longrightarrow> (\<And>x. phases_keep P R (f x)) \<Longrightarrow>
     phases_keep P R (case o' of None \<Rightarrow> t | Some x \<Rightarrow> f x)"
  by (cases o') simp_all

lemma phases_keep_case_prod:
  "(\<And>x y. phases_keep P R (f x y)) \<Longrightarrow> phases_keep P R (case p of (x, y) \<Rightarrow> f x y)"
  by (cases p) simp

lemmas phases_rules = phases_keep_last phases_keep_phase' phases_keep_bindT phases_keep_if
  phases_keep_case_option phases_keep_case_prod keep_Finished

lemma phases_keep_conj:
  "phases_keep P R t \<Longrightarrow> phases_keep P R' t \<Longrightarrow> phases_keep P (\<lambda>d d'. R d d' \<and> R' d d') t"
proof (induction rule: phases_keep.induct)
  case (keep_Running g)
  from keep_Running.prems show ?case
    by (cases rule: phases_keep.cases) (auto intro!: phases_keep.keep_Running keep_Running)
qed (rule keep_Finished)

lemma phases_keep_mono:
  "phases_keep P R t \<Longrightarrow> (\<And>d d'. R d d' \<Longrightarrow> R' d d') \<Longrightarrow> phases_keep P R' t"
  by (induction rule: phases_keep.induct) (auto intro!: phases_keep.intros)

lemma phases_keep_advance:
  assumes "phases_keep P R t" "P (db s)" "R (db s) (db s)" "advance t s = (t', s')"
  shows "phases_keep P R t' \<and> R (db s) (db s')"
  using assms
proof (cases t)
  case (Running g)
  with assms(1) have "R (db s) (db (snd (g s)))" "phases_keep P R (fst (g s))"
    using assms(2) by (auto elim: phases_keep.cases)
  with assms(4) Running show ?thesis by simp
qed auto

text \<open>The permission check keeps what a denial keeps.\<close>

context denial_frame begin

lemma keeps_check_grants [frame_rules]: "keeps R (check_grants k ctx act resource target)"
  unfolding check_grants_def by (rule frame_rules)+

lemma phases_authorize:
  "tenant_id ctx = t \<Longrightarrow> phases_keep P R (authorize_thread k ctx act resource target)"
  unfolding authorize_thread_def by (rule phases_rules frame_rules | assumption)+

lemma phases_read:
  "tenant_id ctx = t \<Longrightarrow> keeps R m \<Longrightarrow> phases_keep P R (read_thread k ctx resource m)"
  unfolding read_thread_def by (rule phases_rules phases_authorize | assumption)+

lemma phases_get_task: "tenant_id ctx = t \<Longrightarrow> phases_keep P R (get_task_thread k ctx tid)"
  unfolding get_task_thread_def Let_def by (rule phases_rules frame_rules | assumption)+

end

text \<open>The interface of a relation and an invariant that hold under every schedule.\<close>

locale schedule_frame = db_frame R for R +
  fixes P :: "database \<Rightarrow> bool"
  assumes frame_keep: "R d d' \<Longrightarrow> P d \<Longrightarrow> P d'"
begin

lemma interleave_keeps:
  assumes "interleave sched ts s = (ts', s')" "\<forall>t\<in>set ts. phases_keep P R t" "P (db s)"
  shows "R (db s) (db s')"
  using assms
proof (induction sched arbitrary: ts s)
  case (Cons i sched)
  show ?case
  proof (cases "i < length ts")
    case True
    obtain t s1 where a: "advance (ts ! i) s = (t, s1)" by force
    from True Cons.prems(2) have "phases_keep P R (ts ! i)" by simp
    from phases_keep_advance [OF this Cons.prems(3) frame_refl a]
    have 1: "phases_keep P R t" "R (db s) (db s1)" by simp_all
    have "interleave sched (ts[i := t]) s1 = (ts', s')" using Cons.prems(1) True a by simp
    moreover have "\<forall>t\<in>set (ts[i := t]). phases_keep P R t"
      using 1(1) Cons.prems(2) set_update_subset_insert [of ts i t] by blast
    ultimately have "R (db s1) (db s')"
      using Cons.IH frame_keep [OF 1(2) Cons.prems(3)] by blast
    with 1(2) show ?thesis by (rule frame_trans)
  next
    case False
    with Cons show ?thesis by simp
  qed
qed (simp add: frame_refl)

end

text \<open>
  What is left of \<open>traced\<close> when requests overlap: the log is appended to, its identifiers stay
  distinct, the invariant \<open>db_inv\<close> is kept, and what is changed is logged. That a decided approval
  stays as it is, which \<open>evolves\<close> adds, is not among it.
\<close>

definition accounted :: "database \<Rightarrow> database \<Rightarrow> bool" where
  "accounted d d' \<longleftrightarrow> sound d d' \<and> (db_inv d \<longrightarrow> tracked d' = tracked d \<or> event_logged d d')"

lemma soundD: "sound d d' \<Longrightarrow> appends d d'" "sound d d' \<Longrightarrow> db_inv d \<Longrightarrow> db_inv d'"
  by (simp_all add: sound_def db_inv.preserves_def)

lemma traced_accounted: "keeps traced m \<Longrightarrow> keeps accounted m"
  by (erule keeps_mono) (auto simp: traced_def accounted_def evolves_def sound_def db_inv.preserves_def)

interpretation accounted: denial_frame accounted t for t
proof unfold_locales
  show "accounted d d" for d
    by (simp add: accounted_def sound.frame_refl)
  show "accounted d d''" if "accounted d d'" "accounted d' d''" for d d' d''
    using that unfolding accounted_def
    by (auto intro: sound.frame_trans event_logged_trans soundD)
  show "accounted d (log_audit ev d)"
    if "a_tenant_id ev = t" "a_action ev = ''permission.denied''" "a_id ev \<notin> a_id ` set (audit_logs d)" for ev d
    using sound.denial [OF that] by (simp add: accounted_def log_audit_def)
qed

interpretation accounted_schedule: schedule_frame accounted db_inv
  by unfold_locales (auto simp: accounted_def dest: soundD)

lemma audited_accounted: "sound d d' \<Longrightarrow> audited d d' \<Longrightarrow> accounted d d'"
proof -
  assume s: "sound d d'" and "audited d d'"
  then obtain new where new: "audit_logs d' = audit_logs d @ new"
    "business d' \<noteq> business d \<longrightarrow> (\<exists>ev\<in>set new. a_action ev \<noteq> ''permission.denied'')"
    unfolding audited_def by blast
  have "tracked d' = tracked d" if "business d' = business d"
  proof -
    have "tracked d' = tracked (business d')" "tracked d = tracked (business d)"
      by (simp_all add: business_def)
    with that show ?thesis by simp
  qed
  with s new show ?thesis unfolding accounted_def event_logged_def by blast
qed

lemma keeps_accounted_audited: "keeps sound m \<Longrightarrow> keeps audited m \<Longrightarrow> keeps accounted m"
  by (simp add: keeps_def audited_accounted)

lemma keeps_sound_record_decision:
  "keeps sound (record_decision k ctx ap ty target ts approved reason)"
proof -
  have "keeps evolves (apply_approval k ctx ap ty target ts reason)"
    unfolding apply_approval_def Let_def by (rule frame_rules refl | simp)+
  then have 1: "keeps sound (apply_approval k ctx ap ty target ts reason)" by (rule evolves_sound)
  show ?thesis
    unfolding record_decision_def
    by (rule 1 frame_rules refl evolves_sound [OF keeps_evolves_log(3)]
        evolves_sound [OF keeps_evolves_close_tasks] | simp)+
qed

lemma phases_decide: "phases_keep db_inv accounted (decide_thread k ctx aid approved reason)"
  unfolding decide_thread_def Let_def
proof (rule phases_keep_phase)
  show "keeps accounted (bindK (load_approval k (tenant_id ctx) aid) (\<lambda>found.
      bindK (someK e found) (\<lambda>ap. seqK (guardK (b ap) e') (retK ap))))" for e b e'
    by (rule frame_rules)+
  fix s ap s'
  assume "db_inv (db s)" and "bindK (load_approval k (tenant_id ctx) aid) (\<lambda>found.
      bindK (someK (not_found ''approval not found'') found) (\<lambda>ap.
      seqK (guardK (ap_status ap = ''pending'') (failed_precondition ''approval already decided''))
      (retK ap))) s = (Inr ap, s')"
  then have "find_approval (db s) (tenant_id ctx) aid = Some ap" "approvals_targeted (db s)"
    by (auto simp: load_approval_def run_inv db_inv_def)
  then have t: "ap_related_record_id ap \<noteq> None" "ap_target_state ap \<noteq> None"
    by (auto simp: approvals_targeted_def dest: find_approval_Some)
  have commit: "keeps accounted (transaction k (record_decision k ctx ap ty target ts approved reason))"
    for ty target ts
    by (intro keeps_accounted_audited sound.keeps_transaction_body keeps_sound_record_decision
        keeps_audited_transaction logs_record_decision t)
  show "phases_keep db_inv accounted
    (if b then last_phase (seqK (audit_denial k ctx act res target) (failK e))
     else phase (case ap_related_record_id ap of
                Some rid \<Rightarrow> load_record k (tenant_id ctx) rid | None \<Rightarrow> retK None) (\<lambda>target.
       bindT (authorize_thread k ctx Approve (resource_for ty) target) (\<lambda>_.
       last_phase (bindK (now_rfc3339 k) (\<lambda>ts.
         seqK (transaction k (record_decision k ctx ap ty target ts approved reason))
         (retK (decided ctx approved reason ts ap)))))))" for b act res target e ty
    by (rule phases_rules accounted.phases_authorize frame_rules commit refl)+
qed

lemma evolves_audited_accounted: "evolves d d' \<and> audited d d' \<Longrightarrow> accounted d d'"
  by (rule audited_accounted) (auto simp: evolves_def sound_def db_inv.preserves_def)

lemma phases_accountedI:
  "phases_keep P evolves t \<Longrightarrow> phases_keep P audited t \<Longrightarrow> phases_keep P accounted t"
  by (rule phases_keep_mono [OF phases_keep_conj]) (assumption, assumption, rule evolves_audited_accounted)

lemmas evolves_phases = phases_rules evolves.phases_authorize evolves.phases_read evolves.phases_get_task

lemma phases_evolves_records:
  "phases_keep P evolves (create_thread k ctx nr)"
  "phases_keep P evolves (get_thread k ctx rid)"
  "phases_keep P evolves (update_thread k ctx rid patch)"
  "phases_keep P evolves (lifecycle_thread k ctx rid lc)"
  "phases_keep P evolves (list_thread k ctx ty flt)"
  "phases_keep P evolves (relate_thread k ctx from to rty)"
  "phases_keep P evolves (relations_thread k ctx rid)"
  "phases_keep P evolves (transitions_thread k ctx rid)"
  "phases_keep P evolves (transition_thread k ctx rid tkey reason)"
  unfolding create_thread_def get_thread_def update_thread_def lifecycle_thread_def list_thread_def
    relate_thread_def relations_thread_def transitions_thread_def transition_thread_def
    request_transition_def apply_transition_def Let_def
  by (rule evolves_phases frame_rules refl evolves_upserts | assumption | simp)+

lemma phases_evolves_flow:
  "phases_keep P evolves (create_task_thread k ctx kind title a rty rid data)"
  "phases_keep P evolves (complete_task_thread k ctx tid status)"
  "phases_keep P evolves (list_tasks_thread k ctx mine only)"
  "phases_keep P evolves (list_approvals_thread k ctx)"
  "phases_keep P evolves (get_approval_thread k ctx aid)"
  "phases_keep P evolves (audit_query_thread k ctx q)"
  unfolding create_task_thread_def complete_task_thread_def list_tasks_thread_def
    list_approvals_thread_def get_approval_thread_def audit_query_thread_def Let_def
  by (rule evolves_phases frame_rules refl | simp)+

lemmas audited_phases = phases_rules audited.phases_authorize audited.phases_read audited.phases_get_task
  keeps_audited_transaction logs_seq_second logs_seq_first logs_audit_change

lemma phases_audited_records:
  "phases_keep P audited (create_thread k ctx nr)"
  "phases_keep P audited (get_thread k ctx rid)"
  "phases_keep P audited (update_thread k ctx rid patch)"
  "phases_keep P audited (lifecycle_thread k ctx rid lc)"
  "phases_keep P audited (list_thread k ctx ty flt)"
  "phases_keep P audited (relate_thread k ctx from to rty)"
  "phases_keep P audited (relations_thread k ctx rid)"
  "phases_keep P audited (transitions_thread k ctx rid)"
  "phases_keep P audited (transition_thread k ctx rid tkey reason)"
  unfolding create_thread_def get_thread_def update_thread_def lifecycle_thread_def list_thread_def
    relate_thread_def relations_thread_def transitions_thread_def transition_thread_def insert_record_def Let_def
  by (intro audited_phases frame_rules refl logs_request_transition logs_apply_transition |
      auto simp: same_log_def dest!: insert_relation_isolated split: lifecycle.splits)+

lemma phases_audited_flow:
  "phases_keep P audited (create_task_thread k ctx kind title a rty rid data)"
  "phases_keep P audited (complete_task_thread k ctx tid status)"
  "phases_keep P audited (list_tasks_thread k ctx mine only)"
  "phases_keep P audited (list_approvals_thread k ctx)"
  "phases_keep P audited (get_approval_thread k ctx aid)"
  "phases_keep P audited (audit_query_thread k ctx q)"
  unfolding create_task_thread_def complete_task_thread_def list_tasks_thread_def
    list_approvals_thread_def get_approval_thread_def audit_query_thread_def Let_def
  by (intro audited_phases frame_rules refl | simp add: same_log_def)+

lemmas accounted_rules = phases_keep_map phases_decide
  phases_accountedI [OF phases_evolves_records(1) phases_audited_records(1)]
  phases_accountedI [OF phases_evolves_records(2) phases_audited_records(2)]
  phases_accountedI [OF phases_evolves_records(3) phases_audited_records(3)]
  phases_accountedI [OF phases_evolves_records(4) phases_audited_records(4)]
  phases_accountedI [OF phases_evolves_records(5) phases_audited_records(5)]
  phases_accountedI [OF phases_evolves_records(6) phases_audited_records(6)]
  phases_accountedI [OF phases_evolves_records(7) phases_audited_records(7)]
  phases_accountedI [OF phases_evolves_records(8) phases_audited_records(8)]
  phases_accountedI [OF phases_evolves_records(9) phases_audited_records(9)]
  phases_accountedI [OF phases_evolves_flow(1) phases_audited_flow(1)]
  phases_accountedI [OF phases_evolves_flow(2) phases_audited_flow(2)]
  phases_accountedI [OF phases_evolves_flow(3) phases_audited_flow(3)]
  phases_accountedI [OF phases_evolves_flow(4) phases_audited_flow(4)]
  phases_accountedI [OF phases_evolves_flow(5) phases_audited_flow(5)]
  phases_accountedI [OF phases_evolves_flow(6) phases_audited_flow(6)]

lemma phases_operation: "phases_keep db_inv accounted (operation_thread app ctx op)"
proof -
  have "phases_keep db_inv accounted (record_thread app ctx req)" for req
    by (cases req) (auto intro: accounted_rules)
  moreover have "phases_keep db_inv accounted (flow_thread app ctx req)" for req
    by (cases req) (auto intro: accounted_rules)
  ultimately show ?thesis by (cases op) (auto intro: phases_keep_map)
qed

text \<open>
  C7: Overlapping requests on data and workflow are accounted for. Take any requests on records,
  relations, transitions, tasks, approvals and the audit log, by any authenticated callers, and run
  their phases (each statement that reads, each transaction, each logged denial) in any order, with
  any faults of the storage. Then the invariant of the database is kept (unique keys, known tenants,
  valid definitions, no platform administrator, approvals that name what they are about); the audit
  log has only been appended to, its identifiers staying distinct; and if anything of a tenant's
  data has changed, an event that is not a mere permission denial has been logged. Requests of other
  kinds are not among those that overlap here.
\<close>

theorem overlapping_operations_accounted:
  assumes "interleave sched (map (\<lambda>(ctx, op). operation_thread app ctx op) ops) s = (ts, s')" "db_inv (db s)"
  shows "db_inv (db s') \<and> (\<exists>new. audit_logs (db s') = audit_logs (db s) @ new) \<and>
    (distinct (map a_id (audit_logs (db s))) \<longrightarrow> distinct (map a_id (audit_logs (db s')))) \<and>
    (tracked (db s') = tracked (db s) \<or> event_logged (db s) (db s'))"
proof -
  have "\<forall>t\<in>set (map (\<lambda>(ctx, op). operation_thread app ctx op) ops). phases_keep db_inv accounted t"
    by (auto simp: phases_operation)
  from accounted_schedule.interleave_keeps [OF assms(1) this assms(2)] assms(2)
  show ?thesis
    by (auto simp: accounted_def sound_def appends_def log_ids_kept_def db_inv.preserves_def)
qed

text \<open>A decision, a withdrawal and an archiving that overlap, on the sample tenant: all succeed.\<close>

definition demo_overlap :: "(auth_context \<times> operation) list" where
  "demo_overlap =
     [(ann, OnFlow (Decide_approval ''ap1'' \<lparr>dq_approved = True, dq_reason = None\<rparr>)),
      (bob, OnRecords (Do_transition ''rec2'' \<lparr>tq_key = ''withdraw'', tq_reason = None\<rparr>)),
      (ann, OnRecords (Archive_record ''rec1''))]"

definition demo_schedule :: "nat list" where
  "demo_schedule = [0, 1, 2, 0, 1, 2, 0, 1, 2, 0, 1, 1]"

fun succeeded :: "'a thread \<Rightarrow> bool" where
  "succeeded (Finished (Inr x)) = True"
| "succeeded _ = False"

lemma lazy_phases: "phase m f = phase m f" "last_phase m = last_phase m"
  by (rule refl)+

lemma map_phase [simp]: "map_thread g (phase m f) = phase m (\<lambda>x. map_thread g (f x))"
  by (simp add: phase_def fun_eq_iff split: prod.splits sum.splits)

lemma map_last_phase [simp]: "map_thread g (last_phase m) = phase m (\<lambda>x. Finished (Inr (g x)))"
  by (simp add: last_phase_def)

lemma demo_overlap_run:
  "case interleave demo_schedule (map (\<lambda>(ctx, op). operation_thread demo_app ctx op) demo_overlap) demo_state of
     (ts, s') \<Rightarrow> list_all succeeded ts \<and> records (db s') \<noteq> records demo_db"
  unfolding demo_overlap_def demo_schedule_def
  by (simp add: decide_thread_def transition_thread_def lifecycle_thread_def authorize_thread_def
      check_grants_def demo_run flow_defs approval_defs demo_defs cong: lazy lazy_phases)

theorem overlapping_operations_accounted_witness:
  "\<exists>ts s'. interleave demo_schedule (map (\<lambda>(ctx, op). operation_thread demo_app ctx op) demo_overlap) demo_state
       = (ts, s') \<and> list_all succeeded ts \<and> db_inv (db s') \<and> event_logged demo_db (db s')"
proof -
  obtain ts s' where run:
    "interleave demo_schedule (map (\<lambda>(ctx, op). operation_thread demo_app ctx op) demo_overlap) demo_state = (ts, s')"
    by force
  with demo_overlap_run have 1: "list_all succeeded ts" "records (db s') \<noteq> records demo_db" by auto
  then have "tracked (db s') \<noteq> tracked demo_db"
    by (auto simp: tracked_def dest: arg_cong [where f = records])
  with overlapping_operations_accounted [OF run] run 1(1) show ?thesis by auto
qed

interpretation isolated_schedule: schedule_frame "isolated t" "\<lambda>_. True" for t
  by unfold_locales simp

lemmas isolated_phases = phases_rules phases_keep_map isolated.phases_authorize isolated.phases_read
  isolated.phases_get_task

lemma phases_isolated_create: "phases_keep P (isolated (tenant_id ctx)) (create_thread k ctx nr)"
proof -
  have "keeps (isolated (tenant_id ctx)) (insert_record k (created_record ctx nr data state rid ts))"
    for data state rid ts
    unfolding insert_record_def
    by (intro frame_rules) (auto simp: isolated_def created_record_def)
  then show ?thesis
    unfolding create_thread_def Let_def by (intro isolated_phases frame_rules refl)
qed

lemma phases_isolated_records:
  "phases_keep P (isolated (tenant_id ctx)) (get_thread k ctx rid)"
  "phases_keep P (isolated (tenant_id ctx)) (update_thread k ctx rid patch)"
  "phases_keep P (isolated (tenant_id ctx)) (lifecycle_thread k ctx rid lc)"
  "phases_keep P (isolated (tenant_id ctx)) (list_thread k ctx ty flt)"
  "phases_keep P (isolated (tenant_id ctx)) (relate_thread k ctx from to rty)"
  "phases_keep P (isolated (tenant_id ctx)) (relations_thread k ctx rid)"
  "phases_keep P (isolated (tenant_id ctx)) (transitions_thread k ctx rid)"
  "phases_keep P (isolated (tenant_id ctx)) (transition_thread k ctx rid tkey reason)"
  unfolding get_thread_def update_thread_def lifecycle_thread_def list_thread_def
    relate_thread_def relations_thread_def transitions_thread_def transition_thread_def Let_def
  by (intro isolated_phases frame_rules refl | simp | auto dest!: insert_relation_isolated)+

lemma phases_isolated_flow:
  "phases_keep P (isolated (tenant_id ctx)) (create_task_thread k ctx kind title a rty rid data)"
  "phases_keep P (isolated (tenant_id ctx)) (complete_task_thread k ctx tid status)"
  "phases_keep P (isolated (tenant_id ctx)) (list_tasks_thread k ctx mine only)"
  "phases_keep P (isolated (tenant_id ctx)) (list_approvals_thread k ctx)"
  "phases_keep P (isolated (tenant_id ctx)) (get_approval_thread k ctx aid)"
  "phases_keep P (isolated (tenant_id ctx)) (audit_query_thread k ctx q)"
  "phases_keep P (isolated (tenant_id ctx)) (decide_thread k ctx aid approved reason)"
  unfolding create_task_thread_def complete_task_thread_def list_tasks_thread_def decide_thread_def
    list_approvals_thread_def get_approval_thread_def audit_query_thread_def Let_def
  by (intro isolated_phases frame_rules refl | simp)+

lemma phases_isolated: "phases_keep P (isolated (tenant_id ctx)) (operation_thread app ctx op)"
proof -
  have "phases_keep P (isolated (tenant_id ctx)) (record_thread app ctx req)" for req
    by (cases req) (auto intro: phases_keep_map phases_isolated_create phases_isolated_records)
  moreover have "phases_keep P (isolated (tenant_id ctx)) (flow_thread app ctx req)" for req
    by (cases req) (auto intro: phases_keep_map phases_isolated_flow)
  ultimately show ?thesis by (cases op) (auto intro: phases_keep_map)
qed

text \<open>
  C8: Overlapping requests on data and workflow stay in their tenant. When requests on records,
  relations, transitions, tasks, approvals and the audit log by callers of one tenant overlap, their
  phases in any order and with any faults of the storage, no row of another tenant is added,
  changed, removed or moved, in any table.
\<close>

theorem overlapping_operations_stay_in_tenant:
  assumes "interleave sched (map (\<lambda>(ctx, op). operation_thread app ctx op) ops) s = (ts, s')"
    and "\<forall>(ctx, op)\<in>set ops. tenant_id ctx = t"
  shows "isolated t (db s) (db s')"
proof (rule isolated_schedule.interleave_keeps [OF assms(1)])
  show "\<forall>th\<in>set (map (\<lambda>(ctx, op). operation_thread app ctx op) ops). phases_keep (\<lambda>_. True) (isolated t) th"
    using assms(2) phases_isolated by fastforce
qed simp

theorem overlapping_operations_stay_in_tenant_witness:
  "\<exists>ts s'. interleave demo_schedule (map (\<lambda>(ctx, op). operation_thread demo_app ctx op) demo_overlap) demo_state
       = (ts, s') \<and> records (db s') \<noteq> records demo_db \<and> isolated ''acme'' demo_db (db s')"
proof -
  obtain ts s' where run:
    "interleave demo_schedule (map (\<lambda>(ctx, op). operation_thread demo_app ctx op) demo_overlap) demo_state = (ts, s')"
    by force
  have "\<forall>(ctx, op)\<in>set demo_overlap. tenant_id ctx = ''acme''"
    by (simp add: demo_overlap_def ann_def bob_def user_ctx_def demo_user_def)
  from overlapping_operations_stay_in_tenant [OF run this] run demo_overlap_run show ?thesis by auto
qed

end
