(* ===== verification/Races.thy ===== *)
theory Races
  imports Interleaving
begin

text \<open>
  Schedules on which two requests, each of which is correct alone, are not correct together. The
  services that decide on what they have read do not read it again in the transaction that writes:
  what another request commits in between is lost.
\<close>

section \<open>Inversion of a schedule\<close>

lemma finished_stays: "i < length ts \<Longrightarrow> ts ! i = Finished r \<Longrightarrow> fst (interleave sched ts s) ! i = Finished r"
proof (induction sched arbitrary: ts s)
  case (Cons j sched)
  show ?case
  proof (cases "j < length ts")
    case True
    obtain t s1 where a: "advance (ts ! j) s = (t, s1)" by force
    have "(ts[j := t]) ! i = Finished r"
      using Cons.prems a by (cases "j = i") auto
    with Cons.IH [of "ts[j := t]" s1] Cons.prems a True show ?thesis by simp
  qed (use Cons in simp)
qed simp

text \<open>A thread that ends in success has succeeded in the phase that is next.\<close>

lemma turn:
  assumes "interleave (i # sched) ts s = (ts', s')" "ts ! i = phase m f" "i < length ts"
    and "ts' ! i = Finished (Inr a)"
  obtains x s1 where "m s = (Inr x, s1)" "interleave sched (ts[i := f x]) s1 = (ts', s')"
proof (cases "m s")
  case (Pair r s1)
  show thesis
  proof (cases r)
    case (Inl e)
    have "fst (interleave sched (ts[i := Finished (Inl e)]) s1) ! i = Finished (Inl e)"
      using assms(3) by (intro finished_stays) simp_all
    with assms Pair Inl show thesis by simp
  next
    case (Inr x)
    with assms Pair show thesis by (intro that) simp_all
  qed
qed

lemma last_turn:
  assumes "interleave (i # sched) ts s = (ts', s')" "ts ! i = last_phase m" "i < length ts"
    and "ts' ! i = Finished (Inr a)"
  obtains s1 where "m s = (Inr a, s1)" "interleave sched (ts[i := Finished (Inr a)]) s1 = (ts', s')"
proof (rule turn [OF assms(1) assms(2) [unfolded last_phase_def] assms(3,4)])
  fix x s1
  assume 1: "m s = (Inr x, s1)" "interleave sched (ts[i := Finished (Inr x)]) s1 = (ts', s')"
  have "fst (interleave sched (ts[i := Finished (Inr x)]) s1) ! i = Finished (Inr x)"
    using assms(3) by (intro finished_stays) simp_all
  with 1 assms(4) show thesis by (intro that) simp_all
qed

text \<open>A phase that can only fail is not passed; so a permission check that is passed took one phase.\<close>

lemma doomed:
  "interleave sched ts s = (ts', s') \<Longrightarrow> i < length ts \<Longrightarrow> ts ! i = phase m f \<Longrightarrow>
     (\<And>s x s'. m s \<noteq> (Inr x, s')) \<Longrightarrow> ts' ! i \<noteq> Finished (Inr a)"
proof (induction sched arbitrary: ts s)
  case Nil
  then show ?case by (simp add: phase_def)
next
  case (Cons j sched)
  show ?case
  proof (cases "j = i")
    case True
    obtain e s1 where m: "m s = (Inl e, s1)"
      using Cons.prems(4) [of s] by (cases "m s"; cases "fst (m s)") auto
    with Cons.prems True have "interleave sched (ts[i := Finished (Inl e)]) s1 = (ts', s')" by simp
    then have "ts' ! i = Finished (Inl e)"
      using finished_stays [of i "ts[i := Finished (Inl e)]" "Inl e" sched s1] Cons.prems(2) by simp
    then show ?thesis by simp
  next
    case False
    with Cons.prems Cons.IH show ?thesis by (auto split: if_splits prod.splits)
  qed
qed

lemma authorize_turn:
  assumes run: "interleave (i # sched) ts s = (ts', s')"
    and th: "ts ! i = bindT (authorize_thread k ctx act resource target) f"
    and i: "i < length ts" and fin: "ts' ! i = Finished (Inr a)"
  obtains s1 where "db s1 = db s" "interleave sched (ts[i := f ()]) s1 = (ts', s')"
proof (rule turn [OF run th [unfolded authorize_thread_def bindT_phase] i fin])
  let ?deny = "seqK (audit_denial k ctx (action_str act) resource (map_option r_id target))
    (failK (forbidden (''not permitted: '' @ action_str act @ '' on '' @ resource))) :: unit kern"
  fix ok s1
  assume 1: "check_grants k ctx act resource target s = (Inr ok, s1)"
    and 2: "interleave sched (ts[i := bindT (if ok then Finished (Inr ()) else last_phase ?deny) f]) s1 = (ts', s')"
  have "?deny s \<noteq> (Inr x, s')" for s x s' by (simp add: seqK_Inr)
  with doomed [OF 2, of i ?deny f a] i fin have ok: ok by (cases ok) auto
  have "db s1 = db s"
    using 1 by (auto simp: check_grants_def bindK_Inr split: if_splits dest: effective_grants_Inr)
  with 2 ok show thesis by (intro that) simp_all
qed

section \<open>Two decisions on one approval\<close>

text \<open>What the phases of a decision before its transaction, and the transaction, do.\<close>

definition decide_commit ::
  "kernel \<Rightarrow> auth_context \<Rightarrow> approval_t \<Rightarrow> string \<Rightarrow> record_t option \<Rightarrow> bool \<Rightarrow> string option \<Rightarrow> approval_t kern" where
  "decide_commit k ctx ap ty target approved reason =
     bindK (now_rfc3339 k) (\<lambda>ts.
       seqK (transaction k (record_decision k ctx ap ty target ts approved reason))
       (retK (decided ctx approved reason ts ap)))"

lemma decide_commit_Inr:
  assumes "decide_commit k ctx ap ty target approved reason s = (Inr ap', s')"
  obtains ts where "ap' = decided ctx approved reason ts ap"
    "approvals (db s') = upd_where (\<lambda>a. ap_tenant_id a = tenant_id ctx \<and> ap_id a = ap_id ap)
       (decided ctx approved reason ts) (approvals (db s))"
    "records (db s') = (if approved then approved_move (tenant_id ctx) ap ts (records (db s))
       else records (db s))"
proof -
  let ?ts = "rfc3339 k (now_at k (tick s))"
  have "transaction k (record_decision k ctx ap ty target ?ts approved reason) (s\<lparr>tick := Suc (tick s)\<rparr>)
      = (Inr (), s')" and ap': "ap' = decided ctx approved reason ?ts ap"
    using assms by (auto simp: decide_commit_def bindK_Inr seqK_Inr now_rfc3339_Inr)
  then obtain u u' where "record_decision k ctx ap ty target ?ts approved reason u = (Inr (), u')"
    "db u = db s" "db s' = db u'"
    unfolding transaction_Inr by fastforce
  from record_decision_Inr [OF this(1)] this(2,3) ap' show thesis
    by (intro that [of ?ts]) simp_all
qed

lemma decided_again [simp]: "decided ctx ok r ts (decided ctx' ok' r' ts' a) = decided ctx ok r ts a"
  by (simp add: decided_def)

lemma upd_where_again:
  "(\<And>x. P x \<Longrightarrow> P (g x)) \<Longrightarrow> (\<And>x. f (g x) = f x) \<Longrightarrow> upd_where P f (upd_where P g xs) = upd_where P f xs"
  by (induction xs) (simp_all add: upd_where_def)

text \<open>The phases of a successful decision, up to its transaction, change nothing.\<close>

abbreviation decide_reads :: "kernel \<Rightarrow> auth_context \<Rightarrow> string \<Rightarrow> approval_t kern" where
  "decide_reads k ctx aid \<equiv>
     bindK (load_approval k (tenant_id ctx) aid) (\<lambda>found.
     bindK (someK (not_found ''approval not found'') found) (\<lambda>ap.
     seqK (guardK (ap_status ap = ''pending'') (failed_precondition ''approval already decided''))
     (retK ap)))"

lemma decide_reads_Inr: "decide_reads k ctx aid s = (Inr ap, s') \<Longrightarrow>
    find_approval (db s) (tenant_id ctx) aid = Some ap \<and> ap_status ap = ''pending'' \<and> db s' = db s"
  by (auto simp: load_approval_def run_inv)

lemma decide_target_Inr: "(case ap_related_record_id ap of Some rid \<Rightarrow> load_record k t rid | None \<Rightarrow> retK None) s
    = (Inr target, s') \<Longrightarrow> db s' = db s"
  by (auto simp: load_record_def query_Inr split: option.splits)

lemma decide_to_commit:
  assumes run: "interleave (i # i # i # sched) ts s = (ts', s')" and th: "ts ! i = decide_thread k ctx aid ok r"
    and i: "i < length ts" and fin: "ts' ! i = Finished (Inr a)"
  obtains ap ty target s1 where "find_approval (db s) (tenant_id ctx) aid = Some ap" "ap_status ap = ''pending''"
    "db s1 = db s" "interleave sched (ts[i := last_phase (decide_commit k ctx ap ty target ok r)]) s1 = (ts', s')"
proof (rule turn [OF run th [unfolded decide_thread_def Let_def decide_commit_def [symmetric]] i fin])
  fix ap :: approval_t and s0
  let ?self = "enable_approval_separation_of_duties (flags k) \<and> ap_requested_by ap = actor_id ctx \<and>
    \<not> is_system ctx \<and> \<not> is_platform_admin ctx"
  let ?ty = "case ap_related_object_type ap of Some x \<Rightarrow> x | None \<Rightarrow> []"
  let ?load = "case ap_related_record_id ap of Some rid \<Rightarrow> load_record k (tenant_id ctx) rid | None \<Rightarrow> retK None"
  let ?deny = "seqK (audit_denial k ctx ''approve'' ''approval'' (Some aid))
    (failK (forbidden ''the requester cannot decide their own approval''))"
  let ?rest = "if ?self then last_phase ?deny
    else phase ?load (\<lambda>target. bindT (authorize_thread k ctx Approve (resource_for ?ty) target) (\<lambda>_.
      last_phase (decide_commit k ctx ap ?ty target ok r)))"
  assume 1: "decide_reads k ctx aid s = (Inr ap, s0)"
    and 2: "interleave (i # i # sched) (ts[i := ?rest]) s0 = (ts', s')"
  have "\<not> ?self"
  proof
    assume b: ?self
    have "(ts[i := ?rest]) ! i = last_phase ?deny" using b i by simp
    from last_turn [OF 2 this _ fin] i show False by (auto simp: seqK_Inr)
  qed
  then have rest: "(ts[i := ?rest]) ! i = phase ?load (\<lambda>target.
      bindT (authorize_thread k ctx Approve (resource_for ?ty) target) (\<lambda>_.
        last_phase (decide_commit k ctx ap ?ty target ok r)))"
    unfolding nth_list_update_eq [OF i] by (rule if_not_P)
  show thesis
  proof (rule turn [OF 2 rest _ fin])
    fix target s2
    assume 3: "?load s0 = (Inr target, s2)" and 4: "interleave (i # sched) (ts[i := ?rest, i :=
      bindT (authorize_thread k ctx Approve (resource_for ?ty) target) (\<lambda>_.
        last_phase (decide_commit k ctx ap ?ty target ok r))]) s2 = (ts', s')"
    show thesis
    proof (rule authorize_turn [OF 4 _ _ fin])
      fix s1 :: kstate
      assume 5: "db s1 = db s2"
      from decide_reads_Inr [OF 1] decide_target_Inr [OF 3] 5 have "db s1 = db s" by simp
      then show "interleave sched (ts[i := ?rest, i := bindT (authorize_thread k ctx Approve (resource_for ?ty) target)
          (\<lambda>_. last_phase (decide_commit k ctx ap ?ty target ok r)),
          i := last_phase (decide_commit k ctx ap ?ty target ok r)]) s1 = (ts', s') \<Longrightarrow> thesis"
        using decide_reads_Inr [OF 1] by (intro that [of ap s1]) simp_all
    qed (use i in simp_all)
  qed (use i in simp)
qed

lemma decisions_turns:
  assumes run: "interleave [0, 0, 0, 1, 1, 1, 0, 1]
      [decide_thread k ctx aid True r, decide_thread k ctx' aid False r'] s =
      ([Finished (Inr a), Finished (Inr a')], s')"
    and t: "tenant_id ctx' = tenant_id ctx"
  obtains ap ty target ty' target' s2 s3 where "find_approval (db s) (tenant_id ctx) aid = Some ap"
    "ap_status ap = ''pending''" "db s2 = db s" "decide_commit k ctx ap ty target True r s2 = (Inr a, s3)"
    "decide_commit k ctx' ap ty' target' False r' s3 = (Inr a', s')"
proof -
  obtain ap ty target s1 where ap: "find_approval (db s) (tenant_id ctx) aid = Some ap" "ap_status ap = ''pending''"
    and d1: "db s1 = db s" and "interleave [1, 1, 1, 0, 1]
      ([decide_thread k ctx aid True r, decide_thread k ctx' aid False r']
        [0 := last_phase (decide_commit k ctx ap ty target True r)]) s1 = ([Finished (Inr a), Finished (Inr a')], s')"
    by (rule decide_to_commit [OF run]) (simp, simp, simp, erule (3) that)
  then have r1: "interleave [1, 1, 1, 0, 1]
      [last_phase (decide_commit k ctx ap ty target True r), decide_thread k ctx' aid False r'] s1 =
      ([Finished (Inr a), Finished (Inr a')], s')"
    by (simp only: list_update_code)
  obtain ap' ty' target' s2 where ap': "find_approval (db s1) (tenant_id ctx') aid = Some ap'"
    and d2: "db s2 = db s1" and "interleave [0, 1] ([last_phase (decide_commit k ctx ap ty target True r),
        decide_thread k ctx' aid False r'][1 := last_phase (decide_commit k ctx' ap' ty' target' False r')]) s2 =
        ([Finished (Inr a), Finished (Inr a')], s')"
    by (rule decide_to_commit [OF r1]) (simp, simp, simp, erule (2) that)
  then have r2: "interleave [0, 1] [last_phase (decide_commit k ctx ap ty target True r),
        last_phase (decide_commit k ctx' ap' ty' target' False r')] s2 =
        ([Finished (Inr a), Finished (Inr a')], s')"
    by (simp only: list_update_code One_nat_def)
  from ap ap' d1 t have same: "ap' = ap" by simp
  from r2 obtain s3 where 3: "decide_commit k ctx ap ty target True r s2 = (Inr a, s3)"
    "interleave [1] ([last_phase (decide_commit k ctx ap ty target True r),
        last_phase (decide_commit k ctx' ap' ty' target' False r')][0 := Finished (Inr a)]) s3 =
      ([Finished (Inr a), Finished (Inr a')], s')"
    by (rule last_turn) (simp, simp, simp, erule (1) that)
  from 3(2) have 4: "decide_commit k ctx' ap' ty' target' False r' s3 = (Inr a', s')"
    by (cases "decide_commit k ctx' ap' ty' target' False r' s3") simp
  with ap d1 d2 same 3(1) show thesis by (intro that [of ap s2 ty target s3 ty' target']) simp_all
qed

text \<open>
  C9: Two overlapping decisions on one approval. When one caller approves and another rejects, and both
  have read the approval before either has written, and both are answered with success, then both
  have found it pending; the first reply says approved and the record has been moved to the
  requested state; and the approval says that it was rejected, by the second caller. Taken one
  after the other the second would have been refused, as \<open>approval_decided_once\<close> shows.
\<close>

theorem overlapping_decisions:
  assumes run: "interleave [0, 0, 0, 1, 1, 1, 0, 1]
      [decide_thread k ctx aid True r, decide_thread k ctx' aid False r'] s =
      ([Finished (Inr a), Finished (Inr a')], s')"
    and t: "tenant_id ctx' = tenant_id ctx"
  shows "\<exists>ap ts ts'. find_approval (db s) (tenant_id ctx) aid = Some ap \<and> ap_status ap = ''pending'' \<and>
    a = decided ctx True r ts ap \<and> a' = decided ctx' False r' ts' ap \<and>
    approvals (db s') = upd_where (\<lambda>a. ap_tenant_id a = tenant_id ctx \<and> ap_id a = aid)
      (decided ctx' False r' ts') (approvals (db s)) \<and>
    records (db s') = approved_move (tenant_id ctx) ap ts (records (db s))"
proof -
  obtain ap ty target ty' target' s2 s3 where ap: "find_approval (db s) (tenant_id ctx) aid = Some ap"
    "ap_status ap = ''pending''" and d: "db s2 = db s"
    and 3: "decide_commit k ctx ap ty target True r s2 = (Inr a, s3)"
    and 4: "decide_commit k ctx' ap ty' target' False r' s3 = (Inr a', s')"
    using run t by (rule decisions_turns)
  from 3 obtain ts where c1: "a = decided ctx True r ts ap"
    "approvals (db s3) = upd_where (\<lambda>a. ap_tenant_id a = tenant_id ctx \<and> ap_id a = ap_id ap)
       (decided ctx True r ts) (approvals (db s2))"
    "records (db s3) = (if True then approved_move (tenant_id ctx) ap ts (records (db s2)) else records (db s2))"
    by (rule decide_commit_Inr)
  from 4 obtain ts' where c2: "a' = decided ctx' False r' ts' ap"
    "approvals (db s') = upd_where (\<lambda>a. ap_tenant_id a = tenant_id ctx' \<and> ap_id a = ap_id ap)
       (decided ctx' False r' ts') (approvals (db s3))"
    "records (db s') = (if False then approved_move (tenant_id ctx') ap ts' (records (db s3)) else records (db s3))"
    by (rule decide_commit_Inr)
  have "ap_id ap = aid" using find_approval_Some [OF ap(1)] by simp
  with ap c1 c2 d t show ?thesis
    by (intro exI [of _ ap] exI [of _ ts] exI [of _ ts']) (simp add: upd_where_again)
qed

text \<open>Evaluation of a schedule on the sample tenant, phase by phase.\<close>

fun both_succeed :: "('a \<Rightarrow> bool) \<Rightarrow> 'a thread list \<times> kstate \<Rightarrow> bool" where
  "both_succeed Q ([Finished (Inr a), Finished (Inr b)], s) = Q a"
| "both_succeed Q _ = False"

lemma both_succeedE:
  assumes "both_succeed Q p"
  obtains a b s' where "p = ([Finished (Inr a), Finished (Inr b)], s')" "Q a"
  using assms by (rule both_succeed.elims(2)) (simp add: that)

theorem overlapping_decisions_witness:
  "\<exists>a a' s'. interleave [0, 0, 0, 1, 1, 1, 0, 1]
       [decide_thread demo ann ''ap1'' True None, decide_thread demo ann ''ap1'' False None] demo_state =
       ([Finished (Inr a), Finished (Inr a')], s') \<and>
     ap_status a = ''approved'' \<and> ap_status a' = ''rejected'' \<and>
     map ap_status (approvals (db s')) = [''rejected''] \<and>
     map_option r_workflow_state (find_record (db s') ''acme'' ''rec2'') = Some (Some ''paid'')"
proof -
  have "both_succeed (\<lambda>_. True) (interleave [0, 0, 0, 1, 1, 1, 0, 1]
       [decide_thread demo ann ''ap1'' True None, decide_thread demo ann ''ap1'' False None] demo_state)"
    unfolding decide_thread_def authorize_thread_def check_grants_def
    by (simp add: demo_run flow_defs approval_defs cong: lazy lazy_phases)
  then obtain a a' s' where run: "interleave [0, 0, 0, 1, 1, 1, 0, 1]
       [decide_thread demo ann ''ap1'' True None, decide_thread demo ann ''ap1'' False None] demo_state =
       ([Finished (Inr a), Finished (Inr a')], s')"
    by (rule both_succeedE)
  from overlapping_decisions [OF this refl] run show ?thesis
    by (auto simp: find_approval_def find_record_def upd_where_def approved_move_def decided_def
        decision_status_def demo_approval_def demo_record_def ann_def user_ctx_def demo_user_def)
qed

section \<open>Two patches of one record\<close>

definition update_commit ::
  "kernel \<Rightarrow> auth_context \<Rightarrow> string \<Rightarrow> record_t \<Rightarrow> jmap \<Rightarrow> record_t kern" where
  "update_commit k ctx rid r data =
     bindK (now_rfc3339 k) (\<lambda>ts.
       seqK (transaction k (
         seqK (update_stmt k (set_record (tenant_id ctx) rid
                 (\<lambda>row. row\<lparr>r_data := data, r_updated_at := ts\<rparr>))) (
         seqK (audit_change k ctx ''record.update'' (Some (r_object_type r)) (Some rid)
                 (Some (JObject (r_data r))) (Some (JObject data)) (\<lambda>ev. ev))
              (emit_on k ctx ''record.updated'' (record_event (r_object_type r) rid)))))
       (retK (r\<lparr>r_data := data, r_updated_at := ts\<rparr>)))"

lemma update_commit_Inr:
  assumes "update_commit k ctx rid r data s = (Inr r', s')"
  obtains ts ev where "records (db s') = upd_where (\<lambda>x. r_tenant_id x = tenant_id ctx \<and> r_id x = rid)
      (\<lambda>row. row\<lparr>r_data := data, r_updated_at := ts\<rparr>) (records (db s))"
    "audit_logs (db s') = audit_logs (db s) @ [ev]" "a_before ev = Some (JObject (r_data r))"
    "a_after ev = Some (JObject data)" "r' = r\<lparr>r_data := data, r_updated_at := ts\<rparr>"
proof -
  let ?ts = "rfc3339 k (now_at k (tick s))"
  let ?upd = "set_record (tenant_id ctx) rid (\<lambda>row. row\<lparr>r_data := data, r_updated_at := ?ts\<rparr>)"
  from assms have tx: "transaction k (seqK (update_stmt k ?upd) (
         seqK (audit_change k ctx ''record.update'' (Some (r_object_type r)) (Some rid)
                 (Some (JObject (r_data r))) (Some (JObject data)) (\<lambda>ev. ev))
              (emit_on k ctx ''record.updated'' (record_event (r_object_type r) rid))))
         (s\<lparr>tick := Suc (tick s)\<rparr>) = (Inr (), s')"
    and r': "r' = r\<lparr>r_data := data, r_updated_at := ?ts\<rparr>"
    by (auto simp: update_commit_def bindK_Inr seqK_Inr now_rfc3339_Inr)
  from tx obtain t0 y t1 ev e where "db t0 = db (s\<lparr>tick := Suc (tick s)\<rparr>)" "update_stmt k ?upd t0 = (Inr y, t1)"
    "db s' = (log_audit ev (db t1))\<lparr>events := events (db t1) @ [e]\<rparr>"
    "a_before ev = Some (JObject (r_data r))" "a_after ev = Some (JObject data)"
    by (rule tx_audit_emit_Inr)
  with r' show thesis
    by (intro that [of ?ts ev]) (auto simp: update_stmt_Inr set_record_def log_audit_def)
qed

lemma update_to_commit:
  assumes run: "interleave (i # i # i # i # i # sched) ts s = (ts', s')"
    and th: "ts ! i = update_thread k ctx rid patch" and i: "i < length ts" and fin: "ts' ! i = Finished (Inr a)"
  obtains r ot data s1 where "find_record (db s) (tenant_id ctx) rid = Some r"
    "data = fold (\<lambda>(key, v). patch_value key v) (rp_data patch) (r_data r)" "db s1 = db s"
    "interleave sched (ts[i := phase (update_commit k ctx rid r data)
       (\<lambda>r'. last_phase (project_for_read k ctx r' ot))]) s1 = (ts', s')"
proof (rule turn [OF run th [unfolded update_thread_def Let_def update_commit_def [symmetric]] i fin],
    erule authorize_turn [OF _ nth_list_update_eq _ fin], simp add: i, simp add: i,
    (erule turn [OF _ nth_list_update_eq _ fin], simp add: i, simp add: i)+, goal_cases)
  case (1 r s1 s2 ot s3 grants s4 data s5)
  have "db s5 = db s"
    using 1 by (auto dest!: grants_for_Inr simp: require_record_Inr load_object_type_Inr
        bindK_Inr seqK_Inr write_fields_Inr)
  moreover have "data = fold (\<lambda>(key, v). patch_value key v) (rp_data patch) (r_data r)"
    using 1 by (auto simp: bindK_Inr seqK_Inr write_fields_Inr)
  moreover have "find_record (db s) (tenant_id ctx) rid = Some r"
    using 1 by (simp add: require_record_Inr)
  ultimately show ?case using 1 by (intro that [of r data s5 ot]) simp_all
qed

lemma updates_turns:
  assumes run: "interleave [0, 0, 0, 0, 0, 1, 1, 1, 1, 1, 0, 0, 1, 1]
      [update_thread k ctx rid p, update_thread k ctx' rid p'] s = ([Finished (Inr a), Finished (Inr a')], s')"
    and t: "tenant_id ctx' = tenant_id ctx"
  obtains r data s2 x s3 s4 x' s5 where "find_record (db s) (tenant_id ctx) rid = Some r" "db s2 = db s"
    "update_commit k ctx rid r data s2 = (Inr x, s3)" "db s4 = db s3"
    "update_commit k ctx' rid r (fold (\<lambda>(key, v). patch_value key v) (rp_data p') (r_data r)) s4 = (Inr x', s5)"
    "db s' = db s5"
proof -
  obtain r ot s1 data where r: "find_record (db s) (tenant_id ctx) rid = Some r" and d1: "db s1 = db s"
    and "interleave [1, 1, 1, 1, 1, 0, 0, 1, 1] ([update_thread k ctx rid p, update_thread k ctx' rid p']
      [0 := phase (update_commit k ctx rid r data) (\<lambda>x. last_phase (project_for_read k ctx x ot))]) s1 =
      ([Finished (Inr a), Finished (Inr a')], s')"
    by (rule update_to_commit [OF run]) (simp, simp, simp, erule that)
  then have r1: "interleave [1, 1, 1, 1, 1, 0, 0, 1, 1]
      [phase (update_commit k ctx rid r data) (\<lambda>x. last_phase (project_for_read k ctx x ot)),
       update_thread k ctx' rid p'] s1 = ([Finished (Inr a), Finished (Inr a')], s')"
    by (simp only: list_update_code)
  define data' where "data' = fold (\<lambda>(key, v). patch_value key v) (rp_data p') (r_data r)"
  obtain r' ot' s2 where r': "find_record (db s1) (tenant_id ctx') rid = Some r'" and d2: "db s2 = db s1"
    and "interleave [0, 0, 1, 1]
      ([phase (update_commit k ctx rid r data) (\<lambda>x. last_phase (project_for_read k ctx x ot)),
        update_thread k ctx' rid p'][1 := phase (update_commit k ctx' rid r' (fold (\<lambda>(key, v). patch_value key v)
          (rp_data p') (r_data r'))) (\<lambda>x. last_phase (project_for_read k ctx' x ot'))]) s2 =
      ([Finished (Inr a), Finished (Inr a')], s')"
    by (rule update_to_commit [OF r1]) (simp, simp, simp, use that in blast)
  moreover from r r' d1 t have same: "r' = r" by simp
  ultimately have r2: "interleave [0, 0, 1, 1]
      [phase (update_commit k ctx rid r data) (\<lambda>x. last_phase (project_for_read k ctx x ot)),
       phase (update_commit k ctx' rid r data') (\<lambda>x. last_phase (project_for_read k ctx' x ot'))] s2 =
      ([Finished (Inr a), Finished (Inr a')], s')"
    by (simp only: list_update_code One_nat_def data'_def)
  from r2 obtain x s3 where 3: "update_commit k ctx rid r data s2 = (Inr x, s3)" and
    "interleave [0, 1, 1] ([phase (update_commit k ctx rid r data) (\<lambda>x. last_phase (project_for_read k ctx x ot)),
       phase (update_commit k ctx' rid r data') (\<lambda>x. last_phase (project_for_read k ctx' x ot'))]
       [0 := last_phase (project_for_read k ctx x ot)]) s3 = ([Finished (Inr a), Finished (Inr a')], s')"
    by (rule turn) (simp, simp, simp, erule (1) that)
  then have r3: "interleave [0, 1, 1] [last_phase (project_for_read k ctx x ot),
       phase (update_commit k ctx' rid r data') (\<lambda>x. last_phase (project_for_read k ctx' x ot'))] s3 =
       ([Finished (Inr a), Finished (Inr a')], s')"
    by (simp only: list_update_code)
  from r3 obtain s4 where 4: "project_for_read k ctx x ot s3 = (Inr a, s4)" and
    "interleave [1, 1] ([last_phase (project_for_read k ctx x ot),
       phase (update_commit k ctx' rid r data') (\<lambda>x. last_phase (project_for_read k ctx' x ot'))]
       [0 := Finished (Inr a)]) s4 = ([Finished (Inr a), Finished (Inr a')], s')"
    by (rule last_turn) (simp, simp, simp, erule (1) that)
  then have r4: "interleave [1, 1] [Finished (Inr a),
       phase (update_commit k ctx' rid r data') (\<lambda>x. last_phase (project_for_read k ctx' x ot'))] s4 =
       ([Finished (Inr a), Finished (Inr a')], s')"
    by (simp only: list_update_code)
  from r4 obtain x' s5 where 5: "update_commit k ctx' rid r data' s4 = (Inr x', s5)" and
    6: "interleave [1] ([Finished (Inr a),
       phase (update_commit k ctx' rid r data') (\<lambda>x. last_phase (project_for_read k ctx' x ot'))]
       [1 := last_phase (project_for_read k ctx' x' ot')]) s5 = ([Finished (Inr a), Finished (Inr a')], s')"
    by (rule turn) (simp, simp, simp, erule (1) that)
  from 6 have "project_for_read k ctx' x' ot' s5 = (Inr a', s')"
    by (cases "project_for_read k ctx' x' ot' s5") simp
  with project_for_read_Inr 4 have d: "db s' = db s5" "db s4 = db s3" by blast+
  with r d1 d2 3 5 show thesis
    by (intro that [of r s2 data x s3 s4 x' s5]) (simp_all add: data'_def)
qed

text \<open>
  C10: Two overlapping patches of one record. When both have read the record before either has
  written, and both are answered with success, the record that is left holds the second caller's
  patch of the data both have read: nothing of the first patch remains, although its reply reported
  it stored. The audit log does not show it either: both events say that the data before the change
  were those both have read.
\<close>

theorem lost_update:
  assumes run: "interleave [0, 0, 0, 0, 0, 1, 1, 1, 1, 1, 0, 0, 1, 1]
      [update_thread k ctx rid p, update_thread k ctx' rid p'] s = ([Finished (Inr a), Finished (Inr a')], s')"
    and t: "tenant_id ctx' = tenant_id ctx"
  shows "\<exists>r ts ev ev'. find_record (db s) (tenant_id ctx) rid = Some r \<and>
    records (db s') = upd_where (\<lambda>x. r_tenant_id x = tenant_id ctx \<and> r_id x = rid)
      (\<lambda>x. x\<lparr>r_data := fold (\<lambda>(key, v). patch_value key v) (rp_data p') (r_data r), r_updated_at := ts\<rparr>)
      (records (db s)) \<and>
    audit_logs (db s') = audit_logs (db s) @ [ev, ev'] \<and>
    a_before ev = Some (JObject (r_data r)) \<and> a_before ev' = Some (JObject (r_data r))"
proof -
  define data' where "data' = fold (\<lambda>(key, v). patch_value key v) (rp_data p')"
  obtain r data s2 x s3 s4 x' s5 where r: "find_record (db s) (tenant_id ctx) rid = Some r"
    and d: "db s2 = db s" "db s4 = db s3" "db s' = db s5"
    and 3: "update_commit k ctx rid r data s2 = (Inr x, s3)"
    and 5: "update_commit k ctx' rid r (data' (r_data r)) s4 = (Inr x', s5)"
    unfolding data'_def using run t by (rule updates_turns)
  from 3 obtain ts ev where c1:
    "records (db s3) = upd_where (\<lambda>x. r_tenant_id x = tenant_id ctx \<and> r_id x = rid)
      (\<lambda>row. row\<lparr>r_data := data, r_updated_at := ts\<rparr>) (records (db s2))"
    "audit_logs (db s3) = audit_logs (db s2) @ [ev]" "a_before ev = Some (JObject (r_data r))"
    by (rule update_commit_Inr)
  from 5 obtain ts' ev' where c2:
    "records (db s5) = upd_where (\<lambda>x. r_tenant_id x = tenant_id ctx' \<and> r_id x = rid)
      (\<lambda>row. row\<lparr>r_data := data' (r_data r), r_updated_at := ts'\<rparr>) (records (db s4))"
    "audit_logs (db s5) = audit_logs (db s4) @ [ev']" "a_before ev' = Some (JObject (r_data r))"
    by (rule update_commit_Inr)
  from r c1 c2 d t show ?thesis
    by (intro exI [of _ r] exI [of _ ts'] exI [of _ ev] exI [of _ ev'])
      (simp add: upd_where_again data'_def)
qed

theorem lost_update_witness:
  "\<exists>a a' s'. interleave [0, 0, 0, 0, 0, 1, 1, 1, 1, 1, 0, 0, 1, 1]
       [update_thread demo bob ''rec1'' \<lparr>rp_data = [(''amount'', JNumber (PosInt 7))]\<rparr>,
        update_thread demo bob ''rec1'' \<lparr>rp_data = []\<rparr>] demo_state =
       ([Finished (Inr a), Finished (Inr a')], s') \<and>
     jget (r_data a) ''amount'' = Some (JNumber (PosInt 7)) \<and>
     map_option r_data (find_record (db s') ''acme'' ''rec1'') =
       Some (r_data (demo_record ''rec1'' ''bob'' ''I-1'' ''draft''))"
proof -
  let ?p = "\<lparr>rp_data = [(''amount'', JNumber (PosInt 7))]\<rparr>" and ?p' = "\<lparr>rp_data = []\<rparr> :: record_patch"
  let ?run = "interleave [0, 0, 0, 0, 0, 1, 1, 1, 1, 1, 0, 0, 1, 1]
     [update_thread demo bob ''rec1'' ?p, update_thread demo bob ''rec1'' ?p'] demo_state"
  have "both_succeed (\<lambda>a. jget (r_data a) ''amount'' = Some (JNumber (PosInt 7))) ?run"
    unfolding update_thread_def authorize_thread_def check_grants_def
    by (simp add: demo_run value_defs project_fields_def jrestrict_def field_permitted_def field_of_def
        cong: lazy lazy_phases)
  then obtain a a' s' where run: "?run = ([Finished (Inr a), Finished (Inr a')], s')"
    and a: "jget (r_data a) ''amount'' = Some (JNumber (PosInt 7))"
    by (rule both_succeedE)
  from lost_update [OF run refl] run a show ?thesis
    by (auto simp: find_record_def upd_where_def demo_record_def bob_def user_ctx_def demo_user_def)
qed

section \<open>Two first tenants\<close>

text \<open>The identifiers that the rows a bootstrap inserts must not share with rows there are.\<close>

definition used_ids :: "database \<Rightarrow> string set" where
  "used_ids d =
     tn_id ` set (tenants d) \<union> og_id ` set (organizations d) \<union> og_tenant_id ` set (organizations d) \<union>
     (role_id \<circ> ro_role) ` set (roles d) \<union> ro_tenant_id ` set (roles d) \<union> us_id ` set (users d) \<union>
     us_tenant_id ` set (users d) \<union> ra_id ` set (role_assignments d) \<union>
     ra_tenant_id ` set (role_assignments d) \<union> a_id ` set (audit_logs d)"

text \<open>A request that passes the checks of the bootstrap, with a password that can be hashed.\<close>

definition acceptable :: "kernel \<Rightarrow> bootstrap_req \<Rightarrow> bool" where
  "acceptable k req \<longleftrightarrow>
     validate_slug (to_lowercase (trim (bq_slug req))) = Inr () \<and>
     validate_email (normalize_email (bq_admin_email req)) = Inr () \<and>
     validate_password_strength (bq_admin_password req) = Inr () \<and>
     (\<forall>n. \<exists>h. argon2_hash k n (bq_admin_password req) = Inr h)"

lemma used_idsD:
  assumes "uuid \<notin> used_ids d"
  shows "uuid \<notin> tn_id ` set (tenants d)" "uuid \<notin> og_id ` set (organizations d)"
    "(uuid, x) \<notin> (\<lambda>r. (og_tenant_id r, og_slug r)) ` set (organizations d)"
    "uuid \<notin> (\<lambda>r. role_id (ro_role r)) ` set (roles d)"
    "(uuid, x) \<notin> (\<lambda>r. (ro_tenant_id r, role_key (ro_role r))) ` set (roles d)"
    "uuid \<notin> us_id ` set (users d)" "(uuid, x) \<notin> (\<lambda>r. (us_tenant_id r, us_email r)) ` set (users d)"
    "uuid \<notin> ra_id ` set (role_assignments d)"
    "(uuid, y) \<notin> (\<lambda>r. (ra_tenant_id r, ra_principal_id r, ra_role_key r)) ` set (role_assignments d)" "uuid \<notin> a_id ` set (audit_logs d)"
  using assms by (auto simp: used_ids_def image_iff)

lemma run_reliable:
  assumes "reliable k"
  shows "stmt k p s = (case p (db s) of Inl se \<Rightarrow> (Inl (map_db_err se), s\<lparr>tick := Suc (tick s)\<rparr>)
      | Inr (x, d) \<Rightarrow> (Inr x, s\<lparr>tick := Suc (tick s), db := d\<rparr>))"
    "transaction k body s = (case body (s\<lparr>tick := Suc (tick s)\<rparr>) of (r, s1) \<Rightarrow>
       case r of Inl e \<Rightarrow> (Inl e, s1\<lparr>db := db s\<rparr>) | Inr x \<Rightarrow> (Inr x, s1\<lparr>tick := Suc (tick s1)\<rparr>))"
proof -
  show 1: "stmt k p s = (case p (db s) of Inl se \<Rightarrow> (Inl (map_db_err se), s\<lparr>tick := Suc (tick s)\<rparr>)
      | Inr (x, d) \<Rightarrow> (Inr x, s\<lparr>tick := Suc (tick s), db := d\<rparr>))" for p :: "database \<Rightarrow> sql_error + 'a \<times> database" and s
    using assms by (auto simp: run_stmt split: sum.splits)
  show "transaction k body s = (case body (s\<lparr>tick := Suc (tick s)\<rparr>) of (r, s1) \<Rightarrow>
       case r of Inl e \<Rightarrow> (Inl e, s1\<lparr>db := db s\<rparr>) | Inr x \<Rightarrow> (Inr x, s1\<lparr>tick := Suc (tick s1)\<rparr>))"
    using assms by (auto simp: transaction_def Let_def run_control run_stmt run_simps split: prod.splits sum.splits)
qed

lemma bootstrap_run:
  assumes k: "reliable k" "inj (uuid_at k)"
    and slug: "validate_slug (to_lowercase (trim slug0)) = Inr ()" "to_lowercase (trim slug0) \<notin> tn_slug ` set (tenants d)"
    and email: "validate_email (normalize_email email0) = Inr ()" and pw: "validate_password_strength pw = Inr ()"
    "argon2_hash k (n + 5) pw = Inr hash"
    and fresh: "\<And>m. n \<le> m \<Longrightarrow> uuid_at k m \<notin> used_ids d"
  shows "\<exists>d' res. bootstrap_tenant k name slug0 email0 admin pw \<lparr>db = d, limiter = l, tick = n\<rparr> =
      (Inr res, \<lparr>db = d', limiter = l, tick = n + 20\<rparr>) \<and>
    tenants d' = tenants d @ [bs_tenant res] \<and> tn_slug (bs_tenant res) = to_lowercase (trim slug0) \<and>
    used_ids d' \<subseteq> used_ids d \<union> uuid_at k ` {n..<n + 20}"
proof -
  have eq: "uuid_at k a = uuid_at k b \<longleftrightarrow> a = b" for a b using k(2) by (simp add: inj_eq)
  have h: "argon2_hash k (Suc (Suc (Suc (Suc (Suc n))))) pw = Inr hash" using pw(2) by (simp add: eval_nat_numeral)
  note ids = used_idsD [OF fresh]
  show ?thesis
    by (simp add: bootstrap_tenant_def Let_def slug(1) email pw h hash_password_def run_simps(1-8) run_simps(13,14)
        run_control run_reliable [OF k(1)] provision_def system_roles_def insert_tenant_def insert_organization_def
        insert_system_role_def insert_role_def insert_user_def new_assignment_def insert_assignment_def
        first_tenant_def default_org_def first_admin_def system_ctx_def assignment_key_def write_defs
        ids slug(2) eq eval_nat_numeral cong: lazy)
      (auto simp: used_ids_def)
qed

lemma bootstrap_succeeds:
  assumes "reliable k" "inj (uuid_at k)" "acceptable k req"
    and "to_lowercase (trim (bq_slug req)) \<notin> tn_slug ` set (tenants (db s))"
    and "\<And>m. tick s \<le> m \<Longrightarrow> uuid_at k m \<notin> used_ids (db s)"
  obtains res s' where "bootstrap_tenant k (bq_name req) (bq_slug req) (bq_admin_email req)
      (bq_admin_name req) (bq_admin_password req) s = (Inr res, s')"
    "tenants (db s') = tenants (db s) @ [bs_tenant res]"
    "tn_slug (bs_tenant res) = to_lowercase (trim (bq_slug req))"
    "\<And>m. tick s' \<le> m \<Longrightarrow> uuid_at k m \<notin> used_ids (db s')"
proof -
  obtain d l n where s: "s = \<lparr>db = d, limiter = l, tick = n\<rparr>" by (cases s) simp
  obtain hash where "argon2_hash k (n + 5) (bq_admin_password req) = Inr hash"
    using assms(3) by (auto simp: acceptable_def)
  then obtain d' res where run: "bootstrap_tenant k (bq_name req) (bq_slug req) (bq_admin_email req)
      (bq_admin_name req) (bq_admin_password req) s = (Inr res, \<lparr>db = d', limiter = l, tick = n + 20\<rparr>)"
    and d': "tenants d' = tenants d @ [bs_tenant res]" "tn_slug (bs_tenant res) = to_lowercase (trim (bq_slug req))"
    "used_ids d' \<subseteq> used_ids d \<union> uuid_at k ` {n..<n + 20}"
    using bootstrap_run [OF assms(1,2), of "bq_slug req" d "bq_admin_email req" "bq_admin_password req" n hash
        "bq_name req" "bq_admin_name req" l] assms(3-5) by (auto simp: acceptable_def s)
  have "uuid_at k m \<notin> used_ids d'" if "n + 20 \<le> m" for m
  proof -
    have "uuid_at k m \<notin> uuid_at k ` {n..<n + 20}"
      using that assms(2) by (simp add: inj_image_mem_iff)
    with d'(3) assms(5) [of m] that show ?thesis by (auto simp: s)
  qed
  then show thesis
    using run d' by (intro that [of res "\<lparr>db = d', limiter = l, tick = n + 20\<rparr>"]) (auto simp: s)
qed

text \<open>The two orders, evaluated up to the transactions.\<close>

abbreviation bootstrap_of :: "kernel \<Rightarrow> bootstrap_req \<Rightarrow> bootstrap_result kern" where
  "bootstrap_of k req \<equiv> bootstrap_tenant k (bq_name req) (bq_slug req) (bq_admin_email req)
     (bq_admin_name req) (bq_admin_password req)"

lemma bootstraps_turns:
  assumes "reliable (st_kernel app)" "tenants (db s) = []" "bearer h' = None"
    and first: "bootstrap_of (st_kernel app) req (s\<lparr>tick := tick s + 2\<rparr>) = (Inr a, s1)"
    and second: "bootstrap_of (st_kernel app) req' s1 = (Inr a', s2)"
    and sole: "bootstrap_of (st_kernel app) req (s\<lparr>tick := tick s + 1\<rparr>) = (Inr b, s3)" "tenants (db s3) \<noteq> []"
  shows "interleave [0, 1, 0, 1, 0, 1] [bootstrap_thread app h req, bootstrap_thread app h' req'] s =
      ([Finished (Inr a), Finished (Inr a')], s2)"
    "\<exists>s4. tenants (db s4) = tenants (db s3) \<and> interleave [0, 0, 0, 1, 1, 1] [bootstrap_thread app h req, bootstrap_thread app h' req'] s =
      ([Finished (Inr b), Finished (Inl (unauthorized ''missing bearer token''))], s4)"
proof -
  have te: "tenants_exist (st_kernel app) s = (Inr (tenants (db s) \<noteq> []), s\<lparr>tick := tick s + 1\<rparr>)" for s
    using assms(1) by (simp add: tenants_exist_def run_stmt)
  show "interleave [0, 1, 0, 1, 0, 1] [bootstrap_thread app h req, bootstrap_thread app h' req'] s =
      ([Finished (Inr a), Finished (Inr a')], s2)"
    using first second assms(2) by (simp add: bootstrap_thread_def te retK_def)
  show "\<exists>s4. tenants (db s4) = tenants (db s3) \<and> interleave [0, 0, 0, 1, 1, 1] [bootstrap_thread app h req, bootstrap_thread app h' req'] s =
      ([Finished (Inr b), Finished (Inl (unauthorized ''missing bearer token''))], s4)"
    using sole assms(2,3) by (simp add: bootstrap_thread_def te retK_def bindK_def someK_def failK_def)
qed

lemma isolated_role_keys:
  assumes "isolated t' d d'" "t \<noteq> t'"
  shows "role_keys_of d' t p = role_keys_of d t p"
proof -
  have "role_keys_of d t p = map ra_role_key (filter (\<lambda>x. ra_tenant_id x = t \<and> ra_principal_id x = p)
      (others ra_tenant_id t' (role_assignments d)))" for d
    using assms(2) by (auto simp: role_keys_of_def others_def intro!: arg_cong [of _ _ "map ra_role_key"] filter_cong)
  with assms(1) show ?thesis by (simp add: isolated_def)
qed

text \<open>
  C11: Two overlapping bootstraps of an empty installation, neither with a credential. Let both ask
  for a tenant with a valid slug, the slugs differing, and give a valid email and password; let the
  storage be reliable and the identifiers be distinct. If both ask whether there are tenants before
  either has provisioned one, both succeed: the installation has two tenants, each with an
  administrator of its own. If the second starts when the first is done it is refused for its
  missing token, as every bootstrap but the first is meant to be.
\<close>

theorem two_first_tenants:
  assumes "reliable (st_kernel app)" "inj (uuid_at (st_kernel app))" "db s = empty_db"
    and "acceptable (st_kernel app) req" "acceptable (st_kernel app) req'"
    and "to_lowercase (trim (bq_slug req)) \<noteq> to_lowercase (trim (bq_slug req'))"
    and "bearer h = None" "bearer h' = None"
  shows "(\<exists>a a' s'. interleave [0, 1, 0, 1, 0, 1] [bootstrap_thread app h req, bootstrap_thread app h' req'] s =
        ([Finished (Inr a), Finished (Inr a')], s') \<and>
      tenants (db s') = [bs_tenant a, bs_tenant a'] \<and> tn_id (bs_tenant a) \<noteq> tn_id (bs_tenant a') \<and>
      ''tenant_admin'' \<in> set (role_keys_of (db s') (tn_id (bs_tenant a)) (bs_admin_user_id a)) \<and>
      ''tenant_admin'' \<in> set (role_keys_of (db s') (tn_id (bs_tenant a')) (bs_admin_user_id a'))) \<and>
    (\<exists>b s'. interleave [0, 0, 0, 1, 1, 1] [bootstrap_thread app h req, bootstrap_thread app h' req'] s =
        ([Finished (Inr b), Finished (Inl (unauthorized ''missing bearer token''))], s') \<and>
      tenants (db s') = [bs_tenant b])"
proof -
  let ?k = "st_kernel app" and ?s = "\<lambda>n. s\<lparr>tick := tick s + n\<rparr>"
  have e: "uuid_at ?k m \<notin> used_ids (db (?s n))" "tenants (db (?s n)) = []" "tenants (db s) = []" for m n
    using assms(3) by (simp_all add: used_ids_def empty_db_def)
  obtain a s1 where 1: "bootstrap_of ?k req (?s 2) = (Inr a, s1)" "tenants (db s1) = tenants (db (?s 2)) @ [bs_tenant a]"
    "tn_slug (bs_tenant a) = to_lowercase (trim (bq_slug req))" "\<And>m. tick s1 \<le> m \<Longrightarrow> uuid_at ?k m \<notin> used_ids (db s1)"
    by (rule bootstrap_succeeds [OF assms(1,2,4), of "?s 2"]) (use e in simp_all)
  obtain a' s2 where 2: "bootstrap_of ?k req' s1 = (Inr a', s2)" "tenants (db s2) = tenants (db s1) @ [bs_tenant a']"
    by (rule bootstrap_succeeds [OF assms(1,2,5), of s1]) (use 1 e assms(6) in simp_all)
  obtain b s3 where 3: "bootstrap_of ?k req (?s 1) = (Inr b, s3)" "tenants (db s3) = tenants (db (?s 1)) @ [bs_tenant b]"
    by (rule bootstrap_succeeds [OF assms(1,2,4), of "?s 1"]) (use e in simp_all)
  note turns = bootstraps_turns [OF assms(1) e(3) assms(8) 1(1) 2(1) 3(1)]
  have a: "''tenant_admin'' \<in> set (role_keys_of (db s1) (tn_id (bs_tenant a)) (bs_admin_user_id a))"
    using 1(1) by (rule bootstrap_tenant_Inr) simp
  have a': "tn_id (bs_tenant a') \<notin> tn_id ` set (tenants (db s1))"
    "''tenant_admin'' \<in> set (role_keys_of (db s2) (tn_id (bs_tenant a')) (bs_admin_user_id a'))"
    "isolated (tn_id (bs_tenant a')) (db s1) (db s2)"
    using 2(1) by (rule bootstrap_tenant_Inr; simp)+
  from a'(1) 1(2) have ne: "tn_id (bs_tenant a) \<noteq> tn_id (bs_tenant a')" by auto
  have "tenants (db s3) \<noteq> []" using 3(2) by simp
  with turns(2) obtain s4 where "tenants (db s4) = tenants (db s3)" "interleave [0, 0, 0, 1, 1, 1] [bootstrap_thread app h req, bootstrap_thread app h' req'] s =
      ([Finished (Inr b), Finished (Inl (unauthorized ''missing bearer token''))], s4)" by blast
  with turns(1) a a'(2) ne isolated_role_keys [OF a'(3) ne] 1(2) 2(2) 3(2) e show ?thesis
    by auto
qed

definition acme_bootstrap :: bootstrap_req where
  "acme_bootstrap = \<lparr>bq_name = ''Acme'', bq_slug = ''acme'', bq_admin_email = ''a@acme.io'',
     bq_admin_name = ''Ann'', bq_admin_password = ''correct horse''\<rparr>"

definition globex_bootstrap :: bootstrap_req where
  "globex_bootstrap = \<lparr>bq_name = ''Globex'', bq_slug = ''globex'', bq_admin_email = ''e@globex.io'',
     bq_admin_name = ''Eve'', bq_admin_password = ''staple battery''\<rparr>"

lemma acceptable_demo: "acceptable demo acme_bootstrap" "acceptable demo globex_bootstrap"
proof -
  have "validate_slug (to_lowercase (trim ''acme'')) = Inr ()" "validate_email (normalize_email ''a@acme.io'') = Inr ()"
    "validate_password_strength ''correct horse'' = Inr ()"
    "validate_slug (to_lowercase (trim ''globex'')) = Inr ()" "validate_email (normalize_email ''e@globex.io'') = Inr ()"
    "validate_password_strength ''staple battery'' = Inr ()"
    by code_simp+
  then show "acceptable demo acme_bootstrap" "acceptable demo globex_bootstrap"
    by (simp_all add: acceptable_def acme_bootstrap_def globex_bootstrap_def)
qed

theorem two_first_tenants_witness:
  "\<exists>a a' s'. interleave [0, 1, 0, 1, 0, 1] [bootstrap_thread demo_app no_headers acme_bootstrap,
       bootstrap_thread demo_app no_headers globex_bootstrap] empty_state = ([Finished (Inr a), Finished (Inr a')], s') \<and>
     tenants (db s') = [bs_tenant a, bs_tenant a']"
proof -
  have "inj (uuid_at demo)"
    by (rule injI) (auto dest: arg_cong [where f = digits_value] simp: digits_value_show_nat)
  moreover have "to_lowercase (trim (bq_slug acme_bootstrap)) \<noteq> to_lowercase (trim (bq_slug globex_bootstrap))"
    by code_simp
  ultimately show ?thesis
    using two_first_tenants [of demo_app empty_state acme_bootstrap globex_bootstrap no_headers no_headers]
      acceptable_demo by (auto simp: empty_state_def)
qed

end
