(* ===== verification/Spec2Isabelle.thy ===== *)
theory Spec2Isabelle
  imports AccessControl RecordIntegrity WorkflowSafety Sessions AiSafety Guarantees Routes Crypto
    BusinessModules LimiterSpec MigrationSafety Confidentiality Startup
    Publishing Reporting SchemaSafety Races
begin

text \<open>
  LatentDB is a multi-tenant object database: tenants define object types and workflows as
  metadata, keep records of those types, move them through workflows with approvals, query and
  report on them, and may let AI agents do the same under the caller's permissions. The program is
  a Rust workspace, \<open>src/crates\<close>: \<open>contracts\<close> (the data), \<open>kernel\<close> (the services over an SQLite
  store), \<open>api\<close> (the HTTP server), \<open>ai\<close> (agents), \<open>accel\<close> (vector kernels) and \<open>modules\<close> (business
  metadata). This library models it and states what makes it correct.

  \<^bold>\<open>How the program is represented.\<close> A structure is a \<open>record\<close>, an enumeration a \<open>datatype\<close>. Strings
  are lists of bytes. A JSON value is the datatype \<open>json\<close>; an object is a list of members with
  ascending keys, as the \<open>BTreeMap\<close> behind it keeps them. Integers that can overflow are words
  (\<open>i64\<close> page offsets, \<open>u32\<close> counters, \<open>u8\<close> levels); an \<open>f64\<close> of analytics and of retrieval scores is
  a rational rounded after each operation to 53 bits (theory \<open>Floats\<close>); the vector
  kernels are over the reals. The store is a record with one list of typed rows for each table
  (\<open>database\<close>, theory \<open>Rows\<close>), in insertion order. A kernel service is a function on
  \<open>kstate\<close>: the database, the login limiter and a counter \<open>tick\<close> of what the run has asked the
  outside world; it returns an \<open>api_error\<close> or a value, and the new state (theory \<open>Store\<close>:
  \<open>bindK\<close>, \<open>seqK\<close>, \<open>forK\<close>, \<open>transaction\<close> and so on). The record \<open>kernel\<close> holds what the code takes
  from outside: UUIDs, clocks and random bytes by tick, the environment, SHA-256, Argon2, RFC 3339
  formatting and parsing, JSON text, and \<open>db_fault\<close>, which says of each statement whether the
  storage fails; a statement that fails does nothing, and a transaction that ends in an error
  restores the database it started from. Nothing is assumed of these functions except where a
  theorem says so: \<open>reliable\<close> means that no statement fails, and some theorems ask that identifiers
  do not repeat. The unique constraints and foreign keys of the schema are part of the insert they
  guard.

  \<^bold>\<open>Theories and code.\<close>
  \<^item> \<open>Prelude\<close>, \<open>Json\<close>, \<open>Floats\<close>: lists, strings, collections of hints; \<open>serde_json\<close> values; rounding.
  \<^item> \<open>Contracts\<close>, \<open>Schema\<close>, \<open>Rows\<close>: \<open>contracts/src\<close>, the row types and the builder's and migration's data.
  \<^item> \<open>Store\<close>, \<open>Frames\<close>: \<open>kernel/src/store.rs\<close> and \<open>lib.rs\<close>; the locales \<open>db_frame\<close> and \<open>denial_frame\<close>
    and the frame rules from which every service inherits what it keeps.
  \<^item> \<open>DbSchema\<close>: the SQL schema of \<open>store.rs\<close> as data, its migration, and what SQLite does under it
    with an insert, an upsert and an update. \<open>RowCoding\<close>: the columns that each \<open>INSERT\<close> binds and the
    \<open>row_to_..\<close> functions that decode a row. \<open>SchemaConformance\<close>: the database of the model as a file
    (\<open>stored\<close>), and every statement of the model as what the engine does with the file.
    \<open>SchemaSafety\<close>: reachable files meet the schema.
  \<^item> \<open>AuditLog\<close> (\<open>audit.rs\<close>, \<open>event.rs\<close>), \<open>Rbac\<close> (\<open>rbac.rs\<close>), \<open>ObjectTypes\<close> (\<open>object.rs\<close>), \<open>Workflows\<close>
    (\<open>workflow.rs\<close>), \<open>Records\<close> with \<open>RecordFacts\<close> (\<open>record.rs\<close>), \<open>Tasks\<close> (\<open>task.rs\<close>), \<open>Approvals\<close>
    (\<open>approval.rs\<close>), \<open>Transitions\<close> (\<open>transition.rs\<close>), \<open>Usage\<close> (\<open>usage.rs\<close>), \<open>Identity\<close> (\<open>identity.rs\<close>),
    \<open>Tenants\<close> (\<open>tenant.rs\<close>), \<open>Crypto\<close> (\<open>crypto.rs\<close>), \<open>RateLimit\<close> with \<open>LimiterSpec\<close> (\<open>ratelimit.rs\<close>),
    \<open>Auth\<close> (\<open>auth.rs\<close>), \<open>Analytics\<close> with \<open>Reporting\<close> (\<open>analytics.rs\<close>), \<open>Templates\<close>, \<open>Builder\<close> with
    \<open>BuilderFacts\<close> and \<open>Publishing\<close>
    (\<open>builder.rs\<close>), \<open>Migration\<close> with \<open>MigrationSafety\<close> (\<open>migration.rs\<close>): one definition for each
    function of the file, under its name.
  \<^item> \<open>Providers\<close>, \<open>Retrieval\<close>, \<open>Agents\<close>, \<open>Actions\<close>: \<open>ai/src\<close>. \<open>Accel\<close>: \<open>accel/src\<close>.
  \<^item> \<open>Handlers\<close> (one definition for each handler, the credential extractor and the header
    middleware), \<open>Api\<close> (requests, replies, the dispatch \<open>serve\<close> and the status of an error) and
    \<open>Routes\<close> (the routing table): \<open>api/src/app.rs\<close>, \<open>auth.rs\<close>, \<open>error.rs\<close>.
  \<^item> \<open>Startup\<close>: what the server takes from its environment (\<open>kernel/src/store.rs\<close>, \<open>ai/src/lib.rs\<close>,
    \<open>api/src/lib.rs\<close>, \<open>cors_layer\<close> of \<open>app.rs\<close>).
  \<^item> \<open>ModuleCatalog\<close> with \<open>Installation\<close>: \<open>modules/src\<close>.
  \<^item> \<open>System\<close>: the server as an inductive step relation: a request, answered by \<open>serve\<close>, or a round of
    the housekeeping that \<open>api/src/lib.rs\<close> starts. \<open>Sample\<close>: a tenant to evaluate services on.
  \<^item> \<open>Interleaving\<close> with \<open>Races\<close>: requests as threads of phases, one for each statement that reads, each
    transaction and each denial that is logged, and the schedules that run them. The requests on
    records, relations, transitions, tasks, approvals and the audit log are cut, and the bootstrap;
    the overlap of the other requests (accounts, object types and workflows, drafts, migration,
    reports, agents, sign-in) is not modelled.

  \<^bold>\<open>What is shown.\<close>
  \<^item> \<open>Guarantees\<close> composes everything over \<open>serve\<close> and \<open>step\<close>: a request changes only rows of the tenant
    of its credential; every change to business data is accompanied by an audit event; the log
    only grows and decided approvals stay decided; the well-formedness \<open>db_inv\<close> (unique keys;
    known tenants in every table with a foreign key to them, which the audit log, the event outbox
    and the usage counters lack; valid definitions; nobody a platform administrator) holds in every
    reachable state; without a live credential nothing but the public endpoints answers. The proofs go
    through the locale \<open>service_frame\<close> (theory \<open>Services\<close>), the interface of all writing
    operations, interpreted once for each relation that is preserved.
  \<^item> \<open>Blindness\<close> defines when two databases look the same to a tenant (\<open>same_view\<close>) and when a kernel
    program is blind to other tenants, with one rule for each combinator and kind of statement;
    \<open>BlindServices\<close> shows every service blind and \<open>Confidentiality\<close> every handler and \<open>serve\<close> itself,
    authentication included: a reply depends on the rows of the tenant of the credential only.
  \<^item> \<open>SchemaConformance\<close>: each statement of the model is refused, skipped or carried out exactly when
    the schema says so and leaves the file the engine leaves. \<open>RowCoding\<close>: what is stored is read back,
    and what is read when a JSON column does not parse. \<open>SchemaSafety\<close>: the file of every reachable
    state has rows of the declared types, no forbidden nulls, no duplicate keys and no dangling
    references, and migrating it again changes nothing.
  \<^item> \<open>Interleaving\<close>: a thread that is left alone is the handler; under every schedule of the requests
    that are cut, the invariant of the database, the completeness of the log and the separation of
    tenants hold. \<open>Races\<close>: what does not hold under every schedule, because it rests on what was read
    before the transaction: that an approval is decided once, that a stored patch stays, that one
    tenant is provisioned without a credential.
  \<^item> \<open>AccessControl\<close>: the decision is exactly its specification \<open>allowed\<close>; reads and listings are
    projected to what the caller may see. \<open>RecordIntegrity\<close>: which data are accepted (the
    documented ones, and for dates more than those), what creating and updating store, and that
    failures store nothing. \<open>WorkflowSafety\<close>: transitions follow the workflow, approvals are
    decided once and with effect. \<open>Sessions\<close>: login, lock-out, authentication, logout.
    \<open>LimiterSpec\<close>: the limiter refines a history of failures. \<open>AiSafety\<close>: agents cite only what the
    caller may read, gated actions need approval, previews show what an update would do.
    \<open>Accel\<close>: the choice of a backend does not change a search. \<open>Publishing\<close>: a published draft was
    valid and is installed. \<open>Reporting\<close>: a report is the aggregate of what its reader may see.
    \<open>MigrationSafety\<close>: nothing is migrated and plans account for everything. \<open>BusinessModules\<close>: the
    installation of the catalogue completes, its roles keep their boundaries.
  \<^item> \<open>Invariants\<close> holds the invariant \<open>db_inv\<close> and its preservation; each component theory holds the
    inversion and run lemmas (\<open>.._Inr\<close>, \<open>.._run\<close>) of its operations and their frames.

  \<^bold>\<open>Bounds.\<close> All loops of the program run over finite lists, so the definitions are total and need
  no fuel. The scan limit of listings (5000), page sizes, password lengths, lock-out numbers and
  token lengths are the code's.

  \<^bold>\<open>Not modelled.\<close> The HTTP library (parsing of requests, path matching, the CORS protocol, body limits), \<open>serde\<close>
  decoding of request bodies and its JSON text (in \<open>RowCoding\<close> a pair of functions, \<open>codec\<close>, for each
  type that is stored), the SQL text of queries, indexes that are not unique, SQLite's conversion of
  values to a column's affinity, and the connection pool (each statement is one atomic
  function of the database; where requests overlap, theory \<open>Interleaving\<close>, a transaction runs
  undisturbed, waiting for a connection or for the write lock is left to the schedule, and the
  statement that fails when the busy timeout is over is a fault of the storage), the rounding of \<open>f32\<close> in the vector kernels, the listening socket and signals (\<open>main.rs\<close>), tracing,
  the user interface, and the exchange with a language model server, which is the parameter
  \<open>en_post\<close> of a provider.
\<close>

end
